(* ===== verification/Factory_Prelude.thy ===== *)
theory Factory_Prelude
  imports Complex_Main "HOL-Library.AList" "HOL-Library.Sublist" "HOL-Library.Multiset"
    "HOL-Library.Countable"
begin

text \<open>
  The prelude of the development: the fragment of Python that the services are written in.

  \<^item> \<open>pyval\<close> is a Python value as it comes out of JSON (what the sources type as \<open>Any\<close>
    and test with \<open>isinstance\<close>), with truthiness, \<open>or\<close>, \<open>str\<close>, \<open>repr\<close> and \<open>int\<close>;
  \<^item> a Python dict is an association list in insertion order; \<open>d[k] = v\<close> is the library's
    \<open>AList.update\<close> (it overwrites in place, or appends a new key at the end);
  \<^item> a Python string is a \<open>string\<close> of code points below 256. Case mapping is the one of ASCII
    text: the code points above 127 are left alone;
  \<^item> an exception is the left side of a sum, \<open>'a res\<close>.

  A float carries its value and the text \<open>float.__repr__\<close> prints for it. NaN and the infinities
  are not JSON and not modelled.
\<close>

section \<open>Collections of facts\<close>

named_theorems py_simps \<open>unfolding rules of the Python layer\<close>

named_theorems dict_simps \<open>what a dictionary returns after an update\<close>

section \<open>Values\<close>

type_synonym 'v dict = "(string \<times> 'v) list"

datatype pyval =
    PNone
  | PBool bool
  | PInt int
  | PFloat rat string
  | PStr string
  | PList "pyval list"
  | PDict "(string \<times> pyval) list"

type_synonym pydict = "pyval dict"

text \<open>JSON documents are countable: a numbering of them serves as a JSON text in the witnesses.\<close>

instance pyval :: countable
  by countable_datatype

fun truthy :: "pyval \<Rightarrow> bool" where
  "truthy PNone = False"
| "truthy (PBool b) = b"
| "truthy (PInt i) = (i \<noteq> 0)"
| "truthy (PFloat r _) = (r \<noteq> 0)"
| "truthy (PStr s) = (s \<noteq> [])"
| "truthy (PList xs) = (xs \<noteq> [])"
| "truthy (PDict d) = (d \<noteq> [])"

definition py_or :: "pyval \<Rightarrow> pyval \<Rightarrow> pyval" where
  "py_or a b = (if truthy a then a else b)"

fun is_str :: "pyval \<Rightarrow> bool" where
  "is_str (PStr _) = True"
| "is_str _ = False"

fun is_dict :: "pyval \<Rightarrow> bool" where
  "is_dict (PDict _) = True"
| "is_dict _ = False"

fun is_list :: "pyval \<Rightarrow> bool" where
  "is_list (PList _) = True"
| "is_list _ = False"

fun str_of :: "pyval \<Rightarrow> string" where
  "str_of (PStr s) = s"
| "str_of _ = []"

text \<open>\<open>value if isinstance(value, dict) else {}\<close>, and the same for lists.\<close>

fun dict_or_empty :: "pyval \<Rightarrow> pydict" where
  "dict_or_empty (PDict d) = d"
| "dict_or_empty _ = []"

fun list_or_empty :: "pyval \<Rightarrow> pyval list" where
  "list_or_empty (PList xs) = xs"
| "list_or_empty _ = []"

lemma dict_or_empty_not_dict: "\<not> is_dict v \<Longrightarrow> dict_or_empty v = []"
  by (cases v) auto

section \<open>Dictionaries\<close>

text \<open>\<open>d.get(k)\<close>, \<open>d.get(k, v)\<close>, \<open>d[k] = v\<close> and \<open>d.pop(k, None)\<close>.\<close>

definition dget :: "pydict \<Rightarrow> string \<Rightarrow> pyval" where
  "dget d k = (case map_of d k of None \<Rightarrow> PNone | Some v \<Rightarrow> v)"

definition dget_or :: "pydict \<Rightarrow> string \<Rightarrow> pyval \<Rightarrow> pyval" where
  "dget_or d k v0 = (case map_of d k of None \<Rightarrow> v0 | Some v \<Rightarrow> v)"

definition dset :: "string \<Rightarrow> 'v \<Rightarrow> 'v dict \<Rightarrow> 'v dict" where
  "dset k v d = AList.update k v d"

definition ddel :: "string \<Rightarrow> 'v dict \<Rightarrow> 'v dict" where
  "ddel k d = AList.delete k d"

definition dhas :: "'v dict \<Rightarrow> string \<Rightarrow> bool" where
  "dhas d k = (map_of d k \<noteq> None)"

definition dkeys :: "'v dict \<Rightarrow> string list" where
  "dkeys d = map fst d"

lemma map_of_dset [dict_simps, simp]: "map_of (dset k v d) = (map_of d)(k \<mapsto> v)"
  by (simp add: dset_def update_conv')

lemma map_of_ddel [dict_simps, simp]: "map_of (ddel k d) = (map_of d)(k := None)"
  by (simp add: ddel_def delete_conv')

lemma dget_dset [dict_simps, simp]: "dget (dset k v d) k' = (if k' = k then v else dget d k')"
  by (simp add: dget_def)

lemma dget_or_dset [dict_simps, simp]:
  "dget_or (dset k v d) k' v0 = (if k' = k then v else dget_or d k' v0)"
  by (simp add: dget_or_def)

lemma dget_ddel [dict_simps, simp]: "dget (ddel k d) k' = (if k' = k then PNone else dget d k')"
  by (simp add: dget_def)

lemma dhas_dset [dict_simps, simp]: "dhas (dset k v d) k' \<longleftrightarrow> k' = k \<or> dhas d k'"
  by (simp add: dhas_def)

lemma dhas_ddel [dict_simps, simp]: "dhas (ddel k d) k' \<longleftrightarrow> k' \<noteq> k \<and> dhas d k'"
  by (simp add: dhas_def)

lemma dhas_iff: "dhas d k \<longleftrightarrow> k \<in> set (dkeys d)"
  by (simp add: dhas_def dkeys_def map_of_eq_None_iff)

lemma dget_Nil [simp]: "dget [] k = PNone"
  by (simp add: dget_def)

lemma dget_absent: "\<not> dhas d k \<Longrightarrow> dget d k = PNone"
  by (simp add: dhas_def dget_def)

lemma truthy_dget_has: "truthy (dget d k) \<Longrightarrow> dhas d k"
  by (auto simp: dhas_def dget_def split: option.splits)

lemma distinct_dkeys_dset [simp]: "distinct (dkeys d) \<Longrightarrow> distinct (dkeys (dset k v d))"
  by (simp add: dkeys_def dset_def distinct_update)

lemma distinct_dkeys_ddel [simp]: "distinct (dkeys d) \<Longrightarrow> distinct (dkeys (ddel k d))"
  by (simp add: dkeys_def ddel_def distinct_delete)

lemma dkeys_dset: "dkeys (dset k v d) = (if dhas d k then dkeys d else dkeys d @ [k])"
  unfolding dkeys_def dset_def dhas_def by (induction d) auto

lemma dset_not_Nil [simp]: "dset k v d \<noteq> []"
  unfolding dset_def by (cases d) auto

lemma dset_same: "map_of d k = Some v \<Longrightarrow> dset k v d = d"
  unfolding dset_def by (induction d) (auto split: if_splits)

lemma ddel_absent: "\<not> dhas d k \<Longrightarrow> ddel k d = d"
  by (simp add: ddel_def dhas_iff dkeys_def delete_idem)

lemma dset_dset [simp]: "dset k v (dset k w d) = dset k v d"
  unfolding dset_def by (induction d) auto

section \<open>Strings\<close>

definition is_space :: "char \<Rightarrow> bool" where
  "is_space c = (let n = of_char c :: nat
     in (9 \<le> n \<and> n \<le> 13) \<or> (28 \<le> n \<and> n \<le> 32) \<or> n = 133 \<or> n = 160)"

definition is_digit :: "char \<Rightarrow> bool" where
  "is_digit c = (let n = of_char c :: nat in 48 \<le> n \<and> n \<le> 57)"

definition is_upper_char :: "char \<Rightarrow> bool" where
  "is_upper_char c = (let n = of_char c :: nat in 65 \<le> n \<and> n \<le> 90)"

definition is_lower_char :: "char \<Rightarrow> bool" where
  "is_lower_char c = (let n = of_char c :: nat in 97 \<le> n \<and> n \<le> 122)"

definition up_char :: "char \<Rightarrow> char" where
  "up_char c = (if is_lower_char c then char_of (of_char c - 32 :: nat) else c)"

definition low_char :: "char \<Rightarrow> char" where
  "low_char c = (if is_upper_char c then char_of (of_char c + 32 :: nat) else c)"

definition py_upper :: "string \<Rightarrow> string" where
  "py_upper s = map up_char s"

definition py_lower :: "string \<Rightarrow> string" where
  "py_lower s = map low_char s"

definition strip_by :: "(char \<Rightarrow> bool) \<Rightarrow> string \<Rightarrow> string" where
  "strip_by p s = rev (dropWhile p (rev (dropWhile p s)))"

definition py_strip :: "string \<Rightarrow> string" where
  "py_strip s = strip_by is_space s"

definition replace_char :: "char \<Rightarrow> char \<Rightarrow> string \<Rightarrow> string" where
  "replace_char a b s = map (\<lambda>c. if c = a then b else c) s"

definition starts_with :: "string \<Rightarrow> string \<Rightarrow> bool" where
  "starts_with p s = (take (length p) s = p)"

fun contains_str :: "string \<Rightarrow> string \<Rightarrow> bool" where
  "contains_str p [] = (p = [])"
| "contains_str p (c # s) = (starts_with p (c # s) \<or> contains_str p s)"

fun nat_str :: "nat \<Rightarrow> string" where
  "nat_str n = (if n < 10 then [char_of (48 + n)] else nat_str (n div 10) @ [char_of (48 + n mod 10)])"

declare nat_str.simps [simp del]

definition int_str :: "int \<Rightarrow> string" where
  "int_str i = (if i < 0 then ''-'' @ nat_str (nat (- i)) else nat_str (nat i))"

lemma starts_with_iff: "starts_with p s \<longleftrightarrow> (\<exists>t. s = p @ t)"
  unfolding starts_with_def by (metis append_eq_conv_conj append_take_drop_id)

lemma starts_with_append [simp]: "starts_with p (p @ t)"
  by (simp add: starts_with_def)

lemma up_char_idem [simp]: "up_char (up_char c) = up_char c"
proof (cases "is_lower_char c")
  case True
  then have "97 \<le> (of_char c :: nat)" "(of_char c :: nat) \<le> 122"
    by (auto simp: is_lower_char_def Let_def)
  then have "of_char (char_of (of_char c - 32 :: nat) :: char) = (of_char c - 32 :: nat)"
    by simp
  then have "\<not> is_lower_char (char_of (of_char c - 32 :: nat))"
    using \<open>(of_char c :: nat) \<le> 122\<close> unfolding is_lower_char_def Let_def by simp
  with True show ?thesis by (simp add: up_char_def)
qed (simp add: up_char_def)

lemma low_char_idem [simp]: "low_char (low_char c) = low_char c"
proof (cases "is_upper_char c")
  case True
  then have "65 \<le> (of_char c :: nat)" "(of_char c :: nat) \<le> 90"
    by (auto simp: is_upper_char_def Let_def)
  then have "of_char (char_of (of_char c + 32 :: nat) :: char) = (of_char c + 32 :: nat)"
    by simp
  then have "\<not> is_upper_char (char_of (of_char c + 32 :: nat))"
    using \<open>65 \<le> (of_char c :: nat)\<close> unfolding is_upper_char_def Let_def by simp
  with True show ?thesis by (simp add: low_char_def)
qed (simp add: low_char_def)

lemma py_upper_idem [simp]: "py_upper (py_upper s) = py_upper s"
  by (simp add: py_upper_def)

lemma py_lower_idem [simp]: "py_lower (py_lower s) = py_lower s"
  by (simp add: py_lower_def)

lemma py_upper_Nil_iff [simp]: "py_upper s = [] \<longleftrightarrow> s = []"
  by (simp add: py_upper_def)

lemma py_lower_Nil_iff [simp]: "py_lower s = [] \<longleftrightarrow> s = []"
  by (simp add: py_lower_def)

subsection \<open>Decimal text\<close>

definition digits_value :: "string \<Rightarrow> nat" where
  "digits_value s = foldl (\<lambda>a c. 10 * a + (of_char c - 48)) 0 s"

lemma digits_value_nat_str [simp]: "digits_value (nat_str n) = n"
proof (induction n rule: nat_str.induct)
  case (1 n)
  then show ?case by (cases "n < 10") (simp_all add: nat_str.simps [of n] digits_value_def)
qed

lemma nat_str_inj [simp]: "nat_str m = nat_str n \<longleftrightarrow> m = n"
  by (metis digits_value_nat_str)

lemma nat_str_digits: "c \<in> set (nat_str n) \<Longrightarrow> is_digit c"
proof (induction n rule: nat_str.induct)
  case (1 n)
  then show ?case
    by (cases "n < 10") (auto simp: nat_str.simps [of n] is_digit_def Let_def)
qed

lemma nat_str_not_Nil [simp]: "nat_str n \<noteq> []"
  by (simp add: nat_str.simps [of n])

text \<open>A number followed by a non-digit can be read back: two such texts with a common
  separator agree on the number.\<close>

lemma nat_str_prefix_inj:
  assumes "nat_str m @ c # s = nat_str n @ c # t" and "\<not> is_digit c"
  shows "m = n"
proof -
  have tw: "takeWhile is_digit (nat_str k @ c # u) = nat_str k" for k u
    using assms(2) by (simp add: takeWhile_append2 nat_str_digits)
  from assms(1) have "takeWhile is_digit (nat_str m @ c # s) = takeWhile is_digit (nat_str n @ c # t)"
    by simp
  then show ?thesis by (simp only: tw nat_str_inj)
qed

subsection \<open>Stripping\<close>

lemma strip_by_id:
  assumes "s = [] \<or> (\<not> p (hd s) \<and> \<not> p (last s))"
  shows "strip_by p s = s"
proof (cases s)
  case (Cons c t)
  with assms have "dropWhile p s = s" by simp
  moreover from assms Cons have "dropWhile p (rev s) = rev s"
    by (metis dropWhile.simps(2) hd_rev list.distinct(1) list.exhaust_sel rev_is_Nil_conv)
  ultimately show ?thesis by (simp add: strip_by_def)
qed (simp add: strip_by_def)

lemma strip_by_ends:
  assumes "strip_by p s \<noteq> []"
  shows "\<not> p (hd (strip_by p s))" and "\<not> p (last (strip_by p s))"
proof -
  let ?t = "dropWhile p s"
  from assms have ne: "dropWhile p (rev ?t) \<noteq> []" by (simp add: strip_by_def)
  show "\<not> p (last (strip_by p s))"
    unfolding strip_by_def last_rev by (rule hd_dropWhile [OF ne])
  have tne: "?t \<noteq> []" using ne by (metis dropWhile.simps(1) rev.simps(1))
  obtain u where u: "rev ?t = u @ dropWhile p (rev ?t)"
    by (metis takeWhile_dropWhile_id)
  then have "?t = rev (dropWhile p (rev ?t)) @ rev u"
    by (metis rev_append rev_rev_ident)
  then have "hd ?t = hd (rev (dropWhile p (rev ?t)))"
    using ne by (metis hd_append2 rev_is_Nil_conv)
  then show "\<not> p (hd (strip_by p s))"
    using hd_dropWhile [OF tne] by (simp add: strip_by_def)
qed

lemma strip_by_idem [simp]: "strip_by p (strip_by p s) = strip_by p s"
  by (rule strip_by_id) (use strip_by_ends [of p s] in blast)

lemma py_strip_idem [simp]: "py_strip (py_strip s) = py_strip s"
  by (simp add: py_strip_def)

lemma py_strip_Nil [simp]: "py_strip [] = []"
  by (simp add: py_strip_def strip_by_def)

lemma set_strip_by: "set (strip_by p s) \<subseteq> set s"
  by (auto simp: strip_by_def dest!: set_dropWhileD)

lemma is_space_up_char [simp]: "is_space (up_char c) = is_space c"
proof (cases "is_lower_char c")
  case True
  then have "97 \<le> (of_char c :: nat)" "(of_char c :: nat) \<le> 122"
    by (auto simp: is_lower_char_def Let_def)
  then show ?thesis by (auto simp: up_char_def is_space_def Let_def True)
qed (simp add: up_char_def)

lemma is_space_low_char [simp]: "is_space (low_char c) = is_space c"
proof (cases "is_upper_char c")
  case True
  then have "65 \<le> (of_char c :: nat)" "(of_char c :: nat) \<le> 90"
    by (auto simp: is_upper_char_def Let_def)
  then show ?thesis by (auto simp: low_char_def is_space_def Let_def True)
qed (simp add: low_char_def)

lemma strip_by_map:
  assumes "\<And>c. p (f c) = p c"
  shows "strip_by p (map f s) = map f (strip_by p s)"
  by (simp add: strip_by_def dropWhile_map rev_map o_def assms)


lemma py_strip_upper [simp]: "py_strip (py_upper s) = py_upper (py_strip s)"
  by (simp add: py_strip_def py_upper_def strip_by_map)

lemma py_strip_lower [simp]: "py_strip (py_lower s) = py_lower (py_strip s)"
  by (simp add: py_strip_def py_lower_def strip_by_map)

section \<open>Printing values\<close>

text \<open>
  \<open>repr\<close> of a string: single quotes unless the text has one and has no double quote; the
  backslash, the quote in use and the control characters are escaped; code points that Python does
  not count as printable are written \<open>\xhh\<close>. \<open>str\<close> is \<open>repr\<close> on everything but strings.
\<close>

definition hex_digit :: "nat \<Rightarrow> char" where
  "hex_digit n = (if n < 10 then char_of (48 + n) else char_of (87 + n))"

definition is_printable :: "char \<Rightarrow> bool" where
  "is_printable c = (let n = of_char c :: nat
     in (32 \<le> n \<and> n \<le> 126) \<or> (161 \<le> n \<and> n \<noteq> 173))"

definition repr_char :: "char \<Rightarrow> char \<Rightarrow> string" where
  "repr_char q c =
     (let n = of_char c :: nat in
      if c = q \<or> n = 92 then [CHR 0x5C, c]
      else if n = 10 then [CHR 0x5C, CHR ''n'']
      else if n = 13 then [CHR 0x5C, CHR ''r'']
      else if n = 9 then [CHR 0x5C, CHR ''t'']
      else if is_printable c then [c]
      else [CHR 0x5C, CHR ''x'', hex_digit (n div 16), hex_digit (n mod 16)])"

definition repr_str :: "string \<Rightarrow> string" where
  "repr_str s =
     (let q = (if CHR 0x27 \<in> set s \<and> CHR 0x22 \<notin> set s then CHR 0x22 else CHR 0x27)
      in q # concat (map (repr_char q) s) @ [q])"

fun join_str :: "string \<Rightarrow> string list \<Rightarrow> string" where
  "join_str sep [] = []"
| "join_str sep [x] = x"
| "join_str sep (x # y # zs) = x @ sep @ join_str sep (y # zs)"

fun py_repr :: "pyval \<Rightarrow> string" where
  "py_repr PNone = ''None''"
| "py_repr (PBool b) = (if b then ''True'' else ''False'')"
| "py_repr (PInt i) = int_str i"
| "py_repr (PFloat _ t) = t"
| "py_repr (PStr s) = repr_str s"
| "py_repr (PList xs) = ''['' @ join_str '', '' (map py_repr xs) @ '']''"
| "py_repr (PDict d) =
     ''{'' @ join_str '', '' (map (\<lambda>(k, v). repr_str k @ '': '' @ py_repr v) d) @ ''}''"

fun py_str :: "pyval \<Rightarrow> string" where
  "py_str (PStr s) = s"
| "py_str v = py_repr v"

text \<open>\<open>str(value or "")\<close>, the sources' way of reading an optional text field.\<close>

definition str_or_empty :: "pyval \<Rightarrow> string" where
  "str_or_empty v = py_str (py_or v (PStr []))"

lemma str_or_empty_simps [simp]:
  "str_or_empty PNone = []" "str_or_empty (PStr s) = s"
  by (simp_all add: str_or_empty_def py_or_def)

section \<open>Exceptions and integers read from text\<close>

datatype exc =
    ValueError
  | TypeError
  | KeyError
  | AttributeError
  | UnknownMissionTypeError
  | ProtocolValidationError
  | ReplayDetectedError
  | ValidationError
  | ForeignKeyViolation
  | UniqueViolation
  | PodAssignmentConflictError pydict
  | RuntimeError
  | ServiceError
  | HTTPException nat

type_synonym 'a res = "exc + 'a"

definition rbind :: "'a res \<Rightarrow> ('a \<Rightarrow> 'b res) \<Rightarrow> 'b res" where
  "rbind r f = (case r of Inl e \<Rightarrow> Inl e | Inr x \<Rightarrow> f x)"

fun rmap :: "('a \<Rightarrow> 'b res) \<Rightarrow> 'a list \<Rightarrow> 'b list res" where
  "rmap f [] = Inr []"
| "rmap f (x # xs) = rbind (f x) (\<lambda>y. rbind (rmap f xs) (\<lambda>ys. Inr (y # ys)))"

lemma rbind_simps [simp]: "rbind (Inl e) f = Inl e" "rbind (Inr x) f = f x"
  by (simp_all add: rbind_def)

lemma rbind_Inr_iff: "rbind r f = Inr y \<longleftrightarrow> (\<exists>x. r = Inr x \<and> f x = Inr y)"
  by (cases r) auto

lemma rmap_all: "(\<And>x. x \<in> set xs \<Longrightarrow> f x = Inr (g x)) \<Longrightarrow> rmap f xs = Inr (map g xs)"
  by (induction xs) auto

text \<open>
  \<open>int(text)\<close>: surrounding white space, one sign, decimal digits with single underscores between
  them; anything else is a \<open>ValueError\<close>. \<open>int\<close> of a float truncates towards zero.
\<close>

definition digit_val :: "char \<Rightarrow> nat" where
  "digit_val c = of_char c - 48"

fun read_digits :: "nat \<Rightarrow> string \<Rightarrow> nat option" where
  "read_digits acc [] = Some acc"
| "read_digits acc [c] = (if is_digit c then Some (10 * acc + digit_val c) else None)"
| "read_digits acc (c # d # s) =
     (if is_digit c then read_digits (10 * acc + digit_val c) (d # s)
      else if c = CHR ''_'' \<and> is_digit d then read_digits (10 * acc + digit_val d) s
      else None)"

definition read_nat :: "string \<Rightarrow> nat option" where
  "read_nat s = (case s of [] \<Rightarrow> None
     | c # t \<Rightarrow> if is_digit c then read_digits (digit_val c) t else None)"

definition py_int_str :: "string \<Rightarrow> int res" where
  "py_int_str s =
     (let t = py_strip s;
          signed = (t \<noteq> [] \<and> (hd t = CHR ''-'' \<or> hd t = CHR ''+''))
      in case read_nat (if signed then tl t else t) of
           None \<Rightarrow> Inl ValueError
         | Some n \<Rightarrow> Inr (if signed \<and> hd t = CHR ''-'' then - int n else int n))"

definition trunc_rat :: "rat \<Rightarrow> int" where
  "trunc_rat r = (if r < 0 then - \<lfloor>- r\<rfloor> else \<lfloor>r\<rfloor>)"

fun py_int :: "pyval \<Rightarrow> int res" where
  "py_int (PInt i) = Inr i"
| "py_int (PBool b) = Inr (if b then 1 else 0)"
| "py_int (PFloat r _) = Inr (trunc_rat r)"
| "py_int (PStr s) = py_int_str s"
| "py_int _ = Inl TypeError"

text \<open>\<open>len(x)\<close>.\<close>

fun py_len :: "pyval \<Rightarrow> int res" where
  "py_len (PList xs) = Inr (int (length xs))"
| "py_len (PStr s) = Inr (int (length s))"
| "py_len (PDict d) = Inr (int (length d))"
| "py_len _ = Inl TypeError"

end
