(* ===== verification/Mission_Types.thy ===== *)
theory Mission_Types
  imports Factory_Prelude
begin

text \<open>
  The mission-type vocabulary, \<open>shared_runtime/mission_types.py\<close>: the official names, the alias
  table, and the four normalisers that turn what a client sent into an official name or raise
  \<open>UnknownMissionTypeError\<close>. The properties say that the result is always official, that
  official names are fixed points, and that an unknown non-empty name is never replaced by a default.
\<close>

section \<open>Vocabularies\<close>

definition OFFICIAL_MISSION_TYPES :: "string list" where
  "OFFICIAL_MISSION_TYPES =
     [''BUILD_NEW'', ''IMPORT_MODERNIZE'', ''PORT'', ''DEBUG_REPAIR'', ''SECURITY_HARDEN'',
      ''REDUCE_DEPENDENCIES'', ''RUN_QC'', ''ARCHITECTURE_DOCS'', ''ANALYZE_ONLY'', ''SELF_ANALYZE'']"

definition MISSION_TYPE_ALIASES :: "(string \<times> string) list" where
  "MISSION_TYPE_ALIASES =
     [('''', ''BUILD_NEW''),
      (''BUILD'', ''BUILD_NEW''),
      (''BUILD_NEW'', ''BUILD_NEW''),
      (''CREATE'', ''BUILD_NEW''),
      (''FEATURE'', ''BUILD_NEW''),
      (''FULL_BUILD'', ''BUILD_NEW''),
      (''IMPLEMENTATION'', ''BUILD_NEW''),
      (''NEW'', ''BUILD_NEW''),
      (''IMPORT_MODERNIZE'', ''IMPORT_MODERNIZE''),
      (''MODERNIZE'', ''IMPORT_MODERNIZE''),
      (''UPDATE'', ''IMPORT_MODERNIZE''),
      (''ADD_FEATURE'', ''IMPORT_MODERNIZE''),
      (''REFACTOR'', ''IMPORT_MODERNIZE''),
      (''PORT'', ''PORT''),
      (''DEBUG'', ''DEBUG_REPAIR''),
      (''DEBUG_REPAIR'', ''DEBUG_REPAIR''),
      (''REPAIR'', ''DEBUG_REPAIR''),
      (''SECURITY'', ''SECURITY_HARDEN''),
      (''SECURITY_HARDEN'', ''SECURITY_HARDEN''),
      (''REDUCE_DEPENDENCIES'', ''REDUCE_DEPENDENCIES''),
      (''DEPENDENCY_REDUCTION'', ''REDUCE_DEPENDENCIES''),
      (''RUN_QC'', ''RUN_QC''),
      (''QC'', ''RUN_QC''),
      (''ARCHITECTURE'', ''ARCHITECTURE_DOCS''),
      (''ARCHITECTURE_DOCS'', ''ARCHITECTURE_DOCS''),
      (''ANALYZE'', ''ANALYZE_ONLY''),
      (''ANALYZE_ONLY'', ''ANALYZE_ONLY''),
      (''ANALYSIS'', ''ANALYZE_ONLY''),
      (''SELF_ANALYZE'', ''SELF_ANALYZE'')]"

definition OFFICIAL_OUTPUT_MODES :: "string list" where
  "OFFICIAL_OUTPUT_MODES =
     [''ANALYZE_ONLY'', ''PLAN_ONLY'', ''PATCH_PROPOSAL'', ''APPLY_PATCH'', ''FULL_BUILD'',
      ''DEPENDENCY_REDUCTION'', ''RUN_QC'', ''FULL_TRANSFORMATION'']"

definition OFFICIAL_DEPTH_MODES :: "string list" where
  "OFFICIAL_DEPTH_MODES =
     [''SPRINT'', ''STANDARD'', ''PRODUCTION'', ''REGULATED'', ''AUTONOMOUS_LONG_RUN'']"

definition OFFICIAL_DATA_CLASSIFICATIONS :: "string list" where
  "OFFICIAL_DATA_CLASSIFICATIONS =
     [''TIER_0_PUBLIC'', ''TIER_1_INTERNAL'', ''TIER_2_SENSITIVE'', ''TIER_3_REGULATED'']"

section \<open>Normalisation\<close>

definition fold_token :: "pyval \<Rightarrow> string" where
  "fold_token value =
     replace_char (CHR '' '') (CHR ''_'')
       (replace_char (CHR ''-'') (CHR ''_'') (py_upper (py_strip (str_or_empty value))))"

definition normalize_mission_type :: "pyval \<Rightarrow> string \<Rightarrow> string res" where
  "normalize_mission_type value default_if_empty =
     (let folded = fold_token value in
      if folded = [] then Inr default_if_empty
      else case map_of MISSION_TYPE_ALIASES folded of
             None \<Rightarrow> Inl UnknownMissionTypeError
           | Some mapped \<Rightarrow> Inr mapped)"

definition normalize_output_mode :: "pyval \<Rightarrow> string \<Rightarrow> string res" where
  "normalize_output_mode value default_if_empty =
     (let folded = fold_token value in
      if folded = [] then Inr default_if_empty
      else if folded \<notin> set OFFICIAL_OUTPUT_MODES then Inl UnknownMissionTypeError
      else Inr folded)"

definition normalize_depth_mode :: "pyval \<Rightarrow> string \<Rightarrow> string res" where
  "normalize_depth_mode value default_if_empty =
     (let folded = fold_token value in
      if folded = [] then Inr default_if_empty
      else if folded \<notin> set OFFICIAL_DEPTH_MODES then Inl UnknownMissionTypeError
      else Inr folded)"

definition normalize_data_classification :: "pyval \<Rightarrow> string \<Rightarrow> string res" where
  "normalize_data_classification value default_if_empty =
     (let folded = fold_token value in
      if folded = [] then Inr default_if_empty
      else if folded \<notin> set OFFICIAL_DATA_CLASSIFICATIONS then Inl UnknownMissionTypeError
      else Inr folded)"

section \<open>Properties of the alias table\<close>

lemma alias_targets_official:
  "list_all (\<lambda>(a, t). List.member OFFICIAL_MISSION_TYPES t) MISSION_TYPE_ALIASES"
  by code_simp

lemma official_self_alias:
  "list_all (\<lambda>t. map_of MISSION_TYPE_ALIASES t = Some t) OFFICIAL_MISSION_TYPES"
  by code_simp

lemma official_folded:
  "list_all (\<lambda>t. fold_token (PStr t) = t \<and> t \<noteq> [])
     (OFFICIAL_MISSION_TYPES @ OFFICIAL_OUTPUT_MODES @ OFFICIAL_DEPTH_MODES
      @ OFFICIAL_DATA_CLASSIFICATIONS)"
  by code_simp

lemma alias_official:
  "map_of MISSION_TYPE_ALIASES a = Some t \<Longrightarrow> t \<in> set OFFICIAL_MISSION_TYPES"
  using alias_targets_official by (auto simp: list_all_iff dest!: map_of_SomeD)

lemma official_fold_token:
  assumes "t \<in> set OFFICIAL_MISSION_TYPES \<union> set OFFICIAL_OUTPUT_MODES
     \<union> set OFFICIAL_DEPTH_MODES \<union> set OFFICIAL_DATA_CLASSIFICATIONS"
  shows "fold_token (PStr t) = t \<and> t \<noteq> []"
  by (rule official_folded [unfolded list_all_iff, THEN bspec]) (use assms in simp)

text \<open>The four normalisers share one contract: a vocabulary, and a lookup into it.\<close>

locale normalizer =
  fixes vocabulary :: "string list"
    and lookup :: "string \<Rightarrow> string option"
    and normalize :: "pyval \<Rightarrow> string \<Rightarrow> string res"
  assumes normalize_eq:
    "normalize v d = (let folded = fold_token v in
       if folded = [] then Inr d
       else case lookup folded of None \<Rightarrow> Inl UnknownMissionTypeError | Some t \<Rightarrow> Inr t)"
    and lookup_vocabulary: "lookup k = Some t \<Longrightarrow> t \<in> set vocabulary"
    and lookup_self: "t \<in> set vocabulary \<Longrightarrow> lookup t = Some t"
    and vocabulary_folded: "t \<in> set vocabulary \<Longrightarrow> fold_token (PStr t) = t \<and> t \<noteq> []"
begin

lemma normalize_official:
  assumes "d \<in> set vocabulary" and "normalize v d = Inr t"
  shows "t \<in> set vocabulary"
  using assms lookup_vocabulary
  by (auto simp: normalize_eq Let_def split: if_splits option.splits)

lemma normalize_fixpoint: "t \<in> set vocabulary \<Longrightarrow> normalize (PStr t) d = Inr t"
  using lookup_self vocabulary_folded by (auto simp: normalize_eq Let_def)

lemma normalize_idempotent:
  "d \<in> set vocabulary \<Longrightarrow> normalize v d = Inr t \<Longrightarrow> normalize (PStr t) d' = Inr t"
  by (rule normalize_fixpoint) (rule normalize_official)

lemma normalize_default_only_empty:
  "normalize v d = Inr t \<Longrightarrow> t \<notin> set vocabulary \<Longrightarrow> fold_token v = [] \<and> t = d"
  using lookup_vocabulary by (auto simp: normalize_eq Let_def split: if_splits option.splits)

lemma normalize_raises_iff:
  "normalize v d = Inl e \<longleftrightarrow>
     e = UnknownMissionTypeError \<and> fold_token v \<noteq> [] \<and> lookup (fold_token v) = None"
  by (auto simp: normalize_eq Let_def split: option.splits)

end

abbreviation in_vocabulary :: "string list \<Rightarrow> string \<Rightarrow> string option" where
  "in_vocabulary voc \<equiv> (\<lambda>k. if k \<in> set voc then Some k else None)"

interpretation mission_type: normalizer OFFICIAL_MISSION_TYPES
  "map_of MISSION_TYPE_ALIASES" normalize_mission_type
proof unfold_locales
  fix t assume t: "t \<in> set OFFICIAL_MISSION_TYPES"
  show "map_of MISSION_TYPE_ALIASES t = Some t"
    using official_self_alias t by (auto simp: list_all_iff)
  show "fold_token (PStr t) = t \<and> t \<noteq> []" by (rule official_fold_token) (simp add: t)
qed (simp_all add: normalize_mission_type_def alias_official)

interpretation output_mode: normalizer OFFICIAL_OUTPUT_MODES
  "in_vocabulary OFFICIAL_OUTPUT_MODES" normalize_output_mode
proof unfold_locales
  fix t assume "t \<in> set OFFICIAL_OUTPUT_MODES"
  then show "fold_token (PStr t) = t \<and> t \<noteq> []" by (intro official_fold_token) simp
qed (simp_all add: normalize_output_mode_def Let_def split: if_splits)

interpretation depth_mode: normalizer OFFICIAL_DEPTH_MODES
  "in_vocabulary OFFICIAL_DEPTH_MODES" normalize_depth_mode
proof unfold_locales
  fix t assume "t \<in> set OFFICIAL_DEPTH_MODES"
  then show "fold_token (PStr t) = t \<and> t \<noteq> []" by (intro official_fold_token) simp
qed (simp_all add: normalize_depth_mode_def Let_def split: if_splits)

interpretation data_classification: normalizer OFFICIAL_DATA_CLASSIFICATIONS
  "in_vocabulary OFFICIAL_DATA_CLASSIFICATIONS" normalize_data_classification
proof unfold_locales
  fix t assume "t \<in> set OFFICIAL_DATA_CLASSIFICATIONS"
  then show "fold_token (PStr t) = t \<and> t \<noteq> []" by (intro official_fold_token) simp
qed (simp_all add: normalize_data_classification_def Let_def split: if_splits)

section \<open>Properties\<close>

text \<open>Mission types are official or refused: with an official default, a mission type
  that \<open>normalize_mission_type\<close> accepts is one of the ten official names, and normalising the
  result again, with any default, returns it unchanged.\<close>

theorem normalize_mission_type_official:
  assumes "d \<in> set OFFICIAL_MISSION_TYPES" and "normalize_mission_type v d = Inr t"
  shows "t \<in> set OFFICIAL_MISSION_TYPES \<and> normalize_mission_type (PStr t) d' = Inr t"
  using mission_type.normalize_official [OF assms] mission_type.normalize_idempotent [OF assms]
  by blast

theorem normalize_mission_type_official_witness:
  "''BUILD_NEW'' \<in> set OFFICIAL_MISSION_TYPES
   \<and> normalize_mission_type (PStr '' add-feature '') ''BUILD_NEW'' = Inr ''IMPORT_MODERNIZE''
   \<and> ''IMPORT_MODERNIZE'' \<in> set OFFICIAL_MISSION_TYPES"
proof -
  have a: "''BUILD_NEW'' \<in> set OFFICIAL_MISSION_TYPES" by (simp add: OFFICIAL_MISSION_TYPES_def)
  have b: "normalize_mission_type (PStr '' add-feature '') ''BUILD_NEW'' = Inr ''IMPORT_MODERNIZE''"
    by code_simp
  from a b normalize_mission_type_official [OF a b] show ?thesis by blast
qed

text \<open>A data classification is never silently downgraded: a non-empty value is accepted only
  as the official tier it spells, whatever the default; every other non-empty value raises
  \<open>UnknownMissionTypeError\<close>; and only an empty value gives the default.\<close>

theorem normalize_data_classification_exact:
  "normalize_data_classification v d =
     (if fold_token v = [] then Inr d
      else if fold_token v \<in> set OFFICIAL_DATA_CLASSIFICATIONS then Inr (fold_token v)
      else Inl UnknownMissionTypeError)
   \<and> (normalize_data_classification v d = Inl UnknownMissionTypeError
      \<longleftrightarrow> normalize_data_classification v d' = Inl UnknownMissionTypeError)
   \<and> (normalize_data_classification v d \<noteq> Inl UnknownMissionTypeError
      \<longleftrightarrow> (\<exists>t. normalize_data_classification v d = Inr t
            \<and> (t \<in> set OFFICIAL_DATA_CLASSIFICATIONS \<or> fold_token v = [] \<and> t = d)))"
  using data_classification.normalize_raises_iff [of v d UnknownMissionTypeError]
    data_classification.normalize_raises_iff [of v d' UnknownMissionTypeError]
  by (auto simp: normalize_data_classification_def Let_def)

end
