(* ===== verification/Mission_Models.thy ===== *)
theory Mission_Models
  imports Factory_Prelude
begin

text \<open>
  The mission state machine: \<open>MissionState\<close>, \<open>EventType\<close> and \<open>VALID_TRANSITIONS\<close> of
  \<open>orchestrator/models.py\<close>, the v1 and v2 transition tables, phase order and state mapping of
  \<open>orchestrator/mission_flow_v2/transitions.py\<close>, and the recoverable states of
  \<open>orchestrator/lifecycle_recovery.py\<close>. The lemmas show that both engines walk inside
  \<open>VALID_TRANSITIONS\<close>, that the v2 table refines the v1 table under \<open>v2_map_state_to_v1\<close>, and
  that no non-terminal mission can be stranded.
\<close>

section \<open>States\<close>

datatype MissionState =
    Intake | Queued | Pm_intake | Fetch | Ceo_delegated | Pod_assigned | Specialist_assigned
  | Clarifying | Running | Gating | Fusion | Verified | Complete | Failed

fun state_value :: "MissionState \<Rightarrow> string" where
  "state_value Intake = ''INTAKE''"
| "state_value Queued = ''QUEUED''"
| "state_value Pm_intake = ''PM_INTAKE''"
| "state_value Fetch = ''FETCH''"
| "state_value Ceo_delegated = ''CEO_DELEGATED''"
| "state_value Pod_assigned = ''POD_ASSIGNED''"
| "state_value Specialist_assigned = ''SPECIALIST_ASSIGNED''"
| "state_value Clarifying = ''CLARIFYING''"
| "state_value Running = ''RUNNING''"
| "state_value Gating = ''GATING''"
| "state_value Fusion = ''FUSION''"
| "state_value Verified = ''VERIFIED''"
| "state_value Complete = ''COMPLETE''"
| "state_value Failed = ''FAILED''"

definition all_states :: "MissionState list" where
  "all_states =
     [Intake, Queued, Pm_intake, Fetch, Ceo_delegated, Pod_assigned, Specialist_assigned,
      Clarifying, Running, Gating, Fusion, Verified, Complete, Failed]"

text \<open>\<open>MissionState(text)\<close>: the member with that value, or a \<open>ValueError\<close>.\<close>

definition MissionState_of :: "string \<Rightarrow> MissionState res" where
  "MissionState_of v =
     (case List.find (\<lambda>s. state_value s = v) all_states of
        None \<Rightarrow> Inl ValueError | Some s \<Rightarrow> Inr s)"

definition V1_STATES :: "MissionState list" where
  "V1_STATES = [Intake, Queued, Gating, Running, Fusion, Verified, Complete, Failed]"

definition V2_STATES :: "MissionState list" where
  "V2_STATES =
     [Intake, Queued, Pm_intake, Fetch, Ceo_delegated, Pod_assigned, Specialist_assigned,
      Clarifying, Running, Gating, Fusion, Verified, Complete, Failed]"

definition EventType :: "string list" where
  "EventType =
     [''MISSION_INTAKE'', ''MISSION_QUEUED'', ''MISSION_PM_INTAKE'', ''MISSION_FETCH'',
      ''MISSION_FETCH_COMPLETE'', ''MISSION_CEO_DELEGATED'', ''MISSION_POD_ASSIGNED'',
      ''MISSION_SPECIALIST_ASSIGNED'', ''MISSION_CLARIFYING'', ''MISSION_RUNNING'',
      ''MISSION_GATING'', ''MISSION_FUSION'', ''MISSION_VERIFIED'', ''MISSION_COMPLETE'',
      ''MISSION_FAILED'', ''MISSION_POD_MANAGER_ASSIGNED'', ''MISSION_SPECIALIST_PLANNED'',
      ''MISSION_SCALING_DECIDED'', ''MISSION_AIM_GENERATED'', ''MISSION_LOGICNODE_WRITTEN'',
      ''MISSION_COMPLETION_BLOCKED'', ''MISSION_DELIVERED'',
      ''MISSION_CLARIFICATION_RECEIVED'', ''MISSION_CLARIFICATION_APPLIED'',
      ''MISSION_POD_AUDIT_COMPLETE'', ''MISSION_SECURITY_ANALYSIS_COMPLETE'',
      ''MISSION_VC_COMMIT_STRATEGY_READY'', ''MISSION_INTEGRATION_TESTS_GENERATED'',
      ''MISSION_COMPLIANCE_ASSESSMENT_COMPLETE'', ''MISSION_DEPLOY_READINESS_ASSESSED'',
      ''MISSION_POD_GROUP_STANDARD_PRODUCED'', ''MISSION_BUILD_ARTIFACT_WRITTEN'',
      ''MISSION_DEPABS_EXECUTED'', ''MISSION_RUNTIME_QC_SKIPPED'',
      ''MISSION_RUNTIME_QC_BLOCKED'', ''MISSION_RUNTIME_QC_COMPLETE'',
      ''MISSION_EQUIVALENCE_VERIFIED'', ''MISSION_SECURITY_COMPLIANCE_PASSED'',
      ''MISSION_SECURITY_COMPLIANCE_WARNED'', ''MISSION_TESTDATA_MANIFEST_READY'',
      ''MISSION_EQUIVALENCE_BLOCKED'', ''MISSION_BEHAVIOURAL_EQUIVALENCE_RECORDED'',
      ''MISSION_RUNTIME_QC_REQUALIFIED'', ''MISSION_SECURITY_COMPLIANCE_BLOCKED'',
      ''MISSION_DEPENDENCY_ABSORPTION_BLOCKED'', ''AGENT_STATE_CHANGED'']"

fun VALID_TRANSITIONS :: "MissionState \<Rightarrow> MissionState list" where
  "VALID_TRANSITIONS Intake = [Queued]"
| "VALID_TRANSITIONS Queued = [Pm_intake, Gating, Running, Failed]"
| "VALID_TRANSITIONS Pm_intake = [Fetch, Ceo_delegated, Clarifying, Failed]"
| "VALID_TRANSITIONS Clarifying = [Queued, Pm_intake, Fetch, Failed]"
| "VALID_TRANSITIONS Fetch = [Ceo_delegated, Failed]"
| "VALID_TRANSITIONS Ceo_delegated = [Pod_assigned, Failed]"
| "VALID_TRANSITIONS Pod_assigned = [Specialist_assigned, Failed]"
| "VALID_TRANSITIONS Specialist_assigned = [Running, Failed]"
| "VALID_TRANSITIONS Gating = [Running, Fusion, Failed]"
| "VALID_TRANSITIONS Running = [Gating, Fusion, Verified, Failed]"
| "VALID_TRANSITIONS Fusion = [Verified, Failed]"
| "VALID_TRANSITIONS Verified = [Complete, Failed]"
| "VALID_TRANSITIONS Complete = []"
| "VALID_TRANSITIONS Failed = []"

section \<open>The engines' transition tables\<close>

type_synonym transition = "MissionState \<times> MissionState \<times> string"

definition V2_TRANSITIONS :: "transition list" where
  "V2_TRANSITIONS =
     [(Queued, Pm_intake, ''MISSION_PM_INTAKE''),
      (Pm_intake, Fetch, ''MISSION_FETCH''),
      (Fetch, Ceo_delegated, ''MISSION_CEO_DELEGATED''),
      (Ceo_delegated, Pod_assigned, ''MISSION_POD_MANAGER_ASSIGNED''),
      (Pod_assigned, Specialist_assigned, ''MISSION_SPECIALIST_ASSIGNED''),
      (Specialist_assigned, Running, ''MISSION_RUNNING''),
      (Running, Gating, ''MISSION_GATING''),
      (Gating, Fusion, ''MISSION_FUSION''),
      (Fusion, Verified, ''MISSION_VERIFIED''),
      (Verified, Complete, ''MISSION_COMPLETE'')]"

definition V1_TRANSITIONS :: "transition list" where
  "V1_TRANSITIONS =
     [(Queued, Running, ''MISSION_RUNNING''),
      (Running, Verified, ''MISSION_VERIFIED''),
      (Verified, Complete, ''MISSION_COMPLETE'')]"

definition V2_PHASE_ORDER :: "MissionState list" where
  "V2_PHASE_ORDER =
     [Intake, Queued, Pm_intake, Clarifying, Fetch, Ceo_delegated, Pod_assigned,
      Specialist_assigned, Running, Gating, Fusion, Verified, Complete]"

definition V2_EVENT_TO_PHASE :: "(string \<times> MissionState) list" where
  "V2_EVENT_TO_PHASE =
     [(''MISSION_INTAKE'', Intake),
      (''MISSION_QUEUED'', Queued),
      (''MISSION_PM_INTAKE'', Pm_intake),
      (''MISSION_CLARIFYING'', Clarifying),
      (''MISSION_FETCH'', Fetch),
      (''MISSION_FETCH_COMPLETE'', Fetch),
      (''MISSION_CEO_DELEGATED'', Ceo_delegated),
      (''MISSION_POD_MANAGER_ASSIGNED'', Pod_assigned),
      (''MISSION_SPECIALIST_ASSIGNED'', Specialist_assigned),
      (''MISSION_RUNNING'', Running),
      (''MISSION_GATING'', Gating),
      (''MISSION_FUSION'', Fusion),
      (''MISSION_VERIFIED'', Verified),
      (''MISSION_COMPLETE'', Complete)]"

definition V2_TO_V1_MAP :: "(MissionState \<times> MissionState) list" where
  "V2_TO_V1_MAP =
     [(Intake, Intake), (Queued, Queued), (Pm_intake, Queued), (Clarifying, Queued),
      (Fetch, Queued), (Ceo_delegated, Queued), (Pod_assigned, Queued),
      (Specialist_assigned, Queued), (Running, Running), (Gating, Running), (Fusion, Running),
      (Verified, Verified), (Complete, Complete), (Failed, Failed)]"

definition v2_map_state_to_v1 :: "MissionState \<Rightarrow> MissionState" where
  "v2_map_state_to_v1 state = (case map_of V2_TO_V1_MAP state of None \<Rightarrow> state | Some s \<Rightarrow> s)"

text \<open>\<open>list.index\<close>, and \<open>-1\<close> where it raises.\<close>

fun index_of :: "'a list \<Rightarrow> 'a \<Rightarrow> nat option" where
  "index_of [] x = None"
| "index_of (y # ys) x = (if y = x then Some 0 else map_option Suc (index_of ys x))"

definition v2_phase_index :: "MissionState \<Rightarrow> int" where
  "v2_phase_index state = (case index_of V2_PHASE_ORDER state of None \<Rightarrow> -1 | Some i \<Rightarrow> int i)"

definition non_resumable_states :: "MissionState list" where
  "non_resumable_states = [Intake, Clarifying, Complete, Failed]"

definition recoverable_lifecycle_states :: "MissionState list" where
  "recoverable_lifecycle_states =
     [expected. (expected, _, _) \<leftarrow> V2_TRANSITIONS, expected \<notin> set non_resumable_states]"

definition RUNTIME_PHASES :: "MissionState list" where
  "RUNTIME_PHASES = [Running, Gating, Fusion, Verified, Complete]"

section \<open>Facts about the tables\<close>

lemma all_states_complete [simp]: "s \<in> set all_states"
  by (cases s) (simp_all add: all_states_def)

lemma state_value_inj [simp]: "state_value s = state_value t \<longleftrightarrow> s = t"
  by (cases s; cases t) simp_all

lemma MissionState_of_value [simp]: "MissionState_of (state_value s) = Inr s"
  by (cases s) (simp_all add: MissionState_of_def all_states_def)

lemma MissionState_of_Inr: "MissionState_of v = Inr s \<longleftrightarrow> v = state_value s"
proof
  assume "MissionState_of v = Inr s"
  then show "v = state_value s"
    by (auto simp: MissionState_of_def find_Some_iff split: option.splits)
qed simp

lemma v2_steps_facts:
  "list_all (\<lambda>(s, t, e). List.member (VALID_TRANSITIONS s) t \<and> v2_phase_index s < v2_phase_index t
      \<and> List.member EventType e \<and> map_of V2_EVENT_TO_PHASE e = Some t) V2_TRANSITIONS"
  by code_simp

lemma v2_step_valid:
  assumes "(s, t, e) \<in> set V2_TRANSITIONS"
  shows "t \<in> set (VALID_TRANSITIONS s)" "v2_phase_index s < v2_phase_index t" "e \<in> set EventType"
  using v2_steps_facts assms by (auto simp: list_all_iff)

lemma v1_steps_facts:
  "list_all (\<lambda>(s, t, e). List.member (VALID_TRANSITIONS s) t \<and> List.member EventType e) V1_TRANSITIONS"
  by code_simp

lemma v2_simulates_v1_step:
  "list_all (\<lambda>(s, t, e). v2_map_state_to_v1 s = v2_map_state_to_v1 t
      \<or> List.member V1_TRANSITIONS (v2_map_state_to_v1 s, v2_map_state_to_v1 t, e)) V2_TRANSITIONS"
  by code_simp

lemma state_events_known: "''MISSION_'' @ state_value s \<in> set EventType"
  by (cases s) (simp_all add: EventType_def)

section \<open>The state machine as a step relation\<close>

inductive mission_step :: "MissionState \<Rightarrow> MissionState \<Rightarrow> bool" where
  step: "t \<in> set (VALID_TRANSITIONS s) \<Longrightarrow> mission_step s t"

inductive_cases mission_stepE: "mission_step s t"

inductive_simps mission_step_iff: "mission_step s t"

inductive reachable :: "MissionState \<Rightarrow> bool" where
  start: "reachable Intake"
| next_state: "reachable s \<Longrightarrow> mission_step s t \<Longrightarrow> reachable t"

definition terminal :: "MissionState \<Rightarrow> bool" where
  "terminal s = (s = Complete \<or> s = Failed)"

lemma terminal_iff_stuck: "terminal s \<longleftrightarrow> (\<forall>t. \<not> mission_step s t)"
  by (cases s) (auto simp: terminal_def mission_step_iff)

lemma terminal_star: "mission_step\<^sup>*\<^sup>* s t \<Longrightarrow> terminal s \<Longrightarrow> t = s"
  by (induction rule: converse_rtranclp_induct) (auto simp: terminal_iff_stuck)

lemma completes_from_verified: "mission_step\<^sup>*\<^sup>* Verified Complete"
  by (rule r_into_rtranclp) (simp add: mission_step_iff)

lemma step_star_trans: "t \<in> set (VALID_TRANSITIONS s) \<Longrightarrow> mission_step\<^sup>*\<^sup>* t u \<Longrightarrow> mission_step\<^sup>*\<^sup>* s u"
  by (rule converse_rtranclp_into_rtranclp) (simp add: mission_step_iff)

lemma can_complete: "s \<noteq> Failed \<Longrightarrow> mission_step\<^sup>*\<^sup>* s Complete"
proof -
  have v: "mission_step\<^sup>*\<^sup>* Verified Complete" by (rule completes_from_verified)
  have f: "mission_step\<^sup>*\<^sup>* Fusion Complete" by (rule step_star_trans [OF _ v]) simp
  have r: "mission_step\<^sup>*\<^sup>* Running Complete" by (rule step_star_trans [OF _ v]) simp
  have g: "mission_step\<^sup>*\<^sup>* Gating Complete" by (rule step_star_trans [OF _ f]) simp
  have sp: "mission_step\<^sup>*\<^sup>* Specialist_assigned Complete" by (rule step_star_trans [OF _ r]) simp
  have pa: "mission_step\<^sup>*\<^sup>* Pod_assigned Complete" by (rule step_star_trans [OF _ sp]) simp
  have ce: "mission_step\<^sup>*\<^sup>* Ceo_delegated Complete" by (rule step_star_trans [OF _ pa]) simp
  have fe: "mission_step\<^sup>*\<^sup>* Fetch Complete" by (rule step_star_trans [OF _ ce]) simp
  have pm: "mission_step\<^sup>*\<^sup>* Pm_intake Complete" by (rule step_star_trans [OF _ fe]) simp
  have cl: "mission_step\<^sup>*\<^sup>* Clarifying Complete" by (rule step_star_trans [OF _ fe]) simp
  have q: "mission_step\<^sup>*\<^sup>* Queued Complete" by (rule step_star_trans [OF _ pm]) simp
  have i: "mission_step\<^sup>*\<^sup>* Intake Complete" by (rule step_star_trans [OF _ q]) simp
  from v f r g sp pa ce fe pm cl q i show "s \<noteq> Failed \<Longrightarrow> mission_step\<^sup>*\<^sup>* s Complete"
    by (cases s) auto
qed

section \<open>Properties\<close>



text \<open>Every step of either engine is one that \<open>VALID_TRANSITIONS\<close> allows and is logged with a
  known event type, the v2 phase index strictly grows along the v2 table, and each v2 event is the
  one \<open>V2_EVENT_TO_PHASE\<close> maps back to the state entered.\<close>

theorem engine_steps_valid:
  assumes "(s, t, e) \<in> set V2_TRANSITIONS \<union> set V1_TRANSITIONS"
  shows "mission_step s t \<and> e \<in> set EventType
    \<and> ((s, t, e) \<notin> set V2_TRANSITIONS
       \<or> v2_phase_index s < v2_phase_index t \<and> map_of V2_EVENT_TO_PHASE e = Some t)"
  using assms v2_steps_facts v1_steps_facts by (auto simp: list_all_iff mission_step_iff)

theorem engine_steps_valid_witness:
  "(Gating, Fusion, ''MISSION_FUSION'') \<in> set V2_TRANSITIONS \<union> set V1_TRANSITIONS
   \<and> mission_step Gating Fusion"
proof -
  have h: "(Gating, Fusion, ''MISSION_FUSION'') \<in> set V2_TRANSITIONS \<union> set V1_TRANSITIONS"
    by (simp add: V2_TRANSITIONS_def)
  from h engine_steps_valid [OF h] show ?thesis by blast
qed

text \<open>No mission is stranded: a state is stuck in the state machine exactly when it is
  \<open>COMPLETE\<close> or \<open>FAILED\<close>; a finished mission never moves again; and from every other reachable
  state \<open>COMPLETE\<close> can still be reached.\<close>

theorem missions_not_stranded:
  assumes "reachable s"
  shows "((\<forall>t. \<not> mission_step s t) \<longleftrightarrow> s = Complete \<or> s = Failed)
    \<and> (if s = Complete \<or> s = Failed then (\<forall>t. \<not> mission_step\<^sup>*\<^sup>* s t \<or> t = s)
       else mission_step\<^sup>*\<^sup>* s Complete)"
  using terminal_iff_stuck [of s] terminal_star [of s] can_complete [of s]
  by (auto simp: terminal_def)

theorem missions_not_stranded_witness:
  "reachable Queued \<and> mission_step\<^sup>*\<^sup>* Queued Complete"
proof -
  have r: "reachable Queued"
    by (rule reachable.next_state [OF reachable.start]) (simp add: mission_step_iff)
  from r missions_not_stranded [OF r] show ?thesis by simp
qed

text \<open>Restart recovery picks exactly the states the v2 driver can resume: a state is
  recoverable iff it has a pending v2 transition and is not a hold or terminal state, and every
  recoverable state indeed leads to \<open>COMPLETE\<close>; the clarification hold, the intake and the two
  terminal states are never resumed.\<close>

theorem recoverable_states_exact:
  "(s \<in> set recoverable_lifecycle_states
      \<longleftrightarrow> (\<exists>t e. (s, t, e) \<in> set V2_TRANSITIONS) \<and> s \<notin> {Intake, Clarifying, Complete, Failed})
   \<and> (s \<in> set recoverable_lifecycle_states \<longleftrightarrow> s \<notin> {Intake, Clarifying, Complete, Failed})
   \<and> (s \<notin> set recoverable_lifecycle_states \<or> mission_step\<^sup>*\<^sup>* s Complete)"
proof -
  have rec: "recoverable_lifecycle_states = [Queued, Pm_intake, Fetch, Ceo_delegated, Pod_assigned,
      Specialist_assigned, Running, Gating, Fusion, Verified]"
    by code_simp
  have "s \<notin> {Intake, Clarifying, Complete, Failed} \<Longrightarrow> \<exists>t e. (s, t, e) \<in> set V2_TRANSITIONS"
    by (cases s) (auto simp: V2_TRANSITIONS_def)
  then show ?thesis using can_complete [of s] by (cases s) (auto simp: rec)
qed

theorem recoverable_states_exact_witness:
  "Gating \<in> set recoverable_lifecycle_states \<and> mission_step\<^sup>*\<^sup>* Gating Complete"
proof -
  have "Gating \<in> set recoverable_lifecycle_states" by code_simp
  with recoverable_states_exact [of Gating] show ?thesis by blast
qed

end
