(* ===== verification/Agent_Registry.thy ===== *)
theory Agent_Registry
  imports Factory_Prelude
begin

text \<open>
  The agent registry, \<open>orchestrator/agent_registry.py\<close>: the 41 \<open>AgentDefinition\<close>s in their order,
  with \<open>runtime_class\<close> derived from the category as \<open>__post_init__\<close> does, the language aliases, and
  the pod taxonomy of \<open>shared_runtime/thefactory_common/taxonomy.py\<close>.
\<close>

section \<open>Agents\<close>

record agent =
  agent_index :: nat
  agent_id :: string
  short_code :: string
  agent_name :: string
  agent_tier :: string
  agent_pod :: string
  agent_role :: string
  agent_category :: string
  specialties :: "string list"
  runtime_class :: string

definition AgentDefinition :: "nat \<Rightarrow> string \<Rightarrow> string \<Rightarrow> string \<Rightarrow> string \<Rightarrow> string
    \<Rightarrow> string \<Rightarrow> string \<Rightarrow> string list \<Rightarrow> agent" where
  "AgentDefinition i aid sc nm tr pd rl cat sps =
     \<lparr>agent_index = i, agent_id = aid, short_code = sc, agent_name = nm, agent_tier = tr,
      agent_pod = pd, agent_role = rl, agent_category = cat, specialties = sps,
      runtime_class = (if cat \<in> {''specialist'', ''pod_manager'', ''pod_audit''}
                       then ''shared_worker'' else ''synthesized_heartbeat'')\<rparr>"

definition pod_assignment :: "agent \<Rightarrow> string" where
  "pod_assignment a = agent_pod a"

definition language_keys :: "agent \<Rightarrow> string list" where
  "language_keys a = specialties a"

definition AGENT_REGISTRY_1 :: "agent list" where
  "AGENT_REGISTRY_1 =
     [AgentDefinition 1 ''AGENT-01-PM'' ''PM'' ''PM Agent''
        ''User Interface'' ''User Interface''
        ''Program manager and mission intake translation''
        ''interface'' [],
      AgentDefinition 2 ''AGENT-02-CEO'' ''CEO'' ''CEO Agent''
        ''Executive'' ''Executive''
        ''Cross-pod orchestration and global state ownership''
        ''executive'' [],
      AgentDefinition 3 ''AGENT-03-BROKER'' ''BROKER'' ''API Broker''
        ''Support Ring'' ''Support Ring''
        ''API routing, key management, and rate-limit control''
        ''support'' [],
      AgentDefinition 4 ''AGENT-04-ACCOUNTANT'' ''ACCOUNTANT'' ''Accountant''
        ''Support Ring'' ''Support Ring''
        ''Token-cost monitoring and budget enforcement''
        ''support'' [],
      AgentDefinition 5 ''AGENT-05-SECURITY'' ''SECURITY'' ''Security Agent''
        ''Support Ring'' ''Support Ring''
        ''Security scanning and threat detection''
        ''support'' [],
      AgentDefinition 6 ''AGENT-06-IS'' ''IS'' ''IS Agent''
        ''Support Ring'' ''Support Ring''
        ''Knowledge indexing and standards updates''
        ''support'' [],
      AgentDefinition 7 ''AGENT-07-VC'' ''VC'' ''Version Control Agent''
        ''Support Ring'' ''Support Ring''
        ''Commit strategy, rollback, and provenance traceability''
        ''support'' [],
      AgentDefinition 8 ''AGENT-08-COMPLIANCE'' ''COMPLIANCE'' ''Compliance Agent''
        ''Support Ring'' ''Support Ring''
        ''License compatibility and legal provenance checks''
        ''support'' [],
      AgentDefinition 9 ''AGENT-09-HW'' ''HW'' ''Hardware-Mapping Injector''
        ''Support Ring'' ''Support Ring''
        ''Reserved: target-profile hints for generation (no compilation role)''
        ''support'' [],
      AgentDefinition 10 ''AGENT-10-TESTER'' ''TESTER'' ''System Integration Tester''
        ''Support Ring'' ''Support Ring''
        ''End-to-end validation and performance benchmarking''
        ''support'' [],
      AgentDefinition 11 ''AGENT-11-DEPLOY'' ''DEPLOY'' ''Deployment Agent''
        ''Support Ring'' ''Support Ring''
        ''Artifact packaging, delivery, and environment setup''
        ''support'' [],
      AgentDefinition 12 ''AGENT-12-PODA-MGR'' ''PODA-MGR'' ''Pod A Sub-Manager''
        ''Refinement Pod'' ''Pod A''
        ''Coordinate dynamic-language extraction and fusion in Pod A''
        ''pod_manager'' [],
      AgentDefinition 13 ''AGENT-13-PODA-AUDIT'' ''PODA-AUDIT'' ''Pod A QC/Audit''
        ''Refinement Pod'' ''Pod A''
        ''Verify Pod A LogicNodes before pod-level release''
        ''pod_audit'' []]"

definition AGENT_REGISTRY_2 :: "agent list" where
  "AGENT_REGISTRY_2 =
     [AgentDefinition 14 ''AGENT-14-PYTHON'' ''PYTHON'' ''Python Specialist''
        ''Refinement Pod'' ''Pod A''
        ''Extract computational intent from Python workloads''
        ''specialist'' [''python''],
      AgentDefinition 15 ''AGENT-15-JAVASCRIPT'' ''JAVASCRIPT'' ''JavaScript Specialist''
        ''Refinement Pod'' ''Pod A''
        ''Extract computational intent from JavaScript/TypeScript workloads''
        ''specialist'' [''javascript''],
      AgentDefinition 16 ''AGENT-16-RUBY'' ''RUBY'' ''Ruby Specialist''
        ''Refinement Pod'' ''Pod A''
        ''Extract computational intent from Ruby workloads''
        ''specialist'' [''ruby''],
      AgentDefinition 17 ''AGENT-17-PHP'' ''PHP'' ''PHP Specialist''
        ''Refinement Pod'' ''Pod A''
        ''Extract computational intent from PHP workloads''
        ''specialist'' [''php''],
      AgentDefinition 18 ''AGENT-18-PODB-MGR'' ''PODB-MGR'' ''Pod B Sub-Manager''
        ''Refinement Pod'' ''Pod B''
        ''Coordinate systems-language extraction and fusion in Pod B''
        ''pod_manager'' [],
      AgentDefinition 19 ''AGENT-19-PODB-AUDIT'' ''PODB-AUDIT'' ''Pod B QC/Audit''
        ''Refinement Pod'' ''Pod B''
        ''Verify Pod B LogicNodes before pod-level release''
        ''pod_audit'' [],
      AgentDefinition 20 ''AGENT-20-C'' ''C'' ''C Specialist''
        ''Refinement Pod'' ''Pod B''
        ''Extract computational intent from C workloads''
        ''specialist'' [''c''],
      AgentDefinition 21 ''AGENT-21-CPP'' ''CPP'' ''C++ Specialist''
        ''Refinement Pod'' ''Pod B''
        ''Extract computational intent from C++ workloads''
        ''specialist'' [''cpp''],
      AgentDefinition 22 ''AGENT-22-RUST'' ''RUST'' ''Rust Specialist''
        ''Refinement Pod'' ''Pod B''
        ''Extract computational intent from Rust workloads''
        ''specialist'' [''rust''],
      AgentDefinition 23 ''AGENT-23-ZIG'' ''ZIG'' ''Zig Specialist''
        ''Refinement Pod'' ''Pod B''
        ''Extract computational intent from Zig workloads''
        ''specialist'' [''zig''],
      AgentDefinition 24 ''AGENT-24-PODC-MGR'' ''PODC-MGR'' ''Pod C Sub-Manager''
        ''Refinement Pod'' ''Pod C''
        ''Coordinate enterprise-language extraction and fusion in Pod C''
        ''pod_manager'' [],
      AgentDefinition 25 ''AGENT-25-PODC-AUDIT'' ''PODC-AUDIT'' ''Pod C QC/Audit''
        ''Refinement Pod'' ''Pod C''
        ''Verify Pod C LogicNodes before pod-level release''
        ''pod_audit'' [],
      AgentDefinition 26 ''AGENT-26-JAVA'' ''JAVA'' ''Java Specialist''
        ''Refinement Pod'' ''Pod C''
        ''Extract computational intent from Java workloads''
        ''specialist'' [''java'']]"

definition AGENT_REGISTRY_3 :: "agent list" where
  "AGENT_REGISTRY_3 =
     [AgentDefinition 27 ''AGENT-27-CSHARP'' ''CSHARP'' ''C# Specialist''
        ''Refinement Pod'' ''Pod C''
        ''Extract computational intent from C# workloads''
        ''specialist'' [''csharp''],
      AgentDefinition 28 ''AGENT-28-SCALA'' ''SCALA'' ''Scala Specialist''
        ''Refinement Pod'' ''Pod C''
        ''Extract computational intent from Scala workloads''
        ''specialist'' [''scala''],
      AgentDefinition 29 ''AGENT-29-KOTLIN'' ''KOTLIN'' ''Kotlin Specialist''
        ''Refinement Pod'' ''Pod C''
        ''Extract computational intent from Kotlin workloads''
        ''specialist'' [''kotlin''],
      AgentDefinition 30 ''AGENT-30-PODD-MGR'' ''PODD-MGR'' ''Pod D Sub-Manager''
        ''Refinement Pod'' ''Pod D''
        ''Coordinate mathematical and functional language extraction and fusion in Pod D''
        ''pod_manager'' [],
      AgentDefinition 31 ''AGENT-31-PODD-AUDIT'' ''PODD-AUDIT'' ''Pod D QC/Audit''
        ''Refinement Pod'' ''Pod D''
        ''Verify Pod D LogicNodes before pod-level release''
        ''pod_audit'' [],
      AgentDefinition 32 ''AGENT-32-MATLAB'' ''MATLAB'' ''MATLAB Specialist''
        ''Refinement Pod'' ''Pod D''
        ''Extract computational intent from MATLAB workloads''
        ''specialist'' [''matlab''],
      AgentDefinition 33 ''AGENT-33-R'' ''R'' ''R Specialist''
        ''Refinement Pod'' ''Pod D''
        ''Extract computational intent from R workloads''
        ''specialist'' [''r''],
      AgentDefinition 34 ''AGENT-34-JULIA'' ''JULIA'' ''Julia Specialist''
        ''Refinement Pod'' ''Pod D''
        ''Extract computational intent from Julia workloads''
        ''specialist'' [''julia''],
      AgentDefinition 35 ''AGENT-35-MATHEMATICA'' ''MATHEMATICA'' ''Mathematica Specialist''
        ''Refinement Pod'' ''Pod D''
        ''Extract computational intent from Mathematica workloads''
        ''specialist'' [''mathematica''],
      AgentDefinition 36 ''AGENT-36-GO'' ''GO'' ''Go Specialist''
        ''Refinement Pod'' ''Pod B''
        ''Extract computational intent from Go workloads''
        ''specialist'' [''go''],
      AgentDefinition 37 ''AGENT-37-HASKELL'' ''HASKELL'' ''Haskell Specialist''
        ''Refinement Pod'' ''Pod D''
        ''Extract computational intent from Haskell workloads''
        ''specialist'' [''haskell''],
      AgentDefinition 38 ''AGENT-38-OCAML'' ''OCAML'' ''OCaml Specialist''
        ''Refinement Pod'' ''Pod D''
        ''Extract computational intent from OCaml workloads''
        ''specialist'' [''ocaml''],
      AgentDefinition 39 ''AGENT-39-DEPABS'' ''DEPABS'' ''Dependency Absorption Agent''
        ''Support Ring'' ''Support Ring''
        ''Dependency absorption: intent extraction, equivalence planning, and SBOM delta''
        ''support'' []]"

definition AGENT_REGISTRY_4 :: "agent list" where
  "AGENT_REGISTRY_4 =
     [AgentDefinition 40 ''AGENT-40-TESTDATA'' ''TESTDATA'' ''Database and Test Data Agent''
        ''Support Ring'' ''Support Ring''
        ''Ephemeral test environment provisioning, schema setup, and synthetic data generation''
        ''support'' [],
      AgentDefinition 41 ''AGENT-41-RQCA'' ''RQCA'' ''Runtime QC Agent''
        ''Support Ring'' ''Support Ring''
        ''AI-driven browser and CLI runtime quality control in ephemeral sandbox environments''
        ''support'' []]"

definition AGENT_REGISTRY :: "agent list" where
  "AGENT_REGISTRY = AGENT_REGISTRY_1 @ AGENT_REGISTRY_2 @ AGENT_REGISTRY_3 @ AGENT_REGISTRY_4"

definition VALID_AGENT_IDS :: "string list" where
  "VALID_AGENT_IDS = map agent_id AGENT_REGISTRY"

definition LANGUAGE_ALIASES :: "(string \<times> string) list" where
  "LANGUAGE_ALIASES =
     [(''js'', ''javascript''),
      (''javascript'', ''javascript''),
      (''typescript'', ''javascript''),
      (''ts'', ''javascript''),
      (''py'', ''python''),
      (''python'', ''python''),
      (''rb'', ''ruby''),
      (''ruby'', ''ruby''),
      (''php'', ''php''),
      (''go'', ''go''),
      (''golang'', ''go''),
      (''c'', ''c''),
      (''c++'', ''cpp''),
      (''cpp'', ''cpp''),
      (''cc'', ''cpp''),
      (''rust'', ''rust''),
      (''zig'', ''zig''),
      (''java'', ''java''),
      (''c#'', ''csharp''),
      (''csharp'', ''csharp''),
      (''scala'', ''scala''),
      (''kotlin'', ''kotlin''),
      (''matlab'', ''matlab''),
      (''r'', ''r''),
      (''julia'', ''julia''),
      (''mathematica'', ''mathematica''),
      (''haskell'', ''haskell''),
      (''hs'', ''haskell''),
      (''ocaml'', ''ocaml''),
      (''ml'', ''ocaml'')]"

text \<open>\<open>normalize_language\<close> of the registry: strip, lower, drop every blank, then the alias.\<close>

definition registry_normalize_language :: "string option \<Rightarrow> string" where
  "registry_normalize_language value =
     (case value of
        None \<Rightarrow> []
      | Some v \<Rightarrow>
          if v = [] then []
          else let normalized = filter (\<lambda>c. c \<noteq> CHR '' '') (py_lower (py_strip v))
               in case map_of LANGUAGE_ALIASES normalized of None \<Rightarrow> normalized | Some l \<Rightarrow> l)"

section \<open>Pod taxonomy\<close>

datatype ParadigmPod = POD_A | POD_B | POD_C | POD_D

fun pod_value :: "ParadigmPod \<Rightarrow> string" where
  "pod_value POD_A = ''pod_a''"
| "pod_value POD_B = ''pod_b''"
| "pod_value POD_C = ''pod_c''"
| "pod_value POD_D = ''pod_d''"

definition POD_MANAGER_MAP :: "(string \<times> string) list" where
  "POD_MANAGER_MAP =
     [(''pod_a'', ''AGENT-03-POD-A-DYNAMIC-MGR''),
      (''pod_b'', ''AGENT-04-POD-B-SYSTEMS-MGR''),
      (''pod_c'', ''AGENT-05-POD-C-ENTERPRISE-MGR''),
      (''pod_d'', ''AGENT-06-POD-D-MATH-MGR'')]"

definition LANGUAGE_TO_POD_MAP :: "(string \<times> ParadigmPod) list" where
  "LANGUAGE_TO_POD_MAP =
     [(''python'', POD_A), (''javascript'', POD_A), (''typescript'', POD_A), (''ruby'', POD_A),
      (''php'', POD_A),
      (''c'', POD_B), (''cpp'', POD_B), (''rust'', POD_B), (''go'', POD_B), (''zig'', POD_B),
      (''java'', POD_C), (''csharp'', POD_C), (''scala'', POD_C), (''kotlin'', POD_C),
      (''r'', POD_D), (''matlab'', POD_D), (''julia'', POD_D), (''mathematica'', POD_D),
      (''haskell'', POD_D), (''ocaml'', POD_D)]"

text \<open>The members of \<open>SupportedLanguage\<close>, by value.\<close>

definition ALL_SUPPORTED_LANGUAGES :: "string list" where
  "ALL_SUPPORTED_LANGUAGES =
     [''python'', ''javascript'', ''typescript'', ''ruby'', ''php'', ''c'', ''cpp'', ''rust'', ''go'',
      ''zig'', ''java'', ''csharp'', ''scala'', ''kotlin'', ''r'', ''matlab'', ''julia'',
      ''mathematica'', ''haskell'', ''ocaml'']"

definition get_pod_for_language :: "string option \<Rightarrow> string option" where
  "get_pod_for_language language =
     (case language of
        None \<Rightarrow> None
      | Some l \<Rightarrow>
          if l = [] then None
          else let normalized = py_lower (py_strip l)
               in if normalized \<in> set ALL_SUPPORTED_LANGUAGES
                  then map_option pod_value (map_of LANGUAGE_TO_POD_MAP normalized)
                  else None)"

definition get_pod_manager_for_language :: "string option \<Rightarrow> string option" where
  "get_pod_manager_for_language language =
     (case get_pod_for_language language of
        None \<Rightarrow> None
      | Some p \<Rightarrow> if p = [] then None else map_of POD_MANAGER_MAP p)"

definition is_language_supported :: "string option \<Rightarrow> bool" where
  "is_language_supported language =
     (case language of
        None \<Rightarrow> False
      | Some l \<Rightarrow> l \<noteq> [] \<and> py_lower (py_strip l) \<in> set ALL_SUPPORTED_LANGUAGES)"

section \<open>Facts about the registry\<close>

lemma VALID_AGENT_IDS_eq:
  "VALID_AGENT_IDS = map agent_id AGENT_REGISTRY_1 @ map agent_id AGENT_REGISTRY_2
     @ map agent_id AGENT_REGISTRY_3 @ map agent_id AGENT_REGISTRY_4"
  by (simp add: VALID_AGENT_IDS_def AGENT_REGISTRY_def)

lemma registry_size: "length AGENT_REGISTRY = 41"
  by code_simp

lemma registry_indices: "map agent_index AGENT_REGISTRY = [1..<42]"
  by code_simp

lemma registry_ids_distinct: "distinct VALID_AGENT_IDS"
  by code_simp

lemma pods_cover_languages:
  "list_all (\<lambda>l. map_of LANGUAGE_TO_POD_MAP l \<noteq> None) ALL_SUPPORTED_LANGUAGES"
  by code_simp

lemma get_pod_for_language_iff:
  "get_pod_for_language l \<noteq> None \<longleftrightarrow> is_language_supported l"
  using pods_cover_languages
  by (auto simp: get_pod_for_language_def is_language_supported_def list_all_iff Let_def
      split: option.splits)

end
