(* ===== verification/Mission_Flow.thy ===== *)
theory Mission_Flow
  imports Agent_Registry
begin

text \<open>
  Chain-of-command routing, \<open>orchestrator/mission_flow.py\<close>, and the chain-trace helpers of
  \<open>orchestrator/mission_flow_v2/base.py\<close>: which pod manager and specialist a language is routed to,
  the defaults every metadata document gets, and the append-only trace of chain events. Mission
  metadata is a Python dict (\<open>pydict\<close>); the functions that mutate it return the new dict, and the
  clock is the argument \<open>now\<close>.
\<close>

section \<open>Routing\<close>

definition PM_AGENT_ID :: string where "PM_AGENT_ID = ''AGENT-01-PM''"

definition CEO_AGENT_ID :: string where "CEO_AGENT_ID = ''AGENT-02-CEO''"

definition DEFAULT_POD_MANAGER_AGENT_ID :: string where
  "DEFAULT_POD_MANAGER_AGENT_ID = ''AGENT-12-PODA-MGR''"

definition DEFAULT_SPECIALIST_AGENT_ID :: string where
  "DEFAULT_SPECIALIST_AGENT_ID = ''AGENT-14-PYTHON''"

definition ROUTING_VERSION :: string where "ROUTING_VERSION = ''v1.1''"

definition pod_languages :: "ParadigmPod \<Rightarrow> string list" where
  "pod_languages p = [l. (l, q) \<leftarrow> LANGUAGE_TO_POD_MAP, q = p]"

definition POD_MANAGER_BY_LANGUAGE :: "(string \<times> string) list" where
  "POD_MANAGER_BY_LANGUAGE =
     map (\<lambda>l. (l, ''AGENT-12-PODA-MGR'')) (pod_languages POD_A)
     @ map (\<lambda>l. (l, ''AGENT-18-PODB-MGR'')) (pod_languages POD_B)
     @ map (\<lambda>l. (l, ''AGENT-24-PODC-MGR'')) (pod_languages POD_C)
     @ map (\<lambda>l. (l, ''AGENT-30-PODD-MGR'')) (pod_languages POD_D)"

definition SPECIALIST_BY_LANGUAGE :: "(string \<times> string) list" where
  "SPECIALIST_BY_LANGUAGE =
     [(''python'', ''AGENT-14-PYTHON''),
      (''javascript'', ''AGENT-15-JAVASCRIPT''),
      (''typescript'', ''AGENT-15-JAVASCRIPT''),
      (''ruby'', ''AGENT-16-RUBY''),
      (''php'', ''AGENT-17-PHP''),
      (''c'', ''AGENT-20-C''),
      (''cpp'', ''AGENT-21-CPP''),
      (''rust'', ''AGENT-22-RUST''),
      (''zig'', ''AGENT-23-ZIG''),
      (''go'', ''AGENT-36-GO''),
      (''java'', ''AGENT-26-JAVA''),
      (''csharp'', ''AGENT-27-CSHARP''),
      (''scala'', ''AGENT-28-SCALA''),
      (''kotlin'', ''AGENT-29-KOTLIN''),
      (''matlab'', ''AGENT-32-MATLAB''),
      (''r'', ''AGENT-33-R''),
      (''julia'', ''AGENT-34-JULIA''),
      (''mathematica'', ''AGENT-35-MATHEMATICA''),
      (''haskell'', ''AGENT-37-HASKELL''),
      (''ocaml'', ''AGENT-38-OCAML'')]"

definition normalize_agent_id :: "pyval \<Rightarrow> string option" where
  "normalize_agent_id value =
     (if \<not> is_str value then None
      else let normalized = py_upper (py_strip (str_of value))
           in if normalized = [] then None else Some normalized)"

definition normalize_language :: "string option \<Rightarrow> string" where
  "normalize_language value = (case value of None \<Rightarrow> [] | Some v \<Rightarrow> py_lower (py_strip v))"

definition resolve_pod_manager_agent_id :: "string option \<Rightarrow> string" where
  "resolve_pod_manager_agent_id language =
     (case map_of POD_MANAGER_BY_LANGUAGE (normalize_language language) of
        None \<Rightarrow> DEFAULT_POD_MANAGER_AGENT_ID | Some a \<Rightarrow> a)"

definition resolve_specialist_agent_id :: "string option \<Rightarrow> string" where
  "resolve_specialist_agent_id language =
     (case map_of SPECIALIST_BY_LANGUAGE (normalize_language language) of
        None \<Rightarrow> DEFAULT_SPECIALIST_AGENT_ID | Some a \<Rightarrow> a)"

text \<open>\<open>isinstance(value, bool) and value\<close> for one of the two exemption flags.\<close>

definition completion_policy_exempt :: "pyval \<Rightarrow> bool" where
  "completion_policy_exempt metadata =
     (case metadata of
        PDict d \<Rightarrow> (\<exists>k \<in> set [''completion_policy_exempt'', ''allow_empty_artifacts''].
                      dget d k = PBool True)
      | _ \<Rightarrow> False)"

section \<open>The chain defaults\<close>

text \<open>
  \<open>with_chain_defaults\<close> copies the document, stamps the routing fields, picks the selected agent
  from four fields (the PM when none is a non-blank string), and keeps only the dict records of the
  trace.
\<close>

definition selected_from :: "pydict \<Rightarrow> pyval" where
  "selected_from d =
     py_or (dget d ''selected_agent_id'')
       (py_or (dget d ''target_agent_id'')
         (py_or (dget d ''assigned_agent_id'') (dget d ''agent_id'')))"

definition with_chain_defaults :: "pyval \<Rightarrow> string option \<Rightarrow> pydict" where
  "with_chain_defaults metadata requested_target_language =
     (let d0 = dict_or_empty metadata;
          d1 = dset ''routing_version'' (PStr ROUTING_VERSION) d0;
          d2 = dset ''routing_enforced'' (PBool True) d1;
          d3 = dset ''intake_agent_id'' (PStr PM_AGENT_ID) d2;
          d4 = dset ''executive_agent_id'' (PStr CEO_AGENT_ID) d3;
          d5 = dset ''expected_pod_manager_agent_id''
                 (PStr (resolve_pod_manager_agent_id requested_target_language)) d4;
          d6 = dset ''expected_specialist_agent_id''
                 (PStr (resolve_specialist_agent_id requested_target_language)) d5;
          selected = (case normalize_agent_id (selected_from d6) of
                        None \<Rightarrow> PM_AGENT_ID | Some a \<Rightarrow> a);
          d7 = dset ''selected_agent_id'' (PStr selected) d6;
          d8 = dset ''agent_id'' (PStr selected) d7
      in case dget d8 ''chain_trace'' of
           PList tr \<Rightarrow> dset ''chain_trace'' (PList (filter is_dict tr)) d8
         | _ \<Rightarrow> dset ''chain_trace'' (PList []) d8)"

section \<open>The chain trace\<close>

definition chain_record :: "string \<Rightarrow> string \<Rightarrow> pydict \<Rightarrow> string \<Rightarrow> pyval" where
  "chain_record event_type aid details ts =
     (let r = [(''event_type'', PStr event_type), (''agent_id'', PStr aid), (''ts'', PStr ts)]
      in PDict (if details = [] then r else r @ [(''details'', PDict details)]))"

definition append_chain_event :: "pydict \<Rightarrow> string \<Rightarrow> string \<Rightarrow> pydict \<Rightarrow> string \<Rightarrow> pydict" where
  "append_chain_event metadata event_type aid details now =
     (let trace = list_or_empty (dget metadata ''chain_trace'');
          d1 = dset ''chain_trace'' (PList (trace @ [chain_record event_type aid details now])) metadata;
          d2 = dset ''last_chain_event_type'' (PStr event_type) d1
      in dset ''last_chain_event_at'' (PStr now) d2)"

definition record_event_type :: "pydict \<Rightarrow> string" where
  "record_event_type r = py_upper (py_str (dget_or r ''event_type'' (PStr [])))"

text \<open>
  \<open>_chain_event_exists\<close> iterates over \<open>metadata.get("chain_trace", [])\<close>: over the elements of a
  list, over the keys of a dict and the characters of a string, which are no dicts. Any other value
  of the field is not iterable, a \<open>TypeError\<close>.
\<close>

definition is_event_record :: "string \<Rightarrow> pyval \<Rightarrow> bool" where
  "is_event_record event_type r =
     (case r of PDict d \<Rightarrow> record_event_type d = event_type | _ \<Rightarrow> False)"

definition chain_event_exists :: "pydict \<Rightarrow> string \<Rightarrow> bool res" where
  "chain_event_exists metadata event_type =
     (case dget_or metadata ''chain_trace'' (PList []) of
        PList tr \<Rightarrow> Inr (\<exists>r \<in> set tr. is_event_record event_type r)
      | PDict _ \<Rightarrow> Inr False
      | PStr _ \<Rightarrow> Inr False
      | _ \<Rightarrow> Inl TypeError)"

text \<open>\<open>_restate_chain_event\<close>: rewrite the newest record of that type in place.\<close>

definition restated :: "string \<Rightarrow> pydict \<Rightarrow> string \<Rightarrow> pydict \<Rightarrow> pydict" where
  "restated aid details now r =
     dset ''restated'' (PBool True)
       (dset ''ts'' (PStr now) (dset ''details'' (PDict details) (dset ''agent_id'' (PStr aid) r)))"

fun restate_first :: "string \<Rightarrow> (pydict \<Rightarrow> pydict) \<Rightarrow> pyval list \<Rightarrow> pyval list option" where
  "restate_first ev f [] = None"
| "restate_first ev f (r # rs) =
     (case r of
        PDict d \<Rightarrow> if record_event_type d = ev then Some (PDict (f d) # rs)
                  else map_option (Cons r) (restate_first ev f rs)
      | _ \<Rightarrow> map_option (Cons r) (restate_first ev f rs))"

definition restate_chain_event ::
  "pydict \<Rightarrow> string \<Rightarrow> string \<Rightarrow> pydict \<Rightarrow> string \<Rightarrow> bool \<times> pydict" where
  "restate_chain_event metadata event_type aid details now =
     (case dget metadata ''chain_trace'' of
        PList trace \<Rightarrow>
          (case restate_first event_type (restated aid details now) (rev trace) of
             None \<Rightarrow> (False, metadata)
           | Some rtr \<Rightarrow>
               (True, dset ''last_chain_event_at'' (PStr now)
                        (dset ''last_chain_event_type'' (PStr event_type)
                           (dset ''chain_trace'' (PList (rev rtr)) metadata))))
      | _ \<Rightarrow> (False, metadata))"

definition validate_agent_id :: "pyval \<Rightarrow> string \<Rightarrow> string" where
  "validate_agent_id candidate fallback =
     (let normalized = py_upper (py_strip (str_or_empty candidate))
      in if normalized \<in> set VALID_AGENT_IDS then normalized else fallback)"

definition record_artifact ::
  "pydict \<Rightarrow> string \<Rightarrow> string \<Rightarrow> string \<Rightarrow> pydict \<Rightarrow> string \<Rightarrow> pydict" where
  "record_artifact metadata stage event_type aid details now =
     (let artifacts = dict_or_empty (dget metadata ''mission_artifacts'');
          entry = PDict [(''event_type'', PStr event_type), (''agent_id'', PStr aid),
                         (''recorded_at'', PStr now), (''details'', PDict details)]
      in dset ''mission_artifacts'' (PDict (dset stage entry artifacts)) metadata)"


section \<open>Lemmas on the chain defaults\<close>

lemma normalize_agent_id_Some:
  "normalize_agent_id v = Some a \<Longrightarrow> a \<noteq> [] \<and> normalize_agent_id (PStr a) = Some a"
  by (auto simp: normalize_agent_id_def Let_def split: if_splits)

definition chain_selected :: "pydict \<Rightarrow> string" where
  "chain_selected d = (case normalize_agent_id (selected_from d) of None \<Rightarrow> PM_AGENT_ID | Some a \<Rightarrow> a)"

definition chain_trace_of :: "pydict \<Rightarrow> pyval list" where
  "chain_trace_of d = filter is_dict (list_or_empty (dget d ''chain_trace''))"

lemma chain_selected_stable: "normalize_agent_id (PStr (chain_selected d)) = Some (chain_selected d)"
proof (cases "normalize_agent_id (selected_from d)")
  case None
  have "normalize_agent_id (PStr PM_AGENT_ID) = Some PM_AGENT_ID" by code_simp
  with None show ?thesis by (simp add: chain_selected_def)
next
  case (Some a)
  then show ?thesis using normalize_agent_id_Some by (simp add: chain_selected_def)
qed

lemma chain_selected_not_Nil: "chain_selected d \<noteq> []"
  using normalize_agent_id_Some [OF chain_selected_stable [of d]] by blast

lemma selected_from_dset [simp]:
  "k \<notin> {''selected_agent_id'', ''target_agent_id'', ''assigned_agent_id'', ''agent_id''} \<Longrightarrow>
   selected_from (dset k v d) = selected_from d"
  by (auto simp: selected_from_def)

text \<open>The document \<open>with_chain_defaults\<close> returns, field by field.\<close>

lemma map_of_with_chain_defaults:
  fixes m l
  defines "d \<equiv> dict_or_empty m"
  shows "map_of (with_chain_defaults m l) = (map_of d)
    (''routing_version'' \<mapsto> PStr ROUTING_VERSION, ''routing_enforced'' \<mapsto> PBool True,
     ''intake_agent_id'' \<mapsto> PStr PM_AGENT_ID, ''executive_agent_id'' \<mapsto> PStr CEO_AGENT_ID,
     ''expected_pod_manager_agent_id'' \<mapsto> PStr (resolve_pod_manager_agent_id l),
     ''expected_specialist_agent_id'' \<mapsto> PStr (resolve_specialist_agent_id l),
     ''selected_agent_id'' \<mapsto> PStr (chain_selected d), ''agent_id'' \<mapsto> PStr (chain_selected d),
     ''chain_trace'' \<mapsto> PList (chain_trace_of d))"
  unfolding with_chain_defaults_def d_def [symmetric] Let_def
  by (auto simp: chain_selected_def chain_trace_of_def split: pyval.splits)

lemma dget_with_chain_defaults:
  "dget (with_chain_defaults m l) ''selected_agent_id'' = PStr (chain_selected (dict_or_empty m))"
  "dget (with_chain_defaults m l) ''chain_trace'' = PList (chain_trace_of (dict_or_empty m))"
  by (simp_all add: dget_def map_of_with_chain_defaults)

lemma with_chain_defaults_frame:
  assumes "k \<notin> {''routing_version'', ''routing_enforced'', ''intake_agent_id'',
    ''executive_agent_id'', ''expected_pod_manager_agent_id'', ''expected_specialist_agent_id'',
    ''selected_agent_id'', ''agent_id'', ''chain_trace''}"
  shows "map_of (with_chain_defaults m l) k = map_of (dict_or_empty m) k"
  using assms by (simp add: map_of_with_chain_defaults)

lemma distinct_with_chain_defaults:
  "distinct (dkeys (dict_or_empty m)) \<Longrightarrow> distinct (dkeys (with_chain_defaults m l))"
  by (simp add: with_chain_defaults_def Let_def split: pyval.splits)

lemma chain_trace_of_defaults:
  "chain_trace_of (with_chain_defaults m l) = chain_trace_of (dict_or_empty m)"
  by (simp add: chain_trace_of_def dget_with_chain_defaults)

lemma chain_selected_defaults:
  "chain_selected (with_chain_defaults m l) = chain_selected (dict_or_empty m)"
proof -
  have "selected_from (with_chain_defaults m l) = PStr (chain_selected (dict_or_empty m))"
    by (simp add: selected_from_def dget_with_chain_defaults py_or_def chain_selected_not_Nil)
  then show ?thesis
    by (simp add: chain_selected_def [of "with_chain_defaults m l"] chain_selected_stable)
qed

section \<open>Lemmas on the chain trace\<close>

lemma dget_append_chain_event:
  "dget (append_chain_event d e a det now) k =
     (if k = ''last_chain_event_at'' then PStr now
      else if k = ''last_chain_event_type'' then PStr e
      else if k = ''chain_trace''
        then PList (list_or_empty (dget d ''chain_trace'') @ [chain_record e a det now])
      else dget d k)"
  by (simp add: append_chain_event_def Let_def)

lemma record_event_type_chain_record:
  "chain_record e a det now = PDict r \<Longrightarrow> record_event_type r = py_upper e"
  by (auto simp: chain_record_def record_event_type_def Let_def dget_or_def split: if_splits)

lemma is_event_record_chain_record:
  "is_event_record ev (chain_record e a det now) \<longleftrightarrow> py_upper e = ev"
  by (auto simp: is_event_record_def chain_record_def record_event_type_def Let_def dget_or_def)

lemma chain_event_exists_list:
  assumes "dget d ''chain_trace'' = PList tr"
  shows "chain_event_exists d e = Inr (\<exists>r \<in> set tr. is_event_record e r)"
proof -
  from assms have "map_of d ''chain_trace'' = Some (PList tr)"
    by (auto simp: dget_def split: option.splits)
  then show ?thesis by (simp add: chain_event_exists_def dget_or_def)
qed

lemma restate_first_spec:
  "restate_first e f rs = Some rs' \<Longrightarrow>
     (\<exists>us r vs. rs = us @ PDict r # vs \<and> rs' = us @ PDict (f r) # vs \<and> record_event_type r = e
        \<and> (\<forall>u \<in> set us. \<not> is_event_record e u))"
proof (induction rs arbitrary: rs')
  case (Cons r rs)
  show ?case
  proof (cases "is_event_record e r")
    case True
    then obtain d where "r = PDict d" "record_event_type d = e"
      by (auto simp: is_event_record_def split: pyval.splits)
    with Cons.prems show ?thesis
      by (intro exI [of _ "[]"] exI [of _ d] exI [of _ rs]) auto
  next
    case False
    with Cons.prems obtain ts where ts: "restate_first e f rs = Some ts" "rs' = r # ts"
      by (auto simp: is_event_record_def split: pyval.splits if_splits)
    from Cons.IH [OF ts(1)] obtain us d vs where
      "rs = us @ PDict d # vs" "ts = us @ PDict (f d) # vs" "record_event_type d = e"
      "\<forall>u \<in> set us. \<not> is_event_record e u" by blast
    with False ts(2) show ?thesis
      by (intro exI [of _ "r # us"] exI [of _ d] exI [of _ vs]) auto
  qed
qed simp

lemma restate_first_None: "restate_first e f rs = None \<longleftrightarrow> (\<forall>r \<in> set rs. \<not> is_event_record e r)"
  by (induction rs) (auto simp: is_event_record_def split: pyval.splits)

lemma record_event_type_restated [simp]:
  "record_event_type (restated a det now r) = record_event_type r"
  by (simp add: restated_def record_event_type_def)

section \<open>Lemmas on the routing tables\<close>

definition find_agent :: "string \<Rightarrow> agent option" where
  "find_agent aid = List.find (\<lambda>a. agent_id a = aid) AGENT_REGISTRY"

lemma find_agent_Some: "find_agent aid = Some a \<Longrightarrow> a \<in> set AGENT_REGISTRY \<and> agent_id a = aid"
  by (auto simp: find_agent_def find_Some_iff)

text \<open>One language's route, as a check on the registry.\<close>

definition route_ok :: "string \<Rightarrow> string \<Rightarrow> string list \<Rightarrow> bool" where
  "route_ok manager specialist langs =
     (case (find_agent manager, find_agent specialist) of
        (Some m, Some s) \<Rightarrow> agent_category m = ''pod_manager'' \<and> agent_category s = ''specialist''
          \<and> agent_pod m = agent_pod s \<and> list_all (\<lambda>l. List.member (specialties s) l) langs
      | _ \<Rightarrow> False)"

lemma routes_checked:
  "list_all (\<lambda>l. route_ok (the (map_of POD_MANAGER_BY_LANGUAGE l)) (the (map_of SPECIALIST_BY_LANGUAGE l))
      [case map_of LANGUAGE_ALIASES l of None \<Rightarrow> l | Some a \<Rightarrow> a]
      \<and> filter (\<lambda>c. c \<noteq> CHR '' '') l = l \<and> l \<noteq> []) ALL_SUPPORTED_LANGUAGES"
  by code_simp

lemma default_route_checked: "route_ok DEFAULT_POD_MANAGER_AGENT_ID DEFAULT_SPECIALIST_AGENT_ID []"
  by code_simp

lemma routing_keys:
  "map fst POD_MANAGER_BY_LANGUAGE = ALL_SUPPORTED_LANGUAGES"
  "set (map fst SPECIALIST_BY_LANGUAGE) = set ALL_SUPPORTED_LANGUAGES"
proof -
  show "map fst POD_MANAGER_BY_LANGUAGE = ALL_SUPPORTED_LANGUAGES" by code_simp
  have "list_all (List.member ALL_SUPPORTED_LANGUAGES) (map fst SPECIALIST_BY_LANGUAGE)"
    and "list_all (List.member (map fst SPECIALIST_BY_LANGUAGE)) ALL_SUPPORTED_LANGUAGES"
    by code_simp+
  then show "set (map fst SPECIALIST_BY_LANGUAGE) = set ALL_SUPPORTED_LANGUAGES"
    by (auto simp: list_all_iff)
qed

lemma map_of_routing:
  "map_of POD_MANAGER_BY_LANGUAGE l \<noteq> None \<longleftrightarrow> l \<in> set ALL_SUPPORTED_LANGUAGES"
  "map_of SPECIALIST_BY_LANGUAGE l \<noteq> None \<longleftrightarrow> l \<in> set ALL_SUPPORTED_LANGUAGES"
  using routing_keys(2) by (simp_all add: map_of_eq_None_iff routing_keys(1) [symmetric])

lemma route_supported:
  assumes "normalize_language l \<in> set ALL_SUPPORTED_LANGUAGES"
  shows "route_ok (resolve_pod_manager_agent_id l) (resolve_specialist_agent_id l)
     [registry_normalize_language l]"
proof -
  let ?n = "normalize_language l"
  from assms obtain m s where ms: "map_of POD_MANAGER_BY_LANGUAGE ?n = Some m"
    "map_of SPECIALIST_BY_LANGUAGE ?n = Some s"
    by (metis map_of_routing not_None_eq)
  from assms routes_checked
  have ok: "route_ok m s [case map_of LANGUAGE_ALIASES ?n of None \<Rightarrow> ?n | Some a \<Rightarrow> a]"
    and blanks: "filter (\<lambda>c. c \<noteq> CHR '' '') ?n = ?n" and "?n \<noteq> []"
    using ms by (auto simp: list_all_iff)
  obtain v where v: "l = Some v" "?n = py_lower (py_strip v)"
    using \<open>?n \<noteq> []\<close> by (cases l) (simp_all add: normalize_language_def)
  moreover have "v \<noteq> []" using v \<open>?n \<noteq> []\<close> by auto
  ultimately have "l = Some v" "v \<noteq> []" "?n = py_lower (py_strip v)" by blast+
  with blanks have "registry_normalize_language l =
      (case map_of LANGUAGE_ALIASES ?n of None \<Rightarrow> ?n | Some a \<Rightarrow> a)"
    by (simp add: registry_normalize_language_def normalize_language_def Let_def split: option.split)
  with ok ms show ?thesis
    by (simp add: resolve_pod_manager_agent_id_def resolve_specialist_agent_id_def)
qed

lemma route_unsupported:
  assumes "normalize_language l \<notin> set ALL_SUPPORTED_LANGUAGES"
  shows "route_ok (resolve_pod_manager_agent_id l) (resolve_specialist_agent_id l) []"
proof -
  from assms have "map_of POD_MANAGER_BY_LANGUAGE (normalize_language l) = None"
    "map_of SPECIALIST_BY_LANGUAGE (normalize_language l) = None"
    by (metis map_of_routing)+
  then show ?thesis using default_route_checked
    by (simp add: resolve_pod_manager_agent_id_def resolve_specialist_agent_id_def)
qed

lemma route_okD:
  assumes "route_ok manager specialist langs"
  shows "\<exists>m \<in> set AGENT_REGISTRY. \<exists>s \<in> set AGENT_REGISTRY. agent_id m = manager
     \<and> agent_category m = ''pod_manager'' \<and> agent_id s = specialist
     \<and> agent_category s = ''specialist'' \<and> agent_pod m = agent_pod s
     \<and> set langs \<subseteq> set (specialties s)"
  using assms by (auto simp: route_ok_def list_all_iff split: option.splits dest!: find_agent_Some)

lemma supported_iff_normalized:
  "is_language_supported l \<Longrightarrow> normalize_language l \<in> set ALL_SUPPORTED_LANGUAGES"
  by (auto simp: is_language_supported_def normalize_language_def split: option.splits)

section \<open>Properties\<close>

text \<open>Idempotence of the chain defaults: normalising a document that
  \<open>with_chain_defaults\<close> already produced returns the very same document, in the same key order.\<close>

theorem with_chain_defaults_idem:
  "with_chain_defaults (PDict (with_chain_defaults m l)) l = with_chain_defaults m l"
proof -
  define d where "d = with_chain_defaults m l"
  have map: "map_of d = map_of (with_chain_defaults m l)" by (simp add: d_def)
  have sel: "chain_selected d = chain_selected (dict_or_empty m)"
    by (simp add: d_def chain_selected_defaults)
  have tr: "dget d ''chain_trace'' = PList (chain_trace_of (dict_or_empty m))"
    by (simp add: d_def dget_with_chain_defaults)
  have "with_chain_defaults (PDict d) l = d"
    unfolding with_chain_defaults_def Let_def
    by (simp add: dset_same map map_of_with_chain_defaults chain_selected_def [symmetric] sel tr
        chain_trace_of_def)
  then show ?thesis by (simp add: d_def)
qed

text \<open>Routing always lands in the registry: whatever the requested language (none, unknown
  or supported), the chosen pod manager and specialist are registered agents of those categories in
  one and the same pod; and for a supported language the specialist lists that language among its
  specialties.\<close>

theorem routing_in_registry:
  "\<exists>m \<in> set AGENT_REGISTRY. \<exists>s \<in> set AGENT_REGISTRY.
     agent_id m = resolve_pod_manager_agent_id l \<and> agent_category m = ''pod_manager''
   \<and> agent_id s = resolve_specialist_agent_id l \<and> agent_category s = ''specialist''
   \<and> agent_pod m = agent_pod s
   \<and> (\<not> is_language_supported l \<or> registry_normalize_language l \<in> set (specialties s))"
proof (cases "normalize_language l \<in> set ALL_SUPPORTED_LANGUAGES")
  case True
  from route_okD [OF route_supported [OF True]] show ?thesis by fastforce
next
  case False
  then have "\<not> is_language_supported l" using supported_iff_normalized by blast
  with route_okD [OF route_unsupported [OF False]] show ?thesis by fastforce
qed

theorem routing_in_registry_witness:
  "is_language_supported (Some ''  TypeScript '')
   \<and> (\<exists>s \<in> set AGENT_REGISTRY. agent_id s = resolve_specialist_agent_id (Some ''  TypeScript '')
        \<and> registry_normalize_language (Some ''  TypeScript '') \<in> set (specialties s))"
proof -
  have sup: "is_language_supported (Some ''  TypeScript '')" by code_simp
  with routing_in_registry [of "Some ''  TypeScript ''"] show ?thesis by auto
qed

text \<open>The taxonomy module's pod managers are not the routed ones: for every supported
  language \<open>get_pod_manager_for_language\<close> answers with an agent id that no registry entry has,
  although the module calls itself the single source of truth for pod-manager ids.\<close>

theorem taxonomy_managers_unregistered:
  "\<forall>l \<in> set ALL_SUPPORTED_LANGUAGES.
     \<exists>a. get_pod_manager_for_language (Some l) = Some a \<and> a \<notin> set VALID_AGENT_IDS
       \<and> a \<noteq> resolve_pod_manager_agent_id (Some l)"
proof -
  have "list_all (\<lambda>l. case get_pod_manager_for_language (Some l) of None \<Rightarrow> False
     | Some a \<Rightarrow> \<not> List.member VALID_AGENT_IDS a \<and> a \<noteq> resolve_pod_manager_agent_id (Some l))
     ALL_SUPPORTED_LANGUAGES"
    by code_simp
  then show ?thesis by (fastforce simp: list_all_iff split: option.splits)
qed

theorem taxonomy_managers_unregistered_witness:
  "''rust'' \<in> set ALL_SUPPORTED_LANGUAGES
   \<and> (\<exists>a. get_pod_manager_for_language (Some ''rust'') = Some a \<and> a \<notin> set VALID_AGENT_IDS)"
proof -
  have "''rust'' \<in> set ALL_SUPPORTED_LANGUAGES" by (simp add: ALL_SUPPORTED_LANGUAGES_def)
  with taxonomy_managers_unregistered show ?thesis by blast
qed

text \<open>Restating an outcome: \<open>_restate_chain_event\<close> answers true exactly when the trace has a
  record of that type, and then it rewrites the newest such record and nothing else: the older
  records, the newer records and the length of the trace are kept, and the type is still there.\<close>

theorem restate_chain_event_spec:
  assumes "dget d ''chain_trace'' = PList tr"
  shows "(fst (restate_chain_event d e a det now) \<longleftrightarrow> chain_event_exists d e = Inr True)
   \<and> (if fst (restate_chain_event d e a det now)
      then \<exists>us r vs. tr = us @ PDict r # vs \<and> (\<forall>v \<in> set vs. \<not> is_event_record e v)
        \<and> dget (snd (restate_chain_event d e a det now)) ''chain_trace''
            = PList (us @ PDict (restated a det now r) # vs)
        \<and> record_event_type (restated a det now r) = e
      else snd (restate_chain_event d e a det now) = d)"
proof (cases "restate_first e (restated a det now) (rev tr)")
  case None
  then have "\<forall>r \<in> set tr. \<not> is_event_record e r" by (simp add: restate_first_None)
  with None assms show ?thesis by (simp add: restate_chain_event_def chain_event_exists_list)
next
  case (Some rtr)
  from restate_first_spec [OF Some] obtain us r vs where spec:
    "rev tr = us @ PDict r # vs" "rtr = us @ PDict (restated a det now r) # vs"
    "record_event_type r = e" "\<forall>u \<in> set us. \<not> is_event_record e u" by blast
  then have tr: "tr = rev vs @ PDict r # rev us" by (metis append.assoc append_Cons append_Nil
        rev.simps(2) rev_append rev_rev_ident)
  have ex: "chain_event_exists d e = Inr True"
    using assms spec(3) by (auto simp: chain_event_exists_list tr is_event_record_def)
  have found: "fst (restate_chain_event d e a det now)"
    using assms Some by (simp add: restate_chain_event_def)
  have "tr = rev vs @ PDict r # rev us \<and> (\<forall>v \<in> set (rev us). \<not> is_event_record e v)
      \<and> dget (snd (restate_chain_event d e a det now)) ''chain_trace''
          = PList (rev vs @ PDict (restated a det now r) # rev us)
      \<and> record_event_type (restated a det now r) = e"
    using assms Some spec tr by (simp add: restate_chain_event_def)
  then show ?thesis using ex found by metis
qed

theorem restate_chain_event_spec_witness:
  "dget (append_chain_event [] ''GATE'' ''A'' [] ''t0'') ''chain_trace''
     = PList [chain_record ''GATE'' ''A'' [] ''t0'']
   \<and> (fst (restate_chain_event (append_chain_event [] ''GATE'' ''A'' [] ''t0'') ''GATE'' ''B'' [] ''t1'')
      \<longleftrightarrow> chain_event_exists (append_chain_event [] ''GATE'' ''A'' [] ''t0'') ''GATE'' = Inr True)"
proof -
  have h: "dget (append_chain_event [] ''GATE'' ''A'' [] ''t0'') ''chain_trace''
     = PList [chain_record ''GATE'' ''A'' [] ''t0'']"
    by (simp add: dget_append_chain_event)
  from restate_chain_event_spec [OF h, of "''GATE''" "''B''" "[]" "''t1''"] h show ?thesis by blast
qed

end
