(* ===== verification/Agent_Scaling.thy ===== *)
theory Agent_Scaling
  imports Factory_Prelude
begin

text \<open>
  Dynamic agent scaling, \<open>orchestrator/agent_scaling.py\<close>: how many specialist instances a workload
  gets, its round-robin partition, the metadata encoding of the decision, the collection of
  partition results and their merge. The random suffix of a partition id is the argument \<open>uuid\<close>
  (one text per partition index), the clock is \<open>now\<close>. Counts are Python integers.
\<close>

section \<open>Data\<close>

definition SCALING_VERSION :: string where "SCALING_VERSION = ''v1''"

definition ABSOLUTE_MAX_INSTANCES :: int where "ABSOLUTE_MAX_INSTANCES = 8"

definition SCALABLE_AGENT_IDS :: "string list" where
  "SCALABLE_AGENT_IDS =
     [''AGENT-14-PYTHON'', ''AGENT-15-JAVASCRIPT'', ''AGENT-16-RUBY'', ''AGENT-17-PHP'',
      ''AGENT-20-C'', ''AGENT-21-CPP'', ''AGENT-22-RUST'', ''AGENT-23-ZIG'', ''AGENT-36-GO'',
      ''AGENT-26-JAVA'', ''AGENT-27-CSHARP'', ''AGENT-28-SCALA'', ''AGENT-29-KOTLIN'',
      ''AGENT-32-MATLAB'', ''AGENT-33-R'', ''AGENT-34-JULIA'', ''AGENT-35-MATHEMATICA'',
      ''AGENT-37-HASKELL'', ''AGENT-38-OCAML'']"

record WorkPartition =
  wp_partition_id :: string
  wp_instance_index :: int
  wp_total_instances :: int
  wp_assigned_items :: "pyval list"

record ScalingDecision =
  sd_agent_id :: string
  sd_instance_count :: int
  sd_partitions :: "WorkPartition list"
  sd_reason :: string
  sd_scaling_version :: string
  sd_decided_at :: string

record PartitionResult =
  pr_partition_id :: string
  pr_instance_index :: int
  pr_agent_id :: string
  pr_logicnodes :: "pyval list"
  pr_artifacts :: "pyval list"
  pr_report :: pydict
  pr_completed_at :: string

record MergedResult =
  mr_logicnodes :: "pyval list"
  mr_artifacts :: "pyval list"
  mr_partition_count :: int
  mr_merge_strategy :: string
  mr_merged_at :: string

text \<open>The \<open>__post_init__\<close> hooks: an empty time stamp becomes the current time.\<close>

definition stamped :: "string \<Rightarrow> string \<Rightarrow> string" where
  "stamped now t = (if t = [] then now else t)"

definition mk_PartitionResult ::
  "string \<Rightarrow> string \<Rightarrow> int \<Rightarrow> string \<Rightarrow> pyval list \<Rightarrow> pyval list \<Rightarrow> pydict \<Rightarrow> string \<Rightarrow> PartitionResult" where
  "mk_PartitionResult now pid idx aid lns arts rep completed =
     \<lparr>pr_partition_id = pid, pr_instance_index = idx, pr_agent_id = aid, pr_logicnodes = lns,
      pr_artifacts = arts, pr_report = rep, pr_completed_at = stamped now completed\<rparr>"

definition WorkPartition_to_dict :: "WorkPartition \<Rightarrow> pyval" where
  "WorkPartition_to_dict p = PDict
     [(''partition_id'', PStr (wp_partition_id p)), (''instance_index'', PInt (wp_instance_index p)),
      (''total_instances'', PInt (wp_total_instances p)),
      (''assigned_items'', PList (wp_assigned_items p))]"

definition ScalingDecision_to_dict :: "ScalingDecision \<Rightarrow> pyval" where
  "ScalingDecision_to_dict d = PDict
     [(''agent_id'', PStr (sd_agent_id d)), (''instance_count'', PInt (sd_instance_count d)),
      (''partitions'', PList (map WorkPartition_to_dict (sd_partitions d))),
      (''reason'', PStr (sd_reason d)), (''scaling_version'', PStr (sd_scaling_version d)),
      (''decided_at'', PStr (sd_decided_at d))]"

definition PartitionResult_to_dict :: "PartitionResult \<Rightarrow> pyval" where
  "PartitionResult_to_dict r = PDict
     [(''partition_id'', PStr (pr_partition_id r)), (''instance_index'', PInt (pr_instance_index r)),
      (''agent_id'', PStr (pr_agent_id r)), (''logicnodes'', PList (pr_logicnodes r)),
      (''artifacts'', PList (pr_artifacts r)), (''report'', PDict (pr_report r)),
      (''completed_at'', PStr (pr_completed_at r))]"

definition MergedResult_to_dict :: "MergedResult \<Rightarrow> pyval" where
  "MergedResult_to_dict m = PDict
     [(''logicnodes'', PList (mr_logicnodes m)), (''artifacts'', PList (mr_artifacts m)),
      (''partition_count'', PInt (mr_partition_count m)),
      (''merge_strategy'', PStr (mr_merge_strategy m)), (''merged_at'', PStr (mr_merged_at m))]"

section \<open>Partitioning\<close>

text \<open>The loop \<open>buckets[idx % n].append(item)\<close> over \<open>enumerate(items)\<close>.\<close>

fun fill_buckets :: "nat \<Rightarrow> nat \<Rightarrow> 'a list \<Rightarrow> 'a list list \<Rightarrow> 'a list list" where
  "fill_buckets n idx [] bs = bs"
| "fill_buckets n idx (x # xs) bs =
     fill_buckets n (Suc idx) xs (bs[idx mod n := bs ! (idx mod n) @ [x]])"

definition effective_count :: "string list \<Rightarrow> int \<Rightarrow> nat" where
  "effective_count items instance_count =
     nat (max 1 (min instance_count (if items \<noteq> [] then int (length items) else 1)))"

definition partition_workload ::
  "(nat \<Rightarrow> string) \<Rightarrow> string list \<Rightarrow> int \<Rightarrow> WorkPartition list" where
  "partition_workload uuid items instance_count =
     (let n = effective_count items instance_count;
          buckets = fill_buckets n 0 items (replicate n [])
      in map (\<lambda>(i, bucket).
            \<lparr>wp_partition_id = ''p'' @ nat_str i @ ''-'' @ take 8 (uuid i), wp_instance_index = int i,
             wp_total_instances = int n, wp_assigned_items = map PStr bucket\<rparr>)
         (List.enumerate 0 buckets))"

definition is_scalable_agent :: "string \<Rightarrow> bool" where
  "is_scalable_agent aid = (py_upper (py_strip aid) \<in> set SCALABLE_AGENT_IDS)"

text \<open>
  \<open>math.ceil(item_count / effective_items_per)\<close> is a float division; for list lengths (below
  \<open>2 ^ 53\<close>) the rounded quotient never crosses an integer, so it is the exact ceiling.
\<close>

definition ceil_div :: "int \<Rightarrow> int \<Rightarrow> int" where
  "ceil_div a b = (a + b - 1) div b"

definition compute_scaling_decision ::
  "(nat \<Rightarrow> string) \<Rightarrow> string \<Rightarrow> string \<Rightarrow> string list \<Rightarrow> int \<Rightarrow> int \<Rightarrow> ScalingDecision" where
  "compute_scaling_decision uuid now aid workload_items max_instances items_per_instance =
     (let normalized_agent_id = py_upper (py_strip aid);
          effective_max = min (max 1 max_instances) ABSOLUTE_MAX_INSTANCES;
          effective_items_per = max 1 items_per_instance;
          item_count = int (length workload_items)
      in if item_count \<le> effective_items_per \<or> \<not> is_scalable_agent normalized_agent_id
         then \<lparr>sd_agent_id = normalized_agent_id, sd_instance_count = 1,
               sd_partitions = partition_workload uuid workload_items 1,
               sd_reason = ''single_instance:item_count='' @ int_str item_count,
               sd_scaling_version = SCALING_VERSION, sd_decided_at = now\<rparr>
         else let desired = max 1 (min effective_max (ceil_div item_count effective_items_per))
              in \<lparr>sd_agent_id = normalized_agent_id, sd_instance_count = desired,
                  sd_partitions = partition_workload uuid workload_items desired,
                  sd_reason = ''scaled:'' @ int_str desired @ ''_instances:item_count=''
                    @ int_str item_count @ '':items_per_instance='' @ int_str effective_items_per,
                  sd_scaling_version = SCALING_VERSION, sd_decided_at = now\<rparr>)"

section \<open>Merging\<close>

definition merge_partition_results :: "string \<Rightarrow> PartitionResult list \<Rightarrow> MergedResult" where
  "merge_partition_results now results =
     (let sorted_results = sort_key pr_instance_index results
      in \<lparr>mr_logicnodes = concat (map pr_logicnodes sorted_results),
          mr_artifacts = concat (map pr_artifacts sorted_results),
          mr_partition_count = int (length sorted_results),
          mr_merge_strategy = ''concatenate_by_partition_order'', mr_merged_at = now\<rparr>)"

section \<open>The decision in mission metadata\<close>

text \<open>\<open>tuple(value)\<close>: the elements of a list, the characters of a string, the keys of a dict.\<close>

fun py_tuple :: "pyval \<Rightarrow> pyval list res" where
  "py_tuple (PList xs) = Inr xs"
| "py_tuple (PStr s) = Inr (map (\<lambda>c. PStr [c]) s)"
| "py_tuple (PDict d) = Inr (map (\<lambda>(k, v). PStr k) d)"
| "py_tuple _ = Inl TypeError"

definition WorkPartition_of :: "pydict \<Rightarrow> WorkPartition res" where
  "WorkPartition_of p =
     rbind (py_int (dget_or p ''instance_index'' (PInt 0))) (\<lambda>idx.
     rbind (py_int (dget_or p ''total_instances'' (PInt 1))) (\<lambda>tot.
     rbind (py_tuple (dget_or p ''assigned_items'' (PList []))) (\<lambda>items.
       Inr \<lparr>wp_partition_id = py_str (dget_or p ''partition_id'' (PStr [])),
            wp_instance_index = idx, wp_total_instances = tot, wp_assigned_items = items\<rparr>)))"

definition dicts_of :: "pyval list \<Rightarrow> pydict list" where
  "dicts_of xs = map dict_or_empty (filter is_dict xs)"

definition scaling_decision_from_metadata ::
  "string \<Rightarrow> pydict \<Rightarrow> ScalingDecision option res" where
  "scaling_decision_from_metadata now metadata =
     (case dget metadata ''scaling_decision'' of
        PDict raw \<Rightarrow>
          (case dget raw ''partitions'' of
             PList partitions_raw \<Rightarrow>
               rbind (rmap WorkPartition_of (dicts_of partitions_raw)) (\<lambda>partitions.
               rbind (py_int (dget_or raw ''instance_count'' (PInt 1))) (\<lambda>count.
                 Inr (Some \<lparr>sd_agent_id = py_str (dget_or raw ''agent_id'' (PStr [])),
                   sd_instance_count = count, sd_partitions = partitions,
                   sd_reason = py_str (dget_or raw ''reason'' (PStr [])),
                   sd_scaling_version = py_str (dget_or raw ''scaling_version'' (PStr SCALING_VERSION)),
                   sd_decided_at = stamped now (py_str (dget_or raw ''decided_at'' (PStr [])))\<rparr>)))
           | _ \<Rightarrow> Inr None)
      | _ \<Rightarrow> Inr None)"

definition embed_scaling_decision :: "pydict \<Rightarrow> ScalingDecision \<Rightarrow> pydict" where
  "embed_scaling_decision metadata decision =
     dset ''scaling_version'' (PStr (sd_scaling_version decision))
       (dset ''scaling_active'' (PBool (sd_instance_count decision > 1))
         (dset ''scaling_decision'' (ScalingDecision_to_dict decision) metadata))"

definition all_partitions_complete :: "string \<Rightarrow> pydict \<Rightarrow> bool res" where
  "all_partitions_complete now metadata =
     rbind (scaling_decision_from_metadata now metadata) (\<lambda>decision.
       case decision of
         None \<Rightarrow> Inr True
       | Some d \<Rightarrow>
           if sd_instance_count d \<le> 1 then Inr True
           else case dget metadata ''partition_results'' of
                  PDict results \<Rightarrow>
                    Inr (set (map wp_partition_id (sd_partitions d)) \<subseteq> set (dkeys results))
                | _ \<Rightarrow> Inr False)"

definition record_partition_result :: "pydict \<Rightarrow> PartitionResult \<Rightarrow> pydict" where
  "record_partition_result metadata result =
     dset ''partition_results''
       (PDict (dset (pr_partition_id result) (PartitionResult_to_dict result)
                 (dict_or_empty (dget metadata ''partition_results''))))
       metadata"


section \<open>Lemmas on the round robin\<close>

lemma length_fill_buckets [simp]: "length (fill_buckets n idx xs bs) = length bs"
  by (induction n idx xs bs rule: fill_buckets.induct) auto

lemma fill_buckets_nth:
  assumes "length bs = n" and "i < n"
  shows "fill_buckets n idx xs bs ! i = bs ! i @ nths xs {j. (idx + j) mod n = i}"
  using assms
proof (induction xs arbitrary: idx bs)
  case (Cons x xs)
  let ?bs = "bs[idx mod n := bs ! (idx mod n) @ [x]]"
  have "fill_buckets n (Suc idx) xs ?bs ! i = ?bs ! i @ nths xs {j. (Suc idx + j) mod n = i}"
    using Cons by (intro Cons.IH) auto
  moreover have "{j. (Suc idx + j) mod n = i} = {j. Suc j \<in> {j. (idx + j) mod n = i}}" by simp
  ultimately show ?case using Cons.prems by (auto simp: nths_Cons nth_list_update)
qed simp

lemma mset_concat_update:
  "k < length bs \<Longrightarrow> mset (concat (bs[k := bs ! k @ [x]])) = add_mset x (mset (concat bs))"
proof -
  assume k: "k < length bs"
  then have "concat bs = concat (take k bs @ bs ! k # drop (Suc k) bs)"
    by (simp add: id_take_nth_drop [symmetric])
  with k show ?thesis by (simp add: upd_conv_take_nth_drop)
qed

lemma mset_concat_map: "mset (concat (map f xs)) = (\<Sum>x\<in>#mset xs. mset (f x))"
  by (induction xs) auto

lemma mset_fill_buckets:
  assumes "length bs = n" and "0 < n"
  shows "mset (concat (fill_buckets n idx xs bs)) = mset (concat bs) + mset xs"
  using assms
proof (induction xs arbitrary: idx bs)
  case (Cons x xs)
  then show ?case by (simp add: mset_concat_update)
qed simp

lemma card_residues:
  assumes "i < n"
  shows "card {j. j < L \<and> j mod n = i} = (L + n - 1 - i) div n"
proof (induction L)
  case 0
  from assms show ?case by simp
next
  case (Suc L)
  have fin: "finite {j. j < L \<and> j mod n = i}" by simp
  have split: "{j. j < Suc L \<and> j mod n = i}
      = (if L mod n = i then insert L {j. j < L \<and> j mod n = i} else {j. j < L \<and> j mod n = i})"
    by (auto simp: less_Suc_eq)
  have "(L + n - i) mod n = 0 \<longleftrightarrow> L mod n = i"
  proof -
    have "L + n - i = L + (n - i)" using assms by simp
    then have "(L + n - i) mod n = (L mod n + (n - i)) mod n" by (simp only: mod_add_left_eq)
    also have "\<dots> = 0 \<longleftrightarrow> L mod n = i"
    proof (cases "L mod n < i")
      case True
      then have lt: "L mod n + (n - i) < n" and pos: "0 < L mod n + (n - i)" using assms by auto
      then have "(L mod n + (n - i)) mod n = L mod n + (n - i)" by (simp only: mod_less)
      then show ?thesis using True pos by linarith
    next
      case False
      then have "L mod n + (n - i) = (L mod n - i) + n" using assms by simp
      moreover have "L mod n - i < n" using assms by (simp add: less_imp_diff_less)
      ultimately have "(L mod n + (n - i)) mod n = L mod n - i" by (simp only: mod_add_self2 mod_less)
      then show ?thesis using False by simp
    qed
    finally show ?thesis .
  qed
  moreover have "Suc L + n - 1 - i = Suc (L + n - 1 - i)" using assms by simp
  moreover have "Suc (L + n - 1 - i) = L + n - i" using assms by simp
  ultimately show ?case using Suc.IH fin by (auto simp: split div_Suc)
qed

lemma bucket_size:
  assumes "i < n"
  shows "length (fill_buckets n 0 xs (replicate n []) ! i) = (length xs + n - 1 - i) div n"
  using assms by (simp add: fill_buckets_nth length_nths card_residues)

lemma bucket_size_bounds:
  fixes xs :: "'a list"
  assumes "i < n"
  defines "k \<equiv> length (fill_buckets n 0 xs (replicate n []) ! i)"
  shows "length xs div n \<le> k" and "k \<le> (length xs + n - 1) div n" and "k \<le> length xs div n + 1"
proof -
  have k: "k = (length xs + n - 1 - i) div n" using assms by (simp add: bucket_size)
  show "length xs div n \<le> k" unfolding k by (rule div_le_mono) (use assms in simp)
  show "k \<le> (length xs + n - 1) div n" unfolding k by (rule div_le_mono) simp
  also have "\<dots> \<le> (length xs + n) div n" by (rule div_le_mono) simp
  also have "\<dots> = length xs div n + 1" using assms by (simp add: div_add_self2)
  finally show "k \<le> length xs div n + 1" .
qed

lemma effective_count_pos [simp]: "0 < effective_count items c"
  by (simp add: effective_count_def)

lemma effective_count_eq:
  "1 \<le> c \<Longrightarrow> c \<le> int (length items) \<Longrightarrow> effective_count items c = nat c"
  by (auto simp: effective_count_def)

text \<open>What the i-th partition of a workload is.\<close>

lemma length_partition_workload [simp]:
  "length (partition_workload u items c) = effective_count items c"
  by (simp add: partition_workload_def Let_def)

lemma partition_workload_nth:
  assumes "i < effective_count items c"
  shows "partition_workload u items c ! i =
    \<lparr>wp_partition_id = ''p'' @ nat_str i @ ''-'' @ take 8 (u i), wp_instance_index = int i,
     wp_total_instances = int (effective_count items c),
     wp_assigned_items =
       map PStr (fill_buckets (effective_count items c) 0 items (replicate (effective_count items c) []) ! i)\<rparr>"
  using assms by (simp add: partition_workload_def Let_def nth_enumerate_eq)

lemma partition_ids_distinct: "distinct (map wp_partition_id (partition_workload u items c))"
proof (subst distinct_conv_nth, intro allI impI)
  fix i j
  assume "i < length (map wp_partition_id (partition_workload u items c))"
    and "j < length (map wp_partition_id (partition_workload u items c))" and "i \<noteq> j"
  moreover have "\<not> is_digit (CHR ''-'')" by code_simp
  ultimately show "map wp_partition_id (partition_workload u items c) ! i
      \<noteq> map wp_partition_id (partition_workload u items c) ! j"
    using nat_str_prefix_inj [of i "CHR ''-''" "take 8 (u i)" j "take 8 (u j)"]
    by (auto simp: partition_workload_nth)
qed

lemma partition_items:
  "concat (map wp_assigned_items (partition_workload u items c)) =
     map PStr (concat (fill_buckets (effective_count items c) 0 items
                 (replicate (effective_count items c) [])))"
proof -
  have "map wp_assigned_items (partition_workload u items c) =
      map (map PStr) (fill_buckets (effective_count items c) 0 items
                 (replicate (effective_count items c) []))"
    by (rule nth_equalityI) (simp_all add: partition_workload_nth)
  then show ?thesis by (simp add: map_concat)
qed

lemma partition_size_le:
  assumes "p \<in> set (partition_workload u items n)" and "1 \<le> n" and "n \<le> int (length items)"
    and "1 \<le> e" and "int (length items) \<le> n * e"
  shows "int (length (wp_assigned_items p)) \<le> e"
proof -
  from assms(2-4) obtain k l where kl: "n = int k" "e = int l" "0 < k"
    by (metis nonneg_int_cases not_one_le_zero of_nat_0 gr0I order_trans zero_le_one)
  have ec: "effective_count items n = k" using assms(2,3) kl(1) by (simp add: effective_count_eq)
  from assms(1) obtain i where i: "i < k" "p = partition_workload u items n ! i"
    by (auto simp: in_set_conv_nth ec)
  have "length items \<le> k * l" using assms(5) kl by (metis of_nat_le_iff of_nat_mult)
  then have "(length items + k - 1) div k \<le> (k - 1 + k * l) div k" by (intro div_le_mono) auto
  also have "\<dots> = l + (k - 1) div k" using kl(3) by (intro div_mult_self2) simp
  also have "\<dots> = l" using kl(3) by simp
  finally show ?thesis using bucket_size_bounds(2) [OF i(1), of items] i kl(2)
    by (simp add: partition_workload_nth ec)
qed

lemma mset_partition_items:
  "mset (concat (map wp_assigned_items (partition_workload u items c))) = mset (map PStr items)"
  by (simp add: partition_items mset_fill_buckets)


section \<open>Lemmas on the encoding and the results\<close>

lemma dicts_of_to_dict: "dicts_of (map WorkPartition_to_dict ps) =
    map (dict_or_empty \<circ> WorkPartition_to_dict) ps"
  by (induction ps) (simp_all add: dicts_of_def WorkPartition_to_dict_def)

lemma WorkPartition_roundtrip: "WorkPartition_of (dict_or_empty (WorkPartition_to_dict p)) = Inr p"
  by (cases p) (simp add: WorkPartition_of_def WorkPartition_to_dict_def dget_or_def)

lemma rmap_WorkPartition:
  "rmap WorkPartition_of (map (dict_or_empty \<circ> WorkPartition_to_dict) ps) = Inr ps"
  by (induction ps) (simp_all add: WorkPartition_roundtrip)

lemma dget_embed:
  "dget (embed_scaling_decision m d) ''scaling_decision'' = ScalingDecision_to_dict d"
  "dget (embed_scaling_decision m d) ''partition_results'' = dget m ''partition_results''"
  by (simp_all add: embed_scaling_decision_def)

lemma decision_roundtrip:
  assumes "dget m ''scaling_decision'' = ScalingDecision_to_dict d"
  shows "scaling_decision_from_metadata now m = Inr (Some (d\<lparr>sd_decided_at := stamped now (sd_decided_at d)\<rparr>))"
proof -
  obtain raw where raw: "ScalingDecision_to_dict d = PDict raw"
    by (simp add: ScalingDecision_to_dict_def)
  then have "dget raw ''partitions'' = PList (map WorkPartition_to_dict (sd_partitions d))"
    by (auto simp: ScalingDecision_to_dict_def dget_def)
  with raw assms show ?thesis
    by (cases d) (auto simp: scaling_decision_from_metadata_def dicts_of_to_dict rmap_WorkPartition
        ScalingDecision_to_dict_def dget_or_def)
qed

text \<open>Recording a list of results touches only the result dict, whose keys are the recorded ids.\<close>

fun record_all :: "pydict \<Rightarrow> PartitionResult list \<Rightarrow> pydict" where
  "record_all m [] = m"
| "record_all m (r # rs) = record_all (record_partition_result m r) rs"

lemma record_all_frame: "k \<noteq> ''partition_results'' \<Longrightarrow> dget (record_all m rs) k = dget m k"
  by (induction rs arbitrary: m) (simp_all add: record_partition_result_def)

lemma set_dkeys_dset: "set (dkeys (dset k v d)) = insert k (set (dkeys d))"
  by (simp add: dkeys_dset dhas_iff insert_absorb)

lemma record_all_keys:
  "rs \<noteq> [] \<or> is_dict (dget m ''partition_results'') \<Longrightarrow>
   \<exists>d. dget (record_all m rs) ''partition_results'' = PDict d
     \<and> set (dkeys d) = set (dkeys (dict_or_empty (dget m ''partition_results'')))
                      \<union> pr_partition_id ` set rs"
proof (induction rs arbitrary: m)
  case Nil
  then show ?case by (cases "dget m ''partition_results''") auto
next
  case (Cons r rs)
  let ?m = "record_partition_result m r"
  have "is_dict (dget ?m ''partition_results'')" by (simp add: record_partition_result_def)
  from Cons.IH [of ?m] this show ?case
    by (auto simp: record_partition_result_def set_dkeys_dset)
qed

lemma all_partitions_complete_decided:
  assumes "dget m ''scaling_decision'' = ScalingDecision_to_dict d" and "1 < sd_instance_count d"
  shows "all_partitions_complete now m =
    (case dget m ''partition_results'' of
       PDict results \<Rightarrow> Inr (set (map wp_partition_id (sd_partitions d)) \<subseteq> set (dkeys results))
     | _ \<Rightarrow> Inr False)"
  using assms by (simp add: all_partitions_complete_def decision_roundtrip split: pyval.splits)

lemma ceil_div_upper: "0 < b \<Longrightarrow> a \<le> ceil_div a b * b"
proof -
  assume b: "0 < b"
  have "(a + b - 1) div b * b + (a + b - 1) mod b = a + b - 1" by (rule div_mult_mod_eq)
  moreover have "(a + b - 1) mod b < b" using b by (rule pos_mod_bound)
  ultimately show ?thesis unfolding ceil_div_def by linarith
qed

lemma ceil_div_le: "0 < b \<Longrightarrow> 0 \<le> a \<Longrightarrow> ceil_div a b \<le> a"
proof -
  assume b: "0 < b" and a: "0 \<le> a"
  have "a + b - 1 < (a + 1) * b"
  proof -
    have "a \<le> a * b" using a b by (simp add: mult_le_cancel_left1)
    then show ?thesis by (simp add: distrib_right)
  qed
  moreover have "(a + b - 1) div b * b \<le> a + b - 1"
    using div_mult_mod_eq [of "a + b - 1" b] pos_mod_sign [OF b, of "a + b - 1"] by linarith
  ultimately have "(a + b - 1) div b * b < (a + 1) * b" by linarith
  then have "(a + b - 1) div b < a + 1" using b by (rule mult_right_less_imp_less [OF _ less_imp_le])
  then show ?thesis unfolding ceil_div_def by linarith
qed

text \<open>The two shapes of a decision.\<close>

lemma decision_single:
  assumes "int (length items) \<le> max 1 ipi \<or> \<not> is_scalable_agent (py_upper (py_strip aid))"
  shows "sd_instance_count (compute_scaling_decision u now aid items mi ipi) = 1"
    and "sd_partitions (compute_scaling_decision u now aid items mi ipi) = partition_workload u items 1"
  using assms by (simp_all add: compute_scaling_decision_def Let_def)

lemma decision_scaled:
  fixes items :: "string list" and mi ipi :: int
  assumes "\<not> (int (length items) \<le> max 1 ipi \<or> \<not> is_scalable_agent (py_upper (py_strip aid)))"
  defines "n \<equiv> max 1 (min (min (max 1 mi) ABSOLUTE_MAX_INSTANCES) (ceil_div (int (length items)) (max 1 ipi)))"
  shows "sd_instance_count (compute_scaling_decision u now aid items mi ipi) = n"
    and "sd_partitions (compute_scaling_decision u now aid items mi ipi) = partition_workload u items n"
    and "n \<le> int (length items)"
proof -
  show "sd_instance_count (compute_scaling_decision u now aid items mi ipi) = n"
    "sd_partitions (compute_scaling_decision u now aid items mi ipi) = partition_workload u items n"
    using assms by (simp_all add: compute_scaling_decision_def Let_def)
  have "ceil_div (int (length items)) (max 1 ipi) \<le> int (length items)" by (rule ceil_div_le) auto
  then show "n \<le> int (length items)" using assms(1) unfolding n_def by linarith
qed

lemma decision_count_length:
  "int (length (sd_partitions (compute_scaling_decision u now aid items mi ipi)))
     = sd_instance_count (compute_scaling_decision u now aid items mi ipi)"
proof (cases "int (length items) \<le> max 1 ipi \<or> \<not> is_scalable_agent (py_upper (py_strip aid))")
  case True
  then show ?thesis by (simp add: decision_single effective_count_def)
next
  case False
  from decision_scaled [OF False, where mi = mi] show ?thesis by (simp add: effective_count_eq)
qed

section \<open>Properties\<close>

text \<open>The round-robin partition is a fair split: partition ids are distinct (even if the random
  suffixes collide), indices run from 0, together the partitions hold every item exactly once, each
  partition keeps the items' order, and any two partitions differ by at most one item.\<close>

theorem partition_workload_fair:
  fixes u items c
  defines "ps \<equiv> partition_workload u items c"
  shows "distinct (map wp_partition_id ps) \<and> map wp_instance_index ps = map int [0..<length ps]
    \<and> mset (concat (map wp_assigned_items ps)) = mset (map PStr items)
    \<and> (\<forall>p \<in> set ps. wp_total_instances p = int (length ps)
         \<and> subseq (wp_assigned_items p) (map PStr items)
         \<and> length items div length ps \<le> length (wp_assigned_items p)
         \<and> length (wp_assigned_items p) \<le> length items div length ps + 1)"
proof (intro conjI ballI)
  show "distinct (map wp_partition_id ps)" unfolding ps_def by (rule partition_ids_distinct)
  show "map wp_instance_index ps = map int [0..<length ps]"
    unfolding ps_def by (rule nth_equalityI) (simp_all add: partition_workload_nth)
  show "mset (concat (map wp_assigned_items ps)) = mset (map PStr items)"
    unfolding ps_def by (rule mset_partition_items)
next
  fix p assume "p \<in> set ps"
  then obtain i where i: "i < effective_count items c" "p = partition_workload u items c ! i"
    by (auto simp: ps_def in_set_conv_nth)
  then show "wp_total_instances p = int (length ps)"
    "length items div length ps \<le> length (wp_assigned_items p)"
    "length (wp_assigned_items p) \<le> length items div length ps + 1"
    using bucket_size_bounds [OF i(1), of items] by (simp_all add: ps_def partition_workload_nth)
  show "subseq (wp_assigned_items p) (map PStr items)"
    using i by (auto simp: partition_workload_nth fill_buckets_nth subseq_conv_nths nths_map)
qed

theorem partition_workload_fair_witness:
  "map wp_instance_index (partition_workload (\<lambda>_. ''deadbeef'') [''a'', ''b'', ''c''] 2) = [0, 1]
   \<and> list_all (\<lambda>p. 1 \<le> length (wp_assigned_items p) \<and> length (wp_assigned_items p) \<le> 2)
       (partition_workload (\<lambda>_. ''deadbeef'') [''a'', ''b'', ''c''] 2)"
proof -
  have l: "length (partition_workload (\<lambda>_. ''deadbeef'') [''a'', ''b'', ''c''] 2) = 2"
    by (simp add: effective_count_def)
  have d: "length [''a'', ''b'', ''c''] div 2 = 1" by code_simp
  note fair = partition_workload_fair [of "\<lambda>_. ''deadbeef''" "[''a'', ''b'', ''c'']" 2, unfolded l d]
  have "map int [0..<2] = [0, 1]" by code_simp
  with fair show ?thesis unfolding list_all_iff by (metis one_add_one)
qed

text \<open>The instance count is bounded and honest: it lies between 1 and both ceilings (the
  configured one, at least 1, and the hard limit of 8), it is the number of partitions, it is 1 for
  an agent that is not scalable, and while neither ceiling is hit no partition of a scalable agent
  holds more than \<open>items_per_instance\<close> items.\<close>

theorem scaling_decision_bounds:
  fixes u now aid items mi ipi
  defines "d \<equiv> compute_scaling_decision u now aid items mi ipi"
  shows "1 \<le> sd_instance_count d \<and> sd_instance_count d \<le> min (max 1 mi) ABSOLUTE_MAX_INSTANCES
    \<and> sd_instance_count d = int (length (sd_partitions d))
    \<and> (if is_scalable_agent (py_upper (py_strip aid))
       then sd_instance_count d = min (max 1 mi) ABSOLUTE_MAX_INSTANCES
         \<or> list_all (\<lambda>p. int (length (wp_assigned_items p)) \<le> max 1 ipi) (sd_partitions d)
       else sd_instance_count d = 1)"
proof (cases "int (length items) \<le> max 1 ipi \<or> \<not> is_scalable_agent (py_upper (py_strip aid))")
  case True
  note s = decision_single [OF True, of u now mi]
  have e: "effective_count items 1 = 1" by (simp add: effective_count_def)
  have "length (wp_assigned_items p) \<le> length items" if "p \<in> set (partition_workload u items 1)" for p
    using that bucket_size [of 0 1 items] by (auto simp: in_set_conv_nth e partition_workload_nth)
  then show ?thesis
    using True by (fastforce simp: d_def s e ABSOLUTE_MAX_INSTANCES_def list_all_iff)
next
  case False
  note s = decision_scaled [OF False, where mi = mi]
  let ?n = "max 1 (min (min (max 1 mi) ABSOLUTE_MAX_INSTANCES) (ceil_div (int (length items)) (max 1 ipi)))"
  have size: "int (length (wp_assigned_items p)) \<le> max 1 ipi"
    if p: "p \<in> set (partition_workload u items ?n)"
      and below: "?n \<noteq> min (max 1 mi) ABSOLUTE_MAX_INSTANCES" for p
  proof (rule partition_size_le [OF p])
    from below have "ceil_div (int (length items)) (max 1 ipi) \<le> ?n"
      unfolding ABSOLUTE_MAX_INSTANCES_def by linarith
    then have "ceil_div (int (length items)) (max 1 ipi) * max 1 ipi \<le> ?n * max 1 ipi"
      by (rule mult_right_mono) linarith
    then show "int (length items) \<le> ?n * max 1 ipi"
      using ceil_div_upper [of "max 1 ipi" "int (length items)"] by linarith
  qed (use s(3) in auto)
  have "?n = min (max 1 mi) ABSOLUTE_MAX_INSTANCES
      \<or> list_all (\<lambda>p. int (length (wp_assigned_items p)) \<le> max 1 ipi) (partition_workload u items ?n)"
    using size unfolding list_all_iff by blast
  moreover have "1 \<le> ?n" "?n \<le> min (max 1 mi) ABSOLUTE_MAX_INSTANCES"
    by (auto simp: ABSOLUTE_MAX_INSTANCES_def)
  moreover have "int (length (partition_workload u items ?n)) = ?n"
    using decision_count_length [of u now aid items mi ipi] unfolding s(1,2) .
  moreover have "is_scalable_agent (py_upper (py_strip aid))" using False by blast
  ultimately show ?thesis unfolding d_def s(1,2) by metis
qed

text \<open>The metadata encoding is faithful: whatever the document held before, the decision
  embedded in it is the decision read back, partitions included, at any later time, and recording
  partition results in between does not disturb it.\<close>

theorem scaling_decision_roundtrip:
  assumes "sd_decided_at d \<noteq> []"
  shows "scaling_decision_from_metadata now (record_all (embed_scaling_decision m d) rs) = Inr (Some d)"
  using assms
  by (simp add: decision_roundtrip [of _ d] record_all_frame dget_embed stamped_def)

definition sample_decision :: ScalingDecision where
  "sample_decision = compute_scaling_decision (\<lambda>_. ''0123456789'') ''t0'' ''agent-14-python''
     [''a'', ''b'', ''c'', ''d''] 4 2"

theorem scaling_decision_roundtrip_witness:
  "sd_instance_count sample_decision = 2 \<and>
   scaling_decision_from_metadata ''t1'' (embed_scaling_decision [(''title'', PStr ''x'')] sample_decision)
     = Inr (Some sample_decision)"
proof
  show "sd_instance_count sample_decision = 2" by code_simp
  have "sd_decided_at sample_decision \<noteq> []" by code_simp
  from scaling_decision_roundtrip [OF this, of "''t1''" "[(''title'', PStr ''x'')]" "[]"]
  show "scaling_decision_from_metadata ''t1'' (embed_scaling_decision [(''title'', PStr ''x'')] sample_decision)
     = Inr (Some sample_decision)" by simp
qed

text \<open>Completion is detected exactly: once a decision with several instances is embedded in a
  document with no earlier results, the workload counts as complete after a sequence of recorded
  results just when every partition of the decision has been recorded, in any order and with any
  number of duplicates or foreign ids.\<close>

theorem all_partitions_complete_exact:
  assumes "1 < sd_instance_count d" and "dget m ''partition_results'' = PNone"
  shows "all_partitions_complete now (record_all (embed_scaling_decision m d) rs)
    = Inr (rs \<noteq> [] \<and> wp_partition_id ` set (sd_partitions d) \<subseteq> pr_partition_id ` set rs)"
proof -
  let ?m = "embed_scaling_decision m d"
  have dec: "dget (record_all ?m rs) ''scaling_decision'' = ScalingDecision_to_dict d"
    by (simp add: record_all_frame dget_embed)
  show ?thesis
  proof (cases "rs = []")
    case True
    then show ?thesis using assms all_partitions_complete_decided [OF dec assms(1), of now]
      by (simp add: dget_embed)
  next
    case False
    then obtain res where res: "dget (record_all ?m rs) ''partition_results'' = PDict res"
      "set (dkeys res) = set (dkeys (dict_or_empty PNone)) \<union> pr_partition_id ` set rs"
      using record_all_keys [of rs ?m] assms(2) unfolding dget_embed by metis
    then show ?thesis using False all_partitions_complete_decided [OF dec assms(1), of now]
      by (simp add: dkeys_def)
  qed
qed

theorem all_partitions_complete_exact_witness:
  "all_partitions_complete ''t1'' (embed_scaling_decision [] sample_decision) = Inr False
   \<and> 1 < sd_instance_count sample_decision"
proof -
  have one: "1 < sd_instance_count sample_decision" by code_simp
  from all_partitions_complete_exact [OF this, of "[]" "''t1''" "[]"] one show ?thesis by simp
qed

text \<open>Merging is deterministic: partitions may report in any order, the merged result is the same
  as long as their instance indices differ, and it holds exactly the log nodes and artifacts of all
  partitions.\<close>

theorem merge_order_independent:
  assumes "mset rs = mset rs'" and "distinct (map pr_instance_index rs)"
  shows "merge_partition_results now rs = merge_partition_results now rs'
    \<and> mset (mr_logicnodes (merge_partition_results now rs)) = mset (concat (map pr_logicnodes rs'))
    \<and> mr_partition_count (merge_partition_results now rs) = int (length rs')"
proof -
  have same: "set rs = set rs'" and d: "distinct (map pr_instance_index rs')"
    using assms by (metis mset_eq_setD, metis mset_map mset_eq_imp_distinct_iff)
  have sorted_dist: "distinct (map pr_instance_index (sort_key pr_instance_index xs))"
    if "distinct (map pr_instance_index xs)" for xs
    using that by (simp add: distinct_map)
  have "sort_key pr_instance_index rs = sort_key pr_instance_index rs'"
    by (rule map_sorted_distinct_set_unique [where f = pr_instance_index])
      (use assms(2) d same in \<open>simp_all add: sorted_dist distinct_map\<close>)
  moreover have "mset (concat (map pr_logicnodes (sort_key pr_instance_index rs')))
      = mset (concat (map pr_logicnodes rs'))"
    by (simp add: mset_concat_map)
  ultimately show ?thesis using mset_eq_length [OF assms(1)]
    by (simp add: merge_partition_results_def Let_def)
qed

theorem merge_order_independent_witness:
  "merge_partition_results ''t'' [mk_PartitionResult ''t'' ''p1-x'' 1 ''a'' [PInt 2] [] [] [],
     mk_PartitionResult ''t'' ''p0-x'' 0 ''a'' [PInt 1] [] [] []]
   = merge_partition_results ''t'' [mk_PartitionResult ''t'' ''p0-x'' 0 ''a'' [PInt 1] [] [] [],
     mk_PartitionResult ''t'' ''p1-x'' 1 ''a'' [PInt 2] [] [] []]"
  by (rule merge_order_independent [THEN conjunct1]) (simp_all add: mk_PartitionResult_def)

end
