(* ===== verification/Project_Identity.thy ===== *)
theory Project_Identity
  imports Factory_Prelude
begin

text \<open>
  Project identity, \<open>orchestrator/project_identity.py\<close>: the slug of a project, how it is resolved
  from a mission's metadata, and the normalised document that every metadata write stores. The
  regular expression \<open>[^a-z0-9._-]+\<close> is the character test \<open>slug_char\<close>; its substitution is the
  scan \<open>slug_sub\<close>, which replaces each maximal run of other characters by one dash.
\<close>

section \<open>Definitions\<close>

definition slug_char :: "char \<Rightarrow> bool" where
  "slug_char c = (is_lower_char c \<or> is_digit c \<or> c = CHR ''.'' \<or> c = CHR ''_'' \<or> c = CHR ''-'')"

fun slug_sub :: "bool \<Rightarrow> string \<Rightarrow> string" where
  "slug_sub in_run [] = []"
| "slug_sub in_run (c # s) =
     (if slug_char c then c # slug_sub False s
      else if in_run then slug_sub True s
      else CHR ''-'' # slug_sub True s)"

definition edge_char :: "char \<Rightarrow> bool" where
  "edge_char c = (c = CHR ''-'' \<or> c = CHR ''.'')"

definition normalize_project_id :: "pyval \<Rightarrow> string \<Rightarrow> string" where
  "normalize_project_id value fallback =
     (let candidate = py_lower (py_strip (str_or_empty value)) in
      if candidate = [] then fallback
      else let slug = strip_by edge_char (slug_sub False candidate) in
        if slug = [] then fallback
        else if starts_with ''project-'' slug then slug
        else ''project-'' @ slug)"

definition usable_text :: "pyval \<Rightarrow> bool" where
  "usable_text v = (is_str v \<and> py_strip (str_of v) \<noteq> [])"

definition resolve_project_id :: "pyval \<Rightarrow> pyval \<Rightarrow> string" where
  "resolve_project_id metadata mission_id =
     (let details = dict_or_empty metadata;
          explicit = dget details ''project_id'';
          source = dget details ''source''
      in if usable_text explicit then normalize_project_id explicit ''project-unknown''
         else if usable_text source then normalize_project_id source ''project-unknown''
         else if usable_text mission_id then normalize_project_id mission_id ''project-unknown''
         else ''project-unknown'')"

definition with_project_identity :: "pyval \<Rightarrow> pyval \<Rightarrow> pydict" where
  "with_project_identity metadata mission_id =
     (let normalized = dict_or_empty metadata;
          project_id = resolve_project_id (PDict normalized) mission_id;
          normalized = dset ''project_id'' (PStr project_id) normalized
      in if dhas normalized ''project_name'' then normalized
         else let source = dget normalized ''source'' in
           if usable_text source
           then dset ''project_name'' (PStr (py_strip (str_of source))) normalized
           else normalized)"

section \<open>Lemmas on slugs\<close>

lemma slug_sub_chars: "\<forall>c \<in> set (slug_sub b s). slug_char c"
  by (induction b s rule: slug_sub.induct) (auto simp: slug_char_def)

lemma slug_sub_id: "\<forall>c \<in> set s. slug_char c \<Longrightarrow> slug_sub b s = s"
  by (induction s arbitrary: b) auto

lemma slug_char_not_space: "slug_char c \<Longrightarrow> \<not> is_space c"
  by (auto simp: slug_char_def is_lower_char_def is_digit_def is_space_def Let_def)

lemma slug_char_lower: "slug_char c \<Longrightarrow> low_char c = c"
  by (auto simp: slug_char_def is_lower_char_def is_digit_def low_char_def is_upper_char_def Let_def)

text \<open>Canonical ids: the form \<open>normalize_project_id\<close> produces.\<close>

definition canonical_id :: "string \<Rightarrow> bool" where
  "canonical_id s = (starts_with ''project-'' s \<and> list_all slug_char s \<and> \<not> edge_char (last s))"

lemma canonical_id_prefix: "starts_with ''project-'' s \<Longrightarrow> s \<noteq> [] \<and> hd s = CHR ''p''"
  by (auto simp: starts_with_iff)

lemma canonical_id_fixed:
  assumes "canonical_id s"
  shows "normalize_project_id (PStr s) f = s"
proof -
  from assms have ne: "s \<noteq> []" "hd s = CHR ''p''" and slug: "\<forall>c \<in> set s. slug_char c"
    by (auto simp: canonical_id_def list_all_iff dest: canonical_id_prefix)
  have "py_strip s = s"
    unfolding py_strip_def by (rule strip_by_id) (metis ne(1) slug slug_char_not_space hd_in_set last_in_set)
  moreover have "py_lower s = s"
    unfolding py_lower_def using slug by (intro map_idI) (auto intro: slug_char_lower)
  moreover have "strip_by edge_char s = s"
    by (rule strip_by_id) (use assms ne in \<open>auto simp: canonical_id_def edge_char_def\<close>)
  ultimately show ?thesis
    using assms ne slug by (simp add: normalize_project_id_def slug_sub_id canonical_id_def)
qed

lemma normalize_canonical:
  assumes "canonical_id f"
  shows "canonical_id (normalize_project_id v f)"
proof -
  let ?slug = "strip_by edge_char (slug_sub False (py_lower (py_strip (str_or_empty v))))"
  have "\<forall>c \<in> set ?slug. slug_char c" using slug_sub_chars set_strip_by by blast
  moreover have "?slug \<noteq> [] \<Longrightarrow> \<not> edge_char (last ?slug)" by (rule strip_by_ends)
  moreover have "list_all slug_char ''project-''" by code_simp
  moreover have "starts_with ''project-'' (''project-'' @ ?slug)" by (rule starts_with_append)
  ultimately show ?thesis using assms
    by (auto simp: normalize_project_id_def Let_def canonical_id_def list_all_iff)
qed

lemma canonical_unknown: "canonical_id ''project-unknown''"
  by code_simp

lemma canonical_usable: "canonical_id s \<Longrightarrow> usable_text (PStr s)"
proof -
  assume c: "canonical_id s"
  then have "s \<noteq> []" "\<forall>c \<in> set s. \<not> is_space c"
    by (auto simp: canonical_id_def list_all_iff slug_char_not_space dest: canonical_id_prefix)
  then have "py_strip s = s" unfolding py_strip_def by (intro strip_by_id) auto
  with \<open>s \<noteq> []\<close> show ?thesis by (simp add: usable_text_def)
qed

lemma resolve_canonical: "canonical_id (resolve_project_id m mid)"
  by (simp add: resolve_project_id_def Let_def normalize_canonical canonical_unknown)

text \<open>A document whose project id is canonical resolves to it, whatever else it holds.\<close>

lemma resolve_fixed:
  assumes "dget d ''project_id'' = PStr s" and "canonical_id s"
  shows "resolve_project_id (PDict d) mid = s"
  using assms canonical_usable by (simp add: resolve_project_id_def canonical_id_fixed)

lemma with_project_identity_id:
  "dget (with_project_identity m mid) ''project_id''
     = PStr (resolve_project_id m mid)"
  by (cases m) (simp_all add: with_project_identity_def resolve_project_id_def Let_def)

lemma with_project_identity_frame:
  "k \<noteq> ''project_id'' \<Longrightarrow> k \<noteq> ''project_name'' \<Longrightarrow>
   map_of (with_project_identity m mid) k = map_of (dict_or_empty m) k"
  by (simp add: with_project_identity_def Let_def)

lemma resolve_with_project_identity:
  "resolve_project_id (PDict (with_project_identity m mid)) mid' = resolve_project_id m mid"
  by (rule resolve_fixed [OF with_project_identity_id resolve_canonical])

section \<open>Properties\<close>

text \<open>Project ids are canonical and stable: whatever value is given, the id starts with
  \<open>project-\<close>, uses only lower-case letters, digits, dots, underscores and dashes, does not end in
  a dash or a dot, and normalising it again (with any fallback) changes nothing.\<close>

theorem normalize_project_id_canonical:
  "starts_with ''project-'' (normalize_project_id v ''project-unknown'')
   \<and> list_all slug_char (normalize_project_id v ''project-unknown'')
   \<and> \<not> edge_char (last (normalize_project_id v ''project-unknown''))
   \<and> normalize_project_id (PStr (normalize_project_id v ''project-unknown'')) f
       = normalize_project_id v ''project-unknown''"
  using normalize_canonical [OF canonical_unknown, of v] canonical_id_fixed [of _ f]
  by (simp add: canonical_id_def)

text \<open>Writing project identity is idempotent: a normalised document is a fixed point, for every
  mission id, and the id column resolved from it is the id the document holds.\<close>

theorem with_project_identity_idem:
  "with_project_identity (PDict (with_project_identity m mid)) mid' = with_project_identity m mid
   \<and> PStr (resolve_project_id (PDict (with_project_identity m mid)) mid')
       = dget (with_project_identity m mid) ''project_id''"
proof
  let ?d = "with_project_identity m mid"
  show "PStr (resolve_project_id (PDict ?d) mid') = dget ?d ''project_id''"
    by (simp add: resolve_with_project_identity with_project_identity_id)
  have "map_of ?d ''project_id'' = Some (PStr (resolve_project_id m mid))"
    using with_project_identity_id [of m mid] by (auto simp: dget_def split: option.splits)
  then have same: "dset ''project_id'' (PStr (resolve_project_id (PDict ?d) mid')) ?d = ?d"
    by (simp add: resolve_with_project_identity dset_same)
  have "dhas ?d ''project_name'' \<or> \<not> usable_text (dget ?d ''source'')"
    by (simp add: with_project_identity_def Let_def)
  then show "with_project_identity (PDict ?d) mid' = ?d"
    by (auto simp: with_project_identity_def [of "PDict ?d"] same Let_def)
qed

end
