(* ===== verification/Mission_Vault.thy ===== *)
theory Mission_Vault
  imports Factory_Prelude
begin

text \<open>
  Per-mission credentials, \<open>shared_runtime/mission_vault.py\<close>: how the vault is split off a
  document, scrubbed from documents and raw payloads, and kept in Redis. Redis is its two maps, the
  values and the remaining time to live; whether a command gets through is an argument, since every
  call may raise. \<open>json.dumps\<close> and \<open>json.loads\<close> are the arguments \<open>dumps\<close> and \<open>loads\<close>.
\<close>

section \<open>Definitions\<close>

definition VAULT_METADATA_KEY :: string where "VAULT_METADATA_KEY = ''vault''"

definition VAULT_TTL_SECONDS :: int where "VAULT_TTL_SECONDS = 72 * 3600"

definition vault_key :: "string \<Rightarrow> string" where
  "vault_key mission_id = ''mission-vault:'' @ mission_id"

text \<open>A dict comprehension sets the keys one after the other.\<close>

definition dict_of_pairs :: "(string \<times> 'v) list \<Rightarrow> 'v dict" where
  "dict_of_pairs ps = foldl (\<lambda>d (k, v). dset k v d) [] ps"

definition split_vault :: "pyval \<Rightarrow> pydict \<times> string dict" where
  "split_vault metadata =
     (let clean = dict_or_empty (py_or metadata (PDict []));
          raw = dget clean VAULT_METADATA_KEY;
          vault = (case raw of
              PDict r \<Rightarrow> dict_of_pairs (map (\<lambda>(k, v). (k, py_str v)) (filter (\<lambda>(k, v). truthy v) r))
            | _ \<Rightarrow> [])
      in (ddel VAULT_METADATA_KEY clean, vault))"

definition strip_vault :: "pydict \<Rightarrow> pydict" where
  "strip_vault metadata =
     (if \<not> dhas metadata VAULT_METADATA_KEY then metadata
      else filter (\<lambda>(k, v). k \<noteq> VAULT_METADATA_KEY) metadata)"

definition scrub_intake_payload_raw ::
  "(pyval \<Rightarrow> string) \<Rightarrow> (string \<Rightarrow> pyval option) \<Rightarrow> string \<Rightarrow> string" where
  "scrub_intake_payload_raw dumps loads payload_raw =
     (if payload_raw = [] \<or> \<not> contains_str VAULT_METADATA_KEY payload_raw then payload_raw
      else case loads payload_raw of
        Some (PDict parsed) \<Rightarrow>
          (let top = dhas parsed VAULT_METADATA_KEY;
               parsed = (if top then strip_vault parsed else parsed);
               metadata = dget parsed ''metadata'';
               inner = (is_dict metadata \<and> dhas (dict_or_empty metadata) VAULT_METADATA_KEY);
               parsed = (if inner
                         then dset ''metadata'' (PDict (strip_vault (dict_or_empty metadata))) parsed
                         else parsed)
           in if top \<or> inner then dumps (PDict parsed) else payload_raw)
      | _ \<Rightarrow> payload_raw)"

record redis =
  kv :: "string dict"
  ttl :: "int dict"

definition store_vault ::
  "(pyval \<Rightarrow> string) \<Rightarrow> bool \<Rightarrow> redis option \<Rightarrow> string \<Rightarrow> string dict \<Rightarrow> bool \<times> redis option" where
  "store_vault dumps set_ok redis_client mission_id vault =
     (case redis_client of
        None \<Rightarrow> (False, None)
      | Some r \<Rightarrow>
          if vault = [] \<or> \<not> set_ok then (False, Some r)
          else (True, Some (r\<lparr>kv := dset (vault_key mission_id)
                                (dumps (PDict (map (\<lambda>(k, v). (k, PStr v)) vault))) (kv r),
                              ttl := dset (vault_key mission_id) VAULT_TTL_SECONDS (ttl r)\<rparr>)))"

definition load_vault ::
  "(string \<Rightarrow> pyval option) \<Rightarrow> bool \<Rightarrow> bool \<Rightarrow> redis option \<Rightarrow> string \<Rightarrow> pydict \<times> redis option" where
  "load_vault loads get_ok expire_ok redis_client mission_id =
     (case redis_client of
        None \<Rightarrow> ([], None)
      | Some r \<Rightarrow>
          if \<not> get_ok then ([], Some r)
          else case map_of (kv r) (vault_key mission_id) of
            None \<Rightarrow> ([], Some r)
          | Some raw \<Rightarrow>
              if raw = [] \<or> \<not> expire_ok then ([], Some r)
              else let r' = r\<lparr>ttl := dset (vault_key mission_id) VAULT_TTL_SECONDS (ttl r)\<rparr> in
                case loads raw of
                  Some (PDict parsed) \<Rightarrow> (parsed, Some r')
                | _ \<Rightarrow> ([], Some r'))"

section \<open>Lemmas\<close>

lemma strip_vault_eq: "strip_vault d = ddel VAULT_METADATA_KEY d"
proof -
  have "filter (\<lambda>(k, v). k \<noteq> VAULT_METADATA_KEY) d = ddel VAULT_METADATA_KEY d"
    unfolding ddel_def AList.delete_eq by (rule filter_cong) auto
  then show ?thesis by (simp add: strip_vault_def ddel_absent)
qed

lemma strip_vault_none [simp]: "\<not> dhas (strip_vault d) VAULT_METADATA_KEY"
  by (simp add: strip_vault_eq)

lemma strip_vault_frame: "k \<noteq> VAULT_METADATA_KEY \<Longrightarrow> map_of (strip_vault d) k = map_of d k"
  by (simp add: strip_vault_eq)

lemma vault_key_inj [simp]: "vault_key m = vault_key m' \<longleftrightarrow> m = m'"
  by (simp add: vault_key_def)

text \<open>What a scrubbed document may not hold.\<close>

definition vault_free :: "pyval \<Rightarrow> bool" where
  "vault_free v = (\<not> dhas (dict_or_empty v) VAULT_METADATA_KEY
     \<and> \<not> dhas (dict_or_empty (dget (dict_or_empty v) ''metadata'')) VAULT_METADATA_KEY)"

section \<open>Properties\<close>

text \<open>Splitting a document loses nothing but the vault: the clean part has no vault key and every
  other entry unchanged, and it is what the defensive scrub keeps.\<close>

theorem split_vault_clean:
  "\<not> dhas (fst (split_vault (PDict d))) VAULT_METADATA_KEY
   \<and> (k \<noteq> VAULT_METADATA_KEY \<longrightarrow> map_of (fst (split_vault (PDict d))) k = map_of d k)
   \<and> fst (split_vault (PDict d)) = strip_vault d"
proof -
  have "fst (split_vault (PDict d)) = strip_vault d"
    by (cases "d = []") (simp_all add: split_vault_def Let_def py_or_def strip_vault_eq)
  then show ?thesis by (simp add: strip_vault_frame)
qed

theorem split_vault_clean_witness:
  "map_of (fst (split_vault (PDict [(''vault'', PDict [(''k'', PStr ''s'')]), (''a'', PInt 1)]))) ''a''
     = Some (PInt 1)"
proof -
  let ?d = "[(''vault'', PDict [(''k'', PStr ''s'')]), (''a'', PInt 1)]"
  have "''a'' \<noteq> VAULT_METADATA_KEY" by code_simp
  then have "map_of (fst (split_vault (PDict ?d))) ''a'' = map_of ?d ''a''"
    using split_vault_clean [of ?d "''a''"] by blast
  then show ?thesis by simp
qed

text \<open>Credentials survive exactly in Redis: after a successful store, loading the same mission
  returns the stored secrets and refreshes the 72 hour lifetime, and no other mission's entry
  changes.\<close>

theorem vault_store_load:
  fixes vault :: "string dict"
  defines "doc \<equiv> map (\<lambda>(k, v). (k, PStr v)) vault"
  assumes "loads (dumps (PDict doc)) = Some (PDict doc)" and "dumps (PDict doc) \<noteq> []"
    and "vault \<noteq> []" and "store_vault dumps True (Some r) mid vault = (ok, r')"
    and "load_vault loads True True r' mid = (secrets, r'')"
  shows "ok \<and> secrets = doc
    \<and> map_of (ttl (the r'')) (vault_key mid) = Some VAULT_TTL_SECONDS
    \<and> (mid' \<noteq> mid \<longrightarrow>
         map_of (kv (the r'')) (vault_key mid') = map_of (kv r) (vault_key mid'))"
  using assms by (auto simp: store_vault_def load_vault_def Let_def)

theorem vault_store_load_witness:
  "\<exists>r'. fst (load_vault (\<lambda>_. Some (PDict [(''openai'', PStr ''sk'')])) True True r' ''m1'')
      = [(''openai'', PStr ''sk'')]
    \<and> store_vault (\<lambda>_. ''text'') True (Some \<lparr>kv = [], ttl = []\<rparr>) ''m1'' [(''openai'', ''sk'')]
      = (True, r')"
proof -
  let ?loads = "\<lambda>_. Some (PDict [(''openai'', PStr ''sk'')])"
  obtain ok r' where st: "store_vault (\<lambda>_. ''text'') True (Some \<lparr>kv = [], ttl = []\<rparr>) ''m1''
      [(''openai'', ''sk'')] = (ok, r')" by fastforce
  obtain s r'' where ld: "load_vault ?loads True True r' ''m1'' = (s, r'')" by fastforce
  have "ok \<and> s = [(''openai'', PStr ''sk'')]"
    using vault_store_load [OF _ _ _ st ld, of "''m2''"] by simp
  with st ld show ?thesis by auto
qed

text \<open>The dead-letter payload holds no credentials: a payload that mentions the vault and parses
  is kept only if its document has no vault, at the top or under \<open>metadata\<close>; otherwise it is
  replaced by the text of such a document, which keeps every other top-level entry.\<close>

theorem scrubbed_payload_vault_free:
  assumes "contains_str VAULT_METADATA_KEY raw" and "loads raw = Some (PDict d)"
  shows "\<exists>w. vault_free (PDict w)
    \<and> (\<forall>k. k \<noteq> VAULT_METADATA_KEY \<longrightarrow> k \<noteq> ''metadata'' \<longrightarrow> map_of w k = map_of d k)
    \<and> scrub_intake_payload_raw dumps loads raw = (if vault_free (PDict d) then raw else dumps (PDict w))"
proof -
  define e where "e = strip_vault d"
  define w where "w = (if is_dict (dget e ''metadata'') \<and> dhas (dict_or_empty (dget e ''metadata'')) VAULT_METADATA_KEY
    then dset ''metadata'' (PDict (strip_vault (dict_or_empty (dget e ''metadata'')))) e else e)"
  have ne: "raw \<noteq> []" using assms(1) by (auto simp: VAULT_METADATA_KEY_def)
  have e: "e = (if dhas d VAULT_METADATA_KEY then strip_vault d else d)"
    by (simp add: e_def strip_vault_def)
  have free: "vault_free (PDict w)"
  proof -
    have no_vault: "map_of (strip_vault x) ''vault'' = None" for x
      by (simp add: strip_vault_eq VAULT_METADATA_KEY_def)
    show ?thesis
      by (auto simp: vault_free_def w_def e_def dhas_def dict_or_empty_not_dict
          VAULT_METADATA_KEY_def no_vault)
  qed
  have frame: "map_of w k = map_of d k" if "k \<noteq> VAULT_METADATA_KEY" "k \<noteq> ''metadata''" for k
    using that by (simp add: w_def e_def strip_vault_frame)
  have meta: "dget e ''metadata'' = dget d ''metadata''"
    by (simp add: e_def strip_vault_eq VAULT_METADATA_KEY_def)
  have "vault_free (PDict d) \<longleftrightarrow> \<not> dhas d VAULT_METADATA_KEY
      \<and> \<not> (is_dict (dget e ''metadata'') \<and> dhas (dict_or_empty (dget e ''metadata'')) VAULT_METADATA_KEY)"
    unfolding meta vault_free_def by (cases "dget d ''metadata''") (simp_all add: dhas_def)
  then have "scrub_intake_payload_raw dumps loads raw
      = (if vault_free (PDict d) then raw else dumps (PDict w))"
    using ne assms unfolding scrub_intake_payload_raw_def w_def by (simp add: Let_def e [symmetric] e_def [symmetric])
  with free frame show ?thesis by blast
qed

theorem scrubbed_payload_vault_free_witness:
  "contains_str VAULT_METADATA_KEY ''[vault]'' \<and>
   (\<exists>w. vault_free (PDict w) \<and> map_of w ''a'' = Some (PInt 1))"
proof -
  let ?d = "[(''vault'', PStr ''s''), (''a'', PInt 1)]"
  have c: "contains_str VAULT_METADATA_KEY ''[vault]''" by code_simp
  have a: "''a'' \<noteq> VAULT_METADATA_KEY" "''a'' \<noteq> ''metadata''" by code_simp+
  obtain w where w: "vault_free (PDict w)"
    "\<forall>k. k \<noteq> VAULT_METADATA_KEY \<longrightarrow> k \<noteq> ''metadata'' \<longrightarrow> map_of w k = map_of ?d k"
    using scrubbed_payload_vault_free [of "''[vault]''" "\<lambda>_. Some (PDict ?d)" ?d "\<lambda>_. []"] c by blast
  from w(2) a have "map_of w ''a'' = Some (PInt 1)" by simp
  with w(1) c show ?thesis by blast
qed

end
