(* ===== verification/Mission_Storage.thy ===== *)
theory Mission_Storage
  imports Mission_Models Mission_Types Project_Identity Mission_Vault Agent_Scaling
begin

text \<open>
  The mission tables, \<open>orchestrator/storage_missions.py\<close>. The database is a record of the two
  tables the module writes, \<open>missions\<close> (keyed by mission id) and \<open>mission_state_events\<close> (in
  insertion order), and the calls of the transition metric. Each SQL statement is one update of that
  record and each function one definition that returns its value and the new database; a statement
  or a transaction is atomic. Instants (\<open>TIMESTAMPTZ\<close>) are integers and \<open>now\<close> is \<open>NOW()\<close>. A
  \<open>jsonb\<close> document is kept as the dict that was written (PostgreSQL forgets the order of its keys,
  and nothing below reads it).
\<close>

section \<open>Enumerations and records\<close>

definition MissionType_values :: "string list" where
  "MissionType_values =
     [''BUILD_NEW'', ''IMPORT_MODERNIZE'', ''PORT'', ''DEBUG_REPAIR'', ''SECURITY_HARDEN'',
      ''REDUCE_DEPENDENCIES'', ''RUN_QC'', ''ARCHITECTURE_DOCS'', ''ANALYZE_ONLY'', ''SELF_ANALYZE'']"

definition DepthMode_values :: "string list" where
  "DepthMode_values =
     [''SPRINT'', ''STANDARD'', ''PRODUCTION'', ''REGULATED'', ''AUTONOMOUS_LONG_RUN'']"

definition OutputMode_values :: "string list" where
  "OutputMode_values =
     [''ANALYZE_ONLY'', ''PLAN_ONLY'', ''PATCH_PROPOSAL'', ''APPLY_PATCH'', ''FULL_BUILD'',
      ''DEPENDENCY_REDUCTION'', ''RUN_QC'', ''FULL_TRANSFORMATION'']"

definition DataClassification_values :: "string list" where
  "DataClassification_values =
     [''TIER_0_PUBLIC'', ''TIER_1_INTERNAL'', ''TIER_2_SENSITIVE'', ''TIER_3_REGULATED'']"

text \<open>The fields of \<open>MissionRecord\<close> that storage reads or writes; an enum member is its value.\<close>

record MissionRecord =
  m_mission_id :: string
  m_prompt :: string
  m_requested_target_language :: "string option"
  m_mission_type :: "string option"
  m_depth_mode :: "string option"
  m_output_mode :: "string option"
  m_data_classification :: "string option"
  m_metadata :: pydict
  m_project_id :: "string option"
  m_lifecycle_engine :: "string option"
  m_state :: MissionState
  m_created_at :: int

record MissionEvent =
  ev_mission_id :: string
  ev_previous_state :: "MissionState option"
  ev_new_state :: MissionState
  ev_event_type :: string
  ev_ts :: int

record mission_row =
  row_prompt :: string
  row_language :: "string option"
  row_metadata :: pydict
  row_project_id :: "string option"
  row_state :: string
  row_created_at :: int
  row_updated_at :: int
  row_source_stream_id :: "string option"

record event_row =
  erow_mission_id :: string
  erow_previous :: "string option"
  erow_new :: string
  erow_type :: string
  erow_ts :: int

record metric_call =
  mc_from :: "string option"
  mc_to :: string
  mc_engine :: string
  mc_started :: "int option"

record mission_db =
  missions :: "mission_row dict"
  events :: "event_row list"
  metrics :: "metric_call list"

record engine_settings =
  mission_flow_v2_enabled :: bool
  langgraph_enabled :: bool

section \<open>Charter fields and rows\<close>

definition enum_of :: "string list \<Rightarrow> pyval \<Rightarrow> string option" where
  "enum_of values raw =
     (if truthy raw then (case raw of PStr s \<Rightarrow> if s \<in> set values then Some s else None | _ \<Rightarrow> None)
      else None)"

record charter =
  c_mission_type :: "string option"
  c_depth_mode :: "string option"
  c_output_mode :: "string option"
  c_data_classification :: "string option"

definition charter_fields_from_metadata :: "pydict \<Rightarrow> charter" where
  "charter_fields_from_metadata metadata =
     \<lparr>c_mission_type = enum_of MissionType_values (dget metadata ''__mission_type__''),
      c_depth_mode = enum_of DepthMode_values (dget metadata ''__depth_mode__''),
      c_output_mode = enum_of OutputMode_values (dget metadata ''__output_mode__''),
      c_data_classification = enum_of DataClassification_values (dget metadata ''__data_classification__'')\<rparr>"

definition dset_opt :: "string \<Rightarrow> string option \<Rightarrow> pydict \<Rightarrow> pydict" where
  "dset_opt k v d = (case v of None \<Rightarrow> d | Some s \<Rightarrow> dset k (PStr s) d)"

definition embed_charter_fields :: "pydict \<Rightarrow> MissionRecord \<Rightarrow> pydict" where
  "embed_charter_fields md r =
     (let md = dset_opt ''__mission_type__'' (m_mission_type r) md;
          md = dset_opt ''__depth_mode__'' (m_depth_mode r) md;
          md = dset_opt ''__output_mode__'' (m_output_mode r) md;
          md = dset_opt ''__data_classification__'' (m_data_classification r) md
      in case m_lifecycle_engine r of
           None \<Rightarrow> md
         | Some e \<Rightarrow> if e = [] then md else dset ''lifecycle_engine'' (PStr e) md)"

definition opt_text :: "string option \<Rightarrow> bool" where
  "opt_text v = (case v of None \<Rightarrow> False | Some s \<Rightarrow> s \<noteq> [])"

definition row_to_mission :: "string \<Rightarrow> mission_row \<Rightarrow> MissionRecord res" where
  "row_to_mission mid row =
     (let md = row_metadata row; c = charter_fields_from_metadata md;
          engine = dget md ''lifecycle_engine''
      in rbind (MissionState_of (row_state row)) (\<lambda>st.
         Inr \<lparr>m_mission_id = mid, m_prompt = row_prompt row, m_requested_target_language = row_language row,
              m_mission_type = c_mission_type c, m_depth_mode = c_depth_mode c,
              m_output_mode = c_output_mode c, m_data_classification = c_data_classification c,
              m_metadata = md,
              m_project_id = Some (if opt_text (row_project_id row) then the (row_project_id row)
                                 else resolve_project_id (PDict md) (PStr mid)),
              m_lifecycle_engine = (if truthy engine then Some (py_strip (py_str engine)) else None),
              m_state = st, m_created_at = row_created_at row\<rparr>))"

section \<open>Writing missions\<close>

definition mission_upsert_params :: "int \<Rightarrow> MissionRecord \<Rightarrow> string option \<Rightarrow> mission_row" where
  "mission_upsert_params now r source_stream_id =
     (let md = strip_vault (with_project_identity (PDict (m_metadata r)) (PStr (m_mission_id r)));
          md = embed_charter_fields md r;
          pid = (if opt_text (m_project_id r) then the (m_project_id r)
                 else resolve_project_id (PDict md) (PStr (m_mission_id r)))
      in \<lparr>row_prompt = m_prompt r, row_language = m_requested_target_language r, row_metadata = md,
          row_project_id = Some pid, row_state = state_value (m_state r), row_created_at = m_created_at r,
          row_updated_at = now, row_source_stream_id = source_stream_id\<rparr>)"

text \<open>\<open>INSERT ... ON CONFLICT (mission_id) DO UPDATE\<close>: every column but \<open>created_at\<close> is replaced.\<close>

definition upsert_mission :: "int \<Rightarrow> MissionRecord \<Rightarrow> string option \<Rightarrow> mission_db \<Rightarrow> mission_db" where
  "upsert_mission now r source_stream_id db =
     (let row = mission_upsert_params now r source_stream_id;
          row = (case map_of (missions db) (m_mission_id r) of
                   None \<Rightarrow> row
                 | Some old \<Rightarrow> row\<lparr>row_created_at := row_created_at old\<rparr>)
      in db\<lparr>missions := dset (m_mission_id r) row (missions db)\<rparr>)"

definition resolve_engine_label :: "engine_settings \<Rightarrow> string" where
  "resolve_engine_label settings =
     (if mission_flow_v2_enabled settings then ''v2''
      else if langgraph_enabled settings then ''langgraph''
      else ''legacy'')"

definition add_event :: "event_row \<Rightarrow> mission_db \<Rightarrow> mission_db" where
  "add_event e db = db\<lparr>events := events db @ [e]\<rparr>"

definition add_metric :: "metric_call \<Rightarrow> mission_db \<Rightarrow> mission_db" where
  "add_metric c db = db\<lparr>metrics := metrics db @ [c]\<rparr>"

definition persist_intake_mission ::
  "engine_settings \<Rightarrow> int \<Rightarrow> MissionRecord \<Rightarrow> string \<Rightarrow> mission_db \<Rightarrow> bool \<times> mission_db" where
  "persist_intake_mission settings now r source_stream_id db =
     (if dhas (missions db) (m_mission_id r) then (False, db)
      else let row = mission_upsert_params now r (Some source_stream_id);
               db = db\<lparr>missions := dset (m_mission_id r) row (missions db)\<rparr>;
               db = add_event \<lparr>erow_mission_id = m_mission_id r,
                      erow_previous = Some (state_value Intake), erow_new = state_value Queued,
                      erow_type = ''MISSION_QUEUED'', erow_ts = now\<rparr> db
           in (True, add_metric \<lparr>mc_from = Some (state_value Intake), mc_to = state_value Queued,
                       mc_engine = resolve_engine_label settings, mc_started = None\<rparr> db))"

definition fetch_mission :: "mission_db \<Rightarrow> string \<Rightarrow> MissionRecord option res" where
  "fetch_mission db mid =
     (case map_of (missions db) mid of
        None \<Rightarrow> Inr None
      | Some row \<Rightarrow> rbind (row_to_mission mid row) (\<lambda>m. Inr (Some m)))"

text \<open>The \<open>CASE\<close> of both metadata updates: a stored gate survives a document that has none.\<close>

definition keep_delta_gate :: "pydict \<Rightarrow> pydict \<Rightarrow> pydict" where
  "keep_delta_gate stored incoming =
     (if dhas stored ''delta_audit_gate'' \<and> \<not> dhas incoming ''delta_audit_gate''
      then dset ''delta_audit_gate'' (dget stored ''delta_audit_gate'') incoming
      else incoming)"

definition update_mission_metadata ::
  "int \<Rightarrow> string \<Rightarrow> pydict \<Rightarrow> mission_db \<Rightarrow> MissionRecord option res \<times> mission_db" where
  "update_mission_metadata now mid md db =
     (let normalized = strip_vault (with_project_identity (PDict md) (PStr mid));
          pid = resolve_project_id (PDict normalized) (PStr mid)
      in case map_of (missions db) mid of
           None \<Rightarrow> (Inr None, db)
         | Some row \<Rightarrow>
             let row = row\<lparr>row_metadata := keep_delta_gate (row_metadata row) normalized,
                           row_project_id := Some pid, row_updated_at := now\<rparr>
             in (rbind (row_to_mission mid row) (\<lambda>m. Inr (Some m)),
                 db\<lparr>missions := dset mid row (missions db)\<rparr>))"

definition json_to_dict :: "(string \<Rightarrow> pyval option) \<Rightarrow> pyval \<Rightarrow> pyval res" where
  "json_to_dict loads v =
     (case v of
        PStr s \<Rightarrow> (case loads (if s = [] then ''{}'' else s) of None \<Rightarrow> Inl ValueError | Some w \<Rightarrow> Inr w)
      | PDict d \<Rightarrow> Inr (PDict d)
      | _ \<Rightarrow> Inr (PDict []))"

definition list_legacy_vaults ::
  "(string \<Rightarrow> pyval option) \<Rightarrow> mission_db \<Rightarrow> (string \<times> pyval) list res" where
  "list_legacy_vaults loads db =
     rmap (\<lambda>(mid, row). rbind (json_to_dict loads (dget (row_metadata row) ''vault'')) (\<lambda>v. Inr (mid, v)))
       (filter (\<lambda>(mid, row). dhas (row_metadata row) ''vault'') (missions db))"

definition scrub_row :: "string list \<Rightarrow> string \<times> mission_row \<Rightarrow> string \<times> mission_row" where
  "scrub_row ids = (\<lambda>(mid, row).
     if mid \<in> set ids \<and> dhas (row_metadata row) ''vault''
     then (mid, row\<lparr>row_metadata := ddel ''vault'' (row_metadata row)\<rparr>) else (mid, row))"

definition scrub_mission_vaults :: "string list \<Rightarrow> mission_db \<Rightarrow> int \<times> mission_db" where
  "scrub_mission_vaults ids db =
     (if ids = [] then (0, db)
      else (int (length (filter (\<lambda>(mid, row). mid \<in> set ids \<and> dhas (row_metadata row) ''vault'')
                           (missions db))),
            db\<lparr>missions := map (scrub_row ids) (missions db)\<rparr>))"

section \<open>Reading and moving missions\<close>

text \<open>\<open>ORDER BY created_at DESC LIMIT\<close>; rows with the same instant keep the table's order.\<close>

definition list_missions :: "mission_db \<Rightarrow> nat \<Rightarrow> MissionRecord list res" where
  "list_missions db limit =
     rmap (\<lambda>(mid, row). row_to_mission mid row)
       (take limit (sort_key (\<lambda>(mid, row). - row_created_at row) (missions db)))"

definition list_missions_in_states ::
  "mission_db \<Rightarrow> MissionState list \<Rightarrow> int \<Rightarrow> MissionRecord list res" where
  "list_missions_in_states db states limit =
     (let normalized_states = map state_value states in
      if normalized_states = [] then Inr []
      else rmap (\<lambda>(mid, row). row_to_mission mid row)
             (take (nat (max 1 limit))
               (sort_key (\<lambda>(mid, row). row_created_at row)
                 (filter (\<lambda>(mid, row). row_state row \<in> set normalized_states) (missions db)))))"

definition insert_mission_event ::
  "engine_settings \<Rightarrow> int \<Rightarrow> string \<Rightarrow> MissionState option \<Rightarrow> MissionState \<Rightarrow> string \<Rightarrow> mission_db
     \<Rightarrow> unit res \<times> mission_db" where
  "insert_mission_event settings now mid previous_state new_state event_type db =
     (if \<not> dhas (missions db) mid then (Inl ForeignKeyViolation, db)
      else let db = add_event \<lparr>erow_mission_id = mid,
                      erow_previous = map_option state_value previous_state,
                      erow_new = state_value new_state, erow_type = event_type, erow_ts = now\<rparr> db
           in if previous_state = Some new_state then (Inr (), db)
              else let started = (if new_state = Complete \<or> new_state = Failed
                                  then case fetch_mission db mid of
                                         Inr (Some m) \<Rightarrow> Some (m_created_at m)
                                       | _ \<Rightarrow> None
                                  else None)
                   in (Inr (), add_metric \<lparr>mc_from = map_option state_value previous_state,
                                 mc_to = state_value new_state,
                                 mc_engine = resolve_engine_label settings, mc_started = started\<rparr> db))"

definition row_to_event :: "event_row \<Rightarrow> MissionEvent res" where
  "row_to_event row =
     rbind (case erow_previous row of
              None \<Rightarrow> Inr None
            | Some p \<Rightarrow> if p = [] then Inr None
                        else rbind (MissionState_of p) (\<lambda>s. Inr (Some s))) (\<lambda>previous.
     rbind (MissionState_of (erow_new row)) (\<lambda>new_state.
       if erow_type row \<in> set EventType
       then Inr \<lparr>ev_mission_id = erow_mission_id row, ev_previous_state = previous,
                 ev_new_state = new_state, ev_event_type = erow_type row, ev_ts = erow_ts row\<rparr>
       else Inl ValidationError))"

definition list_mission_events :: "mission_db \<Rightarrow> string \<Rightarrow> nat \<Rightarrow> MissionEvent list res" where
  "list_mission_events db mid limit =
     rmap row_to_event
       (take limit (sort_key (\<lambda>e. - erow_ts e) (filter (\<lambda>e. erow_mission_id e = mid) (events db))))"

definition list_recent_mission_events :: "mission_db \<Rightarrow> nat \<Rightarrow> MissionEvent list res" where
  "list_recent_mission_events db limit =
     rmap row_to_event (take limit (sort_key (\<lambda>e. - erow_ts e) (events db)))"

definition transition_mission_state ::
  "int \<Rightarrow> string \<Rightarrow> MissionState option \<Rightarrow> MissionState \<Rightarrow> string \<Rightarrow> mission_db
     \<Rightarrow> MissionRecord option res \<times> mission_db" where
  "transition_mission_state now mid expected_state new_state event_type db =
     (case map_of (missions db) mid of
        None \<Rightarrow> (Inr None, db)
      | Some row \<Rightarrow>
          if expected_state = None \<or> row_state row = state_value (the expected_state)
          then let row = row\<lparr>row_state := state_value new_state, row_updated_at := now\<rparr>;
                   db = db\<lparr>missions := dset mid row (missions db)\<rparr>;
                   db = add_event \<lparr>erow_mission_id = mid,
                          erow_previous = map_option state_value expected_state,
                          erow_new = state_value new_state, erow_type = event_type, erow_ts = now\<rparr> db
               in (rbind (row_to_mission mid row) (\<lambda>m. Inr (Some m)), db)
          else (Inr None, db))"

definition count_missions :: "mission_db \<Rightarrow> int" where
  "count_missions db = int (length (missions db))"

text \<open>\<open>GROUP BY state\<close>: one entry per state text that occurs, in the order of first occurrence.\<close>

definition mission_state_counts :: "mission_db \<Rightarrow> int dict" where
  "mission_state_counts db =
     (let states = map (\<lambda>(mid, row). row_state row) (missions db)
      in map (\<lambda>s. (s, int (count_list states s))) (remdups states))"

section \<open>Locked updates and partition results\<close>

text \<open>The updater runs under the row lock; an exception of the updater rolls the transaction
  back.\<close>

definition locked_mission_metadata_update ::
  "int \<Rightarrow> string \<Rightarrow> (pydict \<Rightarrow> MissionRecord \<Rightarrow> pyval res) \<Rightarrow> mission_db
     \<Rightarrow> MissionRecord option res \<times> mission_db" where
  "locked_mission_metadata_update now mid updater db =
     (case map_of (missions db) mid of
        None \<Rightarrow> (Inr None, db)
      | Some row \<Rightarrow>
          (case rbind (row_to_mission mid row) (\<lambda>mission.
                  rbind (updater (m_metadata mission) mission) (\<lambda>updated.
                    Inr (case updated of PDict d \<Rightarrow> d | _ \<Rightarrow> m_metadata mission))) of
             Inl e \<Rightarrow> (Inl e, db)
           | Inr updated \<Rightarrow>
               let row = row\<lparr>row_metadata := keep_delta_gate (row_metadata row)
                                (with_project_identity (PDict updated) (PStr mid)),
                             row_project_id := Some (resolve_project_id (PDict updated) (PStr mid)),
                             row_updated_at := now\<rparr>
               in (rbind (row_to_mission mid row) (\<lambda>m. Inr (Some m)),
                   db\<lparr>missions := dset mid row (missions db)\<rparr>)))"

text \<open>\<open>[x for x in value if isinstance(x, dict)]\<close>.\<close>

definition dict_elements :: "pyval \<Rightarrow> pyval list res" where
  "dict_elements v = rbind (py_tuple v) (\<lambda>xs. Inr (filter is_dict xs))"

definition partition_result_of :: "string \<Rightarrow> pydict \<Rightarrow> PartitionResult res" where
  "partition_result_of stamp result =
     rbind (py_int (dget_or result ''instance_index'' (PInt 0))) (\<lambda>idx.
     rbind (dict_elements (dget_or result ''logicnodes'' (PList []))) (\<lambda>logicnodes.
     rbind (dict_elements (dget_or result ''artifacts'' (PList []))) (\<lambda>artifacts.
       Inr (mk_PartitionResult stamp (py_str (dget_or result ''partition_id'' (PStr []))) idx
             (py_str (dget_or result ''agent_id'' (PStr []))) logicnodes artifacts
             (dict_or_empty (dget result ''report''))
             (py_str (dget_or result ''completed_at'' (PStr [])))))))"

definition partition_update :: "string \<Rightarrow> PartitionResult \<Rightarrow> pydict \<Rightarrow> pydict res" where
  "partition_update stamp result md =
     (let md = Agent_Scaling.record_partition_result md result;
          md = dset ''last_partition_result_at'' (PStr (pr_completed_at result)) md;
          md = (case dget md ''partition_results'' of
                  PDict rs \<Rightarrow> dset ''partition_result_count'' (PInt (int (length rs))) md
                | _ \<Rightarrow> md)
      in rbind (all_partitions_complete stamp md) (\<lambda>complete.
           if complete
           then rbind (rmap (partition_result_of stamp)
                         (dicts_of (map snd (dict_or_empty (dget md ''partition_results'')))))
                  (\<lambda>results.
                    let merged = merge_partition_results stamp results
                    in Inr (dset ''scaling_completed_at'' (PStr (mr_merged_at merged))
                             (dset ''scaling_merge_complete'' (PBool True)
                               (dset ''merged_partition_result'' (MergedResult_to_dict merged) md))))
           else Inr (dset ''scaling_merge_complete'' (PBool False) md)))"

definition store_partition_result ::
  "int \<Rightarrow> string \<Rightarrow> string \<Rightarrow> pydict \<Rightarrow> mission_db \<Rightarrow> MissionRecord option res \<times> mission_db" where
  "store_partition_result now stamp mid result db =
     (case partition_result_of stamp result of
        Inl e \<Rightarrow> (Inl e, db)
      | Inr partition_result \<Rightarrow>
          locked_mission_metadata_update now mid
            (\<lambda>md _. rbind (partition_update stamp partition_result md) (\<lambda>d. Inr (PDict d))) db)"

section \<open>Views of the database\<close>

definition row_of :: "mission_db \<Rightarrow> string \<Rightarrow> mission_row option" where
  "row_of db mid = map_of (missions db) mid"

definition db_state :: "mission_db \<Rightarrow> string \<Rightarrow> string option" where
  "db_state db mid = map_option row_state (row_of db mid)"

definition db_metadata :: "mission_db \<Rightarrow> string \<Rightarrow> pydict option" where
  "db_metadata db mid = map_option row_metadata (row_of db mid)"

definition mission_log :: "mission_db \<Rightarrow> string \<Rightarrow> event_row list" where
  "mission_log db mid = filter (\<lambda>e. erow_mission_id e = mid) (events db)"

lemma row_of_dset [simp]:
  "row_of (db\<lparr>missions := dset mid row (missions db)\<rparr>) = (row_of db)(mid \<mapsto> row)"
  by (auto simp: row_of_def)

lemma view_simps [simp]:
  "row_of (add_event e db) = row_of db" "row_of (add_metric c db) = row_of db"
  "mission_log (add_metric c db) mid = mission_log db mid"
  "mission_log (db\<lparr>missions := ms\<rparr>) mid = mission_log db mid"
  "mission_log (add_event e db) mid
     = mission_log db mid @ (if erow_mission_id e = mid then [e] else [])"
  by (simp_all add: row_of_def add_event_def add_metric_def mission_log_def fun_eq_iff)

lemma events_simps [simp]:
  "events (add_event e db) = events db @ [e]" "events (add_metric c db) = events db"
  "missions (add_event e db) = missions db" "missions (add_metric c db) = missions db"
  by (simp_all add: add_event_def add_metric_def)

lemma dhas_row_of: "dhas (missions db) mid \<longleftrightarrow> row_of db mid \<noteq> None"
  by (simp add: dhas_def row_of_def)

lemma row_to_mission_state:
  "row_state row = state_value s \<Longrightarrow>
   \<exists>m. row_to_mission mid row = Inr m \<and> m_state m = s \<and> m_metadata m = row_metadata row
     \<and> m_mission_id m = mid \<and> m_requested_target_language m = row_language row"
  by (simp add: row_to_mission_def Let_def)

lemma fetch_ok:
  assumes "row_of db mid = Some row" and "row_state row = state_value s"
  obtains m where "fetch_mission db mid = Inr (Some m)" and "m_state m = s"
    and "m_metadata m = row_metadata row" and "m_mission_id m = mid"
    and "m_requested_target_language m = row_language row"
  using assms row_to_mission_state [OF assms(2), of mid] by (auto simp: fetch_mission_def row_of_def)

text \<open>What a transition does, on its three branches.\<close>

lemma transition_missing:
  "row_of db mid = None \<Longrightarrow> transition_mission_state now mid xst new ev db = (Inr None, db)"
  by (simp add: transition_mission_state_def row_of_def)

lemma transition_stale:
  "row_of db mid = Some row \<Longrightarrow> row_state row \<noteq> state_value a \<Longrightarrow>
   transition_mission_state now mid (Some a) new ev db = (Inr None, db)"
  by (simp add: transition_mission_state_def row_of_def)

lemma transition_hit:
  assumes "row_of db mid = Some row" and "xst = None \<or> row_state row = state_value (the xst)"
  obtains m db' where "transition_mission_state now mid xst new ev db = (Inr (Some m), db')"
    and "m_state m = new" and "m_metadata m = row_metadata row"
    and "row_of db' = (row_of db)(mid \<mapsto> row\<lparr>row_state := state_value new, row_updated_at := now\<rparr>)"
    and "events db' = events db @ [\<lparr>erow_mission_id = mid, erow_previous = map_option state_value xst,
           erow_new = state_value new, erow_type = ev, erow_ts = now\<rparr>]"
proof -
  let ?row = "row\<lparr>row_state := state_value new, row_updated_at := now\<rparr>"
  obtain m where m: "row_to_mission mid ?row = Inr m" "m_state m = new" "m_metadata m = row_metadata row"
    using row_to_mission_state [of ?row new mid] by auto
  have "map_of (missions db) mid = Some row" using assms(1) by (simp add: row_of_def)
  with assms(2) m show thesis
    by (intro that [of m]) (auto simp: transition_mission_state_def Let_def)
qed

section \<open>Compare and swap\<close>

text \<open>Attempts that follow one another, each against the store the previous one left.\<close>

fun race :: "('s \<Rightarrow> 'a \<Rightarrow> bool \<times> 's) \<Rightarrow> 's \<Rightarrow> 'a list \<Rightarrow> bool list \<times> 's" where
  "race f s [] = ([], s)"
| "race f s (x # xs) = (let (w, s') = f s x; (ws, s'') = race f s' xs in (w # ws, s''))"

text \<open>The contract of a store with a compare-and-swap on the state of a mission.\<close>

locale cas_store =
  fixes current :: "'s \<Rightarrow> string \<Rightarrow> string option"
    and cas :: "string \<Rightarrow> MissionState \<Rightarrow> 's \<Rightarrow> MissionState \<times> string \<Rightarrow> bool \<times> 's"
  assumes cas_hit: "current s m = Some (state_value a) \<Longrightarrow>
      fst (cas m a s (b, e)) \<and> current (snd (cas m a s (b, e))) = (current s)(m \<mapsto> state_value b)"
    and cas_miss: "current s m \<noteq> Some (state_value a) \<Longrightarrow> cas m a s x = (False, s)"
begin

lemma race_lost:
  "current s m \<noteq> Some (state_value a) \<Longrightarrow> race (cas m a) s xs = (replicate (length xs) False, s)"
  by (induction xs) (simp_all add: cas_miss)

lemma race_first_wins:
  assumes "current s m = Some (state_value a)" and "fst x \<noteq> a"
  shows "race (cas m a) s (x # xs) = (True # replicate (length xs) False, snd (cas m a s x))"
proof -
  have hit: "fst (cas m a s x)" "current (snd (cas m a s x)) = (current s)(m \<mapsto> state_value (fst x))"
    using cas_hit [OF assms(1), of "fst x" "snd x"] by simp_all
  then have "race (cas m a) (snd (cas m a s x)) xs = (replicate (length xs) False, snd (cas m a s x))"
    using assms(2) by (intro race_lost) simp
  with hit show ?thesis by (simp add: case_prod_beta)
qed

lemma cas_other: "m' \<noteq> m \<Longrightarrow> current (snd (cas m a s (b, e))) m' = current s m'"
  by (cases "current s m = Some (state_value a)") (simp_all add: cas_hit cas_miss)

end

definition won :: "MissionRecord option res \<times> mission_db \<Rightarrow> bool \<times> mission_db" where
  "won r = (fst r \<noteq> Inr None \<and> \<not> isl (fst r), snd r)"

definition transition_attempt ::
  "int \<Rightarrow> string \<Rightarrow> MissionState \<Rightarrow> mission_db \<Rightarrow> MissionState \<times> string \<Rightarrow> bool \<times> mission_db" where
  "transition_attempt now mid a db x = won (transition_mission_state now mid (Some a) (fst x) (snd x) db)"

interpretation pg: cas_store db_state "transition_attempt now"
proof
  fix s m a b e
  assume "db_state s m = Some (state_value a)"
  then obtain row where row: "row_of s m = Some row" "row_state row = state_value a"
    by (auto simp: db_state_def)
  then show "fst (transition_attempt now m a s (b, e))
      \<and> db_state (snd (transition_attempt now m a s (b, e))) = (db_state s)(m \<mapsto> state_value b)"
    by (elim transition_hit [where xst = "Some a" and new = b and ev = e and now = now])
      (auto simp: transition_attempt_def won_def db_state_def)
next
  fix s m a x
  assume "db_state s m \<noteq> Some (state_value a)"
  then show "transition_attempt now m a s x = (False, s)"
    by (cases "row_of s m")
      (auto simp: transition_attempt_def won_def db_state_def transition_missing transition_stale)
qed

section \<open>The invariant of the tables\<close>

text \<open>Every mission is in a known state, the one its newest event names, and holds no credentials;
  every event belongs to a mission and has a known type and known states.\<close>

definition row_ok :: "event_row list \<Rightarrow> mission_row \<Rightarrow> bool" where
  "row_ok es row \<longleftrightarrow>
     es \<noteq> [] \<and> row_state row = erow_new (last es) \<and> erow_new (last es) \<in> state_value ` set all_states
     \<and> \<not> dhas (row_metadata row) ''vault''"

definition event_ok :: "event_row \<Rightarrow> bool" where
  "event_ok e \<longleftrightarrow> erow_type e \<in> set EventType \<and> erow_new e \<in> state_value ` set all_states
     \<and> (\<forall>p. erow_previous e = Some p \<longrightarrow> p \<in> state_value ` set all_states)"

definition store_inv :: "mission_db \<Rightarrow> bool" where
  "store_inv db \<longleftrightarrow>
     (\<forall>mid row. row_of db mid = Some row \<longrightarrow> row_ok (mission_log db mid) row)
     \<and> (\<forall>e \<in> set (events db). row_of db (erow_mission_id e) \<noteq> None \<and> event_ok e)"

text \<open>The histories of the tables: any sequence of the operations below, at any instants.\<close>

inductive history :: "mission_db \<Rightarrow> bool" where
  history_empty: "history \<lparr>missions = [], events = [], metrics = []\<rparr>"
| history_persist: "history db \<Longrightarrow> m_state r = Queued \<Longrightarrow>
    history (snd (persist_intake_mission settings now r src db))"
| history_create: "history db \<Longrightarrow> m_state r = Queued \<Longrightarrow>
    history (snd (insert_mission_event settings now' (m_mission_id r) (Some Intake) Queued
      ''MISSION_QUEUED'' (upsert_mission now r src db)))"
| history_transition: "history db \<Longrightarrow> ev \<in> set EventType \<Longrightarrow>
    history (snd (transition_mission_state now mid xst new ev db))"
| history_checkpoint: "history db \<Longrightarrow> db_state db mid = Some (state_value s) \<Longrightarrow> ev \<in> set EventType \<Longrightarrow>
    history (snd (insert_mission_event settings now mid (Some s) s ev db))"
| history_metadata: "history db \<Longrightarrow> history (snd (update_mission_metadata now mid md db))"
| history_partition: "history db \<Longrightarrow> history (snd (store_partition_result now stamp mid result db))"
| history_scrub: "history db \<Longrightarrow> history (snd (scrub_mission_vaults ids db))"

lemma store_invI:
  assumes "\<And>mid row. row_of db mid = Some row \<Longrightarrow> row_ok (mission_log db mid) row"
    and "\<And>e. e \<in> set (events db) \<Longrightarrow> row_of db (erow_mission_id e) \<noteq> None \<and> event_ok e"
  shows "store_inv db"
  using assms by (simp add: store_inv_def)

lemma store_inv_row: "store_inv db \<Longrightarrow> row_of db mid = Some row \<Longrightarrow> row_ok (mission_log db mid) row"
  by (simp add: store_inv_def)

text \<open>Two shapes of updates keep the invariant: replacing a row's document by one without a vault,
  and setting a row together with an event that names its state.\<close>

lemma store_inv_document:
  assumes inv: "store_inv db" and row: "row_of db mid = Some row" and st: "row_state row' = row_state row"
    and md: "\<not> dhas (row_metadata row') ''vault''"
  shows "store_inv (db\<lparr>missions := dset mid row' (missions db)\<rparr>)"
proof (rule store_invI)
  fix m r
  assume "row_of (db\<lparr>missions := dset mid row' (missions db)\<rparr>) m = Some r"
  then show "row_ok (mission_log (db\<lparr>missions := dset mid row' (missions db)\<rparr>) m) r"
    using store_inv_row [OF inv] row st md by (auto simp: row_ok_def split: if_splits)
next
  fix e
  assume "e \<in> set (events (db\<lparr>missions := dset mid row' (missions db)\<rparr>))"
  then show "row_of (db\<lparr>missions := dset mid row' (missions db)\<rparr>) (erow_mission_id e) \<noteq> None \<and> event_ok e"
    using inv by (auto simp: store_inv_def)
qed

lemma store_inv_move:
  assumes inv: "store_inv db" and e: "event_ok e" "erow_mission_id e = mid" "erow_new e = row_state row"
    and md: "\<not> dhas (row_metadata row) ''vault''"
  shows "store_inv (add_event e (db\<lparr>missions := dset mid row (missions db)\<rparr>))"
proof (rule store_invI)
  fix m r
  assume "row_of (add_event e (db\<lparr>missions := dset mid row (missions db)\<rparr>)) m = Some r"
  then show "row_ok (mission_log (add_event e (db\<lparr>missions := dset mid row (missions db)\<rparr>)) m) r"
    using store_inv_row [OF inv] e md by (auto simp: row_ok_def event_ok_def split: if_splits)
next
  fix x
  assume "x \<in> set (events (add_event e (db\<lparr>missions := dset mid row (missions db)\<rparr>)))"
  then show "row_of (add_event e (db\<lparr>missions := dset mid row (missions db)\<rparr>)) (erow_mission_id x) \<noteq> None
      \<and> event_ok x"
    using inv e by (auto simp: store_inv_def)
qed

lemma store_inv_checkpoint:
  assumes "store_inv db" and "event_ok e" and "db_state db (erow_mission_id e) = Some (erow_new e)"
  shows "store_inv (add_event e db)"
proof (rule store_invI)
  fix m r
  assume "row_of (add_event e db) m = Some r"
  then show "row_ok (mission_log (add_event e db) m) r"
    using store_inv_row [OF assms(1)] assms(2,3) by (auto simp: row_ok_def event_ok_def db_state_def)
next
  fix x
  assume "x \<in> set (events (add_event e db))"
  then show "row_of (add_event e db) (erow_mission_id x) \<noteq> None \<and> event_ok x"
    using assms by (auto simp: store_inv_def db_state_def)
qed

lemma store_inv_metric [simp]: "store_inv (add_metric c db) = store_inv db"
  by (simp add: store_inv_def)

lemma no_vault_identity: "\<not> dhas (strip_vault d) ''vault''"
  using strip_vault_none [of d] by (simp add: VAULT_METADATA_KEY_def)

lemma no_vault_charter: "dhas (embed_charter_fields d r) ''vault'' = dhas d ''vault''"
  by (simp add: embed_charter_fields_def dset_opt_def Let_def split: option.split)

lemma no_vault_gate: "dhas (keep_delta_gate d e) ''vault'' = dhas e ''vault''"
  by (simp add: keep_delta_gate_def)

lemma no_vault_project: "dhas (with_project_identity (PDict d) v) ''vault'' = dhas d ''vault''"
  by (simp add: with_project_identity_def Let_def)

lemma no_vault_partition:
  "partition_update stamp res d = Inr d' \<Longrightarrow> dhas d' ''vault'' = dhas d ''vault''"
  by (auto simp: partition_update_def Let_def Agent_Scaling.record_partition_result_def rbind_Inr_iff
      split: pyval.splits if_splits)

lemmas no_vault = no_vault_identity no_vault_charter no_vault_gate no_vault_project

lemma upsert_row_ok:
  "\<not> dhas (row_metadata (mission_upsert_params now r src)) ''vault''"
  "row_state (mission_upsert_params now r src) = state_value (m_state r)"
  by (simp_all add: mission_upsert_params_def Let_def no_vault)

lemma event_ok_value [simp]:
  "event_ok \<lparr>erow_mission_id = mid, erow_previous = map_option state_value p,
     erow_new = state_value s, erow_type = ev, erow_ts = t\<rparr> \<longleftrightarrow> ev \<in> set EventType"
  by (auto simp: event_ok_def)

lemma queued_known: "''MISSION_QUEUED'' \<in> set EventType"
  by (simp add: EventType_def)

lemma event_ok_queued [simp]:
  "event_ok \<lparr>erow_mission_id = mid, erow_previous = Some ''INTAKE'',
     erow_new = ''QUEUED'', erow_type = ''MISSION_QUEUED'', erow_ts = t\<rparr>"
  using event_ok_value [of mid "Some Intake" Queued "''MISSION_QUEUED''" t] queued_known by simp

lemma store_inv_locked:
  assumes inv: "store_inv db"
    and keep: "\<And>d m d'. upd d m = Inr (PDict d') \<Longrightarrow> dhas d' ''vault'' = dhas d ''vault''"
  shows "store_inv (snd (locked_mission_metadata_update now mid upd db))"
proof (cases "row_of db mid")
  case None
  then show ?thesis using inv by (simp add: locked_mission_metadata_update_def row_of_def)
next
  case (Some row)
  then have row: "map_of (missions db) mid = Some row" by (simp add: row_of_def)
  have nv: "\<not> dhas (row_metadata row) ''vault''"
    using store_inv_row [OF inv Some] by (simp add: row_ok_def)
  show ?thesis
  proof (cases "rbind (row_to_mission mid row) (\<lambda>m. rbind (upd (m_metadata m) m) (\<lambda>u.
                    Inr (case u of PDict d \<Rightarrow> d | _ \<Rightarrow> m_metadata m)))")
    case (Inl e)
    then show ?thesis using inv row by (simp add: locked_mission_metadata_update_def)
  next
    case (Inr d)
    then obtain m u where m: "row_to_mission mid row = Inr m" "upd (m_metadata m) m = Inr u"
      "d = (case u of PDict d \<Rightarrow> d | _ \<Rightarrow> m_metadata m)" by (auto simp: rbind_Inr_iff)
    have "m_metadata m = row_metadata row" using m(1) by (auto simp: row_to_mission_def Let_def rbind_Inr_iff)
    then have "\<not> dhas d ''vault''" using m(2,3) nv keep by (cases u) auto
    then show ?thesis using Inr row
      by (auto simp: locked_mission_metadata_update_def Let_def no_vault intro!: store_inv_document [OF inv Some])
  qed
qed

lemma upsert_row:
  obtains row where "upsert_mission now r src db = db\<lparr>missions := dset (m_mission_id r) row (missions db)\<rparr>"
    and "row_state row = state_value (m_state r)" and "\<not> dhas (row_metadata row) ''vault''"
    and "row_metadata row = row_metadata (mission_upsert_params now r src)"
proof -
  let ?p = "mission_upsert_params now r src"
  let ?row = "case map_of (missions db) (m_mission_id r) of None \<Rightarrow> ?p
    | Some old \<Rightarrow> ?p\<lparr>row_created_at := row_created_at old\<rparr>"
  show thesis
    by (rule that [of ?row]) (simp_all add: upsert_mission_def Let_def upsert_row_ok split: option.split)
qed

lemma map_of_scrub:
  "map_of (map (scrub_row ids) ms) m = map_option (\<lambda>row. snd (scrub_row ids (m, row))) (map_of ms m)"
  by (induction ms) (auto simp: scrub_row_def)

lemma history_inv: "history db \<Longrightarrow> store_inv db"
proof (induction rule: history.induct)
  case history_empty
  show ?case by (simp add: store_inv_def row_of_def)
next
  case (history_persist db r settings now src)
  then show ?case
    by (auto simp: persist_intake_mission_def Let_def upsert_row_ok intro!: store_inv_move)
next
  case (history_create db r settings now' now src)
  obtain row where row: "upsert_mission now r src db = db\<lparr>missions := dset (m_mission_id r) row (missions db)\<rparr>"
      "row_state row = state_value Queued" "\<not> dhas (row_metadata row) ''vault''"
    by (rule upsert_row [of now r src db]) (use history_create.hyps(2) in simp)
  then show ?case using history_create.IH
    by (auto simp: insert_mission_event_def Let_def intro!: store_inv_move)
next
  case (history_transition db ev now mid xst new)
  show ?case
  proof (cases "row_of db mid")
    case (Some row)
    then have "\<not> dhas (row_metadata row) ''vault''"
      using store_inv_row [OF history_transition.IH] by (simp add: row_ok_def)
    then show ?thesis using Some history_transition
      by (auto simp: event_ok_def transition_mission_state_def row_of_def Let_def intro!: store_inv_move)
  qed (simp add: transition_missing history_transition.IH)
next
  case (history_checkpoint db mid s ev settings now)
  then have "dhas (missions db) mid" by (auto simp: dhas_row_of db_state_def)
  then show ?case using history_checkpoint event_ok_value [of mid "Some s" s ev now]
    by (auto simp: insert_mission_event_def Let_def intro!: store_inv_checkpoint)
next
  case (history_metadata db now mid md)
  then show ?case
    by (cases "row_of db mid")
      (auto simp: update_mission_metadata_def Let_def no_vault row_of_def
        intro!: store_inv_document [unfolded row_of_def])
next
  case (history_partition db now stamp mid result)
  then show ?case
    by (auto simp: store_partition_result_def rbind_Inr_iff no_vault_partition
        intro!: store_inv_locked split: sum.split)
next
  case (history_scrub db ids)
  have "scrub_row ids (m, row) = (m, row)" if "row_of db m = Some row" for m row
    using store_inv_row [OF history_scrub.IH that] by (simp add: scrub_row_def row_ok_def)
  then have "map_of (map (scrub_row ids) (missions db)) = map_of (missions db)"
    by (auto simp: map_of_scrub row_of_def fun_eq_iff map_option_case split: option.split)
  then have "row_of (snd (scrub_mission_vaults ids db)) = row_of db"
    by (simp add: scrub_mission_vaults_def row_of_def fun_eq_iff)
  moreover have "events (snd (scrub_mission_vaults ids db)) = events db"
    by (simp add: scrub_mission_vaults_def)
  ultimately show ?case using history_scrub.IH by (simp add: store_inv_def mission_log_def)
qed

section \<open>Lemmas for the properties\<close>

lemma dget_keep_gate:
  "dhas d ''delta_audit_gate'' \<Longrightarrow>
   map_of (keep_delta_gate d e) ''delta_audit_gate'' =
     (if dhas e ''delta_audit_gate'' then map_of e ''delta_audit_gate'' else map_of d ''delta_audit_gate'')"
  by (auto simp: keep_delta_gate_def dhas_def dget_def)

lemma gate_of_normalized:
  "map_of (strip_vault (with_project_identity (PDict md) v)) ''delta_audit_gate'' = map_of md ''delta_audit_gate''"
  "map_of (with_project_identity (PDict md) v) ''delta_audit_gate'' = map_of md ''delta_audit_gate''"
  by (simp_all add: strip_vault_frame VAULT_METADATA_KEY_def with_project_identity_frame)

lemma row_to_event_ok: "event_ok e \<Longrightarrow> \<exists>x. row_to_event e = Inr x"
  by (auto simp: event_ok_def row_to_event_def split: option.split)

lemma rmap_ok: "(\<And>x. x \<in> set xs \<Longrightarrow> \<exists>y. f x = Inr y) \<Longrightarrow> \<exists>ys. rmap f xs = Inr ys \<and> length ys = length xs"
  by (induction xs) force+

lemma rmap_keys:
  "rmap (\<lambda>(k, v). rbind (f k v) (\<lambda>w. Inr (k, w))) xs = Inr ys \<Longrightarrow> map fst ys = map fst xs"
  by (induction xs arbitrary: ys) (auto simp: rbind_Inr_iff)

lemma rmap_nth_ok: "rmap f xs = Inr ys \<Longrightarrow> x \<in> set xs \<Longrightarrow> \<exists>y \<in> set ys. f x = Inr y"
  by (induction xs arbitrary: ys) (auto simp: rbind_Inr_iff)

lemma row_to_mission_id: "row_to_mission mid row = Inr m \<Longrightarrow> m_mission_id m = mid"
  by (auto simp: row_to_mission_def Let_def rbind_Inr_iff)

lemma enum_of_embedded: "v \<in> set vs \<Longrightarrow> v \<noteq> [] \<Longrightarrow> enum_of vs (PStr v) = Some v"
  by (simp add: enum_of_def)

lemma enum_values_not_Nil:
  "v \<in> set MissionType_values \<Longrightarrow> v \<noteq> []" "v \<in> set DepthMode_values \<Longrightarrow> v \<noteq> []"
  "v \<in> set OutputMode_values \<Longrightarrow> v \<noteq> []" "v \<in> set DataClassification_values \<Longrightarrow> v \<noteq> []"
  by (auto simp: MissionType_values_def DepthMode_values_def OutputMode_values_def
      DataClassification_values_def)

lemma fetch_upserted:
  obtains m row where "fetch_mission (upsert_mission now r src db) (m_mission_id r) = Inr (Some m)"
    and "row_to_mission (m_mission_id r) row = Inr m"
    and "row_metadata row = row_metadata (mission_upsert_params now r src)"
    and "row_state row = state_value (m_state r)"
proof -
  obtain row where row: "upsert_mission now r src db = db\<lparr>missions := dset (m_mission_id r) row (missions db)\<rparr>"
    "row_state row = state_value (m_state r)"
    "row_metadata row = row_metadata (mission_upsert_params now r src)"
    by (rule upsert_row [of now r src db])
  obtain m where "row_to_mission (m_mission_id r) row = Inr m"
    using row_to_mission_state [OF row(2), of "m_mission_id r"] by auto
  with row show thesis by (intro that [of m row]) (simp_all add: fetch_mission_def)
qed

lemma partition_keeps:
  assumes "row_of db mid = Some row" and "P row"
    and "\<And>row' res d. row_metadata row' = keep_delta_gate (row_metadata row) (with_project_identity (PDict d) (PStr mid))
      \<Longrightarrow> partition_update stamp res (row_metadata row) = Inr d \<Longrightarrow> P row'"
  shows "\<exists>row'. row_of (snd (store_partition_result now stamp mid result db)) mid = Some row' \<and> P row'"
proof -
  have row: "map_of (missions db) mid = Some row" using assms(1) by (simp add: row_of_def)
  have unchanged: "\<exists>row'. row_of db mid = Some row' \<and> P row'" using assms(1,2) by blast
  show ?thesis
  proof (cases "partition_result_of stamp result")
    case (Inl e)
    then show ?thesis using unchanged by (simp add: store_partition_result_def)
  next
    case (Inr res)
    show ?thesis
    proof (cases "rbind (row_to_mission mid row) (\<lambda>m. partition_update stamp res (m_metadata m))")
      case (Inl e)
      then show ?thesis using Inr row unchanged
        by (auto simp: store_partition_result_def locked_mission_metadata_update_def rbind_def
            split: sum.splits)
    next
      case (Inr d)
      then obtain m where m: "row_to_mission mid row = Inr m" "partition_update stamp res (m_metadata m) = Inr d"
        by (auto simp: rbind_Inr_iff)
      have "m_metadata m = row_metadata row"
        using m(1) by (auto simp: row_to_mission_def Let_def rbind_Inr_iff)
      then show ?thesis using m \<open>partition_result_of stamp result = Inr res\<close> row assms(3) [OF _ m(2) [unfolded \<open>m_metadata m = row_metadata row\<close>]]
        by (simp add: store_partition_result_def locked_mission_metadata_update_def Let_def)
    qed
  qed
qed

lemma gate_of_partition:
  "partition_update stamp res d = Inr d' \<Longrightarrow> map_of d' ''delta_audit_gate'' = map_of d ''delta_audit_gate''"
  by (auto simp: partition_update_def Let_def Agent_Scaling.record_partition_result_def rbind_Inr_iff
      split: pyval.splits if_splits)

lemma upsert_fetch_fields:
  assumes "fetch_mission (upsert_mission now r src db) (m_mission_id r) = Inr (Some m)"
  shows "m_mission_id m = m_mission_id r \<and> m_state m = m_state r
    \<and> \<not> dhas (m_metadata m) ''vault''
    \<and> (\<forall>t \<in> set MissionType_values. m_mission_type r = Some t \<longrightarrow> m_mission_type m = Some t)
    \<and> (\<forall>t \<in> set DepthMode_values. m_depth_mode r = Some t \<longrightarrow> m_depth_mode m = Some t)
    \<and> (\<forall>t \<in> set OutputMode_values. m_output_mode r = Some t \<longrightarrow> m_output_mode m = Some t)
    \<and> (\<forall>t \<in> set DataClassification_values.
         m_data_classification r = Some t \<longrightarrow> m_data_classification m = Some t)
    \<and> (\<forall>e. m_lifecycle_engine r = Some e \<longrightarrow> e \<noteq> [] \<longrightarrow> m_lifecycle_engine m = Some (py_strip e))"
proof -
  obtain m' row where f: "fetch_mission (upsert_mission now r src db) (m_mission_id r) = Inr (Some m')"
    "row_to_mission (m_mission_id r) row = Inr m'"
    "row_metadata row = row_metadata (mission_upsert_params now r src)"
    "row_state row = state_value (m_state r)"
    by (rule fetch_upserted)
  have m: "row_to_mission (m_mission_id r) row = Inr m" using f assms by simp
  let ?md = "row_metadata row"
  have md: "m_metadata m = ?md" "m_mission_id m = m_mission_id r" "m_state m = m_state r"
    using m f(4) by (auto simp: row_to_mission_def Let_def)
  have charter: "m_mission_type m = enum_of MissionType_values (dget ?md ''__mission_type__'')"
    "m_depth_mode m = enum_of DepthMode_values (dget ?md ''__depth_mode__'')"
    "m_output_mode m = enum_of OutputMode_values (dget ?md ''__output_mode__'')"
    "m_data_classification m = enum_of DataClassification_values (dget ?md ''__data_classification__'')"
    "m_lifecycle_engine m = (let e = dget ?md ''lifecycle_engine'' in
       if truthy e then Some (py_strip (py_str e)) else None)"
    using m by (auto simp: row_to_mission_def Let_def rbind_Inr_iff charter_fields_from_metadata_def)
  note embedded = f(3) mission_upsert_params_def embed_charter_fields_def dset_opt_def Let_def
  show ?thesis
    unfolding md(2,3) charter
    using f(3) upsert_row_ok(1) [of now r src] md(1)
    by (auto simp: embedded enum_of_embedded enum_values_not_Nil split: option.splits)
qed

text \<open>A small database for the witnesses.\<close>

definition sample_row :: mission_row where
  "sample_row = \<lparr>row_prompt = ''p'', row_language = Some ''Python'',
     row_metadata = [(''project_id'', PStr ''project-x''), (''delta_audit_gate'', PDict [(''passed'', PBool True)])],
     row_project_id = Some ''project-x'', row_state = ''RUNNING'', row_created_at = 1,
     row_updated_at = 1, row_source_stream_id = None\<rparr>"

definition sample_db :: mission_db where
  "sample_db = \<lparr>missions = [(''m1'', sample_row)], events = [], metrics = []\<rparr>"

definition sample_record :: MissionRecord where
  "sample_record = \<lparr>m_mission_id = ''m2'', m_prompt = ''p'', m_requested_target_language = None,
     m_mission_type = Some ''PORT'', m_depth_mode = None, m_output_mode = None,
     m_data_classification = Some ''TIER_1_INTERNAL'', m_metadata = [(''vault'', PDict [])],
     m_project_id = None, m_lifecycle_engine = Some ''mission_flow_v2'', m_state = Queued, m_created_at = 2\<rparr>"

section \<open>Properties\<close>

text \<open>C3. Compare-and-swap transitions are race free: when several workers try to move one mission
  out of the same state, whatever their targets and the instants, the first attempt wins and every
  later one is refused; the log gains exactly the winner's event and no other mission is touched.\<close>

theorem transition_race_one_winner:
  assumes "db_state db mid = Some (state_value a)" and "fst x \<noteq> a"
    and "race (transition_attempt now mid a) db (x # xs) = (wins, db')"
  shows "wins = True # replicate (length xs) False
    \<and> events db' = events db @ [\<lparr>erow_mission_id = mid, erow_previous = Some (state_value a),
         erow_new = state_value (fst x), erow_type = snd x, erow_ts = now\<rparr>]
    \<and> db_state db' = (db_state db)(mid \<mapsto> state_value (fst x))"
proof -
  have w: "wins = True # replicate (length xs) False" "db' = snd (transition_attempt now mid a db x)"
    using pg.race_first_wins [OF assms(1,2), of now xs] assms(3) by simp_all
  obtain row where "row_of db mid = Some row" "row_state row = state_value a"
    using assms(1) by (auto simp: db_state_def)
  then have "events db' = events db @ [\<lparr>erow_mission_id = mid, erow_previous = Some (state_value a),
      erow_new = state_value (fst x), erow_type = snd x, erow_ts = now\<rparr>]"
    unfolding w(2) by (elim transition_hit [where xst = "Some a" and new = "fst x" and ev = "snd x" and now = now])
      (auto simp: transition_attempt_def won_def)
  then show ?thesis using w pg.cas_hit [OF assms(1), of now "fst x" "snd x"] by simp
qed

theorem transition_race_one_winner_witness:
  "fst (race (transition_attempt 7 ''m1'' Running) sample_db
     [(Gating, ''MISSION_GATING''), (Failed, ''MISSION_FAILED'')]) = [True, False]"
proof -
  obtain wins db' where r: "race (transition_attempt 7 ''m1'' Running) sample_db
     [(Gating, ''MISSION_GATING''), (Failed, ''MISSION_FAILED'')] = (wins, db')" by fastforce
  have "db_state sample_db ''m1'' = Some (state_value Running)" by code_simp
  from transition_race_one_winner [OF this _ r] r show ?thesis by simp
qed



text \<open>C15. A recorded Delta audit verdict is never lost: metadata writes and partition results replace
  the whole document, yet if the stored one has a verdict the new one has it too, either the verdict
  the writer brought along or, unchanged, the stored one; transitions do not touch it.\<close>

theorem delta_gate_survives:
  assumes "row_of db mid = Some row" and "dhas (row_metadata row) ''delta_audit_gate''"
  shows "(\<exists>row'. row_of (snd (update_mission_metadata now mid md db)) mid = Some row'
      \<and> map_of (row_metadata row') ''delta_audit_gate''
        = (if dhas md ''delta_audit_gate'' then map_of md ''delta_audit_gate''
           else map_of (row_metadata row) ''delta_audit_gate''))
    \<and> (\<exists>row'. row_of (snd (store_partition_result now stamp mid result db)) mid = Some row'
      \<and> map_of (row_metadata row') ''delta_audit_gate'' = map_of (row_metadata row) ''delta_audit_gate'')
    \<and> (\<exists>row'. row_of (snd (transition_mission_state now mid xst new ev db)) mid = Some row'
      \<and> row_metadata row' = row_metadata row)"
proof (intro conjI)
  show "\<exists>row'. row_of (snd (update_mission_metadata now mid md db)) mid = Some row'
      \<and> map_of (row_metadata row') ''delta_audit_gate''
        = (if dhas md ''delta_audit_gate'' then map_of md ''delta_audit_gate''
           else map_of (row_metadata row) ''delta_audit_gate'')"
    using assms
    by (simp add: update_mission_metadata_def row_of_def Let_def dget_keep_gate gate_of_normalized dhas_def)
  show "\<exists>row'. row_of (snd (store_partition_result now stamp mid result db)) mid = Some row'
      \<and> map_of (row_metadata row') ''delta_audit_gate'' = map_of (row_metadata row) ''delta_audit_gate''"
    by (rule partition_keeps [OF assms(1)])
      (use assms in \<open>auto simp: dget_keep_gate gate_of_normalized gate_of_partition dhas_def\<close>)
  show "\<exists>row'. row_of (snd (transition_mission_state now mid xst new ev db)) mid = Some row'
      \<and> row_metadata row' = row_metadata row"
    using assms(1) by (simp add: transition_mission_state_def row_of_def Let_def)
qed

theorem delta_gate_survives_witness:
  "\<exists>row'. row_of (snd (update_mission_metadata 5 ''m1'' [(''title'', PStr ''t'')] sample_db)) ''m1'' = Some row'
     \<and> map_of (row_metadata row') ''delta_audit_gate'' = Some (PDict [(''passed'', PBool True)])"
  using delta_gate_survives [of sample_db "''m1''" sample_row 5 "[(''title'', PStr ''t'')]"]
  by (auto simp: sample_db_def row_of_def sample_row_def dhas_def)

text \<open>A mission created through the API reads back as it was given: its state, and every charter
  field and lifecycle engine the request named (the engine without surrounding spaces); no
  credentials were stored.\<close>

theorem upsert_fetch_roundtrip:
  "\<exists>m. fetch_mission (upsert_mission now r src db) (m_mission_id r) = Inr (Some m)
    \<and> m_mission_id m = m_mission_id r \<and> m_state m = m_state r
    \<and> \<not> dhas (m_metadata m) ''vault''
    \<and> (\<forall>t \<in> set MissionType_values. m_mission_type r = Some t \<longrightarrow> m_mission_type m = Some t)
    \<and> (\<forall>t \<in> set DepthMode_values. m_depth_mode r = Some t \<longrightarrow> m_depth_mode m = Some t)
    \<and> (\<forall>t \<in> set OutputMode_values. m_output_mode r = Some t \<longrightarrow> m_output_mode m = Some t)
    \<and> (\<forall>t \<in> set DataClassification_values.
         m_data_classification r = Some t \<longrightarrow> m_data_classification m = Some t)
    \<and> (\<forall>e. m_lifecycle_engine r = Some e \<longrightarrow> e \<noteq> [] \<longrightarrow> m_lifecycle_engine m = Some (py_strip e))"
proof -
  obtain m where m: "fetch_mission (upsert_mission now r src db) (m_mission_id r) = Inr (Some m)"
    by (rule fetch_upserted)
  with upsert_fetch_fields [OF m] show ?thesis by blast
qed

theorem upsert_fetch_roundtrip_witness:
  "\<exists>m. fetch_mission (upsert_mission 3 sample_record None sample_db) ''m2'' = Inr (Some m)
     \<and> m_mission_type m = Some ''PORT'' \<and> m_data_classification m = Some ''TIER_1_INTERNAL''"
  using upsert_fetch_roundtrip [of 3 sample_record None sample_db]
  by (fastforce simp: sample_record_def MissionType_values_def DataClassification_values_def)

text \<open>Migrating old rows is complete and exact: after scrubbing the missions that were listed as
  holding credentials, none is listed any more, the reported count is the number of missions
  listed, and no other metadata entry, state or event changes.\<close>

theorem legacy_vaults_scrubbed:
  assumes "list_legacy_vaults loads db = Inr vs"
    and "scrub_mission_vaults (map fst vs) db = (n, db')"
  shows "list_legacy_vaults loads db' = Inr [] \<and> n = int (length vs) \<and> events db' = events db
    \<and> db_state db' = db_state db
    \<and> (\<forall>mid d k. db_metadata db mid = Some d \<longrightarrow> k \<noteq> ''vault'' \<longrightarrow>
         (\<exists>d'. db_metadata db' mid = Some d' \<and> map_of d' k = map_of d k))"
proof -
  let ?has = "\<lambda>(mid :: string, row). dhas (row_metadata row) ''vault''"
  have ids: "map fst vs = map fst (filter ?has (missions db))"
    using rmap_keys [OF assms(1) [unfolded list_legacy_vaults_def]] .
  have "filter ?has (map (scrub_row (map fst vs)) (missions db)) = []"
    unfolding ids by (auto simp: filter_empty_conv scrub_row_def split: if_splits) force
  moreover have "missions db' = map (scrub_row (map fst vs)) (missions db)"
  proof (cases "vs = []")
    case True
    then have "filter ?has (missions db) = []" using ids by simp
    then have "map (scrub_row []) (missions db) = missions db"
      by (intro map_idI) (auto simp: scrub_row_def)
    then show ?thesis using assms(2) True by (simp add: scrub_mission_vaults_def)
  qed (use assms(2) in \<open>auto simp: scrub_mission_vaults_def\<close>)
  ultimately have ms: "missions db' = map (scrub_row (map fst vs)) (missions db)"
    and none: "filter ?has (missions db') = []" by simp_all
  have len: "length vs = length (filter ?has (missions db))" using ids by (metis length_map)
  have "filter (\<lambda>(mid, row). mid \<in> set (map fst vs) \<and> dhas (row_metadata row) ''vault'') (missions db)
      = filter ?has (missions db)"
    unfolding ids by (intro filter_cong) force+
  then have n: "n = int (length vs)" "events db' = events db"
    using assms(2) len by (auto simp: scrub_mission_vaults_def split: if_splits)
  have row: "row_of db' mid = map_option (\<lambda>row. snd (scrub_row (map fst vs) (mid, row))) (row_of db mid)" for mid
    by (simp add: row_of_def ms map_of_scrub)
  have "db_state db' = db_state db"
    by (auto simp: db_state_def row fun_eq_iff scrub_row_def option.map_comp map_option_case split: option.split)
  moreover have "\<exists>d'. db_metadata db' mid = Some d' \<and> map_of d' k = map_of d k"
    if "db_metadata db mid = Some d" "k \<noteq> ''vault''" for mid d k
  proof -
    from that(1) obtain r where r: "row_of db mid = Some r" "d = row_metadata r"
      by (auto simp: db_metadata_def)
    have "map_of (row_metadata (snd (scrub_row (map fst vs) (mid, r)))) k = map_of d k"
      using that(2) r(2) by (simp add: scrub_row_def)
    then show ?thesis using r(1) by (simp add: db_metadata_def row)
  qed
  ultimately show ?thesis using none n by (simp add: list_legacy_vaults_def)
qed

definition legacy_db :: mission_db where
  "legacy_db = sample_db\<lparr>missions := [(''m1'', sample_row\<lparr>row_metadata :=
     [(''vault'', PDict [(''openai'', PStr ''sk'')]), (''title'', PStr ''t'')]\<rparr>)]\<rparr>"

theorem legacy_vaults_scrubbed_witness:
  "list_legacy_vaults (\<lambda>_. None) legacy_db = Inr [(''m1'', PDict [(''openai'', PStr ''sk'')])]
   \<and> list_legacy_vaults (\<lambda>_. None) (snd (scrub_mission_vaults [''m1''] legacy_db)) = Inr []
   \<and> fst (scrub_mission_vaults [''m1''] legacy_db) = 1"
proof -
  have l: "list_legacy_vaults (\<lambda>_. None) legacy_db = Inr [(''m1'', PDict [(''openai'', PStr ''sk'')])]"
    by code_simp
  obtain n db' where sc: "scrub_mission_vaults (map fst [(''m1'', PDict [(''openai'', PStr ''sk'')])]) legacy_db
      = (n, db')" by fastforce
  from legacy_vaults_scrubbed [OF l sc] l sc show ?thesis by simp
qed

end
