(* ===== verification/Protocol.thy ===== *)
theory Protocol
  imports Factory_Prelude
begin

text \<open>
  The event protocol, \<open>shared_runtime/protocol.py\<close>: the two priority vocabularies and the
  distributed replay guard. The guard's Redis is the list of keys that exist; \<open>SET key NX EX\<close>
  writes a missing key and returns nothing for an existing one, and \<open>expire\<close> is the server
  dropping keys whose time to live has passed. JSON-schema validation is the third-party
  \<open>jsonschema\<close> package: its verdict is an argument, as are RFC 3339 parsing and the topics file.
\<close>

section \<open>Definitions\<close>

definition EVENT_PRIORITIES :: "string list" where
  "EVENT_PRIORITIES = [''NORMAL'', ''HIGH'']"

definition BUS_PRIORITIES :: "string list" where
  "BUS_PRIORITIES = [''low'', ''normal'', ''high'', ''critical'']"

definition BUS_TO_EVENT :: "(string \<times> string) list" where
  "BUS_TO_EVENT = [(''low'', ''NORMAL''), (''normal'', ''NORMAL''), (''high'', ''HIGH''), (''critical'', ''HIGH'')]"

definition EVENT_TO_BUS :: "(string \<times> string) list" where
  "EVENT_TO_BUS = [(''NORMAL'', ''normal''), (''HIGH'', ''high'')]"

definition to_event_priority :: "string \<Rightarrow> string res" where
  "to_event_priority value =
     (let candidate = py_strip value in
      if candidate \<in> set EVENT_PRIORITIES then Inr candidate
      else case map_of BUS_TO_EVENT (py_lower candidate) of
             None \<Rightarrow> Inl ProtocolValidationError
           | Some mapped \<Rightarrow> Inr mapped)"

definition to_bus_priority :: "string \<Rightarrow> string res" where
  "to_bus_priority value =
     (let candidate = py_strip value in
      if candidate \<in> set BUS_PRIORITIES then Inr candidate
      else case map_of EVENT_TO_BUS (py_upper candidate) of
             None \<Rightarrow> Inl ProtocolValidationError
           | Some mapped \<Rightarrow> Inr mapped)"

definition validate_envelope ::
  "(pydict \<Rightarrow> bool) \<Rightarrow> (string \<Rightarrow> bool) \<Rightarrow> string list \<Rightarrow> pydict \<Rightarrow> unit res" where
  "validate_envelope schema_ok date_ok topics envelope =
     (if \<not> schema_ok envelope then Inl ProtocolValidationError
      else if dhas envelope ''timestamp'' \<and> \<not> date_ok (py_str (dget envelope ''timestamp''))
      then Inl ProtocolValidationError
      else case dget envelope ''topic'' of
             PStr t \<Rightarrow> if t \<in> set topics then Inr () else Inl ProtocolValidationError
           | _ \<Rightarrow> Inl ProtocolValidationError)"

definition REPLAY_KEY_PREFIX :: string where "REPLAY_KEY_PREFIX = ''replay:''"

definition check_replay :: "string \<Rightarrow> string list \<Rightarrow> unit res \<times> string list" where
  "check_replay correlation_id keys =
     (let key = REPLAY_KEY_PREFIX @ correlation_id in
      if key \<in> set keys then (Inl ReplayDetectedError, keys) else (Inr (), keys @ [key]))"

definition reset_replay_guard :: "string list \<Rightarrow> string list" where
  "reset_replay_guard keys = filter (\<lambda>k. \<not> starts_with REPLAY_KEY_PREFIX k) keys"

text \<open>Requests arriving one after the other, at any instance of the bus.\<close>

fun check_all :: "string list \<Rightarrow> string list \<Rightarrow> unit res list \<times> string list" where
  "check_all [] keys = ([], keys)"
| "check_all (c # cs) keys =
     (let (r, keys') = check_replay c keys; (rs, keys'') = check_all cs keys' in (r # rs, keys''))"

section \<open>Lemmas\<close>

lemma check_all_length: "length (fst (check_all cs keys)) = length cs"
  by (induction cs arbitrary: keys) (simp_all add: case_prod_beta)

lemma check_all_nth:
  assumes "i < length cs"
  shows "fst (check_all cs keys) ! i = Inr () \<longleftrightarrow>
    REPLAY_KEY_PREFIX @ cs ! i \<notin> set keys \<and> cs ! i \<notin> set (take i cs)"
  using assms
proof (induction cs arbitrary: keys i)
  case (Cons c cs)
  show ?case
  proof (cases i)
    case 0
    then show ?thesis by (simp add: check_replay_def Let_def case_prod_beta)
  next
    case (Suc j)
    have keys': "set (snd (check_replay c keys)) = insert (REPLAY_KEY_PREFIX @ c) (set keys)"
      by (auto simp: check_replay_def Let_def)
    have "fst (check_all cs (snd (check_replay c keys))) ! j = Inr () \<longleftrightarrow>
        REPLAY_KEY_PREFIX @ cs ! j \<notin> set (snd (check_replay c keys)) \<and> cs ! j \<notin> set (take j cs)"
      using Cons.prems Suc by (intro Cons.IH) simp
    then show ?thesis using Suc by (auto simp: case_prod_beta keys')
  qed
qed simp

section \<open>Properties\<close>

text \<open>The replay guard admits each correlation id once: of any sequence of requests within the
  lifetime of the keys, a request passes exactly when its id is not recorded yet and no earlier
  request carried it.\<close>

theorem replay_admits_once:
  assumes "i < length cs"
  shows "(fst (check_all cs keys) ! i = Inr ()) =
    (REPLAY_KEY_PREFIX @ cs ! i \<notin> set keys \<and> cs ! i \<notin> set (take i cs))"
  using assms by (rule check_all_nth)

theorem replay_admits_once_witness:
  "fst (check_all [''a'', ''b'', ''a''] []) ! 1 = Inr () \<and> fst (check_all [''a'', ''b'', ''a''] []) ! 2 \<noteq> Inr ()"
  using replay_admits_once [of 1 "[''a'', ''b'', ''a'']" "[]"]
    replay_admits_once [of 2 "[''a'', ''b'', ''a'']" "[]"]
  by (simp add: numeral_2_eq_2)

text \<open>The priority vocabularies are reconciled: every accepted value maps into the event
  vocabulary, event priorities map to themselves, a round trip through the bus vocabulary is the
  identity on event priorities, and whatever the bus translation returns is a bus priority that the
  event translation accepts.\<close>

theorem priorities_reconciled:
  "(\<forall>v p. to_event_priority v = Inr p \<longrightarrow> p \<in> set EVENT_PRIORITIES \<and> to_event_priority p = Inr p
      \<and> rbind (to_bus_priority p) to_event_priority = Inr p)
   \<and> (\<forall>v p. to_bus_priority v = Inr p \<longrightarrow> p \<in> set BUS_PRIORITIES \<and> (\<exists>q. to_event_priority p = Inr q))"
proof -
  have table: "list_all (\<lambda>(b, e). List.member EVENT_PRIORITIES e) BUS_TO_EVENT"
    "list_all (\<lambda>e. to_event_priority e = Inr e \<and> rbind (to_bus_priority e) to_event_priority = Inr e)
       EVENT_PRIORITIES"
    "list_all (\<lambda>(e, b). List.member BUS_PRIORITIES b) EVENT_TO_BUS"
    "list_all (\<lambda>b. \<not> isl (to_event_priority b)) BUS_PRIORITIES"
    by code_simp+
  show ?thesis
  proof (intro conjI allI impI)
    fix v p assume "to_event_priority v = Inr p"
    then show p: "p \<in> set EVENT_PRIORITIES"
      using table(1) by (auto simp: to_event_priority_def Let_def list_all_iff
          split: if_splits option.splits dest: map_of_SomeD)
    with table(2) show "to_event_priority p = Inr p" "rbind (to_bus_priority p) to_event_priority = Inr p"
      by (auto simp: list_all_iff)
  next
    fix v p assume "to_bus_priority v = Inr p"
    then show p: "p \<in> set BUS_PRIORITIES"
      using table(3) by (auto simp: to_bus_priority_def Let_def list_all_iff
          split: if_splits option.splits dest: map_of_SomeD)
    with table(4) show "\<exists>q. to_event_priority p = Inr q"
      by (auto simp: list_all_iff isl_def) (metis sum.exhaust_sel)
  qed
qed

theorem priorities_reconciled_witness: "to_event_priority ''HIGH'' = Inr ''HIGH''"
proof -
  have "to_event_priority '' critical '' = Inr ''HIGH''" by code_simp
  with priorities_reconciled show ?thesis by blast
qed

end
