(* ===== verification/Effects.thy ===== *)
theory Effects
  imports Factory_Prelude
begin

text \<open>
  Programs with state and exceptions, the shape of the services' coroutines: a program takes the
  world and returns a result or an exception together with the world it leaves (an exception does
  not undo what was written before it). An \<open>await\<close> is the sequencing \<open>bnd\<close>, a \<open>try\<close> whose
  handler only logs is \<open>attempt\<close>. \<open>keeps R m\<close> says that every run of \<open>m\<close> relates the world
  before to the world after by \<open>R\<close>; for a preorder \<open>R\<close> it is compositional, and the locale
  \<open>preorder_rel\<close> collects the rules that carry the proofs about whole drivers.
\<close>

type_synonym ('w, 'a) prog = "'w \<Rightarrow> 'a res \<times> 'w"

named_theorems keeps_intros \<open>composition rules of keeps\<close>

definition ret :: "'a \<Rightarrow> ('w, 'a) prog" where
  "ret x = (\<lambda>w. (Inr x, w))"

definition lift_res :: "'a res \<Rightarrow> ('w, 'a) prog" where
  "lift_res r = (\<lambda>w. (r, w))"

definition bnd :: "('w, 'a) prog \<Rightarrow> ('a \<Rightarrow> ('w, 'b) prog) \<Rightarrow> ('w, 'b) prog" where
  "bnd m f = (\<lambda>w. case m w of (Inl e, w') \<Rightarrow> (Inl e, w') | (Inr x, w') \<Rightarrow> f x w')"

text \<open>\<open>try: x = await m except Exception: x = default\<close>.\<close>

definition attempt :: "('w, 'a) prog \<Rightarrow> 'a \<Rightarrow> ('w, 'a) prog" where
  "attempt m d = (\<lambda>w. case m w of (Inl e, w') \<Rightarrow> (Inr d, w') | (Inr x, w') \<Rightarrow> (Inr x, w'))"

text \<open>A call of a service that may be lost: the client sees an exception, whether or not the call took
  effect.\<close>

datatype call_outcome = Done | Lost_Before | Lost_After

definition service :: "call_outcome \<Rightarrow> ('w, 'a) prog \<Rightarrow> ('w, 'a) prog" where
  "service outcome m = (\<lambda>w. case outcome of
     Done \<Rightarrow> m w
   | Lost_Before \<Rightarrow> (Inl ServiceError, w)
   | Lost_After \<Rightarrow> (Inl ServiceError, snd (m w)))"

lemma service_result: "service c m w = (Inr x, w') \<Longrightarrow> m w = (Inr x, w')"
  by (cases c) (auto simp: service_def)

lemma ret_app [simp]: "ret x w = (Inr x, w)"
  by (simp add: ret_def)

lemma lift_res_app [simp]: "lift_res r w = (r, w)"
  by (simp add: lift_res_def)

lemma bnd_Inr: "m w = (Inr x, w') \<Longrightarrow> bnd m f w = f x w'"
  by (simp add: bnd_def)

lemma bnd_Inl: "m w = (Inl e, w') \<Longrightarrow> bnd m f w = (Inl e, w')"
  by (simp add: bnd_def)

lemma bnd_ret [simp]: "bnd (ret x) f = f x"
  by (simp add: bnd_def ret_def)

lemma bnd_lift [simp]: "bnd (lift_res (Inr x)) f = f x" "bnd (lift_res (Inl e)) f = lift_res (Inl e)"
  by (simp_all add: bnd_def lift_res_def fun_eq_iff)

lemma bnd_result:
  assumes "bnd m f w = (Inr y, w'')"
  obtains x w' where "m w = (Inr x, w')" and "f x w' = (Inr y, w'')"
  using assms by (auto simp: bnd_def split: prod.splits sum.splits)

definition keeps :: "('w \<Rightarrow> 'w \<Rightarrow> bool) \<Rightarrow> ('w, 'a) prog \<Rightarrow> bool" where
  "keeps R m \<longleftrightarrow> (\<forall>w. R w (snd (m w)))"

lemma keepsD: "keeps R m \<Longrightarrow> R w (snd (m w))"
  by (simp add: keeps_def)

lemma keeps_result: "keeps R m \<Longrightarrow> m w = (r, w') \<Longrightarrow> R w w'"
  by (metis keepsD snd_conv)

locale preorder_rel =
  fixes R :: "'w \<Rightarrow> 'w \<Rightarrow> bool"
  assumes R_refl: "R w w" and R_trans: "R u v \<Longrightarrow> R v w \<Longrightarrow> R u w"
begin

lemma keeps_ret [keeps_intros]: "keeps R (ret x)"
  by (simp add: keeps_def R_refl)

lemma keeps_lift [keeps_intros]: "keeps R (lift_res r)"
  by (simp add: keeps_def R_refl)

lemma keeps_bnd [keeps_intros]:
  assumes "keeps R m" and "\<And>x. keeps R (f x)"
  shows "keeps R (bnd m f)"
  unfolding keeps_def
proof
  fix w
  obtain r w' where m: "m w = (r, w')" by fastforce
  then have 1: "R w w'" using assms(1) by (metis keepsD snd_conv)
  show "R w (snd (bnd m f w))"
  proof (cases r)
    case (Inr x)
    then have "R w' (snd (f x w'))" using assms(2) by (simp add: keepsD)
    with 1 Inr m show ?thesis by (auto simp: bnd_def intro: R_trans)
  qed (use 1 m in \<open>simp add: bnd_def\<close>)
qed

lemma keeps_attempt [keeps_intros]: "keeps R m \<Longrightarrow> keeps R (attempt m d)"
  unfolding keeps_def attempt_def by (metis (no_types, lifting) case_prod_beta snd_conv sum.case_eq_if)

lemma keeps_service [keeps_intros]: "keeps R m \<Longrightarrow> keeps R (service c m)"
  by (cases c) (auto simp: keeps_def service_def R_refl)

lemma keeps_if [keeps_intros]: "(b \<Longrightarrow> keeps R m) \<Longrightarrow> (\<not> b \<Longrightarrow> keeps R n) \<Longrightarrow> keeps R (if b then m else n)"
  by simp

lemma keeps_option [keeps_intros]:
  "(x = None \<Longrightarrow> keeps R m) \<Longrightarrow> (\<And>y. x = Some y \<Longrightarrow> keeps R (f y)) \<Longrightarrow>
   keeps R (case x of None \<Rightarrow> m | Some y \<Rightarrow> f y)"
  by (cases x) auto

lemma keeps_prod [keeps_intros]:
  "(\<And>a b. x = (a, b) \<Longrightarrow> keeps R (f a b)) \<Longrightarrow> keeps R (case x of (a, b) \<Rightarrow> f a b)"
  by (cases x) auto

end

end
