(* ===== verification/Lifecycle_V2.thy ===== *)
theory Lifecycle_V2
  imports Effects Protocol Mission_Flow Mission_Storage "HOL-Library.List_Lexorder" "HOL-Library.Char_ord"
begin

text \<open>
  The v2 lifecycle driver, \<open>orchestrator/mission_flow_v2/lifecycle.py\<close>, with the parts of
  \<open>phases_intake.py\<close>, \<open>phases_build.py\<close> and \<open>runtime.py\<close> it is built from that do not call a
  language model: the state stream, the partition work items, the phase artifacts and the Delta
  audit gate. The world is the database, the entries of the state stream and whether Redis is up. The
  stage preparers, the report builders of the completion gates and the delivery steps are the
  fields of \<open>lifecycle_env\<close>, programs over the same world; what the theorems need of them is
  named \<open>env_ok\<close> (they write metadata and checkpoints only, and intake may park a queued mission
  for clarification). One advance reads a single instant, \<open>e_now\<close> and its text \<open>e_stamp\<close>.
\<close>

section \<open>World and environment\<close>

record world =
  w_db :: mission_db
  w_stream :: "pydict list"
  w_redis_ready :: bool

type_synonym 'a wprog = "(world, 'a) prog"

record lifecycle_env =
  e_now :: int
  e_stamp :: string
  e_iso :: "int \<Rightarrow> string"
  e_engine :: engine_settings
  e_settings :: pydict
  e_producer_name :: string
  e_default_priority :: string
  e_uuid :: "world \<Rightarrow> string"
  e_build_state_envelope :: "MissionRecord \<Rightarrow> string \<Rightarrow> pydict res"
  e_validate :: "pydict \<Rightarrow> bool"
  e_xadd_ok :: "world \<Rightarrow> pydict \<Rightarrow> bool"
  e_preparer :: "MissionState \<Rightarrow> string \<Rightarrow> bool wprog"
  e_completion_check :: "MissionRecord \<Rightarrow> (bool \<times> pydict) wprog"
  e_equivalence :: "MissionRecord \<Rightarrow> (MissionRecord \<times> bool \<times> pydict) wprog"
  e_security_compliance :: "MissionRecord \<Rightarrow> (MissionRecord \<times> bool \<times> pydict) wprog"
  e_dependency_absorption :: "MissionRecord \<Rightarrow> (MissionRecord \<times> bool \<times> pydict) wprog"
  e_depabs_execution :: "MissionRecord \<Rightarrow> MissionRecord wprog"
  e_runtime_qc :: "MissionRecord \<Rightarrow> (MissionRecord \<times> bool \<times> pydict) wprog"
  e_deploy_readiness :: "string \<Rightarrow> pydict \<Rightarrow> pydict wprog"
  e_delivery_summary :: "MissionRecord \<Rightarrow> MissionRecord wprog"
  e_verified_build_artifact :: "MissionRecord \<Rightarrow> MissionRecord wprog"
  e_pod_group_standard :: "MissionRecord \<Rightarrow> MissionRecord wprog"
  e_fusion :: "MissionRecord \<Rightarrow> MissionRecord wprog"

section \<open>Settings\<close>

definition setting_bool :: "pydict \<Rightarrow> string \<Rightarrow> bool \<Rightarrow> bool" where
  "setting_bool settings name dflt =
     (case dget_or settings name (PBool dflt) of
        PBool b \<Rightarrow> b
      | PInt i \<Rightarrow> i \<noteq> 0
      | PFloat r _ \<Rightarrow> r \<noteq> 0
      | PStr s \<Rightarrow>
          (let candidate = py_lower (py_strip s) in
           if candidate \<in> {''1'', ''true'', ''yes'', ''on''} then True
           else if candidate \<in> {''0'', ''false'', ''no'', ''off'', ''''} then False
           else dflt)
      | _ \<Rightarrow> dflt)"

definition setting_int :: "pydict \<Rightarrow> string \<Rightarrow> int \<Rightarrow> int" where
  "setting_int settings name dflt =
     (case dget_or settings name (PInt dflt) of
        PInt i \<Rightarrow> i
      | PFloat r _ \<Rightarrow> trunc_rat r
      | PStr s \<Rightarrow> (case py_int_str (py_strip s) of Inl _ \<Rightarrow> dflt | Inr i \<Rightarrow> i)
      | _ \<Rightarrow> dflt)"

section \<open>Storage calls and the state stream\<close>

definition on_db :: "(mission_db \<Rightarrow> 'a res \<times> mission_db) \<Rightarrow> 'a wprog" where
  "on_db f = (\<lambda>w. let (r, db) = f (w_db w) in (r, w\<lparr>w_db := db\<rparr>))"

definition fetch :: "string \<Rightarrow> MissionRecord option wprog" where
  "fetch mid = (\<lambda>w. (fetch_mission (w_db w) mid, w))"

definition save_metadata :: "lifecycle_env \<Rightarrow> string \<Rightarrow> pydict \<Rightarrow> MissionRecord option wprog" where
  "save_metadata env mid md = on_db (update_mission_metadata (e_now env) mid md)"

definition checkpoint :: "lifecycle_env \<Rightarrow> string \<Rightarrow> MissionState \<Rightarrow> string \<Rightarrow> unit wprog" where
  "checkpoint env mid s event_type =
     on_db (insert_mission_event (e_engine env) (e_now env) mid (Some s) s event_type)"

definition transition ::
  "lifecycle_env \<Rightarrow> string \<Rightarrow> MissionState \<Rightarrow> MissionState \<Rightarrow> string \<Rightarrow> MissionRecord option wprog" where
  "transition env mid expected new event_type =
     on_db (transition_mission_state (e_now env) mid (Some expected) new event_type)"

definition py_opt :: "string option \<Rightarrow> pyval" where
  "py_opt v = (case v of None \<Rightarrow> PNone | Some s \<Rightarrow> PStr s)"

definition state_event_agent_routing :: "MissionRecord \<Rightarrow> string \<Rightarrow> pydict" where
  "state_event_agent_routing mission event_type =
     (let md = m_metadata mission; lang = m_requested_target_language mission;
          pod_manager = py_strip (py_str (py_or (dget md ''assigned_pod_manager_agent_id'')
            (py_or (dget md ''expected_pod_manager_agent_id'') (PStr (resolve_pod_manager_agent_id lang)))));
          specialist = py_strip (py_str (py_or (dget md ''assigned_specialist_agent_id'')
            (py_or (dget md ''expected_specialist_agent_id'') (PStr (resolve_specialist_agent_id lang)))));
          routed =
            (if event_type = ''MISSION_PM_INTAKE'' then PM_AGENT_ID
             else if event_type \<in> {''MISSION_CEO_DELEGATED'', ''MISSION_COMPLETION_BLOCKED''} then CEO_AGENT_ID
             else if event_type = ''MISSION_POD_MANAGER_ASSIGNED'' then pod_manager
             else if event_type \<in> {''MISSION_SPECIALIST_ASSIGNED'', ''MISSION_SPECIALIST_PLANNED'',
               ''MISSION_RUNNING'', ''MISSION_GATING'', ''MISSION_FUSION'', ''MISSION_VERIFIED'',
               ''MISSION_COMPLETE'', ''MISSION_FAILED''} then specialist
             else [])
      in if routed = [] then []
         else [(''agent_id'', PStr routed), (''selected_agent_id'', PStr routed),
               (''target_agent_id'', PStr routed), (''assigned_pod_manager_agent_id'', PStr pod_manager),
               (''assigned_specialist_agent_id'', PStr specialist)])"

text \<open>\<open>redis_client.xadd(settings.state_stream, entry)\<close>; the documents of an entry are kept as
  values, not as their JSON text.\<close>

definition xadd_state :: "lifecycle_env \<Rightarrow> pydict \<Rightarrow> unit wprog" where
  "xadd_state env entry = (\<lambda>w.
     if e_xadd_ok env w entry then (Inr (), w\<lparr>w_stream := w_stream w @ [entry]\<rparr>) else (Inl ValueError, w))"

definition emit_state_event :: "lifecycle_env \<Rightarrow> MissionRecord \<Rightarrow> string \<Rightarrow> unit wprog" where
  "emit_state_event env mission event_type =
     bnd (lift_res (e_build_state_envelope env mission event_type)) (\<lambda>envelope.
       let created = PStr (e_iso env (m_created_at mission));
           payload = [(''mission_id'', PStr (m_mission_id mission)),
                      (''state'', PStr (state_value (m_state mission))),
                      (''event_type'', PStr event_type),
                      (''requested_target_language'', py_opt (m_requested_target_language mission)),
                      (''created_at'', created)] @ state_event_agent_routing mission event_type
       in xadd_state env
            [(''envelope'', PDict envelope), (''payload'', PDict payload), (''event_type'', PStr event_type),
             (''mission_id'', PStr (m_mission_id mission)),
             (''state'', PStr (state_value (m_state mission))), (''created_at'', created)])"

text \<open>The block around every emission: nothing while Redis is down, and a failure is only logged.\<close>

definition emit_quietly :: "lifecycle_env \<Rightarrow> MissionRecord \<Rightarrow> string \<Rightarrow> unit wprog" where
  "emit_quietly env mission event_type = (\<lambda>w.
     if w_redis_ready w then attempt (emit_state_event env mission event_type) () w else (Inr (), w))"

section \<open>Phase steps\<close>

definition chain_defaults_of :: "MissionRecord \<Rightarrow> pydict" where
  "chain_defaults_of m = with_chain_defaults (PDict (m_metadata m)) (m_requested_target_language m)"

definition or_else :: "'a option \<Rightarrow> 'a \<Rightarrow> 'a" where
  "or_else x d = (case x of None \<Rightarrow> d | Some y \<Rightarrow> y)"

definition persist_metadata ::
  "lifecycle_env \<Rightarrow> string \<Rightarrow> pydict \<Rightarrow> (string \<times> MissionState) option \<Rightarrow> MissionRecord option wprog" where
  "persist_metadata env mid md emit =
     bnd (save_metadata env mid md) (\<lambda>record.
       case (record, emit) of
         (Some r, Some (event_type, event_state)) \<Rightarrow>
           bnd (checkpoint env mid event_state event_type) (\<lambda>_.
           bnd (emit_quietly env r event_type) (\<lambda>_. ret record))
       | _ \<Rightarrow> ret record)"

definition persist_runtime_phase_artifact ::
  "lifecycle_env \<Rightarrow> MissionRecord \<Rightarrow> string \<Rightarrow> MissionRecord wprog" where
  "persist_runtime_phase_artifact env mission event_type =
     (let md = chain_defaults_of mission;
          selected = validate_agent_id (dget md ''selected_agent_id'')
            (py_str (py_or (dget md ''assigned_specialist_agent_id'') (PStr CEO_AGENT_ID)));
          md = record_artifact md (py_lower (state_value (m_state mission))) event_type selected
            [(''state'', PStr (state_value (m_state mission)))] (e_stamp env)
      in bnd (save_metadata env (m_mission_id mission) md) (\<lambda>updated. ret (or_else updated mission)))"

text \<open>The branch of \<open>_prepare_pm_intake\<close> that parks an ambiguous mission for the operator.\<close>

definition park_for_clarification ::
  "lifecycle_env \<Rightarrow> string \<Rightarrow> pydict \<Rightarrow> pydict \<Rightarrow> pyval \<Rightarrow> int \<Rightarrow> bool wprog" where
  "park_for_clarification env mid md feature_contract ambiguity_score loop_count =
     bnd (save_metadata env mid
           (dset ''clarifying_questions'' (dget feature_contract ''clarifying_questions'')
           (dset ''clarification_loop_count'' (PInt (loop_count + 1))
           (dset ''last_ambiguity_score'' ambiguity_score md)))) (\<lambda>_.
     bnd (transition env mid Queued Clarifying ''MISSION_CLARIFYING'') (\<lambda>moved.
     case moved of
       None \<Rightarrow> ret False
     | Some record \<Rightarrow> bnd (emit_quietly env record ''MISSION_CLARIFYING'') (\<lambda>_. ret False)))"

subsection \<open>Partition work items\<close>

text \<open>The ids already emitted; entries other than text, which the code never stores, are an error
  here (Python fails on them when it sorts).\<close>

definition emitted_ids :: "pydict \<Rightarrow> string list res" where
  "emitted_ids md =
     rbind (py_tuple (py_or (dget md ''scaling_partition_emitted_ids'') (PList []))) (\<lambda>xs.
       if list_all is_str xs then Inr (remdups (map str_of xs)) else Inl TypeError)"

definition partition_envelope :: "lifecycle_env \<Rightarrow> MissionRecord \<Rightarrow> WorkPartition \<Rightarrow> string \<Rightarrow> world \<Rightarrow> pydict" where
  "partition_envelope env mission p priority w =
     [(''event_id'', PStr (''evt-'' @ e_uuid env w)), (''topic'', PStr ''mission.partition.ready''),
      (''timestamp'', PStr (e_stamp env)), (''producer'', PStr (e_producer_name env)),
      (''correlation_id'', PStr (m_mission_id mission)),
      (''payload_ref'', PStr (''registry://missions/'' @ m_mission_id mission @ ''/partitions/''
         @ wp_partition_id p)),
      (''schema'', PStr ''missions.partition.v1''), (''priority'', PStr priority)]"

definition partition_entry ::
  "lifecycle_env \<Rightarrow> MissionRecord \<Rightarrow> string \<Rightarrow> string \<Rightarrow> WorkPartition \<Rightarrow> pydict \<Rightarrow> pydict" where
  "partition_entry env mission specialist manager p envelope =
     [(''envelope'', PDict envelope),
      (''payload'', PDict
        [(''mission_id'', PStr (m_mission_id mission)), (''state'', PStr (state_value (m_state mission))),
         (''event_type'', PStr ''MISSION_PARTITION_READY''),
         (''requested_target_language'', py_opt (m_requested_target_language mission)),
         (''agent_id'', PStr specialist), (''selected_agent_id'', PStr specialist),
         (''assigned_specialist_agent_id'', PStr specialist),
         (''assigned_pod_manager_agent_id'', PStr manager), (''partition'', WorkPartition_to_dict p)]),
      (''event_type'', PStr ''MISSION_PARTITION_READY''), (''mission_id'', PStr (m_mission_id mission)),
      (''state'', PStr (state_value (m_state mission))),
      (''created_at'', PStr (e_iso env (m_created_at mission)))]"

text \<open>The loop over the partitions; the flag tells whether it ran to its end.\<close>

fun emit_partitions ::
  "lifecycle_env \<Rightarrow> MissionRecord \<Rightarrow> string \<Rightarrow> string \<Rightarrow> WorkPartition list \<Rightarrow> string list
     \<Rightarrow> (bool \<times> string list) wprog" where
  "emit_partitions env mission specialist manager [] ids = ret (True, ids)"
| "emit_partitions env mission specialist manager (p # ps) ids = (\<lambda>w.
     if wp_partition_id p \<in> set ids then emit_partitions env mission specialist manager ps ids w
     else case to_event_priority (e_default_priority env) of
       Inl e \<Rightarrow> (Inl e, w)
     | Inr priority \<Rightarrow>
         let envelope = partition_envelope env mission p priority w;
             entry = partition_entry env mission specialist manager p envelope
         in if e_validate env envelope \<and> e_xadd_ok env w entry
            then emit_partitions env mission specialist manager ps (ids @ [wp_partition_id p])
                   (w\<lparr>w_stream := w_stream w @ [entry]\<rparr>)
            else (Inr (False, ids), w))"

definition send_work_items ::
  "lifecycle_env \<Rightarrow> MissionRecord \<Rightarrow> pydict \<Rightarrow> ScalingDecision \<Rightarrow> MissionRecord wprog" where
  "send_work_items env mission md d =
     bnd (lift_res (emitted_ids md)) (\<lambda>already.
     bnd (emit_partitions env mission
           (validate_agent_id (dget md ''assigned_specialist_agent_id'')
             (resolve_specialist_agent_id (m_requested_target_language mission)))
           (validate_agent_id (dget md ''assigned_pod_manager_agent_id'')
             (resolve_pod_manager_agent_id (m_requested_target_language mission)))
           (sd_partitions d) already) (\<lambda>(finished, ids).
       let count = PInt (int (length ids)); sorted_ids = PList (map PStr (sort ids)) in
       if finished
       then bnd (save_metadata env (m_mission_id mission)
              (dset ''scaling_partition_emitted_ids'' sorted_ids
              (dset ''scaling_partition_event_count'' count
              (dset ''scaling_partition_events_emitted_at'' (PStr (e_stamp env))
              (dset ''scaling_partition_events_emitted'' (PBool True) md)))))
            (\<lambda>updated. ret (or_else updated mission))
       else bnd (save_metadata env (m_mission_id mission)
              (dset ''scaling_partition_event_count'' count
              (dset ''scaling_partition_emitted_ids'' sorted_ids md)))
            (\<lambda>_. ret mission)))"

definition emit_partition_work_items :: "lifecycle_env \<Rightarrow> MissionRecord \<Rightarrow> MissionRecord wprog" where
  "emit_partition_work_items env mission =
     (let md = chain_defaults_of mission in
      bnd (lift_res (scaling_decision_from_metadata (e_stamp env) md)) (\<lambda>decision. \<lambda>w.
        case decision of
          None \<Rightarrow> (Inr mission, w)
        | Some d \<Rightarrow>
            if sd_instance_count d \<le> 1 \<or> truthy (dget md ''scaling_partition_events_emitted'')
              \<or> \<not> w_redis_ready w
            then (Inr mission, w)
            else send_work_items env mission md d w))"

section \<open>Gates\<close>

definition advance_running_to_gating :: "lifecycle_env \<Rightarrow> string \<Rightarrow> bool wprog" where
  "advance_running_to_gating env mid =
     bnd (fetch mid) (\<lambda>found.
       case found of
         None \<Rightarrow> ret False
       | Some mission \<Rightarrow>
           let md = chain_defaults_of mission in
           if truthy (dget md ''scaling_active'')
           then bnd (if truthy (dget md ''scaling_partition_events_emitted'') then ret md
                     else bnd (emit_partition_work_items env mission) (\<lambda>m. ret (chain_defaults_of m)))
                  (\<lambda>md. lift_res (all_partitions_complete (e_stamp env) md))
           else ret True)"

definition delta_audit_gate :: "pydict \<Rightarrow> MissionRecord \<Rightarrow> bool \<times> pydict" where
  "delta_audit_gate settings mission =
     (if \<not> setting_bool settings ''event_driven_control_plane_enabled'' False then (True, [])
      else case dget (m_metadata mission) ''delta_audit_gate'' of
        PDict gate \<Rightarrow>
          if truthy (dget gate ''passed'') then (True, [])
          else (False, [(''reason'', PStr ''consumed Delta audit verdict did not pass''),
                        (''gate'', PStr ''delta_audit''), (''audit_result'', dget gate ''audit_result''),
                        (''pod'', dget gate ''pod'')])
      | _ \<Rightarrow> (False,
          [(''reason'', PStr ''no Delta audit verdict has been consumed for this mission''),
           (''gate'', PStr ''delta_audit''), (''consumer'', PStr ''protocol-bus-orchestrator''),
           (''hint'', PStr (''the Delta consumer may be down; the verdict must be consumed off ''
              @ ''the bus, not merely produced''))]))"

text \<open>The refusal of one gate: a checkpoint in state VERIFIED and, if Redis is up, its event.\<close>

definition blocked :: "lifecycle_env \<Rightarrow> MissionRecord \<Rightarrow> string \<Rightarrow> string \<Rightarrow> bool wprog" where
  "blocked env mission mid event_type =
     bnd (checkpoint env mid Verified event_type) (\<lambda>_.
     bnd (emit_quietly env mission event_type) (\<lambda>_. ret False))"

definition completion_blocked :: "lifecycle_env \<Rightarrow> MissionRecord \<Rightarrow> string \<Rightarrow> pydict \<Rightarrow> bool wprog" where
  "completion_blocked env mission mid details =
     (let md = append_chain_event (chain_defaults_of mission) ''MISSION_COMPLETION_BLOCKED''
                 CEO_AGENT_ID details (e_stamp env)
      in bnd (save_metadata env mid md) (\<lambda>_. blocked env mission mid ''MISSION_COMPLETION_BLOCKED''))"

definition runtime_qc_blocked :: "lifecycle_env \<Rightarrow> MissionRecord \<Rightarrow> string \<Rightarrow> pydict \<Rightarrow> bool wprog" where
  "runtime_qc_blocked env mission mid report =
     (let md = append_chain_event (chain_defaults_of mission) ''MISSION_COMPLETION_BLOCKED'' CEO_AGENT_ID
                 [(''gate'', PStr ''runtime_qc''),
                  (''reason'', PStr ''runtime QC did not pass, so the mission may not complete''),
                  (''verdict'', dget report ''verdict''), (''exit_code'', dget report ''exit_code''),
                  (''filename'', dget report ''filename''),
                  (''execution_type'', dget report ''execution_type''),
                  (''stderr_excerpt'', PStr (take 400 (str_or_empty (dget report ''stderr_preview''))))]
                 (e_stamp env)
      in bnd (save_metadata env mid md) (\<lambda>_.
         bnd (checkpoint env mid Verified ''MISSION_COMPLETION_BLOCKED'') (\<lambda>_.
         bnd (checkpoint env mid Verified ''MISSION_RUNTIME_QC_BLOCKED'') (\<lambda>_. ret False))))"

definition deploy_and_deliver :: "lifecycle_env \<Rightarrow> MissionRecord \<Rightarrow> string \<Rightarrow> bool wprog" where
  "deploy_and_deliver env mission mid =
     bnd (fetch mid) (\<lambda>found.
       let mission = or_else found mission; md = chain_defaults_of mission in
       bnd (e_deploy_readiness env mid md) (\<lambda>readiness.
         let md = dset ''deploy_readiness'' (PDict readiness) md in
         bnd (lift_res (chain_event_exists md ''MISSION_DEPLOY_READINESS_ASSESSED'')) (\<lambda>assessed.
           let md = (if assessed then md
                     else append_chain_event md ''MISSION_DEPLOY_READINESS_ASSESSED'' ''AGENT-11-DEPLOY''
                       [(''ready'', dget readiness ''ready''), (''blockers'', dget readiness ''blockers''),
                        (''source'', dget readiness ''source'')] (e_stamp env))
           in bnd (save_metadata env mid md) (\<lambda>_.
              bnd (e_delivery_summary env mission) (\<lambda>_. ret True)))))"

text \<open>The completion gates, each continuing with the next one when it passes.\<close>

definition runtime_qc_gate :: "lifecycle_env \<Rightarrow> string \<Rightarrow> MissionRecord \<Rightarrow> bool wprog" where
  "runtime_qc_gate env mid mission =
     bnd (e_depabs_execution env mission) (\<lambda>mission.
     bnd (e_runtime_qc env mission) (\<lambda>(mission, ok, report).
       if \<not> ok then runtime_qc_blocked env mission mid report
       else deploy_and_deliver env mission mid))"

definition dependency_gate :: "lifecycle_env \<Rightarrow> string \<Rightarrow> MissionRecord \<Rightarrow> bool wprog" where
  "dependency_gate env mid mission =
     bnd (e_dependency_absorption env mission) (\<lambda>(mission, ok, report).
       if \<not> ok then blocked env mission mid ''MISSION_DEPENDENCY_ABSORPTION_BLOCKED''
       else runtime_qc_gate env mid mission)"

definition security_gate :: "lifecycle_env \<Rightarrow> string \<Rightarrow> MissionRecord \<Rightarrow> bool wprog" where
  "security_gate env mid mission =
     bnd (e_security_compliance env mission) (\<lambda>(mission, ok, report).
       if \<not> ok then blocked env mission mid ''MISSION_SECURITY_COMPLIANCE_BLOCKED''
       else dependency_gate env mid mission)"

definition equivalence_gate :: "lifecycle_env \<Rightarrow> string \<Rightarrow> MissionRecord \<Rightarrow> bool wprog" where
  "equivalence_gate env mid mission =
     bnd (e_equivalence env mission) (\<lambda>(mission, ok, report).
       if \<not> ok then blocked env mission mid ''MISSION_EQUIVALENCE_BLOCKED''
       else security_gate env mid mission)"

definition advance_verified_to_complete :: "lifecycle_env \<Rightarrow> string \<Rightarrow> bool wprog" where
  "advance_verified_to_complete env mid =
     bnd (fetch mid) (\<lambda>found.
       case found of
         None \<Rightarrow> ret False
       | Some mission \<Rightarrow>
           bnd (e_completion_check env mission) (\<lambda>(ready, details).
             let (ready, details) =
               (if ready then delta_audit_gate (e_settings env) mission else (False, details))
             in if \<not> ready then completion_blocked env mission mid details
                else equivalence_gate env mid mission))"

section \<open>The driver\<close>

definition advance_runtime_phases ::
  "lifecycle_env \<Rightarrow> MissionRecord \<Rightarrow> MissionState \<Rightarrow> string \<Rightarrow> MissionRecord wprog" where
  "advance_runtime_phases env record new_state event_type =
     bnd (persist_runtime_phase_artifact env record event_type) (\<lambda>record.
     bnd (if new_state = Verified then attempt (e_verified_build_artifact env record) record
          else ret record) (\<lambda>record.
       if new_state = Running then emit_partition_work_items env record else ret record))"

definition staged :: "MissionState \<Rightarrow> bool" where
  "staged s = (s \<in> {Queued, Pm_intake, Fetch, Ceo_delegated, Pod_assigned, Specialist_assigned})"

text \<open>One iteration of the loop over the pending transitions, in the three parts of its body: what
  must hold before the transition, the compare-and-swap, and what follows it. \<open>False\<close> is a
  \<open>return\<close> of the driver.\<close>

definition step_guard ::
  "lifecycle_env \<Rightarrow> string \<Rightarrow> MissionState \<Rightarrow> MissionState \<Rightarrow> bool wprog" where
  "step_guard env mid expected_state new_state =
     bnd (if staged expected_state then e_preparer env expected_state mid else ret True) (\<lambda>prepared.
     if \<not> prepared then ret False
     else bnd (if expected_state = Running \<and> new_state = Gating
               then advance_running_to_gating env mid else ret True) (\<lambda>ok.
     if \<not> ok then ret False
     else if expected_state = Verified \<and> new_state = Complete
     then advance_verified_to_complete env mid else ret True))"

definition step_finish ::
  "lifecycle_env \<Rightarrow> MissionRecord \<Rightarrow> MissionState \<Rightarrow> string \<Rightarrow> bool wprog" where
  "step_finish env record new_state event_type =
     bnd (if new_state \<in> set RUNTIME_PHASES then advance_runtime_phases env record new_state event_type
          else ret record) (\<lambda>record.
     bnd (emit_quietly env record event_type) (\<lambda>_.
     bnd (if new_state = Gating then e_pod_group_standard env record else ret record) (\<lambda>record.
     bnd (if new_state = Fusion then e_fusion env record else ret record) (\<lambda>_. ret True))))"

definition lifecycle_step ::
  "lifecycle_env \<Rightarrow> string \<Rightarrow> MissionState \<times> MissionState \<times> string \<Rightarrow> bool wprog" where
  "lifecycle_step env mid = (\<lambda>(expected_state, new_state, event_type).
     bnd (step_guard env mid expected_state new_state) (\<lambda>ok.
     if \<not> ok then ret False
     else bnd (transition env mid expected_state new_state event_type) (\<lambda>moved.
     case moved of
       None \<Rightarrow> ret False
     | Some record \<Rightarrow> step_finish env record new_state event_type)))"

fun run_transitions ::
  "lifecycle_env \<Rightarrow> string \<Rightarrow> (MissionState \<times> MissionState \<times> string) list \<Rightarrow> unit wprog" where
  "run_transitions env mid [] = ret ()"
| "run_transitions env mid (t # ts) =
     bnd (lifecycle_step env mid t) (\<lambda>go. if go then run_transitions env mid ts else ret ())"

definition pending_transitions :: "MissionState \<Rightarrow> (MissionState \<times> MissionState \<times> string) list" where
  "pending_transitions s = dropWhile (\<lambda>(a, _, _). a \<noteq> s) V2_TRANSITIONS"

definition advance_mission_lifecycle_v2 :: "lifecycle_env \<Rightarrow> string \<Rightarrow> unit wprog" where
  "advance_mission_lifecycle_v2 env mid =
     bnd (fetch mid) (\<lambda>found.
       case found of
         None \<Rightarrow> ret ()
       | Some mission \<Rightarrow> run_transitions env mid (pending_transitions (m_state mission)))"

section \<open>Quiet programs\<close>

text \<open>A quiet program leaves the state of every mission alone and logs only checkpoints of its own
  mission.\<close>

definition quiet :: "string \<Rightarrow> world \<Rightarrow> world \<Rightarrow> bool" where
  "quiet mid w w' \<longleftrightarrow> db_state (w_db w') = db_state (w_db w)
     \<and> (\<exists>es. events (w_db w') = events (w_db w) @ es
          \<and> (\<forall>e \<in> set es. erow_mission_id e = mid \<and> erow_previous e = Some (erow_new e)))"

interpretation quiet: preorder_rel "quiet mid"
proof
  show "quiet mid w w" for w by (simp add: quiet_def)
  show "quiet mid u w" if "quiet mid u v" "quiet mid v w" for u v w
    using that by (fastforce simp: quiet_def)
qed

lemma keeps_same_db:
  assumes "\<And>w. w_db (snd (m w)) = w_db w"
  shows "keeps (quiet mid) m"
  unfolding keeps_def quiet_def by (simp add: assms)

lemma keeps_fetch [keeps_intros]: "keeps (quiet mid) (fetch mid')"
  by (rule keeps_same_db) (simp add: fetch_def)

lemma keeps_save [keeps_intros]: "keeps (quiet mid) (save_metadata env mid' md)"
  unfolding keeps_def quiet_def
  by (auto simp: save_metadata_def on_db_def case_prod_beta update_mission_metadata_def Let_def
      db_state_def row_of_def fun_eq_iff split: option.split)

lemma keeps_checkpoint [keeps_intros]: "keeps (quiet mid) (checkpoint env mid s ev)"
  unfolding keeps_def quiet_def
  by (auto simp: checkpoint_def on_db_def case_prod_beta insert_mission_event_def Let_def
      db_state_def fun_eq_iff)

lemma keeps_xadd [keeps_intros]: "keeps (quiet mid) (xadd_state env entry)"
  by (rule keeps_same_db) (simp add: xadd_state_def)

lemma keeps_emit [keeps_intros]: "keeps (quiet mid) (emit_state_event env m ev)"
  unfolding emit_state_event_def Let_def by (intro keeps_intros)

lemma keeps_emit_quietly [keeps_intros]: "keeps (quiet mid) (emit_quietly env m ev)"
  using quiet.keeps_attempt [OF keeps_emit, of mid env m ev "()"]
  unfolding keeps_def emit_quietly_def by (auto simp: quiet.R_refl)

lemma keeps_phase_artifact [keeps_intros]: "keeps (quiet mid) (persist_runtime_phase_artifact env m ev)"
  unfolding persist_runtime_phase_artifact_def Let_def by (intro keeps_intros)

lemma emit_partitions_db: "w_db (snd (emit_partitions env m sp mg ps ids w)) = w_db w"
  by (induction ps arbitrary: ids w) (auto simp: Let_def split: sum.split)

lemma keeps_send [keeps_intros]: "keeps (quiet mid) (send_work_items env m md d)"
proof -
  have [keeps_intros]: "keeps (quiet mid) (emit_partitions env m sp mg ps ids)" for sp mg ps ids
    by (rule keeps_same_db) (rule emit_partitions_db)
  show ?thesis unfolding send_work_items_def Let_def by (intro keeps_intros)
qed

lemma keeps_work_items [keeps_intros]: "keeps (quiet mid) (emit_partition_work_items env m)"
  unfolding emit_partition_work_items_def Let_def
proof (intro keeps_intros)
  fix decision :: "ScalingDecision option"
  show "keeps (quiet mid) (\<lambda>w. case decision of None \<Rightarrow> (Inr m, w) | Some d \<Rightarrow>
      if sd_instance_count d \<le> 1 \<or> truthy (dget (chain_defaults_of m) ''scaling_partition_events_emitted'')
        \<or> \<not> w_redis_ready w then (Inr m, w) else send_work_items env m (chain_defaults_of m) d w)"
    using keeps_send [of mid env m] by (simp add: keeps_def quiet.R_refl split: option.split)
qed

lemma keeps_running_gate [keeps_intros]: "keeps (quiet mid) (advance_running_to_gating env mid)"
  unfolding advance_running_to_gating_def Let_def by (intro keeps_intros)

text \<open>What is assumed of the environment: its programs are quiet, except that intake may move its
  queued mission to CLARIFYING, in which case it does not report success.\<close>

definition clarify_only :: "string \<Rightarrow> bool wprog \<Rightarrow> bool" where
  "clarify_only mid m \<longleftrightarrow> (\<forall>w r w'. m w = (r, w') \<longrightarrow> quiet mid w w'
     \<or> r \<noteq> Inr True \<and> db_state (w_db w) mid = Some (state_value Queued)
       \<and> db_state (w_db w') = (db_state (w_db w))(mid \<mapsto> state_value Clarifying)
       \<and> (\<exists>es. events (w_db w') = events (w_db w) @ es \<and> (\<forall>e \<in> set es. erow_mission_id e = mid
            \<and> (erow_previous e = Some (erow_new e)
               \<or> erow_previous e = Some (state_value Queued) \<and> erow_new e = state_value Clarifying))))"

definition env_ok :: "lifecycle_env \<Rightarrow> string \<Rightarrow> bool" where
  "env_ok env mid \<longleftrightarrow>
     clarify_only mid (e_preparer env Queued mid)
     \<and> (\<forall>s. s \<noteq> Queued \<longrightarrow> keeps (quiet mid) (e_preparer env s mid))
     \<and> (\<forall>m. keeps (quiet mid) (e_completion_check env m) \<and> keeps (quiet mid) (e_equivalence env m)
         \<and> keeps (quiet mid) (e_security_compliance env m) \<and> keeps (quiet mid) (e_dependency_absorption env m)
         \<and> keeps (quiet mid) (e_depabs_execution env m) \<and> keeps (quiet mid) (e_runtime_qc env m)
         \<and> keeps (quiet mid) (e_delivery_summary env m) \<and> keeps (quiet mid) (e_verified_build_artifact env m)
         \<and> keeps (quiet mid) (e_pod_group_standard env m) \<and> keeps (quiet mid) (e_fusion env m))
     \<and> (\<forall>md. keeps (quiet mid) (e_deploy_readiness env mid md))"

lemma env_okD:
  assumes "env_ok env mid"
  shows "clarify_only mid (e_preparer env Queued mid)"
    and "s \<noteq> Queued \<Longrightarrow> keeps (quiet mid) (e_preparer env s mid)"
    and "keeps (quiet mid) (e_completion_check env m)" and "keeps (quiet mid) (e_equivalence env m)"
    and "keeps (quiet mid) (e_security_compliance env m)" and "keeps (quiet mid) (e_dependency_absorption env m)"
    and "keeps (quiet mid) (e_depabs_execution env m)" and "keeps (quiet mid) (e_runtime_qc env m)"
    and "keeps (quiet mid) (e_delivery_summary env m)" and "keeps (quiet mid) (e_verified_build_artifact env m)"
    and "keeps (quiet mid) (e_pod_group_standard env m)" and "keeps (quiet mid) (e_fusion env m)"
    and "keeps (quiet mid) (e_deploy_readiness env mid md)"
  using assms by (simp_all add: env_ok_def)

lemma keeps_blocked [keeps_intros]:
  "keeps (quiet mid) (blocked env m mid ev)" "keeps (quiet mid) (completion_blocked env m mid d)"
  "keeps (quiet mid) (runtime_qc_blocked env m mid rep)"
  unfolding completion_blocked_def runtime_qc_blocked_def blocked_def Let_def by (intro keeps_intros)+

lemma keeps_deploy:
  assumes "env_ok env mid"
  shows "keeps (quiet mid) (deploy_and_deliver env m mid)"
  unfolding deploy_and_deliver_def Let_def by (intro keeps_intros env_okD [OF assms])

lemma keeps_completion_gate:
  assumes "env_ok env mid"
  shows "keeps (quiet mid) (advance_verified_to_complete env mid)"
  unfolding advance_verified_to_complete_def equivalence_gate_def security_gate_def dependency_gate_def
    runtime_qc_gate_def Let_def
  by (intro keeps_intros env_okD [OF assms] keeps_deploy [OF assms])

lemma keeps_finish:
  assumes "env_ok env mid"
  shows "keeps (quiet mid) (step_finish env record new ev)"
  unfolding step_finish_def advance_runtime_phases_def
  by (intro keeps_intros env_okD [OF assms])

section \<open>Moves along the table\<close>

definition v2_edge :: "MissionState \<Rightarrow> MissionState \<Rightarrow> bool" where
  "v2_edge a b \<longleftrightarrow> (\<exists>t. (a, b, t) \<in> set V2_TRANSITIONS) \<or> a = Queued \<and> b = Clarifying"

text \<open>An event that a lifecycle run may log: a checkpoint, a row of the table, or the clarification
  hold.\<close>

definition logged_ok :: "event_row \<Rightarrow> bool" where
  "logged_ok e \<longleftrightarrow> erow_previous e = Some (erow_new e)
     \<or> (\<exists>a b. v2_edge a b \<and> erow_previous e = Some (state_value a) \<and> erow_new e = state_value b)"

definition moves :: "string \<Rightarrow> world \<Rightarrow> world \<Rightarrow> bool" where
  "moves mid w w' \<longleftrightarrow>
     (\<forall>m. m \<noteq> mid \<longrightarrow> db_state (w_db w') m = db_state (w_db w) m)
     \<and> (db_state (w_db w') mid = db_state (w_db w) mid
        \<or> (\<exists>a b. db_state (w_db w) mid = Some (state_value a) \<and> db_state (w_db w') mid = Some (state_value b)
             \<and> v2_edge\<^sup>+\<^sup>+ a b))
     \<and> (\<exists>es. events (w_db w') = events (w_db w) @ es
          \<and> (\<forall>e \<in> set es. erow_mission_id e = mid \<and> logged_ok e))"

interpretation moves: preorder_rel "moves mid"
proof
  show "moves mid w w" for w by (simp add: moves_def)
next
  fix u v w
  assume uv: "moves mid u v" and vw: "moves mid v w"
  have "db_state (w_db w) mid = db_state (w_db u) mid
      \<or> (\<exists>a b. db_state (w_db u) mid = Some (state_value a) \<and> db_state (w_db w) mid = Some (state_value b)
           \<and> v2_edge\<^sup>+\<^sup>+ a b)"
    using uv vw unfolding moves_def by (metis option.inject state_value_inj tranclp_trans)
  moreover have "\<exists>es. events (w_db w) = events (w_db u) @ es
      \<and> (\<forall>e \<in> set es. erow_mission_id e = mid \<and> logged_ok e)"
    using uv vw unfolding moves_def by (metis append.assoc Un_iff set_append)
  moreover have "\<forall>m. m \<noteq> mid \<longrightarrow> db_state (w_db w) m = db_state (w_db u) m"
    using uv vw by (simp add: moves_def)
  ultimately show "moves mid u w" by (simp add: moves_def)
qed

lemma quiet_moves: "quiet mid w w' \<Longrightarrow> moves mid w w'"
  by (auto simp: quiet_def moves_def logged_ok_def)

lemma keeps_quiet_moves: "keeps (quiet mid) m \<Longrightarrow> keeps (moves mid) m"
  by (simp add: keeps_def quiet_moves)

lemma transition_run:
  assumes "transition env mid a b ev w = (r, w')"
  obtains (hit) m where "r = Inr (Some m)" "db_state (w_db w) mid = Some (state_value a)"
      "db_state (w_db w') = (db_state (w_db w))(mid \<mapsto> state_value b)" "m_state m = b"
      "events (w_db w') = events (w_db w) @ [\<lparr>erow_mission_id = mid, erow_previous = Some (state_value a),
         erow_new = state_value b, erow_type = ev, erow_ts = e_now env\<rparr>]"
  | (miss) "r = Inr None" "w' = w" "db_state (w_db w) mid \<noteq> Some (state_value a)"
proof (cases "db_state (w_db w) mid = Some (state_value a)")
  case True
  then obtain row where row: "row_of (w_db w) mid = Some row" "row_state row = state_value a"
    by (auto simp: db_state_def)
  obtain m db' where hit': "transition_mission_state (e_now env) mid (Some a) b ev (w_db w) = (Inr (Some m), db')"
    "m_state m = b" "row_of db' = (row_of (w_db w))(mid \<mapsto> row\<lparr>row_state := state_value b, row_updated_at := e_now env\<rparr>)"
    "events db' = events (w_db w) @ [\<lparr>erow_mission_id = mid, erow_previous = Some (state_value a),
         erow_new = state_value b, erow_type = ev, erow_ts = e_now env\<rparr>]"
    by (rule transition_hit [OF row(1), of "Some a" "e_now env" b ev]) (use row(2) in auto)
  with assms True show thesis
    by (intro hit) (auto simp: transition_def on_db_def db_state_def)
next
  case False
  then have "transition_mission_state (e_now env) mid (Some a) b ev (w_db w) = (Inr None, w_db w)"
    by (cases "row_of (w_db w) mid") (auto simp: db_state_def transition_missing transition_stale)
  with assms False show thesis by (intro miss) (auto simp: transition_def on_db_def)
qed

lemma keeps_transition:
  assumes "v2_edge a b"
  shows "keeps (moves mid) (transition env mid a b ev)"
  unfolding keeps_def
proof
  fix w
  obtain r w' where run: "transition env mid a b ev w = (r, w')" by fastforce
  then have "moves mid w w'"
    by (cases rule: transition_run)
      (use assms in \<open>auto simp: moves_def logged_ok_def intro: moves.R_refl\<close>)
  with run show "moves mid w (snd (transition env mid a b ev w))" by simp
qed

text \<open>The guard of a step, seen from outside.\<close>

lemma guard_queued:
  "step_guard env mid Queued b = e_preparer env Queued mid"
proof
  fix w
  show "step_guard env mid Queued b w = e_preparer env Queued mid w"
    by (cases "e_preparer env Queued mid w")
      (auto simp: step_guard_def staged_def bnd_def split: sum.split)
qed

lemma keeps_guard:
  assumes "env_ok env mid" and "a \<noteq> Queued"
  shows "keeps (quiet mid) (step_guard env mid a b)"
  unfolding step_guard_def
  by (intro keeps_intros env_okD [OF assms(1)] keeps_completion_gate [OF assms(1)] assms(2))

lemma clarify_moves: "clarify_only mid m \<Longrightarrow> keeps (moves mid) m"
proof -
  assume m: "clarify_only mid m"
  have qc: "v2_edge Queued Clarifying" by (simp add: v2_edge_def)
  have "moves mid w w'" if "m w = (r, w')" for w r w'
  proof (cases "quiet mid w w'")
    case False
    with m that have st: "db_state (w_db w) mid = Some (state_value Queued)"
      "db_state (w_db w') = (db_state (w_db w))(mid \<mapsto> state_value Clarifying)"
      and es: "\<exists>es. events (w_db w') = events (w_db w) @ es \<and> (\<forall>e \<in> set es. erow_mission_id e = mid
            \<and> (erow_previous e = Some (erow_new e)
               \<or> erow_previous e = Some (state_value Queued) \<and> erow_new e = state_value Clarifying))"
      unfolding clarify_only_def by blast+
    have "\<exists>es. events (w_db w') = events (w_db w) @ es
        \<and> (\<forall>e \<in> set es. erow_mission_id e = mid \<and> logged_ok e)"
      using es qc unfolding logged_ok_def by blast
    moreover have "\<exists>a b. db_state (w_db w) mid = Some (state_value a)
        \<and> db_state (w_db w') mid = Some (state_value b) \<and> v2_edge\<^sup>+\<^sup>+ a b"
      using st qc by (metis fun_upd_same tranclp.r_into_trancl)
    ultimately show ?thesis using st(2) by (simp add: moves_def)
  qed (rule quiet_moves)
  then show "keeps (moves mid) m" unfolding keeps_def by (metis prod.exhaust_sel)
qed

lemma keeps_step:
  assumes ok: "env_ok env mid" and t: "(a, b, t) \<in> set V2_TRANSITIONS"
  shows "keeps (moves mid) (lifecycle_step env mid (a, b, t))"
proof -
  have guard: "keeps (moves mid) (step_guard env mid a b)"
  proof (cases "a = Queued")
    case True
    then show ?thesis using clarify_moves [OF env_okD(1) [OF ok]] by (simp add: guard_queued)
  qed (rule keeps_quiet_moves [OF keeps_guard [OF ok]])
  have edge: "v2_edge a b" using t by (auto simp: v2_edge_def)
  show ?thesis
    unfolding lifecycle_step_def prod.case
    by (intro moves.keeps_bnd moves.keeps_if moves.keeps_ret moves.keeps_option guard keeps_transition [OF edge]
        keeps_quiet_moves [OF keeps_finish [OF ok]])
qed

lemma keeps_run:
  assumes "env_ok env mid" and "set ts \<subseteq> set V2_TRANSITIONS"
  shows "keeps (moves mid) (run_transitions env mid ts)"
  using assms(2)
proof (induction ts)
  case (Cons t ts)
  obtain a b e where t: "t = (a, b, e)" by (cases t)
  with Cons show ?case
    by (auto intro!: moves.keeps_bnd moves.keeps_if moves.keeps_ret keeps_step [OF assms(1)])
qed (simp add: moves.keeps_ret)

lemma pending_subset: "set (pending_transitions s) \<subseteq> set V2_TRANSITIONS"
  unfolding pending_transitions_def by (auto dest: set_dropWhileD)

lemma keeps_advance:
  assumes "env_ok env mid"
  shows "keeps (moves mid) (advance_mission_lifecycle_v2 env mid)"
  unfolding advance_mission_lifecycle_v2_def
  by (intro moves.keeps_bnd moves.keeps_ret moves.keeps_option keeps_quiet_moves [OF keeps_fetch]
      keeps_run [OF assms pending_subset])

section \<open>What one step does\<close>

lemma finish_true: "step_finish env record new ev w = (Inr b, w') \<Longrightarrow> b"
  unfolding step_finish_def by (elim bnd_result) simp

lemma step_run:
  assumes ok: "env_ok env mid" and run: "lifecycle_step env mid (a, b, t) w = (r, w')"
  obtains (refused) "r \<noteq> Inr True" "step_guard env mid a b w = (r, w')" "quiet mid w w'"
  | (clarified) "a = Queued" "r \<noteq> Inr True"
      "db_state (w_db w') = (db_state (w_db w))(mid \<mapsto> state_value Clarifying)"
      "step_guard env mid a b w = (r, w')"
  | (stale) "r = Inr False" "quiet mid w w'" "db_state (w_db w) mid \<noteq> Some (state_value a)"
  | (moved) w1 where "step_guard env mid a b w = (Inr True, w1)" "quiet mid w w1"
      "db_state (w_db w) mid = Some (state_value a)" "r \<noteq> Inr False"
      "db_state (w_db w') = (db_state (w_db w))(mid \<mapsto> state_value b)"
proof -
  obtain g w1 where g: "step_guard env mid a b w = (g, w1)" by fastforce
  have guard: "quiet mid w w1 \<or> (a = Queued \<and> g \<noteq> Inr True
      \<and> db_state (w_db w1) = (db_state (w_db w))(mid \<mapsto> state_value Clarifying))"
  proof (cases "a = Queued")
    case True
    then show ?thesis using g env_okD(1) [OF ok] unfolding clarify_only_def by (metis guard_queued)
  next
    case False
    then show ?thesis using keeps_result [OF keeps_guard [OF ok False] g] by simp
  qed
  show thesis
  proof (cases "g = Inr True")
    case False
    then have "r = g" "w' = w1" using run g by (auto simp: lifecycle_step_def bnd_def split: sum.splits)
    with False guard g show thesis by (metis refused clarified)
  next
    case True
    then have q: "quiet mid w w1" using guard by blast
    then have same: "db_state (w_db w1) = db_state (w_db w)" by (simp add: quiet_def)
    obtain tr w2 where tr: "transition env mid a b t w1 = (tr, w2)" by fastforce
    show thesis
    proof (cases rule: transition_run [OF tr])
      case (1 m)
      then have fin: "step_finish env m b t w2 = (r, w')"
        using run g True tr by (simp add: lifecycle_step_def bnd_def)
      then have "quiet mid w2 w'" by (rule keeps_result [OF keeps_finish [OF ok]])
      then have "db_state (w_db w') = (db_state (w_db w))(mid \<mapsto> state_value b)"
        using 1 same by (simp add: quiet_def)
      moreover have "r \<noteq> Inr False" using fin finish_true by blast
      ultimately show thesis using g True q 1 same by (intro moved [of w1]) auto
    next
      case 2
      then have "r = Inr False" "w' = w1" using run g True tr by (auto simp: lifecycle_step_def bnd_def)
      with 2 q same show thesis by (intro stale) auto
    qed
  qed
qed

section \<open>Completion and its gates\<close>

text \<open>All gates of the completion said yes, in the order of the code and each in the world the
  previous ones left.\<close>

definition gates_passed :: "lifecycle_env \<Rightarrow> string \<Rightarrow> world \<Rightarrow> bool" where
  "gates_passed env mid w \<longleftrightarrow> (\<exists>m details w1 m2 r2 w2 m3 r3 w3 m4 r4 w4 m5 w5 m6 r6 w6.
     fetch_mission (w_db w) mid = Inr (Some m)
     \<and> e_completion_check env m w = (Inr (True, details), w1)
     \<and> fst (delta_audit_gate (e_settings env) m)
     \<and> e_equivalence env m w1 = (Inr (m2, True, r2), w2)
     \<and> e_security_compliance env m2 w2 = (Inr (m3, True, r3), w3)
     \<and> e_dependency_absorption env m3 w3 = (Inr (m4, True, r4), w4)
     \<and> e_depabs_execution env m4 w4 = (Inr m5, w5)
     \<and> e_runtime_qc env m5 w5 = (Inr (m6, True, r6), w6))"

lemma blocked_false:
  "blocked env m mid ev w = (Inr b, w') \<Longrightarrow> \<not> b" "completion_blocked env m mid d w = (Inr b, w') \<Longrightarrow> \<not> b"
  "runtime_qc_blocked env m mid rep w = (Inr b, w') \<Longrightarrow> \<not> b"
  unfolding completion_blocked_def runtime_qc_blocked_def blocked_def Let_def
  by (elim bnd_result; simp)+

lemma deploy_true: "deploy_and_deliver env m mid w = (Inr b, w') \<Longrightarrow> b"
  unfolding deploy_and_deliver_def Let_def by (elim bnd_result) simp

text \<open>A gate inside a program that succeeds, and inside one that refuses.\<close>

lemma gate_passed:
  assumes "bnd g (\<lambda>(m, ok, rep). if \<not> ok then stop m rep else go m rep) w = (Inr True, w')"
    and "\<And>m rep v v'. stop m rep v \<noteq> (Inr True, v')"
  obtains m rep w1 where "g w = (Inr (m, True, rep), w1)" and "go m rep w1 = (Inr True, w')"
  using assms by (elim bnd_result) (auto split: if_splits)

lemma gate_refused:
  assumes "bnd g (\<lambda>(m, ok, rep). if \<not> ok then stop m rep else go m rep) w = (Inr False, w')"
    and "keeps (quiet mid) g"
  obtains (here) m rep w1 where "quiet mid w w1" and "stop m rep w1 = (Inr False, w')"
  | (later) m rep w1 where "quiet mid w w1" and "go m rep w1 = (Inr False, w')"
proof -
  obtain m ok rep w1 where g: "g w = (Inr (m, ok, rep), w1)"
    and rest: "(if \<not> ok then stop m rep else go m rep) w1 = (Inr False, w')"
    using assms(1) by (elim bnd_result) auto
  have "quiet mid w w1" using assms(2) g by (rule keeps_result)
  with rest show thesis by (cases ok) (auto intro: here later)
qed

lemma completion_gate_run:
  assumes "advance_verified_to_complete env mid w = (Inr b, w')"
    and "fetch_mission (w_db w) mid = Inr (Some m)"
  obtains (unready) ready details d w1 where "e_completion_check env m w = (Inr (ready, details), w1)"
      "completion_blocked env m mid d w1 = (Inr b, w')"
  | (ready) details w1 where "e_completion_check env m w = (Inr (True, details), w1)"
      "fst (delta_audit_gate (e_settings env) m)" "equivalence_gate env mid m w1 = (Inr b, w')"
proof -
  have fetched: "fetch mid w = (Inr (Some m), w)" using assms(2) by (simp add: fetch_def)
  have "bnd (e_completion_check env m) (\<lambda>(ready, details).
      let (ready, details) = (if ready then delta_audit_gate (e_settings env) m else (False, details)) in
      if \<not> ready then completion_blocked env m mid details else equivalence_gate env mid m) w = (Inr b, w')"
    using assms(1) unfolding advance_verified_to_complete_def bnd_Inr [where m = "fetch mid", OF fetched]
    by simp
  then obtain rd details w1 where c: "e_completion_check env m w = (Inr (rd, details), w1)"
    and rest: "(let (ready, details) = (if rd then delta_audit_gate (e_settings env) m else (False, details)) in
      if \<not> ready then completion_blocked env m mid details else equivalence_gate env mid m) w1 = (Inr b, w')"
    by (elim bnd_result) auto
  show thesis
  proof (cases "rd \<and> fst (delta_audit_gate (e_settings env) m)")
    case True
    with c rest show thesis by (intro ready) (auto simp: case_prod_beta)
  next
    case False
    with rest obtain d where "completion_blocked env m mid d w1 = (Inr b, w')"
      by (auto simp: case_prod_beta Let_def split: if_splits)
    with c show thesis by (rule unready)
  qed
qed

lemma completion_gate_true:
  assumes "advance_verified_to_complete env mid w = (Inr True, w')"
  shows "gates_passed env mid w"
proof -
  obtain m where m: "fetch_mission (w_db w) mid = Inr (Some m)"
    using assms unfolding advance_verified_to_complete_def
    by (elim bnd_result) (auto simp: fetch_def split: option.splits)
  have no: "blocked env m' mid ev v \<noteq> (Inr True, v')" "runtime_qc_blocked env m' mid rep v \<noteq> (Inr True, v')"
    for m' ev v v' rep by (auto dest: blocked_false)
  from assms m show ?thesis
  proof (cases rule: completion_gate_run)
    case (unready ready details d w1)
    then show ?thesis using blocked_false(2) by blast
  next
    case (ready details w1)
    obtain m2 r2 w2 where 2: "e_equivalence env m w1 = (Inr (m2, True, r2), w2)"
      and s2: "security_gate env mid m2 w2 = (Inr True, w')"
      by (rule gate_passed [OF ready(3) [unfolded equivalence_gate_def]]) (simp_all add: no)
    obtain m3 r3 w3 where 3: "e_security_compliance env m2 w2 = (Inr (m3, True, r3), w3)"
      and s3: "dependency_gate env mid m3 w3 = (Inr True, w')"
      by (rule gate_passed [OF s2 [unfolded security_gate_def]]) (simp_all add: no)
    obtain m4 r4 w4 where 4: "e_dependency_absorption env m3 w3 = (Inr (m4, True, r4), w4)"
      and s4: "runtime_qc_gate env mid m4 w4 = (Inr True, w')"
      by (rule gate_passed [OF s3 [unfolded dependency_gate_def]]) (simp_all add: no)
    obtain m5 w5 where 5: "e_depabs_execution env m4 w4 = (Inr m5, w5)"
      and s5: "bnd (e_runtime_qc env m5) (\<lambda>(mission, ok, report).
               if \<not> ok then runtime_qc_blocked env mission mid report
               else deploy_and_deliver env mission mid) w5 = (Inr True, w')"
      by (rule bnd_result [OF s4 [unfolded runtime_qc_gate_def]])
    obtain m6 r6 w6 where 6: "e_runtime_qc env m5 w5 = (Inr (m6, True, r6), w6)"
      by (rule gate_passed [OF s5]) (simp_all add: no)
    show ?thesis unfolding gates_passed_def using m ready(1,2) 2 3 4 5 6 by blast
  qed
qed

text \<open>Every refusal leaves a checkpoint that names the gate.\<close>

definition BLOCKED_EVENTS :: "string list" where
  "BLOCKED_EVENTS = [''MISSION_COMPLETION_BLOCKED'', ''MISSION_EQUIVALENCE_BLOCKED'',
     ''MISSION_SECURITY_COMPLIANCE_BLOCKED'', ''MISSION_DEPENDENCY_ABSORPTION_BLOCKED'']"

definition refusal_logged :: "string \<Rightarrow> world \<Rightarrow> world \<Rightarrow> bool" where
  "refusal_logged mid w w' \<longleftrightarrow> (\<exists>es e. events (w_db w') = events (w_db w) @ es \<and> e \<in> set es
     \<and> erow_mission_id e = mid \<and> erow_new e = state_value Verified \<and> erow_type e \<in> set BLOCKED_EVENTS)"

lemma refusal_before: "quiet mid w w1 \<Longrightarrow> refusal_logged mid w1 w' \<Longrightarrow> refusal_logged mid w w'"
  unfolding quiet_def refusal_logged_def by (metis append.assoc Un_iff set_append)

lemma refusal_after: "refusal_logged mid w w1 \<Longrightarrow> quiet mid w1 w' \<Longrightarrow> refusal_logged mid w w'"
  unfolding quiet_def refusal_logged_def by (metis append.assoc Un_iff set_append)

lemma checkpoint_logs:
  assumes "checkpoint env mid Verified ev w = (Inr x, w')" and "ev \<in> set BLOCKED_EVENTS"
  shows "refusal_logged mid w w'"
  using assms by (auto simp: checkpoint_def on_db_def insert_mission_event_def refusal_logged_def Let_def
      split: if_splits)

lemma blocked_logs:
  assumes "blocked env m mid ev w = (Inr b, w')" and "ev \<in> set BLOCKED_EVENTS"
  shows "refusal_logged mid w w'"
proof -
  obtain x w1 where c: "checkpoint env mid Verified ev w = (Inr x, w1)"
    and rest: "bnd (emit_quietly env m ev) (\<lambda>_. ret False) w1 = (Inr b, w')"
    by (rule bnd_result [OF assms(1) [unfolded blocked_def]])
  have "keeps (quiet mid) (bnd (emit_quietly env m ev) (\<lambda>_. ret False))" by (intro keeps_intros)
  then have "quiet mid w1 w'" using rest by (rule keeps_result)
  with checkpoint_logs [OF c assms(2)] show ?thesis by (rule refusal_after)
qed

lemma completion_blocked_logs:
  assumes "completion_blocked env m mid d w = (Inr b, w')"
  shows "refusal_logged mid w w'"
proof -
  obtain md x w1 where s: "save_metadata env mid md w = (Inr x, w1)"
    and rest: "blocked env m mid ''MISSION_COMPLETION_BLOCKED'' w1 = (Inr b, w')"
    by (rule bnd_result [OF assms [unfolded completion_blocked_def Let_def]])
  have "quiet mid w w1" using keeps_save s by (rule keeps_result)
  moreover have "refusal_logged mid w1 w'" using rest by (rule blocked_logs) (simp add: BLOCKED_EVENTS_def)
  ultimately show ?thesis by (rule refusal_before)
qed

lemma runtime_qc_blocked_logs:
  assumes "runtime_qc_blocked env m mid rep w = (Inr b, w')"
  shows "refusal_logged mid w w'"
proof -
  obtain md x w1 where s: "save_metadata env mid md w = (Inr x, w1)"
    and more: "bnd (checkpoint env mid Verified ''MISSION_COMPLETION_BLOCKED'') (\<lambda>_.
      bnd (checkpoint env mid Verified ''MISSION_RUNTIME_QC_BLOCKED'') (\<lambda>_. ret False)) w1 = (Inr b, w')"
    by (rule bnd_result [OF assms [unfolded runtime_qc_blocked_def Let_def]])
  obtain w2 y where c: "checkpoint env mid Verified ''MISSION_COMPLETION_BLOCKED'' w1 = (Inr y, w2)"
    and rest: "bnd (checkpoint env mid Verified ''MISSION_RUNTIME_QC_BLOCKED'') (\<lambda>_. ret False) w2 = (Inr b, w')"
    by (rule bnd_result [OF more])
  have "keeps (quiet mid) (bnd (checkpoint env mid Verified ''MISSION_RUNTIME_QC_BLOCKED'') (\<lambda>_. ret False))"
    by (intro keeps_intros)
  then have "quiet mid w2 w'" using rest by (rule keeps_result)
  moreover have "refusal_logged mid w1 w2" using c by (rule checkpoint_logs) (simp add: BLOCKED_EVENTS_def)
  moreover have "quiet mid w w1" using keeps_save s by (rule keeps_result)
  ultimately show ?thesis by (blast intro: refusal_before refusal_after)
qed

lemma completion_gate_false:
  assumes ok: "env_ok env mid" and m: "fetch_mission (w_db w) mid = Inr (Some m)"
    and run: "advance_verified_to_complete env mid w = (Inr False, w')"
  shows "refusal_logged mid w w'"
  using run m
proof (cases rule: completion_gate_run)
  case (unready rd details d w1)
  then have "quiet mid w w1" using env_okD(3) [OF ok] by (blast intro: keeps_result)
  with completion_blocked_logs [OF unready(2)] show ?thesis by (blast intro: refusal_before)
next
  case (ready details w1)
  have blocked: "refusal_logged mid v v'" if "blocked env x mid ev v = (Inr False, v')"
    "ev \<in> set BLOCKED_EVENTS" for x ev v v' using that by (rule blocked_logs)
  have qc: "refusal_logged mid v v'" if qc_run: "runtime_qc_gate env mid x v = (Inr False, v')" for x v v'
  proof -
    obtain y v1 where y: "e_depabs_execution env x v = (Inr y, v1)"
      and rest: "bnd (e_runtime_qc env y) (\<lambda>(mission, ok, report).
         if \<not> ok then runtime_qc_blocked env mission mid report else deploy_and_deliver env mission mid) v1
         = (Inr False, v')"
      by (rule bnd_result [OF qc_run [unfolded runtime_qc_gate_def]])
    have "quiet mid v v1" using env_okD(7) [OF ok] y by (rule keeps_result)
    moreover have "refusal_logged mid v1 v'"
      by (rule gate_refused [OF rest env_okD(8) [OF ok]])
        (blast dest: runtime_qc_blocked_logs deploy_true intro: refusal_before)+
    ultimately show ?thesis by (rule refusal_before)
  qed
  have dep: "refusal_logged mid v v'" if "dependency_gate env mid x v = (Inr False, v')" for x v v'
    by (rule gate_refused [OF that [unfolded dependency_gate_def] env_okD(6) [OF ok]])
      (auto dest!: blocked qc simp: BLOCKED_EVENTS_def intro: refusal_before)
  have sec: "refusal_logged mid v v'" if "security_gate env mid x v = (Inr False, v')" for x v v'
    by (rule gate_refused [OF that [unfolded security_gate_def] env_okD(5) [OF ok]])
      (auto dest!: blocked dep simp: BLOCKED_EVENTS_def intro: refusal_before)
  have "refusal_logged mid w1 w'"
    by (rule gate_refused [OF ready(3) [unfolded equivalence_gate_def] env_okD(4) [OF ok]])
      (auto dest!: blocked sec simp: BLOCKED_EVENTS_def intro: refusal_before)
  moreover have "quiet mid w w1" using env_okD(3) [OF ok] ready(1) by (rule keeps_result)
  ultimately show ?thesis by (blast intro: refusal_before)
qed

section \<open>Whole runs\<close>

lemma complete_source: "(a, Complete, t) \<in> set V2_TRANSITIONS \<Longrightarrow> a = Verified"
  by (simp add: V2_TRANSITIONS_def)

lemma guard_verified: "step_guard env mid Verified Complete = advance_verified_to_complete env mid"
  by (simp add: step_guard_def staged_def)

lemma step_completes:
  assumes "env_ok env mid" and "(a, b, t) \<in> set V2_TRANSITIONS"
    and run: "lifecycle_step env mid (a, b, t) w = (r, w')"
    and "db_state (w_db w) mid \<noteq> Some (state_value Complete)"
    and "db_state (w_db w') mid = Some (state_value Complete)"
  shows "gates_passed env mid w"
  using assms(1) run
proof (cases rule: step_run)
  case (moved w1)
  then have "state_value b = state_value Complete" using assms(5) by simp
  then have "b = Complete" by (simp only: state_value_inj)
  moreover have "a = Verified" using complete_source assms(2) \<open>b = Complete\<close> by blast
  ultimately show ?thesis using moved(1) completion_gate_true by (simp add: guard_verified)
qed (use assms(4,5) in \<open>auto simp: quiet_def\<close>)

lemma run_completes:
  assumes "env_ok env mid" and "set ts \<subseteq> set V2_TRANSITIONS"
    and "run_transitions env mid ts w = (r, w')"
    and "db_state (w_db w) mid \<noteq> Some (state_value Complete)"
    and "db_state (w_db w') mid = Some (state_value Complete)"
  shows "\<exists>w0. gates_passed env mid w0"
  using assms(2-5)
proof (induction ts arbitrary: w)
  case (Cons t ts)
  obtain a b e where t: "t = (a, b, e)" by (cases t)
  obtain g w1 where g: "lifecycle_step env mid (a, b, e) w = (g, w1)" by fastforce
  show ?case
  proof (cases "db_state (w_db w1) mid = Some (state_value Complete)")
    case True
    then show ?thesis using step_completes [OF assms(1) _ g] Cons.prems t by auto
  next
    case False
    then have "g = Inr True" using Cons.prems g t by (cases g) (auto simp: bnd_def split: if_splits)
    then have "run_transitions env mid ts w1 = (r, w')" using Cons.prems(2) g t by (simp add: bnd_def)
    then show ?thesis using Cons.IH [of w1] Cons.prems False by auto
  qed
qed simp

text \<open>The pending transitions form a chain from the current state to COMPLETE.\<close>

fun chain_to_complete :: "MissionState \<Rightarrow> (MissionState \<times> MissionState \<times> string) list \<Rightarrow> bool" where
  "chain_to_complete s [] = (s = Complete)"
| "chain_to_complete s ((a, b, t) # ts) = (s = a \<and> chain_to_complete b ts)"

lemma pending_chain: "s \<in> set recoverable_lifecycle_states \<Longrightarrow> chain_to_complete s (pending_transitions s)"
proof -
  have "list_all (\<lambda>s. chain_to_complete s (pending_transitions s)) recoverable_lifecycle_states"
    by code_simp
  then show "s \<in> set recoverable_lifecycle_states \<Longrightarrow> chain_to_complete s (pending_transitions s)"
    by (simp add: list_all_iff)
qed

lemma run_stops:
  assumes "env_ok env mid" and "chain_to_complete s ts" and "set ts \<subseteq> set V2_TRANSITIONS"
    and "db_state (w_db w) mid = Some (state_value s)"
    and "run_transitions env mid ts w = (Inr (), w')"
  shows "db_state (w_db w') mid = Some (state_value Complete)
    \<or> (\<exists>a b t w0. (a, b, t) \<in> set V2_TRANSITIONS \<and> db_state (w_db w0) mid = Some (state_value a)
        \<and> step_guard env mid a b w0 = (Inr False, w'))"
  using assms(2-5)
proof (induction ts arbitrary: w s)
  case (Cons t ts)
  then obtain b e where t: "t = (s, b, e)" and ch: "chain_to_complete b ts" by (cases t) auto
  obtain g w1 where g: "lifecycle_step env mid (s, b, e) w = (g, w1)" by fastforce
  from assms(1) g show ?case
  proof (cases rule: step_run)
    case refused
    then have "g = Inr False" "w' = w1" using Cons.prems(4) g t by (cases g; auto simp: bnd_def split: if_splits)+
    then show ?thesis using refused Cons.prems t by auto
  next
    case clarified
    then have "g = Inr False" "w' = w1" using Cons.prems(4) g t by (cases g; auto simp: bnd_def split: if_splits)+
    moreover have "(s, b, e) \<in> set V2_TRANSITIONS" using Cons.prems(2) t by simp
    ultimately show ?thesis using clarified(4) Cons.prems(3) by blast
  next
    case stale
    then show ?thesis using Cons.prems(3) by simp
  next
    case (moved v)
    then have "g = Inr True" using Cons.prems(4) g t by (cases g; auto simp: bnd_def)
    then have "run_transitions env mid ts w1 = (Inr (), w')" using Cons.prems(4) g t by (simp add: bnd_def)
    then show ?thesis using Cons.IH [of b w1] ch Cons.prems(2) moved(5) by auto
  qed
qed simp

lemma advance_found:
  "fetch_mission (w_db w) mid = Inr (Some m) \<Longrightarrow>
   advance_mission_lifecycle_v2 env mid w = run_transitions env mid (pending_transitions (m_state m)) w"
  unfolding advance_mission_lifecycle_v2_def by (subst bnd_Inr [of _ _ "Some m" w]) (simp_all add: fetch_def)

lemma advance_other:
  assumes "\<nexists>m. fetch_mission (w_db w) mid = Inr (Some m)"
  shows "snd (advance_mission_lifecycle_v2 env mid w) = w"
proof (cases "fetch_mission (w_db w) mid")
  case (Inl e)
  then show ?thesis
    unfolding advance_mission_lifecycle_v2_def by (subst bnd_Inl [of _ _ e w]) (simp_all add: fetch_def)
next
  case (Inr found)
  with assms have "found = None" by (cases found) auto
  with Inr show ?thesis
    unfolding advance_mission_lifecycle_v2_def by (subst bnd_Inr [of _ _ None w]) (simp_all add: fetch_def)
qed

lemma save_ok:
  assumes "row_of (w_db w) mid = Some row" and "row_state row = state_value s"
  obtains m w' where "save_metadata env mid md w = (Inr (Some m), w')"
proof -
  let ?row = "row\<lparr>row_metadata := keep_delta_gate (row_metadata row)
      (strip_vault (with_project_identity (PDict md) (PStr mid))),
    row_project_id := Some (resolve_project_id (PDict (strip_vault (with_project_identity (PDict md) (PStr mid)))) (PStr mid)),
    row_updated_at := e_now env\<rparr>"
  obtain m where "row_to_mission mid ?row = Inr m"
    using row_to_mission_state [of ?row s mid] assms(2) by auto
  then show thesis
    using assms(1) by (intro that) (auto simp: save_metadata_def on_db_def update_mission_metadata_def
        row_of_def Let_def)
qed

lemma emit_quietly_ok: "\<exists>w'. emit_quietly env m ev w = (Inr (), w')"
  by (cases "emit_state_event env m ev w") (auto simp: emit_quietly_def attempt_def split: sum.split)

text \<open>The clarification branch of intake is such a preparer.\<close>

lemma park_clarify_only: "clarify_only mid (park_for_clarification env mid md fc score n)"
  unfolding clarify_only_def
proof (intro allI impI)
  fix w r w'
  assume run: "park_for_clarification env mid md fc score n w = (r, w')"
  let ?md = "dset ''clarifying_questions'' (dget fc ''clarifying_questions'')
    (dset ''clarification_loop_count'' (PInt (n + 1)) (dset ''last_ambiguity_score'' score md))"
  let ?rest = "\<lambda>moved. case moved of None \<Rightarrow> ret False
     | Some record \<Rightarrow> bnd (emit_quietly env record ''MISSION_CLARIFYING'') (\<lambda>_. ret False)"
  obtain x w1 where sv: "save_metadata env mid ?md w = (x, w1)" by fastforce
  have q1: "quiet mid w w1" using keeps_save sv by (rule keeps_result)
  obtain t w2 where tr: "transition env mid Queued Clarifying ''MISSION_CLARIFYING'' w1 = (t, w2)" by fastforce
  have rest: "keeps (quiet mid) (?rest moved)" for moved by (intro keeps_intros)
  show "quiet mid w w' \<or> r \<noteq> Inr True \<and> db_state (w_db w) mid = Some (state_value Queued)
       \<and> db_state (w_db w') = (db_state (w_db w))(mid \<mapsto> state_value Clarifying)
       \<and> (\<exists>es. events (w_db w') = events (w_db w) @ es \<and> (\<forall>e \<in> set es. erow_mission_id e = mid
            \<and> (erow_previous e = Some (erow_new e)
               \<or> erow_previous e = Some (state_value Queued) \<and> erow_new e = state_value Clarifying)))"
  proof (cases x)
    case (Inl e)
    then have "w' = w1" using run sv by (simp add: park_for_clarification_def bnd_def)
    with q1 show ?thesis by simp
  next
    case (Inr rec)
    from tr show ?thesis
    proof (cases rule: transition_run)
      case (hit m)
      then have last: "?rest (Some m) w2 = (r, w')"
        using run sv tr Inr by (simp add: park_for_clarification_def bnd_def)
      have q2: "quiet mid w2 w'" by (rule keeps_result [OF rest last])
      have "r \<noteq> Inr True" using last emit_quietly_ok [of env m "''MISSION_CLARIFYING''" w2]
        by (auto simp: bnd_def)
      moreover obtain es1 es2 where "events (w_db w1) = events (w_db w) @ es1"
        "events (w_db w') = events (w_db w2) @ es2"
        "\<forall>e \<in> set (es1 @ es2). erow_mission_id e = mid \<and> erow_previous e = Some (erow_new e)"
        using q1 q2 unfolding quiet_def by auto
      moreover have "db_state (w_db w) mid = Some (state_value Queued)"
        "db_state (w_db w') = (db_state (w_db w))(mid \<mapsto> state_value Clarifying)"
        using q1 q2 hit(2,3) unfolding quiet_def by simp_all
      ultimately show ?thesis using hit(5) by auto
    next
      case miss
      then have "w' = w1" using run sv tr Inr by (simp add: park_for_clarification_def bnd_def)
      with q1 show ?thesis by simp
    qed
  qed
qed

section \<open>A sample environment\<close>

text \<open>All stages and gates succeed at once; it shows that the hypotheses can hold.\<close>

definition sample_env :: lifecycle_env where
  "sample_env = \<lparr>e_now = 9, e_stamp = ''t9'', e_iso = (\<lambda>_. ''iso''),
     e_engine = \<lparr>mission_flow_v2_enabled = True, langgraph_enabled = False\<rparr>, e_settings = [],
     e_producer_name = ''orchestrator'', e_default_priority = ''NORMAL'', e_uuid = (\<lambda>_. ''u''),
     e_build_state_envelope = (\<lambda>_ _. Inr []), e_validate = (\<lambda>_. True), e_xadd_ok = (\<lambda>_ _. True),
     e_preparer = (\<lambda>_ _. ret True), e_completion_check = (\<lambda>_. ret (True, [])),
     e_equivalence = (\<lambda>m. ret (m, True, [])), e_security_compliance = (\<lambda>m. ret (m, True, [])),
     e_dependency_absorption = (\<lambda>m. ret (m, True, [])), e_depabs_execution = ret,
     e_runtime_qc = (\<lambda>m. ret (m, True, [])), e_deploy_readiness = (\<lambda>_ _. ret []),
     e_delivery_summary = ret, e_verified_build_artifact = ret, e_pod_group_standard = ret, e_fusion = ret\<rparr>"

definition sample_world :: "string \<Rightarrow> world" where
  "sample_world st = \<lparr>w_db = sample_db\<lparr>missions := [(''m1'', sample_row\<lparr>row_state := st\<rparr>)]\<rparr>,
     w_stream = [], w_redis_ready = True\<rparr>"

lemma sample_env_ok: "env_ok sample_env mid"
  by (auto simp: env_ok_def sample_env_def clarify_only_def quiet.R_refl intro: quiet.keeps_ret)

lemma sample_env_sel:
  "e_completion_check sample_env = (\<lambda>_. ret (True, []))" "e_equivalence sample_env = (\<lambda>m. ret (m, True, []))"
  "e_security_compliance sample_env = (\<lambda>m. ret (m, True, []))" "e_settings sample_env = []"
  "e_dependency_absorption sample_env = (\<lambda>m. ret (m, True, []))" "e_depabs_execution sample_env = ret"
  "e_runtime_qc sample_env = (\<lambda>m. ret (m, True, []))" "e_deploy_readiness sample_env = (\<lambda>_ _. ret [])"
  "e_delivery_summary sample_env = ret"
  by (simp_all add: sample_env_def)

lemma sample_state: "db_state (w_db (sample_world st)) ''m1'' = Some st"
  by (simp add: sample_world_def sample_db_def db_state_def row_of_def)

lemma sample_gates_open:
  assumes "db_state (w_db w) mid = Some (state_value s)"
  obtains w' where "advance_verified_to_complete sample_env mid w = (Inr True, w')"
proof -
  obtain row where row: "row_of (w_db w) mid = Some row" "row_state row = state_value s"
    using assms by (auto simp: db_state_def)
  obtain m where m: "fetch_mission (w_db w) mid = Inr (Some m)" by (rule fetch_ok [OF row])
  have deploy: "\<exists>w'. deploy_and_deliver sample_env x mid w = (Inr True, w')" for x
  proof -
    obtain b where b: "chain_event_exists (dset ''deploy_readiness'' (PDict []) (chain_defaults_of m))
        ''MISSION_DEPLOY_READINESS_ASSESSED'' = Inr b"
      by (simp add: chain_event_exists_def dget_or_def chain_defaults_of_def map_of_with_chain_defaults)
    have "\<exists>y w'. save_metadata sample_env mid md w = (Inr (Some y), w')" for md
      by (rule save_ok [OF row, of sample_env md]) blast
    then obtain f g where saved: "\<And>md. save_metadata sample_env mid md w = (Inr (Some (f md)), g md)"
      by metis
    show ?thesis
      by (simp add: deploy_and_deliver_def fetch_def bnd_def Let_def or_else_def b m saved sample_env_sel)
  qed
  have "fetch mid w = (Inr (Some m), w)" using m by (simp add: fetch_def)
  then have "advance_verified_to_complete sample_env mid w = deploy_and_deliver sample_env m mid w"
    unfolding advance_verified_to_complete_def equivalence_gate_def security_gate_def dependency_gate_def
      runtime_qc_gate_def
    by (subst bnd_Inr [of _ _ "Some m" w])
      (simp_all add: sample_env_sel delta_audit_gate_def setting_bool_def dget_or_def)
  with deploy that show thesis by metis
qed

lemma sample_completes:
  assumes "db_state (w_db w) mid = Some (state_value Verified)"
  obtains r w' where "advance_mission_lifecycle_v2 sample_env mid w = (r, w')"
    and "db_state (w_db w') mid = Some (state_value Complete)"
proof -
  obtain row where row: "row_of (w_db w) mid = Some row" "row_state row = state_value Verified"
    using assms by (auto simp: db_state_def)
  obtain m where m: "fetch_mission (w_db w) mid = Inr (Some m)" "m_state m = Verified"
    by (rule fetch_ok [OF row])
  obtain g w1 where g: "lifecycle_step sample_env mid (Verified, Complete, ''MISSION_COMPLETE'') w = (g, w1)"
    by fastforce
  obtain v where v: "advance_verified_to_complete sample_env mid w = (Inr True, v)"
    by (rule sample_gates_open [OF assms])
  have pend: "pending_transitions Verified = [(Verified, Complete, ''MISSION_COMPLETE'')]" by code_simp
  have "db_state (w_db w1) mid = Some (state_value Complete)"
    using sample_env_ok g by (cases rule: step_run) (use v assms in \<open>auto simp: guard_verified\<close>)
  moreover have "w_db (snd (advance_mission_lifecycle_v2 sample_env mid w)) = w_db w1"
    using g by (cases g) (auto simp: advance_found [OF m(1)] m(2) pend bnd_def)
  ultimately show thesis using that by (metis prod.collapse)
qed

lemma sample_refuses:
  assumes "db_state (w_db w) mid = Some (state_value s)"
  defines "env \<equiv> sample_env\<lparr>e_completion_check := (\<lambda>_. ret (False, []))\<rparr>"
  obtains m w' where "fetch_mission (w_db w) mid = Inr (Some m)" and "env_ok env mid"
    and "advance_verified_to_complete env mid w = (Inr False, w')"
proof -
  obtain row where row: "row_of (w_db w) mid = Some row" "row_state row = state_value s"
    using assms(1) by (auto simp: db_state_def)
  obtain m where m: "fetch_mission (w_db w) mid = Inr (Some m)" by (rule fetch_ok [OF row])
  have fetched: "fetch mid w = (Inr (Some m), w)" using m by (simp add: fetch_def)
  define md where "md = append_chain_event (chain_defaults_of m) ''MISSION_COMPLETION_BLOCKED''
    CEO_AGENT_ID [] (e_stamp env)"
  obtain y w1 where sv: "save_metadata env mid md w = (Inr (Some y), w1)" by (rule save_ok [OF row])
  have "quiet mid w w1" using keeps_save sv by (rule keeps_result)
  then have "db_state (w_db w1) mid = Some (state_value s)" using assms(1) by (simp add: quiet_def)
  then have "dhas (missions (w_db w1)) mid" by (auto simp: dhas_row_of db_state_def)
  then obtain w2 where cp: "checkpoint env mid Verified ''MISSION_COMPLETION_BLOCKED'' w1 = (Inr (), w2)"
    by (auto simp: checkpoint_def on_db_def insert_mission_event_def Let_def)
  obtain w3 where em: "emit_quietly env m ''MISSION_COMPLETION_BLOCKED'' w2 = (Inr (), w3)"
    using emit_quietly_ok by blast
  have "completion_blocked env m mid [] w = (Inr False, w3)"
    unfolding completion_blocked_def Let_def md_def [symmetric] blocked_def
    by (simp add: bnd_Inr [where m = "save_metadata env mid md", OF sv] bnd_Inr [where m = "emit_quietly env m ''MISSION_COMPLETION_BLOCKED''", OF em]
        bnd_Inr [where m = "checkpoint env mid Verified ''MISSION_COMPLETION_BLOCKED''", OF cp])
  moreover have "advance_verified_to_complete env mid w = completion_blocked env m mid [] w"
    unfolding advance_verified_to_complete_def bnd_Inr [where m = "fetch mid", OF fetched]
    by (simp add: env_def)
  moreover have "env_ok env mid"
    using sample_env_ok [of mid] by (auto simp: env_ok_def env_def intro: quiet.keeps_ret)
  ultimately show thesis using m that by simp
qed

section \<open>Properties\<close>

text \<open>C2. The v2 driver moves missions only along its table: whatever happens during a run, exceptions
  included, no other mission changes state, the mission itself stays or moves along a path of table
  rows (or from QUEUED to the clarification hold), and every event logged is a checkpoint or one of
  those rows.\<close>

theorem lifecycle_v2_moves_along_table:
  assumes "env_ok env mid" and "advance_mission_lifecycle_v2 env mid w = (r, w')"
  shows "(\<forall>m. m \<noteq> mid \<longrightarrow> db_state (w_db w') m = db_state (w_db w) m)
    \<and> (db_state (w_db w') mid = db_state (w_db w) mid
       \<or> (\<exists>a b. db_state (w_db w) mid = Some (state_value a) \<and> db_state (w_db w') mid = Some (state_value b)
            \<and> v2_edge\<^sup>+\<^sup>+ a b))
    \<and> (\<exists>es. events (w_db w') = events (w_db w) @ es
         \<and> (\<forall>e \<in> set es. erow_mission_id e = mid \<and> logged_ok e))"
  using keeps_result [OF keeps_advance [OF assms(1)] assms(2)] unfolding moves_def .

theorem lifecycle_v2_moves_along_table_witness:
  "\<exists>r w'. advance_mission_lifecycle_v2 sample_env ''m1'' (sample_world ''VERIFIED'') = (r, w')
     \<and> (\<exists>a b. Some ''VERIFIED'' = Some (state_value a)
          \<and> db_state (w_db w') ''m1'' = Some (state_value b) \<and> v2_edge\<^sup>+\<^sup>+ a b)"
proof -
  obtain r w' where run: "advance_mission_lifecycle_v2 sample_env ''m1'' (sample_world ''VERIFIED'') = (r, w')"
    "db_state (w_db w') ''m1'' = Some (state_value Complete)"
    by (rule sample_completes [of "sample_world ''VERIFIED''" "''m1''"]) (simp add: sample_state)
  from lifecycle_v2_moves_along_table [OF sample_env_ok run(1)] run show ?thesis
    by (simp add: sample_state)
qed



text \<open>C5. The driver never stops silently: a run over a mission in a resumable state that ends without
  an exception has either completed the mission or was refused by the guard of the very transition
  the mission was waiting for.\<close>

theorem lifecycle_v2_stops_with_reason:
  assumes "env_ok env mid" and "s \<in> set recoverable_lifecycle_states"
    and "db_state (w_db w) mid = Some (state_value s)"
    and "advance_mission_lifecycle_v2 env mid w = (Inr (), w')"
  shows "db_state (w_db w') mid = Some (state_value Complete)
    \<or> (\<exists>a b t w0. (a, b, t) \<in> set V2_TRANSITIONS \<and> db_state (w_db w0) mid = Some (state_value a)
        \<and> step_guard env mid a b w0 = (Inr False, w'))"
proof -
  obtain row where row: "row_of (w_db w) mid = Some row" "row_state row = state_value s"
    using assms(3) by (auto simp: db_state_def)
  obtain m where m: "fetch_mission (w_db w) mid = Inr (Some m)" "m_state m = s"
    by (rule fetch_ok [OF row])
  then have "run_transitions env mid (pending_transitions s) w = (Inr (), w')"
    using assms(4) advance_found by metis
  then show ?thesis
    by (rule run_stops [OF assms(1) pending_chain [OF assms(2)] pending_subset assms(3)])
qed

theorem lifecycle_v2_stops_with_reason_witness:
  "\<exists>env w'. env_ok env ''m1'' \<and> advance_mission_lifecycle_v2 env ''m1'' (sample_world ''VERIFIED'') = (Inr (), w')
     \<and> (db_state (w_db w') ''m1'' = Some ''COMPLETE''
        \<or> (\<exists>a b w0. db_state (w_db w0) ''m1'' = Some (state_value a)
             \<and> step_guard env ''m1'' a b w0 = (Inr False, w')))"
proof -
  let ?env = "sample_env\<lparr>e_completion_check := (\<lambda>_. ret (False, []))\<rparr>"
  have st: "db_state (w_db (sample_world ''VERIFIED'')) ''m1'' = Some (state_value Verified)"
    by (simp add: sample_state)
  obtain m w' where r: "fetch_mission (w_db (sample_world ''VERIFIED'')) ''m1'' = Inr (Some m)"
    "env_ok ?env ''m1''" "advance_verified_to_complete ?env ''m1'' (sample_world ''VERIFIED'') = (Inr False, w')"
    by (rule sample_refuses [OF st])
  obtain row where row: "row_of (w_db (sample_world ''VERIFIED'')) ''m1'' = Some row"
    "row_state row = state_value Verified" using st by (auto simp: db_state_def)
  have "m_state m = Verified" by (rule fetch_ok [OF row]) (use r(1) in simp)
  moreover have "pending_transitions Verified = [(Verified, Complete, ''MISSION_COMPLETE'')]" by code_simp
  ultimately have run: "advance_mission_lifecycle_v2 ?env ''m1'' (sample_world ''VERIFIED'') = (Inr (), w')"
    using r(3) by (simp add: advance_found [OF r(1)] lifecycle_step_def guard_verified bnd_def)
  have "Verified \<in> set recoverable_lifecycle_states" by code_simp
  from lifecycle_v2_stops_with_reason [OF r(2) this st run] r(2) run show ?thesis
    by (metis state_value.simps(13))
qed

text \<open>A refused completion is always visible: when the completion gates refuse a mission, its log
  gains a checkpoint in state VERIFIED whose event type names a blocked gate.\<close>

theorem completion_refusal_logged:
  assumes "env_ok env mid" and "fetch_mission (w_db w) mid = Inr (Some m)"
    and "advance_verified_to_complete env mid w = (Inr False, w')"
  shows "\<exists>es e. events (w_db w') = events (w_db w) @ es \<and> e \<in> set es \<and> erow_mission_id e = mid
    \<and> erow_new e = state_value Verified \<and> erow_type e \<in> set BLOCKED_EVENTS"
  using completion_gate_false [OF assms] unfolding refusal_logged_def .

theorem completion_refusal_logged_witness:
  "\<exists>env w' e. advance_verified_to_complete env ''m1'' (sample_world ''VERIFIED'') = (Inr False, w')
     \<and> e \<in> set (events (w_db w')) \<and> erow_type e \<in> set BLOCKED_EVENTS"
proof -
  let ?env = "sample_env\<lparr>e_completion_check := (\<lambda>_. ret (False, []))\<rparr>"
  obtain m w' where r: "fetch_mission (w_db (sample_world ''VERIFIED'')) ''m1'' = Inr (Some m)"
    "env_ok ?env ''m1''" "advance_verified_to_complete ?env ''m1'' (sample_world ''VERIFIED'') = (Inr False, w')"
    by (rule sample_refuses [of "sample_world ''VERIFIED''" "''m1''" Verified]) (simp_all add: sample_state)
  from completion_refusal_logged [OF r(2,1,3)] r(3) show ?thesis by (metis Un_iff set_append)
qed

text \<open>The Delta audit gate fails closed: with the event-driven control plane enabled a mission
  passes only on a consumed verdict that says it passed (no verdict, or a document that is not one,
  refuses), and with the flag off, missing or unreadable the gate is inert.\<close>

theorem delta_audit_gate_fails_closed:
  "fst (delta_audit_gate settings m) =
     (if setting_bool settings ''event_driven_control_plane_enabled'' False
      then \<exists>gate. dget (m_metadata m) ''delta_audit_gate'' = PDict gate \<and> truthy (dget gate ''passed'')
      else True)"
  by (auto simp: delta_audit_gate_def split: pyval.split)

text \<open>The clarification hold is real but undeclared: parking a queued mission moves it from QUEUED
  to CLARIFYING in one compare-and-swap, and that pair is not a transition of
  \<open>VALID_TRANSITIONS\<close>.\<close>

theorem clarification_hold_undeclared:
  assumes "row_of (w_db w) mid = Some row" and "row_state row = state_value Queued"
    and "park_for_clarification env mid md fc score n w = (r, w')"
  shows "r = Inr False \<and> db_state (w_db w') mid = Some (state_value Clarifying)
    \<and> Clarifying \<notin> set (VALID_TRANSITIONS Queued)"
proof -
  let ?md = "dset ''clarifying_questions'' (dget fc ''clarifying_questions'')
    (dset ''clarification_loop_count'' (PInt (n + 1)) (dset ''last_ambiguity_score'' score md))"
  obtain x w1 where sv: "save_metadata env mid ?md w = (Inr (Some x), w1)" by (rule save_ok [OF assms(1,2)])
  have "quiet mid w w1" using keeps_save sv by (rule keeps_result)
  then have st: "db_state (w_db w1) mid = Some (state_value Queued)"
    using assms(1,2) by (simp add: quiet_def db_state_def)
  obtain t w2 where tr: "transition env mid Queued Clarifying ''MISSION_CLARIFYING'' w1 = (t, w2)" by fastforce
  from tr obtain rec where rec: "t = Inr (Some rec)"
    "db_state (w_db w2) = (db_state (w_db w1))(mid \<mapsto> state_value Clarifying)"
    by (cases rule: transition_run) (use st in auto)
  obtain w3 where em: "emit_quietly env rec ''MISSION_CLARIFYING'' w2 = (Inr (), w3)"
    using emit_quietly_ok by blast
  have "quiet mid w2 w3" using keeps_emit_quietly em by (rule keeps_result)
  then have "db_state (w_db w3) mid = Some (state_value Clarifying)" using rec by (simp add: quiet_def)
  moreover have "r = Inr False" "w' = w3"
    using assms(3) sv tr rec em by (simp_all add: park_for_clarification_def bnd_def)
  ultimately show ?thesis by simp
qed

theorem clarification_hold_undeclared_witness:
  "\<exists>w'. park_for_clarification sample_env ''m1'' [] [] (PInt 1) 0 (sample_world ''QUEUED'') = (Inr False, w')
     \<and> db_state (w_db w') ''m1'' = Some ''CLARIFYING''"
proof -
  obtain r w' where run: "park_for_clarification sample_env ''m1'' [] [] (PInt 1) 0 (sample_world ''QUEUED'') = (r, w')"
    by fastforce
  have "row_of (w_db (sample_world ''QUEUED'')) ''m1'' = Some (sample_row\<lparr>row_state := ''QUEUED''\<rparr>)"
    by (simp add: sample_world_def sample_db_def row_of_def)
  from clarification_hold_undeclared [OF this _ run] run show ?thesis by simp
qed

end
