(* ===== verification/Work_Items.thy ===== *)
theory Work_Items
  imports Lifecycle_V2
begin

text \<open>
  Partition work items, \<open>_emit_partition_work_items\<close> of
  \<open>orchestrator/mission_flow_v2/phases_intake.py\<close>: the announcement of every partition of a scaled
  mission on the state stream, with the ids already announced kept in the metadata so that a retry
  after a failure announces only the rest. The lemmas relate the stream to the stored ids and show
  that no partition is announced twice, whatever fails in between.
\<close>

section \<open>What the stream announces\<close>

definition entry_partition :: "pydict \<Rightarrow> string" where
  "entry_partition entry =
     str_of (dget (dict_or_empty (dget (dict_or_empty (dget entry ''payload'')) ''partition'')) ''partition_id'')"

definition announced :: "string \<Rightarrow> pydict list \<Rightarrow> string list" where
  "announced mid stream =
     map entry_partition (filter (\<lambda>e. dget e ''event_type'' = PStr ''MISSION_PARTITION_READY''
        \<and> dget e ''mission_id'' = PStr mid) stream)"

definition stored_ids :: "mission_db \<Rightarrow> string \<Rightarrow> string list res" where
  "stored_ids db mid = (case row_of db mid of None \<Rightarrow> Inr [] | Some row \<Rightarrow> emitted_ids (row_metadata row))"

text \<open>The stored ids are exactly the announced ones, each once.\<close>

definition in_step :: "string \<Rightarrow> world \<Rightarrow> bool" where
  "in_step mid w \<longleftrightarrow> (\<exists>ids. stored_ids (w_db w) mid = Inr ids \<and> mset ids = mset (announced mid (w_stream w))
     \<and> distinct (announced mid (w_stream w)))"

lemma announced_entry [simp]:
  "announced (m_mission_id m) (s @ [partition_entry env m sp mg p v])
     = announced (m_mission_id m) s @ [wp_partition_id p]"
  by (simp add: announced_def entry_partition_def partition_entry_def WorkPartition_to_dict_def dget_def)

lemma announced_snoc:
  "dget e ''mission_id'' \<noteq> PStr mid \<Longrightarrow> announced mid (s @ [e]) = announced mid s"
  by (simp add: announced_def)

section \<open>The loop\<close>

lemma emit_partitions_spec:
  assumes "emit_partitions env m sp mg ps ids w = (r, w')" and "distinct ids"
  shows "w_db w' = w_db w
    \<and> (\<forall>fin ids'. r = Inr (fin, ids') \<longrightarrow> (\<exists>new. ids' = ids @ new \<and> distinct ids'
         \<and> announced (m_mission_id m) (w_stream w') = announced (m_mission_id m) (w_stream w) @ new
         \<and> (fin \<longrightarrow> wp_partition_id ` set ps \<subseteq> set ids')))
    \<and> (isl r \<longrightarrow> w' = w)"
  using assms
proof (induction ps arbitrary: ids w)
  case Nil
  then show ?case by auto
next
  case (Cons p ps)
  show ?case
  proof (cases "wp_partition_id p \<in> set ids")
    case True
    then have run: "emit_partitions env m sp mg ps ids w = (r, w')" using Cons.prems(1) by simp
    show ?thesis using Cons.IH [OF run Cons.prems(2)] True by auto
  next
    case False
    show ?thesis
    proof (cases "to_event_priority (e_default_priority env)")
      case (Inl e)
      with False Cons.prems(1) show ?thesis by auto
    next
      case (Inr pr)
      define v where "v = partition_envelope env m p pr w"
      define en where "en = partition_entry env m sp mg p v"
      show ?thesis
      proof (cases "e_validate env v \<and> e_xadd_ok env w en")
        case True
        let ?w = "w\<lparr>w_stream := w_stream w @ [en]\<rparr>"
        have run: "emit_partitions env m sp mg ps (ids @ [wp_partition_id p]) ?w = (r, w')"
          using Cons.prems(1) False Inr True by (simp add: v_def en_def Let_def)
        have no_error: "\<not> isl r"
        proof -
          have "\<not> isl (fst (emit_partitions env m sp mg qs js u))" for qs js u
            by (induction qs arbitrary: js u) (auto simp: Inr Let_def)
          then show ?thesis using run by (metis fst_conv)
        qed
        show ?thesis
          using Cons.IH [OF run] Cons.prems(2) False no_error
          by (fastforce simp: en_def)
      next
        case False
        then show ?thesis using Cons.prems(1,2) \<open>wp_partition_id p \<notin> set ids\<close> Inr
          by (auto simp: v_def en_def Let_def)
      qed
    qed
  qed
qed

section \<open>Saving the ids\<close>

definition flag_key :: string where "flag_key = ''scaling_partition_events_emitted''"

text \<open>The entries of a document that a metadata write keeps as given.\<close>

lemma dget_saved:
  assumes "k \<notin> {''project_id'', ''project_name'', ''vault'', ''delta_audit_gate''}"
  shows "dget (keep_delta_gate d (strip_vault (with_project_identity (PDict md) v))) k = dget md k"
  using assms by (simp add: keep_delta_gate_def dget_def strip_vault_frame VAULT_METADATA_KEY_def
      with_project_identity_frame)

lemma save_stream: "save_metadata env mid md w = (x, w') \<Longrightarrow> w_stream w' = w_stream w"
  by (auto simp: save_metadata_def on_db_def case_prod_beta)

lemma save_row:
  assumes "save_metadata env mid md w = (x, w')" and "row_of (w_db w) mid = Some row"
  obtains row' where "row_of (w_db w') mid = Some row'"
    and "row_metadata row' = keep_delta_gate (row_metadata row) (strip_vault (with_project_identity (PDict md) (PStr mid)))"
  using assms by (auto simp: save_metadata_def on_db_def update_mission_metadata_def row_of_def Let_def
      split: prod.splits)

lemma emitted_ids_cong:
  "dget d ''scaling_partition_emitted_ids'' = dget e ''scaling_partition_emitted_ids'' \<Longrightarrow>
   emitted_ids d = emitted_ids e"
  by (simp add: emitted_ids_def)

lemma emitted_ids_written:
  "dget d ''scaling_partition_emitted_ids'' = PList (map PStr xs) \<Longrightarrow> emitted_ids d = Inr (remdups xs)"
  by (auto simp: emitted_ids_def py_or_def list_all_iff o_def)

lemma chain_defaults_frame:
  assumes "k \<in> {''scaling_partition_emitted_ids'', ''scaling_partition_events_emitted'', ''scaling_decision''}"
  shows "dget (chain_defaults_of m) k = dget (m_metadata m) k"
  using assms by (auto simp: chain_defaults_of_def dget_def with_chain_defaults_frame)

lemma remdups_sort: "distinct (ids :: string list) \<Longrightarrow> remdups (sort ids) = sort ids"
  by (simp add: distinct_remdups_id)

section \<open>One attempt\<close>

text \<open>The world before an attempt, seen through the fetched record.\<close>

definition fresh :: "string \<Rightarrow> MissionRecord \<Rightarrow> world \<Rightarrow> bool" where
  "fresh mid m w \<longleftrightarrow> (\<exists>row. row_of (w_db w) mid = Some row \<and> m_metadata m = row_metadata row \<and> m_mission_id m = mid)"

lemma fetched_fresh:
  assumes "fetch_mission (w_db w) mid = Inr (Some m)"
  shows "fresh mid m w"
  using assms by (auto simp: fresh_def fetch_mission_def row_of_def row_to_mission_def Let_def rbind_Inr_iff
      split: option.splits)

lemma send_in_step:
  assumes step: "in_step mid w" and fresh: "fresh mid m w"
    and run: "send_work_items env m (chain_defaults_of m) d w = (r, w')"
  shows "in_step mid w' \<and> (r = Inr m' \<longrightarrow> \<not> truthy (dget (m_metadata m) flag_key) \<longrightarrow>
    truthy (dget (the (db_metadata (w_db w') mid)) flag_key) \<longrightarrow>
    wp_partition_id ` set (sd_partitions d) \<subseteq> set (announced mid (w_stream w')))"
proof -
  obtain row where row: "row_of (w_db w) mid = Some row" "m_metadata m = row_metadata row" "m_mission_id m = mid"
    using fresh by (auto simp: fresh_def)
  obtain ids where ids: "emitted_ids (row_metadata row) = Inr ids" "mset ids = mset (announced mid (w_stream w))"
    "distinct (announced mid (w_stream w))"
    using step row(1) by (auto simp: in_step_def stored_ids_def)
  have dist: "distinct ids" using ids by (metis mset_eq_imp_distinct_iff)
  have "emitted_ids (chain_defaults_of m) = Inr ids"
    using ids(1) row(2) emitted_ids_cong chain_defaults_frame by (metis insertI1)
  then obtain sp mg where run': "bnd (emit_partitions env m sp mg (sd_partitions d) ids) (\<lambda>(finished, ids).
       let count = PInt (int (length ids)); sorted_ids = PList (map PStr (sort ids)) in
       if finished
       then bnd (save_metadata env (m_mission_id m)
              (dset ''scaling_partition_emitted_ids'' sorted_ids
              (dset ''scaling_partition_event_count'' count
              (dset ''scaling_partition_events_emitted_at'' (PStr (e_stamp env))
              (dset ''scaling_partition_events_emitted'' (PBool True) (chain_defaults_of m))))))
            (\<lambda>updated. ret (or_else updated m))
       else bnd (save_metadata env (m_mission_id m)
              (dset ''scaling_partition_event_count'' count
              (dset ''scaling_partition_emitted_ids'' sorted_ids (chain_defaults_of m))))
            (\<lambda>_. ret m)) w = (r, w')"
    using run by (auto simp: send_work_items_def bnd_def)
  obtain r1 w1 where ep: "emit_partitions env m sp mg (sd_partitions d) ids w = (r1, w1)" by fastforce
  note spec = emit_partitions_spec [OF ep dist]
  show ?thesis
  proof (cases r1)
    case (Inl e)
    then have "r = Inl e" "w' = w" using run' ep spec by (auto simp: bnd_def)
    with step show ?thesis by simp
  next
    case (Inr p)
    obtain fin ids' where p: "p = (fin, ids')" by fastforce
    obtain new where new: "ids' = ids @ new" "distinct ids'"
      "announced mid (w_stream w1) = announced mid (w_stream w) @ new"
      "fin \<longrightarrow> wp_partition_id ` set (sd_partitions d) \<subseteq> set ids'"
      using spec Inr p row(3) by auto
    have row1: "row_of (w_db w1) mid = Some row" using spec row(1) by simp
    obtain md' x where sv: "save_metadata env mid md' w1 = (x, w')"
      and md': "dget md' ''scaling_partition_emitted_ids'' = PList (map PStr (sort ids'))"
      and flag: "dget md' flag_key = (if fin then PBool True else dget (m_metadata m) flag_key)"
    proof (cases fin)
      case True
      let ?md = "dset ''scaling_partition_emitted_ids'' (PList (map PStr (sort ids')))
              (dset ''scaling_partition_event_count'' (PInt (int (length ids')))
              (dset ''scaling_partition_events_emitted_at'' (PStr (e_stamp env))
              (dset ''scaling_partition_events_emitted'' (PBool True) (chain_defaults_of m))))"
      have "\<exists>x. save_metadata env mid ?md w1 = (x, w')"
        using run' ep Inr p True row(3) by (auto simp: bnd_def Let_def split: prod.splits sum.splits)
      then show thesis using True that by (auto simp: flag_key_def)
    next
      case False
      let ?md = "dset ''scaling_partition_event_count'' (PInt (int (length ids')))
              (dset ''scaling_partition_emitted_ids'' (PList (map PStr (sort ids'))) (chain_defaults_of m))"
      have "\<exists>x. save_metadata env mid ?md w1 = (x, w')"
        using run' ep Inr p False row(3) by (auto simp: bnd_def Let_def split: prod.splits sum.splits)
      then show thesis using False that by (auto simp: flag_key_def chain_defaults_frame)
    qed
    obtain row' where row': "row_of (w_db w') mid = Some row'"
      "row_metadata row' = keep_delta_gate (row_metadata row) (strip_vault (with_project_identity (PDict md') (PStr mid)))"
      by (rule save_row [OF sv row1])
    have "stored_ids (w_db w') mid = Inr (sort ids')"
      using md' new(2) emitted_ids_written [of "row_metadata row'" "sort ids'"]
      by (simp add: stored_ids_def row' dget_saved remdups_sort)
    moreover have str: "announced mid (w_stream w') = announced mid (w_stream w) @ new"
      using save_stream [OF sv] new(3) by simp
    moreover have "distinct (announced mid (w_stream w) @ new)"
      using new(1,2) ids(2) mset_eq_imp_distinct_iff by (metis mset_append)
    ultimately have "in_step mid w'" using ids(2) new(1) by (simp add: in_step_def)
    moreover have "set ids' = set (announced mid (w_stream w'))"
      using str new(1) ids(2) by (metis set_append mset_eq_setD)
    moreover have "dget (the (db_metadata (w_db w') mid)) flag_key = dget md' flag_key"
      by (simp add: db_metadata_def row' dget_saved flag_key_def)
    ultimately show ?thesis using new(4) flag by auto
  qed
qed

lemma attempt_cases:
  assumes "emit_partition_work_items env m w = (r, w')"
  obtains (idle) "w' = w"
  | (sent) d where "scaling_decision_from_metadata (e_stamp env) (chain_defaults_of m) = Inr (Some d)"
      "send_work_items env m (chain_defaults_of m) d w = (r, w')"
proof -
  have "w' = w \<or> (\<exists>d. scaling_decision_from_metadata (e_stamp env) (chain_defaults_of m) = Inr (Some d)
      \<and> send_work_items env m (chain_defaults_of m) d w = (r, w'))"
  proof (cases "scaling_decision_from_metadata (e_stamp env) (chain_defaults_of m)")
    case (Inl e)
    with assms show ?thesis by (simp add: emit_partition_work_items_def bnd_def)
  next
    case (Inr decision)
    with assms show ?thesis
      by (cases decision) (auto simp: emit_partition_work_items_def bnd_def Let_def split: if_splits)
  qed
  then show thesis using idle sent by blast
qed

text \<open>The decision does not depend on the chain defaults.\<close>

lemma decision_of_defaults:
  "scaling_decision_from_metadata t (chain_defaults_of m) = scaling_decision_from_metadata t (m_metadata m)"
  by (simp add: scaling_decision_from_metadata_def chain_defaults_frame)

text \<open>Any number of attempts, each under its own circumstances (which validations and writes to the
  stream succeed, whether Redis is up) and each reading the mission again.\<close>

fun attempts :: "string \<Rightarrow> (lifecycle_env \<times> bool) list \<Rightarrow> world \<Rightarrow> world" where
  "attempts mid [] w = w"
| "attempts mid ((env, redis_up) # tries) w =
     (let w = w\<lparr>w_redis_ready := redis_up\<rparr> in
      case fetch_mission (w_db w) mid of
        Inr (Some m) \<Rightarrow> attempts mid tries (snd (emit_partition_work_items env m w))
      | _ \<Rightarrow> attempts mid tries w)"

lemma in_step_redis [simp]: "in_step mid (w\<lparr>w_redis_ready := b\<rparr>) = in_step mid w"
  by (simp add: in_step_def)

lemma attempt_in_step:
  assumes "in_step mid w" and "fetch_mission (w_db w) mid = Inr (Some m)"
  shows "in_step mid (snd (emit_partition_work_items env m w))"
proof -
  obtain r w' where run: "emit_partition_work_items env m w = (r, w')" by fastforce
  then show ?thesis
    by (cases rule: attempt_cases) (use assms(1) send_in_step [OF assms(1) fetched_fresh [OF assms(2)]] run in auto)
qed

lemma attempts_in_step: "in_step mid w \<Longrightarrow> in_step mid (attempts mid tries w)"
proof (induction tries arbitrary: w)
  case (Cons t tries)
  obtain env up where t: "t = (env, up)" by fastforce
  show ?case
  proof (cases "\<exists>m. fetch_mission (w_db w) mid = Inr (Some m)")
    case True
    then obtain m where m: "fetch_mission (w_db (w\<lparr>w_redis_ready := up\<rparr>)) mid = Inr (Some m)" by auto
    have "in_step mid (snd (emit_partition_work_items env m (w\<lparr>w_redis_ready := up\<rparr>)))"
      by (rule attempt_in_step [OF _ m]) (simp add: Cons.prems)
    then show ?thesis using m t Cons.IH by simp
  next
    case False
    then have "attempts mid (t # tries) w = attempts mid tries (w\<lparr>w_redis_ready := up\<rparr>)"
      by (simp add: t Let_def split: sum.split option.split)
    then show ?thesis using Cons by simp
  qed
qed simp

section \<open>Properties\<close>



text \<open>The emission is complete when it says so: if an attempt sets the flag
  \<open>scaling_partition_events_emitted\<close>, every partition of the mission's scaling decision has been
  announced on the stream.\<close>

theorem emission_flag_sound:
  assumes "in_step mid w" and "fetch_mission (w_db w) mid = Inr (Some m)"
    and "emit_partition_work_items env m w = (Inr m', w')"
    and "\<not> truthy (dget (m_metadata m) ''scaling_partition_events_emitted'')"
    and "db_metadata (w_db w') mid = Some md" and "truthy (dget md ''scaling_partition_events_emitted'')"
  shows "\<exists>d. scaling_decision_from_metadata (e_stamp env) (m_metadata m) = Inr (Some d)
    \<and> wp_partition_id ` set (sd_partitions d) \<subseteq> set (announced mid (w_stream w'))"
  using assms(3)
proof (cases rule: attempt_cases)
  case idle
  obtain row where "row_of (w_db w) mid = Some row" "m_metadata m = row_metadata row"
    using fetched_fresh [OF assms(2)] by (auto simp: fresh_def)
  then have "md = m_metadata m" using assms(5) by (simp add: db_metadata_def \<open>w' = w\<close>)
  then show ?thesis using assms(4,6) by simp
next
  case (sent d)
  then have "wp_partition_id ` set (sd_partitions d) \<subseteq> set (announced mid (w_stream w'))"
    using send_in_step [OF assms(1) fetched_fresh [OF assms(2)] sent(2), of m'] assms(4-6)
    by (simp add: flag_key_def)
  then show ?thesis using sent(1) by (auto simp: decision_of_defaults)
qed

lemma emit_all:
  assumes "to_event_priority (e_default_priority env) = Inr pr" and "\<And>v. e_validate env v"
    and "\<And>u e. e_xadd_ok env u e"
  shows "\<exists>ids' w'. emit_partitions env m sp mg ps ids w = (Inr (True, ids'), w')"
  by (induction ps arbitrary: ids w) (auto simp: assms Let_def)

definition scaled_world :: world where
  "scaled_world = \<lparr>w_db = sample_db\<lparr>missions := [(''m1'', sample_row\<lparr>row_metadata :=
       embed_scaling_decision [] sample_decision\<rparr>)]\<rparr>, w_stream = [], w_redis_ready = True\<rparr>"

theorem emission_flag_sound_witness:
  "\<exists>w' :: world. \<exists>d. scaling_decision_from_metadata ''t9'' (embed_scaling_decision [] sample_decision) = Inr (Some d)
     \<and> wp_partition_id ` set (sd_partitions d) \<subseteq> set (announced ''m1'' (w_stream w'))"
proof -
  let ?row = "sample_row\<lparr>row_metadata := embed_scaling_decision [] sample_decision\<rparr>"
  have row: "row_of (w_db scaled_world) ''m1'' = Some ?row" "row_state ?row = state_value Running"
    by (simp_all add: scaled_world_def sample_db_def row_of_def sample_row_def)
  obtain m where m: "fetch_mission (w_db scaled_world) ''m1'' = Inr (Some m)"
    "m_metadata m = row_metadata ?row" "m_mission_id m = ''m1''"
    by (rule fetch_ok [OF row])
  have md: "m_metadata m = embed_scaling_decision [] sample_decision" using m(2) by simp
  have keys: "dget (m_metadata m) ''scaling_partition_emitted_ids'' = PNone"
    "dget (m_metadata m) ''scaling_partition_events_emitted'' = PNone"
    by (simp_all add: md embed_scaling_decision_def)
  have dec: "scaling_decision_from_metadata ''t9'' (m_metadata m) = Inr (Some sample_decision)"
  proof -
    have "sd_decided_at sample_decision \<noteq> []" by code_simp
    then show ?thesis
      by (simp add: md decision_roundtrip [OF dget_embed(1)] stamped_def)
  qed
  have env: "to_event_priority (e_default_priority sample_env) = Inr ''NORMAL''"
    "e_validate sample_env v" "e_xadd_ok sample_env u e" "e_stamp sample_env = ''t9''" for u v e
    by (simp_all add: sample_env_def) code_simp
  obtain ids' w1 where ep: "emit_partitions sample_env m
       (validate_agent_id (dget (chain_defaults_of m) ''assigned_specialist_agent_id'')
         (resolve_specialist_agent_id (m_requested_target_language m)))
       (validate_agent_id (dget (chain_defaults_of m) ''assigned_pod_manager_agent_id'')
         (resolve_pod_manager_agent_id (m_requested_target_language m)))
       (sd_partitions sample_decision) [] scaled_world = (Inr (True, ids'), w1)"
    using emit_all [OF env(1-3)] by blast
  have row1: "row_of (w_db w1) ''m1'' = Some ?row" using emit_partitions_spec [OF ep] row(1) by simp
  let ?md = "dset ''scaling_partition_emitted_ids'' (PList (map PStr (sort ids')))
     (dset ''scaling_partition_event_count'' (PInt (int (length ids')))
     (dset ''scaling_partition_events_emitted_at'' (PStr (e_stamp sample_env))
     (dset ''scaling_partition_events_emitted'' (PBool True) (chain_defaults_of m))))"
  obtain y w' where sv: "save_metadata sample_env ''m1'' ?md w1 = (Inr (Some y), w')"
    by (rule save_ok [OF row1 row(2)])
  have none: "emitted_ids (chain_defaults_of m) = Inr []"
    using keys(1) by (simp add: emitted_ids_def chain_defaults_frame py_or_def)
  have "send_work_items sample_env m (chain_defaults_of m) sample_decision scaled_world = (Inr y, w')"
    unfolding send_work_items_def Let_def none
    using ep sv m(3) by (simp add: bnd_def or_else_def)
  moreover have "1 < sd_instance_count sample_decision" by code_simp
  ultimately have run: "emit_partition_work_items sample_env m scaled_world = (Inr y, w')"
    using dec keys(2) by (simp add: emit_partition_work_items_def bnd_def Let_def env decision_of_defaults
        chain_defaults_frame scaled_world_def)
  obtain row' where row': "row_of (w_db w') ''m1'' = Some row'"
    "row_metadata row' = keep_delta_gate (row_metadata ?row) (strip_vault (with_project_identity (PDict ?md) (PStr ''m1'')))"
    by (rule save_row [OF sv row1])
  have step: "in_step ''m1'' scaled_world"
  proof -
    have "stored_ids (w_db scaled_world) ''m1'' = Inr []"
      using keys(1) md by (simp add: stored_ids_def row(1) emitted_ids_def py_or_def)
    moreover have "w_stream scaled_world = []" by (simp add: scaled_world_def)
    ultimately show ?thesis by (simp add: in_step_def announced_def)
  qed
  have after: "db_metadata (w_db w') ''m1'' = Some (row_metadata row')" by (simp add: db_metadata_def row')
  have set: "truthy (dget (row_metadata row') ''scaling_partition_events_emitted'')"
    unfolding row'(2) by (subst dget_saved) simp_all
  have unset: "\<not> truthy (dget (m_metadata m) ''scaling_partition_events_emitted'')" using keys(2) by simp
  have "\<exists>d. scaling_decision_from_metadata (e_stamp sample_env) (m_metadata m) = Inr (Some d)
     \<and> wp_partition_id ` set (sd_partitions d) \<subseteq> set (announced ''m1'' (w_stream w'))"
    by (rule emission_flag_sound [OF step m(1) run unset after set])
  then show ?thesis unfolding env(4) md by (rule exI [of _ w'])
qed

end
