(* ===== verification/Lifecycle_Tasks.thy ===== *)
theory Lifecycle_Tasks
  imports Mission_Storage
begin

text \<open>
  The lifecycle tasks of one orchestrator process: \<open>start_lifecycle_task\<close> of
  \<open>orchestrator/runtime.py\<close> and the recovery pass of \<open>orchestrator/lifecycle_recovery.py\<close>. The
  table \<open>app.state.lifecycle_tasks\<close> is \<open>tt_map\<close>; a task is a number, fresh for every
  \<open>asyncio.create_task\<close>. A task that ends is \<open>done()\<close> at once, but its done-callback
  \<open>_cleanup\<close> is only scheduled (\<open>call_soon\<close>) and runs later: such tasks are in
  \<open>tt_callbacks\<close>. The event loop runs one handle at a time, so the steps below interleave
  freely and each is atomic.
\<close>

section \<open>Definitions\<close>

record task_table =
  tt_next :: nat
  tt_running :: "(nat \<times> string) list"
  tt_callbacks :: "(nat \<times> string) list"
  tt_map :: "nat dict"

definition no_tasks :: task_table where
  "no_tasks = \<lparr>tt_next = 0, tt_running = [], tt_callbacks = [], tt_map = []\<rparr>"

text \<open>\<open>task is not None and not task.done()\<close> for the task the table has for a mission.\<close>

definition task_active :: "task_table \<Rightarrow> string \<Rightarrow> bool" where
  "task_active t mid = (case map_of (tt_map t) mid of
     None \<Rightarrow> False
   | Some k \<Rightarrow> (k, mid) \<in> set (tt_running t))"

definition start_lifecycle_task :: "bool \<Rightarrow> string \<Rightarrow> task_table \<Rightarrow> task_table" where
  "start_lifecycle_task auto_transition_enabled mid t =
     (if \<not> auto_transition_enabled then t
      else if task_active t mid then t
      else t\<lparr>tt_next := tt_next t + 1, tt_running := tt_running t @ [(tt_next t, mid)],
             tt_map := dset mid (tt_next t) (tt_map t)\<rparr>)"

text \<open>The task returns or raises: it is done, and its callback is scheduled.\<close>

definition task_ends :: "nat \<times> string \<Rightarrow> task_table \<Rightarrow> task_table" where
  "task_ends k t = t\<lparr>tt_running := removeAll k (tt_running t), tt_callbacks := tt_callbacks t @ [k]\<rparr>"

text \<open>\<open>_cleanup\<close> pops the mission's entry, whatever task it holds.\<close>

definition cleanup :: "nat \<times> string \<Rightarrow> task_table \<Rightarrow> task_table" where
  "cleanup k t = t\<lparr>tt_callbacks := removeAll k (tt_callbacks t), tt_map := ddel (snd k) (tt_map t)\<rparr>"

datatype task_step = Start string | Ends "nat \<times> string" | Cleanup "nat \<times> string"

inductive task_run :: "bool \<Rightarrow> task_step list \<Rightarrow> task_table \<Rightarrow> task_table \<Rightarrow> bool" for auto where
  run_none: "task_run auto [] t t"
| run_start: "task_run auto steps (start_lifecycle_task auto mid t) t' \<Longrightarrow>
    task_run auto (Start mid # steps) t t'"
| run_ends: "k \<in> set (tt_running t) \<Longrightarrow> task_run auto steps (task_ends k t) t' \<Longrightarrow>
    task_run auto (Ends k # steps) t t'"
| run_cleanup: "k \<in> set (tt_callbacks t) \<Longrightarrow> task_run auto steps (cleanup k t) t' \<Longrightarrow>
    task_run auto (Cleanup k # steps) t t'"

inductive_cases task_run_NilE: "task_run auto [] t t'"
inductive_cases task_run_StartE: "task_run auto (Start mid # steps) t t'"
inductive_cases task_run_EndsE: "task_run auto (Ends k # steps) t t'"
inductive_cases task_run_CleanupE: "task_run auto (Cleanup k # steps) t t'"

lemmas task_run_elims = task_run_NilE task_run_StartE task_run_EndsE task_run_CleanupE

text \<open>The tasks at work on a mission.\<close>

definition tasks_of :: "task_table \<Rightarrow> string \<Rightarrow> (nat \<times> string) list" where
  "tasks_of t mid = filter (\<lambda>k. snd k = mid) (tt_running t)"

text \<open>No start of a mission falls between the end of one of its tasks and that task's callback.\<close>

fun prompt_cleanup :: "task_step list \<Rightarrow> string list \<Rightarrow> bool" where
  "prompt_cleanup [] waiting = True"
| "prompt_cleanup (Start mid # steps) waiting = (mid \<notin> set waiting \<and> prompt_cleanup steps waiting)"
| "prompt_cleanup (Ends k # steps) waiting = prompt_cleanup steps (snd k # waiting)"
| "prompt_cleanup (Cleanup k # steps) waiting = prompt_cleanup steps (remove1 (snd k) waiting)"

subsection \<open>Recovery at startup\<close>

text \<open>The loop of \<open>_recover_inflight_lifecycle_tasks\<close> over the missions found, with its counter.\<close>

fun recover_missions :: "bool \<Rightarrow> MissionRecord list \<Rightarrow> task_table \<Rightarrow> int \<Rightarrow> task_table \<times> int" where
  "recover_missions auto [] t recovered = (t, recovered)"
| "recover_missions auto (m # ms) t recovered =
     (if task_active t (m_mission_id m) then recover_missions auto ms t recovered
      else recover_missions auto ms (start_lifecycle_task auto (m_mission_id m) t) (recovered + 1))"

record recovery_state =
  rs_bootstrapped :: bool
  rs_recovered :: int
  rs_scanned :: int
  rs_last_error :: "string option"

definition LIFECYCLE_RECOVERY_MAX_MISSIONS :: "int \<Rightarrow> int" where
  "LIFECYCLE_RECOVERY_MAX_MISSIONS configured = max 100 configured"

definition recover_inflight_lifecycle_tasks ::
  "bool \<Rightarrow> bool \<Rightarrow> bool \<Rightarrow> int \<Rightarrow> mission_db \<Rightarrow> task_table \<times> recovery_state
     \<Rightarrow> bool res \<times> task_table \<times> recovery_state" where
  "recover_inflight_lifecycle_tasks auto db_ready protocol_ready max_missions db = (\<lambda>(t, s).
     if \<not> auto
     then (Inr True, t, s\<lparr>rs_bootstrapped := True, rs_recovered := 0, rs_scanned := 0, rs_last_error := None\<rparr>)
     else if \<not> db_ready then (Inr False, t, s\<lparr>rs_last_error := Some ''database unavailable''\<rparr>)
     else if \<not> protocol_ready then (Inr False, t, s\<lparr>rs_last_error := Some ''protocol unavailable''\<rparr>)
     else case list_missions_in_states db recoverable_lifecycle_states max_missions of
            Inl e \<Rightarrow> (Inl e, t, s)
          | Inr ms \<Rightarrow>
              let (t', recovered) = recover_missions auto ms t 0
              in (Inr True, t', s\<lparr>rs_bootstrapped := True, rs_recovered := recovered,
                    rs_scanned := int (length ms), rs_last_error := None\<rparr>))"

section \<open>Lemmas\<close>

lemma task_active_started: "auto \<Longrightarrow> task_active (start_lifecycle_task auto mid t) mid"
  by (simp add: start_lifecycle_task_def task_active_def)

lemma task_active_start: "task_active t mid \<Longrightarrow> task_active (start_lifecycle_task auto mid' t) mid"
  by (auto simp: start_lifecycle_task_def task_active_def split: option.splits)

lemma running_start: "set (tt_running t) \<subseteq> set (tt_running (start_lifecycle_task auto mid t))"
  by (auto simp: start_lifecycle_task_def)

text \<open>With prompt clean-up the table is exact: it names every running task, and a mission that waits
  for a callback has none.\<close>

definition table_exact :: "task_table \<Rightarrow> string list \<Rightarrow> bool" where
  "table_exact t waiting \<longleftrightarrow>
     (\<forall>k \<in> set (tt_running t). map_of (tt_map t) (snd k) = Some (fst k) \<and> snd k \<notin> set waiting)
     \<and> snd ` set (tt_callbacks t) = set waiting \<and> distinct waiting
     \<and> distinct (map snd (tt_callbacks t)) \<and> distinct (tt_running t)
     \<and> (\<forall>k \<in> set (tt_running t). fst k < tt_next t)"

lemma table_exact_unique:
  assumes "table_exact t waiting" and "k \<in> set (tt_running t)" and "k' \<in> set (tt_running t)" and "snd k = snd k'"
  shows "k = k'"
  using assms by (metis option.inject prod.expand table_exact_def)

lemma table_exact_start:
  assumes "table_exact t waiting" and "mid \<notin> set waiting"
  shows "table_exact (start_lifecycle_task auto mid t) waiting"
proof -
  have "k \<in> set (tt_running t) \<Longrightarrow> \<not> task_active t mid \<Longrightarrow> snd k \<noteq> mid" for k
    using assms(1) by (cases k) (auto simp: table_exact_def task_active_def)
  then show ?thesis
    using assms unfolding table_exact_def start_lifecycle_task_def by (auto dest: less_SucI)
qed

lemma table_exact_ends:
  assumes "table_exact t waiting" and "k \<in> set (tt_running t)"
  shows "table_exact (task_ends k t) (snd k # waiting)"
proof -
  have other: "snd k' \<noteq> snd k" if "k' \<in> set (tt_running t)" "k' \<noteq> k" for k'
    using table_exact_unique [OF assms(1)] assms(2) that by blast
  from assms have free: "snd k \<notin> set waiting" "snd k \<notin> snd ` set (tt_callbacks t)"
    by (auto simp: table_exact_def)
  then have "distinct (map snd (tt_callbacks t @ [k]))"
    using assms(1) by (auto simp: table_exact_def)
  moreover have "distinct (removeAll k (tt_running t))"
    using assms(1) by (auto simp: table_exact_def distinct_removeAll)
  moreover have "\<forall>k' \<in> set (removeAll k (tt_running t)).
      map_of (tt_map t) (snd k') = Some (fst k') \<and> snd k' \<notin> set (snd k # waiting) \<and> fst k' < tt_next t"
    using assms(1) other by (auto simp: table_exact_def)
  moreover have "snd ` set (tt_callbacks t @ [k]) = set (snd k # waiting)" "distinct (snd k # waiting)"
    using assms(1) free by (auto simp: table_exact_def)
  ultimately show ?thesis
    unfolding table_exact_def task_ends_def by simp
qed

lemma table_exact_cleanup:
  assumes "table_exact t waiting" and "k \<in> set (tt_callbacks t)"
  shows "table_exact (cleanup k t) (remove1 (snd k) waiting)"
proof -
  have inj: "inj_on snd (set (tt_callbacks t))"
    using assms(1) by (simp add: table_exact_def distinct_map)
  have "snd ` (set (tt_callbacks t) - {k}) = snd ` set (tt_callbacks t) - {snd k}"
    using inj assms(2) by (auto dest: inj_onD)
  moreover have "distinct (map snd (removeAll k (tt_callbacks t)))"
    using assms(1) inj by (auto simp: table_exact_def distinct_map distinct_removeAll intro: inj_on_subset)
  moreover have "set (remove1 (snd k) waiting) = set waiting - {snd k}"
    using assms(1) by (simp add: table_exact_def)
  moreover have "snd k' \<noteq> snd k" if "k' \<in> set (tt_running t)" for k'
    using assms that by (auto simp: table_exact_def)
  ultimately show ?thesis
    using assms(1) unfolding table_exact_def cleanup_def by simp
qed

lemma table_exact_run:
  "task_run auto steps t t' \<Longrightarrow> table_exact t waiting \<Longrightarrow> prompt_cleanup steps waiting \<Longrightarrow>
     \<exists>waiting'. table_exact t' waiting'"
proof (induction arbitrary: waiting rule: task_run.induct)
  case (run_start steps mid t t')
  then show ?case by (auto dest: table_exact_start [of t waiting mid auto])
next
  case (run_ends k t steps t')
  then show ?case by (auto dest: table_exact_ends)
next
  case (run_cleanup k t steps t')
  then show ?case by (auto dest: table_exact_cleanup)
qed auto

lemma table_exact_empty: "table_exact no_tasks []"
  by (simp add: table_exact_def no_tasks_def)

lemma at_most_one:
  assumes "distinct xs" and "\<And>x y. x \<in> set xs \<Longrightarrow> y \<in> set xs \<Longrightarrow> x = y"
  shows "length xs \<le> 1"
proof (cases xs)
  case (Cons x ys)
  have "y \<notin> set ys" for y
    using assms(1) assms(2) [of x y] Cons by auto
  then have "ys = []" by (cases ys) auto
  with Cons show ?thesis by simp
qed simp

lemma recover_missions_spec:
  assumes "recover_missions True ms t n = (t', r)"
  shows "(\<forall>mid. task_active t mid \<longrightarrow> task_active t' mid) \<and> (\<forall>m \<in> set ms. task_active t' (m_mission_id m))
    \<and> set (tt_running t) \<subseteq> set (tt_running t')
    \<and> int (length (tt_running t')) = int (length (tt_running t)) + (r - n)
    \<and> r - n \<le> int (length ms)"
  using assms
proof (induction ms arbitrary: t n)
  case (Cons m ms)
  let ?t = "start_lifecycle_task True (m_mission_id m) t"
  show ?case
  proof (cases "task_active t (m_mission_id m)")
    case True
    with Cons.prems have "recover_missions True ms t n = (t', r)" by simp
    from Cons.IH [OF this] True show ?thesis by auto
  next
    case False
    with Cons.prems have "recover_missions True ms ?t (n + 1) = (t', r)" by simp
    from Cons.IH [OF this] have ih: "\<forall>mid. task_active ?t mid \<longrightarrow> task_active t' mid"
      "\<forall>m \<in> set ms. task_active t' (m_mission_id m)" "set (tt_running ?t) \<subseteq> set (tt_running t')"
      "int (length (tt_running t')) = int (length (tt_running ?t)) + (r - (n + 1))"
      "r - (n + 1) \<le> int (length ms)" by blast+
    have "length (tt_running ?t) = length (tt_running t) + 1"
      using False by (simp add: start_lifecycle_task_def)
    moreover have "\<forall>mid. task_active t mid \<longrightarrow> task_active t' mid"
      using ih(1) by (simp add: task_active_start)
    moreover have "task_active t' (m_mission_id m)" using ih(1) by (simp add: task_active_started)
    moreover have "set (tt_running t) \<subseteq> set (tt_running t')"
      using running_start ih(3) by (rule subset_trans)
    ultimately show ?thesis using ih by auto
  qed
qed simp

section \<open>Properties\<close>

text \<open>At most one lifecycle task works on a mission at any time, and the table finds it, as long as no
  start of the mission falls between the end of its task and the callback that task scheduled.\<close>

theorem lifecycle_task_unique:
  assumes "task_run auto steps no_tasks t" and "prompt_cleanup steps []"
  shows "length (tasks_of t mid) \<le> 1 \<and> (task_active t mid = (tasks_of t mid \<noteq> []))"
proof -
  obtain waiting where ex: "table_exact t waiting"
    using table_exact_run [OF assms(1) table_exact_empty assms(2)] by blast
  have "length (tasks_of t mid) \<le> 1"
    by (rule at_most_one) (use ex table_exact_unique [OF ex] in \<open>auto simp: tasks_of_def table_exact_def\<close>)
  moreover have "task_active t mid = (tasks_of t mid \<noteq> [])"
    using ex by (fastforce simp: tasks_of_def table_exact_def task_active_def filter_empty_conv
        split: option.splits)
  ultimately show ?thesis by blast
qed

theorem lifecycle_task_unique_witness:
  "\<exists>t. task_run True [Start ''m1'', Ends (0, ''m1''), Cleanup (0, ''m1''), Start ''m1''] no_tasks t
     \<and> length (tasks_of t ''m1'') \<le> 1"
proof -
  let ?t = "cleanup (0, ''m1'') (task_ends (0, ''m1'') (start_lifecycle_task True ''m1'' no_tasks))"
  have run: "task_run True [Start ''m1'', Ends (0, ''m1''), Cleanup (0, ''m1''), Start ''m1''] no_tasks
      (start_lifecycle_task True ''m1'' ?t)"
    by (intro task_run.intros) (simp_all add: start_lifecycle_task_def task_active_def no_tasks_def task_ends_def)
  have "length (tasks_of (start_lifecycle_task True ''m1'' ?t) ''m1'') \<le> 1"
    using lifecycle_task_unique [OF run, of "''m1''"] by simp
  with run show ?thesis by blast
qed

text \<open>Without that proviso the table loses a live task: when a mission is started again before the
  callback of its finished task has run, the callback removes the new task's entry, and the next
  start puts a second task to work on the same mission.\<close>

theorem lifecycle_task_race:
  "\<exists>t. task_run True [Start mid, Ends (0, mid), Start mid, Cleanup (0, mid), Start mid] no_tasks t
     \<and> tasks_of t mid = [(1, mid), (2, mid)]"
proof -
  let ?t1 = "task_ends (0, mid) (start_lifecycle_task True mid no_tasks)"
  let ?t2 = "cleanup (0, mid) (start_lifecycle_task True mid ?t1)"
  have "task_run True [Start mid, Ends (0, mid), Start mid, Cleanup (0, mid), Start mid] no_tasks
      (start_lifecycle_task True mid ?t2)"
    by (intro task_run.intros)
      (simp_all add: start_lifecycle_task_def task_active_def no_tasks_def task_ends_def dset_def)
  moreover have "tasks_of (start_lifecycle_task True mid ?t2) mid = [(1, mid), (2, mid)]"
    by (simp add: start_lifecycle_task_def task_active_def no_tasks_def task_ends_def cleanup_def
        tasks_of_def dset_def ddel_def)
  ultimately show ?thesis by blast
qed

text \<open>Recovery at startup leaves no mission behind: when it succeeds, every stored mission in a
  recoverable state has a lifecycle task (if the limit covers them), tasks that ran still run, and
  the reported count is the number of tasks it started, at most one per mission scanned.\<close>

theorem recovery_complete:
  assumes "recover_inflight_lifecycle_tasks True db_ready protocol_ready max_missions db (t, s) = (Inr True, t', s')"
    and "row_of db mid = Some row" and "row_state row \<in> state_value ` set recoverable_lifecycle_states"
    and "int (length (filter (\<lambda>(mid, row). row_state row \<in> state_value ` set recoverable_lifecycle_states)
           (missions db))) \<le> max_missions"
  shows "task_active t' mid \<and> set (tt_running t) \<subseteq> set (tt_running t')
    \<and> int (length (tt_running t')) = int (length (tt_running t)) + rs_recovered s'
    \<and> rs_recovered s' \<le> rs_scanned s' \<and> rs_bootstrapped s'"
proof -
  let ?rec = "\<lambda>(mid :: string, row). row_state row \<in> state_value ` set recoverable_lifecycle_states"
  let ?rows = "take (nat (max 1 max_missions)) (sort_key (\<lambda>(mid, row). row_created_at row) (filter ?rec (missions db)))"
  obtain ms where ms: "list_missions_in_states db recoverable_lifecycle_states max_missions = Inr ms"
    and rm: "recover_missions True ms t 0 = (t', rs_recovered s')"
    and s': "rs_scanned s' = int (length ms)" "rs_bootstrapped s'"
    using assms(1) by (auto simp: recover_inflight_lifecycle_tasks_def case_prod_beta
        split: if_splits sum.splits)
  have nonempty: "recoverable_lifecycle_states \<noteq> []" by code_simp
  have rows: "rmap (\<lambda>(mid, row). row_to_mission mid row) ?rows = Inr ms"
    using ms nonempty by (simp add: list_missions_in_states_def Let_def)
  have "(mid, row) \<in> set (filter ?rec (missions db))"
    using assms(2,3) by (auto simp: row_of_def dest: map_of_SomeD)
  moreover have "?rows = sort_key (\<lambda>(mid, row). row_created_at row) (filter ?rec (missions db))"
  proof (rule take_all)
    have "length (filter ?rec (missions db)) \<le> nat (max 1 max_missions)" using assms(4) by linarith
    then show "length (sort_key (\<lambda>(mid, row). row_created_at row) (filter ?rec (missions db)))
        \<le> nat (max 1 max_missions)" by (simp only: length_sort)
  qed
  ultimately have "(mid, row) \<in> set ?rows" by simp
  from rmap_nth_ok [OF rows this] obtain m where "m \<in> set ms" "m_mission_id m = mid"
    by (auto dest: row_to_mission_id)
  then show ?thesis using recover_missions_spec [OF rm] s' by auto
qed

theorem recovery_complete_witness:
  "\<exists>t' s'. recover_inflight_lifecycle_tasks True True True 100 sample_db
       (no_tasks, \<lparr>rs_bootstrapped = False, rs_recovered = 0, rs_scanned = 0, rs_last_error = None\<rparr>)
       = (Inr True, t', s') \<and> task_active t' ''m1''"
proof -
  let ?s = "\<lparr>rs_bootstrapped = False, rs_recovered = 0, rs_scanned = 0, rs_last_error = None\<rparr>"
  let ?r = "recover_inflight_lifecycle_tasks True True True 100 sample_db (no_tasks, ?s)"
  have ok: "fst ?r = Inr True" by code_simp
  obtain r t' s' where r: "?r = (r, t', s')" by (metis prod.collapse)
  have r': "?r = (Inr True, t', s')" using ok r by simp
  have "row_of sample_db ''m1'' = Some sample_row" by code_simp
  moreover have "row_state sample_row \<in> state_value ` set recoverable_lifecycle_states" by code_simp
  moreover have "int (length (filter (\<lambda>(mid, row). row_state row \<in> state_value ` set recoverable_lifecycle_states)
      (missions sample_db))) \<le> 100" by code_simp
  ultimately show ?thesis using recovery_complete [OF r'] r' by blast
qed

end
