(* ===== verification/Intake.thy ===== *)
theory Intake
  imports Lifecycle_V2 Lifecycle_Tasks
begin

text \<open>
  The intake consumer, \<open>consume_intake_stream\<close> of \<open>orchestrator/runtime.py\<close> with the envelope
  parser of \<open>orchestrator/protocol.py\<close>, and \<open>migrate_legacy_vaults\<close>. Entries are delivered in
  batches, any number of times each: what is delivered is an input, so the theorems hold for every
  behaviour of the consumer group. Every call of PostgreSQL or Redis may fail before or after it
  took effect; each round has its own \<open>outages\<close>. \<open>intake_world\<close> holds the database,
  state stream and readiness flag (\<open>iw_world\<close>), the vault store, the dead letters, the lifecycle
  tasks and the ids acknowledged.
\<close>

section \<open>World and environment\<close>

record intake_world =
  iw_world :: world
  iw_redis :: redis
  iw_dead :: "pydict list"
  iw_tasks :: task_table
  iw_acked :: "string list"

type_synonym 'a iprog = "(intake_world, 'a) prog"

type_synonym fields = "string dict"

datatype service_call = FetchCall | PersistCall | DeadLetterCall | AckCall

type_synonym outages = "service_call \<Rightarrow> string \<Rightarrow> call_outcome"

record intake_env =
  ie_env :: lifecycle_env
  ie_auto_transition :: bool
  ie_intake_topic :: string
  ie_topics :: "string list"
  ie_schema_ok :: "pydict \<Rightarrow> bool"
  ie_date_ok :: "string \<Rightarrow> bool"
  ie_dumps :: "pyval \<Rightarrow> string"
  ie_loads :: "string \<Rightarrow> pyval option"
  ie_datetime :: "pyval \<Rightarrow> int option"
  ie_vault_up :: "string \<Rightarrow> bool"
  ie_error_text :: "exc \<Rightarrow> string"
  ie_uuid :: "string \<Rightarrow> string"

definition in_world :: "'a wprog \<Rightarrow> 'a iprog" where
  "in_world m = (\<lambda>w. let (r, v) = m (iw_world w) in (r, w\<lparr>iw_world := v\<rparr>))"

section \<open>Parsing an entry\<close>

definition fget :: "fields \<Rightarrow> string \<Rightarrow> string \<Rightarrow> string" where
  "fget fs k d = (case map_of fs k of None \<Rightarrow> d | Some v \<Rightarrow> v)"

definition fallback_envelope :: "intake_env \<Rightarrow> string \<Rightarrow> fields \<Rightarrow> pydict \<Rightarrow> pydict res" where
  "fallback_envelope env eid fs payload =
     (let mission_id = py_str (dget_or payload ''mission_id'' (PStr []));
          created_at = py_str (py_or (dget payload ''created_at'') (PStr (e_stamp (ie_env env))));
          raw_priority = fget fs ''priority'' []
      in if mission_id = [] then Inl ProtocolValidationError
         else rbind (to_event_priority (if raw_priority = [] then e_default_priority (ie_env env) else raw_priority))
           (\<lambda>priority.
             let envelope =
               [(''event_id'', PStr (''evt-'' @ ie_uuid env eid)), (''topic'', PStr (ie_intake_topic env)),
                (''timestamp'', PStr created_at), (''producer'', PStr (fget fs ''producer'' ''api-gateway'')),
                (''correlation_id'', PStr mission_id),
                (''payload_ref'', PStr (fget fs ''payload_ref'' (''registry://missions/'' @ mission_id @ ''/intake''))),
                (''schema'', PStr (fget fs ''schema'' ''missions.intake.v1'')), (''priority'', PStr priority)];
                 envelope = (if fget fs ''traceparent'' [] = [] then envelope
                             else dset ''traceparent'' (PStr (fget fs ''traceparent'' [])) envelope)
             in Inr (if fget fs ''tracestate'' [] = [] then envelope
                     else dset ''tracestate'' (PStr (fget fs ''tracestate'' [])) envelope)))"

text \<open>The schema wants an object, so an envelope of another type is refused.\<close>

definition parse_intake_envelope :: "intake_env \<Rightarrow> string \<Rightarrow> fields \<Rightarrow> pyval \<Rightarrow> pydict res" where
  "parse_intake_envelope env eid fs payload =
     (let raw = fget fs ''envelope'' [] in
      rbind (if raw \<noteq> []
             then (case ie_loads env raw of
                     None \<Rightarrow> Inl ValueError
                   | Some (PDict e) \<Rightarrow> Inr e
                   | Some _ \<Rightarrow> Inl ProtocolValidationError)
             else (case payload of
                     PDict p \<Rightarrow> fallback_envelope env eid fs p
                   | _ \<Rightarrow> Inl AttributeError)) (\<lambda>envelope.
      rbind (validate_envelope (ie_schema_ok env) (ie_date_ok env) (ie_topics env) envelope) (\<lambda>_.
        Inr envelope)))"

text \<open>\<open>MissionRecord(...)\<close> of the intake: pydantic takes text where the model says \<open>str\<close> and parses
  the instant.\<close>

definition intake_record :: "intake_env \<Rightarrow> pydict \<Rightarrow> pyval \<Rightarrow> pyval \<Rightarrow> pydict \<Rightarrow> MissionRecord res" where
  "intake_record env payload mission_id prompt md =
     (let language = dget payload ''requested_target_language'';
          created = py_or (dget payload ''created_at'') (PStr (e_stamp (ie_env env)))
      in case (mission_id, prompt, ie_datetime env created) of
           (PStr mid, PStr pr, Some created_at) \<Rightarrow>
             if language = PNone \<or> is_str language
             then Inr \<lparr>m_mission_id = mid, m_prompt = pr,
                    m_requested_target_language = (if is_str language then Some (str_of language) else None),
                    m_mission_type = None, m_depth_mode = None, m_output_mode = None,
                    m_data_classification = None, m_metadata = md, m_project_id = None,
                    m_lifecycle_engine = None, m_state = Queued, m_created_at = created_at\<rparr>
             else Inl ValidationError
         | _ \<Rightarrow> Inl ValidationError)"

section \<open>Handling an entry\<close>

definition getitem :: "pydict \<Rightarrow> string \<Rightarrow> pyval res" where
  "getitem d k = (case map_of d k of None \<Rightarrow> Inl KeyError | Some v \<Rightarrow> Inr v)"

definition store_intake_vault :: "intake_env \<Rightarrow> string \<Rightarrow> pyval \<Rightarrow> string dict \<Rightarrow> unit iprog" where
  "store_intake_vault env eid mission_id vault = (\<lambda>w.
     (Inr (), w\<lparr>iw_redis := the (snd (store_vault (ie_dumps env) (ie_vault_up env eid) (Some (iw_redis w))
        (py_str mission_id) vault))\<rparr>))"

text \<open>A mission id that is not text equals no stored id: \<open>None\<close> finds nothing and the database
  rejects a comparison of text with any other type.\<close>

definition fetch_intake :: "outages \<Rightarrow> string \<Rightarrow> pyval \<Rightarrow> MissionRecord option iprog" where
  "fetch_intake orc eid mission_id =
     service (orc FetchCall eid)
       (case mission_id of
          PStr mid \<Rightarrow> in_world (fetch mid)
        | PNone \<Rightarrow> ret None
        | _ \<Rightarrow> lift_res (Inl ServiceError))"

definition start_task :: "intake_env \<Rightarrow> string \<Rightarrow> unit iprog" where
  "start_task env mid = (\<lambda>w.
     (Inr (), w\<lparr>iw_tasks := start_lifecycle_task (ie_auto_transition env) mid (iw_tasks w)\<rparr>))"

definition persist_intake :: "intake_env \<Rightarrow> MissionRecord \<Rightarrow> string \<Rightarrow> bool wprog" where
  "persist_intake env mission eid =
     on_db (\<lambda>db. let (created, db) = persist_intake_mission (e_engine (ie_env env)) (e_now (ie_env env)) mission eid db
                 in (Inr created, db))"

definition create_from_intake ::
  "intake_env \<Rightarrow> outages \<Rightarrow> string \<Rightarrow> pydict \<Rightarrow> pyval \<Rightarrow> pydict \<Rightarrow> unit iprog" where
  "create_from_intake env orc eid payload mission_id md =
     bnd (lift_res (getitem payload ''prompt'')) (\<lambda>prompt.
     bnd (lift_res (intake_record env payload mission_id prompt md)) (\<lambda>mission.
     bnd (service (orc PersistCall eid) (in_world (persist_intake env mission eid))) (\<lambda>created.
     bnd (if created then in_world (attempt (emit_state_event (ie_env env) mission ''MISSION_QUEUED'') ())
          else ret ()) (\<lambda>_.
     start_task env (m_mission_id mission)))))"

text \<open>The body of the \<open>try\<close>: it returns when the entry is to be acknowledged.\<close>

definition intake_body :: "intake_env \<Rightarrow> outages \<Rightarrow> string \<Rightarrow> fields \<Rightarrow> unit iprog" where
  "intake_body env orc eid fs =
     bnd (lift_res (case ie_loads env (fget fs ''payload'' ''{}'') of
            None \<Rightarrow> Inl ValueError | Some v \<Rightarrow> Inr v)) (\<lambda>payload_json.
     bnd (lift_res (parse_intake_envelope env eid fs payload_json)) (\<lambda>_.
     case payload_json of
       PDict payload \<Rightarrow>
         (let (md, vault) = split_vault (PDict (dict_or_empty (dget payload ''metadata''))) in
          bnd (lift_res (getitem payload ''mission_id'')) (\<lambda>mission_id.
          bnd (store_intake_vault env eid mission_id vault) (\<lambda>_.
          bnd (fetch_intake orc eid mission_id) (\<lambda>found.
          case found of
            Some existing \<Rightarrow>
              if m_state existing = Queued then start_task env (m_mission_id existing) else ret ()
          | None \<Rightarrow> create_from_intake env orc eid payload mission_id md))))
     | _ \<Rightarrow> lift_res (Inl AttributeError)))"

text \<open>The exceptions that send an entry to the dead-letter stream.\<close>

fun discarded :: "exc \<Rightarrow> bool" where
  "discarded ValueError = True"
| "discarded ValidationError = True"
| "discarded ProtocolValidationError = True"
| "discarded ReplayDetectedError = True"
| "discarded KeyError = True"
| "discarded _ = False"

definition write_intake_dlq :: "intake_env \<Rightarrow> outages \<Rightarrow> string \<Rightarrow> fields \<Rightarrow> exc \<Rightarrow> unit iprog" where
  "write_intake_dlq env orc eid fs e =
     service (orc DeadLetterCall eid) (\<lambda>w. (Inr (), w\<lparr>iw_dead := iw_dead w @
       [[(''error'', PStr (ie_error_text env e)), (''entry_id'', PStr eid),
         (''envelope'', PStr (fget fs ''envelope'' [])),
         (''payload'', PStr (scrub_intake_payload_raw (ie_dumps env) (ie_loads env) (fget fs ''payload'' []))),
         (''ts'', PStr (e_stamp (ie_env env)))]]\<rparr>))"

definition xack :: "outages \<Rightarrow> string \<Rightarrow> unit iprog" where
  "xack orc eid = service (orc AckCall eid) (\<lambda>w. (Inr (), w\<lparr>iw_acked := iw_acked w @ [eid]\<rparr>))"

definition handle_entry :: "intake_env \<Rightarrow> outages \<Rightarrow> string \<times> fields \<Rightarrow> unit iprog" where
  "handle_entry env orc = (\<lambda>(eid, fs) w.
     case intake_body env orc eid fs w of
       (Inr _, w') \<Rightarrow> xack orc eid w'
     | (Inl e, w') \<Rightarrow>
         if discarded e
         then bnd (write_intake_dlq env orc eid fs e) (\<lambda>_. xack orc eid) w'
         else (Inl e, w'))"

fun handle_entries :: "intake_env \<Rightarrow> outages \<Rightarrow> (string \<times> fields) list \<Rightarrow> unit iprog" where
  "handle_entries env orc [] = ret ()"
| "handle_entries env orc (x # xs) = bnd (handle_entry env orc x) (\<lambda>_. handle_entries env orc xs)"

text \<open>One round of the loop over the batch it read: an exception that reaches the outer handler
  abandons the rest of the batch and marks Redis as not ready; the loop goes on with the next
  round.\<close>

definition consume_round :: "intake_env \<Rightarrow> outages \<times> (string \<times> fields) list \<Rightarrow> intake_world \<Rightarrow> intake_world" where
  "consume_round env = (\<lambda>(orc, batch) w.
     case handle_entries env orc batch w of
       (Inr _, w') \<Rightarrow> w'
     | (Inl e, w') \<Rightarrow> w'\<lparr>iw_world := iw_world w'\<lparr>w_redis_ready := False\<rparr>\<rparr>)"

definition consume_rounds ::
  "intake_env \<Rightarrow> (outages \<times> (string \<times> fields) list) list \<Rightarrow> intake_world \<Rightarrow> intake_world" where
  "consume_rounds env rounds w = foldl (\<lambda>w r. consume_round env r w) w rounds"

section \<open>Migration of stored credentials\<close>

text \<open>The loop of \<open>migrate_legacy_vaults\<close>: the missions whose keys are safely in Redis.\<close>

fun move_vaults ::
  "(pyval \<Rightarrow> string) \<Rightarrow> (string \<Rightarrow> bool) \<Rightarrow> (string \<times> pyval) list \<Rightarrow> redis option
     \<Rightarrow> string list \<times> redis option" where
  "move_vaults dumps up [] r = ([], r)"
| "move_vaults dumps up ((mid, vault) # legacy) r =
     (let secrets = snd (split_vault (PDict [(''vault'', vault)]));
          (ok, r) = (if secrets = [] then (True, r) else store_vault dumps (up mid) r mid secrets);
          (moved, r) = move_vaults dumps up legacy r
      in (if ok then mid # moved else moved, r))"

definition migrate_legacy_vaults ::
  "(pyval \<Rightarrow> string) \<Rightarrow> (string \<Rightarrow> pyval option) \<Rightarrow> (string \<Rightarrow> bool) \<Rightarrow> redis option \<Rightarrow> mission_db
     \<Rightarrow> int res \<times> redis option \<times> mission_db" where
  "migrate_legacy_vaults dumps loads up redis_client db =
     (case list_legacy_vaults loads db of
        Inl e \<Rightarrow> (Inl e, redis_client, db)
      | Inr legacy \<Rightarrow>
          let (moved, r) = move_vaults dumps up legacy redis_client;
              (scrubbed, db) = scrub_mission_vaults moved db
          in (Inr scrubbed, r, db))"

section \<open>What intake may change\<close>

definition idb :: "intake_world \<Rightarrow> mission_db" where
  "idb w = w_db (iw_world w)"

text \<open>Missions that exist are left alone; a mission that appears is queued, with one more event.\<close>

definition created_once :: "mission_db \<Rightarrow> mission_db \<Rightarrow> bool" where
  "created_once db db' \<longleftrightarrow> (\<forall>mid.
     (row_of db' mid = row_of db mid \<and> mission_log db' mid = mission_log db mid)
     \<or> (row_of db mid = None \<and> (\<exists>row e. row_of db' mid = Some row \<and> row_state row = state_value Queued
          \<and> mission_log db' mid = mission_log db mid @ [e] \<and> erow_type e = ''MISSION_QUEUED''
          \<and> erow_new e = state_value Queued)))"

definition grows :: "intake_world \<Rightarrow> intake_world \<Rightarrow> bool" where
  "grows w w' \<longleftrightarrow> created_once (idb w) (idb w') \<and> (history (idb w) \<longrightarrow> history (idb w'))
     \<and> (\<exists>ds. iw_dead w' = iw_dead w @ ds)"

interpretation grows: preorder_rel grows
proof
  show "grows w w" for w by (simp add: grows_def created_once_def)
next
  fix u v w
  assume uv: "grows u v" and vw: "grows v w"
  have "created_once (idb u) (idb w)"
    unfolding created_once_def
  proof
    fix mid
    show "(row_of (idb w) mid = row_of (idb u) mid \<and> mission_log (idb w) mid = mission_log (idb u) mid)
     \<or> (row_of (idb u) mid = None \<and> (\<exists>row e. row_of (idb w) mid = Some row \<and> row_state row = state_value Queued
          \<and> mission_log (idb w) mid = mission_log (idb u) mid @ [e] \<and> erow_type e = ''MISSION_QUEUED''
          \<and> erow_new e = state_value Queued))"
    proof (cases "row_of (idb v) mid")
      case None
      then have "row_of (idb u) mid = None" "mission_log (idb v) mid = mission_log (idb u) mid"
        using uv unfolding grows_def created_once_def by (metis option.distinct(1))+
      with vw None show ?thesis unfolding grows_def created_once_def by metis
    next
      case (Some row)
      then have "row_of (idb w) mid = row_of (idb v) mid" "mission_log (idb w) mid = mission_log (idb v) mid"
        using vw unfolding grows_def created_once_def by (metis option.distinct(1))+
      then show ?thesis using uv unfolding grows_def created_once_def by metis
    qed
  qed
  then show "grows u w" using uv vw unfolding grows_def by (metis append.assoc)
qed

lemma grows_same: "idb w' = idb w \<Longrightarrow> iw_dead w' = iw_dead w \<Longrightarrow> grows w w'"
  by (simp add: grows_def created_once_def)

lemma grows_row: "grows w w' \<Longrightarrow> row_of (idb w) mid \<noteq> None \<Longrightarrow> row_of (idb w') mid \<noteq> None"
  unfolding grows_def created_once_def by (metis option.distinct(1))

lemma grows_dead: "grows w w' \<Longrightarrow> d \<in> set (iw_dead w) \<Longrightarrow> d \<in> set (iw_dead w')"
  by (auto simp: grows_def)

lemma keeps_in_world: "(\<And>v. w_db (snd (m v)) = w_db v) \<Longrightarrow> keeps grows (in_world m)"
  unfolding keeps_def in_world_def by (auto simp: case_prod_beta idb_def intro: grows_same)

lemma emit_db: "w_db (snd (attempt (emit_state_event env m ev) () v)) = w_db v"
  by (simp add: attempt_def emit_state_event_def bnd_def xadd_state_def Let_def split: sum.split)

lemma keeps_vault [keeps_intros]: "keeps grows (store_intake_vault env eid mission_id vault)"
  by (auto simp: keeps_def store_intake_vault_def idb_def intro: grows_same)

lemma keeps_start [keeps_intros]: "keeps grows (start_task env mid)"
  by (auto simp: keeps_def start_task_def idb_def intro: grows_same)

lemma keeps_fetch_intake [keeps_intros]: "keeps grows (fetch_intake orc eid mission_id)"
  unfolding fetch_intake_def
  by (cases mission_id) (auto intro!: keeps_intros keeps_in_world simp: fetch_def)

lemma persist_created_once: "created_once db (snd (persist_intake_mission settings now r src db))" if "m_state r = Queued"
  using that
  by (auto simp: created_once_def persist_intake_mission_def Let_def mission_upsert_params_def dhas_row_of)

lemma keeps_persist:
  assumes "m_state r = Queued"
  shows "keeps grows (in_world (persist_intake env r eid))"
  unfolding keeps_def grows_def in_world_def persist_intake_def on_db_def
  using persist_created_once [OF assms] history_persist [OF _ assms]
  by (auto simp: case_prod_beta idb_def)

lemma intake_record_queued: "intake_record env p mid pr md = Inr r \<Longrightarrow> m_state r = Queued"
  by (auto simp: intake_record_def Let_def split: pyval.splits option.splits if_splits)

lemma keeps_create [keeps_intros]: "keeps grows (create_from_intake env orc eid p mission_id md)"
proof -
  have emit: "keeps grows (in_world (attempt (emit_state_event (ie_env env) m ''MISSION_QUEUED'') ()))" for m
    by (rule keeps_in_world) (rule emit_db)
  have "keeps grows (bnd (lift_res (intake_record env p mission_id pr md)) (\<lambda>mission.
      bnd (service (orc PersistCall eid) (in_world (persist_intake env mission eid))) (\<lambda>created.
      bnd (if created then in_world (attempt (emit_state_event (ie_env env) mission ''MISSION_QUEUED'') ())
           else ret ()) (\<lambda>_. start_task env (m_mission_id mission)))))" for pr
  proof (cases "intake_record env p mission_id pr md")
    case (Inr m)
    have persist: "keeps grows (in_world (persist_intake env m eid))"
      using intake_record_queued [OF Inr] by (rule keeps_persist)
    show ?thesis
      unfolding Inr bnd_lift
      by (rule grows.keeps_bnd [OF grows.keeps_service [OF persist]])
        (intro grows.keeps_bnd grows.keeps_if emit grows.keeps_ret keeps_start)
  next
    case (Inl e)
    show ?thesis unfolding Inl bnd_lift by (rule grows.keeps_lift)
  qed
  then show ?thesis unfolding create_from_intake_def by (rule grows.keeps_bnd [OF grows.keeps_lift])
qed

lemma keeps_body: "keeps grows (intake_body env orc eid fs)"
proof -
  have "keeps grows (case v of PDict payload \<Rightarrow>
         (let (md, vault) = split_vault (PDict (dict_or_empty (dget payload ''metadata''))) in
          bnd (lift_res (getitem payload ''mission_id'')) (\<lambda>mission_id.
          bnd (store_intake_vault env eid mission_id vault) (\<lambda>_.
          bnd (fetch_intake orc eid mission_id) (\<lambda>found.
          case found of
            Some existing \<Rightarrow>
              if m_state existing = Queued then start_task env (m_mission_id existing) else ret ()
          | None \<Rightarrow> create_from_intake env orc eid payload mission_id md))))
     | _ \<Rightarrow> lift_res (Inl AttributeError))" for v
    by (cases v) (auto simp: Let_def case_prod_beta intro!: keeps_intros)
  then show ?thesis unfolding intake_body_def by (intro keeps_intros)
qed

lemma keeps_dlq [keeps_intros]: "keeps grows (write_intake_dlq env orc eid fs e)"
  unfolding write_intake_dlq_def
  by (rule grows.keeps_service) (simp add: keeps_def grows_def created_once_def idb_def)

lemma keeps_xack [keeps_intros]: "keeps grows (xack orc eid)"
  unfolding xack_def by (rule grows.keeps_service) (simp add: keeps_def grows_same idb_def)

lemma keeps_entry [keeps_intros]: "keeps grows (handle_entry env orc x)"
  unfolding keeps_def
proof
  fix w
  obtain eid fs where x: "x = (eid, fs)" by (cases x)
  obtain r w1 where b: "intake_body env orc eid fs w = (r, w1)" by fastforce
  have 1: "grows w w1" by (rule keeps_result [OF keeps_body b])
  have "keeps grows (bnd (write_intake_dlq env orc eid fs e) (\<lambda>_. xack orc eid))" for e
    by (intro keeps_intros)
  then show "grows w (snd (handle_entry env orc x w))"
    using 1 keepsD [OF keeps_xack, of w1 orc eid]
    by (auto simp: handle_entry_def x b intro: grows.R_trans dest: keepsD [of grows _ w1] split: sum.split)
qed

lemma keeps_entries: "keeps grows (handle_entries env orc xs)"
  by (induction xs) (auto intro: keeps_intros simp: grows.keeps_ret simp del: ret_app)

section \<open>Acknowledged entries\<close>

text \<open>An entry is settled when its mission is stored or a dead letter carries its id.\<close>

definition settled :: "intake_env \<Rightarrow> intake_world \<Rightarrow> string \<times> fields \<Rightarrow> bool" where
  "settled env w = (\<lambda>(eid, fs).
     (\<exists>d \<in> set (iw_dead w). dget d ''entry_id'' = PStr eid)
     \<or> (\<exists>p mid. ie_loads env (fget fs ''payload'' ''{}'') = Some (PDict p)
          \<and> map_of p ''mission_id'' = Some (PStr mid) \<and> row_of (idb w) mid \<noteq> None))"

lemma settled_grows: "grows w w' \<Longrightarrow> settled env w x \<Longrightarrow> settled env w' x"
  unfolding settled_def by (auto dest: grows_dead grows_row)

lemma acked_service:
  assumes "\<And>v. iw_acked (snd (m v)) = iw_acked v"
  shows "iw_acked (snd (service c m v)) = iw_acked v"
  using assms by (cases c) (simp_all add: service_def)

lemma acked_bnd:
  assumes "\<And>v. iw_acked (snd (m v)) = iw_acked v" and "\<And>x v. iw_acked (snd (f x v)) = iw_acked v"
  shows "iw_acked (snd (bnd m f w)) = iw_acked w"
  using assms(1) [of w] assms(2) by (auto simp: bnd_def split: prod.splits sum.split)

lemma acked_in_world: "iw_acked (snd (in_world m w)) = iw_acked w"
  by (simp add: in_world_def case_prod_beta)

lemma acked_body: "iw_acked (snd (intake_body env orc eid fs w)) = iw_acked w"
proof -
  have fetch: "iw_acked (snd (fetch_intake orc eid i v)) = iw_acked v" for i v
    unfolding fetch_intake_def by (rule acked_service) (cases i; simp add: acked_in_world)
  have vault: "iw_acked (snd (store_intake_vault env eid i vt v)) = iw_acked v"
    and start: "iw_acked (snd (start_task env mid v)) = iw_acked v" for i vt v mid
    by (simp_all add: store_intake_vault_def start_task_def)
  have create: "iw_acked (snd (create_from_intake env orc eid p i md v)) = iw_acked v" for p i md v
    unfolding create_from_intake_def
    by (intro acked_bnd acked_service acked_in_world start) (simp_all add: acked_in_world)
  have handle: "iw_acked (snd ((case v of PDict payload \<Rightarrow>
         (let (md, vault) = split_vault (PDict (dict_or_empty (dget payload ''metadata''))) in
          bnd (lift_res (getitem payload ''mission_id'')) (\<lambda>mission_id.
          bnd (store_intake_vault env eid mission_id vault) (\<lambda>_.
          bnd (fetch_intake orc eid mission_id) (\<lambda>found.
          case found of
            Some existing \<Rightarrow>
              if m_state existing = Queued then start_task env (m_mission_id existing) else ret ()
          | None \<Rightarrow> create_from_intake env orc eid payload mission_id md))))
     | _ \<Rightarrow> lift_res (Inl AttributeError)) u)) = iw_acked u" for v u
    by (cases v)
      (auto simp: Let_def case_prod_beta fetch vault start create intro!: acked_bnd split: option.split)
  show ?thesis unfolding intake_body_def by (intro acked_bnd handle) simp_all
qed

lemma created_row: "persist_intake env m eid v = (r, v') \<Longrightarrow> row_of (w_db v') (m_mission_id m) \<noteq> None"
  by (auto simp: persist_intake_def on_db_def persist_intake_mission_def dhas_row_of Let_def
      case_prod_beta split: if_splits)

lemma fetch_row: "fetch mid v = (Inr (Some m), v') \<Longrightarrow> row_of (w_db v') mid \<noteq> None"
  by (auto simp: fetch_def fetch_mission_def row_of_def split: option.splits)

lemma in_world_result: "in_world m w = (r, w') \<Longrightarrow> m (iw_world w) = (r, iw_world w')"
  by (auto simp: in_world_def case_prod_beta)

lemma create_settles:
  assumes "create_from_intake env orc eid p mission_id md w = (Inr u, w')"
  shows "\<exists>mid. mission_id = PStr mid \<and> row_of (idb w') mid \<noteq> None"
proof -
  obtain pr mission created w1 w2 where mission: "intake_record env p mission_id pr md = Inr mission"
    and persist: "service (orc PersistCall eid) (in_world (persist_intake env mission eid)) w = (Inr created, w1)"
    and emit: "(if created then in_world (attempt (emit_state_event (ie_env env) mission ''MISSION_QUEUED'') ())
           else ret ()) w1 = (Inr (), w2)"
    and start: "start_task env (m_mission_id mission) w2 = (Inr u, w')"
    using assms unfolding create_from_intake_def by (elim bnd_result) auto
  have id: "mission_id = PStr (m_mission_id mission)"
    using mission by (auto simp: intake_record_def Let_def split: pyval.splits option.splits if_splits)
  have "row_of (idb w1) (m_mission_id mission) \<noteq> None"
    using created_row [OF in_world_result [OF service_result [OF persist]]] by (simp add: idb_def)
  moreover have "keeps grows (if created
      then in_world (attempt (emit_state_event (ie_env env) mission ''MISSION_QUEUED'') ()) else ret ())"
    by (intro grows.keeps_if grows.keeps_ret keeps_in_world emit_db)
  then have "grows w1 w2" using emit by (rule keeps_result)
  moreover have "grows w2 w'" using keeps_start start by (rule keeps_result)
  ultimately show ?thesis using id by (auto dest: grows_row)
qed

lemma body_settles:
  assumes run: "intake_body env orc eid fs w = (Inr u, w')"
  shows "settled env w' (eid, fs)"
proof -
  obtain v w0 where v: "ie_loads env (fget fs ''payload'' ''{}'') = Some v"
    and rest: "(case v of PDict payload \<Rightarrow>
         (let (md, vault) = split_vault (PDict (dict_or_empty (dget payload ''metadata''))) in
          bnd (lift_res (getitem payload ''mission_id'')) (\<lambda>mission_id.
          bnd (store_intake_vault env eid mission_id vault) (\<lambda>_.
          bnd (fetch_intake orc eid mission_id) (\<lambda>found.
          case found of
            Some existing \<Rightarrow>
              if m_state existing = Queued then start_task env (m_mission_id existing) else ret ()
          | None \<Rightarrow> create_from_intake env orc eid payload mission_id md))))
     | _ \<Rightarrow> lift_res (Inl AttributeError)) w0 = (Inr u, w')"
    using run unfolding intake_body_def by (elim bnd_result) (auto split: option.splits)
  obtain p where p: "v = PDict p" using rest by (cases v) auto
  obtain md vault where sp: "split_vault (PDict (dict_or_empty (dget p ''metadata''))) = (md, vault)" by fastforce
  obtain i w1 found w2 where i: "map_of p ''mission_id'' = Some i"
    and fetched: "fetch_intake orc eid i w1 = (Inr found, w2)"
    and last: "(case found of
            Some existing \<Rightarrow>
              if m_state existing = Queued then start_task env (m_mission_id existing) else ret ()
          | None \<Rightarrow> create_from_intake env orc eid p i md) w2 = (Inr u, w')"
    using rest unfolding p pyval.case sp Let_def prod.case
    by (elim bnd_result) (auto simp: getitem_def split: option.splits)
  have "\<exists>mid. i = PStr mid \<and> row_of (idb w') mid \<noteq> None"
  proof (cases found)
    case None
    with last show ?thesis by (auto dest: create_settles)
  next
    case (Some m)
    with fetched obtain mid where mid: "i = PStr mid" "in_world (fetch mid) w1 = (Inr (Some m), w2)"
      unfolding fetch_intake_def by (auto dest: service_result split: pyval.splits)
    have "row_of (idb w2) mid \<noteq> None"
      using fetch_row [OF in_world_result [OF mid(2)]] by (simp add: idb_def)
    moreover have "idb w' = idb w2"
      using last Some by (auto simp: start_task_def idb_def split: if_splits)
    ultimately show ?thesis using mid by auto
  qed
  with v p i show ?thesis by (auto simp: settled_def)
qed

lemma entry_acks:
  assumes "handle_entry env orc x w = (r, w')"
  shows "iw_acked w' = iw_acked w \<or> iw_acked w' = iw_acked w @ [fst x] \<and> settled env w' x"
proof -
  obtain eid fs where x: "x = (eid, fs)" by (cases x)
  obtain b w1 where b: "intake_body env orc eid fs w = (b, w1)" by fastforce
  have same: "iw_acked w1 = iw_acked w" using acked_body [of env orc eid fs w] b by simp
  have ack: "iw_acked v' = iw_acked v \<or> iw_acked v' = iw_acked v @ [eid]" "idb v' = idb v" "iw_dead v' = iw_dead v"
    if "xack orc eid v = (r', v')" for r' v v'
    using that by (auto simp: xack_def service_def idb_def split: call_outcome.splits)
  show ?thesis
  proof (cases b)
    case (Inr u)
    then have run: "xack orc eid w1 = (r, w')" using assms b x by (simp add: handle_entry_def)
    have "settled env w1 (eid, fs)" using b Inr by (intro body_settles) simp
    with ack [OF run] same x show ?thesis by (auto simp: settled_def)
  next
    case (Inl e)
    show ?thesis
    proof (cases "discarded e")
      case True
      then have run: "bnd (write_intake_dlq env orc eid fs e) (\<lambda>_. xack orc eid) w1 = (r, w')"
        using assms b x Inl by (simp add: handle_entry_def)
      obtain d w2 where d: "write_intake_dlq env orc eid fs e w1 = (d, w2)" by fastforce
      have same2: "iw_acked w2 = iw_acked w1"
        using d by (auto simp: write_intake_dlq_def service_def split: call_outcome.splits)
      show ?thesis
      proof (cases d)
        case (Inl e')
        then show ?thesis using run d same same2 by (simp add: bnd_def)
      next
        case (Inr u)
        then have run2: "xack orc eid w2 = (r, w')" using run d by (simp add: bnd_def)
        have "settled env w2 (eid, fs)"
          using d Inr by (auto simp: write_intake_dlq_def settled_def dget_def dest: service_result)
        with ack [OF run2] same same2 x show ?thesis by (auto simp: settled_def)
      qed
    qed (use assms b x Inl same in \<open>simp add: handle_entry_def\<close>)
  qed
qed

lemma entries_acks:
  assumes "handle_entries env orc xs w = (r, w')" and "eid \<in> set (iw_acked w')"
  shows "eid \<in> set (iw_acked w) \<or> (\<exists>x \<in> set xs. fst x = eid \<and> settled env w' x)"
  using assms
proof (induction xs arbitrary: w)
  case (Cons x xs)
  obtain a w1 where a: "handle_entry env orc x w = (a, w1)" by fastforce
  show ?case
  proof (cases a)
    case (Inl e)
    then have "w1 = w'" using Cons.prems(1) a by (simp add: bnd_def)
    then show ?thesis using entry_acks [OF a] Cons.prems(2) by auto
  next
    case (Inr u)
    then have run: "handle_entries env orc xs w1 = (r, w')" using Cons.prems(1) a by (simp add: bnd_def)
    have "grows w1 w'" by (rule keeps_result [OF keeps_entries run])
    then show ?thesis
      using Cons.IH [OF run Cons.prems(2)] entry_acks [OF a] by (auto dest: settled_grows)
  qed
qed simp

lemma round_step:
  assumes w'_def: "w' = consume_round env rd w"
  shows "grows w w'" and "eid \<in> set (iw_acked w') \<Longrightarrow>
    eid \<in> set (iw_acked w) \<or> (\<exists>x \<in> set (snd rd). fst x = eid \<and> settled env w' x)"
proof -
  obtain orc batch where rd: "rd = (orc, batch)" by (cases rd)
  obtain r w1 where run: "handle_entries env orc batch w = (r, w1)" by fastforce
  have w': "idb w' = idb w1" "iw_dead w' = iw_dead w1" "iw_acked w' = iw_acked w1"
    using run by (auto simp: w'_def rd consume_round_def idb_def split: sum.split)
  have "grows w w1" by (rule keeps_result [OF keeps_entries run])
  moreover have "grows w1 w'" using w' by (simp add: grows_same)
  ultimately show "grows w w'" by (rule grows.R_trans)
  assume "eid \<in> set (iw_acked w')"
  then show "eid \<in> set (iw_acked w) \<or> (\<exists>x \<in> set (snd rd). fst x = eid \<and> settled env w' x)"
    using entries_acks [OF run, of eid] w' by (auto simp: rd settled_def)
qed

lemma rounds_step:
  assumes "consume_rounds env rounds w = w'"
  shows "grows w w' \<and> (\<forall>eid \<in> set (iw_acked w'). eid \<in> set (iw_acked w)
    \<or> (\<exists>rd \<in> set rounds. \<exists>x \<in> set (snd rd). fst x = eid \<and> settled env w' x))"
  using assms
proof (induction rounds arbitrary: w)
  case Nil
  then show ?case by (simp add: consume_rounds_def grows.R_refl)
next
  case (Cons rd rounds)
  let ?w = "consume_round env rd w"
  have "consume_rounds env rounds ?w = w'" using Cons.prems by (simp add: consume_rounds_def)
  note ih = Cons.IH [OF this]
  have "grows w w'" using round_step(1) [of ?w env rd w] ih by (blast intro: grows.R_trans)
  moreover have "eid \<in> set (iw_acked w) \<or> (\<exists>rd \<in> set (rd # rounds). \<exists>x \<in> set (snd rd). fst x = eid \<and> settled env w' x)"
    if "eid \<in> set (iw_acked w')" for eid
  proof -
    from ih that consider "eid \<in> set (iw_acked ?w)"
      | "\<exists>rd \<in> set rounds. \<exists>x \<in> set (snd rd). fst x = eid \<and> settled env w' x" by blast
    then show ?thesis
      by cases (use round_step(2) [of ?w env rd w eid] ih settled_grows in \<open>fastforce+\<close>)
  qed
  ultimately show ?case by blast
qed

section \<open>Entries that cannot be handled\<close>

text \<open>A payload that is JSON but not an object, with an envelope that is accepted or missing.\<close>

definition poison :: "intake_env \<Rightarrow> string \<Rightarrow> fields \<Rightarrow> bool" where
  "poison env eid fs =
     (case ie_loads env (fget fs ''payload'' ''{}'') of
        None \<Rightarrow> False
      | Some v \<Rightarrow> \<not> is_dict v \<and> (case parse_intake_envelope env eid fs v of
                                   Inl e \<Rightarrow> \<not> discarded e
                                 | Inr _ \<Rightarrow> True))"

text \<open>The mission id of an object payload is text, null or missing.\<close>

definition mission_id_plain :: "intake_env \<Rightarrow> fields \<Rightarrow> bool" where
  "mission_id_plain env fs =
     (case ie_loads env (fget fs ''payload'' ''{}'') of
        Some (PDict p) \<Rightarrow> dget p ''mission_id'' = PNone \<or> is_str (dget p ''mission_id'')
      | _ \<Rightarrow> True)"

lemma poison_body:
  assumes "poison env eid fs"
  shows "\<exists>e. intake_body env orc eid fs w = (Inl e, w) \<and> \<not> discarded e"
proof -
  obtain v where v: "ie_loads env (fget fs ''payload'' ''{}'') = Some v" "\<not> is_dict v"
    "case parse_intake_envelope env eid fs v of Inl e \<Rightarrow> \<not> discarded e | Inr _ \<Rightarrow> True"
    using assms by (auto simp: poison_def split: option.splits)
  show ?thesis using v
    by (cases v; cases "parse_intake_envelope env eid fs v") (simp_all add: intake_body_def)
qed

lemma poison_entries:
  "poison env eid fs \<Longrightarrow> \<exists>e. handle_entries env orc ((eid, fs) # rest) w = (Inl e, w)"
  using poison_body [of env eid fs orc w] by (auto simp: handle_entry_def bnd_def)

definition fails_softly :: "'a res \<Rightarrow> bool" where
  "fails_softly r = (case r of Inl e \<Rightarrow> discarded e | Inr _ \<Rightarrow> True)"

lemma soft_bnd:
  assumes "\<And>v. fails_softly (fst (m v))" and "\<And>x v. fails_softly (fst (f x v))"
  shows "fails_softly (fst (bnd m f w))"
  using assms(1) [of w] assms(2) by (cases "m w"; cases "fst (m w)") (auto simp: bnd_def fails_softly_def)

lemma soft_simps [simp]: "fails_softly (Inr x)" "fails_softly (Inl e) = discarded e"
  by (simp_all add: fails_softly_def)

lemma soft_rbind: "fails_softly r \<Longrightarrow> (\<And>x. fails_softly (f x)) \<Longrightarrow> fails_softly (rbind r f)"
  by (cases r) simp_all

lemma soft_priority: "fails_softly (to_event_priority p)"
  by (simp add: to_event_priority_def Let_def split: option.split)

lemma soft_fallback: "fails_softly (fallback_envelope env eid fs p)"
  unfolding fallback_envelope_def Let_def by (auto intro!: soft_rbind soft_priority)

lemma soft_envelope: "fails_softly (parse_intake_envelope env eid fs (PDict p))"
  unfolding parse_intake_envelope_def Let_def
  by (intro soft_rbind) (auto simp: soft_fallback validate_envelope_def split: option.split pyval.split)

lemma soft_record: "fails_softly (intake_record env p i pr md)"
  by (simp add: intake_record_def Let_def split: pyval.split option.split)

lemma soft_getitem: "fails_softly (getitem p k)"
  by (simp add: getitem_def split: option.split)

lemma soft_fetch:
  assumes "i = PNone \<or> is_str i"
  shows "fails_softly (fst (fetch_intake (\<lambda>_ _. Done) eid i w))"
  using assms
  by (cases i) (auto simp: fetch_intake_def service_def in_world_def fetch_def fetch_mission_def case_prod_beta
      row_to_mission_def Let_def MissionState_of_def split: option.split intro!: soft_rbind)

lemma soft_emit: "fails_softly (fst (attempt m d w))"
  by (auto simp: attempt_def split: sum.split prod.split)

lemma soft_create: "fails_softly (fst (create_from_intake env (\<lambda>_ _. Done) eid p i md w))"
  unfolding create_from_intake_def
  by (intro soft_bnd) (auto simp: soft_getitem soft_record soft_emit service_def in_world_def persist_intake_def
      on_db_def start_task_def case_prod_beta)

lemma soft_body:
  assumes "\<not> poison env eid fs" and "mission_id_plain env fs"
  shows "fails_softly (fst (intake_body env (\<lambda>_ _. Done) eid fs w))"
proof (cases "ie_loads env (fget fs ''payload'' ''{}'')")
  case None
  then show ?thesis by (simp add: intake_body_def)
next
  case (Some v)
  show ?thesis
  proof (cases "is_dict v")
    case True
    then obtain p where p: "v = PDict p" by (cases v) auto
    have plain: "x = PNone \<or> is_str x" if "map_of p ''mission_id'' = Some x" for x
      using assms(2) Some p that by (simp add: mission_id_plain_def dget_def)
    have found: "fails_softly (fst ((case found of
            Some existing \<Rightarrow>
              if m_state existing = Queued then start_task env (m_mission_id existing) else ret ()
          | None \<Rightarrow> create_from_intake env (\<lambda>_ _. Done) eid p x md) u))" for found x md u
      by (auto simp: soft_create start_task_def split: option.split)
    have vault: "fails_softly (fst (store_intake_vault env eid x vt u))" for x vt u
      by (simp add: store_intake_vault_def)
    show ?thesis
    proof (cases "map_of p ''mission_id''")
      case None
      then show ?thesis using soft_envelope [of env eid fs p]
        by (auto simp: intake_body_def Some p getitem_def Let_def case_prod_beta bnd_def split: sum.split)
    next
      case (Some x)
      note fetched = soft_fetch [OF plain [OF Some]]
      have "fails_softly (fst (bnd (lift_res (parse_intake_envelope env eid fs (PDict p))) (\<lambda>_.
          bnd (store_intake_vault env eid x (snd (split_vault (PDict (dict_or_empty (dget p ''metadata'')))))) (\<lambda>_.
          bnd (fetch_intake (\<lambda>_ _. Done) eid x) (\<lambda>found. case found of
            Some existing \<Rightarrow>
              if m_state existing = Queued then start_task env (m_mission_id existing) else ret ()
          | None \<Rightarrow> create_from_intake env (\<lambda>_ _. Done) eid p x
              (fst (split_vault (PDict (dict_or_empty (dget p ''metadata''))))) ))) w))"
        by (intro soft_bnd vault fetched found) (simp add: soft_envelope)
      then show ?thesis
        using \<open>ie_loads env (fget fs ''payload'' ''{}'') = Some v\<close> Some p
        by (simp add: intake_body_def getitem_def Let_def case_prod_beta)
    qed
  next
    case False
    then show ?thesis using assms(1) Some poison_body
      by (auto simp: poison_def intake_body_def bnd_def fails_softly_def split: sum.splits)
  qed
qed

section \<open>Migration lemmas\<close>

abbreviation secrets_of :: "pyval \<Rightarrow> string dict" where
  "secrets_of vault \<equiv> snd (split_vault (PDict [(''vault'', vault)]))"

abbreviation secrets_text :: "(pyval \<Rightarrow> string) \<Rightarrow> pyval \<Rightarrow> string" where
  "secrets_text dumps vault \<equiv> dumps (PDict (map (\<lambda>(k, v). (k, PStr v)) (secrets_of vault)))"

definition redis_value :: "redis option \<Rightarrow> string \<Rightarrow> string option" where
  "redis_value r mid = (case r of None \<Rightarrow> None | Some rr \<Rightarrow> map_of (kv rr) (vault_key mid))"

lemma store_vault_value:
  "redis_value (snd (store_vault dumps up r mid secrets)) mid'
     = (if fst (store_vault dumps up r mid secrets) \<and> mid' = mid
        then Some (dumps (PDict (map (\<lambda>(k, v). (k, PStr v)) secrets))) else redis_value r mid')"
  by (auto simp: store_vault_def redis_value_def split: option.split)

lemma move_vaults_value:
  assumes "move_vaults dumps up legacy r = (moved, r')" and "distinct (map fst legacy)"
  shows "set moved \<subseteq> fst ` set legacy
    \<and> (\<forall>mid. mid \<notin> fst ` set legacy \<longrightarrow> redis_value r' mid = redis_value r mid)
    \<and> (\<forall>(mid, vault) \<in> set legacy. mid \<in> set moved \<longrightarrow>
          secrets_of vault = [] \<or> redis_value r' mid = Some (secrets_text dumps vault))"
  using assms
proof (induction legacy arbitrary: r moved)
  case (Cons x legacy)
  obtain mid vault where x: "x = (mid, vault)" by (cases x)
  obtain ok r1 where st: "(if secrets_of vault = [] then (True, r)
      else store_vault dumps (up mid) r mid (secrets_of vault)) = (ok, r1)" by fastforce
  obtain moved' r2 where rec: "move_vaults dumps up legacy r1 = (moved', r2)" by fastforce
  have mv: "move_vaults dumps up legacy r1 = (moved', r')" and moved: "moved = (if ok then mid # moved' else moved')"
    using Cons.prems(1) by (auto simp: x Let_def st rec split: if_splits)
  have "distinct (map fst legacy)" "mid \<notin> fst ` set legacy" using Cons.prems(2) by (auto simp: x)
  note ih = Cons.IH [OF mv this(1)] and fresh = this(2)
  have r1: "redis_value r1 m = redis_value r m" if "m \<noteq> mid" for m
    using st store_vault_value [of dumps "up mid" r mid "secrets_of vault" m] that by (auto split: if_splits)
  have r1_mid: "secrets_of vault = [] \<or> redis_value r1 mid = Some (secrets_text dumps vault)" if ok
    using st store_vault_value [of dumps "up mid" r mid "secrets_of vault" mid] that by (auto split: if_splits)
  have kept: "redis_value r' mid = redis_value r1 mid" using ih fresh by blast
  have notin: "mid \<notin> set moved'" using ih fresh by blast
  have absent: "(mid, b) \<notin> set legacy" for b using fresh by force
  show ?case
    using ih fresh r1 r1_mid kept notin absent by (auto simp: x moved split: if_splits)
qed simp

section \<open>Properties\<close>

definition sample_payload :: pydict where
  "sample_payload = [(''mission_id'', PStr ''m2''), (''prompt'', PStr ''build''), (''created_at'', PStr ''t1''),
     (''metadata'', PDict [(''vault'', PDict [(''openai'', PStr ''sk'')])])]"

definition sample_intake_env :: intake_env where
  "sample_intake_env = \<lparr>ie_env = sample_env, ie_auto_transition = True, ie_intake_topic = ''intake'',
     ie_topics = [''intake''], ie_schema_ok = (\<lambda>_. True), ie_date_ok = (\<lambda>_. True), ie_dumps = (\<lambda>_. ''json''),
     ie_loads = (\<lambda>s. if s = ''P'' then Some (PDict sample_payload) else if s = ''[]'' then Some (PList [])
                     else None),
     ie_datetime = (\<lambda>_. Some 1), ie_vault_up = (\<lambda>_. True), ie_error_text = (\<lambda>_. ''error''), ie_uuid = (\<lambda>s. s)\<rparr>"

definition sample_intake_world :: intake_world where
  "sample_intake_world = \<lparr>iw_world = sample_world ''RUNNING'', iw_redis = \<lparr>kv = [], ttl = []\<rparr>, iw_dead = [],
     iw_tasks = no_tasks, iw_acked = []\<rparr>"


definition sample_rounds :: "(outages \<times> (string \<times> fields) list) list" where
  "sample_rounds = [(\<lambda>c _. if c = AckCall then Lost_Before else Done, [(''1-0'', [(''payload'', ''P'')])]),
     (\<lambda>_ _. Done, [(''1-0'', [(''payload'', ''P'')])])]"


text \<open>One entry can stop intake: a payload that is JSON but not an object, under an envelope that is
  accepted or missing, raises outside the errors that are dead-lettered, so every round that starts
  with it leaves all else unchanged, whatever follows it in the batch; it is neither acknowledged
  nor dead-lettered.\<close>

theorem intake_poison_blocks:
  assumes "poison env eid fs"
  shows "consume_rounds env (map (\<lambda>(orc, rest). (orc, (eid, fs) # rest)) rounds) w
    = (if rounds = [] then w else w\<lparr>iw_world := iw_world w\<lparr>w_redis_ready := False\<rparr>\<rparr>)"
proof (induction rounds arbitrary: w)
  case (Cons r rounds)
  obtain orc rest where r: "r = (orc, rest)" by (cases r)
  obtain e where "handle_entries env orc ((eid, fs) # rest) w = (Inl e, w)"
    using poison_entries [OF assms] by blast
  then have "consume_round env (orc, (eid, fs) # rest) w = w\<lparr>iw_world := iw_world w\<lparr>w_redis_ready := False\<rparr>\<rparr>"
    by (simp add: consume_round_def del: handle_entries.simps)
  with Cons.IH [of "w\<lparr>iw_world := iw_world w\<lparr>w_redis_ready := False\<rparr>\<rparr>"] show ?case
    by (simp add: consume_rounds_def r)
qed (simp add: consume_rounds_def)

theorem intake_poison_blocks_witness:
  "iw_acked (consume_rounds sample_intake_env
     [(\<lambda>_ _. Done, [(''1-0'', [(''payload'', ''[]'')]), (''2-0'', [(''payload'', ''P'')])])]
     sample_intake_world) = []"
proof -
  have "poison sample_intake_env ''1-0'' [(''payload'', ''[]'')]" by code_simp
  from intake_poison_blocks [OF this, of "[(\<lambda>_ _. Done, [(''2-0'', [(''payload'', ''P'')])])]" sample_intake_world]
  show ?thesis by (simp add: sample_intake_world_def)
qed



text \<open>Migrating stored credentials loses none: afterwards each mission that had credentials in its
  row either still has that row or has lost only them, and then they are in the vault store (unless
  there were none to keep); all other rows are unchanged.\<close>

theorem legacy_migration_lossless:
  assumes "migrate_legacy_vaults dumps loads up r db = (Inr n, r', db')"
    and "distinct (map fst (missions db))" and "row_of db mid = Some row"
  shows "if dhas (row_metadata row) ''vault'' \<and> row_of db' mid \<noteq> Some row
    then row_of db' mid = Some (row\<lparr>row_metadata := ddel ''vault'' (row_metadata row)\<rparr>)
      \<and> (\<exists>v. json_to_dict loads (dget (row_metadata row) ''vault'') = Inr v
            \<and> (secrets_of v = [] \<or> redis_value r' mid = Some (secrets_text dumps v)))
    else row_of db' mid = Some row"
proof -
  obtain legacy moved where legacy: "list_legacy_vaults loads db = Inr legacy"
    and moved: "move_vaults dumps up legacy r = (moved, r')" and db': "db' = snd (scrub_mission_vaults moved db)"
    using assms(1) by (auto simp: migrate_legacy_vaults_def case_prod_beta prod_eq_iff split: sum.splits)
  let ?has = "\<lambda>(mid :: string, row). dhas (row_metadata row) ''vault''"
  have keys: "map fst legacy = map fst (filter ?has (missions db))"
    using rmap_keys [OF legacy [unfolded list_legacy_vaults_def]] .
  have dist: "distinct (map fst legacy)"
    unfolding keys using assms(2) by (simp add: distinct_map_filter)
  note stored = move_vaults_value [OF moved dist]
  have row': "row_of db' mid = map_option (\<lambda>row. snd (scrub_row moved (mid, row))) (row_of db mid)"
    using map_of_scrub [of moved "missions db" mid]
    by (auto simp: db' scrub_mission_vaults_def row_of_def scrub_row_def option.map_ident)
  show ?thesis
  proof (cases "mid \<in> set moved \<and> dhas (row_metadata row) ''vault''")
    case True
    then have "(mid, row) \<in> set (filter ?has (missions db))"
      using assms(3) by (auto simp: row_of_def dest: map_of_SomeD)
    from rmap_nth_ok [OF legacy [unfolded list_legacy_vaults_def] this]
    obtain v where v: "(mid, v) \<in> set legacy" "json_to_dict loads (dget (row_metadata row) ''vault'') = Inr v"
      by (auto simp: rbind_Inr_iff)
    then have "secrets_of v = [] \<or> redis_value r' mid = Some (secrets_text dumps v)"
      using stored True by blast
    with True v row' assms(3) show ?thesis by (auto simp: scrub_row_def)
  next
    case False
    with row' assms(3) show ?thesis by (auto simp: scrub_row_def)
  qed
qed

theorem legacy_migration_lossless_witness:
  "fst (migrate_legacy_vaults (\<lambda>_. ''text'') (\<lambda>_. None) (\<lambda>_. True) (Some \<lparr>kv = [], ttl = []\<rparr>) legacy_db) = Inr 1
   \<and> redis_value (fst (snd (migrate_legacy_vaults (\<lambda>_. ''text'') (\<lambda>_. None) (\<lambda>_. True)
       (Some \<lparr>kv = [], ttl = []\<rparr>) legacy_db))) ''m1'' = Some ''text''"
proof -
  let ?m = "migrate_legacy_vaults (\<lambda>_. ''text'') (\<lambda>_. None) (\<lambda>_. True) (Some \<lparr>kv = [], ttl = []\<rparr>) legacy_db"
  let ?row = "sample_row\<lparr>row_metadata := [(''vault'', PDict [(''openai'', PStr ''sk'')]), (''title'', PStr ''t'')]\<rparr>"
  obtain r' db' where m: "?m = (Inr 1, r', db')"
  proof -
    have "fst ?m = Inr 1" by code_simp
    then show thesis using that by (metis prod.collapse)
  qed
  have row: "row_of legacy_db ''m1'' = Some ?row" by (simp add: row_of_def legacy_db_def)
  have moved: "row_of (snd (snd ?m)) ''m1'' \<noteq> Some ?row" by code_simp
  have v: "json_to_dict (\<lambda>_. None) (dget (row_metadata ?row) ''vault'') = Inr (PDict [(''openai'', PStr ''sk'')])"
    and s: "secrets_of (PDict [(''openai'', PStr ''sk'')]) \<noteq> []" by code_simp+
  have "distinct (map fst (missions legacy_db))" by code_simp
  from legacy_migration_lossless [OF m this row] moved v s m
  show ?thesis by (simp add: dhas_def)
qed

end
