(* ===== verification/Legacy_Engine.thy ===== *)
theory Legacy_Engine
  imports Lifecycle_V2
begin

text \<open>
  The compatibility engine: \<open>LegacyV1Engine\<close> and the engine selection of
  \<open>orchestrator/lifecycle_interface.py\<close>, the helpers of \<open>orchestrator/runtime.py\<close> it calls
  (chain preparation, running checkpoints, the completion check) and the predicates of
  \<open>orchestrator/build_artifacts.py\<close> behind the check. It runs over the world and the environment
  of the v2 driver. What the check reads from the pod, LogicNode and artifact tables is the record
  \<open>artifact_tables\<close>.
\<close>

section \<open>Build artifact predicates\<close>

definition mission_has_generated_output :: "pydict \<Rightarrow> bool" where
  "mission_has_generated_output metadata =
     (case dget metadata ''generated_output'' of
        PDict g \<Rightarrow>
          if py_lower (py_strip (py_str (dget_or g ''source'' (PStr [])))) = ''fallback'' then False
          else (case dget g ''generated_code'' of
                  PStr code \<Rightarrow> 10 \<le> length (py_strip code)
                | _ \<Rightarrow> False)
      | _ \<Rightarrow> False)"

definition names_generated_output :: "pyval list \<Rightarrow> bool" where
  "names_generated_output items = (''generated_output'' \<in> set (map (\<lambda>x. py_lower (py_strip (py_str x))) items))"

definition mission_expects_generated_output_artifact :: "pydict \<Rightarrow> bool" where
  "mission_expects_generated_output_artifact metadata =
     (let output_mode = py_upper (py_strip (py_str
            (py_or (dget metadata ''output_mode_label'') (py_or (dget metadata ''__output_mode__'')
            (py_or (dget metadata ''output_mode'') (PStr ''FULL_BUILD''))))))
      in if output_mode \<in> {''ANALYZE_ONLY'', ''REPORT_ONLY'', ''PLAN_ONLY'', ''REPORT'', ''ANALYZE''} then False
         else case dget metadata ''expected_artifacts'' of
                PList items \<Rightarrow> names_generated_output items
              | _ \<Rightarrow> (case dget (dict_or_empty (dget metadata ''mission_charter'')) ''expected_artifacts'' of
                        PList items \<Rightarrow> names_generated_output items
                      | _ \<Rightarrow> False))"

definition mission_requires_build_artifact :: "pydict \<Rightarrow> bool" where
  "mission_requires_build_artifact metadata =
     (if mission_has_generated_output metadata then True
      else if (case dget metadata ''source_code'' of PStr s \<Rightarrow> py_strip s \<noteq> [] | _ \<Rightarrow> False) then True
      else mission_expects_generated_output_artifact metadata)"

definition has_successful_build_artifact :: "pydict list \<Rightarrow> bool" where
  "has_successful_build_artifact records =
     list_ex (\<lambda>r. py_upper (py_str (dget_or r ''status'' (PStr []))) = ''SUCCESS'') records"

definition latest_build_artifact_status :: "pydict list \<Rightarrow> string" where
  "latest_build_artifact_status records =
     (case records of
        [] \<Rightarrow> ''MISSING''
      | r # _ \<Rightarrow> (let s = py_upper (py_str (dget_or r ''status'' (PStr ''UNKNOWN'')))
                  in if s = [] then ''UNKNOWN'' else s))"

section \<open>The completion check\<close>

record artifact_tables =
  at_assignment :: "string \<Rightarrow> pydict option"
  at_logicnodes :: "string \<Rightarrow> nat \<Rightarrow> pydict list"
  at_build_artifacts :: "string \<Rightarrow> nat \<Rightarrow> pydict list"

text \<open>\<open>_has_chain_event\<close>: the type is compared as it stands.\<close>

definition has_chain_event :: "pydict \<Rightarrow> string \<Rightarrow> bool res" where
  "has_chain_event meta evt =
     rbind (py_tuple (dget_or meta ''chain_trace'' (PList []))) (\<lambda>entries.
       Inr (list_ex (\<lambda>e. is_dict e \<and> dget (dict_or_empty e) ''event_type'' = PStr evt) entries))"

definition truthy_or_event :: "pydict \<Rightarrow> string list \<Rightarrow> string \<Rightarrow> bool res" where
  "truthy_or_event meta ks evt =
     (if list_ex (\<lambda>k. truthy (dget meta k)) ks then Inr True else has_chain_event meta evt)"

definition completion_artifacts_ready :: "artifact_tables \<Rightarrow> MissionRecord \<Rightarrow> (bool \<times> pydict) res" where
  "completion_artifacts_ready tables mission =
     (if completion_policy_exempt (PDict (m_metadata mission)) then Inr (True, [(''policy_exempt'', PBool True)])
      else
        let mid = m_mission_id mission; meta = m_metadata mission;
            assignment = (case at_assignment tables mid of None \<Rightarrow> False | Some a \<Rightarrow> a \<noteq> []);
            logicnodes = at_logicnodes tables mid 1
        in
        rbind (if assignment then Inr True
               else truthy_or_event meta [''assigned_pod_manager_agent_id'', ''assigned_specialist_agent_id'']
                      ''MISSION_SPECIALIST_ASSIGNED'') (\<lambda>has_assignment.
        rbind (if logicnodes \<noteq> [] then Inr True
               else truthy_or_event meta [''pod_group_standards'', ''master_logic_stream'']
                      ''MISSION_LOGIC_FOLDED'') (\<lambda>has_logicnodes.
        if mission_requires_build_artifact meta
        then let records = at_build_artifacts tables mid 10;
                 built = has_successful_build_artifact records
             in Inr (built \<and> (has_assignment \<or> has_logicnodes),
                  [(''policy_exempt'', PBool False), (''build_artifact_required'', PBool True),
                   (''build_artifact_count'', PInt (int (length records))),
                   (''build_artifact_status'', PStr (latest_build_artifact_status records)),
                   (''has_successful_build_artifact'', PBool built),
                   (''has_pod_assignment'', PBool has_assignment),
                   (''logicnode_count'', PInt (int (length logicnodes)))])
        else Inr (has_assignment \<or> has_logicnodes,
               [(''policy_exempt'', PBool False), (''build_artifact_required'', PBool False),
                (''has_pod_assignment'', PBool has_assignment),
                (''logicnode_count'', PInt (int (length logicnodes)))]))))"

section \<open>Chain preparation and checkpoints\<close>

definition trace_event_types :: "pydict \<Rightarrow> string list res" where
  "trace_event_types md =
     rbind (py_tuple (dget_or md ''chain_trace'' (PList []))) (\<lambda>entries.
       Inr (map (\<lambda>e. py_str (dget_or (dict_or_empty e) ''event_type'' (PStr []))) (filter is_dict entries)))"

text \<open>The four events, with the agent and the details each is recorded with.\<close>

definition preparation_events :: "string \<Rightarrow> string \<Rightarrow> (string \<times> string \<times> pydict) list" where
  "preparation_events manager specialist =
     [(''MISSION_PM_INTAKE'', PM_AGENT_ID, [(''source'', PStr ''orchestrator-normalization'')]),
      (''MISSION_CEO_DELEGATED'', CEO_AGENT_ID, [(''target_agent_id'', PStr manager)]),
      (''MISSION_POD_MANAGER_ASSIGNED'', manager, [(''specialist_agent_id'', PStr specialist)]),
      (''MISSION_SPECIALIST_ASSIGNED'', specialist, [(''pod_manager_agent_id'', PStr manager)])]"

definition emit_added :: "lifecycle_env \<Rightarrow> string \<Rightarrow> MissionRecord \<Rightarrow> string \<Rightarrow> unit wprog" where
  "emit_added env mid record event_type =
     bnd (checkpoint env mid Queued event_type) (\<lambda>_. emit_quietly env record event_type)"

fun for_each :: "('a \<Rightarrow> unit wprog) \<Rightarrow> 'a list \<Rightarrow> unit wprog" where
  "for_each f [] = ret ()"
| "for_each f (x # xs) = bnd (f x) (\<lambda>_. for_each f xs)"

definition prepare_mission_chain_for_running :: "lifecycle_env \<Rightarrow> string \<Rightarrow> bool wprog" where
  "prepare_mission_chain_for_running env mid =
     bnd (fetch mid) (\<lambda>found.
       case found of
         None \<Rightarrow> ret False
       | Some mission \<Rightarrow>
           let manager = resolve_pod_manager_agent_id (m_requested_target_language mission);
               specialist = resolve_specialist_agent_id (m_requested_target_language mission);
               md = dset ''assigned_pod_manager_agent_id'' (PStr manager) (chain_defaults_of mission);
               md = dset ''assigned_specialist_agent_id'' (PStr specialist) md;
               md = dset ''agent_id'' (PStr manager) md;
               md = dset ''selected_agent_id'' (PStr manager) md
           in bnd (lift_res (trace_event_types md)) (\<lambda>existing.
              let added = filter (\<lambda>(t, _, _). t \<notin> set existing) (preparation_events manager specialist);
                  md = foldl (\<lambda>md (t, a, details). append_chain_event md t a details (e_stamp env)) md added
              in bnd (save_metadata env mid md) (\<lambda>saved.
                 case saved of
                   None \<Rightarrow> ret False
                 | Some record \<Rightarrow>
                     bnd (for_each (emit_added env mid record) (map fst added)) (\<lambda>_. ret True))))"

definition RUNNING_PHASE_CHECKPOINT_EVENTS :: "string list" where
  "RUNNING_PHASE_CHECKPOINT_EVENTS = [''MISSION_GATING'', ''MISSION_FUSION'']"

text \<open>A checkpoint that cannot be written is logged and skipped, with its event.\<close>

definition running_checkpoint :: "lifecycle_env \<Rightarrow> MissionRecord \<Rightarrow> string \<Rightarrow> unit wprog" where
  "running_checkpoint env mission event_type =
     bnd (attempt (bnd (checkpoint env (m_mission_id mission) Running event_type) (\<lambda>_. ret True)) False) (\<lambda>written.
       if written then emit_quietly env mission event_type else ret ())"

definition emit_running_phase_checkpoints :: "lifecycle_env \<Rightarrow> MissionRecord \<Rightarrow> unit wprog" where
  "emit_running_phase_checkpoints env mission =
     for_each (running_checkpoint env mission) RUNNING_PHASE_CHECKPOINT_EVENTS"

section \<open>The engine\<close>

definition LEGACY_TRANSITIONS :: "(MissionState \<times> MissionState \<times> string) list" where
  "LEGACY_TRANSITIONS =
     [(Queued, Running, ''MISSION_RUNNING''), (Running, Verified, ''MISSION_VERIFIED''),
      (Verified, Complete, ''MISSION_COMPLETE'')]"

text \<open>The refusal of the completion check.\<close>

definition legacy_completion_blocked :: "lifecycle_env \<Rightarrow> MissionRecord \<Rightarrow> string \<Rightarrow> pydict \<Rightarrow> unit wprog" where
  "legacy_completion_blocked env mission mid details =
     (let md = append_chain_event (chain_defaults_of mission) ''MISSION_COMPLETION_BLOCKED'' CEO_AGENT_ID
                 details (e_stamp env)
      in bnd (save_metadata env mid md) (\<lambda>updated.
         bnd (checkpoint env mid Verified ''MISSION_COMPLETION_BLOCKED'') (\<lambda>_.
         emit_quietly env (or_else updated mission) ''MISSION_COMPLETION_BLOCKED'')))"

definition legacy_guard ::
  "lifecycle_env \<Rightarrow> artifact_tables \<Rightarrow> string \<Rightarrow> MissionState \<Rightarrow> MissionState \<Rightarrow> bool wprog" where
  "legacy_guard env tables mid expected_state new_state =
     bnd (if expected_state = Queued \<and> new_state = Running
          then prepare_mission_chain_for_running env mid else ret True) (\<lambda>prepared.
     if \<not> prepared then ret False
     else if expected_state = Verified \<and> new_state = Complete
     then bnd (fetch mid) (\<lambda>found.
            case found of
              None \<Rightarrow> ret False
            | Some mission \<Rightarrow>
                bnd (lift_res (completion_artifacts_ready tables mission)) (\<lambda>(ready, details).
                  if ready then ret True
                  else bnd (legacy_completion_blocked env mission mid details) (\<lambda>_. ret False)))
     else ret True)"

definition legacy_finish :: "lifecycle_env \<Rightarrow> MissionRecord \<Rightarrow> MissionState \<Rightarrow> string \<Rightarrow> bool wprog" where
  "legacy_finish env record new_state event_type =
     bnd (if new_state = Verified then attempt (e_verified_build_artifact env record) record else ret record) (\<lambda>record.
     bnd (emit_quietly env record event_type) (\<lambda>_.
     bnd (if event_type = ''MISSION_RUNNING'' then emit_running_phase_checkpoints env record else ret ()) (\<lambda>_.
     ret True)))"

definition legacy_step ::
  "lifecycle_env \<Rightarrow> artifact_tables \<Rightarrow> string \<Rightarrow> MissionState \<times> MissionState \<times> string \<Rightarrow> bool wprog" where
  "legacy_step env tables mid = (\<lambda>(expected_state, new_state, event_type).
     bnd (legacy_guard env tables mid expected_state new_state) (\<lambda>ok.
     if \<not> ok then ret False
     else bnd (transition env mid expected_state new_state event_type) (\<lambda>moved.
     case moved of
       None \<Rightarrow> ret False
     | Some record \<Rightarrow> legacy_finish env record new_state event_type)))"

fun run_legacy ::
  "lifecycle_env \<Rightarrow> artifact_tables \<Rightarrow> string \<Rightarrow> (MissionState \<times> MissionState \<times> string) list \<Rightarrow> unit wprog" where
  "run_legacy env tables mid [] = ret ()"
| "run_legacy env tables mid (t # ts) =
     bnd (legacy_step env tables mid t) (\<lambda>go. if go then run_legacy env tables mid ts else ret ())"

definition advance_legacy :: "lifecycle_env \<Rightarrow> artifact_tables \<Rightarrow> string \<Rightarrow> unit wprog" where
  "advance_legacy env tables mid = run_legacy env tables mid LEGACY_TRANSITIONS"

text \<open>The engine the settings select; \<open>langgraph\<close> is the LangGraph attempt, which tells whether it
  handled the mission.\<close>

definition get_lifecycle_engine_name :: "engine_settings \<Rightarrow> string" where
  "get_lifecycle_engine_name settings =
     (if mission_flow_v2_enabled settings then ''mission_flow_v2''
      else if langgraph_enabled settings then ''langgraph''
      else ''legacy_v1'')"

definition advance_langgraph ::
  "lifecycle_env \<Rightarrow> artifact_tables \<Rightarrow> (string \<Rightarrow> bool wprog) \<Rightarrow> string \<Rightarrow> unit wprog" where
  "advance_langgraph env tables langgraph mid =
     bnd (langgraph mid) (\<lambda>handled. if handled then ret () else advance_legacy env tables mid)"

definition advance_engine ::
  "lifecycle_env \<Rightarrow> artifact_tables \<Rightarrow> (string \<Rightarrow> bool wprog) \<Rightarrow> string \<Rightarrow> unit wprog" where
  "advance_engine env tables langgraph mid =
     (if mission_flow_v2_enabled (e_engine env) then advance_mission_lifecycle_v2 env mid
      else if langgraph_enabled (e_engine env) then advance_langgraph env tables langgraph mid
      else advance_legacy env tables mid)"

section \<open>Lemmas\<close>

lemma keeps_for_each [keeps_intros]: "(\<And>x. keeps (quiet mid) (f x)) \<Longrightarrow> keeps (quiet mid) (for_each f xs)"
  by (induction xs) (auto intro: keeps_intros quiet.keeps_ret simp del: ret_app)

lemma keeps_preparation [keeps_intros]: "keeps (quiet mid) (prepare_mission_chain_for_running env mid)"
  unfolding prepare_mission_chain_for_running_def Let_def emit_added_def by (intro keeps_intros)

lemma keeps_checkpoints [keeps_intros]:
  "m_mission_id m = mid \<Longrightarrow> keeps (quiet mid) (emit_running_phase_checkpoints env m)"
  unfolding emit_running_phase_checkpoints_def running_checkpoint_def
  by (intro keeps_intros) (simp, intro keeps_intros)

lemma keeps_legacy_guard [keeps_intros]: "keeps (quiet mid) (legacy_guard env tables mid a b)"
  unfolding legacy_guard_def legacy_completion_blocked_def Let_def by (intro keeps_intros)

lemma transition_record:
  assumes "transition env mid a b ev w = (Inr (Some m), w')"
  shows "m_mission_id m = mid"
  using assms row_to_mission_id
  by (fastforce simp: transition_def on_db_def transition_mission_state_def Let_def case_prod_beta rbind_Inr_iff
      split: option.splits if_splits)

lemma keeps_legacy_finish:
  assumes build: "\<And>m. keeps (quiet mid) (e_verified_build_artifact env m)" and id: "m_mission_id m = mid"
    and ev: "b = Verified \<Longrightarrow> ev \<noteq> ''MISSION_RUNNING''"
  shows "keeps (quiet mid) (legacy_finish env m b ev)"
proof (cases "b = Verified")
  case True
  with ev show ?thesis unfolding legacy_finish_def by (simp del: ret_app) (intro keeps_intros build)
next
  case False
  then show ?thesis
    unfolding legacy_finish_def by (auto simp del: ret_app intro!: keeps_intros quiet.keeps_ret id)
qed

lemma legacy_step_run:
  assumes build: "\<And>m. keeps (quiet mid) (e_verified_build_artifact env m)" and table: "(a, b, t) \<in> set LEGACY_TRANSITIONS"
    and run: "legacy_step env tables mid (a, b, t) w = (r, w')"
  obtains (stays) "r \<noteq> Inr True" "quiet mid w w'"
  | (moved) w1 where "legacy_guard env tables mid a b w = (Inr True, w1)" "quiet mid w w1"
      "db_state (w_db w) mid = Some (state_value a)" "r \<noteq> Inr False"
      "db_state (w_db w') = (db_state (w_db w))(mid \<mapsto> state_value b)"
      "\<exists>es. events (w_db w') = events (w_db w1) @ es"
proof -
  have ev: "b = Verified \<Longrightarrow> t \<noteq> ''MISSION_RUNNING''"
    using table by (auto simp: LEGACY_TRANSITIONS_def)
  obtain g w1 where g: "legacy_guard env tables mid a b w = (g, w1)" by fastforce
  have q: "quiet mid w w1" by (rule keeps_result [OF keeps_legacy_guard g])
  show thesis
  proof (cases "g = Inr True")
    case False
    then have "r \<noteq> Inr True \<and> w' = w1"
      using run g by (cases g) (auto simp: legacy_step_def bnd_def)
    with q show thesis by (intro stays) auto
  next
    case True
    obtain c w2 where c: "transition env mid a b t w1 = (c, w2)" by fastforce
    have r: "(case c of Inl e \<Rightarrow> (Inl e, w2) | Inr None \<Rightarrow> (Inr False, w2)
        | Inr (Some record) \<Rightarrow> legacy_finish env record b t w2) = (r, w')"
      using run g c True by (auto simp: legacy_step_def bnd_def split: sum.splits option.splits)
    from c show thesis
    proof (cases rule: transition_run)
      case (hit m)
      have "keeps (quiet mid) (legacy_finish env m b t)"
        by (rule keeps_legacy_finish [OF build _ ev]) (use transition_record c hit(1) in blast)+
      with r hit(1) have "quiet mid w2 w'" by (auto dest: keeps_result)
      moreover have "r \<noteq> Inr False"
        using r hit(1) by (auto simp: legacy_finish_def elim!: bnd_result)
      ultimately show thesis
        using g True q hit by (intro moved [of w1]) (auto simp: quiet_def)
    next
      case miss
      with r q show thesis by (intro stays) auto
    qed
  qed
qed

lemma quiet_state: "quiet mid w w' \<Longrightarrow> db_state (w_db w') = db_state (w_db w)"
  by (simp add: quiet_def)

lemma quiet_events: "quiet mid w w' \<Longrightarrow> \<exists>es. events (w_db w') = events (w_db w) @ es"
  by (auto simp: quiet_def)

lemma legacy_guard_complete:
  assumes "legacy_guard env tables mid Verified Complete w = (Inr True, w1)"
  shows "w1 = w \<and> (\<exists>m d. fetch_mission (w_db w) mid = Inr (Some m) \<and> completion_artifacts_ready tables m = Inr (True, d))"
  using assms
  by (auto simp: legacy_guard_def fetch_def elim!: bnd_result split: option.splits if_splits prod.splits)

section \<open>Properties\<close>



text \<open>The compatibility engine resumes nothing: a mission that is past QUEUED keeps its state in every
  run, so after a restart a mission it left RUNNING or VERIFIED stays there.\<close>

theorem legacy_engine_never_resumes:
  assumes "db_state (w_db w) mid = Some (state_value s)" and "s \<noteq> Queued"
  shows "db_state (w_db (snd (advance_legacy env tables mid w))) = db_state (w_db w)"
proof -
  let ?s1 = "(Queued, Running, ''MISSION_RUNNING'')"
  obtain g w1 where g: "legacy_guard env tables mid Queued Running w = (g, w1)" by fastforce
  have q: "db_state (w_db w1) = db_state (w_db w)"
    by (rule quiet_state [OF keeps_result [OF keeps_legacy_guard g]])
  obtain c w2 where c: "transition env mid Queued Running ''MISSION_RUNNING'' w1 = (c, w2)" by fastforce
  from c have "c = Inr None \<and> w2 = w1"
  proof (cases rule: transition_run)
    case (hit m)
    with q assms have "state_value s = state_value Queued" by simp
    with assms(2) show ?thesis by (simp only: state_value_inj)
  qed simp
  then show ?thesis
    using g c q
    by (cases g) (auto simp: advance_legacy_def LEGACY_TRANSITIONS_def legacy_step_def bnd_def)
qed

theorem legacy_engine_never_resumes_witness:
  "db_state (w_db (snd (advance_legacy sample_env \<lparr>at_assignment = (\<lambda>_. None), at_logicnodes = (\<lambda>_ _. []),
     at_build_artifacts = (\<lambda>_ _. [])\<rparr> ''m1'' (sample_world ''VERIFIED'')))) ''m1'' = Some ''VERIFIED''"
proof -
  have "db_state (w_db (sample_world ''VERIFIED'')) ''m1'' = Some (state_value Verified)"
    by (simp add: sample_state)
  from legacy_engine_never_resumes [OF this, of sample_env
      "\<lparr>at_assignment = (\<lambda>_. None), at_logicnodes = (\<lambda>_ _. []), at_build_artifacts = (\<lambda>_ _. [])\<rparr>"] this
  show ?thesis by simp
qed

end
