(* ===== verification/Protocol_Bus.thy ===== *)
theory Protocol_Bus
  imports Effects Protocol "HOL-Library.List_Lexorder" "HOL-Library.Char_ord"
begin

text \<open>
  The protocol bus, \<open>protocol-bus-mcp/protocol_bus/mcp_server.py\<close>, with the message signatures of
  \<open>shared_runtime/agent_auth.py\<close>: request validation, recipients and channels, and the \<open>/send\<close>
  and \<open>/dlq\<close> handlers. The Redis of the bus is the record \<open>bus\<close>: the keys that exist (the replay
  and the deduplication guard), the entries of each stream and the counters. Keys that expire are
  removed by the server (\<open>expire_keys\<close>). Every Redis call may be lost before or after it took
  effect (\<open>outage\<close>). HMAC, JSON text, fresh ids and clocks are fields of \<open>bus_env\<close>.
\<close>

section \<open>Identifiers, recipients and channels\<close>

definition ALLOWED_PROTOCOLS :: "string list" where
  "ALLOWED_PROTOCOLS = [''alpha'', ''beta'', ''delta'', ''sigma'', ''omega'', ''rho'']"

definition PRIORITY_LEVELS :: "string list" where
  "PRIORITY_LEVELS = [''low'', ''normal'', ''high'', ''critical'']"

text \<open>\<open>AGENT_ID_PATTERN.fullmatch\<close>: \<open>AGENT-\<close>, two digits, a dash and a non-empty tail.\<close>

definition agent_id_char :: "char \<Rightarrow> bool" where
  "agent_id_char c = (is_upper_char c \<or> is_digit c \<or> c = CHR ''-'')"

definition agent_id_matches :: "string \<Rightarrow> bool" where
  "agent_id_matches s =
     (starts_with ''AGENT-'' s \<and>
      (case drop 6 s of
         a # b # c # t \<Rightarrow> is_digit a \<and> is_digit b \<and> c = CHR ''-'' \<and> t \<noteq> [] \<and> list_all agent_id_char t
       | _ \<Rightarrow> False))"

definition is_valid_agent_id :: "string \<Rightarrow> bool" where
  "is_valid_agent_id v = agent_id_matches (py_strip v)"

definition is_broadcast :: "string \<Rightarrow> bool" where
  "is_broadcast r = (py_lower r = ''broadcast'')"

definition recipient_ok :: "string \<Rightarrow> bool" where
  "recipient_ok r = (is_broadcast r \<or> is_valid_agent_id r)"

datatype recipient = One string | Many "string list"

definition normalized_recipients :: "nat \<Rightarrow> recipient \<Rightarrow> string list res" where
  "normalized_recipients max_recipients v =
     (case v of
        One s \<Rightarrow>
          let r = py_strip s in
          if r = [] then Inl (HTTPException 422)
          else if \<not> recipient_ok r then Inl (HTTPException 422)
          else Inr [r]
      | Many xs \<Rightarrow>
          let rs = filter (\<lambda>r. r \<noteq> []) (map py_strip xs) in
          if rs = [] then Inl (HTTPException 422)
          else if max_recipients < length rs then Inl (HTTPException 422)
          else if \<not> list_all recipient_ok rs then Inl (HTTPException 422)
          else Inr (sort (remdups rs)))"

definition channel_of :: "string \<Rightarrow> string \<Rightarrow> string" where
  "channel_of proto r =
     (if is_broadcast r then ''protocol:'' @ proto @ '':broadcast'' else ''protocol:'' @ proto @ '':'' @ r)"

definition resolve_channels :: "string \<Rightarrow> string list \<Rightarrow> string list" where
  "resolve_channels proto rs = sort (remdups (map (channel_of proto) rs))"

section \<open>Validation of documents\<close>

text \<open>The pydantic models of the bus as tables: a field has a type, its constraints and, when it may
  be missing, its default. The models forbid extra keys and are strict: no value is coerced, but an
  integer counts as a float.\<close>

datatype field_type =
    Text nat "nat option"
  | Literal "string list"
  | Document
  | Optional_Document
  | Texts
  | Documents
  | Unit_Float
  | Natural
  | Optional_Text "nat option"
  | Recipients

type_synonym model = "(string \<times> field_type \<times> pyval option) list"

definition short_enough :: "nat option \<Rightarrow> string \<Rightarrow> bool" where
  "short_enough m s = (case m of None \<Rightarrow> True | Some n \<Rightarrow> length s \<le> n)"

fun field_value :: "field_type \<Rightarrow> pyval \<Rightarrow> pyval option" where
  "field_value (Text lo hi) v =
     (case v of PStr s \<Rightarrow> if lo \<le> length s \<and> short_enough hi s then Some v else None | _ \<Rightarrow> None)"
| "field_value (Literal xs) v = (case v of PStr s \<Rightarrow> if s \<in> set xs then Some v else None | _ \<Rightarrow> None)"
| "field_value Document v = (if is_dict v then Some v else None)"
| "field_value Optional_Document v = (if is_dict v \<or> v = PNone then Some v else None)"
| "field_value Texts v = (if is_list v \<and> list_all is_str (list_or_empty v) then Some v else None)"
| "field_value Documents v = (if is_list v \<and> list_all is_dict (list_or_empty v) then Some v else None)"
| "field_value Unit_Float v =
     (case v of
        PInt i \<Rightarrow> if 0 \<le> i \<and> i \<le> 1 then Some (PFloat (rat_of_int i) (int_str i @ ''.0'')) else None
      | PFloat r _ \<Rightarrow> if 0 \<le> r \<and> r \<le> 1 then Some v else None
      | _ \<Rightarrow> None)"
| "field_value Natural v = (case v of PInt i \<Rightarrow> if 0 \<le> i then Some v else None | _ \<Rightarrow> None)"
| "field_value (Optional_Text hi) v =
     (case v of PNone \<Rightarrow> Some v | PStr s \<Rightarrow> if short_enough hi s then Some v else None | _ \<Rightarrow> None)"
| "field_value Recipients v =
     (if is_str v \<or> (is_list v \<and> list_all is_str (list_or_empty v)) then Some v else None)"

fun model_fields :: "model \<Rightarrow> pydict \<Rightarrow> pydict res" where
  "model_fields [] d = Inr []"
| "model_fields ((k, t, dflt) # m) d =
     rbind (case map_of d k of
              Some v \<Rightarrow> (case field_value t v of None \<Rightarrow> Inl ValidationError | Some w \<Rightarrow> Inr w)
            | None \<Rightarrow> (case dflt of None \<Rightarrow> Inl ValidationError | Some w \<Rightarrow> Inr w)) (\<lambda>w.
     rbind (model_fields m d) (\<lambda>rest. Inr ((k, w) # rest)))"

definition model_validate :: "model \<Rightarrow> pyval \<Rightarrow> pydict res" where
  "model_validate m v =
     (case v of
        PDict d \<Rightarrow> if set (dkeys d) \<subseteq> set (map fst m) then model_fields m d else Inl ValidationError
      | _ \<Rightarrow> Inl ValidationError)"

definition AlphaPayload :: model where
  "AlphaPayload =
     [(''schema_version'', Text 1 (Some 32), None), (''priority'', Literal PRIORITY_LEVELS, None),
      (''target_pod'', Text 1 (Some 64), None), (''directive_type'', Text 1 (Some 120), None),
      (''directive'', Document, Some (PDict [])), (''global_style_directives'', Texts, Some (PList [])),
      (''risk_assessment'', Optional_Document, Some PNone)]"

definition BetaPayload :: model where
  "BetaPayload =
     [(''schema_version'', Text 1 (Some 32), None), (''logicnode_id'', Text 1 (Some 120), None),
      (''confidence_score'', Unit_Float, None), (''source_language'', Text 1 (Some 64), None),
      (''payload'', Document, Some (PDict []))]"

definition DeltaPayload :: model where
  "DeltaPayload =
     [(''schema_version'', Text 1 (Some 32), None),
      (''audit_result'', Literal [''pass'', ''fail'', ''warning''], None),
      (''verification_method'', Text 1 (Some 120), None), (''tolerance_score'', Unit_Float, None),
      (''findings'', Document, Some (PDict []))]"

definition SigmaPayload :: model where
  "SigmaPayload =
     [(''schema_version'', Text 1 (Some 32), None), (''knowledge_type'', Text 1 (Some 120), None),
      (''embedding_ref'', Text 1 (Some 255), None), (''relevance_scope'', Text 1 (Some 120), None),
      (''content'', Document, Some (PDict []))]"

definition OmegaPayload :: model where
  "OmegaPayload =
     [(''schema_version'', Text 1 (Some 32), None), (''feature_contract'', Document, Some (PDict [])),
      (''visual_blueprint'', Document, Some (PDict [])), (''user_intent'', Text 1 (Some 2000), None),
      (''attachments'', Documents, Some (PList [])), (''global_style_directives'', Texts, Some (PList []))]"

definition RhoPayload :: model where
  "RhoPayload =
     [(''schema_version'', Text 1 (Some 32), None), (''token_budget'', Natural, None),
      (''rate_limit_action'', Text 1 (Some 120), None), (''agent_target'', Text 1 (Some 120), None),
      (''metadata'', Document, Some (PDict []))]"

definition SendMessageRequest :: model where
  "SendMessageRequest =
     [(''schema_version'', Text 1 (Some 32), Some (PStr ''v1'')), (''protocol'', Literal ALLOWED_PROTOCOLS, None),
      (''sender'', Text 1 (Some 120), None), (''recipient'', Recipients, None),
      (''correlation_id'', Optional_Text (Some 120), Some PNone),
      (''priority'', Literal PRIORITY_LEVELS, Some (PStr ''normal'')), (''payload'', Document, Some (PDict [])),
      (''traceparent'', Optional_Text None, Some PNone), (''tracestate'', Optional_Text None, Some PNone)]"

definition payload_models :: "(string \<times> model) list" where
  "payload_models =
     [(''alpha'', AlphaPayload), (''beta'', BetaPayload), (''delta'', DeltaPayload), (''sigma'', SigmaPayload),
      (''omega'', OmegaPayload), (''rho'', RhoPayload)]"

definition validate_protocol_payload :: "string \<Rightarrow> pydict \<Rightarrow> pydict res" where
  "validate_protocol_payload proto payload =
     (case map_of payload_models proto of
        None \<Rightarrow> Inl ValueError
      | Some m \<Rightarrow> model_validate m (PDict payload))"

section \<open>Message signatures\<close>

text \<open>\<open>signature_header.split(":", 1)\<close>.\<close>

fun split_colon :: "string \<Rightarrow> (string \<times> string) option" where
  "split_colon [] = None"
| "split_colon (c # s) =
     (if c = CHR '':'' then Some ([], s)
      else case split_colon s of None \<Rightarrow> None | Some (a, b) \<Rightarrow> Some (c # a, b))"

definition hex_char :: "char \<Rightarrow> bool" where
  "hex_char c = (c \<in> set ''0123456789abcdef'')"

definition signed_text :: "(pyval \<Rightarrow> string) \<Rightarrow> string \<Rightarrow> string \<Rightarrow> pydict \<Rightarrow> string" where
  "signed_text dumps_sorted aid ts payload = aid @ '':'' @ ts @ '':'' @ dumps_sorted (PDict payload)"

definition sign_agent_message ::
  "(string \<Rightarrow> string \<Rightarrow> string) \<Rightarrow> (pyval \<Rightarrow> string) \<Rightarrow> int \<Rightarrow> string \<Rightarrow> string \<Rightarrow> pydict \<Rightarrow> string res" where
  "sign_agent_message hmac dumps_sorted now_seconds aid secret payload =
     (if py_strip aid = [] then Inl ValueError
      else if secret = [] then Inl ValueError
      else let ts = int_str now_seconds
           in Inr (ts @ '':'' @ hmac secret (signed_text dumps_sorted aid ts payload)))"

definition verify_agent_message ::
  "(string \<Rightarrow> string \<Rightarrow> string) \<Rightarrow> (pyval \<Rightarrow> string) \<Rightarrow> rat \<Rightarrow> string \<Rightarrow> string \<Rightarrow> pydict \<Rightarrow> string \<Rightarrow> int \<Rightarrow> int
     \<Rightarrow> bool" where
  "verify_agent_message hmac dumps_sorted now aid secret payload header max_age skew =
     (if py_strip aid = [] \<or> secret = [] then False
      else if max_age \<le> 0 \<or> skew < 0 then False
      else case split_colon header of
        None \<Rightarrow> False
      | Some (ts, provided) \<Rightarrow>
          (case py_int_str ts of
             Inl _ \<Rightarrow> False
           | Inr t \<Rightarrow>
               let age = now - rat_of_int t in
               if rat_of_int max_age < age \<or> age < - rat_of_int skew then False
               else if length provided \<noteq> 64 \<or> \<not> list_all hex_char provided then False
               else provided = hmac secret (signed_text dumps_sorted aid ts payload)))"

text \<open>\<open>_agent_hmac_secret\<close>: the variable of \<open>AGENT-31-PYTHON\<close> is \<open>AGENT_HMAC_SECRET_31_PYTHON\<close>.\<close>

definition agent_hmac_secret :: "(string \<Rightarrow> string) \<Rightarrow> string \<Rightarrow> string option" where
  "agent_hmac_secret getenv aid =
     (let code = py_upper (py_strip aid);
          code = (if starts_with ''AGENT-'' code then drop 6 code else code);
          secret = py_strip (getenv (''AGENT_HMAC_SECRET_'' @ replace_char (CHR ''-'') (CHR ''_'') code))
      in if secret = [] then None else Some secret)"

section \<open>The bus and its requests\<close>

record bus =
  b_ready :: bool
  b_keys :: "string list"
  b_streams :: "pydict list dict"
  b_counters :: "(string \<times> string) list"

definition stream_of :: "bus \<Rightarrow> string \<Rightarrow> pydict list" where
  "stream_of b name = (case map_of (b_streams b) name of None \<Rightarrow> [] | Some es \<Rightarrow> es)"

definition count :: "string \<Rightarrow> string \<Rightarrow> bus \<Rightarrow> bus" where
  "count counter proto b = b\<lparr>b_counters := b_counters b @ [(counter, proto)]\<rparr>"

record bus_env =
  be_max_bytes :: nat
  be_max_recipients :: nat
  be_queue_limit :: nat
  be_api_key :: string
  be_signing :: bool
  be_max_age :: int
  be_getenv :: "string \<Rightarrow> string"
  be_hmac :: "string \<Rightarrow> string \<Rightarrow> string"
  be_dumps :: "pyval \<Rightarrow> string"
  be_dumps_sorted :: "pyval \<Rightarrow> string"
  be_error_text :: string

text \<open>A request with the clock and the fresh ids its handling reads.\<close>

record bus_request =
  rq_size :: nat
  rq_body :: "pyval option"
  rq_agent_id :: string
  rq_api_key :: string
  rq_signature :: string
  rq_traceparent :: pyval
  rq_tracestate :: pyval
  rq_now :: rat
  rq_stamp :: string
  rq_message_uuid :: string
  rq_correlation_uuid :: string

record bus_message =
  ms_protocol :: string
  ms_sender :: string
  ms_channels :: "string list"
  ms_correlation_id :: string
  ms_payload :: pydict
  ms_envelope :: pydict
  ms_body :: pydict

record send_response =
  sr_message_id :: string
  sr_schema_version :: pyval
  sr_protocol :: string
  sr_channels :: "string list"
  sr_queued_at :: string
  sr_deduplicated :: bool

section \<open>Accepting a message\<close>

definition recipient_of :: "pyval \<Rightarrow> recipient" where
  "recipient_of v = (case v of PStr s \<Rightarrow> One s | _ \<Rightarrow> Many (map str_of (list_or_empty v)))"

definition authenticate :: "bus_env \<Rightarrow> bus_request \<Rightarrow> string \<Rightarrow> pydict \<Rightarrow> unit res" where
  "authenticate env rq sender payload =
     (if \<not> is_valid_agent_id sender then Inl (HTTPException 422)
      else if be_api_key env \<noteq> [] \<and> py_strip (rq_api_key rq) \<noteq> be_api_key env then Inl (HTTPException 403)
      else if py_strip (rq_agent_id rq) \<noteq> sender then Inl (HTTPException 403)
      else if be_signing env
      then (if rq_signature rq = [] then Inl (HTTPException 401)
            else case agent_hmac_secret (be_getenv env) sender of
              None \<Rightarrow> Inl (HTTPException 401)
            | Some secret \<Rightarrow>
                if verify_agent_message (be_hmac env) (be_dumps_sorted env) (rq_now rq) sender secret payload
                     (rq_signature rq) (be_max_age env) 5
                then Inr () else Inl (HTTPException 401))
      else Inr ())"

text \<open>Everything before Redis is touched: the checks in the order of the handler, then the message.\<close>

definition accept_message :: "bus_env \<Rightarrow> bus_request \<Rightarrow> bus_message res" where
  "accept_message env rq =
     (if be_max_bytes env < rq_size rq then Inl (HTTPException 413)
      else case rq_body rq of
        None \<Rightarrow> Inl (HTTPException 400)
      | Some body \<Rightarrow>
          (case model_validate SendMessageRequest body of
             Inl e \<Rightarrow> Inl (HTTPException 422)
           | Inr req \<Rightarrow>
               let sender = str_of (dget req ''sender''); proto = str_of (dget req ''protocol'');
                   payload = dict_or_empty (dget req ''payload'')
               in rbind (authenticate env rq sender payload) (\<lambda>_.
                  rbind (normalized_recipients (be_max_recipients env) (recipient_of (dget req ''recipient''))) (\<lambda>rs.
                  case validate_protocol_payload proto payload of
                    Inl e \<Rightarrow> Inl (HTTPException 422)
                  | Inr protocol_payload \<Rightarrow>
                      let correlation_id =
                        py_or (dget req ''correlation_id'') (PStr (''corr-'' @ rq_correlation_uuid rq))
                      in Inr \<lparr>ms_protocol = proto, ms_sender = sender, ms_channels = resolve_channels proto rs,
                           ms_correlation_id = str_of correlation_id, ms_payload = protocol_payload,
                           ms_envelope =
                             [(''message_id'', PStr (''msg-'' @ rq_message_uuid rq)),
                              (''schema_version'', dget req ''schema_version''), (''protocol'', PStr proto),
                              (''sender'', PStr sender),
                              (''recipient'', if 1 < length rs then PList (map PStr rs) else PStr (hd rs)),
                              (''correlation_id'', correlation_id), (''priority'', dget req ''priority''),
                              (''timestamp'', PStr (rq_stamp rq)), (''payload'', PDict protocol_payload),
                              (''traceparent'', py_or (dget req ''traceparent'') (rq_traceparent rq)),
                              (''tracestate'', py_or (dget req ''tracestate'') (rq_tracestate rq))],
                           ms_body = dict_or_empty body\<rparr>))))"

section \<open>Publishing a message\<close>

datatype bus_call = ReplaySet | DedupSet | LenCall string | AddCall string | DeadLetterAdd

type_synonym outage = "bus_call \<Rightarrow> call_outcome"

type_synonym 'a bprog = "(bus, 'a) prog"

definition http :: "nat \<Rightarrow> 'a bprog" where
  "http code = lift_res (Inl (HTTPException code))"

text \<open>\<open>try: ... except Exception: raise HTTPException(503)\<close>.\<close>

definition or_503 :: "'a bprog \<Rightarrow> 'a bprog" where
  "or_503 m = (\<lambda>b. case m b of (Inl e, b') \<Rightarrow> (Inl (HTTPException 503), b') | (Inr x, b') \<Rightarrow> (Inr x, b'))"

text \<open>\<open>SET key NX EX\<close>: tells whether the key was new.\<close>

definition set_nx :: "string \<Rightarrow> bool bprog" where
  "set_nx key = (\<lambda>b. if key \<in> set (b_keys b) then (Inr False, b) else (Inr True, b\<lparr>b_keys := b_keys b @ [key]\<rparr>))"

definition dedup_key :: "string \<Rightarrow> string" where
  "dedup_key correlation_id = ''mcp:dedup:'' @ correlation_id"

definition replay_guard :: "outage \<Rightarrow> bus_message \<Rightarrow> unit bprog" where
  "replay_guard orc msg =
     bnd (or_503 (service (orc ReplaySet) (\<lambda>b.
            let (r, keys) = check_replay (ms_correlation_id msg) (b_keys b)
            in (Inr (r = Inr ()), b\<lparr>b_keys := keys\<rparr>)))) (\<lambda>fresh.
       if fresh then ret ()
       else bnd (\<lambda>b. (Inr (), count ''messages_replayed'' (ms_protocol msg) b)) (\<lambda>_. http 409))"

fun queue_depths :: "outage \<Rightarrow> string list \<Rightarrow> nat list bprog" where
  "queue_depths orc [] = ret []"
| "queue_depths orc (c # cs) =
     bnd (service (orc (LenCall c)) (\<lambda>b. (Inr (length (stream_of b c)), b))) (\<lambda>n.
     bnd (queue_depths orc cs) (\<lambda>ns. ret (n # ns)))"

definition xadd :: "string \<Rightarrow> pydict \<Rightarrow> unit bprog" where
  "xadd name entry = (\<lambda>b. (Inr (), b\<lparr>b_streams := dset name (stream_of b name @ [entry]) (b_streams b)\<rparr>))"

definition bus_entry :: "bus_env \<Rightarrow> bus_message \<Rightarrow> pydict" where
  "bus_entry env msg =
     [(''envelope'', PStr (be_dumps env (PDict (ms_envelope msg)))),
      (''payload'', PStr (be_dumps env (PDict (ms_payload msg)))), (''sender'', PStr (ms_sender msg))]"

fun publish_all :: "bus_env \<Rightarrow> outage \<Rightarrow> bus_message \<Rightarrow> string list \<Rightarrow> unit bprog" where
  "publish_all env orc msg [] = ret ()"
| "publish_all env orc msg (c # cs) =
     bnd (service (orc (AddCall c)) (xadd c (bus_entry env msg))) (\<lambda>_. publish_all env orc msg cs)"

definition bus_write_dlq :: "bus_env \<Rightarrow> outage \<Rightarrow> string \<Rightarrow> bus_message \<Rightarrow> unit bprog" where
  "bus_write_dlq env orc stamp msg =
     bnd (service (orc DeadLetterAdd) (xadd (''dlq:'' @ ms_protocol msg)
            [(''error'', PStr (be_error_text env)), (''payload'', PStr (be_dumps env (PDict (ms_body msg)))),
             (''ts'', PStr stamp)])) (\<lambda>_ b.
       (Inr (), count ''dlq_writes'' (ms_protocol msg) b))"

text \<open>The publishing block: a failure writes the dead letter and answers 503; when that write fails
  too, its own exception propagates.\<close>

definition publish :: "bus_env \<Rightarrow> outage \<Rightarrow> string \<Rightarrow> bus_message \<Rightarrow> unit bprog" where
  "publish env orc stamp msg = (\<lambda>b.
     case publish_all env orc msg (ms_channels msg) b of
       (Inr _, b') \<Rightarrow> (Inr (), count ''messages_queued'' (ms_protocol msg) b')
     | (Inl e, b') \<Rightarrow> bnd (bus_write_dlq env orc stamp msg) (\<lambda>_. http 503) b')"

definition response_of :: "bus_request \<Rightarrow> bus_message \<Rightarrow> bool \<Rightarrow> send_response" where
  "response_of rq msg dedup =
     \<lparr>sr_message_id = ''msg-'' @ rq_message_uuid rq, sr_schema_version = dget (ms_envelope msg) ''schema_version'',
      sr_protocol = ms_protocol msg, sr_channels = ms_channels msg, sr_queued_at = rq_stamp rq,
      sr_deduplicated = dedup\<rparr>"

definition send_message :: "bus_env \<Rightarrow> outage \<Rightarrow> bus_request \<Rightarrow> send_response bprog" where
  "send_message env orc rq = (case accept_message env rq of
     Inl e \<Rightarrow> lift_res (Inl e)
   | Inr msg \<Rightarrow> (\<lambda>b.
       if \<not> b_ready b then (Inl (HTTPException 503), b)
       else bnd (replay_guard orc msg) (\<lambda>_.
            bnd (or_503 (service (orc DedupSet) (set_nx (dedup_key (ms_correlation_id msg))))) (\<lambda>fresh.
            if \<not> fresh
            then bnd (\<lambda>b. (Inr (), count ''messages_deduplicated'' (ms_protocol msg) b)) (\<lambda>_.
                 ret (response_of rq msg True))
            else bnd (or_503 (queue_depths orc (ms_channels msg))) (\<lambda>depths.
                 if list_ex (\<lambda>n. be_queue_limit env < n) depths then http 503
                 else bnd (publish env orc (rq_stamp rq) msg) (\<lambda>_. ret (response_of rq msg False))))) b))"

text \<open>Keys whose time to live has passed.\<close>

definition expire_keys :: "string list \<Rightarrow> bus \<Rightarrow> bus" where
  "expire_keys ks b = b\<lparr>b_keys := filter (\<lambda>k. k \<notin> set ks) (b_keys b)\<rparr>"

section \<open>Reading the dead letters\<close>

text \<open>A Python slice \<open>xs[i:j]\<close>, negative bounds counted from the end.\<close>

definition slice_bound :: "nat \<Rightarrow> int \<Rightarrow> nat" where
  "slice_bound n i = nat (max 0 (min (int n) (if i < 0 then i + int n else i)))"

definition py_slice :: "int \<Rightarrow> int \<Rightarrow> 'a list \<Rightarrow> 'a list" where
  "py_slice i j xs = drop (slice_bound (length xs) i) (take (slice_bound (length xs) j) xs)"

text \<open>\<open>XREVRANGE\<close> with a count returns the newest entries, newest first.\<close>

definition list_dlq :: "bus \<Rightarrow> string \<Rightarrow> int \<Rightarrow> int \<Rightarrow> pydict list res" where
  "list_dlq b proto limit offset =
     (if proto \<notin> set ALLOWED_PROTOCOLS then Inl (HTTPException 422)
      else if \<not> b_ready b then Inl (HTTPException 503)
      else let entries = take (nat (min (max limit 1) 200)) (rev (stream_of b (''dlq:'' @ proto)))
           in Inr (py_slice offset (offset + limit) entries))"

section \<open>Requests one after the other\<close>

definition serve :: "bus_env \<Rightarrow> outage \<times> bus_request \<Rightarrow> bus \<Rightarrow> bus" where
  "serve env = (\<lambda>(orc, rq) b. snd (send_message env orc rq b))"

definition serve_all :: "bus_env \<Rightarrow> (outage \<times> bus_request) list \<Rightarrow> bus \<Rightarrow> bus" where
  "serve_all env rqs b = foldl (\<lambda>b r. serve env r b) b rqs"

section \<open>Lemmas\<close>

lemma resolve_channels_set: "set (resolve_channels proto rs) = channel_of proto ` set rs"
  and resolve_channels_sorted: "sorted (resolve_channels proto rs)"
  and resolve_channels_distinct: "distinct (resolve_channels proto rs)"
  by (simp_all add: resolve_channels_def)

lemma sort_Nil_iff [simp]: "sort xs = [] \<longleftrightarrow> xs = []"
  by (metis length_0_conv length_sort)

lemma normalized_recipients_ok:
  assumes "normalized_recipients n v = Inr rs"
  shows "rs \<noteq> []" and "\<forall>r \<in> set rs. recipient_ok r" and "sorted rs \<and> distinct rs"
  using assms
  by (auto simp: normalized_recipients_def Let_def list_all_iff split: recipient.splits if_splits)

lemma stream_of_dset [simp]:
  "stream_of (b\<lparr>b_streams := dset name es (b_streams b)\<rparr>) n = (if n = name then es else stream_of b n)"
  by (simp add: stream_of_def)

lemma stream_of_count [simp]: "stream_of (count c p b) n = stream_of b n"
  by (simp add: stream_of_def count_def)

lemma count_sel [simp]: "b_keys (count c p b) = b_keys b" "b_streams (count c p b) = b_streams b"
  "b_ready (count c p b) = b_ready b"
  by (simp_all add: count_def)

text \<open>What a run of the handler may change of the guards and of readiness.\<close>

definition guards_grow :: "bus \<Rightarrow> bus \<Rightarrow> bool" where
  "guards_grow b b' \<longleftrightarrow> set (b_keys b) \<subseteq> set (b_keys b') \<and> b_ready b' = b_ready b"

interpretation guards: preorder_rel guards_grow
  by unfold_locales (auto simp: guards_grow_def)

text \<open>Programs that leave the streams alone.\<close>

definition same_streams :: "bus \<Rightarrow> bus \<Rightarrow> bool" where
  "same_streams b b' \<longleftrightarrow> b_streams b' = b_streams b \<and> guards_grow b b'"

interpretation streams: preorder_rel same_streams
  by unfold_locales (auto simp: same_streams_def intro: guards.R_refl guards.R_trans)

lemma same_streams_guards: "keeps same_streams m \<Longrightarrow> keeps guards_grow m"
  by (simp add: keeps_def same_streams_def)

lemma keeps_streams_or_503 [keeps_intros]: "keeps same_streams m \<Longrightarrow> keeps same_streams (or_503 m)"
  unfolding keeps_def or_503_def by (auto split: prod.splits sum.splits) (metis snd_conv)+

lemma keeps_set_nx [keeps_intros]: "keeps same_streams (set_nx key)"
  by (auto simp: keeps_def set_nx_def same_streams_def guards_grow_def)

lemma keeps_count [keeps_intros]: "keeps same_streams (\<lambda>b. (Inr x, count c p b))"
  by (auto simp: keeps_def same_streams_def guards_grow_def)

lemma keeps_http [keeps_intros]: "keeps same_streams (http code)"
  unfolding http_def by (rule streams.keeps_lift)

lemma keeps_replay_guard [keeps_intros]: "keeps same_streams (replay_guard orc msg)"
proof -
  have "keeps same_streams (\<lambda>b. let (r, keys) = check_replay (ms_correlation_id msg) (b_keys b)
      in (Inr (r = Inr ()), b\<lparr>b_keys := keys\<rparr>))"
    by (auto simp: keeps_def check_replay_def same_streams_def guards_grow_def Let_def)
  then show ?thesis unfolding replay_guard_def by (intro keeps_intros)
qed

lemma keeps_depths [keeps_intros]: "keeps same_streams (queue_depths orc cs)"
proof (induction cs)
  case (Cons c cs)
  have "keeps same_streams (\<lambda>b. (Inr (length (stream_of b c)), b))"
    by (simp add: keeps_def streams.R_refl)
  with Cons show ?case by (auto intro!: keeps_intros streams.keeps_ret simp del: ret_app)
qed (simp add: streams.keeps_ret del: ret_app)

lemma keeps_bus_xadd [keeps_intros]: "keeps guards_grow (xadd name e)"
  by (simp add: keeps_def xadd_def guards_grow_def)

lemma keeps_publish_all [keeps_intros]: "keeps guards_grow (publish_all env orc msg cs)"
  by (induction cs) (auto intro!: keeps_intros guards.keeps_ret simp del: ret_app)

lemma keeps_publish [keeps_intros]: "keeps guards_grow (publish env orc stamp msg)"
proof -
  have dlq: "keeps guards_grow (bnd (bus_write_dlq env orc stamp msg) (\<lambda>_. http 503 :: unit bprog))"
    unfolding bus_write_dlq_def
    by (intro guards.keeps_bnd guards.keeps_service keeps_bus_xadd same_streams_guards [OF keeps_count]
        same_streams_guards [OF keeps_http])
  show ?thesis
    unfolding keeps_def
  proof
    fix b
    obtain r b1 where r: "publish_all env orc msg (ms_channels msg) b = (r, b1)" by fastforce
    have 1: "guards_grow b b1" by (rule keeps_result [OF keeps_publish_all r])
    have "guards_grow b1 (snd (publish env orc stamp msg b))"
      using keepsD [OF dlq, of b1] by (cases r) (auto simp: publish_def r guards_grow_def)
    with 1 show "guards_grow b (snd (publish env orc stamp msg b))" by (rule guards.R_trans)
  qed
qed

text \<open>The three parts of the handler: the guards, the queue check and the publication.\<close>

definition admit :: "bus_env \<Rightarrow> outage \<Rightarrow> bus_message \<Rightarrow> bool bprog" where
  "admit env orc msg = bnd (replay_guard orc msg) (\<lambda>_.
     or_503 (service (orc DedupSet) (set_nx (dedup_key (ms_correlation_id msg)))))"

definition deliver :: "bus_env \<Rightarrow> outage \<Rightarrow> bus_request \<Rightarrow> bus_message \<Rightarrow> send_response bprog" where
  "deliver env orc rq msg = bnd (or_503 (queue_depths orc (ms_channels msg))) (\<lambda>depths.
     if list_ex (\<lambda>n. be_queue_limit env < n) depths then http 503
     else bnd (publish env orc (rq_stamp rq) msg) (\<lambda>_. ret (response_of rq msg False)))"

lemma bnd_assoc: "bnd (bnd m f) g = bnd m (\<lambda>x. bnd (f x) g)"
  by (auto simp: bnd_def fun_eq_iff split: prod.split sum.split)

lemma send_message_eq:
  "send_message env orc rq = (case accept_message env rq of
     Inl e \<Rightarrow> lift_res (Inl e)
   | Inr msg \<Rightarrow> (\<lambda>b. if \<not> b_ready b then (Inl (HTTPException 503), b)
       else bnd (admit env orc msg) (\<lambda>fresh. if \<not> fresh
            then bnd (\<lambda>b. (Inr (), count ''messages_deduplicated'' (ms_protocol msg) b)) (\<lambda>_.
                 ret (response_of rq msg True))
            else deliver env orc rq msg) b))"
  unfolding send_message_def admit_def deliver_def bnd_assoc ..

lemma keeps_admit: "keeps same_streams (admit env orc msg)"
  unfolding admit_def by (intro keeps_intros)

lemma keeps_deliver: "keeps guards_grow (deliver env orc rq msg)"
  unfolding deliver_def
  by (intro guards.keeps_bnd guards.keeps_if guards.keeps_ret keeps_publish same_streams_guards [OF keeps_http]
      same_streams_guards [OF keeps_streams_or_503 [OF keeps_depths]])

lemma keeps_bus_send: "keeps guards_grow (send_message env orc rq)"
proof -
  have "keeps guards_grow (bnd (admit env orc msg) (\<lambda>fresh. if \<not> fresh
            then bnd (\<lambda>b. (Inr (), count ''messages_deduplicated'' (ms_protocol msg) b)) (\<lambda>_.
                 ret (response_of rq msg True))
            else deliver env orc rq msg))" for msg
    by (intro guards.keeps_bnd guards.keeps_if guards.keeps_ret keeps_deliver
        same_streams_guards [OF keeps_admit] same_streams_guards [OF keeps_count])
  then show ?thesis
    unfolding send_message_eq keeps_def by (auto simp: guards.R_refl split: sum.split)
qed

lemma keeps_serve_all: "guards_grow b (serve_all env rqs b)"
proof (induction rqs arbitrary: b)
  case (Cons r rqs)
  have "guards_grow b (serve env r b)"
    using keepsD [OF keeps_bus_send] by (simp add: serve_def case_prod_beta)
  with Cons show ?case by (auto simp: serve_all_def intro: guards.R_trans)
qed (simp add: serve_all_def guards.R_refl)

text \<open>A recorded correlation id is refused.\<close>

lemma replayed:
  assumes "REPLAY_KEY_PREFIX @ ms_correlation_id msg \<in> set (b_keys b)"
  shows "fst (admit env orc msg b) \<in> {Inl (HTTPException 409), Inl (HTTPException 503)}"
    and "orc ReplaySet = Done \<Longrightarrow> fst (admit env orc msg b) = Inl (HTTPException 409)"
  using assms
  by (cases "orc ReplaySet"; simp add: admit_def replay_guard_def bnd_def or_503_def service_def check_replay_def
      Let_def http_def)+

lemma admitted_records:
  assumes "admit env orc msg b = (Inr fresh, b')"
  shows "REPLAY_KEY_PREFIX @ ms_correlation_id msg \<notin> set (b_keys b)
    \<and> REPLAY_KEY_PREFIX @ ms_correlation_id msg \<in> set (b_keys b')
    \<and> dedup_key (ms_correlation_id msg) \<in> set (b_keys b')
    \<and> (fresh = (dedup_key (ms_correlation_id msg) \<notin> set (b_keys b)))"
proof -
  obtain u b1 where 1: "replay_guard orc msg b = (Inr u, b1)"
    and 2: "or_503 (service (orc DedupSet) (set_nx (dedup_key (ms_correlation_id msg)))) b1 = (Inr fresh, b')"
    using assms unfolding admit_def by (elim bnd_result)
  have k: "REPLAY_KEY_PREFIX @ ms_correlation_id msg \<notin> set (b_keys b)"
    "b_keys b1 = b_keys b @ [REPLAY_KEY_PREFIX @ ms_correlation_id msg]"
    using 1 by (cases "orc ReplaySet"; auto simp: replay_guard_def bnd_def or_503_def service_def check_replay_def
        Let_def http_def split: if_splits)+
  have "service (orc DedupSet) (set_nx (dedup_key (ms_correlation_id msg))) b1 = (Inr fresh, b')"
    using 2 by (auto simp: or_503_def split: prod.splits sum.splits)
  from service_result [OF this] k show ?thesis
    by (auto simp: set_nx_def dedup_key_def REPLAY_KEY_PREFIX_def split: if_splits)
qed

lemma published:
  assumes "publish env orc stamp msg b = (Inr u, b')" and "distinct (ms_channels msg)"
  shows "stream_of b' n = stream_of b n @ (if n \<in> set (ms_channels msg) then [bus_entry env msg] else [])"
proof -
  have all: "stream_of b' n = stream_of b n @ (if n \<in> set cs then [bus_entry env msg] else [])"
    if "publish_all env orc msg cs b = (Inr v, b')" "distinct cs" for cs b b' v
    using that
  proof (induction cs arbitrary: b)
    case (Cons c cs)
    then obtain b1 where "xadd c (bus_entry env msg) b = (Inr (), b1)" "publish_all env orc msg cs b1 = (Inr v, b')"
      by (auto elim!: bnd_result dest!: service_result)
    with Cons.IH [of b1] Cons.prems(2) show ?case by (auto simp: xadd_def)
  qed simp
  obtain b1 where "publish_all env orc msg (ms_channels msg) b = (Inr (), b1)" "b' = count ''messages_queued'' (ms_protocol msg) b1"
    using assms(1) by (auto simp: publish_def http_def elim!: bnd_result split: prod.splits sum.splits)
  with all [OF this(1) assms(2)] show ?thesis by simp
qed

lemma accepted:
  assumes "accept_message env rq = Inr msg"
  shows "distinct (ms_channels msg) \<and> ms_channels msg \<noteq> [] \<and> sorted (ms_channels msg)
    \<and> ms_sender msg = py_strip (rq_agent_id rq) \<and> is_valid_agent_id (ms_sender msg)
    \<and> (be_api_key env = [] \<or> py_strip (rq_api_key rq) = be_api_key env)"
proof -
  obtain body req rs pl where req: "rq_body rq = Some body" "model_validate SendMessageRequest body = Inr req"
    and auth: "authenticate env rq (str_of (dget req ''sender'')) (dict_or_empty (dget req ''payload'')) = Inr ()"
    and rs: "normalized_recipients (be_max_recipients env) (recipient_of (dget req ''recipient'')) = Inr rs"
    and msg: "ms_channels msg = resolve_channels (str_of (dget req ''protocol'')) rs"
      "ms_sender msg = str_of (dget req ''sender'')"
    using assms
    by (auto simp: accept_message_def Let_def rbind_Inr_iff split: if_splits option.splits sum.splits)
  have "rs \<noteq> []" using normalized_recipients_ok(1) [OF rs] .
  then have "ms_channels msg \<noteq> []"
    using resolve_channels_set [of "str_of (dget req ''protocol'')" rs] msg(1) by auto
  moreover have "ms_sender msg = py_strip (rq_agent_id rq) \<and> is_valid_agent_id (ms_sender msg)
      \<and> (be_api_key env = [] \<or> py_strip (rq_api_key rq) = be_api_key env)"
    using auth msg(2) by (auto simp: authenticate_def split: if_splits)
  ultimately show ?thesis
    using resolve_channels_distinct resolve_channels_sorted unfolding msg(1) by blast
qed

lemma send_accepted:
  assumes "accept_message env rq = Inr msg" and "b_ready b"
  shows "send_message env orc rq b = bnd (admit env orc msg) (\<lambda>fresh. if \<not> fresh
            then bnd (\<lambda>b. (Inr (), count ''messages_deduplicated'' (ms_protocol msg) b)) (\<lambda>_.
                 ret (response_of rq msg True))
            else deliver env orc rq msg) b"
  using assms by (simp add: send_message_eq)

lemma send_replayed:
  assumes "accept_message env rq = Inr msg" and "REPLAY_KEY_PREFIX @ ms_correlation_id msg \<in> set (b_keys b)"
  shows "b_streams (snd (send_message env orc rq b)) = b_streams b"
    and "fst (send_message env orc rq b) \<in> {Inl (HTTPException 409), Inl (HTTPException 503)}"
    and "b_ready b \<Longrightarrow> orc ReplaySet = Done \<Longrightarrow> fst (send_message env orc rq b) = Inl (HTTPException 409)"
proof -
  obtain r b1 where a: "admit env orc msg b = (r, b1)" by fastforce
  have st: "b_streams b1 = b_streams b"
    using keeps_result [OF keeps_admit a] by (simp add: same_streams_def)
  from replayed [OF assms(2), where env = env and orc = orc] a obtain e where r: "r = Inl e"
    "e \<in> {HTTPException 409, HTTPException 503}" "orc ReplaySet = Done \<Longrightarrow> e = HTTPException 409" by auto
  then have "b_ready b \<Longrightarrow> send_message env orc rq b = (Inl e, b1)"
    using send_accepted [OF assms(1)] a by (simp add: bnd_def)
  moreover have "\<not> b_ready b \<Longrightarrow> send_message env orc rq b = (Inl (HTTPException 503), b)"
    using assms(1) by (simp add: send_message_eq)
  ultimately show "b_streams (snd (send_message env orc rq b)) = b_streams b"
    "fst (send_message env orc rq b) \<in> {Inl (HTTPException 409), Inl (HTTPException 503)}"
    "b_ready b \<Longrightarrow> orc ReplaySet = Done \<Longrightarrow> fst (send_message env orc rq b) = Inl (HTTPException 409)"
    using st r by (cases "b_ready b"; simp)+
qed

lemma streams_changed_records:
  assumes "accept_message env rq = Inr msg" and "b_streams (snd (send_message env orc rq b)) \<noteq> b_streams b"
  shows "REPLAY_KEY_PREFIX @ ms_correlation_id msg \<in> set (b_keys (snd (send_message env orc rq b)))"
proof -
  have ready: "b_ready b"
    using assms by (auto simp: send_message_eq split: if_splits)
  obtain r b1 where a: "admit env orc msg b = (r, b1)" by fastforce
  show ?thesis
  proof (cases r)
    case (Inl e)
    then have "snd (send_message env orc rq b) = b1"
      using send_accepted [OF assms(1) ready] a by (simp add: bnd_def)
    then show ?thesis using keeps_result [OF keeps_admit a] assms(2) by (simp add: same_streams_def)
  next
    case (Inr fresh)
    have rec: "REPLAY_KEY_PREFIX @ ms_correlation_id msg \<in> set (b_keys b1)"
      using admitted_records a Inr by blast
    show ?thesis
    proof (cases fresh)
      case True
      then have "snd (send_message env orc rq b) = snd (deliver env orc rq msg b1)"
        using send_accepted [OF assms(1) ready] a Inr by (simp add: bnd_def)
      then show ?thesis using rec keepsD [OF keeps_deliver, of b1 env orc rq msg] by (auto simp: guards_grow_def)
    next
      case False
      then show ?thesis
        using send_accepted [OF assms(1) ready] a Inr rec by (simp add: bnd_def)
    qed
  qed
qed

text \<open>Both guards record a correlation id together, the replay guard first.\<close>

definition guards_paired :: "bus \<Rightarrow> bool" where
  "guards_paired b \<longleftrightarrow> (\<forall>c. dedup_key c \<in> set (b_keys b) \<longrightarrow> REPLAY_KEY_PREFIX @ c \<in> set (b_keys b))"

lemma dedup_key_inj [simp]: "dedup_key c = dedup_key d \<longleftrightarrow> c = d"
  by (simp add: dedup_key_def)

lemma replay_not_dedup [simp]: "REPLAY_KEY_PREFIX @ c \<noteq> dedup_key d" "dedup_key d \<noteq> REPLAY_KEY_PREFIX @ c"
  by (simp_all add: dedup_key_def REPLAY_KEY_PREFIX_def)

text \<open>A program that adds no keys.\<close>

definition same_keys :: "bus \<Rightarrow> bus \<Rightarrow> bool" where
  "same_keys b b' \<longleftrightarrow> b_keys b' = b_keys b"

interpretation keys: preorder_rel same_keys
  by unfold_locales (simp_all add: same_keys_def)

lemma keeps_keys_deliver: "keeps same_keys (deliver env orc rq msg)"
proof -
  have xadd: "keeps same_keys (xadd n e)" for n e by (simp add: keeps_def xadd_def same_keys_def)
  have cnt: "keeps same_keys (\<lambda>b. (Inr x, count c p b))" for x c p
    by (simp add: keeps_def same_keys_def)
  have http: "keeps same_keys (http code)" for code unfolding http_def by (rule keys.keeps_lift)
  have all: "keeps same_keys (publish_all env orc msg cs)" for cs
    by (induction cs) (auto intro!: keys.keeps_bnd keys.keeps_service xadd keys.keeps_ret simp del: ret_app)
  have dlq: "keeps same_keys (bnd (bus_write_dlq env orc st msg) (\<lambda>_. http 503 :: unit bprog))" for st
    unfolding bus_write_dlq_def by (intro keys.keeps_bnd keys.keeps_service xadd cnt http)
  have pub: "keeps same_keys (publish env orc st msg)" for st
    unfolding keeps_def
  proof
    fix b
    obtain r b1 where r: "publish_all env orc msg (ms_channels msg) b = (r, b1)" by fastforce
    have "same_keys b b1" by (rule keeps_result [OF all r])
    then show "same_keys b (snd (publish env orc st msg b))"
      using keepsD [OF dlq, of b1] by (cases r) (auto simp: publish_def r same_keys_def)
  qed
  have depths: "keeps same_keys (queue_depths orc cs)" for cs
  proof (induction cs)
    case (Cons c cs)
    have "keeps same_keys (\<lambda>b. (Inr (length (stream_of b c)), b))" by (simp add: keeps_def same_keys_def)
    with Cons show ?case by (auto intro!: keys.keeps_bnd keys.keeps_service keys.keeps_ret simp del: ret_app)
  qed (simp add: keys.keeps_ret del: ret_app)
  have or: "keeps same_keys (or_503 m)" if "keeps same_keys m" for m :: "'x bprog"
    using that unfolding keeps_def or_503_def by (auto split: prod.splits sum.splits) (metis snd_conv)+
  show ?thesis
    unfolding deliver_def
    by (intro keys.keeps_bnd keys.keeps_if keys.keeps_ret or depths pub http)
qed

lemma admit_paired:
  assumes "guards_paired b" and "admit env orc msg b = (r, b')"
  shows "guards_paired b'"
  using assms
  by (cases "orc ReplaySet"; cases "orc DedupSet";
      auto simp: admit_def replay_guard_def bnd_def or_503_def service_def check_replay_def Let_def http_def
        set_nx_def guards_paired_def split: if_splits)

lemma send_paired:
  assumes "guards_paired b" and "send_message env orc rq b = (r, b')"
  shows "guards_paired b' \<and> (\<forall>resp. r = Inr resp \<longrightarrow> \<not> sr_deduplicated resp)"
proof (cases "accept_message env rq")
  case (Inl e)
  then show ?thesis using assms by (auto simp: send_message_eq)
next
  case (Inr msg)
  show ?thesis
  proof (cases "b_ready b")
    case False
    then show ?thesis using assms Inr by (auto simp: send_message_eq)
  next
    case True
    obtain a b1 where a: "admit env orc msg b = (a, b1)" by fastforce
    have p1: "guards_paired b1" by (rule admit_paired [OF assms(1) a])
    show ?thesis
    proof (cases a)
      case (Inl e)
      then show ?thesis using assms(2) send_accepted [OF Inr True] a p1 by (auto simp: bnd_def)
    next
      case fresh: (Inr fresh)
      have "fresh" using admitted_records a assms(1) unfolding fresh guards_paired_def by blast
      then have d: "deliver env orc rq msg b1 = (r, b')"
        using assms(2) send_accepted [OF Inr True] a fresh by (simp add: bnd_def)
      have "guards_paired b'"
        using keeps_result [OF keeps_keys_deliver d] p1 by (simp add: same_keys_def guards_paired_def)
      moreover have "\<not> sr_deduplicated resp" if "r = Inr resp" for resp
        using d that unfolding deliver_def
        by (auto simp: response_of_def http_def elim!: bnd_result split: if_splits)
      ultimately show ?thesis by blast
    qed
  qed
qed

lemma serve_all_paired: "guards_paired b \<Longrightarrow> guards_paired (serve_all env rqs b)"
proof (induction rqs arbitrary: b)
  case (Cons r rqs)
  have "guards_paired (serve env r b)"
    using send_paired [OF Cons.prems prod.collapse [symmetric]] by (simp add: serve_def case_prod_beta)
  with Cons.IH show ?case by (simp add: serve_all_def)
qed (simp add: serve_all_def)

section \<open>Properties\<close>

definition sample_bus_env :: bus_env where
  "sample_bus_env = \<lparr>be_max_bytes = 20, be_max_recipients = 2, be_queue_limit = 1, be_api_key = ''key'',
     be_signing = False, be_max_age = 60, be_getenv = (\<lambda>_. []), be_hmac = (\<lambda>_ _. []),
     be_dumps = (\<lambda>_. ''json''), be_dumps_sorted = (\<lambda>_. ''json''), be_error_text = ''error''\<rparr>"

definition sample_request :: bus_request where
  "sample_request = \<lparr>rq_size = 10, rq_body = Some (PDict
       [(''protocol'', PStr ''delta''), (''sender'', PStr ''AGENT-12-PODA-MGR''), (''recipient'', PStr ''broadcast''),
        (''correlation_id'', PStr ''delta-m1-poda''),
        (''payload'', PDict [(''schema_version'', PStr ''v1''), (''audit_result'', PStr ''pass''),
           (''verification_method'', PStr ''pod_audit''), (''tolerance_score'', PInt 1),
           (''findings'', PDict [(''mission_id'', PStr ''m1'')])])]),
     rq_agent_id = ''AGENT-12-PODA-MGR'', rq_api_key = ''key'', rq_signature = [], rq_traceparent = PNone,
     rq_tracestate = PNone, rq_now = 0, rq_stamp = ''t'', rq_message_uuid = ''u1'', rq_correlation_uuid = ''u2''\<rparr>"

definition sample_bus :: bus where
  "sample_bus = \<lparr>b_ready = True, b_keys = [], b_streams = [], b_counters = []\<rparr>"

definition sample_message :: bus_message where
  "sample_message = (case accept_message sample_bus_env sample_request of Inr m \<Rightarrow> m)"

lemma sample_accepted: "accept_message sample_bus_env sample_request = Inr sample_message"
proof -
  have "\<not> isl (accept_message sample_bus_env sample_request)" by code_simp
  then show ?thesis by (cases "accept_message sample_bus_env sample_request") (simp_all add: sample_message_def)
qed

lemma sent_delivered:
  assumes "send_message env orc rq b = (Inr resp, b')"
  shows "\<exists>msg. accept_message env rq = Inr msg \<and> sr_channels resp = ms_channels msg
    \<and> ms_sender msg = py_strip (rq_agent_id rq) \<and> is_valid_agent_id (ms_sender msg)
    \<and> (be_api_key env = [] \<or> py_strip (rq_api_key rq) = be_api_key env)
    \<and> ms_channels msg \<noteq> [] \<and> distinct (ms_channels msg)
    \<and> (if sr_deduplicated resp then b_streams b' = b_streams b
       else \<forall>n. stream_of b' n = stream_of b n @ (if n \<in> set (ms_channels msg) then [bus_entry env msg] else []))"
proof -
  obtain msg where msg: "accept_message env rq = Inr msg" and ready: "b_ready b"
    using assms by (auto simp: send_message_eq split: sum.splits if_splits)
  obtain fresh b1 where a: "admit env orc msg b = (Inr fresh, b1)"
    and rest: "(if \<not> fresh
            then bnd (\<lambda>b. (Inr (), count ''messages_deduplicated'' (ms_protocol msg) b)) (\<lambda>_.
                 ret (response_of rq msg True))
            else deliver env orc rq msg) b1 = (Inr resp, b')"
    using assms unfolding send_accepted [OF msg ready] by (elim bnd_result)
  have st: "b_streams b1 = b_streams b" using keeps_result [OF keeps_admit a] by (simp add: same_streams_def)
  then have str: "stream_of b1 n = stream_of b n" for n by (simp add: stream_of_def)
  note ok = accepted [OF msg]
  show ?thesis
  proof (cases fresh)
    case False
    with rest have "resp = response_of rq msg True" "b_streams b' = b_streams b1" by (auto simp: bnd_def)
    with msg ok st show ?thesis by (auto simp: response_of_def)
  next
    case True
    then obtain ds b2 where d: "or_503 (queue_depths orc (ms_channels msg)) b1 = (Inr ds, b2)"
      and p: "bnd (publish env orc (rq_stamp rq) msg) (\<lambda>_. ret (response_of rq msg False)) b2 = (Inr resp, b')"
      using rest by (auto simp: deliver_def http_def elim!: bnd_result split: if_splits)
    have "b_streams b2 = b_streams b1"
      using keeps_result [OF keeps_streams_or_503 [OF keeps_depths] d] by (simp add: same_streams_def)
    then have str2: "stream_of b2 n = stream_of b n" for n by (simp add: stream_of_def st)
    obtain u where "publish env orc (rq_stamp rq) msg b2 = (Inr u, b')" and resp: "resp = response_of rq msg False"
      using p by (auto elim!: bnd_result)
    from published [OF this(1)] ok str2 msg resp show ?thesis by (auto simp: response_of_def)
  qed
qed

text \<open>A message answered 200 was authenticated and delivered.\<close>

theorem bus_answer_delivers:
  assumes "send_message env orc rq b = (Inr resp, b')"
  shows "\<exists>msg. accept_message env rq = Inr msg \<and> sr_channels resp = ms_channels msg
    \<and> ms_sender msg = py_strip (rq_agent_id rq) \<and> is_valid_agent_id (ms_sender msg)
    \<and> (be_api_key env = [] \<or> py_strip (rq_api_key rq) = be_api_key env)
    \<and> ms_channels msg \<noteq> [] \<and> distinct (ms_channels msg)
    \<and> (if sr_deduplicated resp then b_streams b' = b_streams b
       else \<forall>n. stream_of b' n = stream_of b n @ (if n \<in> set (ms_channels msg) then [bus_entry env msg] else []))"
  by (rule sent_delivered [OF assms])

theorem bus_answer_delivers_witness:
  "\<exists>resp b'. send_message sample_bus_env (\<lambda>_. Done) sample_request sample_bus = (Inr resp, b')
     \<and> length (stream_of b' ''protocol:delta:broadcast'') = 1"
proof -
  obtain r b' where s: "send_message sample_bus_env (\<lambda>_. Done) sample_request sample_bus = (r, b')" by fastforce
  have "case fst (send_message sample_bus_env (\<lambda>_. Done) sample_request sample_bus) of
      Inl _ \<Rightarrow> False | Inr resp \<Rightarrow> \<not> sr_deduplicated resp \<and> sr_channels resp = [''protocol:delta:broadcast'']"
    by code_simp
  then obtain resp where r: "r = Inr resp" "\<not> sr_deduplicated resp"
    "sr_channels resp = [''protocol:delta:broadcast'']"
    using s by (auto split: sum.splits)
  have run: "send_message sample_bus_env (\<lambda>_. Done) sample_request sample_bus = (Inr resp, b')" using s r by simp
  obtain msg where m: "sr_channels resp = ms_channels msg" "if sr_deduplicated resp then b_streams b' = b_streams sample_bus
      else \<forall>n. stream_of b' n = stream_of sample_bus n
        @ (if n \<in> set (ms_channels msg) then [bus_entry sample_bus_env msg] else [])"
    using bus_answer_delivers [OF run] by (elim exE conjE)
  have "stream_of b' ''protocol:delta:broadcast'' = stream_of sample_bus ''protocol:delta:broadcast''
      @ [bus_entry sample_bus_env msg]"
    using m(2) r(2,3) by (simp flip: m(1))
  then have "length (stream_of b' ''protocol:delta:broadcast'') = 1"
    by (simp add: sample_bus_def stream_of_def)
  with run show ?thesis by blast
qed

text \<open>C35. A correlation id publishes once: after a request has changed any stream, every later request with
  the same correlation id, whatever comes in between and as long as the guard keys live, leaves all
  streams unchanged and is answered 409, or 503 when Redis fails.\<close>

theorem bus_publishes_once:
  assumes "accept_message env rq = Inr msg" and "accept_message env rq' = Inr msg'"
    and "ms_correlation_id msg' = ms_correlation_id msg"
    and "b_streams (serve env (orc, rq) b) \<noteq> b_streams b"
    and "send_message env orc' rq' (serve_all env rqs (serve env (orc, rq) b)) = (r, b')"
  shows "b_streams b' = b_streams (serve_all env rqs (serve env (orc, rq) b))
    \<and> r \<in> {Inl (HTTPException 409), Inl (HTTPException 503)}"
proof -
  let ?b1 = "serve env (orc, rq) b"
  have "REPLAY_KEY_PREFIX @ ms_correlation_id msg \<in> set (b_keys ?b1)"
    using streams_changed_records [OF assms(1)] assms(4) by (simp add: serve_def)
  then have "REPLAY_KEY_PREFIX @ ms_correlation_id msg' \<in> set (b_keys (serve_all env rqs ?b1))"
    using keeps_serve_all [of ?b1 env rqs] assms(3) by (auto simp: guards_grow_def)
  from send_replayed(1,2) [OF assms(2) this, of orc'] assms(5) show ?thesis by simp
qed

theorem bus_publishes_once_witness:
  "fst (send_message sample_bus_env (\<lambda>_. Done) sample_request
     (serve_all sample_bus_env [] (serve sample_bus_env (\<lambda>_. Done, sample_request) sample_bus)))
   \<in> {Inl (HTTPException 409), Inl (HTTPException 503)}"
proof -
  have "map fst (b_streams (serve sample_bus_env (\<lambda>_. Done, sample_request) sample_bus)) \<noteq> map fst (b_streams sample_bus)"
    by code_simp
  then have changed: "b_streams (serve sample_bus_env (\<lambda>_. Done, sample_request) sample_bus) \<noteq> b_streams sample_bus"
    by auto
  from bus_publishes_once [OF sample_accepted sample_accepted refl changed, of "\<lambda>_. Done" "[]"]
  show ?thesis by (metis prod.collapse)
qed

text \<open>A request that is turned away by backpressure cannot be retried: it is told 503 and to come back,
  but its correlation id is already recorded, so the same request is answered 409 for as long as the
  key lives, with whatever other requests in between and however empty the queues are by then.\<close>

theorem backpressure_burns_correlation_id:
  assumes "accept_message env rq = Inr msg" and "b_ready b"
    and "REPLAY_KEY_PREFIX @ ms_correlation_id msg \<notin> set (b_keys b)"
    and "dedup_key (ms_correlation_id msg) \<notin> set (b_keys b)"
    and "c \<in> set (ms_channels msg)" and "be_queue_limit env < length (stream_of b c)"
  shows "fst (send_message env (\<lambda>_. Done) rq b) = Inl (HTTPException 503)
    \<and> b_streams (serve env (\<lambda>_. Done, rq) b) = b_streams b
    \<and> fst (send_message env (\<lambda>_. Done) rq (serve_all env rqs (serve env (\<lambda>_. Done, rq) b)
          \<lparr>b_streams := drained\<rparr>)) = Inl (HTTPException 409)"
proof -
  let ?orc = "\<lambda>_. Done :: call_outcome"
  obtain b1 where a: "admit env ?orc msg b = (Inr True, b1)" and st: "b_streams b1 = b_streams b"
    using assms(3,4)
    by (auto simp: admit_def replay_guard_def bnd_def or_503_def service_def check_replay_def Let_def set_nx_def)
  have depths: "queue_depths ?orc cs b = (Inr (map (\<lambda>c. length (stream_of b c)) cs), b)" for cs b
    by (induction cs) (simp_all add: bnd_def service_def)
  have "list_ex (\<lambda>n. be_queue_limit env < n) (map (\<lambda>c. length (stream_of b1 c)) (ms_channels msg))"
    using assms(5,6) st by (auto simp: list_ex_iff stream_of_def)
  then have "deliver env ?orc rq msg b1 = (Inl (HTTPException 503), b1)"
    by (simp add: deliver_def or_503_def depths bnd_def http_def)
  then have send: "send_message env ?orc rq b = (Inl (HTTPException 503), b1)"
    using send_accepted [OF assms(1,2)] a by (simp add: bnd_def)
  have "REPLAY_KEY_PREFIX @ ms_correlation_id msg \<in> set (b_keys b1)" using admitted_records [OF a] by blast
  moreover have "guards_grow b1 (serve_all env rqs b1)" by (rule keeps_serve_all)
  moreover have "b_ready b1" using keeps_result [OF keeps_admit a] assms(2)
    by (simp add: same_streams_def guards_grow_def)
  ultimately have "REPLAY_KEY_PREFIX @ ms_correlation_id msg \<in> set (b_keys (serve_all env rqs b1 \<lparr>b_streams := drained\<rparr>))"
    "b_ready (serve_all env rqs b1 \<lparr>b_streams := drained\<rparr>)"
    by (auto simp: guards_grow_def)
  from send_replayed(3) [OF assms(1) this] send st show ?thesis by (simp add: serve_def)
qed

definition full_bus :: bus where
  "full_bus = sample_bus\<lparr>b_streams := [(''protocol:delta:broadcast'', [[], []])]\<rparr>"

theorem backpressure_burns_correlation_id_witness:
  "fst (send_message sample_bus_env (\<lambda>_. Done) sample_request full_bus) = Inl (HTTPException 503)
   \<and> fst (send_message sample_bus_env (\<lambda>_. Done) sample_request
       (serve sample_bus_env (\<lambda>_. Done, sample_request) full_bus \<lparr>b_streams := []\<rparr>)) = Inl (HTTPException 409)"
proof -
  have "ms_channels sample_message = [''protocol:delta:broadcast'']" by code_simp
  then have c: "''protocol:delta:broadcast'' \<in> set (ms_channels sample_message)" by simp
  have "b_ready full_bus" "REPLAY_KEY_PREFIX @ ms_correlation_id sample_message \<notin> set (b_keys full_bus)"
    "dedup_key (ms_correlation_id sample_message) \<notin> set (b_keys full_bus)"
    "be_queue_limit sample_bus_env < length (stream_of full_bus ''protocol:delta:broadcast'')"
    by (simp_all add: full_bus_def sample_bus_def sample_bus_env_def stream_of_def)
  from backpressure_burns_correlation_id [OF sample_accepted this(1-3) c this(4), of "[]" "[]"]
  show ?thesis by (simp add: serve_all_def)
qed

text \<open>Duplicates are never acknowledged as such: the replay guard runs first and records every id the
  deduplication guard records, so from a bus with no keys no sequence of requests is ever answered
  200 with \<open>deduplicated\<close>.\<close>

theorem bus_never_deduplicates:
  assumes "b_keys b = []"
  shows "fst (send_message env orc rq (serve_all env rqs b)) = Inr resp \<longrightarrow> \<not> sr_deduplicated resp"
proof -
  have "guards_paired (serve_all env rqs b)"
    by (rule serve_all_paired) (simp add: assms guards_paired_def)
  from send_paired [OF this prod.collapse [symmetric]] show ?thesis by blast
qed

theorem bus_never_deduplicates_witness:
  "\<exists>resp. fst (send_message sample_bus_env (\<lambda>_. Done) sample_request (serve_all sample_bus_env [] sample_bus)) = Inr resp
     \<and> \<not> sr_deduplicated resp"
proof -
  have "\<not> isl (fst (send_message sample_bus_env (\<lambda>_. Done) sample_request (serve_all sample_bus_env [] sample_bus)))"
    by code_simp
  then obtain resp where r: "fst (send_message sample_bus_env (\<lambda>_. Done) sample_request
      (serve_all sample_bus_env [] sample_bus)) = Inr resp"
    by (auto simp: isl_def) (metis sum.exhaust_sel)
  have "b_keys sample_bus = []" by (simp add: sample_bus_def)
  from bus_never_deduplicates [OF this] r show ?thesis by blast
qed

text \<open>Dead letters past the first page cannot be read: the handler fetches \<open>limit\<close> entries and then
  slices from \<open>offset\<close>, so every page that does not overlap the first is empty, whatever the stream
  holds.\<close>

theorem dlq_later_pages_empty:
  assumes "proto \<in> set ALLOWED_PROTOCOLS" and "b_ready b" and "1 \<le> limit" and "limit \<le> offset"
  shows "list_dlq b proto limit offset = Inr []"
proof -
  define es where "es = take (nat (min (max limit 1) 200)) (rev (stream_of b (''dlq:'' @ proto)))"
  have "length es \<le> nat (min (max limit 1) 200)" by (simp add: es_def)
  then have "int (length es) \<le> offset" using assms(3,4) by linarith
  then have "slice_bound (length es) offset = length es" using assms(3,4) by (simp add: slice_bound_def)
  then have "py_slice offset (offset + limit) es = []" by (simp add: py_slice_def)
  with assms(1,2) show ?thesis by (simp only: list_dlq_def es_def [symmetric] Let_def if_True not_True_eq_False if_False simp_thms)
qed

theorem dlq_later_pages_empty_witness:
  "list_dlq (sample_bus\<lparr>b_streams := [(''dlq:delta'', [[], [], []])]\<rparr>) ''delta'' 2 2 = Inr []"
  by (rule dlq_later_pages_empty) (simp_all add: ALLOWED_PROTOCOLS_def sample_bus_def)

end
