(* ===== verification/Bus_Consumer.thy ===== *)
theory Bus_Consumer
  imports Protocol_Bus Lifecycle_V2
begin

text \<open>
  Both ends of the Delta lane: the verdict sender of \<open>mission_flow_v2/phases_build.py\<close> over
  \<open>orchestrator/protocol_bus_producer.py\<close>, the lane consumer
  \<open>orchestrator/protocol_bus_consumer.py\<close>, and the handler of \<open>orchestrator/main.py\<close> that stores
  the verdict the completion gate reads. HTTP carries the request body unchanged. A reply of Redis
  is an input of the lanes; what the theorems use of it is a named hypothesis.
\<close>

section \<open>Sending a verdict\<close>

definition map_verdict_to_audit_result :: "pyval \<Rightarrow> string" where
  "map_verdict_to_audit_result verdict =
     (let v = py_lower (py_strip (str_or_empty verdict)) in
      if v \<in> {''pass'', ''passed'', ''approved'', ''verified''} then ''pass''
      else if v \<in> {''fail'', ''failed'', ''rejected''} then ''fail''
      else ''warning'')"

record bus_client =
  bc_url :: string
  bc_api_key :: string
  bc_uuid :: string
  bc_float :: "string \<Rightarrow> pyval res"

text \<open>\<open>float(x)\<close>; reading text is the argument \<open>bc_float\<close>.\<close>

definition py_float :: "(string \<Rightarrow> pyval res) \<Rightarrow> pyval \<Rightarrow> pyval res" where
  "py_float read v =
     (case v of
        PFloat r t \<Rightarrow> Inr v
      | PInt i \<Rightarrow> Inr (PFloat (rat_of_int i) (int_str i @ ''.0''))
      | PBool b \<Rightarrow> Inr (if b then PFloat 1 ''1.0'' else PFloat 0 ''0.0'')
      | PStr s \<Rightarrow> read s
      | _ \<Rightarrow> Inl TypeError)"

text \<open>The request as it reaches the bus; its clock and fresh ids come with it.\<close>

definition send_protocol_message ::
  "bus_client \<Rightarrow> bus_env \<Rightarrow> outage \<Rightarrow> bus_request \<Rightarrow> string \<Rightarrow> string \<Rightarrow> pyval \<Rightarrow> pydict \<Rightarrow> string \<Rightarrow> string
     \<Rightarrow> bus \<Rightarrow> bool \<times> bus" where
  "send_protocol_message client env orc rq proto sender recipient payload priority correlation_id b =
     (if bc_url client = [] then (False, b)
      else let body =
             [(''schema_version'', PStr ''v1''), (''protocol'', PStr proto), (''sender'', PStr sender),
              (''recipient'', recipient),
              (''correlation_id'', PStr (if correlation_id = [] then proto @ ''-'' @ bc_uuid client else correlation_id)),
              (''priority'', PStr priority), (''payload'', PDict payload)];
               rq = rq\<lparr>rq_body := Some (PDict body), rq_api_key := bc_api_key client, rq_agent_id := sender,
                       rq_signature := []\<rparr>
           in case send_message env orc rq b of
                (Inr _, b') \<Rightarrow> (True, b')
              | (Inl _, b') \<Rightarrow> (False, b'))"

definition send_delta_audit ::
  "bus_client \<Rightarrow> bus_env \<Rightarrow> outage \<Rightarrow> bus_request \<Rightarrow> string \<Rightarrow> pyval \<Rightarrow> string \<Rightarrow> string \<Rightarrow> pyval \<Rightarrow> pydict
     \<Rightarrow> string \<Rightarrow> bus \<Rightarrow> bool \<times> bus" where
  "send_delta_audit client env orc rq sender recipient audit_result verification_method tolerance_score findings
     correlation_id =
     send_protocol_message client env orc rq ''delta'' sender recipient
       [(''schema_version'', PStr ''v1''), (''audit_result'', PStr audit_result),
        (''verification_method'', PStr verification_method), (''tolerance_score'', tolerance_score),
        (''findings'', PDict findings)] ''normal'' correlation_id"

definition EMISSION_KEY :: string where "EMISSION_KEY = ''emission''"

definition PBLA_POD_AUDIT_TELEMETRY :: string where
  "PBLA_POD_AUDIT_TELEMETRY = ''pbla_pod_audit_telemetry''"

definition delta_findings :: "string \<Rightarrow> string \<Rightarrow> pydict \<Rightarrow> pydict" where
  "delta_findings mission_id pod_name pod_audit =
     [(EMISSION_KEY, PStr PBLA_POD_AUDIT_TELEMETRY), (''mission_id'', PStr mission_id),
      (''pod'', PStr pod_name), (''verdict'', dget pod_audit ''verdict'')]"

definition send_delta_audit_verdict ::
  "bus_client \<Rightarrow> bus_env \<Rightarrow> outage \<Rightarrow> bus_request \<Rightarrow> string \<Rightarrow> string \<Rightarrow> string \<Rightarrow> pydict \<Rightarrow> bus \<Rightarrow> bool \<times> bus" where
  "send_delta_audit_verdict client env orc rq mission_id pod_name pod_manager pod_audit b =
     (case py_float (bc_float client) (py_or (dget pod_audit ''quality_score'') (PFloat 0 ''0.0'')) of
        Inl e \<Rightarrow> (False, b)
      | Inr score \<Rightarrow>
          (case dget_or pod_audit ''agent_id'' (PStr pod_manager) of
             PStr sender \<Rightarrow>
               send_delta_audit client env orc rq sender (PStr ''broadcast'')
                 (map_verdict_to_audit_result (dget pod_audit ''verdict''))
                 (py_str (dget_or pod_audit ''source'' (PStr ''pod_audit''))) score
                 (delta_findings mission_id pod_name pod_audit)
                 (''delta-'' @ mission_id @ ''-'' @ pod_name) b
           | _ \<Rightarrow> (False, b)))"

section \<open>Reading a lane\<close>

record lane_message =
  lm_envelope :: pyval
  lm_payload :: pyval
  lm_sender :: pyval
  lm_channel :: string
  lm_entry_id :: string

definition decode_entry ::
  "(string \<Rightarrow> pyval option) \<Rightarrow> string \<Rightarrow> string \<Rightarrow> pydict \<Rightarrow> lane_message option" where
  "decode_entry loads channel entry_id fs =
     (let mk = (\<lambda>envelope. Some \<lparr>lm_envelope = envelope,
            lm_payload = (case dget fs ''payload'' of
                PStr s \<Rightarrow> (if s = [] then PDict [] else case loads s of None \<Rightarrow> PDict [] | Some v \<Rightarrow> v)
              | _ \<Rightarrow> PDict []),
            lm_sender = dget_or fs ''sender'' (PStr []), lm_channel = channel, lm_entry_id = entry_id\<rparr>)
      in case dget fs ''envelope'' of
           PStr s \<Rightarrow> if s = [] then mk (PDict []) else (case loads s of None \<Rightarrow> None | Some v \<Rightarrow> mk v)
         | _ \<Rightarrow> mk (PDict []))"

text \<open>\<open>_dispatch\<close> returns whether the entry is done with. Reading the protocol of an envelope that is no
  object is outside its \<open>try\<close>.\<close>

definition dispatch ::
  "(string \<Rightarrow> pyval option) \<Rightarrow> string \<Rightarrow> (lane_message \<Rightarrow> unit wprog) \<Rightarrow> string \<Rightarrow> string \<Rightarrow> pydict \<Rightarrow> bool wprog" where
  "dispatch loads proto handler channel entry_id fs =
     (case decode_entry loads channel entry_id fs of
        None \<Rightarrow> ret True
      | Some message \<Rightarrow>
          (case lm_envelope message of
             PDict envelope \<Rightarrow>
               if py_str (dget_or envelope ''protocol'' (PStr [])) \<noteq> proto then ret True
               else attempt (bnd (handler message) (\<lambda>_. ret True)) False
           | _ \<Rightarrow> lift_res (Inl AttributeError)))"

text \<open>One pass of the \<open>XREAD\<close> lane over a reply: the cursor of a channel is the last id seen, initially
  \<open>$\<close>.\<close>

datatype cursor = Dollar | After string

type_synonym reply = "(string \<times> (string \<times> pydict) list) list"

fun read_entries ::
  "(string \<Rightarrow> string \<Rightarrow> pydict \<Rightarrow> bool wprog) \<Rightarrow> string \<Rightarrow> (string \<times> pydict) list \<Rightarrow> cursor \<Rightarrow> cursor wprog" where
  "read_entries disp channel [] c = ret c"
| "read_entries disp channel ((eid, fs) # es) c =
     bnd (disp channel eid fs) (\<lambda>_. read_entries disp channel es (After eid))"

fun read_reply ::
  "(string \<Rightarrow> string \<Rightarrow> pydict \<Rightarrow> bool wprog) \<Rightarrow> reply \<Rightarrow> (string \<Rightarrow> cursor) \<Rightarrow> (string \<Rightarrow> cursor) wprog" where
  "read_reply disp [] cursors = ret cursors"
| "read_reply disp ((channel, es) # rest) cursors =
     bnd (read_entries disp channel es (cursors channel)) (\<lambda>c. read_reply disp rest (cursors(channel := c)))"

text \<open>The lane over a schedule: each round gives the entries the channels hold when \<open>XREAD\<close> is called and
  those that arrive while it blocks; \<open>xread\<close> is the reply.\<close>

type_synonym channel_log = "string \<Rightarrow> (string \<times> pydict) list"

fun consume_lane ::
  "((string \<Rightarrow> cursor) \<Rightarrow> channel_log \<Rightarrow> channel_log \<Rightarrow> reply) \<Rightarrow> (string \<Rightarrow> string \<Rightarrow> pydict \<Rightarrow> bool wprog)
     \<Rightarrow> (channel_log \<times> channel_log) list \<Rightarrow> (string \<Rightarrow> cursor) \<Rightarrow> (string \<Rightarrow> cursor) wprog" where
  "consume_lane xread disp [] cursors = ret cursors"
| "consume_lane xread disp ((held, arriving) # rounds) cursors =
     bnd (read_reply disp (xread cursors held arriving) cursors) (consume_lane xread disp rounds)"

text \<open>One round of the group mode: pending entries first, new ones only when the reply for the pending
  entries is empty. It returns the ids to acknowledge.\<close>

fun handle_records ::
  "(string \<Rightarrow> string \<Rightarrow> pydict \<Rightarrow> bool wprog) \<Rightarrow> (string \<times> string \<times> pydict) list \<Rightarrow> (string \<times> string) list wprog" where
  "handle_records disp [] = ret []"
| "handle_records disp ((channel, eid, fs) # es) =
     bnd (disp channel eid fs) (\<lambda>handled.
     bnd (handle_records disp es) (\<lambda>acks. ret (if handled then (channel, eid) # acks else acks)))"

definition flatten_reply :: "reply \<Rightarrow> (string \<times> string \<times> pydict) list" where
  "flatten_reply r = concat (map (\<lambda>(channel, es). map (\<lambda>(eid, fs). (channel, eid, fs)) es) r)"

definition consume_lane_grouped ::
  "(string \<Rightarrow> string \<Rightarrow> pydict \<Rightarrow> bool wprog) \<Rightarrow> reply \<Rightarrow> reply \<Rightarrow> (string \<times> string) list wprog" where
  "consume_lane_grouped disp pending fresh = handle_records disp (flatten_reply (if pending \<noteq> [] then pending else fresh))"

fun consume_grouped_rounds ::
  "(string \<Rightarrow> string \<Rightarrow> pydict \<Rightarrow> bool wprog) \<Rightarrow> (reply \<times> reply) list \<Rightarrow> (string \<times> string) list wprog" where
  "consume_grouped_rounds disp [] = ret []"
| "consume_grouped_rounds disp ((pending, fresh) # rounds) =
     bnd (consume_lane_grouped disp pending fresh) (\<lambda>acks.
     bnd (consume_grouped_rounds disp rounds) (\<lambda>more. ret (acks @ more)))"

section \<open>The Delta handler\<close>

definition DELTA_PASS_RESULTS :: "string list" where
  "DELTA_PASS_RESULTS = [''pass'', ''passed'', ''verified'', ''approved'', ''ok'']"

text \<open>\<open>remainder.rsplit("-", 1)[0]\<close>: what is left of the last dash.\<close>

definition before_last_dash :: "string \<Rightarrow> string" where
  "before_last_dash s = (if CHR ''-'' \<in> set s then rev (tl (dropWhile (\<lambda>c. c \<noteq> CHR ''-'') (rev s))) else s)"

definition mission_id_from_delta :: "pydict \<Rightarrow> pyval \<Rightarrow> string" where
  "mission_id_from_delta content correlation_id =
     (let findings = dict_or_empty (dget content ''findings'');
          mission_id = py_strip (str_or_empty (dget findings ''mission_id''));
          correlation = py_strip (str_or_empty correlation_id)
      in if mission_id \<noteq> [] then mission_id
         else if starts_with ''delta-'' correlation then before_last_dash (drop 6 correlation)
         else [])"

definition delta_gate_document :: "lifecycle_env \<Rightarrow> pydict \<Rightarrow> pyval \<Rightarrow> pydict" where
  "delta_gate_document env content correlation_id =
     (let audit_result = py_lower (py_strip (str_or_empty (dget content ''audit_result'')));
          findings = dict_or_empty (dget content ''findings'')
      in [(''audit_result'', PStr audit_result), (''passed'', PBool (audit_result \<in> set DELTA_PASS_RESULTS)),
          (''pod'', dget findings ''pod''), (''verification_method'', dget content ''verification_method''),
          (''tolerance_score'', dget content ''tolerance_score''), (''consumed_at'', PStr (e_stamp env)),
          (''correlation_id'', correlation_id)])"

definition handle_delta_audit_verdict :: "lifecycle_env \<Rightarrow> lane_message \<Rightarrow> unit wprog" where
  "handle_delta_audit_verdict env message =
     (if \<not> truthy (dget_or (e_settings env) ''event_driven_control_plane_enabled'' (PBool False)) then ret ()
      else let payload = dict_or_empty (lm_payload message);
               envelope = dict_or_empty (lm_envelope message);
               content = (case dget payload ''content'' of PDict c \<Rightarrow> c | _ \<Rightarrow> payload);
               correlation_id = dget envelope ''correlation_id'';
               mission_id = mission_id_from_delta content correlation_id
           in if mission_id = [] then ret ()
              else bnd (fetch mission_id) (\<lambda>found.
                case found of
                  None \<Rightarrow> ret ()
                | Some mission \<Rightarrow>
                    bnd (save_metadata env mission_id
                          (dset ''delta_audit_gate'' (PDict (delta_gate_document env content correlation_id))
                            (m_metadata mission))) (\<lambda>_. ret ())))"

section \<open>Lemmas\<close>

lemma model_fields_keys: "model_fields m d = Inr r \<Longrightarrow> dkeys r = map fst m"
  by (induction m arbitrary: r) (auto simp: rbind_Inr_iff dkeys_def)

lemma model_fields_get:
  assumes "model_fields m d = Inr r" and "distinct (map fst m)" and "(k, t, dflt) \<in> set m"
    and "map_of d k = Some v"
  shows "map_of r k = field_value t v \<and> field_value t v \<noteq> None"
  using assms
proof (induction m arbitrary: r)
  case (Cons x m)
  obtain k' t' d' where x: "x = (k', t', d')" by (cases x)
  obtain w rest where w: "r = (k', w) # rest" "model_fields m d = Inr rest"
    "(case map_of d k' of
              Some v \<Rightarrow> (case field_value t' v of None \<Rightarrow> Inl ValidationError | Some w \<Rightarrow> Inr w)
            | None \<Rightarrow> (case d' of None \<Rightarrow> Inl ValidationError | Some w \<Rightarrow> Inr w)) = Inr w"
    using Cons.prems(1) by (auto simp: x rbind_Inr_iff)
  show ?case
  proof (cases "k = k'")
    case True
    then have "(t, dflt) = (t', d')" using Cons.prems(2,3) by (force simp: x)
    with w True Cons.prems(4) show ?thesis by (auto split: option.splits)
  next
    case False
    with Cons w show ?thesis by (auto simp: x)
  qed
qed simp

lemma model_get:
  assumes "model_validate m (PDict d) = Inr r" and "distinct (map fst m)" and "(k, t, dflt) \<in> set m"
    and "map_of d k = Some v"
  shows "field_value t v = Some (dget r k)"
  using assms model_fields_get [OF _ assms(2-4), of r]
  by (auto simp: model_validate_def dget_def split: if_splits option.splits)

lemma model_absent: "model_validate m (PDict d) = Inr r \<Longrightarrow> k \<notin> set (map fst m) \<Longrightarrow> dget r k = PNone"
  using model_fields_keys [of m d r]
  by (auto simp: model_validate_def dget_def dkeys_def split: if_splits option.splits dest!: map_of_SomeD)
    (metis image_eqI fst_conv list.set_map)

text \<open>The request of \<open>send_delta_audit\<close> as a message of the bus.\<close>

definition delta_body :: "string \<Rightarrow> pydict \<Rightarrow> string \<Rightarrow> pydict" where
  "delta_body sender payload correlation_id =
     [(''schema_version'', PStr ''v1''), (''protocol'', PStr ''delta''), (''sender'', PStr sender),
      (''recipient'', PStr ''broadcast''), (''correlation_id'', PStr correlation_id), (''priority'', PStr ''normal''),
      (''payload'', PDict payload)]"

lemma distinct_models: "distinct (map fst SendMessageRequest)" "distinct (map fst DeltaPayload)"
  by (simp_all add: SendMessageRequest_def DeltaPayload_def)

lemma accept_parts:
  assumes "accept_message env rq = Inr msg" and "rq_body rq = Some body"
  obtains req rs a b rest where "model_validate SendMessageRequest body = Inr req"
    and "normalized_recipients (be_max_recipients env) (recipient_of (dget req ''recipient'')) = Inr rs"
    and "validate_protocol_payload (str_of (dget req ''protocol'')) (dict_or_empty (dget req ''payload''))
       = Inr (ms_payload msg)"
    and "ms_channels msg = resolve_channels (str_of (dget req ''protocol'')) rs"
    and "ms_envelope msg = (''message_id'', a) # (''schema_version'', b)
       # (''protocol'', PStr (str_of (dget req ''protocol''))) # rest"
  using assms
  by (auto simp: accept_message_def Let_def rbind_Inr_iff split: if_splits option.splits sum.splits)

lemma delta_message:
  assumes "accept_message env rq = Inr msg" and "rq_body rq = Some (PDict (delta_body sender payload cid))"
  shows "ms_channels msg = [''protocol:delta:broadcast'']"
    and "dget (ms_envelope msg) ''protocol'' = PStr ''delta''"
    and "model_validate DeltaPayload (PDict payload) = Inr (ms_payload msg)"
proof -
  obtain req rs a b rest where req: "model_validate SendMessageRequest (PDict (delta_body sender payload cid)) = Inr req"
    and rs: "normalized_recipients (be_max_recipients env) (recipient_of (dget req ''recipient'')) = Inr rs"
    and pl: "validate_protocol_payload (str_of (dget req ''protocol'')) (dict_or_empty (dget req ''payload''))
       = Inr (ms_payload msg)"
    and msg: "ms_channels msg = resolve_channels (str_of (dget req ''protocol'')) rs"
      "ms_envelope msg = (''message_id'', a) # (''schema_version'', b)
       # (''protocol'', PStr (str_of (dget req ''protocol''))) # rest"
    by (rule accept_parts [OF assms])
  note get = model_get [OF req distinct_models(1)]
  have proto: "dget req ''protocol'' = PStr ''delta''"
    using get [of "''protocol''" "Literal ALLOWED_PROTOCOLS" None "PStr ''delta''"]
    by (simp add: SendMessageRequest_def delta_body_def split: if_splits)
  have "dget req ''recipient'' = PStr ''broadcast''"
    using get [of "''recipient''" Recipients None "PStr ''broadcast''"]
    by (simp add: SendMessageRequest_def delta_body_def)
  then have "recipient_of (dget req ''recipient'') = One ''broadcast''" by (simp add: recipient_of_def)
  then have rs': "rs = [''broadcast'']"
    using rs by (simp add: normalized_recipients_def py_strip_def strip_by_def is_space_def Let_def split: if_splits)
  have "resolve_channels ''delta'' [''broadcast''] = [''protocol:delta:broadcast'']" by code_simp
  then show "ms_channels msg = [''protocol:delta:broadcast'']" using msg(1) proto rs' by simp
  show "dget (ms_envelope msg) ''protocol'' = PStr ''delta''" using msg(2) proto by (simp add: dget_def)
  have "dget req ''payload'' = PDict payload"
    using get [of "''payload''" Document "Some (PDict [])" "PDict payload"]
    by (simp add: SendMessageRequest_def delta_body_def)
  with pl proto show "model_validate DeltaPayload (PDict payload) = Inr (ms_payload msg)"
    by (simp add: validate_protocol_payload_def payload_models_def)
qed

lemma audit_result_cases: "map_verdict_to_audit_result v \<in> {''pass'', ''fail'', ''warning''}"
  by (simp add: map_verdict_to_audit_result_def Let_def)

lemma audit_result_clean: "py_lower (py_strip (map_verdict_to_audit_result v)) = map_verdict_to_audit_result v"
  using audit_result_cases [of v]
  by (auto simp: py_lower_def low_char_def is_upper_char_def py_strip_def strip_by_def is_space_def Let_def)

lemma audit_result_passes:
  "map_verdict_to_audit_result v \<in> set DELTA_PASS_RESULTS \<longleftrightarrow> map_verdict_to_audit_result v = ''pass''"
  using audit_result_cases [of v] by (auto simp: DELTA_PASS_RESULTS_def)

lemma metadata_saved:
  assumes "fetch_mission (w_db w) mid = Inr (Some m)" and "map_of md ''delta_audit_gate'' = Some v"
  shows "\<exists>w' m' r. save_metadata env mid md w = (Inr r, w') \<and> fetch_mission (w_db w') mid = Inr (Some m')
    \<and> dget (m_metadata m') ''delta_audit_gate'' = v"
proof -
  obtain row where row: "map_of (missions (w_db w)) mid = Some row" "row_to_mission mid row = Inr m"
    using assms(1) by (auto simp: fetch_mission_def rbind_Inr_iff split: option.splits)
  then have "MissionState_of (row_state row) = Inr (m_state m)"
    by (auto simp: row_to_mission_def Let_def rbind_Inr_iff)
  moreover have "map_of (keep_delta_gate d (strip_vault (with_project_identity (PDict md) x))) ''delta_audit_gate'' = Some v" for d x
    using assms(2) strip_vault_frame [of "''delta_audit_gate''"]
      with_project_identity_frame [of "''delta_audit_gate''" "PDict md"]
    by (simp add: keep_delta_gate_def dhas_def VAULT_METADATA_KEY_def)
  ultimately show ?thesis
    using row
    by (simp add: save_metadata_def on_db_def update_mission_metadata_def Let_def fetch_mission_def
        row_to_mission_def dget_def)
qed

lemma delta_handled:
  assumes "dget_or (e_settings env) ''event_driven_control_plane_enabled'' (PBool False) = PBool True"
    and "fetch_mission (w_db w) mid = Inr (Some m)" and "py_strip mid = mid" and "mid \<noteq> []"
    and "dget payload ''content'' = PNone" and "dget payload ''findings'' = PDict f"
    and "dget f ''mission_id'' = PStr mid" and "dget payload ''audit_result'' = PStr a"
    and "lm_payload message = PDict payload"
  shows "\<exists>w' m'. handle_delta_audit_verdict env message w = (Inr (), w')
    \<and> fetch_mission (w_db w') mid = Inr (Some m')
    \<and> fst (delta_audit_gate (e_settings env) m') = (py_lower (py_strip a) \<in> set DELTA_PASS_RESULTS)"
proof -
  have mid: "mission_id_from_delta payload c = mid" for c
    using assms(3,4,6,7) by (simp add: mission_id_from_delta_def Let_def str_or_empty_def py_or_def)
  define gate where "gate = delta_gate_document env payload (dget (dict_or_empty (lm_envelope message)) ''correlation_id'')"
  have passed: "dget gate ''passed'' = PBool (py_lower (py_strip a) \<in> set DELTA_PASS_RESULTS)"
    using assms(8) by (cases "a = []")
      (simp_all add: gate_def delta_gate_document_def Let_def dget_def str_or_empty_def py_or_def)
  obtain w' m' r where s: "save_metadata env mid (dset ''delta_audit_gate'' (PDict gate) (m_metadata m)) w = (Inr r, w')"
    "fetch_mission (w_db w') mid = Inr (Some m')" "dget (m_metadata m') ''delta_audit_gate'' = PDict gate"
    using metadata_saved [OF assms(2), where env = env and v = "PDict gate"
        and md = "dset ''delta_audit_gate'' (PDict gate) (m_metadata m)"] by auto
  have "handle_delta_audit_verdict env message w = (Inr (), w')"
    using assms(1,2,4,5,9) s(1)
    by (simp add: handle_delta_audit_verdict_def Let_def mid fetch_def bnd_def gate_def)
  moreover have "fst (delta_audit_gate (e_settings env) m') = (py_lower (py_strip a) \<in> set DELTA_PASS_RESULTS)"
    using s(3) passed assms(1) by (simp add: delta_audit_gate_def setting_bool_def dget_or_def split: option.splits)
  ultimately show ?thesis using s(2) by blast
qed

text \<open>For the witnesses: a JSON text that numbers the documents, and a passing pod audit.\<close>

definition numbered_text :: "pyval \<Rightarrow> string" where
  "numbered_text v = replicate (Suc (to_nat v)) (CHR ''x'')"

definition numbered_document :: "string \<Rightarrow> pyval option" where
  "numbered_document s = Some (from_nat (length s - 1))"

lemma numbered_roundtrip: "numbered_text v \<noteq> [] \<and> numbered_document (numbered_text v) = Some v"
  by (simp add: numbered_text_def numbered_document_def)

lemma deliver_text:
  "fst (deliver (env\<lparr>be_dumps := t\<rparr>) (\<lambda>_. Done) rq msg b) = fst (deliver env (\<lambda>_. Done) rq msg b)"
proof -
  have all: "\<exists>b'. publish_all e (\<lambda>_. Done) msg cs b = (Inr (), b')" for e cs b
    by (induction cs arbitrary: b) (simp_all add: bnd_def service_def xadd_def)
  have pub: "\<exists>b'. publish e (\<lambda>_. Done) st msg b = (Inr (), b')" for e st b
  proof -
    obtain b' where "publish_all e (\<lambda>_. Done) msg (ms_channels msg) b = (Inr (), b')"
      using all by blast
    then show ?thesis by (simp add: publish_def)
  qed
  obtain r b1 where d: "or_503 (queue_depths (\<lambda>_. Done) (ms_channels msg)) b = (r, b1)" by fastforce
  obtain b2 b3 where "publish env (\<lambda>_. Done) (rq_stamp rq) msg b1 = (Inr (), b2)"
    "publish (env\<lparr>be_dumps := t\<rparr>) (\<lambda>_. Done) (rq_stamp rq) msg b1 = (Inr (), b3)"
    using pub by blast
  with d show ?thesis by (cases r) (simp_all add: deliver_def bnd_def http_def)
qed

lemma send_text:
  "fst (send_message (env\<lparr>be_dumps := t\<rparr>) (\<lambda>_. Done) rq b) = fst (send_message env (\<lambda>_. Done) rq b)"
proof -
  have "authenticate (env\<lparr>be_dumps := t\<rparr>) = authenticate env"
    unfolding authenticate_def by (intro ext) (simp cong: option.case_cong if_cong)
  then have "accept_message (env\<lparr>be_dumps := t\<rparr>) rq = accept_message env rq"
    unfolding accept_message_def by (simp cong: option.case_cong sum.case_cong)
  moreover have "admit (env\<lparr>be_dumps := t\<rparr>) orc msg = admit env orc msg" for orc msg
    by (simp add: admit_def)
  ultimately show ?thesis
    using deliver_text [where env = env and t = t] by (auto simp: send_message_eq bnd_def split: prod.split sum.split)
qed

lemma sent_text:
  "fst (send_delta_audit_verdict client (env\<lparr>be_dumps := t\<rparr>) (\<lambda>_. Done) rq mid pod manager audit b)
    = fst (send_delta_audit_verdict client env (\<lambda>_. Done) rq mid pod manager audit b)"
proof -
  have "fst (case send_message e orc r b of (Inr x, b') \<Rightarrow> (True, b' :: bus) | (Inl x, b') \<Rightarrow> (False, b'))
      = (\<not> isl (fst (send_message e orc r b)))" for e orc r
    by (auto split: prod.split sum.split)
  then have "fst (send_protocol_message client (env\<lparr>be_dumps := t\<rparr>) (\<lambda>_. Done) rq p sd rc pl pr c b)
      = fst (send_protocol_message client env (\<lambda>_. Done) rq p sd rc pl pr c b)" for p sd rc pl pr c
    unfolding send_protocol_message_def Let_def by (simp add: send_text)
  then show ?thesis
    unfolding send_delta_audit_verdict_def send_delta_audit_def by (simp split: sum.split pyval.split)
qed

lemma pair_True: "fst p \<Longrightarrow> \<exists>b. p = (True, b)"
  by (cases p) simp

definition sample_client :: bus_client where
  "sample_client = \<lparr>bc_url = ''http://bus'', bc_api_key = ''key'', bc_uuid = ''u'', bc_float = (\<lambda>_. Inl ValueError)\<rparr>"

definition sample_audit :: pydict where
  "sample_audit = [(''verdict'', PStr ''PASS''), (''quality_score'', PInt 1)]"

section \<open>Properties\<close>

text \<open>The Delta lane end to end: when the sender of a pod audit was told that its verdict is on the bus
  and JSON text reads back as the document it was written from, the broadcast channel has one new
  entry; consuming it while the control plane is on marks the entry done and leaves the mission in a
  state whose completion gate passes exactly when the auditor's verdict was a pass.\<close>

theorem delta_verdict_reaches_gate:
  assumes "b_keys b0 = []"
    and "send_delta_audit_verdict client benv orc rq mid pod manager audit (serve_all benv rqs b0) = (True, b')"
    and "\<And>d. be_dumps benv (PDict d) \<noteq> [] \<and> loads (be_dumps benv (PDict d)) = Some (PDict d)"
    and "dget_or (e_settings env) ''event_driven_control_plane_enabled'' (PBool False) = PBool True"
    and "fetch_mission (w_db w) mid = Inr (Some m)" and "py_strip mid = mid" and "mid \<noteq> []"
  shows "\<exists>entry w' m'.
      stream_of b' ''protocol:delta:broadcast'' = stream_of (serve_all benv rqs b0) ''protocol:delta:broadcast'' @ [entry]
    \<and> dispatch loads ''delta'' (handle_delta_audit_verdict env) ''protocol:delta:broadcast'' entry_id entry w = (Inr True, w')
    \<and> fetch_mission (w_db w') mid = Inr (Some m')
    \<and> fst (delta_audit_gate (e_settings env) m')
        = (map_verdict_to_audit_result (dget audit ''verdict'') = ''pass'')"
proof -
  let ?b = "serve_all benv rqs b0"
  define a where "a = map_verdict_to_audit_result (dget audit ''verdict'')"
  define f where "f = delta_findings mid pod audit"
  obtain sender score vm cid where sent: "send_delta_audit client benv orc rq sender (PStr ''broadcast'') a vm score f cid ?b
      = (True, b')"
    using assms(2) by (auto simp: send_delta_audit_verdict_def a_def f_def split: sum.splits pyval.splits)
  define payload where "payload = [(''schema_version'', PStr ''v1''), (''audit_result'', PStr a),
    (''verification_method'', PStr vm), (''tolerance_score'', score), (''findings'', PDict f)]"
  define cid' where "cid' = (if cid = [] then ''delta'' @ ''-'' @ bc_uuid client else cid)"
  define rq' where "rq' = rq\<lparr>rq_body := Some (PDict (delta_body sender payload cid')), rq_api_key := bc_api_key client,
    rq_agent_id := sender, rq_signature := []\<rparr>"
  obtain resp where send: "send_message benv orc rq' ?b = (Inr resp, b')"
    using sent by (auto simp: send_delta_audit_def send_protocol_message_def Let_def rq'_def cid'_def delta_body_def payload_def
        split: if_splits prod.splits sum.splits)
  have "guards_paired b0" using assms(1) by (simp add: guards_paired_def)
  then have fresh: "\<not> sr_deduplicated resp" using send_paired [OF serve_all_paired send] by simp
  obtain msg where msg: "accept_message benv rq' = Inr msg"
    and str: "stream_of b' n = stream_of ?b n @ (if n \<in> set (ms_channels msg) then [bus_entry benv msg] else [])" for n
    using sent_delivered [OF send] fresh by auto
  have body: "rq_body rq' = Some (PDict (delta_body sender payload cid'))" by (simp add: rq'_def)
  note parts = delta_message [OF msg body]
  note get = model_get [OF parts(3) distinct_models(2)]
  have p: "dget (ms_payload msg) ''audit_result'' = PStr a" "dget (ms_payload msg) ''findings'' = PDict f"
    "dget (ms_payload msg) ''content'' = PNone"
    using get [of "''audit_result''" "Literal [''pass'', ''fail'', ''warning'']" None "PStr a"]
      get [of "''findings''" Document "Some (PDict [])" "PDict f"] model_absent [OF parts(3), of "''content''"]
    by (simp_all add: DeltaPayload_def payload_def split: if_splits)
  define message where "message = \<lparr>lm_envelope = PDict (ms_envelope msg), lm_payload = PDict (ms_payload msg),
    lm_sender = PStr (ms_sender msg), lm_channel = ''protocol:delta:broadcast'', lm_entry_id = entry_id\<rparr>"
  have decode: "decode_entry loads ''protocol:delta:broadcast'' entry_id (bus_entry benv msg) = Some message"
    using assms(3) by (simp add: decode_entry_def bus_entry_def Let_def dget_def dget_or_def message_def)
  have mid: "dget f ''mission_id'' = PStr mid" by (simp add: f_def delta_findings_def EMISSION_KEY_def dget_def)
  obtain w' m' where h: "handle_delta_audit_verdict env message w = (Inr (), w')"
    "fetch_mission (w_db w') mid = Inr (Some m')" "fst (delta_audit_gate (e_settings env) m') = (a = ''pass'')"
    using delta_handled [OF assms(4-7) p(3,2) mid p(1), where message = message] audit_result_clean audit_result_passes
    by (auto simp: message_def a_def)
  have "dget_or (ms_envelope msg) ''protocol'' (PStr []) = PStr ''delta''"
    using parts(2) by (auto simp: dget_def dget_or_def split: option.splits)
  then have "dispatch loads ''delta'' (handle_delta_audit_verdict env) ''protocol:delta:broadcast'' entry_id
      (bus_entry benv msg) w = (Inr True, w')"
    using h(1) decode by (simp add: dispatch_def message_def attempt_def bnd_def)
  moreover have "stream_of b' ''protocol:delta:broadcast'' = stream_of ?b ''protocol:delta:broadcast'' @ [bus_entry benv msg]"
    using str parts(1) by simp
  ultimately show ?thesis using h(2,3) unfolding a_def by blast
qed

theorem delta_verdict_reaches_gate_witness:
  "\<exists>entry w' m'. dispatch numbered_document ''delta''
       (handle_delta_audit_verdict (sample_env\<lparr>e_settings := [(''event_driven_control_plane_enabled'', PBool True)]\<rparr>))
       ''protocol:delta:broadcast'' ''1-0'' entry (sample_world ''VERIFIED'') = (Inr True, w')
     \<and> fetch_mission (w_db w') ''m1'' = Inr (Some m')
     \<and> fst (delta_audit_gate [(''event_driven_control_plane_enabled'', PBool True)] m')"
proof -
  let ?env = "sample_env\<lparr>e_settings := [(''event_driven_control_plane_enabled'', PBool True)]\<rparr>"
  have "fst (send_delta_audit_verdict sample_client sample_bus_env (\<lambda>_. Done) sample_request ''m1'' ''poda''
      ''AGENT-12-PODA-MGR'' sample_audit sample_bus)"
    by code_simp
  then have "fst (send_delta_audit_verdict sample_client (sample_bus_env\<lparr>be_dumps := numbered_text\<rparr>) (\<lambda>_. Done)
      sample_request ''m1'' ''poda'' ''AGENT-12-PODA-MGR'' sample_audit
      (serve_all (sample_bus_env\<lparr>be_dumps := numbered_text\<rparr>) [] sample_bus))"
    by (simp add: sent_text serve_all_def)
  from pair_True [OF this] obtain b' where sent: "send_delta_audit_verdict sample_client (sample_bus_env\<lparr>be_dumps := numbered_text\<rparr>) (\<lambda>_. Done)
      sample_request ''m1'' ''poda'' ''AGENT-12-PODA-MGR'' sample_audit
      (serve_all (sample_bus_env\<lparr>be_dumps := numbered_text\<rparr>) [] sample_bus) = (True, b')"
    ..
  have keys: "b_keys sample_bus = []" by (simp add: sample_bus_def)
  have json: "be_dumps (sample_bus_env\<lparr>be_dumps := numbered_text\<rparr>) (PDict d) \<noteq> []
      \<and> numbered_document (be_dumps (sample_bus_env\<lparr>be_dumps := numbered_text\<rparr>) (PDict d)) = Some (PDict d)" for d
    by (simp add: numbered_roundtrip)
  have edcp: "dget_or (e_settings ?env) ''event_driven_control_plane_enabled'' (PBool False) = PBool True"
    by (simp add: dget_or_def)
  obtain m where m: "fetch_mission (w_db (sample_world ''VERIFIED'')) ''m1'' = Inr (Some m)"
    by (rule fetch_ok [of "w_db (sample_world ''VERIFIED'')" "''m1''" "sample_row\<lparr>row_state := ''VERIFIED''\<rparr>" Verified])
      (simp_all add: sample_world_def sample_db_def row_of_def)
  have "py_strip ''m1'' = ''m1''" by (simp add: py_strip_def strip_by_def is_space_def Let_def)
  moreover have "map_verdict_to_audit_result (dget sample_audit ''verdict'') = ''pass''" by code_simp
  ultimately show ?thesis
    using delta_verdict_reaches_gate [OF keys sent json edcp m, of "''1-0''"] by (simp del: fst_conv) blast
qed

text \<open>The group mode never reads a new entry: asked for the pending entries of a consumer, Redis lists
  every channel, with no entries when there are none pending; the lane takes that for a non-empty
  reply. Whatever new entries wait in each round, nothing is dispatched and nothing acknowledged.\<close>

theorem grouped_lane_never_reads_new:
  assumes "\<And>pending fresh. (pending, fresh) \<in> set rounds \<Longrightarrow>
      map fst pending = [agent_channel, broadcast_channel] \<and> concat (map snd pending) = []"
  shows "consume_grouped_rounds disp rounds w = (Inr [], w)"
  using assms
proof (induction rounds)
  case (Cons r rounds)
  obtain pending fresh where r: "r = (pending, fresh)" by (cases r)
  then have "map fst pending = [agent_channel, broadcast_channel]" and none: "concat (map snd pending) = []"
    using Cons.prems [of pending fresh] by auto
  then have "pending \<noteq> []" by auto
  moreover have "flatten_reply pending = []" using none by (force simp: flatten_reply_def)
  ultimately have "consume_lane_grouped disp pending fresh = ret []" by (simp add: consume_lane_grouped_def)
  moreover have "consume_grouped_rounds disp rounds w = (Inr [], w)"
    by (rule Cons.IH) (metis Cons.prems list.set_intros(2))
  ultimately show ?case by (simp add: r bnd_def)
qed simp

theorem grouped_lane_never_reads_new_witness:
  "consume_grouped_rounds (\<lambda>_ _ _ w. (Inr True, w\<lparr>w_redis_ready := False\<rparr>))
     [([(''a'', []), (''b'', [])], [(''b'', [(''1-0'', [])])])] (sample_world ''VERIFIED'')
   = (Inr [], sample_world ''VERIFIED'')"
  by (rule grouped_lane_never_reads_new [of _ "''a''" "''b''"]) auto

text \<open>The tail mode loses what arrives between two reads: a channel that has delivered nothing yet is read
  from \<open>$\<close>, and for it Redis only reports entries that arrive while the call blocks. As long as no
  entry arrives inside a call, none is ever dispatched, however many the channels hold by then.\<close>

theorem idle_lane_loses_entries:
  assumes "\<And>cursors held arriving channel es. (channel, es) \<in> set (xread cursors held arriving) \<Longrightarrow>
      cursors channel = Dollar \<Longrightarrow> es \<noteq> [] \<and> set es \<subseteq> set (arriving channel)"
    and "\<And>held arriving. (held, arriving) \<in> set rounds \<Longrightarrow> arriving = (\<lambda>_. [])"
  shows "consume_lane xread disp rounds (\<lambda>_. Dollar) w = (Inr (\<lambda>_. Dollar), w)"
  using assms(2)
proof (induction rounds)
  case (Cons r rounds)
  obtain held arriving where r: "r = (held, arriving)" by (cases r)
  have "xread (\<lambda>_. Dollar) held (\<lambda>_. []) = []"
    using assms(1) [of _ _ "\<lambda>_. Dollar" held "\<lambda>_. []"] by (cases "xread (\<lambda>_. Dollar) held (\<lambda>_. [])") fastforce+
  moreover have "arriving = (\<lambda>_. [])" using Cons.prems [of held arriving] by (simp add: r)
  moreover have "consume_lane xread disp rounds (\<lambda>_. Dollar) w = (Inr (\<lambda>_. Dollar), w)"
    by (rule Cons.IH) (metis Cons.prems list.set_intros(2))
  ultimately show ?case by (simp add: r bnd_def)
qed simp

text \<open>A reply for one broadcast channel: from \<open>$\<close> what arrives, else what is not older than the cursor.\<close>

definition sample_xread :: "(string \<Rightarrow> cursor) \<Rightarrow> channel_log \<Rightarrow> channel_log \<Rightarrow> reply" where
  "sample_xread cursors held arriving =
     (let c = ''protocol:delta:broadcast'';
          es = (case cursors c of Dollar \<Rightarrow> arriving c
                | After eid \<Rightarrow> tl (dropWhile (\<lambda>(e, _). e \<noteq> eid) (held c @ arriving c)))
      in if es = [] then [] else [(c, es)])"

theorem idle_lane_loses_entries_witness:
  "consume_lane sample_xread (\<lambda>_ _ _ w. (Inr True, w\<lparr>w_redis_ready := False\<rparr>))
     [(\<lambda>_. [], \<lambda>_. []), (\<lambda>_. [(''1-0'', [])], \<lambda>_. [])] (\<lambda>_. Dollar) (sample_world ''VERIFIED'')
   = (Inr (\<lambda>_. Dollar), sample_world ''VERIFIED'')"
  by (rule idle_lane_loses_entries) (auto simp: sample_xread_def Let_def split: if_splits)

end
