(* ===== verification/Audit_Chain.thy ===== *)
theory Audit_Chain
  imports Mission_Storage "HOL-Library.List_Lexorder" "HOL-Library.Char_ord" "HOL-Library.Product_Lexorder"
begin

text \<open>
  The audit trail: the chained action events of \<open>orchestrator/storage_agents.py\<close> and their
  producer \<open>orchestrator/audit_events.py\<close>. An event stores the digest of the event before it in
  its project, as the query for the newest row finds it; the row's own digest covers its fields and
  that digest. SHA-256, JSON text, ISO text, span ids and fresh ids are fields of \<open>audit_env\<close>. An
  instant is a number of microseconds. Text columns are ordered by code points, the order of
  the \<open>C\<close> collation. An insertion is one transaction under the project's advisory lock, so
  insertions of a project happen one after the other.
\<close>

section \<open>Events\<close>

record AgentActionEventRecord =
  ae_event_id :: string
  ae_project_id :: string
  ae_mission_id :: string
  ae_agent_id :: string
  ae_service_name :: string
  ae_event_type :: string
  ae_status :: string
  ae_object_type :: "string option"
  ae_object_id :: "string option"
  ae_tool_name :: "string option"
  ae_trace_id :: "string option"
  ae_span_id :: "string option"
  ae_correlation_id :: "string option"
  ae_parent_event_id :: "string option"
  ae_started_at :: int
  ae_ended_at :: "int option"
  ae_duration_ms :: "int option"
  ae_payload_summary :: pydict
  ae_content_sha256 :: "string option"
  ae_blob_ref :: "string option"
  ae_prev_event_digest :: "string option"
  ae_event_digest :: string
  ae_created_at :: int

text \<open>The float product \<open>total_seconds() * 1000\<close>, truncated, is the argument \<open>au_millis\<close>.\<close>

record audit_env =
  au_sha256 :: "string \<Rightarrow> string"
  au_dumps_sorted :: "pyval \<Rightarrow> string"
  au_iso :: "int \<Rightarrow> string"
  au_millis :: "int \<Rightarrow> int"
  au_uuid :: string
  au_trace_id :: "string option"
  au_span_id :: "string option"
  au_now :: int

record audit_db =
  ad_missions :: "string list"
  ad_events :: "AgentActionEventRecord list"

definition opt_str :: "string option \<Rightarrow> pyval" where
  "opt_str v = (case v of None \<Rightarrow> PNone | Some s \<Rightarrow> PStr s)"

definition truthy_text :: "string option \<Rightarrow> string option" where
  "truthy_text v = (case v of Some s \<Rightarrow> if s = [] then None else Some s | None \<Rightarrow> None)"

definition event_duration_ms :: "audit_env \<Rightarrow> int \<Rightarrow> int option \<Rightarrow> int option" where
  "event_duration_ms env started_at ended_at =
     (case ended_at of None \<Rightarrow> None | Some e \<Rightarrow> Some (max 0 (au_millis env (e - started_at))))"

definition content_digest :: "audit_env \<Rightarrow> AgentActionEventRecord \<Rightarrow> string option" where
  "content_digest env r =
     (case truthy_text (ae_content_sha256 r) of
        Some d \<Rightarrow> Some d
      | None \<Rightarrow>
          if ae_payload_summary r \<noteq> [] then Some (au_sha256 env (au_dumps_sorted env (PDict (ae_payload_summary r))))
          else (case truthy_text (ae_blob_ref r) of
                  Some ref \<Rightarrow> Some (au_sha256 env ref)
                | None \<Rightarrow> None))"

definition event_digest_document ::
  "audit_env \<Rightarrow> string option \<Rightarrow> AgentActionEventRecord \<Rightarrow> string option \<Rightarrow> pydict" where
  "event_digest_document env prev r content =
     [(''prev_event_digest_sha256'', opt_str prev), (''event_id'', PStr (ae_event_id r)),
      (''project_id'', PStr (ae_project_id r)), (''mission_id'', PStr (ae_mission_id r)),
      (''agent_id'', PStr (ae_agent_id r)), (''service_name'', PStr (ae_service_name r)),
      (''event_type'', PStr (ae_event_type r)), (''status'', PStr (ae_status r)),
      (''object_type'', opt_str (ae_object_type r)), (''object_id'', opt_str (ae_object_id r)),
      (''tool_name'', opt_str (ae_tool_name r)), (''trace_id'', opt_str (ae_trace_id r)),
      (''span_id'', opt_str (ae_span_id r)), (''correlation_id'', opt_str (ae_correlation_id r)),
      (''parent_event_id'', opt_str (ae_parent_event_id r)), (''started_at'', PStr (au_iso env (ae_started_at r))),
      (''ended_at'', (case ae_ended_at r of None \<Rightarrow> PNone | Some e \<Rightarrow> PStr (au_iso env e))),
      (''duration_ms'', (case ae_duration_ms r of None \<Rightarrow> PNone | Some d \<Rightarrow> PInt d)),
      (''payload_summary'', PDict (ae_payload_summary r)), (''content_sha256'', opt_str content),
      (''blob_ref'', opt_str (ae_blob_ref r))]"

definition event_digest_payload ::
  "audit_env \<Rightarrow> string option \<Rightarrow> AgentActionEventRecord \<Rightarrow> string option \<Rightarrow> string" where
  "event_digest_payload env prev r content = au_dumps_sorted env (PDict (event_digest_document env prev r content))"

text \<open>The newest event of a project: \<open>ORDER BY created_at DESC, event_id DESC LIMIT 1\<close>.\<close>

definition project_events :: "string \<Rightarrow> AgentActionEventRecord list \<Rightarrow> AgentActionEventRecord list" where
  "project_events pid rs = filter (\<lambda>r. ae_project_id r = pid) rs"

definition newest_first :: "AgentActionEventRecord list \<Rightarrow> AgentActionEventRecord list" where
  "newest_first rs = rev (sort_key (\<lambda>r. (ae_created_at r, ae_event_id r)) rs)"

definition newest_digest :: "string \<Rightarrow> AgentActionEventRecord list \<Rightarrow> string option" where
  "newest_digest pid rs = (case newest_first (project_events pid rs) of
     [] \<Rightarrow> None
   | r # _ \<Rightarrow> truthy_text (Some (ae_event_digest r)))"

definition insert_agent_action_event ::
  "audit_env \<Rightarrow> AgentActionEventRecord \<Rightarrow> audit_db \<Rightarrow> AgentActionEventRecord res \<times> audit_db" where
  "insert_agent_action_event env r db =
     (let duration = (case ae_duration_ms r of
            Some d \<Rightarrow> Some d
          | None \<Rightarrow> event_duration_ms env (ae_started_at r) (ae_ended_at r));
          r = r\<lparr>ae_duration_ms := duration\<rparr>;
          content = content_digest env r;
          prev = newest_digest (ae_project_id r) (ad_events db);
          row = r\<lparr>ae_content_sha256 := content, ae_prev_event_digest := prev,
                  ae_event_digest := au_sha256 env (event_digest_payload env prev r content)\<rparr>
      in if ae_event_id r \<in> set (map ae_event_id (ad_events db)) then (Inl UniqueViolation, db)
         else if ae_mission_id r \<notin> set (ad_missions db) then (Inl ForeignKeyViolation, db)
         else (Inr row, db\<lparr>ad_events := ad_events db @ [row]\<rparr>))"

text \<open>\<open>create_agent_action_event\<close>: the row's \<open>created_at\<close> is the end of the action.\<close>

definition create_agent_action_event ::
  "audit_env \<Rightarrow> string option \<Rightarrow> AgentActionEventRecord \<Rightarrow> audit_db \<Rightarrow> AgentActionEventRecord res \<times> audit_db" where
  "create_agent_action_event env event_id r db =
     insert_agent_action_event env
       (r\<lparr>ae_event_id := (case truthy_text event_id of Some e \<Rightarrow> e | None \<Rightarrow> ''aevt-'' @ au_uuid env),
          ae_duration_ms := event_duration_ms env (ae_started_at r) (ae_ended_at r),
          ae_prev_event_digest := None, ae_event_digest := ''pending'',
          ae_created_at := (case ae_ended_at r of Some e \<Rightarrow> e | None \<Rightarrow> ae_started_at r)\<rparr>) db"

definition list_mission_agent_action_events :: "audit_db \<Rightarrow> string \<Rightarrow> nat \<Rightarrow> AgentActionEventRecord list" where
  "list_mission_agent_action_events db mid limit =
     take limit (newest_first (filter (\<lambda>r. ae_mission_id r = mid) (ad_events db)))"

definition matches :: "string option \<Rightarrow> string option \<Rightarrow> bool" where
  "matches wanted actual = (wanted = None \<or> wanted = actual)"

definition list_project_agent_action_events ::
  "audit_db \<Rightarrow> string \<Rightarrow> nat \<Rightarrow> string option \<Rightarrow> string option \<Rightarrow> string option \<Rightarrow> AgentActionEventRecord list" where
  "list_project_agent_action_events db pid limit mid aid tool =
     take limit (newest_first (filter (\<lambda>r. ae_project_id r = pid \<and> matches mid (Some (ae_mission_id r))
       \<and> matches aid (Some (ae_agent_id r)) \<and> matches tool (ae_tool_name r)) (ad_events db)))"

section \<open>Recording an event\<close>

text \<open>\<open>value.split()\<close>: the maximal runs of characters that are no white space.\<close>

fun split_ws :: "string \<Rightarrow> string \<Rightarrow> string list" where
  "split_ws acc [] = (if acc = [] then [] else [acc])"
| "split_ws acc (c # s) =
     (if is_space c then (if acc = [] then split_ws [] s else acc # split_ws [] s)
      else split_ws (acc @ [c]) s)"

definition SUMMARY_LIST_LIMIT :: nat where "SUMMARY_LIST_LIMIT = 8"
definition SUMMARY_STRING_LIMIT :: nat where "SUMMARY_STRING_LIMIT = 240"

definition summarize_text :: "string \<Rightarrow> string" where
  "summarize_text s =
     (let compact = join_str '' '' (split_ws [] s) in
      if length compact \<le> SUMMARY_STRING_LIMIT then compact else take SUMMARY_STRING_LIMIT compact @ ''...'')"

lemma size_in_list: "x \<in> set xs \<Longrightarrow> f x < Suc (size_list f xs)"
  by (induction xs) auto

function summarize_value :: "pyval \<Rightarrow> pyval" where
  "summarize_value (PStr s) = PStr (summarize_text s)"
| "summarize_value (PDict d) =
     PDict (let kept = map (\<lambda>(k, v). (k, summarize_value v)) (take SUMMARY_LIST_LIMIT d)
            in if SUMMARY_LIST_LIMIT < length d
               then dset ''_truncated_keys'' (PInt (int (length d - SUMMARY_LIST_LIMIT))) kept else kept)"
| "summarize_value (PList xs) =
     PList (map summarize_value (take SUMMARY_LIST_LIMIT xs)
       @ (if SUMMARY_LIST_LIMIT < length xs
          then [PDict [(''_truncated_items'', PInt (int (length xs - SUMMARY_LIST_LIMIT)))]] else []))"
| "summarize_value PNone = PNone"
| "summarize_value (PBool b) = PBool b"
| "summarize_value (PInt i) = PInt i"
| "summarize_value (PFloat r t) = PFloat r t"
  by pat_completeness auto

termination
proof (relation "measure size", goal_cases)
  case (2 d p k v)
  then have "(k, v) \<in> set d" by (auto dest: in_set_takeD)
  from size_in_list [OF this, of "size_prod (\<lambda>_. 0) size"] show ?case by simp
next
  case (3 xs x)
  then have "x \<in> set xs" by (rule in_set_takeD)
  from size_in_list [OF this, of size] show ?case by simp
qed simp

definition summarize_mapping :: "pyval \<Rightarrow> pydict" where
  "summarize_mapping v = (if is_dict v then dict_or_empty (summarize_value v) else [])"

definition content_sha256 :: "audit_env \<Rightarrow> pyval \<Rightarrow> string option" where
  "content_sha256 env v =
     (case v of
        PNone \<Rightarrow> None
      | PStr s \<Rightarrow> if s = [] then None else Some (au_sha256 env s)
      | _ \<Rightarrow> Some (au_sha256 env (py_str (summarize_value v))))"

record audit_request =
  rq_event :: AgentActionEventRecord
  rq_summary :: pyval
  rq_content :: "pyval option"
  rq_started :: "int option"
  rq_ended :: "int option"

definition audit_event_of :: "audit_env \<Rightarrow> MissionRecord \<Rightarrow> audit_request \<Rightarrow> AgentActionEventRecord" where
  "audit_event_of env mission rq =
     (let started = (case rq_started rq of Some t \<Rightarrow> t | None \<Rightarrow> au_now env);
          ended = (case rq_ended rq of Some t \<Rightarrow> t | None \<Rightarrow> started);
          summary = summarize_mapping (rq_summary rq);
          pid = (case truthy_text (m_project_id mission) of Some p \<Rightarrow> p
                 | None \<Rightarrow> resolve_project_id (PDict (m_metadata mission)) (PStr (m_mission_id mission)));
          r = rq_event rq;
          content = (case truthy_text (ae_content_sha256 r) of Some d \<Rightarrow> Some d
            | None \<Rightarrow> content_sha256 env (case rq_content rq of Some v \<Rightarrow> v | None \<Rightarrow> PDict summary))
      in r\<lparr>ae_mission_id := m_mission_id mission, ae_project_id := pid, ae_trace_id := au_trace_id env,
           ae_span_id := au_span_id env,
           ae_correlation_id := Some (case truthy_text (ae_correlation_id r) of Some c \<Rightarrow> c
             | None \<Rightarrow> m_mission_id mission),
           ae_started_at := started, ae_ended_at := Some ended, ae_payload_summary := summary,
           ae_content_sha256 := content\<rparr>)"

text \<open>\<open>record_audit_event\<close>: \<open>found\<close> is the mission the caller passed or storage has. A validation error
  of the request propagates; a storage error is logged.\<close>

definition record_audit_event ::
  "audit_env \<Rightarrow> MissionRecord option \<Rightarrow> audit_request \<Rightarrow> audit_db
     \<Rightarrow> AgentActionEventRecord option res \<times> audit_db" where
  "record_audit_event env found rq db =
     (case found of
        None \<Rightarrow> (Inr None, db)
      | Some mission \<Rightarrow>
          let event = audit_event_of env mission rq
          in if ae_mission_id event = [] \<or> ae_agent_id event = [] \<or> ae_service_name event = []
               \<or> ae_event_type event = [] \<or> ae_status event = [] then (Inl ValidationError, db)
             else (case create_agent_action_event env None event db of
                     (Inl e, db') \<Rightarrow> (Inr None, db')
                   | (Inr row, db') \<Rightarrow> (Inr (Some row), db')))"

text \<open>Retention, for the action events: the SQL function deletes by age.\<close>

definition prune_action_events :: "int \<Rightarrow> int \<Rightarrow> audit_db \<Rightarrow> nat \<times> audit_db" where
  "prune_action_events now retention_days db =
     (let days = max 1 retention_days;
          kept = filter (\<lambda>r. now - days * 86400000000 \<le> ae_created_at r) (ad_events db)
      in (length (ad_events db) - length kept, db\<lparr>ad_events := kept\<rparr>))"

section \<open>The chain\<close>

definition event_digest :: "audit_env \<Rightarrow> string option \<Rightarrow> AgentActionEventRecord \<Rightarrow> string" where
  "event_digest env prev r = au_sha256 env (event_digest_payload env prev r (ae_content_sha256 r))"

text \<open>What a verifier checks of a project's events, oldest first: every row names the digest of the row
  before it, and its own digest is the one its fields give.\<close>

fun chained :: "audit_env \<Rightarrow> string option \<Rightarrow> AgentActionEventRecord list \<Rightarrow> bool" where
  "chained env prev [] = True"
| "chained env prev (r # rs) =
     (ae_prev_event_digest r = prev \<and> ae_event_digest r = event_digest env prev r
      \<and> chained env (Some (ae_event_digest r)) rs)"

fun insert_events :: "audit_env \<Rightarrow> AgentActionEventRecord list \<Rightarrow> audit_db \<Rightarrow> audit_db" where
  "insert_events env [] db = db"
| "insert_events env (r # rs) db = insert_events env rs (snd (insert_agent_action_event env r db))"

definition event_key :: "AgentActionEventRecord \<Rightarrow> int \<times> string" where
  "event_key r = (ae_created_at r, ae_event_id r)"

definition last_digest :: "AgentActionEventRecord list \<Rightarrow> string option" where
  "last_digest rs = (if rs = [] then None else Some (ae_event_digest (last rs)))"

lemma chained_append:
  "chained env p (xs @ [r]) \<longleftrightarrow> chained env p xs
     \<and> ae_prev_event_digest r = (if xs = [] then p else last_digest xs)
     \<and> ae_event_digest r = event_digest env (ae_prev_event_digest r) r"
  by (induction xs arbitrary: p) (auto simp: last_digest_def)

lemma chained_suffix: "chained env p (xs @ ys) \<Longrightarrow> \<exists>q. chained env q ys"
  by (induction xs arbitrary: p) auto

lemma newest_first_sorted:
  assumes "sorted_wrt (\<lambda>a b. event_key a < event_key b) rs"
  shows "newest_first rs = rev rs"
proof -
  have "sorted (map event_key rs)"
    using assms by (induction rs) (auto simp: less_imp_le)
  moreover have "event_key = (\<lambda>r. (ae_created_at r, ae_event_id r))" by (simp add: event_key_def fun_eq_iff)
  ultimately show ?thesis by (simp add: newest_first_def sort_key_id_if_sorted)
qed

lemma newest_digest_sorted:
  assumes "sorted_wrt (\<lambda>a b. event_key a < event_key b) (project_events pid rs)"
    and "\<And>r. r \<in> set rs \<Longrightarrow> ae_event_digest r \<noteq> []"
  shows "newest_digest pid rs = last_digest (project_events pid rs)"
proof (cases "project_events pid rs" rule: rev_cases)
  case Nil
  then show ?thesis by (simp add: newest_digest_def newest_first_def last_digest_def)
next
  case (snoc ys y)
  then have "y \<in> set rs" by (metis (no_types) filter_is_subset in_set_conv_decomp project_events_def subsetD)
  then have "ae_event_digest y \<noteq> []" by (rule assms(2))
  then show ?thesis
    using newest_first_sorted [OF assms(1)] snoc
    by (simp add: newest_digest_def last_digest_def truthy_text_def)
qed

lemma inserted:
  "insert_agent_action_event env r db = (Inl e, db') \<Longrightarrow> db' = db"
  "insert_agent_action_event env r db = (Inr row, db') \<Longrightarrow>
     ad_events db' = ad_events db @ [row] \<and> ad_missions db' = ad_missions db
     \<and> ae_project_id row = ae_project_id r \<and> event_key row = event_key r
     \<and> ae_prev_event_digest row = newest_digest (ae_project_id r) (ad_events db)
     \<and> ae_event_digest row = event_digest env (ae_prev_event_digest row) row
     \<and> ae_event_id r \<notin> set (map ae_event_id (ad_events db))"
  by (auto simp: insert_agent_action_event_def Let_def event_key_def event_digest_def event_digest_payload_def
      event_digest_document_def split: if_splits)

text \<open>The invariant of insertions in order: each project's rows are chained and ordered.\<close>

definition trail_ok :: "audit_env \<Rightarrow> audit_db \<Rightarrow> bool" where
  "trail_ok env db \<longleftrightarrow> (\<forall>r \<in> set (ad_events db). ae_event_digest r \<noteq> [])
     \<and> (\<forall>pid. chained env None (project_events pid (ad_events db))
          \<and> sorted_wrt (\<lambda>a b. event_key a < event_key b) (project_events pid (ad_events db)))"

definition later :: "audit_db \<Rightarrow> AgentActionEventRecord \<Rightarrow> bool" where
  "later db r \<longleftrightarrow> (\<forall>s \<in> set (project_events (ae_project_id r) (ad_events db)). event_key s < event_key r)"

lemma trail_insert:
  assumes "trail_ok env db" and "later db r" and "\<And>t. au_sha256 env t \<noteq> []"
  shows "trail_ok env (snd (insert_agent_action_event env r db))"
proof -
  obtain res db' where i: "insert_agent_action_event env r db = (res, db')" by fastforce
  show ?thesis
  proof (cases res)
    case (Inl e)
    with i inserted(1) assms(1) show ?thesis by fastforce
  next
    case (Inr row)
    note new = inserted(2) [OF i [unfolded Inr]]
    have prev: "ae_prev_event_digest row = last_digest (project_events (ae_project_id r) (ad_events db))"
      using new newest_digest_sorted assms(1) unfolding trail_ok_def by metis
    have ne: "ae_event_digest row \<noteq> []" using new assms(3) by (simp add: event_digest_def)
    have "chained env None (project_events pid (ad_events db'))
        \<and> sorted_wrt (\<lambda>a b. event_key a < event_key b) (project_events pid (ad_events db'))" for pid
    proof (cases "pid = ae_project_id r")
      case True
      then have "project_events pid (ad_events db') = project_events pid (ad_events db) @ [row]"
        using new by (simp add: project_events_def)
      then show ?thesis
        using assms(1,2) new prev True
        by (auto simp: trail_ok_def later_def chained_append sorted_wrt_append last_digest_def)
    next
      case False
      then have "project_events pid (ad_events db') = project_events pid (ad_events db)"
        using new by (simp add: project_events_def)
      with assms(1) show ?thesis by (simp add: trail_ok_def)
    qed
    then show ?thesis using assms(1) new ne i by (auto simp: trail_ok_def)
  qed
qed

lemma later_insert:
  assumes "later db s" and "ae_project_id r = ae_project_id s \<Longrightarrow> event_key r < event_key s"
  shows "later (snd (insert_agent_action_event env r db)) s"
proof -
  obtain res db' where i: "insert_agent_action_event env r db = (res, db')" by fastforce
  show ?thesis
    using assms inserted(1) [of env r db _ db'] inserted(2) [of env r db _ db'] i
    by (cases res) (auto simp: later_def project_events_def)
qed

lemma trail_inserts:
  assumes "trail_ok env db" and "\<And>r. r \<in> set rs \<Longrightarrow> later db r"
    and "sorted_wrt (\<lambda>a b. ae_project_id a = ae_project_id b \<longrightarrow> event_key a < event_key b) rs"
    and "\<And>t. au_sha256 env t \<noteq> []"
  shows "trail_ok env (insert_events env rs db)"
  using assms(1-3)
proof (induction rs arbitrary: db)
  case (Cons r rs)
  have "trail_ok env (snd (insert_agent_action_event env r db))"
    by (rule trail_insert) (use Cons.prems assms(4) in auto)
  moreover have "later (snd (insert_agent_action_event env r db)) s" if "s \<in> set rs" for s
    by (rule later_insert) (use Cons.prems that in auto)
  ultimately show ?case using Cons.IH Cons.prems(3) by simp
qed simp

lemma filter_age_suffix:
  assumes "sorted_wrt (\<lambda>a b. event_key a < event_key b) rs"
  shows "\<exists>n. filter (\<lambda>r. c \<le> ae_created_at r) rs = drop n rs"
  using assms
proof (induction rs)
  case (Cons r rs)
  show ?case
  proof (cases "c \<le> ae_created_at r")
    case True
    then have "\<forall>s \<in> set rs. c \<le> ae_created_at s"
      using Cons.prems by (fastforce simp: event_key_def)
    then have "filter (\<lambda>r. c \<le> ae_created_at r) (r # rs) = drop 0 (r # rs)" using True by (simp add: filter_id_conv)
    then show ?thesis by blast
  next
    case False
    then obtain n where "filter (\<lambda>r. c \<le> ae_created_at r) rs = drop n rs" using Cons by auto
    then have "filter (\<lambda>r. c \<le> ae_created_at r) (r # rs) = drop (Suc n) (r # rs)" using False by simp
    then show ?thesis by blast
  qed
qed simp

section \<open>What a digest determines\<close>

definition scalar :: "pyval \<Rightarrow> bool" where
  "scalar v = (case v of PNone \<Rightarrow> True | PInt _ \<Rightarrow> True | PStr _ \<Rightarrow> True | _ \<Rightarrow> False)"

definition covered_keys :: "string list" where
  "covered_keys =
     [''event_id'', ''project_id'', ''mission_id'', ''agent_id'', ''service_name'', ''event_type'', ''status'',
      ''object_type'', ''object_id'', ''tool_name'', ''trace_id'', ''span_id'', ''correlation_id'', ''parent_event_id'',
      ''started_at'', ''ended_at'', ''duration_ms'', ''content_sha256'', ''blob_ref'']"

definition covered :: "audit_env \<Rightarrow> AgentActionEventRecord \<Rightarrow> pyval list" where
  "covered env r = map (dget (event_digest_document env None r (ae_content_sha256 r))) covered_keys"

definition hashed_text :: "audit_env \<Rightarrow> AgentActionEventRecord \<Rightarrow> string" where
  "hashed_text env r = event_digest_payload env (ae_prev_event_digest r) r (ae_content_sha256 r)"

lemma opt_str_inj [simp]: "opt_str a = opt_str b \<longleftrightarrow> a = b"
  by (auto simp: opt_str_def split: option.splits)

lemma scalar_simps [simp]: "scalar (opt_str v)" "scalar (PStr s)" "scalar PNone" "scalar (PInt i)"
  "scalar (case u of None \<Rightarrow> PNone | Some s \<Rightarrow> PStr (f s))" "scalar (case w of None \<Rightarrow> PNone | Some i \<Rightarrow> PInt i)"
  by (auto simp: scalar_def opt_str_def split: option.split)

lemma covered_get:
  "k \<in> set covered_keys \<Longrightarrow>
    dget (event_digest_document env prev r content) k = dget (event_digest_document env None r content) k
    \<and> scalar (dget (event_digest_document env prev r content) k)"
  unfolding covered_keys_def list.set
  by (elim insertE emptyE; simp add: event_digest_document_def dget_def)

lemma hashed_text_determines:
  assumes "\<And>d e k. au_dumps_sorted env (PDict d) = au_dumps_sorted env (PDict e) \<Longrightarrow> scalar (dget d k) \<Longrightarrow>
      dget d k = dget e k"
    and "hashed_text env r = hashed_text env s"
  shows "covered env r = covered env s" and "ae_prev_event_digest r = ae_prev_event_digest s"
proof -
  let ?d = "\<lambda>r. event_digest_document env (ae_prev_event_digest r) r (ae_content_sha256 r)"
  have eq: "scalar (dget (?d r) k) \<Longrightarrow> dget (?d r) k = dget (?d s) k" for k
    by (rule assms(1)) (use assms(2) in \<open>simp add: hashed_text_def event_digest_payload_def\<close>)
  show "covered env r = covered env s"
    unfolding covered_def
  proof (rule map_cong [OF refl])
    fix k assume k: "k \<in> set covered_keys"
    have g: "dget (event_digest_document env None r c) k = dget (event_digest_document env p r c) k" for p r c
      by (rule conjunct1 [OF covered_get [OF k], symmetric])
    have "dget (?d r) k = dget (?d s) k" by (rule eq) (rule conjunct2 [OF covered_get [OF k]])
    then show "dget (event_digest_document env None r (ae_content_sha256 r)) k
        = dget (event_digest_document env None s (ae_content_sha256 s)) k"
      unfolding g [where p = "ae_prev_event_digest r" and r = r] g [where p = "ae_prev_event_digest s" and r = s] .
  qed
  show "ae_prev_event_digest r = ae_prev_event_digest s"
  proof -
    have get: "dget (event_digest_document env p r c) ''prev_event_digest_sha256'' = opt_str p" for p r c
      by (simp add: event_digest_document_def dget_def)
    show ?thesis using eq [of "''prev_event_digest_sha256''"] by (simp only: get opt_str_inj scalar_simps)
  qed
qed

lemma chained_last: "chained env p (xs @ [r]) \<Longrightarrow> ae_event_digest r = au_sha256 env (hashed_text env r)"
  by (simp add: chained_append event_digest_def hashed_text_def)

section \<open>Summaries\<close>

text \<open>A summary has bounded texts and containers at every level.\<close>

fun summary_bounded :: "pyval \<Rightarrow> bool" where
  "summary_bounded (PStr s) = (length s \<le> SUMMARY_STRING_LIMIT + 3)"
| "summary_bounded (PList xs) = (length xs \<le> SUMMARY_LIST_LIMIT + 1 \<and> list_all summary_bounded xs)"
| "summary_bounded (PDict d) = (length d \<le> SUMMARY_LIST_LIMIT + 1 \<and> list_all (\<lambda>(k, v). summary_bounded v) d)"
| "summary_bounded v = True"

lemma length_dset: "length (dset k v d) \<le> Suc (length d)"
  using dkeys_dset [of k v d] by (auto simp: dkeys_def dest: arg_cong [where f = length] split: if_splits)

lemma set_dset: "set (dset k v d) \<subseteq> insert (k, v) (set d)"
  unfolding dset_def by (induction d) (auto split: if_splits)

lemma summary_bounded_value: "summary_bounded (summarize_value v)"
proof (induction v rule: summarize_value.induct)
  case (1 s)
  then show ?case by (simp add: summarize_text_def Let_def SUMMARY_STRING_LIMIT_def)
next
  case (2 d)
  let ?kept = "map (\<lambda>(k, v). (k, summarize_value v)) (take SUMMARY_LIST_LIMIT d)"
  have kept: "\<forall>(k, v) \<in> set ?kept. summary_bounded v" using 2 by auto
  let ?all = "dset ''_truncated_keys'' (PInt (int (length d - SUMMARY_LIST_LIMIT))) ?kept"
  have "\<forall>(k, v) \<in> set ?all. summary_bounded v"
    using kept set_dset [of "''_truncated_keys''" _ ?kept] by fastforce
  moreover have "length ?all \<le> Suc (length ?kept)" by (rule length_dset)
  ultimately show ?case using kept by (auto simp: Let_def list_all_iff)
next
  case (3 xs)
  then show ?case by (auto simp: list_all_iff)
qed simp_all

section \<open>Properties\<close>

text \<open>A sample environment for the witnesses: JSON text numbers the documents and the digest of a text is
  the text itself after a letter.\<close>

definition sample_audit_env :: audit_env where
  "sample_audit_env = \<lparr>au_sha256 = (\<lambda>t. CHR ''h'' # t), au_dumps_sorted = (\<lambda>v. replicate (to_nat v) (CHR ''x'')),
     au_iso = int_str, au_millis = (\<lambda>d. d div 1000), au_uuid = ''u'', au_trace_id = None, au_span_id = None, au_now = 5\<rparr>"

definition sample_event :: "string \<Rightarrow> int \<Rightarrow> AgentActionEventRecord" where
  "sample_event eid t = \<lparr>ae_event_id = eid, ae_project_id = ''p'', ae_mission_id = ''m1'', ae_agent_id = ''a'',
     ae_service_name = ''orchestrator'', ae_event_type = ''E'', ae_status = ''SUCCESS'', ae_object_type = None,
     ae_object_id = None, ae_tool_name = None, ae_trace_id = None, ae_span_id = None, ae_correlation_id = None,
     ae_parent_event_id = None, ae_started_at = t, ae_ended_at = Some t, ae_duration_ms = None, ae_payload_summary = [],
     ae_content_sha256 = None, ae_blob_ref = None, ae_prev_event_digest = None, ae_event_digest = ''pending'',
     ae_created_at = t\<rparr>"

definition sample_audit_db :: audit_db where
  "sample_audit_db = \<lparr>ad_missions = [''m1''], ad_events = []\<rparr>"

lemma sample_audit_sel:
  "au_sha256 sample_audit_env s \<noteq> []" "ae_project_id (sample_event e t) = ''p''"
  "event_key (sample_event e t) = (t, e)" "ae_event_id (sample_event e t) = e" "ae_mission_id (sample_event e t) = ''m1''"
  "ad_events sample_audit_db = []" "ad_missions sample_audit_db = [''m1'']"
  by (simp_all add: sample_audit_env_def sample_event_def event_key_def sample_audit_db_def)

text \<open>C26. Events inserted in the order of their time stamps form a verifiable chain: whatever insertions the
  database refuses in between, each project's rows are linked from the first to the last, and what
  retention leaves of them is still linked.\<close>

theorem audit_chain_linear:
  assumes "ad_events db = []" and "\<And>t. au_sha256 env t \<noteq> []"
    and "sorted_wrt (\<lambda>a b. ae_project_id a = ae_project_id b \<longrightarrow> event_key a < event_key b) rs"
  shows "chained env None (project_events pid (ad_events (insert_events env rs db)))
    \<and> (\<exists>p. chained env p (project_events pid
          (ad_events (snd (prune_action_events now days (insert_events env rs db))))))"
proof -
  have "trail_ok env db" using assms(1) by (simp add: trail_ok_def project_events_def)
  moreover have "later db r" for r using assms(1) by (simp add: later_def project_events_def)
  ultimately have ok: "trail_ok env (insert_events env rs db)"
    using trail_inserts assms(2,3) by blast
  let ?es = "project_events pid (ad_events (insert_events env rs db))"
  let ?c = "now - max 1 days * 86400000000"
  have ch: "chained env None ?es" and so: "sorted_wrt (\<lambda>a b. event_key a < event_key b) ?es"
    using ok by (simp_all add: trail_ok_def)
  have "project_events pid (ad_events (snd (prune_action_events now days (insert_events env rs db))))
      = filter (\<lambda>r. ?c \<le> ae_created_at r) ?es"
    by (simp add: prune_action_events_def Let_def project_events_def conj_commute)
  moreover obtain n where "filter (\<lambda>r. ?c \<le> ae_created_at r) ?es = drop n ?es"
    using filter_age_suffix [OF so] by blast
  moreover have "\<exists>p. chained env p (drop n ?es)"
    using chained_suffix [of env None "take n ?es" "drop n ?es"] ch by simp
  ultimately show ?thesis using ch by simp
qed

theorem audit_chain_linear_witness:
  "chained sample_audit_env None (project_events ''p''
     (ad_events (insert_events sample_audit_env [sample_event ''e1'' 1, sample_event ''e2'' 2] sample_audit_db)))"
  using audit_chain_linear [of sample_audit_db sample_audit_env "[sample_event ''e1'' 1, sample_event ''e2'' 2]" "''p''"]
  by (simp add: sample_audit_sel)

text \<open>The last digest of a chain fixes all of it: if two verifiable chains end in the same digest, either
  they have the same length and every event agrees in every covered field, or two different texts
  that were hashed for them collide.\<close>

theorem audit_chain_tamper_evident:
  assumes "\<And>d e k. au_dumps_sorted env (PDict d) = au_dumps_sorted env (PDict e) \<Longrightarrow> scalar (dget d k) \<Longrightarrow>
      dget d k = dget e k"
    and "chained env None xs" and "chained env None ys" and "last_digest xs = last_digest ys"
  shows "map (covered env) xs = map (covered env) ys
    \<or> (\<exists>s \<in> hashed_text env ` set xs. \<exists>t \<in> hashed_text env ` set ys. s \<noteq> t \<and> au_sha256 env s = au_sha256 env t)"
  using assms(2-4)
proof (induction xs arbitrary: ys rule: rev_induct)
  case Nil
  then show ?case by (simp add: last_digest_def split: if_splits)
next
  case (snoc x xs)
  obtain y ys' where ys: "ys = ys' @ [y]"
    using snoc.prems(3) by (cases ys rule: rev_cases) (auto simp: last_digest_def)
  have same: "au_sha256 env (hashed_text env x) = au_sha256 env (hashed_text env y)"
    using snoc.prems chained_last by (metis (no_types, lifting) last_digest_def last_snoc option.inject snoc_eq_iff_butlast ys)
  show ?case
  proof (cases "hashed_text env x = hashed_text env y")
    case False
    then show ?thesis using same ys by auto
  next
    case True
    note det = hashed_text_determines [OF assms(1) True]
    have "last_digest xs = last_digest ys'"
      using snoc.prems(1,2) det(2) unfolding ys chained_append by (auto simp: last_digest_def split: if_splits)
    then have "map (covered env) xs = map (covered env) ys'
        \<or> (\<exists>s \<in> hashed_text env ` set xs. \<exists>t \<in> hashed_text env ` set ys'. s \<noteq> t \<and> au_sha256 env s = au_sha256 env t)"
      using snoc.IH snoc.prems(1,2) unfolding ys chained_append by blast
    then show ?thesis using det(1) ys by auto
  qed
qed

theorem audit_chain_tamper_evident_witness:
  "let xs = ad_events (insert_events sample_audit_env [sample_event ''e1'' 1] sample_audit_db);
       ys = ad_events (insert_events sample_audit_env [sample_event ''e1'' 1\<lparr>ae_created_at := 7\<rparr>] sample_audit_db)
   in map (covered sample_audit_env) xs = map (covered sample_audit_env) ys
     \<or> (\<exists>s \<in> hashed_text sample_audit_env ` set xs. \<exists>t \<in> hashed_text sample_audit_env ` set ys.
          s \<noteq> t \<and> au_sha256 sample_audit_env s = au_sha256 sample_audit_env t)"
proof -
  let ?ins = "\<lambda>t. ad_events (insert_events sample_audit_env [sample_event ''e1'' 1\<lparr>ae_created_at := t\<rparr>] sample_audit_db)"
  have one: "?ins t = [sample_event ''e1'' 1\<lparr>ae_created_at := t, ae_duration_ms := Some 0,
      ae_event_digest := event_digest sample_audit_env None (sample_event ''e1'' 1\<lparr>ae_duration_ms := Some 0\<rparr>)\<rparr>]" for t
    by (simp add: insert_agent_action_event_def sample_audit_sel Let_def newest_digest_def newest_first_def
        project_events_def event_digest_def event_digest_payload_def event_digest_document_def sample_event_def
        content_digest_def truthy_text_def event_duration_ms_def sample_audit_env_def)
  have "chained sample_audit_env None (?ins t)" for t
    unfolding one by (simp add: event_digest_def event_digest_payload_def event_digest_document_def sample_event_def)
  note ch = this
  have ld: "last_digest (?ins s) = last_digest (?ins t)" for s t
    unfolding one by (simp add: last_digest_def)
  have inj: "dget d k = dget e k"
    if "au_dumps_sorted sample_audit_env (PDict d) = au_dumps_sorted sample_audit_env (PDict e)" for d e k
  proof -
    have "to_nat (PDict d) = to_nat (PDict e)"
      using arg_cong [OF that, of length] by (simp add: sample_audit_env_def)
    then show ?thesis by simp
  qed
  have e: "sample_event ''e1'' 1\<lparr>ae_created_at := 1\<rparr> = sample_event ''e1'' 1" by (simp add: sample_event_def)
  show ?thesis
    unfolding Let_def
    by (rule audit_chain_tamper_evident [OF _ ch [of 1, unfolded e] ch [of 7] ld [of 1 7, unfolded e]]) (rule inj)
qed

text \<open>The lock does not order the chain: an event whose time stamp is older than that of an event already
  stored is linked to that newer event, and so is the next event after it. Two rows then name the
  same predecessor, and nothing names the late one.\<close>

theorem late_event_forks_chain:
  assumes "\<And>t. au_sha256 env t \<noteq> []"
    and "\<And>r. r \<in> set (project_events pid (ad_events db)) \<Longrightarrow> event_key r < event_key a"
    and "event_key a < event_key b" and "event_key b < event_key c"
    and "ae_project_id a = pid" and "ae_project_id b = pid" and "ae_project_id c = pid"
    and "distinct (map ae_event_id [a, b, c])" and "set (map ae_event_id [a, b, c]) \<inter> set (map ae_event_id (ad_events db)) = {}"
    and "set (map ae_mission_id [a, b, c]) \<subseteq> set (ad_missions db)"
  shows "\<exists>b' a' c'. ad_events (insert_events env [b, a, c] db) = ad_events db @ [b', a', c']
    \<and> ae_event_id a' = ae_event_id a \<and> ae_event_id b' = ae_event_id b \<and> ae_event_id c' = ae_event_id c
    \<and> ae_prev_event_digest a' = Some (ae_event_digest b') \<and> ae_prev_event_digest c' = Some (ae_event_digest b')"
proof -
  have ins: "\<exists>row. insert_agent_action_event env r d = (Inr row, d\<lparr>ad_events := ad_events d @ [row]\<rparr>)
      \<and> ae_event_id row = ae_event_id r \<and> ae_project_id row = ae_project_id r \<and> event_key row = event_key r
      \<and> ae_prev_event_digest row = newest_digest (ae_project_id r) (ad_events d) \<and> ae_event_digest row \<noteq> []"
    if "ae_event_id r \<notin> set (map ae_event_id (ad_events d))" "ae_mission_id r \<in> set (ad_missions d)" for r d
    using that assms(1) by (simp add: insert_agent_action_event_def Let_def event_key_def)
  have newest: "newest_digest pid (ad_events db @ rs) = Some (ae_event_digest m)"
    if "m \<in> set rs" "\<And>r. r \<in> set rs \<Longrightarrow> r \<noteq> m \<Longrightarrow> event_key r < event_key m" "ae_project_id m = pid"
      "event_key a \<le> event_key m" "ae_event_digest m \<noteq> []" "distinct rs" for rs m
  proof -
    let ?es = "project_events pid (ad_events db @ rs)"
    have m: "m \<in> set ?es" using that(1,3) by (simp add: project_events_def)
    have below: "event_key r < event_key m" if "r \<in> set ?es" "r \<noteq> m" for r
      using that assms(2) \<open>event_key a \<le> event_key m\<close> \<open>\<And>r. r \<in> set rs \<Longrightarrow> r \<noteq> m \<Longrightarrow> event_key r < event_key m\<close>
      by (fastforce simp: project_events_def)
    have ne: "newest_first ?es \<noteq> []" and set: "set (newest_first ?es) = set ?es"
      using m by (auto simp: newest_first_def dest: arg_cong [where f = set])
    let ?h = "hd (newest_first ?es)"
    have "?h = m"
    proof (rule ccontr)
      assume h: "?h \<noteq> m"
      have "?h \<in> set ?es" using ne set hd_in_set by blast
      then have less: "event_key ?h < event_key m" using below h by blast
      have "sorted (map event_key (rev (newest_first ?es)))"
        by (simp add: newest_first_def event_key_def [abs_def])
      moreover have "m \<in> set (rev (newest_first ?es))" using m set by simp
      ultimately have "event_key m \<le> event_key ?h"
        using ne by (cases "newest_first ?es") (auto simp: sorted_append)
      with less show False by simp
    qed
    then show ?thesis
      using ne that(5) by (cases "newest_first ?es") (auto simp: newest_digest_def truthy_text_def)
  qed
  obtain b' where b: "insert_agent_action_event env b db = (Inr b', db\<lparr>ad_events := ad_events db @ [b']\<rparr>)"
    "ae_event_id b' = ae_event_id b" "ae_project_id b' = pid" "event_key b' = event_key b" "ae_event_digest b' \<noteq> []"
    using ins [of b db] assms(6,9,10) by auto
  let ?d1 = "db\<lparr>ad_events := ad_events db @ [b']\<rparr>"
  obtain a' where a: "insert_agent_action_event env a ?d1 = (Inr a', ?d1\<lparr>ad_events := ad_events ?d1 @ [a']\<rparr>)"
    "ae_event_id a' = ae_event_id a" "event_key a' = event_key a"
    "ae_prev_event_digest a' = newest_digest pid (ad_events db @ [b'])"
    using ins [of a ?d1] assms(5,8,9,10) b(2) by auto
  let ?d2 = "?d1\<lparr>ad_events := ad_events ?d1 @ [a']\<rparr>"
  obtain c' where c: "insert_agent_action_event env c ?d2 = (Inr c', ?d2\<lparr>ad_events := ad_events ?d2 @ [c']\<rparr>)"
    "ae_event_id c' = ae_event_id c" "ae_prev_event_digest c' = newest_digest pid (ad_events db @ [b', a'])"
    using ins [of c ?d2] assms(7,8,9,10) a(2) b(2) by auto
  have "newest_digest pid (ad_events db @ [b']) = Some (ae_event_digest b')"
    by (rule newest) (use b assms(3) in auto)
  moreover have "newest_digest pid (ad_events db @ [b', a']) = Some (ae_event_digest b')"
    by (rule newest) (use a(3) b assms(3) in auto)
  ultimately show ?thesis using a b c by auto
qed

theorem late_event_forks_chain_witness:
  "\<exists>b' a' c'. ad_events (insert_events sample_audit_env [sample_event ''e2'' 2, sample_event ''e1'' 1, sample_event ''e3'' 3]
       sample_audit_db) = [b', a', c']
     \<and> ae_prev_event_digest a' = Some (ae_event_digest b') \<and> ae_prev_event_digest c' = Some (ae_event_digest b')"
proof -
  have none: "project_events ''p'' (ad_events sample_audit_db) = []" by (simp add: project_events_def sample_audit_sel)
  show ?thesis
    using late_event_forks_chain [of sample_audit_env "''p''" sample_audit_db "sample_event ''e1'' 1" "sample_event ''e2'' 2"
        "sample_event ''e3'' 3"] none
    by (simp add: sample_audit_sel) metis
qed

text \<open>An event that is recorded is appended as it was described: one row, for the mission it was given,
  stamped with the end of the action, with a duration that is not negative and a summary that is
  bounded at every level. When nothing is recorded the trail is unchanged.\<close>

lemma create_result:
  "create_agent_action_event env event_id r db = (Inl e, db') \<Longrightarrow> db' = db"
  "create_agent_action_event env event_id r db = (Inr row, db') \<Longrightarrow> ae_ended_at r \<noteq> None \<Longrightarrow>
     ad_events db' = ad_events db @ [row] \<and> ad_missions db' = ad_missions db
     \<and> ae_mission_id row = ae_mission_id r \<and> ae_payload_summary row = ae_payload_summary r
     \<and> ae_created_at row = (case ae_ended_at row of Some e \<Rightarrow> e | None \<Rightarrow> ae_started_at row)
     \<and> (\<exists>d. ae_duration_ms row = Some d \<and> 0 \<le> d)
     \<and> (\<exists>content. ae_event_digest row = au_sha256 env (event_digest_payload env (ae_prev_event_digest row) row content)
          \<and> ae_content_sha256 row = content)"
  by (auto simp: create_agent_action_event_def insert_agent_action_event_def Let_def event_duration_ms_def
      event_digest_payload_def event_digest_document_def split: if_splits)

lemma record_result:
  assumes "record_audit_event env found rq db = (r, db')"
  shows "(db' = db \<and> (\<forall>row. r \<noteq> Inr (Some row)))
    \<or> (\<exists>m event row. found = Some m \<and> r = Inr (Some row)
        \<and> create_agent_action_event env None event db = (Inr row, db') \<and> ae_mission_id event = m_mission_id m
        \<and> ae_payload_summary event = summarize_mapping (rq_summary rq) \<and> ae_ended_at event \<noteq> None)"
proof (cases found)
  case None
  then show ?thesis using assms by (auto simp: record_audit_event_def)
next
  case (Some m)
  let ?event = "audit_event_of env m rq"
  have e: "ae_mission_id ?event = m_mission_id m" "ae_ended_at ?event \<noteq> None"
    "ae_payload_summary ?event = summarize_mapping (rq_summary rq)"
    by (simp_all add: audit_event_of_def Let_def)
  obtain c d where c: "create_agent_action_event env None ?event db = (c, d)" by fastforce
  show ?thesis
    using e assms c create_result(1) [of env None ?event db _ d] Some
    by (cases c) (auto simp: record_audit_event_def Let_def split: if_splits)
qed

theorem audit_event_recorded:
  assumes "record_audit_event env found rq db = (r, db')"
  shows "(case r of
      Inr (Some row) \<Rightarrow> ad_events db' = ad_events db @ [row] \<and> ad_missions db' = ad_missions db
        \<and> (\<exists>m. found = Some m \<and> ae_mission_id row = m_mission_id m)
        \<and> summary_bounded (PDict (ae_payload_summary row))
        \<and> ae_created_at row = (case ae_ended_at row of Some e \<Rightarrow> e | None \<Rightarrow> ae_started_at row)
        \<and> (\<exists>d. ae_duration_ms row = Some d \<and> 0 \<le> d)
        \<and> (\<exists>content. ae_event_digest row = au_sha256 env (event_digest_payload env (ae_prev_event_digest row) row content)
             \<and> ae_content_sha256 row = content)
    | _ \<Rightarrow> db' = db)"
proof -
  have b: "summary_bounded (PDict (summarize_mapping v))" for v
    using summary_bounded_value [of v] by (cases v) (simp_all add: summarize_mapping_def)
  from record_result [OF assms] show ?thesis
  proof (elim disjE exE conjE)
    assume "db' = db" "\<forall>row. r \<noteq> Inr (Some row)"
    then show ?thesis by (auto split: sum.split option.split)
  next
    fix m event row
    assume c: "create_agent_action_event env None event db = (Inr row, db')" "ae_ended_at event \<noteq> None"
      and rest: "found = Some m" "r = Inr (Some row)" "ae_mission_id event = m_mission_id m"
        "ae_payload_summary event = summarize_mapping (rq_summary rq)"
    from create_result(2) [OF c] rest b show ?thesis by simp
  qed
qed

theorem audit_event_recorded_witness:
  "\<exists>row db'. record_audit_event sample_audit_env (Some (sample_record\<lparr>m_mission_id := ''m1''\<rparr>))
       \<lparr>rq_event = sample_event [] 0, rq_summary = PDict [], rq_content = None, rq_started = None, rq_ended = None\<rparr>
       sample_audit_db = (Inr (Some row), db') \<and> ad_events db' = [row] \<and> ae_created_at row = 5"
proof -
  let ?rq = "\<lparr>rq_event = sample_event [] 0, rq_summary = PDict [], rq_content = None, rq_started = None, rq_ended = None\<rparr>"
  let ?m = "Some (sample_record\<lparr>m_mission_id := ''m1''\<rparr>)"
  obtain r db' where run: "record_audit_event sample_audit_env ?m ?rq sample_audit_db = (r, db')" by fastforce
  then obtain row where row: "r = Inr (Some row)" "ae_ended_at row = Some 5"
    by (auto simp: record_audit_event_def audit_event_of_def Let_def sample_event_def create_agent_action_event_def
        insert_agent_action_event_def sample_audit_db_def sample_record_def sample_audit_env_def)
  from audit_event_recorded [OF run] row have "ad_events db' = [row]" "ae_created_at row = 5"
    by (simp_all add: sample_audit_sel)
  with run row show ?thesis by blast
qed

end
