(* ===== verification/Pod_Assignments.thy ===== *)
theory Pod_Assignments
  imports Mission_Storage Audit_Chain Mission_Flow
begin

text \<open>
  The table \<open>mission_pod_assignments\<close>: \<open>orchestrator/storage_pods.py\<close>, the two endpoints of
  \<open>routes/internal.py\<close> over it and the provisional write of \<open>mission_flow_v2/phases_build.py\<close>. A
  worker's claim and the orchestrator's provisional write are single upsert statements that differ in
  the \<open>WHERE\<close> of their conflict clause; a refused statement returns no row and a second statement
  reads the row that refused it. What other transactions do between the two is the argument
  \<open>between\<close>. Rows are never deleted. The locale \<open>exclusive_claims\<close> states what a worker may
  rely on.
\<close>

section \<open>Table and statements\<close>

record assignment_row =
  as_pod :: string
  as_metadata :: pydict
  as_assigned_at :: int
  as_updated_at :: int

record pod_db =
  pd_missions :: mission_db
  pd_rows :: "assignment_row dict"

definition PROVISIONAL_ASSIGNED_BY :: string where "PROVISIONAL_ASSIGNED_BY = ''orchestrator''"

text \<open>\<open>metadata_json->>'assigned_by' = 'orchestrator'\<close>: the text of a JSON value of another type is
  never this word.\<close>

definition provisional_row :: "assignment_row \<Rightarrow> bool" where
  "provisional_row row \<longleftrightarrow> dget (as_metadata row) ''assigned_by'' = PStr PROVISIONAL_ASSIGNED_BY"

definition claim_where :: "string \<Rightarrow> assignment_row \<Rightarrow> bool" where
  "claim_where pod old \<longleftrightarrow> as_pod old = pod \<or> provisional_row old"

definition provisional_where :: "assignment_row \<Rightarrow> bool" where
  "provisional_where old \<longleftrightarrow> provisional_row old"

definition upsert_statement ::
  "int \<Rightarrow> bool \<Rightarrow> string \<Rightarrow> string \<Rightarrow> pydict \<Rightarrow> int \<Rightarrow> pod_db \<Rightarrow> assignment_row option res \<times> pod_db" where
  "upsert_statement now provisional mid pod md assigned_at db =
     (let new = \<lparr>as_pod = pod, as_metadata = md, as_assigned_at = assigned_at, as_updated_at = now\<rparr>;
          stored = db\<lparr>pd_rows := dset mid new (pd_rows db)\<rparr>
      in case map_of (pd_rows db) mid of
           None \<Rightarrow> if dhas (missions (pd_missions db)) mid then (Inr (Some new), stored)
                   else (Inl ForeignKeyViolation, db)
         | Some old \<Rightarrow> if (if provisional then provisional_where old else claim_where pod old)
                        then (Inr (Some new), stored) else (Inr None, db))"

definition assignment_document :: "(int \<Rightarrow> string) \<Rightarrow> string \<Rightarrow> assignment_row \<Rightarrow> pydict" where
  "assignment_document iso_text mid row =
     [(''mission_id'', PStr mid), (''pod_name'', PStr (as_pod row)), (''metadata'', PDict (as_metadata row)),
      (''assigned_at'', PStr (iso_text (as_assigned_at row))), (''updated_at'', PStr (iso_text (as_updated_at row)))]"

definition get_pod_assignment :: "(int \<Rightarrow> string) \<Rightarrow> pod_db \<Rightarrow> string \<Rightarrow> pydict option" where
  "get_pod_assignment iso_text db mid = map_option (assignment_document iso_text mid) (map_of (pd_rows db) mid)"

definition upsert_pod_assignment ::
  "(int \<Rightarrow> string) \<Rightarrow> int \<Rightarrow> (pod_db \<Rightarrow> pod_db) \<Rightarrow> bool \<Rightarrow> string \<Rightarrow> string \<Rightarrow> pydict \<Rightarrow> int \<Rightarrow> pod_db
     \<Rightarrow> pydict res \<times> pod_db" where
  "upsert_pod_assignment iso_text now between provisional mid pod md assigned_at db =
     (case upsert_statement now provisional mid pod md assigned_at db of
        (Inl e, db) \<Rightarrow> (Inl e, db)
      | (Inr (Some row), db) \<Rightarrow> (Inr (assignment_document iso_text mid row), db)
      | (Inr None, db) \<Rightarrow>
          let db = between db
          in (case get_pod_assignment iso_text db mid of
                None \<Rightarrow> (Inl RuntimeError, db)
              | Some existing \<Rightarrow> (Inl (PodAssignmentConflictError existing), db)))"

definition is_provisional_assignment :: "pyval \<Rightarrow> bool" where
  "is_provisional_assignment record =
     (case record of
        PDict r \<Rightarrow>
          let md = (case dget r ''metadata'' of PDict m \<Rightarrow> m | _ \<Rightarrow> r)
          in py_lower (py_strip (str_or_empty (dget md ''assigned_by''))) = PROVISIONAL_ASSIGNED_BY
      | _ \<Rightarrow> False)"

definition list_pod_assignments :: "(int \<Rightarrow> string) \<Rightarrow> pod_db \<Rightarrow> nat \<Rightarrow> pydict list" where
  "list_pod_assignments iso_text db limit =
     map (\<lambda>(mid, row). assignment_document iso_text mid row)
       (take limit (sort_key (\<lambda>(mid, row). - as_updated_at row) (pd_rows db)))"

section \<open>Writers\<close>

definition pod_key_for_manager :: "string \<Rightarrow> string" where
  "pod_key_for_manager manager =
     (let normalized = py_upper (py_strip manager);
          pod_name = (case List.find (\<lambda>a. agent_id a = normalized) AGENT_REGISTRY of
                        None \<Rightarrow> [] | Some a \<Rightarrow> py_strip (agent_pod a))
      in case map_of [(''Pod A'', ''podA''), (''Pod B'', ''podB''), (''Pod C'', ''podC''), (''Pod D'', ''podD'')] pod_name of
           Some key \<Rightarrow> key
         | None \<Rightarrow> let joined = filter (\<lambda>c. c \<noteq> CHR '' '') pod_name in if joined = [] then ''pod'' else joined)"

definition agent_id_from_value :: "pyval \<Rightarrow> string option" where
  "agent_id_from_value candidate =
     (let normalized = py_upper (py_strip (str_or_empty candidate)) in if normalized = [] then None else Some normalized)"

definition agent_id_from_metadata :: "pydict \<Rightarrow> string option" where
  "agent_id_from_metadata md =
     List.find (\<lambda>_. True) (List.map_filter (\<lambda>key. agent_id_from_value (dget md key))
       [''agent_id'', ''selected_agent_id'', ''assigned_agent_id'', ''assigned_specialist_agent_id'',
        ''assigned_pod_manager_agent_id'', ''target_agent_id''])"

record pod_store =
  ps_pods :: pod_db
  ps_audit :: audit_db

record pod_env =
  pe_audit :: audit_env
  pe_now :: int
  pe_between :: "pod_db \<Rightarrow> pod_db"

text \<open>The request of \<open>record_audit_event\<close> for a written assignment, with the defaults of its
  signature; the fields \<open>audit_event_of\<close> and the storage fill in start out empty.\<close>

definition assignment_event :: "string \<Rightarrow> string \<Rightarrow> AgentActionEventRecord" where
  "assignment_event agent pod =
     \<lparr>ae_event_id = [], ae_project_id = [], ae_mission_id = [], ae_agent_id = agent,
      ae_service_name = ''orchestrator'', ae_event_type = ''MISSION_POD_ASSIGNMENT_WRITTEN'', ae_status = ''SUCCESS'',
      ae_object_type = Some ''pod_assignment'', ae_object_id = Some pod, ae_tool_name = None, ae_trace_id = None,
      ae_span_id = None, ae_correlation_id = None, ae_parent_event_id = None, ae_started_at = 0, ae_ended_at = None,
      ae_duration_ms = None, ae_payload_summary = [], ae_content_sha256 = None, ae_blob_ref = None,
      ae_prev_event_digest = None, ae_event_digest = [], ae_created_at = 0\<rparr>"

definition audit_assignment ::
  "pod_env \<Rightarrow> MissionRecord \<Rightarrow> string \<Rightarrow> string \<Rightarrow> pyval \<Rightarrow> pyval option \<Rightarrow> pod_store
     \<Rightarrow> unit res \<times> pod_store" where
  "audit_assignment env mission agent pod summary content w =
     (let (r, audit) = record_audit_event (pe_audit env) (Some mission)
            \<lparr>rq_event = assignment_event agent pod, rq_summary = summary, rq_content = content,
             rq_started = None, rq_ended = None\<rparr> (ps_audit w)
      in (rbind r (\<lambda>_. Inr ()), w\<lparr>ps_audit := audit\<rparr>))"

definition provisional_details :: "MissionRecord \<Rightarrow> string \<Rightarrow> string \<Rightarrow> pydict" where
  "provisional_details mission manager specialist =
     [(''assigned_by'', PStr ''orchestrator''), (''pod_name'', PStr (pod_key_for_manager manager)),
      (''agent_id'', PStr manager), (''specialist_agent_id'', PStr specialist),
      (''requested_target_language'', PStr (case m_requested_target_language mission of None \<Rightarrow> [] | Some l \<Rightarrow> l)),
      (''reason'', PStr ''delegation-routing'')]"

definition persist_pod_assignment_record ::
  "pod_env \<Rightarrow> MissionRecord \<Rightarrow> string \<Rightarrow> string \<Rightarrow> string \<Rightarrow> pod_store \<Rightarrow> pydict option res \<times> pod_store" where
  "persist_pod_assignment_record env mission mid manager specialist w =
     (let pod = pod_key_for_manager manager; details = provisional_details mission manager specialist
      in case upsert_pod_assignment (au_iso (pe_audit env)) (pe_now env) (pe_between env) True mid pod details
                (pe_now env) (ps_pods w) of
           (Inl _, db) \<Rightarrow> (Inr None, w\<lparr>ps_pods := db\<rparr>)
         | (Inr record, db) \<Rightarrow>
             (case audit_assignment env mission manager pod (PDict details) (Some (PDict details)) (w\<lparr>ps_pods := db\<rparr>) of
                (Inl e, w) \<Rightarrow> (Inl e, w)
              | (Inr _, w) \<Rightarrow> (Inr (Some record), w)))"

section \<open>The endpoints\<close>

text \<open>\<open>POST /internal/pod-assignment\<close>; \<open>assigned_at\<close> is the instant of the request, when it has one.\<close>

definition post_pod_assignment ::
  "pod_env \<Rightarrow> string \<Rightarrow> string \<Rightarrow> pydict \<Rightarrow> int option \<Rightarrow> pod_store \<Rightarrow> pydict res \<times> pod_store" where
  "post_pod_assignment env mid pod md assigned_at w =
     (if mid = [] \<or> pod = [] then (Inl (HTTPException 422), w)
      else case fetch_mission (pd_missions (ps_pods w)) mid of
        Inl e \<Rightarrow> (Inl e, w)
      | Inr None \<Rightarrow> (Inl (HTTPException 404), w)
      | Inr (Some mission) \<Rightarrow>
          (case upsert_pod_assignment (au_iso (pe_audit env)) (pe_now env) (pe_between env) False mid pod md
                  (case assigned_at of Some t \<Rightarrow> t | None \<Rightarrow> pe_now env) (ps_pods w) of
             (Inl (PodAssignmentConflictError _), db) \<Rightarrow> (Inl (HTTPException 409), w\<lparr>ps_pods := db\<rparr>)
           | (Inl e, db) \<Rightarrow> (Inl e, w\<lparr>ps_pods := db\<rparr>)
           | (Inr record, db) \<Rightarrow>
               (let agent = (case agent_id_from_metadata md of Some a \<Rightarrow> a | None \<Rightarrow>
                               case agent_id_from_metadata (m_metadata mission) of Some a \<Rightarrow> a | None \<Rightarrow> ''SYSTEM'')
                in case audit_assignment env mission agent pod
                          (PDict [(''pod_name'', PStr pod), (''metadata'', PDict (summarize_mapping (PDict md)))]) None
                          (w\<lparr>ps_pods := db\<rparr>) of
                     (Inl e, w) \<Rightarrow> (Inl e, w)
                   | (Inr _, w) \<Rightarrow> (Inr record, w))))"

text \<open>\<open>GET /internal/missions/{mission_id}/pod-assignment\<close>.\<close>

definition get_pod_assignment_route :: "(int \<Rightarrow> string) \<Rightarrow> pod_db \<Rightarrow> string \<Rightarrow> pydict res" where
  "get_pod_assignment_route iso_text db mid =
     rbind (fetch_mission (pd_missions db) mid) (\<lambda>found.
       case found of
         None \<Rightarrow> Inl (HTTPException 404)
       | Some _ \<Rightarrow> (case get_pod_assignment iso_text db mid of None \<Rightarrow> Inl (HTTPException 404) | Some r \<Rightarrow> Inr r))"

section \<open>Exclusive claims\<close>

text \<open>The contract of a table of claims: an accepted claim makes the claimant the holder; a holder
  stays; a write for a held mission is accepted exactly when the holder claims again.\<close>

locale exclusive_claims =
  fixes holder :: "'s \<Rightarrow> string \<Rightarrow> string option"
    and put :: "'w \<Rightarrow> 's \<Rightarrow> bool \<times> 's"
    and target :: "'w \<Rightarrow> string"
    and claimant :: "'w \<Rightarrow> string option"
    and honest_write :: "'w \<Rightarrow> bool"
  assumes claimed: "honest_write x \<Longrightarrow> claimant x = Some p \<Longrightarrow> fst (put x s) \<Longrightarrow> holder (snd (put x s)) (target x) = Some p"
    and kept: "honest_write x \<Longrightarrow> holder s m = Some p \<Longrightarrow> holder (snd (put x s)) m = Some p"
    and held: "holder s (target x) = Some p \<Longrightarrow> fst (put x s) \<longleftrightarrow> claimant x = Some p"
begin

lemma kept_all:
  "holder s m = Some p \<Longrightarrow> list_all honest_write xs \<Longrightarrow> holder (fold (\<lambda>x s. snd (put x s)) xs s) m = Some p"
  by (induction xs arbitrary: s) (auto dest: kept)

lemma accepted_same_claimant:
  assumes "honest_write x" and "claimant x = Some p" and "fst (put x s)" and "list_all honest_write xs"
    and "honest_write y" and "target y = target x" and "claimant y = Some q"
    and "fst (put y (fold (\<lambda>x s. snd (put x s)) xs (snd (put x s))))"
  shows "q = p"
  using kept_all [OF claimed [OF assms(1-3)] assms(4)] held [of _ y p] assms(6-8) by auto

end

section \<open>Writes in any order\<close>

record pod_write =
  pw_now :: int
  pw_provisional :: bool
  pw_mission :: string
  pw_pod :: string
  pw_metadata :: pydict
  pw_assigned_at :: int

definition run_statement :: "pod_write \<Rightarrow> pod_db \<Rightarrow> bool \<times> pod_db" where
  "run_statement x db =
     (case upsert_statement (pw_now x) (pw_provisional x) (pw_mission x) (pw_pod x) (pw_metadata x) (pw_assigned_at x) db of
        (Inr (Some _), db) \<Rightarrow> (True, db)
      | (_, db) \<Rightarrow> (False, db))"

definition run_statements :: "pod_write list \<Rightarrow> pod_db \<Rightarrow> pod_db" where
  "run_statements xs = fold (\<lambda>x db. snd (run_statement x db)) xs"

text \<open>A write together with the statements of other transactions that fall before its second read.\<close>

definition run_write :: "(int \<Rightarrow> string) \<Rightarrow> pod_write list \<times> pod_write \<Rightarrow> pod_db \<Rightarrow> pydict res \<times> pod_db" where
  "run_write iso_text bx db = (let (between, x) = bx in
     upsert_pod_assignment iso_text (pw_now x) (run_statements between) (pw_provisional x) (pw_mission x) (pw_pod x)
       (pw_metadata x) (pw_assigned_at x) db)"

fun run_writes :: "(int \<Rightarrow> string) \<Rightarrow> (pod_write list \<times> pod_write) list \<Rightarrow> pod_db \<Rightarrow> pydict res list \<times> pod_db" where
  "run_writes iso_text [] db = ([], db)"
| "run_writes iso_text (x # xs) db =
     (let (r, db) = run_write iso_text x db; (rs, db) = run_writes iso_text xs db in (r # rs, db))"

definition claim_holder :: "pod_db \<Rightarrow> string \<Rightarrow> string option" where
  "claim_holder db mid =
     (case map_of (pd_rows db) mid of
        None \<Rightarrow> None
      | Some row \<Rightarrow> if provisional_row row then None else Some (as_pod row))"

definition claimant :: "pod_write \<Rightarrow> string option" where
  "claimant x = (if pw_provisional x then None else Some (pw_pod x))"

text \<open>A claim does not call itself the orchestrator's; the worker's claims say \<open>pod-worker\<close>.\<close>

definition honest_write :: "pod_write \<Rightarrow> bool" where
  "honest_write x \<longleftrightarrow> pw_provisional x \<or> dget (pw_metadata x) ''assigned_by'' \<noteq> PStr PROVISIONAL_ASSIGNED_BY"

lemma run_statement_cases:
  "run_statement x db = (fst (run_statement x db), if fst (run_statement x db)
     then db\<lparr>pd_rows := dset (pw_mission x) \<lparr>as_pod = pw_pod x, as_metadata = pw_metadata x,
                 as_assigned_at = pw_assigned_at x, as_updated_at = pw_now x\<rparr> (pd_rows db)\<rparr> else db)"
  "fst (run_statement x db) \<longleftrightarrow>
     (case map_of (pd_rows db) (pw_mission x) of
        None \<Rightarrow> dhas (missions (pd_missions db)) (pw_mission x)
      | Some old \<Rightarrow> provisional_row old \<or> \<not> pw_provisional x \<and> as_pod old = pw_pod x)"
  by (auto simp: run_statement_def upsert_statement_def claim_where_def provisional_where_def Let_def split: option.split)

lemma claim_holder_update:
  "claim_holder (db\<lparr>pd_rows := dset mid row (pd_rows db)\<rparr>) m =
     (if m = mid then (if provisional_row row then None else Some (as_pod row)) else claim_holder db m)"
  by (simp add: claim_holder_def)

interpretation pods: exclusive_claims claim_holder run_statement pw_mission claimant honest_write
proof
  fix x p s
  assume "honest_write x" "claimant x = Some p" "fst (run_statement x s)"
  then show "claim_holder (snd (run_statement x s)) (pw_mission x) = Some p"
    by (subst run_statement_cases(1))
      (auto simp: claim_holder_update claimant_def honest_write_def provisional_row_def split: if_splits)
next
  fix x s m p
  assume "honest_write x" and h: "claim_holder s m = Some p"
  then show "claim_holder (snd (run_statement x s)) m = Some p"
    by (subst run_statement_cases(1))
      (auto simp: claim_holder_update claim_holder_def honest_write_def provisional_row_def run_statement_cases(2)
        split: option.splits if_splits)
next
  fix s :: pod_db and x :: pod_write and p
  assume "claim_holder s (pw_mission x) = Some p"
  then show "fst (run_statement x s) = (claimant x = Some p)"
    by (auto simp: run_statement_cases(2) claim_holder_def claimant_def split: option.splits if_splits)
qed

lemma run_write_statement:
  "run_write iso_text (bs, x) db =
     (if fst (run_statement x db)
      then (Inr (assignment_document iso_text (pw_mission x) \<lparr>as_pod = pw_pod x, as_metadata = pw_metadata x,
                  as_assigned_at = pw_assigned_at x, as_updated_at = pw_now x\<rparr>), snd (run_statement x db))
      else if map_of (pd_rows db) (pw_mission x) = None then (Inl ForeignKeyViolation, db)
      else let db = run_statements bs db in
        (case get_pod_assignment iso_text db (pw_mission x) of
           None \<Rightarrow> (Inl RuntimeError, db) | Some existing \<Rightarrow> (Inl (PodAssignmentConflictError existing), db)))"
  by (auto simp: run_write_def upsert_pod_assignment_def run_statement_def upsert_statement_def Let_def
      split: option.splits)

lemma document_fields:
  "dget (assignment_document iso_text mid row) ''pod_name'' = PStr (as_pod row)"
  "dget (assignment_document iso_text mid row) ''mission_id'' = PStr mid"
  by (simp_all add: assignment_document_def dget_def)

lemma holder_document:
  "claim_holder db mid = Some p \<Longrightarrow>
   \<exists>ex. get_pod_assignment iso_text db mid = Some ex \<and> dget ex ''pod_name'' = PStr p \<and> dget ex ''mission_id'' = PStr mid"
  by (auto simp: claim_holder_def get_pod_assignment_def document_fields split: option.splits if_splits)

definition answered :: "string \<Rightarrow> pod_write \<Rightarrow> pydict res \<Rightarrow> bool" where
  "answered p x r \<longleftrightarrow>
     (if claimant x = Some p then \<not> isl r
      else \<exists>ex. r = Inl (PodAssignmentConflictError ex) \<and> dget ex ''pod_name'' = PStr p
                \<and> dget ex ''mission_id'' = PStr (pw_mission x))"

lemma run_write_held:
  assumes "claim_holder db mid = Some p" and "honest_write x" and "list_all honest_write bs"
    and "run_write iso_text (bs, x) db = (r, db')"
  shows "claim_holder db' mid = Some p" and "pw_mission x = mid \<Longrightarrow> answered p x r"
proof -
  have keep: "claim_holder (run_statements bs db) mid = Some p"
    using pods.kept_all [OF assms(1,3)] by (simp add: run_statements_def)
  have refused: "map_of (pd_rows db) (pw_mission x) = None \<Longrightarrow> pw_mission x \<noteq> mid"
    using assms(1) by (auto simp: claim_holder_def)
  show "claim_holder db' mid = Some p"
    using assms(1,4) keep pods.kept [OF assms(2,1)]
    by (auto simp: run_write_statement Let_def split: if_splits option.splits)
  show "answered p x r" if m: "pw_mission x = mid"
  proof -
    have "fst (run_statement x db) \<longleftrightarrow> claimant x = Some p" using pods.held [of db x p] assms(1) m by simp
    then show ?thesis using assms(4) refused m holder_document [OF keep, of iso_text]
      by (auto simp: answered_def run_write_statement Let_def split: if_splits)
  qed
qed

lemma run_writes_held:
  assumes "claim_holder db mid = Some p" and "list_all (\<lambda>(bs, y). honest_write y \<and> list_all honest_write bs) ys"
    and "run_writes iso_text ys db = (rs, db')"
  shows "claim_holder db' mid = Some p
    \<and> (\<forall>((bs, y), r) \<in> set (zip ys rs). pw_mission y = mid \<longrightarrow> answered p y r)"
  using assms
proof (induction ys arbitrary: db rs)
  case (Cons x ys)
  obtain bs y where x: "x = (bs, y)" by (cases x)
  obtain r db1 rs' where 1: "run_write iso_text (bs, y) db = (r, db1)" "run_writes iso_text ys db1 = (rs', db')"
    "rs = r # rs'"
    using Cons.prems(3) by (auto simp: x case_prod_beta Let_def prod_eq_iff)
  have ok: "honest_write y" "list_all honest_write bs" using Cons.prems(2) by (simp_all add: x)
  note step = run_write_held [OF Cons.prems(1) ok 1(1)]
  show ?case using Cons.IH [OF step(1) _ 1(2)] Cons.prems(2) step(2) by (auto simp: x 1(3))
qed simp

section \<open>Summaries of projects\<close>

text \<open>\<open>->>\<close>: the text of a JSON value, null for a missing key or a JSON null.\<close>

definition json_text :: "(pyval \<Rightarrow> string) \<Rightarrow> pydict \<Rightarrow> string \<Rightarrow> string option" where
  "json_text dumps md key =
     (case dget md key of PNone \<Rightarrow> None | PStr s \<Rightarrow> Some s | v \<Rightarrow> Some (dumps v))"

definition nullif_empty :: "string option \<Rightarrow> string option" where
  "nullif_empty x = (if x = Some [] then None else x)"

fun coalesce :: "string option list \<Rightarrow> string option" where
  "coalesce [] = None"
| "coalesce (None # xs) = coalesce xs"
| "coalesce (Some x # xs) = Some x"

type_synonym project_key = "string option \<times> string option \<times> string option"

definition project_key_of :: "(pyval \<Rightarrow> string) \<Rightarrow> mission_row \<Rightarrow> project_key" where
  "project_key_of dumps row =
     (row_project_id row,
      coalesce [nullif_empty (json_text dumps (row_metadata row) ''project_name''),
                nullif_empty (json_text dumps (row_metadata row) ''source''), row_project_id row],
      coalesce [nullif_empty (json_text dumps (row_metadata row) ''source''), row_project_id row])"

definition project_group :: "(pyval \<Rightarrow> string) \<Rightarrow> mission_db \<Rightarrow> project_key \<Rightarrow> mission_row list" where
  "project_group dumps db key = filter (\<lambda>row. project_key_of dumps row = key) (map snd (missions db))"

definition last_updated :: "mission_row list \<Rightarrow> int" where
  "last_updated rows = fold max (map row_updated_at (tl rows)) (row_updated_at (hd rows))"

definition in_state :: "string \<Rightarrow> mission_row list \<Rightarrow> nat" where
  "in_state st rows = length (filter (\<lambda>row. row_state row = st) rows)"

definition project_status :: "nat \<Rightarrow> nat \<Rightarrow> nat \<Rightarrow> string" where
  "project_status mission_count failed_count complete_count =
     (if failed_count > 0 then ''paused''
      else if mission_count > 0 \<and> mission_count = complete_count then ''completed''
      else ''active'')"

definition project_summary :: "(int \<Rightarrow> string) \<Rightarrow> project_key \<Rightarrow> mission_row list \<Rightarrow> pydict" where
  "project_summary iso_text key rows =
     (let (c0, c1, c2) = key;
          project_id = (case truthy_text c0 of Some s \<Rightarrow> s | None \<Rightarrow> ''project-unknown'');
          project_name = (case truthy_text c1 of Some s \<Rightarrow> s | None \<Rightarrow> project_id);
          source = (case truthy_text c2 of Some s \<Rightarrow> s | None \<Rightarrow> project_name);
          mission_count = length rows; failed_count = in_state ''FAILED'' rows;
          complete_count = in_state ''COMPLETE'' rows
      in [(''project_id'', PStr project_id), (''project_name'', PStr project_name), (''source'', PStr source),
          (''mission_count'', PInt (int mission_count)), (''failed_count'', PInt (int failed_count)),
          (''complete_count'', PInt (int complete_count)),
          (''status'', PStr (project_status mission_count failed_count complete_count)),
          (''last_updated_at'', PStr (iso_text (last_updated rows)))])"

text \<open>The query always returns seven columns, so the branch for shorter rows is not taken.\<close>

definition summarize_projects :: "(pyval \<Rightarrow> string) \<Rightarrow> (int \<Rightarrow> string) \<Rightarrow> mission_db \<Rightarrow> nat \<Rightarrow> pydict list" where
  "summarize_projects dumps iso_text db limit =
     (let keys = remdups (map (project_key_of dumps \<circ> snd) (missions db));
          groups = map (\<lambda>k. (k, project_group dumps db k)) keys
      in map (\<lambda>(k, rows). project_summary iso_text k rows)
           (take limit (sort_key (\<lambda>(k, rows). - last_updated rows) groups)))"

lemma group_count: "length (filter (\<lambda>x. f x = k) xs) = count_list (map f xs) k"
  by (induction xs) auto

lemma sum_groups:
  "sum_list (map (\<lambda>k. length (filter (\<lambda>x. f x = k) xs)) (remdups (map f xs))) = length xs"
proof -
  have "sum_list (map (count_list (map f xs)) (remdups (map f xs))) = sum (count_list (map f xs)) (set (map f xs))"
    by (simp add: sum_list_distinct_conv_sum_set)
  also have "\<dots> = length (map f xs)" by (rule sum_count_set) simp_all
  finally show ?thesis by (simp add: group_count)
qed

definition project_members :: "(pyval \<Rightarrow> string) \<Rightarrow> mission_db \<Rightarrow> mission_row \<Rightarrow> mission_row list" where
  "project_members dumps db row = project_group dumps db (project_key_of dumps row)"

definition int_of :: "pyval \<Rightarrow> int" where
  "int_of v = (case v of PInt i \<Rightarrow> i | _ \<Rightarrow> 0)"

lemma summary_fields:
  "dget (project_summary iso_text k rows) ''mission_count'' = PInt (int (length rows))"
  "dget (project_summary iso_text k rows) ''status'' =
     PStr (project_status (length rows) (in_state ''FAILED'' rows) (in_state ''COMPLETE'' rows))"
  by (simp_all add: project_summary_def Let_def dget_def case_prod_beta)

lemma project_status_meaning:
  assumes "rows \<noteq> []"
  shows "project_status (length rows) (in_state ''FAILED'' rows) (in_state ''COMPLETE'' rows) =
     (if \<exists>r \<in> set rows. row_state r = ''FAILED'' then ''paused''
      else if \<forall>r \<in> set rows. row_state r = ''COMPLETE'' then ''completed'' else ''active'')"
proof -
  have all: "length rows = in_state st rows \<longleftrightarrow> (\<forall>r \<in> set rows. row_state r = st)" for st
  proof
    assume l: "length rows = in_state st rows"
    show "\<forall>r \<in> set rows. row_state r = st"
    proof (rule ccontr)
      assume "\<not> (\<forall>r \<in> set rows. row_state r = st)"
      then obtain r where "r \<in> set rows" "row_state r \<noteq> st" by blast
      then have "in_state st rows < length rows"
        unfolding in_state_def by (intro length_filter_less)
      with l show False by simp
    qed
  qed (simp add: in_state_def)
  moreover have "0 < in_state st rows \<longleftrightarrow> (\<exists>r \<in> set rows. row_state r = st)" for st
    by (auto simp: in_state_def filter_empty_conv)
  ultimately show ?thesis using assms by (simp add: project_status_def)
qed

section \<open>Properties\<close>

text \<open>C25. A mission belongs to the pod whose claim was accepted: from then on, whatever claims and
  provisional writes follow in any interleaving of their statements, that pod is the holder, its own claims
  are accepted and every other write is refused with the holder's record, never with another error.\<close>

theorem claims_exclusive:
  assumes "honest_write x" and "list_all honest_write bs" and "claimant x = Some p"
    and "run_write iso_text (bs, x) db = (Inr doc, db1)"
    and "list_all (\<lambda>(bs, y). honest_write y \<and> list_all honest_write bs) ys"
    and "run_writes iso_text ys db1 = (rs, db2)"
  shows "claim_holder db2 (pw_mission x) = Some p
    \<and> (\<forall>((bs, y), r) \<in> set (zip ys rs). pw_mission y = pw_mission x \<longrightarrow> answered p y r)"
proof -
  have ok: "fst (run_statement x db)" "db1 = snd (run_statement x db)"
    using assms(4) by (auto simp: run_write_statement Let_def split: if_splits option.splits)
  have "claim_holder db1 (pw_mission x) = Some p"
    unfolding ok(2) by (rule pods.claimed [OF assms(1,3) ok(1)])
  then show ?thesis using assms(5,6) by (rule run_writes_held)
qed

text \<open>The summary of the project a mission belongs to counts its missions and says paused exactly when
  one of them failed, else completed exactly when all are complete; together the summaries count every
  mission once.\<close>

theorem project_summaries_account:
  assumes "length (missions db) \<le> limit" and "row \<in> set (map snd (missions db))"
  shows "(\<exists>s \<in> set (summarize_projects dumps iso_text db limit).
      dget s ''mission_count'' = PInt (int (length (project_members dumps db row)))
      \<and> dget s ''status'' = PStr (if \<exists>r \<in> set (project_members dumps db row). row_state r = ''FAILED'' then ''paused''
           else if \<forall>r \<in> set (project_members dumps db row). row_state r = ''COMPLETE'' then ''completed'' else ''active''))
    \<and> sum_list (map (\<lambda>s. int_of (dget s ''mission_count'')) (summarize_projects dumps iso_text db limit))
        = int (length (missions db))"
proof -
  define G where "G = project_members dumps db row"
  define keys where "keys = remdups (map (project_key_of dumps) (map snd (missions db)))"
  define groups where "groups = sort_key (\<lambda>(k, rows). - last_updated rows)
     (map (\<lambda>k. (k, project_group dumps db k)) keys)"
  have "length keys \<le> length (missions db)" using length_remdups_leq [of "map (project_key_of dumps) (map snd (missions db))"]
    by (simp add: keys_def)
  then have "take limit groups = groups" using assms(1) by (simp add: groups_def)
  then have all: "summarize_projects dumps iso_text db limit = map (\<lambda>(k, rows). project_summary iso_text k rows) groups"
    by (simp add: summarize_projects_def groups_def keys_def comp_def)
  have m: "mset groups = image_mset (\<lambda>k. (k, project_group dumps db k)) (mset keys)"
    by (simp add: groups_def)
  have "project_key_of dumps row \<in> set keys" using assms(2) by (auto simp: keys_def)
  then have G: "(project_key_of dumps row, G) \<in> set groups" unfolding G_def project_members_def groups_def by auto
  have ne: "G \<noteq> []" using assms(2) by (auto simp: G_def project_members_def project_group_def filter_empty_conv)
  have "sum_list (map (\<lambda>s. int_of (dget s ''mission_count'')) (map (\<lambda>(k, rows). project_summary iso_text k rows) groups))
      = sum_list (map (\<lambda>(k, rows). int (length rows)) groups)"
    by (simp add: comp_def case_prod_unfold summary_fields int_of_def)
  also have "\<dots> = sum_mset (image_mset (\<lambda>(k, rows). int (length rows)) (mset groups))"
    by (simp flip: sum_mset_sum_list mset_map)
  also have "\<dots> = sum_list (map (\<lambda>k. int (length (project_group dumps db k))) keys)"
    by (simp add: m image_mset.compositionality comp_def flip: sum_mset_sum_list mset_map)
  also have "\<dots> = int (sum_list (map (\<lambda>k. length (project_group dumps db k)) keys))"
    by (induction keys) simp_all
  also have "\<dots> = int (length (missions db))"
    using sum_groups [of "project_key_of dumps" "map snd (missions db)"]
    by (simp add: keys_def project_group_def)
  finally have total: "sum_list (map (\<lambda>s. int_of (dget s ''mission_count'')) (map (\<lambda>(k, rows). project_summary iso_text k rows) groups))
      = int (length (missions db))" .
  show ?thesis unfolding all G_def [symmetric] using total
    by (intro conjI bexI [of _ "project_summary iso_text (project_key_of dumps row) G"])
      (use G ne in \<open>auto simp: summary_fields project_status_meaning intro: rev_image_eqI\<close>)
qed

definition sample_pod_db :: pod_db where
  "sample_pod_db = \<lparr>pd_missions = sample_db, pd_rows = []\<rparr>"

definition sample_write :: "bool \<Rightarrow> string \<Rightarrow> string \<Rightarrow> pod_write" where
  "sample_write provisional pod by = \<lparr>pw_now = 7, pw_provisional = provisional, pw_mission = ''m1'', pw_pod = pod,
     pw_metadata = [(''assigned_by'', PStr by)], pw_assigned_at = 6\<rparr>"

lemma claims_exclusive_witness:
  "claim_holder (snd (run_writes int_str
       [([], sample_write False ''podB'' ''pod-worker''), ([sample_write True ''podC'' ''orchestrator''], sample_write True ''podB'' ''orchestrator'')]
       (snd (run_write int_str ([], sample_write False ''podA'' ''pod-worker'') sample_pod_db)))) ''m1'' = Some ''podA''"
  using claims_exclusive [of "sample_write False ''podA'' ''pod-worker''" "[]" "''podA''" int_str sample_pod_db
      "assignment_document int_str ''m1'' \<lparr>as_pod = ''podA'', as_metadata = [(''assigned_by'', PStr ''pod-worker'')],
         as_assigned_at = 6, as_updated_at = 7\<rparr>"
      "snd (run_write int_str ([], sample_write False ''podA'' ''pod-worker'') sample_pod_db)"
      "[([], sample_write False ''podB'' ''pod-worker''), ([sample_write True ''podC'' ''orchestrator''], sample_write True ''podB'' ''orchestrator'')]"
      "fst (run_writes int_str
       [([], sample_write False ''podB'' ''pod-worker''), ([sample_write True ''podC'' ''orchestrator''], sample_write True ''podB'' ''orchestrator'')]
       (snd (run_write int_str ([], sample_write False ''podA'' ''pod-worker'') sample_pod_db)))"
      "snd (run_writes int_str
       [([], sample_write False ''podB'' ''pod-worker''), ([sample_write True ''podC'' ''orchestrator''], sample_write True ''podB'' ''orchestrator'')]
       (snd (run_write int_str ([], sample_write False ''podA'' ''pod-worker'') sample_pod_db)))"]
  by (simp add: sample_write_def honest_write_def claimant_def dget_def PROVISIONAL_ASSIGNED_BY_def
      run_write_statement run_statement_cases(2) run_statement_cases(1) [of _ sample_pod_db] sample_pod_db_def sample_db_def dhas_def
      del: run_writes.simps)

lemma project_summaries_account_witness:
  "sum_list (map (\<lambda>s. int_of (dget s ''mission_count'')) (summarize_projects (\<lambda>_. []) int_str sample_db 5)) = 1"
  using project_summaries_account [of sample_db 5 sample_row "\<lambda>_. []" int_str]
  by (simp add: sample_db_def)

end
