(* ===== verification/Source_Bundle.thy ===== *)
theory Source_Bundle
  imports Agent_Scaling
begin

text \<open>
  Source bundles: many files in one text, each under a line \<open>## FILE path\<close>. The format has one writer,
  \<open>serialize_file_tree\<close> of \<open>orchestrator/file_tree.py\<close>, and several readers, each with its own compiled
  pattern: \<open>parse_file_tree\<close>, \<open>_parse_source_bundle\<close> of \<open>build_artifacts.py\<close> and
  \<open>aim_generator.py\<close>, \<open>_unbundle_source\<close> of \<open>rqca_agent.py\<close>,
  \<open>_workload_items_from_source_bundle\<close> of \<open>mission_flow_v2/base.py\<close>, and \<open>_bundle_source_segments\<close> of
  the pod worker. The multi-line patterns are the functions \<open>match_file\<close> and \<open>match_marker\<close> on the text
  from a line start on; \<open>scan\<close> is \<open>finditer\<close> with the text between two matches. The locale
  \<open>header_pattern\<close> says what the readers need of a pattern.
\<close>

section \<open>Text\<close>

definition newline :: char where "newline = CHR 0x0A"

definition is_crlf :: "char \<Rightarrow> bool" where
  "is_crlf c \<longleftrightarrow> c = CHR 0x0D \<or> c = CHR 0x0A"

definition py_rstrip :: "string \<Rightarrow> string" where
  "py_rstrip s = rev (dropWhile is_space (rev s))"

definition lstrip_crlf :: "string \<Rightarrow> string" where
  "lstrip_crlf s = dropWhile is_crlf s"

fun split_on :: "char \<Rightarrow> string \<Rightarrow> string list" where
  "split_on d [] = [[]]"
| "split_on d (c # s) =
     (if c = d then [] # split_on d s
      else case split_on d s of [] \<Rightarrow> [[c]] | p # ps \<Rightarrow> (c # p) # ps)"

section \<open>Patterns\<close>

text \<open>A matcher is tried at a line start; it returns the group and the length of the match.\<close>

type_synonym matcher = "string \<Rightarrow> (string \<times> nat) option"

definition rest_of_line :: "string \<Rightarrow> string" where
  "rest_of_line t = takeWhile (\<lambda>c. c \<noteq> newline) t"

text \<open>\<open>^## FILE (.+)$\<close>\<close>

definition match_file :: matcher where
  "match_file t =
     (let g = rest_of_line (drop 8 t)
      in if starts_with ''## FILE '' t \<and> g \<noteq> [] then Some (g, 8 + length g) else None)"

text \<open>\<open>^## FILE:?\s+(.+)$\<close>. The space may run over lines; it gives characters back only at the end of
  the text, where nothing follows it.\<close>

fun give_back :: "string \<Rightarrow> nat \<Rightarrow> nat option" where
  "give_back ws 0 = None"
| "give_back ws (Suc k) =
     (if k = 0 then None else if ws ! k \<noteq> newline then Some k else give_back ws k)"

definition match_marker :: matcher where
  "match_marker t =
     (if \<not> starts_with ''## FILE'' t then None
      else let u = drop 7 t;
               colon = (if starts_with '':'' u then 1 else 0);
               v = drop colon u;
               ws = takeWhile is_space v;
               after = drop (length ws) v
           in if ws = [] then None
              else if after \<noteq> []
                   then Some (rest_of_line after, 7 + colon + length ws + length (rest_of_line after))
                   else (case give_back ws (length ws) of
                           None \<Rightarrow> None
                         | Some k \<Rightarrow> let g = rest_of_line (drop k ws) in Some (g, 7 + colon + k + length g)))"

text \<open>The text before the first match, and each match with the text up to the next one. No pattern
  matches the empty text or an empty part of it; the guard only makes the scan total.\<close>

function scan :: "matcher \<Rightarrow> bool \<Rightarrow> string \<Rightarrow> string \<times> (string \<times> string) list" where
  "scan m bol t =
     (case t of
        [] \<Rightarrow> ([], [])
      | c # t' \<Rightarrow>
          (case (if bol then m t else None) of
             Some (g, Suc n) \<Rightarrow> let (body, ms) = scan m False (drop n t') in ([], (g, body) # ms)
           | _ \<Rightarrow> let (body, ms) = scan m (c = newline) t' in (c # body, ms)))"
  by pat_completeness auto
termination by (relation "measure (\<lambda>(m, bol, t). length t)") auto

declare scan.simps [simp del]

definition sections :: "matcher \<Rightarrow> string \<Rightarrow> (string \<times> string) list" where
  "sections m t = snd (scan m True t)"

section \<open>Paths\<close>

definition is_letter :: "char \<Rightarrow> bool" where
  "is_letter c \<longleftrightarrow> is_upper_char c \<or> is_lower_char c"

text \<open>\<open>re.sub(r"^[A-Za-z]:", "", raw)\<close>\<close>

definition strip_drive :: "string \<Rightarrow> string" where
  "strip_drive s = (case s of a # b # rest \<Rightarrow> if is_letter a \<and> b = CHR '':'' then rest else s | _ \<Rightarrow> s)"

definition MAX_FILES :: nat where "MAX_FILES = 80"
definition MAX_PATH :: nat where "MAX_PATH = 240"
definition MAX_CONTENT_CHARS :: nat where "MAX_CONTENT_CHARS = 200000"

definition path_parts :: "string \<Rightarrow> string list" where
  "path_parts path =
     (let raw = replace_char (CHR 0x5C) (CHR ''/'') (py_strip path);
          raw = dropWhile (\<lambda>c. c = CHR ''/'') (strip_drive raw)
      in filter (\<lambda>part. part \<notin> {[], ''.'', ''..''}) (split_on (CHR ''/'') raw))"

definition sanitize_rel_path :: "string \<Rightarrow> string" where
  "sanitize_rel_path path =
     (let cleaned = take MAX_PATH (join_str ''/'' (path_parts path))
      in if cleaned = [] then ''generated.txt'' else cleaned)"

section \<open>Writing and reading a tree\<close>

text \<open>A file is its path and its content, the two keys of the dicts of the source.\<close>

type_synonym src_file = "string \<times> string"

definition parse_file_tree :: "string \<Rightarrow> src_file list" where
  "parse_file_tree text =
     map (\<lambda>(g, body). (sanitize_rel_path g, take MAX_CONTENT_CHARS (lstrip_crlf body)))
       (take MAX_FILES (sections match_marker text))"

definition file_chunk :: "src_file \<Rightarrow> string" where
  "file_chunk f = (case f of (path, content) \<Rightarrow>
     ''## FILE '' @ sanitize_rel_path path @ [newline] @ py_rstrip (take MAX_CONTENT_CHARS content) @ [newline])"

definition serialize_file_tree :: "src_file list \<Rightarrow> string" where
  "serialize_file_tree files =
     (let chunks = map file_chunk (take MAX_FILES files)
      in py_rstrip (join_str [newline] chunks) @ (if chunks = [] then [] else [newline]))"

text \<open>The first of the keys whose value is true, as text.\<close>

definition first_str :: "pydict \<Rightarrow> string list \<Rightarrow> string" where
  "first_str item keys = str_or_empty (foldr (\<lambda>k v. py_or (dget item k) v) keys (PStr []))"

fun normalize_items :: "string list \<Rightarrow> pyval list \<Rightarrow> src_file list" where
  "normalize_items seen [] = []"
| "normalize_items seen (PDict item # items) =
     (let path = sanitize_rel_path (first_str item [''path'', ''filename'', ''name'']);
          content = first_str item [''content'', ''code'', ''generated_code'']
      in if py_strip content = [] \<or> path \<in> set seen then normalize_items seen items
         else (path, take MAX_CONTENT_CHARS content) # normalize_items (path # seen) items)"
| "normalize_items seen (_ # items) = normalize_items seen items"

definition normalize_codegen_files :: "pyval \<Rightarrow> src_file list" where
  "normalize_codegen_files raw_files = normalize_items [] (take MAX_FILES (list_or_empty raw_files))"

definition codegen_bundle_from_result :: "pydict \<Rightarrow> string \<Rightarrow> string \<times> src_file list" where
  "codegen_bundle_from_result raw generated_code =
     (let files = normalize_codegen_files (dget raw ''files'');
          files = (if files = [] then parse_file_tree generated_code else files)
      in if files = [] then (generated_code, []) else (serialize_file_tree files, files))"

definition basename :: "string \<Rightarrow> string" where
  "basename p = last (split_on (CHR ''/'') p)"

definition first_filename :: "src_file list \<Rightarrow> string \<Rightarrow> string" where
  "first_filename files fallback =
     (case files of
        [] \<Rightarrow> if basename fallback = [] then ''generated.txt'' else basename fallback
      | (path, _) # _ \<Rightarrow> if basename path = [] then fallback else basename path)"

definition repaired_file :: "string dict \<Rightarrow> src_file \<Rightarrow> src_file" where
  "repaired_file rep_by_path f = (case f of (p, c) \<Rightarrow>
     let norm = sanitize_rel_path p in (norm, case map_of rep_by_path norm of Some c' \<Rightarrow> c' | None \<Rightarrow> c))"

fun new_files :: "string list \<Rightarrow> src_file list \<Rightarrow> src_file list" where
  "new_files seen [] = []"
| "new_files seen ((p, c) # fs) =
     (let norm = sanitize_rel_path p
      in if norm \<in> set seen then new_files seen fs else (norm, c) # new_files (norm # seen) fs)"

definition merge_repaired_files :: "string \<Rightarrow> string \<Rightarrow> string" where
  "merge_repaired_files original_code repaired_code =
     (let orig_files = parse_file_tree original_code; rep_files = parse_file_tree repaired_code
      in if orig_files = [] \<or> rep_files = [] then repaired_code
         else let rep_by_path = fold (\<lambda>(p, c). dset (sanitize_rel_path p) c) rep_files []
              in serialize_file_tree (map (repaired_file rep_by_path) orig_files
                   @ new_files (map (sanitize_rel_path \<circ> fst) orig_files) rep_files))"

section \<open>The other readers\<close>

text \<open>Both \<open>_parse_source_bundle\<close>, without the size and the digest of the content.\<close>

definition parse_source_bundle :: "string \<Rightarrow> src_file list" where
  "parse_source_bundle source_code =
     (let ms = sections match_file source_code
      in if ms = [] then [(''inline_source.txt'', source_code)]
         else map (\<lambda>(i, g, body). (if py_strip g = [] then ''file-'' @ nat_str (i + 1) @ ''.txt'' else py_strip g,
                lstrip_crlf body)) (List.enumerate 0 ms))"

definition unbundle_sections :: "string \<Rightarrow> src_file list" where
  "unbundle_sections code = map (\<lambda>(g, body). (py_strip g, lstrip_crlf body)) (sections match_file code)"

text \<open>\<open>Path(path).name\<close>: empty and \<open>.\<close> components do not count.\<close>

definition path_name :: "string \<Rightarrow> string" where
  "path_name p = (case filter (\<lambda>part. part \<notin> {[], ''.''}) (split_on (CHR ''/'') p) of [] \<Rightarrow> [] | parts \<Rightarrow> last parts)"

definition unbundle_source :: "string \<Rightarrow> string \<Rightarrow> string \<times> string dict" where
  "unbundle_source code filename =
     (let secs = unbundle_sections code
      in if secs = [] then (code, [])
         else let wanted = path_name filename;
                  primary = (case List.find (\<lambda>i. path_name (fst (secs ! i)) = wanted) [0..<length secs] of
                               Some i \<Rightarrow> i | None \<Rightarrow> 0);
                  extras = filter (\<lambda>(i, path, body). i \<noteq> primary \<and> path_name path \<noteq> [] \<and> py_strip body \<noteq> [])
                             (List.enumerate 0 secs)
              in (snd (secs ! primary), fold (\<lambda>(i, path, body). dset (path_name path) body) extras []))"

fun dedup :: "string list \<Rightarrow> string list \<Rightarrow> string list" where
  "dedup seen [] = []"
| "dedup seen (x # xs) = (if x = [] \<or> x \<in> set seen then dedup seen xs else x # dedup (x # seen) xs)"

definition workload_items_from_source_bundle :: "pyval \<Rightarrow> string list" where
  "workload_items_from_source_bundle source_code =
     (case source_code of
        PStr s \<Rightarrow> if py_strip s = [] then [] else dedup [] (map (py_strip \<circ> fst) (sections match_file s))
      | _ \<Rightarrow> [])"

definition scaling_workload_items :: "pydict \<Rightarrow> pydict \<Rightarrow> string list res" where
  "scaling_workload_items md specialist_plan =
     (let source_items = workload_items_from_source_bundle (dget md ''source_code'')
      in if source_items \<noteq> [] then Inr source_items
         else rbind (py_tuple (dget_or specialist_plan ''deliverables'' (PList []))) (\<lambda>deliverables.
           let items = filter (\<lambda>s. s \<noteq> []) (map (py_strip \<circ> py_str) deliverables)
           in Inr (if items = [] then [''default_workload''] else items)))"

definition bundle_source_segments :: "string \<Rightarrow> src_file list" where
  "bundle_source_segments source_code =
     List.map_filter (\<lambda>(g, body). if py_strip g = [] then None else Some (py_strip g, lstrip_crlf body))
       (sections match_file source_code)"

definition selected_segments :: "string \<Rightarrow> string list \<Rightarrow> src_file list" where
  "selected_segments source_code wanted = filter (\<lambda>(path, body). path \<in> set wanted) (bundle_source_segments source_code)"

definition segment_block :: "src_file \<Rightarrow> string" where
  "segment_block f = (case f of (path, body) \<Rightarrow> py_rstrip (''## FILE '' @ path @ [newline] @ py_rstrip body))"

definition subset_source_bundle :: "string \<Rightarrow> string list \<Rightarrow> string" where
  "subset_source_bundle source_code assigned_items =
     (let wanted = filter (\<lambda>s. s \<noteq> []) (map py_strip assigned_items);
          selected = selected_segments source_code wanted
      in if py_strip source_code = [] \<or> wanted = [] \<or> selected = [] then source_code
         else py_strip (join_str [newline, newline] (map segment_block selected)) @ [newline])"

section \<open>Scanning a bundle\<close>

text \<open>No line of the text starts with the header word; the flag says whether the text starts a line.\<close>

fun no_header :: "bool \<Rightarrow> string \<Rightarrow> bool" where
  "no_header bol [] \<longleftrightarrow> True"
| "no_header bol (c # t) \<longleftrightarrow> \<not> (bol \<and> starts_with ''## FILE'' (c # t)) \<and> no_header (c = newline) t"

text \<open>A bundle as sections: the path of a header line and the rest of the text up to the next header, which
  starts with the line break of the header line.\<close>

definition bundle_text :: "(string \<times> string) list \<Rightarrow> string" where
  "bundle_text secs = concat (map (\<lambda>(p, body). ''## FILE '' @ p @ body) secs)"

definition header_path :: "string \<Rightarrow> bool" where
  "header_path p \<longleftrightarrow> p \<noteq> [] \<and> newline \<notin> set p \<and> py_strip p = p"

definition plain_section :: "string \<times> string \<Rightarrow> bool" where
  "plain_section s \<longleftrightarrow> header_path (fst s) \<and> snd s \<noteq> [] \<and> hd (snd s) = newline \<and> no_header False (snd s)"

lemma starts_with_line:
  "newline \<notin> set p \<Longrightarrow> starts_with p (t @ newline # rest) \<Longrightarrow> starts_with p t"
proof (induction p arbitrary: t)
  case (Cons a p)
  then show ?case by (cases t) (auto simp: starts_with_def)
qed (simp add: starts_with_def)

lemma strip_by_fixed:
  assumes "strip_by f s = s" and "s \<noteq> []"
  shows "\<not> f (hd s)" and "\<not> f (last s)"
proof -
  have "length s \<le> length (dropWhile f s)"
    using arg_cong [OF assms(1), of length] length_dropWhile_le [of f "rev (dropWhile f s)"]
    by (simp add: strip_by_def)
  then have d: "dropWhile f s = s"
    by (metis append_Nil append_eq_append_conv length_dropWhile_le le_antisym takeWhile_dropWhile_id)
  then show "\<not> f (hd s)" using assms(2) hd_dropWhile [of f s] by auto
  have "rev (dropWhile f (rev s)) = s" using assms(1) d by (simp add: strip_by_def)
  then have "dropWhile f (rev s) = rev s" by (metis rev_rev_ident)
  then show "\<not> f (last s)" using assms(2) hd_dropWhile [of f "rev s"] by (auto simp: hd_rev)
qed

lemma header_path_ends:
  "header_path p \<Longrightarrow> \<not> is_space (hd p)" "header_path p \<Longrightarrow> \<not> is_space (last p)"
  using strip_by_fixed [of is_space p] by (auto simp: header_path_def py_strip_def)

lemma header_word: "newline \<notin> set ''## FILE''"
  by (simp add: newline_def)

lemma no_header_append: "no_header b (s @ t) \<Longrightarrow> no_header b s"
proof (induction s arbitrary: b)
  case (Cons c s)
  then show ?case by (auto simp: starts_with_def split: if_splits)
qed simp

locale header_pattern =
  fixes m :: matcher
  assumes needs_header: "m t = Some (g, n) \<Longrightarrow> starts_with ''## FILE'' t"
    and reads_header: "header_path p \<Longrightarrow> t = [] \<or> hd t = newline \<Longrightarrow>
      m (''## FILE '' @ p @ t) = Some (p, 8 + length p)"
begin

lemma unmatched:
  assumes "\<not> (bol \<and> starts_with ''## FILE'' t)"
  shows "(if bol then m t else None) = None"
proof (cases "m t")
  case (Some x)
  then show ?thesis using needs_header [of t] assms by (cases x) auto
qed simp

lemma scan_skip:
  "\<not> (bol \<and> starts_with ''## FILE'' (c # t)) \<Longrightarrow>
   scan m bol (c # t) = (c # fst (scan m (c = newline) t), snd (scan m (c = newline) t))"
  unfolding scan.simps [of m bol "c # t"] list.case unmatched [of bol "c # t"] option.case case_prod_beta Let_def ..

lemma scan_plain: "no_header bol t \<Longrightarrow> scan m bol t = (t, [])"
proof (induction t arbitrary: bol)
  case (Cons c t)
  then have "\<not> (bol \<and> starts_with ''## FILE'' (c # t))" unfolding no_header.simps by blast
  then have "scan m bol (c # t) = (c # fst (scan m (c = newline) t), snd (scan m (c = newline) t))"
    by (rule scan_skip)
  then show ?case using Cons by (simp only: no_header.simps fst_conv snd_conv)
qed (simp add: scan.simps)

lemma scan_line:
  "no_header bol t \<Longrightarrow> scan m bol (t @ newline # rest) =
     (t @ newline # fst (scan m True rest), snd (scan m True rest))"
proof (induction t arbitrary: bol)
  case Nil
  have "\<not> (bol \<and> starts_with ''## FILE'' (newline # rest))" by (simp add: starts_with_def newline_def)
  then have "scan m bol (newline # rest) =
      (newline # fst (scan m (newline = newline) rest), snd (scan m (newline = newline) rest))"
    by (rule scan_skip)
  then show ?case by simp
next
  case (Cons c t)
  have "\<not> (bol \<and> starts_with ''## FILE'' (c # (t @ newline # rest)))"
    using Cons.prems starts_with_line [OF header_word, of "c # t" rest] by auto
  then have "scan m bol (c # (t @ newline # rest)) =
      (c # fst (scan m (c = newline) (t @ newline # rest)), snd (scan m (c = newline) (t @ newline # rest)))"
    by (rule scan_skip)
  then show ?case using Cons by (simp only: append_Cons no_header.simps fst_conv snd_conv)
qed

lemma scan_header:
  assumes "header_path p" and "t = [] \<or> hd t = newline"
  shows "scan m True (''## FILE '' @ p @ t) = ([], (p, fst (scan m False t)) # snd (scan m False t))"
proof -
  have "drop (length p + 7) (''# FILE '' @ p @ t) = t" by (simp only: append_assoc [symmetric] drop_append) simp
  then have "drop (7 + length p) (''# FILE '' @ p @ t) = t" by (simp only: add.commute)
  moreover have "m (CHR ''#'' # (''# FILE '' @ p @ t)) = Some (p, Suc (7 + length p))"
    using reads_header [OF assms] by simp
  ultimately have "scan m True (CHR ''#'' # (''# FILE '' @ p @ t)) = ([], (p, fst (scan m False t)) # snd (scan m False t))"
    unfolding scan.simps [of m True "CHR ''#'' # (''# FILE '' @ p @ t)"] by (simp del: append_Cons add: case_prod_beta)
  then show ?thesis by simp
qed

lemma scan_bundle:
  "list_all plain_section secs \<Longrightarrow> list_all (\<lambda>s. last (snd s) = newline) (butlast secs) \<Longrightarrow>
   scan m True (bundle_text secs) = ([], secs)"
proof (induction secs)
  case (Cons s secs)
  obtain p body where s: "s = (p, body)" by (cases s)
  have ok: "header_path p" "body \<noteq> []" "hd body = newline" "no_header False body"
    using Cons.prems by (simp_all add: s plain_section_def)
  have "scan m False (body @ bundle_text secs) = (body, secs)"
  proof (cases secs)
    case Nil
    then show ?thesis using ok(4) by (simp add: bundle_text_def scan_plain)
  next
    case (Cons s' secs')
    then have "last body = newline" using Cons.prems(2) by (simp add: s)
    then obtain t where t: "body = t @ [newline]" using ok(2) by (metis append_butlast_last_id)
    have "scan m True (bundle_text secs) = ([], secs)"
      using Cons.IH Cons.prems Cons by (auto split: if_splits)
    then show ?thesis using scan_line [of False t "bundle_text secs"] no_header_append [of False t "[newline]"] ok(4)
      by (simp add: t)
  qed
  moreover have "body @ bundle_text secs = [] \<or> hd (body @ bundle_text secs) = newline" using ok by simp
  ultimately show ?case
    using scan_header [OF ok(1), of "body @ bundle_text secs"] by (simp add: s bundle_text_def)
qed (simp add: bundle_text_def scan.simps)

lemma sections_bundle:
  "list_all plain_section secs \<Longrightarrow> list_all (\<lambda>s. last (snd s) = newline) (butlast secs) \<Longrightarrow>
   sections m (bundle_text secs) = secs"
  by (simp add: sections_def scan_bundle)

end

lemma rest_of_line_header: "newline \<notin> set p \<Longrightarrow> t = [] \<or> hd t = newline \<Longrightarrow> rest_of_line (p @ t) = p"
  unfolding rest_of_line_def by (induction p) (cases t; auto)+

lemma starts_with_prefix: "starts_with (p @ q) t \<Longrightarrow> starts_with p t"
  by (auto simp: starts_with_iff)

interpretation file_pattern: header_pattern match_file
proof
  fix t g n
  assume "match_file t = Some (g, n)"
  then have "starts_with (''## FILE'' @ '' '') t" by (auto simp: match_file_def Let_def split: if_splits)
  then show "starts_with ''## FILE'' t" by (rule starts_with_prefix)
next
  fix p t
  assume "header_path p" "t = [] \<or> hd t = newline"
  then show "match_file (''## FILE '' @ p @ t) = Some (p, 8 + length p)"
    using rest_of_line_header [of p t] by (simp add: match_file_def starts_with_def header_path_def)
qed

interpretation marker_pattern: header_pattern match_marker
proof
  fix t g n
  assume "match_marker t = Some (g, n)"
  then show "starts_with ''## FILE'' t" by (auto simp: match_marker_def split: if_splits)
next
  fix p t
  assume p: "header_path p" and t: "t = [] \<or> hd t = newline"
  obtain a p' where a: "p = a # p'" using p by (cases p) (auto simp: header_path_def)
  have "\<not> is_space a" using header_path_ends(1) [OF p] a by simp
  moreover have "is_space (CHR '' '')" by (simp add: is_space_def)
  ultimately show "match_marker (''## FILE '' @ p @ t) = Some (p, 8 + length p)"
    using rest_of_line_header [OF _ t, of p] p
    by (simp add: match_marker_def starts_with_def header_path_def a)
qed

section \<open>What the writer writes\<close>

lemma py_rstrip_spaces: "\<forall>c \<in> set s. is_space c \<Longrightarrow> py_rstrip (x @ s) = py_rstrip x"
  unfolding py_rstrip_def rev_append by (subst dropWhile_append2) simp_all

lemma py_rstrip_id: "x = [] \<or> \<not> is_space (last x) \<Longrightarrow> py_rstrip x = x"
  by (cases x rule: rev_cases) (simp_all add: py_rstrip_def)

lemma py_rstrip_last: "py_rstrip x = [] \<or> \<not> is_space (last (py_rstrip x))"
  using hd_dropWhile [of is_space "rev x"] by (auto simp: py_rstrip_def last_rev)

lemma py_rstrip_idem [simp]: "py_rstrip (py_rstrip x) = py_rstrip x"
  by (rule py_rstrip_id [OF py_rstrip_last])

lemma length_py_rstrip: "length (py_rstrip x) \<le> length x"
  using length_dropWhile_le [of is_space "rev x"] by (simp add: py_rstrip_def)

lemma newline_space [simp]: "is_space newline" "is_crlf newline"
  by (simp_all add: newline_def is_space_def is_crlf_def)

lemma no_header_line: "no_header b t \<Longrightarrow> no_header True rest \<Longrightarrow> no_header b (t @ newline # rest)"
proof (induction t arbitrary: b)
  case Nil
  then show ?case by (simp add: starts_with_def newline_def)
next
  case (Cons c t)
  then have "\<not> (b \<and> starts_with ''## FILE'' ((c # t) @ newline # rest))"
    using starts_with_line [OF header_word, of "c # t" rest] unfolding no_header.simps by blast
  then show ?case using Cons unfolding append_Cons no_header.simps by blast
qed

lemma no_header_end: "no_header True [newline]" "no_header False [newline]" "no_header False (newline # t) = no_header True t"
  by (simp_all add: starts_with_def newline_def)

text \<open>A file the format can hold: its path is a header's path and already sanitized, its content has no line
  that looks like a header and does not begin with an empty line.\<close>

definition tree_file :: "src_file \<Rightarrow> bool" where
  "tree_file f \<longleftrightarrow> (case f of (p, c) \<Rightarrow>
     header_path p \<and> sanitize_rel_path p = p \<and> length c + 2 \<le> MAX_CONTENT_CHARS
     \<and> no_header True (py_rstrip c) \<and> (py_rstrip c = [] \<or> \<not> is_crlf (hd (py_rstrip c))))"

definition trim :: "src_file \<Rightarrow> src_file" where
  "trim f = (fst f, py_rstrip (snd f))"

definition inner_section :: "src_file \<Rightarrow> string \<times> string" where
  "inner_section f = (fst f, newline # py_rstrip (snd f) @ [newline, newline])"

definition last_section :: "src_file \<Rightarrow> string \<times> string" where
  "last_section f = (fst f, if py_rstrip (snd f) = [] then [newline] else newline # py_rstrip (snd f) @ [newline])"

definition tree_sections :: "src_file list \<Rightarrow> (string \<times> string) list" where
  "tree_sections fs = map inner_section (butlast fs) @ [last_section (last fs)]"

lemma chunk_eq:
  "tree_file f \<Longrightarrow> file_chunk f = ''## FILE '' @ fst f @ newline # py_rstrip (snd f) @ [newline]"
  by (cases f) (simp add: tree_file_def file_chunk_def)

lemma join_chunks:
  "list_all tree_file fs \<Longrightarrow> fs \<noteq> [] \<Longrightarrow>
   join_str [newline] (map file_chunk fs) = bundle_text (map inner_section (butlast fs)) @ file_chunk (last fs)"
  by (induction fs rule: induct_list012) (simp_all add: bundle_text_def inner_section_def chunk_eq)

lemma rstrip_append: "py_rstrip y \<noteq> [] \<Longrightarrow> py_rstrip (x @ y) = x @ py_rstrip y"
  by (auto simp: py_rstrip_def dropWhile_append dropWhile_eq_Nil_conv)

lemma chunk_rstrip:
  assumes "tree_file f"
  shows "py_rstrip (file_chunk f) @ [newline] = bundle_text [last_section f]" and "py_rstrip (file_chunk f) \<noteq> []"
proof -
  obtain p c where f: "f = (p, c)" by (cases f)
  have p: "p \<noteq> []" "\<not> is_space (last p)" using assms header_path_ends(2) [of p]
    by (auto simp: f tree_file_def header_path_def)
  have "py_rstrip (file_chunk f) = (''## FILE '' @ p) @ (if py_rstrip c = [] then [] else newline # py_rstrip c)"
  proof (cases "py_rstrip c = []")
    case True
    have "file_chunk f = (''## FILE '' @ p) @ [newline, newline]" using chunk_eq [OF assms] True by (simp add: f)
    then have "py_rstrip (file_chunk f) = py_rstrip (''## FILE '' @ p)"
      by (simp only:) (rule py_rstrip_spaces, simp)
    also have "\<dots> = ''## FILE '' @ p" by (rule py_rstrip_id) (use p in simp)
    finally show ?thesis using True by simp
  next
    case False
    have "file_chunk f = (''## FILE '' @ p @ newline # py_rstrip c) @ [newline]" using chunk_eq [OF assms] by (simp add: f)
    then have "py_rstrip (file_chunk f) = py_rstrip (''## FILE '' @ p @ newline # py_rstrip c)"
      by (simp only:) (rule py_rstrip_spaces, simp)
    also have "\<dots> = ''## FILE '' @ p @ newline # py_rstrip c"
      by (rule py_rstrip_id) (use False py_rstrip_last [of c] in simp)
    finally show ?thesis using False by simp
  qed
  then show "py_rstrip (file_chunk f) @ [newline] = bundle_text [last_section f]" "py_rstrip (file_chunk f) \<noteq> []"
    by (simp_all add: bundle_text_def last_section_def f)
qed

lemma serialize_sections:
  assumes "list_all tree_file fs" and "fs \<noteq> []" and "length fs \<le> MAX_FILES"
  shows "serialize_file_tree fs = bundle_text (tree_sections fs)"
proof -
  have "tree_file (last fs)" using assms(1,2) by (auto simp: list_all_iff)
  note last = chunk_rstrip [OF this]
  show ?thesis
    using assms(2,3) last(1) rstrip_append [OF last(2)] join_chunks [OF assms(1,2)]
    by (simp add: serialize_file_tree_def tree_sections_def bundle_text_def)
qed

lemma plain_sections: "list_all tree_file fs \<Longrightarrow> fs \<noteq> [] \<Longrightarrow> list_all plain_section (tree_sections fs)"
proof -
  assume "list_all tree_file fs" "fs \<noteq> []"
  then have "\<forall>f \<in> set (butlast fs). tree_file f" "tree_file (last fs)"
    by (auto simp: list_all_iff dest: in_set_butlastD)
  moreover have "plain_section (inner_section f)" "plain_section (last_section f)" if "tree_file f" for f
    using that no_header_line [of True "py_rstrip (snd f)" "[newline]"] no_header_line [of True "py_rstrip (snd f)" "[]"]
    by (auto simp: plain_section_def inner_section_def last_section_def tree_file_def no_header_end starts_with_def newline_def
        split: prod.splits)
  ultimately show ?thesis by (auto simp: tree_sections_def list_all_iff)
qed

lemma sections_serialized:
  assumes "list_all tree_file fs" and "fs \<noteq> []" and "length fs \<le> MAX_FILES"
  shows "sections match_file (serialize_file_tree fs) = tree_sections fs"
    and "sections match_marker (serialize_file_tree fs) = tree_sections fs"
proof -
  have ends: "list_all (\<lambda>s. last (snd s) = newline) (butlast (tree_sections fs))"
    by (auto simp: tree_sections_def inner_section_def list_all_iff)
  show "sections match_file (serialize_file_tree fs) = tree_sections fs"
    "sections match_marker (serialize_file_tree fs) = tree_sections fs"
    unfolding serialize_sections [OF assms]
    using file_pattern.sections_bundle [OF plain_sections [OF assms(1,2)] ends]
      marker_pattern.sections_bundle [OF plain_sections [OF assms(1,2)] ends] by auto
qed

text \<open>What every reader returns: the files with the line breaks the writer put after them.\<close>

definition read_back :: "src_file list \<Rightarrow> src_file list" where
  "read_back fs = map (\<lambda>(p, body). (p, lstrip_crlf body)) (tree_sections fs)"

lemma lstrip_body:
  "r = [] \<or> \<not> is_crlf (hd r) \<Longrightarrow> lstrip_crlf (newline # r @ newlines) = (if r = [] then lstrip_crlf newlines else r @ newlines)"
  by (cases r) (simp_all add: lstrip_crlf_def)

lemma map_butlast_last: "fs \<noteq> [] \<Longrightarrow> map f (butlast fs) @ [f (last fs)] = map f fs"
  by (metis append_butlast_last_id map_append list.map(1,2))

lemma read_back_trim:
  assumes "list_all tree_file fs" and "fs \<noteq> []"
  shows "map trim (read_back fs) = map trim fs" and "\<forall>f \<in> set (read_back fs). length (snd f) \<le> MAX_CONTENT_CHARS"
    and "map fst (read_back fs) = map fst fs"
proof -
  have one: "trim (p, lstrip_crlf b) = trim f \<and> length (lstrip_crlf b) \<le> MAX_CONTENT_CHARS"
    if "tree_file f" "(p, b) = inner_section f \<or> (p, b) = last_section f" for f p b
  proof -
    obtain q c where f: "f = (q, c)" by (cases f)
    have "py_rstrip (py_rstrip c @ [newline, newline]) = py_rstrip c" "py_rstrip (py_rstrip c @ [newline]) = py_rstrip c"
      using py_rstrip_spaces [of "[newline, newline]" "py_rstrip c"] py_rstrip_spaces [of "[newline]" "py_rstrip c"] by simp_all
    moreover have "length (py_rstrip c) + 2 \<le> MAX_CONTENT_CHARS"
      using that(1) length_py_rstrip [of c] by (simp add: f tree_file_def)
    moreover have "lstrip_crlf [newline] = []" "lstrip_crlf [newline, newline] = []" "py_rstrip [] = []"
      by (simp_all add: lstrip_crlf_def py_rstrip_def)
    ultimately show ?thesis
      using that lstrip_body [of "py_rstrip c" "[newline, newline]"] lstrip_body [of "py_rstrip c" "[newline]"]
      by (auto simp: f inner_section_def last_section_def trim_def tree_file_def lstrip_crlf_def)
  qed
  have all: "\<forall>f \<in> set (butlast fs). tree_file f" "tree_file (last fs)"
    using assms by (auto simp: list_all_iff dest: in_set_butlastD)
  have inner: "trim ((\<lambda>(p, body). (p, lstrip_crlf body)) (inner_section f)) = trim f"
    and outer: "trim ((\<lambda>(p, body). (p, lstrip_crlf body)) (last_section f)) = trim f"
    and short: "length (lstrip_crlf (snd (inner_section f))) \<le> MAX_CONTENT_CHARS"
      "length (lstrip_crlf (snd (last_section f))) \<le> MAX_CONTENT_CHARS" if "tree_file f" for f
    using one [OF that, of "fst (inner_section f)" "snd (inner_section f)"]
      one [OF that, of "fst (last_section f)" "snd (last_section f)"] by (simp_all add: case_prod_beta)
  have "map trim (read_back fs) = map trim (butlast fs) @ [trim (last fs)]"
    using all inner outer by (simp add: read_back_def tree_sections_def)
  then show "map trim (read_back fs) = map trim fs" by (simp add: map_butlast_last assms(2))
  show "\<forall>f \<in> set (read_back fs). length (snd f) \<le> MAX_CONTENT_CHARS"
    using all short by (simp add: read_back_def tree_sections_def case_prod_beta) blast?
  have "map fst (read_back fs) = map fst (butlast fs) @ [fst (last fs)]"
    by (simp add: read_back_def tree_sections_def case_prod_beta inner_section_def last_section_def)
  then show "map fst (read_back fs) = map fst fs" by (simp add: map_butlast_last assms(2))
qed

section \<open>Properties\<close>

lemma py_strip_not_Nil:
  assumes "c \<in> set s" and "\<not> is_space c"
  shows "py_strip s \<noteq> []"
proof
  assume "py_strip s = []"
  then have all: "\<forall>x \<in> set (dropWhile is_space s). is_space x"
    by (simp add: py_strip_def strip_by_def dropWhile_eq_Nil_conv)
  have "dropWhile is_space s \<noteq> []" using assms by (auto simp: dropWhile_eq_Nil_conv)
  then show False using all hd_dropWhile [of is_space s] by (metis hd_in_set)
qed

lemma trim_chunk: "tree_file f \<Longrightarrow> trim g = trim f \<Longrightarrow> length (snd g) \<le> MAX_CONTENT_CHARS \<Longrightarrow> file_chunk g = file_chunk f"
  by (cases f; cases g) (simp add: trim_def file_chunk_def tree_file_def)

lemma parse_serialized:
  assumes "list_all tree_file fs" and "fs \<noteq> []" and "length fs \<le> MAX_FILES"
  shows "parse_file_tree (serialize_file_tree fs) = read_back fs"
proof -
  have "length (tree_sections fs) \<le> MAX_FILES" using assms(2,3) by (simp add: tree_sections_def Suc_le_eq)
  moreover have "sanitize_rel_path (fst s) = fst s" if "s \<in> set (tree_sections fs)" for s
  proof -
    have "map fst (tree_sections fs) = map fst fs"
      using read_back_trim(3) [OF assms(1,2)] by (simp add: read_back_def case_prod_beta comp_def)
    then have "fst s \<in> set (map fst fs)" using that by (metis imageI list.set_map)
    then show ?thesis using assms(1) by (auto simp: list_all_iff tree_file_def)
  qed
  moreover have "take MAX_CONTENT_CHARS (lstrip_crlf (snd s)) = lstrip_crlf (snd s)" if "s \<in> set (tree_sections fs)" for s
    using that read_back_trim(2) [OF assms(1,2)] by (auto simp: read_back_def case_prod_beta)
  ultimately show ?thesis
    by (simp add: parse_file_tree_def sections_serialized(2) [OF assms] read_back_def case_prod_beta)
qed

lemma serialize_trim:
  assumes "map trim gs = map trim fs" and "list_all tree_file fs" and "\<forall>g \<in> set gs. length (snd g) \<le> MAX_CONTENT_CHARS"
  shows "serialize_file_tree gs = serialize_file_tree fs"
proof -
  have len: "length gs = length fs" using assms(1) by (metis length_map)
  have "map file_chunk gs = map file_chunk fs"
  proof (rule nth_equalityI)
    fix i
    assume i: "i < length (map file_chunk gs)"
    then have "trim (gs ! i) = trim (fs ! i)" using assms(1) len by (metis length_map nth_map)
    moreover have "tree_file (fs ! i)" "length (snd (gs ! i)) \<le> MAX_CONTENT_CHARS"
      using assms(2,3) i len by (auto simp: list_all_length)
    ultimately show "map file_chunk gs ! i = map file_chunk fs ! i" using i len by (simp add: trim_chunk)
  qed (simp add: len)
  then show ?thesis by (simp add: serialize_file_tree_def len flip: take_map)
qed



text \<open>A repaired tree: every file of the original in its place, with the repaired content where there is
  one, then the new files.\<close>

definition merged_tree :: "src_file list \<Rightarrow> src_file list \<Rightarrow> src_file list" where
  "merged_tree orig rep =
     map (\<lambda>(p, c). (p, case map_of rep p of Some c' \<Rightarrow> c' | None \<Rightarrow> c)) orig
     @ filter (\<lambda>f. fst f \<notin> fst ` set orig) rep"

lemma map_of_trim: "map_of (map trim fs) p = map_option py_rstrip (map_of fs p)"
  by (induction fs) (auto simp: trim_def)

lemma trim_merged: "map trim (merged_tree orig rep) = merged_tree (map trim orig) (map trim rep)"
  by (auto simp: merged_tree_def map_of_trim trim_def filter_map comp_def case_prod_beta image_image split: option.splits)

lemma added_files:
  "distinct (map fst rs) \<Longrightarrow> \<forall>f \<in> set rs. sanitize_rel_path (fst f) = fst f \<Longrightarrow>
   new_files seen rs = filter (\<lambda>f. fst f \<notin> set seen) rs"
proof (induction rs arbitrary: seen)
  case (Cons r rs)
  obtain p c where r: "r = (p, c)" by (cases r)
  have "filter (\<lambda>f. fst f \<notin> set (p # seen)) rs = filter (\<lambda>f. fst f \<notin> set seen) rs"
    using Cons.prems r by (intro filter_cong) force+
  then show ?case using Cons by (simp add: r Let_def)
qed simp

lemma map_of_fold_dset: "distinct (map fst rs) \<Longrightarrow> map_of (fold (\<lambda>(p, c). dset p c) rs acc) p =
   (case map_of rs p of Some c \<Rightarrow> Some c | None \<Rightarrow> map_of acc p)"
proof (induction rs arbitrary: acc)
  case (Cons r rs)
  obtain a c where r: "r = (a, c)" by (cases r)
  have "map_of rs a = None" using Cons.prems by (simp add: r map_of_eq_None_iff)
  then show ?case using Cons by (auto simp: r split: option.split)
qed simp

lemma merge_eq:
  assumes "parse_file_tree o' = os" and "parse_file_tree r' = rs" and "os \<noteq> []" and "rs \<noteq> []"
    and "distinct (map fst rs)" and "\<forall>f \<in> set os \<union> set rs. sanitize_rel_path (fst f) = fst f"
  shows "merge_repaired_files o' r' = serialize_file_tree (merged_tree os rs)"
proof -
  have path: "sanitize_rel_path a = a" if "(a, b) \<in> set os \<or> (a, b) \<in> set rs" for a b
    using assms(6) that by force
  have "fold (\<lambda>(p, c). dset (sanitize_rel_path p) c) rs [] = fold (\<lambda>(p, c). dset p c) rs []"
    by (intro fold_cong) (auto simp: path [OF disjI2])
  then have by_path: "map_of (fold (\<lambda>(p, c). dset (sanitize_rel_path p) c) rs []) p = map_of rs p" for p
    using map_of_fold_dset [OF assms(5), of "[]" p] by (simp split: option.splits)
  have kept: "map (repaired_file (fold (\<lambda>(p, c). dset (sanitize_rel_path p) c) rs [])) os
      = map (\<lambda>(p, c). (p, case map_of rs p of Some c' \<Rightarrow> c' | None \<Rightarrow> c)) os"
    by (auto simp: repaired_file_def by_path path [OF disjI1])
  have paths: "map (sanitize_rel_path \<circ> fst) os = map fst os" using assms(6) by simp
  have added: "new_files (map (sanitize_rel_path \<circ> fst) os) rs = filter (\<lambda>f. fst f \<notin> fst ` set os) rs"
    unfolding paths using added_files [OF assms(5), of "map fst os"] assms(6) by simp
  show ?thesis using assms(3,4)
    by (simp add: merge_repaired_files_def assms(1,2) kept added merged_tree_def)
qed

text \<open>Merging a repair into a tree replaces exactly the files the repair names, keeps every other file in
  its place and appends the new ones, up to the white space at the end of a file.\<close>

theorem merge_keeps_files:
  assumes "list_all tree_file orig" and "list_all tree_file rep" and "orig \<noteq> []" and "rep \<noteq> []"
    and "distinct (map fst rep)" and "length orig + length rep \<le> MAX_FILES"
  shows "map trim (parse_file_tree (merge_repaired_files (serialize_file_tree orig) (serialize_file_tree rep)))
    = map trim (merged_tree orig rep)"
proof -
  have len: "length orig \<le> MAX_FILES" "length rep \<le> MAX_FILES" using assms(6) by auto
  note o = read_back_trim [OF assms(1,3)] and r = read_back_trim [OF assms(2,4)]
  have same: "set (map fst (read_back orig)) = set (map fst orig)" "set (map fst (read_back rep)) = set (map fst rep)"
    using o(3) r(3) by simp_all
  have san: "\<forall>f \<in> set (read_back orig) \<union> set (read_back rep). sanitize_rel_path (fst f) = fst f"
  proof
    fix f
    assume "f \<in> set (read_back orig) \<union> set (read_back rep)"
    then have "fst f \<in> set (map fst orig) \<union> set (map fst rep)" using same by (metis Un_iff imageI list.set_map)
    then show "sanitize_rel_path (fst f) = fst f" using assms(1,2) by (auto simp: list_all_iff tree_file_def)
  qed
  have merged: "merge_repaired_files (serialize_file_tree orig) (serialize_file_tree rep)
      = serialize_file_tree (merged_tree (read_back orig) (read_back rep))"
    by (rule merge_eq [OF parse_serialized [OF assms(1,3) len(1)] parse_serialized [OF assms(2,4) len(2)] _ _ _ san])
      (use assms(5) r(3) in \<open>simp_all add: read_back_def tree_sections_def\<close>)
  have ok: "list_all tree_file (merged_tree orig rep)"
    using assms(1,2) by (fastforce simp: merged_tree_def list_all_iff tree_file_def split: option.splits dest: map_of_SomeD)
  have "map trim (merged_tree (read_back orig) (read_back rep)) = map trim (merged_tree orig rep)"
    by (simp add: trim_merged o(1) r(1))
  moreover have "\<forall>f \<in> set (merged_tree (read_back orig) (read_back rep)). length (snd f) \<le> MAX_CONTENT_CHARS"
    using o(2) r(2) by (fastforce simp: merged_tree_def split: option.splits dest: map_of_SomeD)
  ultimately have merged': "merge_repaired_files (serialize_file_tree orig) (serialize_file_tree rep) = serialize_file_tree (merged_tree orig rep)"
    unfolding merged using ok by (intro serialize_trim)
  have ne: "merged_tree orig rep \<noteq> []" using assms(3) by (simp add: merged_tree_def)
  have "length (filter (\<lambda>f. fst f \<notin> fst ` set orig) rep) \<le> length rep" by (rule length_filter_le)
  then have "length (merged_tree orig rep) \<le> MAX_FILES" using assms(6) unfolding merged_tree_def length_append length_map by linarith
  from parse_serialized [OF ok ne this] read_back_trim(1) [OF ok ne] show ?thesis by (simp add: merged')
qed

lemma split_on_append:
  "split_on d (s @ t) = butlast (split_on d s) @ (last (split_on d s) @ hd (split_on d t)) # tl (split_on d t)"
proof (induction s)
  case Nil
  show ?case by (cases t) (auto split: list.split)
next
  case (Cons c s)
  have "split_on d s \<noteq> []" by (cases s) (auto split: list.split)
  then show ?case using Cons by (cases "split_on d s") auto
qed

lemma split_on_not_Nil [simp]: "split_on d s \<noteq> []"
  by (cases s) (auto split: list.split)

lemma split_on_part: "p \<in> set (split_on d s) \<Longrightarrow> d \<notin> set p \<and> set p \<subseteq> set s"
  by (induction s arbitrary: p) (auto split: if_splits list.splits, fastforce+)

lemma split_on_plain: "d \<notin> set p \<Longrightarrow> split_on d p = [p]"
  by (induction p) auto

lemma split_on_join:
  "ps \<noteq> [] \<Longrightarrow> \<forall>p \<in> set ps. d \<notin> set p \<Longrightarrow> split_on d (join_str [d] ps) = ps"
  by (induction ps rule: induct_list012) (simp_all add: split_on_plain split_on_append)

lemma split_on_take: "set (butlast (split_on d (take n s))) \<subseteq> set (split_on d s)"
  using split_on_append [of d "take n s" "drop n s"] by auto

definition ordinary :: "string \<Rightarrow> bool" where
  "ordinary part \<longleftrightarrow> part \<notin> {[], ''.'', ''..''}"

lemma path_parts_ok: "part \<in> set (path_parts path) \<Longrightarrow> ordinary part \<and> CHR ''/'' \<notin> set part \<and> CHR 0x5C \<notin> set part"
proof -
  assume "part \<in> set (path_parts path)"
  then have p: "ordinary part" "part \<in> set (split_on (CHR ''/'') (dropWhile (\<lambda>c. c = CHR ''/'')
      (strip_drive (replace_char (CHR 0x5C) (CHR ''/'') (py_strip path)))))"
    by (auto simp: path_parts_def ordinary_def Let_def)
  have "set (strip_drive s) \<subseteq> set s" for s by (auto simp: strip_drive_def split: list.splits if_splits)
  then have "set part \<subseteq> set (replace_char (CHR 0x5C) (CHR ''/'') (py_strip path))"
    using split_on_part [OF p(2)] by (auto dest!: set_dropWhileD)
  then show ?thesis using p split_on_part [OF p(2)] by (auto simp: replace_char_def split: if_splits)
qed

text \<open>A sanitized path is a relative path of at most 240 characters without a backslash, and no
  component of it is empty, \<open>.\<close> or \<open>..\<close>, except possibly the last one of a path that was cut.\<close>

theorem sanitized_path_contained:
  "sanitize_rel_path path \<noteq> [] \<and> length (sanitize_rel_path path) \<le> MAX_PATH
    \<and> CHR 0x5C \<notin> set (sanitize_rel_path path)
    \<and> list_all ordinary (butlast (split_on (CHR ''/'') (sanitize_rel_path path)))
    \<and> (length (join_str ''/'' (path_parts path)) > MAX_PATH \<or> ordinary (last (split_on (CHR ''/'') (sanitize_rel_path path))))"
proof (cases "path_parts path = []")
  case True
  have "list_all ordinary (butlast (split_on (CHR ''/'') ''generated.txt''))" by simp
  then show ?thesis using True by (simp add: sanitize_rel_path_def MAX_PATH_def ordinary_def)
next
  case False
  let ?j = "join_str ''/'' (path_parts path)"
  have parts: "split_on (CHR ''/'') ?j = path_parts path"
    using False path_parts_ok by (intro split_on_join) blast+
  have "?j \<noteq> []"
  proof
    assume "?j = []"
    then have "path_parts path = [[]]" using parts by simp
    then show False using path_parts_ok [of "[]" path] by (simp add: ordinary_def)
  qed
  then have s: "sanitize_rel_path path = take MAX_PATH ?j" by (simp add: sanitize_rel_path_def MAX_PATH_def)
  have no_backslash: "CHR 0x5C \<notin> set (join_str ''/'' ps)" if "\<forall>p \<in> set ps. CHR 0x5C \<notin> set p" for ps
    using that by (induction ps rule: induct_list012) auto
  have 1: "CHR 0x5C \<notin> set (take MAX_PATH ?j)"
    using no_backslash [of "path_parts path"] path_parts_ok by (meson in_set_takeD)
  have 2: "list_all ordinary (butlast (split_on (CHR ''/'') (take MAX_PATH ?j)))"
    using split_on_take [of "CHR ''/''" MAX_PATH ?j] path_parts_ok by (auto simp: list_all_iff parts)
  have 3: "length ?j > MAX_PATH \<or> ordinary (last (split_on (CHR ''/'') (take MAX_PATH ?j)))"
    using path_parts_ok [OF last_in_set [OF False]] by (cases "length ?j > MAX_PATH") (simp_all add: parts)
  show ?thesis using 1 2 3 \<open>?j \<noteq> []\<close> by (simp add: s MAX_PATH_def)
qed

text \<open>The items a worker reads off its partition.\<close>

definition partition_wanted :: "WorkPartition \<Rightarrow> string list" where
  "partition_wanted p = filter (\<lambda>s. s \<noteq> []) (map (py_strip \<circ> py_str) (wp_assigned_items p))"

lemma disjoint_selection:
  assumes "distinct (concat ws)" and "\<forall>s \<in> set S. f s \<in> set (concat ws)"
  shows "mset (concat (map (\<lambda>w. filter (\<lambda>s. f s \<in> set w) S) ws)) = mset S"
  using assms
proof (induction ws arbitrary: S)
  case (Cons w ws)
  define S' where "S' = filter (\<lambda>s. f s \<notin> set w) S"
  have sel: "filter (\<lambda>s. f s \<in> set w') S = filter (\<lambda>s. f s \<in> set w') S'" if "w' \<in> set ws" for w'
    unfolding S'_def filter_filter using Cons.prems(1) that by (intro filter_cong) auto
  have "concat (map (\<lambda>w. filter (\<lambda>s. f s \<in> set w) S) ws) = concat (map (\<lambda>w. filter (\<lambda>s. f s \<in> set w) S') ws)"
    by (intro arg_cong [where f = concat] map_cong refl sel)
  moreover have "mset (concat (map (\<lambda>w. filter (\<lambda>s. f s \<in> set w) S') ws)) = mset S'"
    using Cons.prems by (intro Cons.IH) (auto simp: S'_def)
  moreover have "mset (filter (\<lambda>s. f s \<in> set w) S) + mset S' = mset S"
    unfolding S'_def mset_filter by (rule multiset_partition [symmetric])
  ultimately show ?case by simp
qed simp

lemma set_dedup: "set (dedup seen xs) = set xs - set seen - {[]}" and distinct_dedup: "distinct (dedup seen xs)"
  by (induction seen xs rule: dedup.induct) auto

lemma image_mset_str: "image_mset PStr A = image_mset PStr B \<Longrightarrow> A = B"
proof -
  assume "image_mset PStr A = image_mset PStr B"
  then have "image_mset str_of (image_mset PStr A) = image_mset str_of (image_mset PStr B)" by simp
  then show "A = B" by (simp add: multiset.map_comp comp_def)
qed

lemma clean_strings:
  "\<forall>v \<in> set vs. py_strip (py_str v) \<noteq> [] \<and> PStr (py_strip (py_str v)) = v \<Longrightarrow>
   map PStr (filter (\<lambda>s. s \<noteq> []) (map (py_strip \<circ> py_str) vs)) = vs"
  by (induction vs) auto

lemma segment_path:
  "(p, b) \<in> set (bundle_source_segments source) \<Longrightarrow> p \<noteq> [] \<and> p \<in> (py_strip \<circ> fst) ` set (sections match_file source)"
  by (force simp: bundle_source_segments_def map_filter_def split: if_splits)

text \<open>Splitting a bundle over any number of workers gives every file with a path to exactly one worker:
  the files the workers select from their partitions are together the files of the bundle.\<close>

theorem partitions_cover_bundle:
  assumes "py_strip source \<noteq> []"
  shows "mset (concat (map (selected_segments source \<circ> partition_wanted)
       (partition_workload uuid (workload_items_from_source_bundle (PStr source)) instances)))
     = mset (bundle_source_segments source)"
proof -
  define items where "items = workload_items_from_source_bundle (PStr source)"
  define W where "W = partition_workload uuid items instances"
  have items: "items = dedup [] (map (py_strip \<circ> fst) (sections match_file source))"
    using assms by (simp add: items_def workload_items_from_source_bundle_def)
  have clean: "py_strip x = x \<and> x \<noteq> []" if "x \<in> set items" for x
    using that by (auto simp: items set_dedup)
  have strings: "set (concat (map wp_assigned_items W)) = PStr ` set items"
    using mset_partition_items [of uuid items instances] by (metis W_def set_map set_mset_mset)
  have wanted: "map PStr (partition_wanted w) = wp_assigned_items w" if "w \<in> set W" for w
  proof -
    have "\<forall>v \<in> set (wp_assigned_items w). \<exists>x \<in> set items. v = PStr x" using that strings by auto
    then have "\<forall>v \<in> set (wp_assigned_items w). py_strip (py_str v) \<noteq> [] \<and> PStr (py_strip (py_str v)) = v"
      using clean by fastforce
    then show ?thesis unfolding partition_wanted_def by (rule clean_strings)
  qed
  have "map PStr (concat (map partition_wanted W)) = concat (map (\<lambda>w. map PStr (partition_wanted w)) W)"
    by (simp add: map_concat comp_def)
  also have "\<dots> = concat (map wp_assigned_items W)" using wanted by (metis (mono_tags, lifting) map_eq_conv)
  finally have "image_mset PStr (mset (concat (map partition_wanted W))) = image_mset PStr (mset items)"
    using mset_partition_items [of uuid items instances] by (simp only: W_def flip: mset_map)
  then have eq: "mset (concat (map partition_wanted W)) = mset items"
    by (rule image_mset_str)
  have "distinct (concat (map partition_wanted W))"
    using eq distinct_dedup items by (metis mset_eq_imp_distinct_iff)
  moreover have "\<forall>s \<in> set (bundle_source_segments source). fst s \<in> set (concat (map partition_wanted W))"
    unfolding mset_eq_setD [OF eq] items set_dedup set_map using segment_path [of _ _ source] by auto
  ultimately have "mset (concat (map (\<lambda>w. filter (\<lambda>s. fst s \<in> set w) (bundle_source_segments source)) (map partition_wanted W)))
      = mset (bundle_source_segments source)"
    by (rule disjoint_selection)
  then show ?thesis by (simp add: W_def items_def comp_def selected_segments_def case_prod_unfold)
qed

definition sample_tree :: "src_file list" where
  "sample_tree = [(''a/b'', ''x''), (''c'', [])]"

lemma sample_tree_ok: "list_all tree_file sample_tree" "sample_tree \<noteq> []" "length sample_tree + length sample_tree \<le> MAX_FILES"
    "distinct (map fst sample_tree)"
  by (simp_all add: sample_tree_def tree_file_def header_path_def newline_def py_strip_def strip_by_def is_space_def
      sanitize_rel_path_def path_parts_def strip_drive_def replace_char_def is_letter_def is_upper_char_def is_lower_char_def
      MAX_PATH_def MAX_CONTENT_CHARS_def MAX_FILES_def py_rstrip_def starts_with_def is_crlf_def)



lemma merge_keeps_files_witness:
  "map trim (parse_file_tree (merge_repaired_files (serialize_file_tree sample_tree) (serialize_file_tree [(''c'', ''y'')])))
     = [(''a/b'', ''x''), (''c'', ''y'')]"
proof -
  have "list_all tree_file [(''c'', ''y'')]"
    by (simp add: tree_file_def header_path_def newline_def py_strip_def strip_by_def is_space_def
      sanitize_rel_path_def path_parts_def strip_drive_def replace_char_def is_letter_def is_upper_char_def is_lower_char_def
      MAX_PATH_def MAX_CONTENT_CHARS_def py_rstrip_def starts_with_def is_crlf_def)
  then have "map trim (parse_file_tree (merge_repaired_files (serialize_file_tree sample_tree) (serialize_file_tree [(''c'', ''y'')])))
     = map trim (merged_tree sample_tree [(''c'', ''y'')])"
    using sample_tree_ok by (intro merge_keeps_files) (simp_all add: MAX_FILES_def)
  also have "\<dots> = [(''a/b'', ''x''), (''c'', ''y'')]"
    by (simp add: merged_tree_def sample_tree_def trim_def py_rstrip_def is_space_def)
  finally show ?thesis .
qed

lemma partitions_cover_bundle_witness:
  "mset (concat (map (selected_segments ''## FILE x'' \<circ> partition_wanted)
     (partition_workload (\<lambda>_. []) (workload_items_from_source_bundle (PStr ''## FILE x'')) 4)))
   = mset (bundle_source_segments ''## FILE x'')"
  by (rule partitions_cover_bundle) (simp add: py_strip_def strip_by_def is_space_def)

end
