(* ===== verification/Agent_Keys.thy ===== *)
theory Agent_Keys
  imports Agent_Registry Mission_Flow
begin

text \<open>
  Service keys: \<open>shared_runtime/agent_keys.py\<close>, by which a worker finds the key it presents for an agent,
  and \<open>orchestrator/auth.py\<close>, by which the orchestrator accepts it. The environment is a dict of
  strings; \<open>files\<close> is what \<open>json.loads\<close> makes of a key file, \<open>None\<close> when it cannot be read or parsed.
  The entropy is the real number the float sum approximates. A key source that fails raises
  \<open>RuntimeError\<close>. Warnings and debug messages are not modelled.
\<close>

section \<open>Strength\<close>

definition MIN_KEY_LENGTH :: nat where "MIN_KEY_LENGTH = 16"
definition MIN_KEY_ENTROPY :: real where "MIN_KEY_ENTROPY = 3"
definition PRODUCTION_ENVIRONMENTS :: "string list" where "PRODUCTION_ENVIRONMENTS = [''prod'', ''production'']"

definition PLACEHOLDER_SERVICE_API_KEYS :: "string list" where
  "PLACEHOLDER_SERVICE_API_KEYS =
     [[], ''change-me'', ''changeme'', ''dev-key'', ''test-key'', ''test-worker-key'', ''worker-key'']"

definition shannon_entropy :: "string \<Rightarrow> real" where
  "shannon_entropy s =
     (if s = [] then 0
      else - sum_list (map (\<lambda>c. let q = real (count_list s c) / real (length s) in q * log 2 q) (remdups s)))"

definition validate_key_strength :: "string \<Rightarrow> bool" where
  "validate_key_strength key \<longleftrightarrow> \<not> length key < MIN_KEY_LENGTH \<and> \<not> shannon_entropy key < MIN_KEY_ENTROPY"

section \<open>Names and sources\<close>

definition agent_service_key_env_name :: "string \<Rightarrow> string option" where
  "agent_service_key_env_name agent =
     (case normalize_agent_id (PStr agent) of
        None \<Rightarrow> None
      | Some normalized \<Rightarrow> Some (replace_char (CHR ''-'') (CHR ''_'') normalized @ ''_SERVICE_API_KEY''))"

definition name_char :: "char \<Rightarrow> bool" where
  "name_char c \<longleftrightarrow> is_upper_char c \<or> is_digit c \<or> c = CHR ''_''"

text \<open>\<open>^AGENT_(\d{2})_([A-Z0-9_]+)_SERVICE_API_KEY$\<close> and the agent id made of its groups; \<open>$\<close> also matches
  before a final line break.\<close>

definition env_agent_id :: "string \<Rightarrow> string option" where
  "env_agent_id env_name =
     (let n = (if env_name \<noteq> [] \<and> last env_name = CHR 0x0A then butlast env_name else env_name);
          digits = take 2 (drop 6 n); mid = drop 9 n; k = length mid - length ''_SERVICE_API_KEY'';
          group2 = take k mid
      in if starts_with ''AGENT_'' n \<and> length digits = 2 \<and> list_all is_digit digits
            \<and> starts_with ''_'' (drop 8 n) \<and> drop k mid = ''_SERVICE_API_KEY'' \<and> group2 \<noteq> []
            \<and> list_all name_char group2
         then Some (''AGENT-'' @ digits @ ''-'' @ replace_char (CHR ''_'') (CHR ''-'') group2) else None)"

fun split_at :: "char \<Rightarrow> string \<Rightarrow> string list" where
  "split_at d [] = [[]]"
| "split_at d (c # s) = (if c = d then [] # split_at d s
     else case split_at d s of [] \<Rightarrow> [[c]] | p # ps \<Rightarrow> (c # p) # ps)"

definition allowed :: "string list option \<Rightarrow> string \<Rightarrow> bool" where
  "allowed allowed_agent_ids agent \<longleftrightarrow> (case allowed_agent_ids of None \<Rightarrow> True | Some ids \<Rightarrow> agent \<in> set ids)"

definition map_entry :: "string list option \<Rightarrow> string \<Rightarrow> string dict \<Rightarrow> string dict" where
  "map_entry ids entry mapping =
     (let agent = takeWhile (\<lambda>c. c \<noteq> CHR ''='') entry; key = py_strip (drop (Suc (length agent)) entry)
      in if CHR ''='' \<notin> set entry then mapping
         else case normalize_agent_id (PStr agent) of
           None \<Rightarrow> mapping
         | Some normalized \<Rightarrow>
             if key = [] \<or> \<not> allowed ids normalized then mapping else dset normalized key mapping)"

definition parse_agent_service_key_map :: "string list option \<Rightarrow> string \<Rightarrow> string dict" where
  "parse_agent_service_key_map ids raw =
     fold (map_entry ids) (filter (\<lambda>e. e \<noteq> []) (map py_strip (split_at (CHR '';'') raw))) []"

fun load_key_entries :: "string list option \<Rightarrow> pydict \<Rightarrow> string dict \<Rightarrow> string dict res" where
  "load_key_entries ids [] mapping = Inr mapping"
| "load_key_entries ids ((raw_agent_id, raw_key) # items) mapping =
     (case (normalize_agent_id (PStr raw_agent_id), raw_key) of
        (Some normalized, PStr key) \<Rightarrow>
          if py_strip key = [] then Inl RuntimeError
          else load_key_entries ids items
                 (if allowed ids normalized then dset normalized (py_strip key) mapping else mapping)
      | _ \<Rightarrow> Inl RuntimeError)"

definition load_agent_service_key_file :: "(string \<Rightarrow> pyval option) \<Rightarrow> string list option \<Rightarrow> string \<Rightarrow> string dict res" where
  "load_agent_service_key_file files ids path =
     (case files path of Some (PDict payload) \<Rightarrow> load_key_entries ids payload [] | _ \<Rightarrow> Inl RuntimeError)"

definition env_entry :: "string list option \<Rightarrow> string \<times> string \<Rightarrow> string dict \<Rightarrow> string dict" where
  "env_entry ids e mapping = (case e of (env_name, raw_value) \<Rightarrow>
     case env_agent_id env_name of
       None \<Rightarrow> mapping
     | Some agent \<Rightarrow> if py_strip raw_value = [] \<or> \<not> allowed ids agent then mapping
                     else dset agent (py_strip raw_value) mapping)"

definition env_get :: "string dict \<Rightarrow> string \<Rightarrow> string" where
  "env_get env k = (case map_of env k of None \<Rightarrow> [] | Some v \<Rightarrow> v)"

definition configured_agent_service_key_map ::
  "(string \<Rightarrow> pyval option) \<Rightarrow> string list option \<Rightarrow> string dict \<Rightarrow> string \<Rightarrow> string dict res" where
  "configured_agent_service_key_map files ids env raw_mapping =
     (let mapping = parse_agent_service_key_map ids raw_mapping;
          key_file = py_strip (env_get env ''AGENT_SERVICE_KEY_FILE'')
      in rbind (if key_file = [] then Inr mapping
                else rbind (load_agent_service_key_file files ids key_file) (\<lambda>loaded.
                       Inr (fold (\<lambda>(k, v). dset k v) loaded mapping)))
           (\<lambda>mapping. Inr (fold (env_entry ids) env mapping)))"

section \<open>The key of an agent\<close>

record key_config =
  kc_fallback :: string
  kc_mapping :: string
  kc_mode :: string
  kc_allowed :: "string list option"

definition strict_mode :: "string \<Rightarrow> bool" where
  "strict_mode key_mode \<longleftrightarrow> py_lower (py_strip key_mode) = ''strict''"

definition service_api_key_for_agent ::
  "(string \<Rightarrow> pyval option) \<Rightarrow> string dict \<Rightarrow> key_config \<Rightarrow> pyval \<Rightarrow> string res" where
  "service_api_key_for_agent files env cfg agent =
     (case normalize_agent_id agent of
        None \<Rightarrow> Inr (kc_fallback cfg)
      | Some normalized \<Rightarrow>
          let direct = (case agent_service_key_env_name normalized of
                          None \<Rightarrow> [] | Some env_name \<Rightarrow> py_strip (env_get env env_name))
          in if direct \<noteq> [] then Inr direct
             else rbind (configured_agent_service_key_map files (kc_allowed cfg) env (kc_mapping cfg)) (\<lambda>mapping.
               case map_of mapping normalized of
                 Some key \<Rightarrow> if key \<noteq> [] then Inr key
                             else if strict_mode (kc_mode cfg) then Inl RuntimeError else Inr (kc_fallback cfg)
               | None \<Rightarrow> if strict_mode (kc_mode cfg) then Inl RuntimeError else Inr (kc_fallback cfg)))"

fun check_required ::
  "(string \<Rightarrow> pyval option) \<Rightarrow> string dict \<Rightarrow> key_config \<Rightarrow> pyval list \<Rightarrow> unit res" where
  "check_required files env cfg [] = Inr ()"
| "check_required files env cfg (required # rest) =
     (case normalize_agent_id required of
        None \<Rightarrow> check_required files env cfg rest
      | Some normalized \<Rightarrow>
          rbind (service_api_key_for_agent files env cfg (PStr normalized)) (\<lambda>key.
            if validate_key_strength key then check_required files env cfg rest else Inl RuntimeError))"

definition enforce_production_service_auth_config ::
  "(string \<Rightarrow> pyval option) \<Rightarrow> string dict \<Rightarrow> string \<Rightarrow> string \<Rightarrow> string \<Rightarrow> pyval list \<Rightarrow> string \<Rightarrow> unit res" where
  "enforce_production_service_auth_config files env environment service_api_key key_mode required raw_mapping =
     (let fallback = py_strip service_api_key
      in if py_lower (py_strip environment) \<notin> set PRODUCTION_ENVIRONMENTS then Inr ()
         else if \<not> strict_mode key_mode then Inl RuntimeError
         else if py_lower fallback \<in> set PLACEHOLDER_SERVICE_API_KEYS then Inl RuntimeError
         else if \<not> validate_key_strength fallback then Inl RuntimeError
         else check_required files env
                \<lparr>kc_fallback = fallback, kc_mapping = raw_mapping, kc_mode = ''strict'', kc_allowed = None\<rparr> required)"

section \<open>The orchestrator's check\<close>

type_synonym role_map = "(string \<times> string list) list"

definition match_api_key :: "string \<Rightarrow> role_map \<Rightarrow> string list option" where
  "match_api_key candidate api_key_roles =
     fold (\<lambda>(stored_key, roles) matched. if stored_key = candidate then Some roles else matched) api_key_roles None"

record AuthContext =
  ac_api_key :: string
  ac_roles :: "string list"

definition require_roles :: "role_map \<Rightarrow> string list \<Rightarrow> string option \<Rightarrow> AuthContext res" where
  "require_roles api_key_roles allowed_roles x_api_key =
     (case x_api_key of
        None \<Rightarrow> Inl (HTTPException 401)
      | Some key \<Rightarrow>
          if key = [] then Inl (HTTPException 401)
          else case match_api_key key api_key_roles of
            None \<Rightarrow> Inl (HTTPException 401)
          | Some roles \<Rightarrow>
              if allowed_roles \<noteq> [] \<and> set roles \<inter> set allowed_roles = {} then Inl (HTTPException 403)
              else Inr \<lparr>ac_api_key = key, ac_roles = roles\<rparr>)"

section \<open>Lemmas\<close>

text \<open>The sources of a dedicated key, in the order they override each other.\<close>

definition dedicated_key :: "(string \<Rightarrow> pyval option) \<Rightarrow> string dict \<Rightarrow> key_config \<Rightarrow> string \<Rightarrow> string option" where
  "dedicated_key files env cfg agent =
     (let direct = py_strip (env_get env (replace_char (CHR ''-'') (CHR ''_'') agent @ ''_SERVICE_API_KEY''))
      in if direct \<noteq> [] then Some direct
         else case configured_agent_service_key_map files (kc_allowed cfg) env (kc_mapping cfg) of
           Inl e \<Rightarrow> None
         | Inr mapping \<Rightarrow> (case map_of mapping agent of Some key \<Rightarrow> if key = [] then None else Some key | None \<Rightarrow> None))"

lemma normalize_twice: "normalize_agent_id v = Some a \<Longrightarrow> normalize_agent_id (PStr a) = Some a"
  by (auto simp: normalize_agent_id_def Let_def split: if_splits)

lemma strict_resolution:
  assumes "normalize_agent_id v = Some a" and "strict_mode (kc_mode cfg)"
    and "service_api_key_for_agent files env cfg v = Inr key"
  shows "dedicated_key files env cfg a = Some key"
proof -
  have name: "agent_service_key_env_name a = Some (replace_char (CHR ''-'') (CHR ''_'') a @ ''_SERVICE_API_KEY'')"
    by (simp add: agent_service_key_env_name_def normalize_twice [OF assms(1)])
  define direct where "direct = py_strip (env_get env (replace_char (CHR ''-'') (CHR ''_'') a @ ''_SERVICE_API_KEY''))"
  have key: "(if direct \<noteq> [] then Inr direct
      else rbind (configured_agent_service_key_map files (kc_allowed cfg) env (kc_mapping cfg)) (\<lambda>mapping.
               case map_of mapping a of
                 Some key \<Rightarrow> if key \<noteq> [] then Inr key else Inl RuntimeError
               | None \<Rightarrow> Inl RuntimeError)) = Inr key"
    using assms(3) by (simp add: service_api_key_for_agent_def assms(1,2) name direct_def Let_def cong: if_cong option.case_cong)
  show ?thesis
  proof (cases "direct = []")
    case True
    then obtain mapping where "configured_agent_service_key_map files (kc_allowed cfg) env (kc_mapping cfg) = Inr mapping"
      "map_of mapping a = Some key" "key \<noteq> []"
      using key by (auto simp: rbind_Inr_iff split: option.splits if_splits)
    then show ?thesis using True by (simp add: dedicated_key_def flip: direct_def)
  next
    case False
    then show ?thesis using key by (simp add: dedicated_key_def flip: direct_def)
  qed
qed

lemma check_required_strong:
  assumes "check_required files env cfg required = Inr ()" and "v \<in> set required" and "normalize_agent_id v = Some a"
  shows "\<exists>key. service_api_key_for_agent files env cfg v = Inr key \<and> validate_key_strength key"
  using assms
proof (induction required)
  case (Cons r rs)
  have same: "service_api_key_for_agent files env cfg (PStr a) = service_api_key_for_agent files env cfg v"
    using assms(3) normalize_twice [OF assms(3)] by (simp add: service_api_key_for_agent_def)
  show ?case
  proof (cases "r = v")
    case True
    then show ?thesis using Cons.prems(1) assms(3) same by (auto simp: rbind_Inr_iff split: if_splits)
  next
    case False
    then have "check_required files env cfg rs = Inr ()" "v \<in> set rs"
      using Cons.prems(1,2) by (auto simp: rbind_Inr_iff split: option.splits if_splits)
    then show ?thesis using Cons.IH assms(3) by blast
  qed
qed simp

section \<open>Properties\<close>

text \<open>In production a service that passed the startup check resolves every required agent to a dedicated
  key, never to the shared fallback, and the key has at least 16 characters and 3 bits of entropy each; the
  fallback is no placeholder.\<close>

theorem production_keys_dedicated:
  assumes "enforce_production_service_auth_config files env environment service_api_key key_mode required raw_mapping = Inr ()"
    and "py_lower (py_strip environment) \<in> {''prod'', ''production''}"
    and "v \<in> set required" and "normalize_agent_id v = Some a"
    and "cfg = \<lparr>kc_fallback = py_strip service_api_key, kc_mapping = raw_mapping, kc_mode = key_mode, kc_allowed = None\<rparr>"
  shows "\<exists>key. service_api_key_for_agent files env cfg v = Inr key \<and> dedicated_key files env cfg a = Some key
    \<and> 16 \<le> length key \<and> 3 \<le> shannon_entropy key
    \<and> py_lower (kc_fallback cfg) \<notin> set PLACEHOLDER_SERVICE_API_KEYS"
proof -
  have ok: "strict_mode key_mode" "py_lower (py_strip service_api_key) \<notin> set PLACEHOLDER_SERVICE_API_KEYS"
    "check_required files env (cfg\<lparr>kc_mode := ''strict''\<rparr>) required = Inr ()"
    using assms(1,2,5) by (auto simp: enforce_production_service_auth_config_def Let_def PRODUCTION_ENVIRONMENTS_def split: if_splits)
  have m: "strict_mode (kc_mode cfg)" using ok(1) assms(5) by simp
  have "strict_mode ''strict''" by (simp add: strict_mode_def py_lower_def low_char_def py_strip_def strip_by_def is_space_def is_upper_char_def)
  moreover have sel: "kc_fallback (cfg\<lparr>kc_mode := x\<rparr>) = kc_fallback cfg" "kc_mapping (cfg\<lparr>kc_mode := x\<rparr>) = kc_mapping cfg"
    "kc_allowed (cfg\<lparr>kc_mode := x\<rparr>) = kc_allowed cfg" "kc_mode (cfg\<lparr>kc_mode := x\<rparr>) = x" for x by simp_all
  ultimately have mode: "service_api_key_for_agent files env (cfg\<lparr>kc_mode := ''strict''\<rparr>) v = service_api_key_for_agent files env cfg v"
    using m by (simp only: service_api_key_for_agent_def sel)
  obtain key where key: "service_api_key_for_agent files env cfg v = Inr key" "validate_key_strength key"
    using check_required_strong [OF ok(3) assms(3,4)] mode by auto
  then show ?thesis using strict_resolution [OF assms(4) m] ok(2) assms(5)
    by (auto simp: validate_key_strength_def MIN_KEY_LENGTH_def MIN_KEY_ENTROPY_def not_less)
qed

lemma py_strip_plain: "\<forall>c \<in> set s. \<not> is_space c \<Longrightarrow> py_strip s = s"
  using hd_in_set [of s] hd_in_set [of "rev s"] dropWhile_eq_self_iff [of is_space s] dropWhile_eq_self_iff [of is_space "rev s"]
  by (auto simp: py_strip_def strip_by_def)

lemma replace_back: "y \<notin> set s \<Longrightarrow> replace_char y x (replace_char x y s) = s"
  by (induction s) (auto simp: replace_char_def)

lemma normalize_plain: "py_upper (py_strip s) = s \<Longrightarrow> s \<noteq> [] \<Longrightarrow> normalize_agent_id (PStr s) = Some s"
  by (simp add: normalize_agent_id_def)

text \<open>The environment variable the resolver looks up for an agent is one the configuration reads back as
  that agent, for every id of the form \<open>AGENT-nn-NAME\<close> without an underscore.\<close>

theorem env_name_roundtrip:
  assumes "agent = ''AGENT-'' @ [d, e] @ ''-'' @ name" and "is_digit d" and "is_digit e" and "name \<noteq> []"
    and "list_all (\<lambda>c. is_upper_char c \<or> is_digit c \<or> c = CHR ''-'') name"
  shows "\<exists>env_name. agent_service_key_env_name agent = Some env_name \<and> env_agent_id env_name = Some agent"
proof -
  have plain: "up_char c = c \<and> \<not> is_space c \<and> c \<noteq> CHR ''_''" if "is_upper_char c \<or> is_digit c \<or> c = CHR ''-''" for c
    using that by (auto simp: up_char_def is_upper_char_def is_lower_char_def is_digit_def is_space_def Let_def)
  have all: "\<forall>c \<in> set agent. is_upper_char c \<or> is_digit c \<or> c = CHR ''-''"
    using assms by (auto simp: list_all_iff is_upper_char_def)
  have "py_strip agent = agent" using all plain by (intro py_strip_plain) blast
  moreover have "py_upper agent = agent" using all plain by (simp add: py_upper_def map_idI)
  ultimately have norm: "normalize_agent_id (PStr agent) = Some agent"
    using assms(1) by (intro normalize_plain) simp_all
  define mid where "mid = replace_char (CHR ''-'') (CHR ''_'') name"
  have digits: "d \<noteq> CHR ''-''" "e \<noteq> CHR ''-''" using assms(2,3) by (auto simp: is_digit_def)
  have "replace_char (CHR ''-'') (CHR ''_'') agent @ ''_SERVICE_API_KEY'' = ''AGENT_'' @ [d, e] @ ''_'' @ mid @ ''_SERVICE_API_KEY''"
    using digits by (simp add: assms(1) mid_def replace_char_def)
  then have env_name: "agent_service_key_env_name agent = Some (''AGENT_'' @ [d, e] @ ''_'' @ mid @ ''_SERVICE_API_KEY'')"
    by (simp add: agent_service_key_env_name_def norm)
  have "list_all name_char mid" "mid \<noteq> []"
    using assms(4,5) by (auto simp: mid_def replace_char_def list_all_iff name_char_def)
  moreover have "replace_char (CHR ''_'') (CHR ''-'') mid = name"
    unfolding mid_def using assms(5) by (intro replace_back) (auto simp: list_all_iff is_upper_char_def is_digit_def)
  ultimately have "env_agent_id (''AGENT_'' @ [d, e] @ ''_'' @ mid @ ''_SERVICE_API_KEY'') = Some agent"
    using assms(1-3) by (simp add: env_agent_id_def starts_with_def Let_def eval_nat_numeral)
  then show ?thesis using env_name by blast
qed

text \<open>The orchestrator serves a request exactly when its key is configured and carries one of the roles
  the endpoint asks for; a missing or unknown key is answered 401, a known key without the role 403.\<close>

theorem role_gate:
  assumes "distinct (map fst keys)"
  shows "require_roles keys roles x_api_key =
    (case x_api_key of
       None \<Rightarrow> Inl (HTTPException 401)
     | Some key \<Rightarrow>
         if key = [] \<or> map_of keys key = None then Inl (HTTPException 401)
         else if roles = [] \<or> (\<exists>r \<in> set (the (map_of keys key)). r \<in> set roles)
              then Inr \<lparr>ac_api_key = key, ac_roles = the (map_of keys key)\<rparr>
         else Inl (HTTPException 403))"
proof -
  have "fold (\<lambda>(stored_key, roles) matched. if stored_key = key then Some roles else matched) keys acc
      = (case map_of keys key of Some r \<Rightarrow> Some r | None \<Rightarrow> acc)" for key acc
    using assms
  proof (induction keys arbitrary: acc)
    case (Cons k ks)
    obtain a r where k: "k = (a, r)" by (cases k)
    have "map_of ks a = None" using Cons.prems by (simp add: k map_of_eq_None_iff)
    then show ?case using Cons by (auto simp: k split: option.split)
  qed simp
  then have "match_api_key key keys = map_of keys key" for key
    by (simp add: match_api_key_def split: option.split)
  then show ?thesis by (auto simp: require_roles_def disjoint_iff split: option.split)
qed

lemma count_list_distinct: "distinct s \<Longrightarrow> c \<in> set s \<Longrightarrow> count_list s c = 1"
  by (induction s) (auto simp: count_list_0_iff)

lemma log_sixteenth: "log 2 (1 / 16 :: real) = - 4"
proof -
  have "log 2 (16::real) = 4" using log_pow_cancel [of 2 4] by simp
  then show ?thesis by (simp add: log_divide)
qed

lemma entropy_distinct:
  assumes "distinct s" and "length s = 16"
  shows "shannon_entropy s = 4"
proof -
  have "map (\<lambda>c. let q = real (count_list s c) / real (length s) in q * log 2 q) s = map (\<lambda>_. - (1 / 4)) s"
  proof (rule map_cong [OF refl])
    fix c
    assume "c \<in> set s"
    then have "count_list s c = 1" by (rule count_list_distinct [OF assms(1)])
    then show "(let q = real (count_list s c) / real (length s) in q * log 2 q) = - (1 / 4)"
      using log_sixteenth by (simp add: assms(2))
  qed
  then have "sum_list (map (\<lambda>c. let q = real (count_list s c) / real (length s) in q * log 2 q) s)
      = sum_list (replicate 16 (- (1 / 4)))"
    using assms(2) by (simp only: map_replicate_const)
  also have "\<dots> = - 4" by (simp only: sum_list_replicate)
  finally show ?thesis using assms unfolding shannon_entropy_def distinct_remdups_id [OF assms(1)] by auto
qed

definition sample_key :: string where "sample_key = ''abcdefghijklmnop''"

definition sample_key_env :: "string dict" where
  "sample_key_env = [(''AGENT_12_PODA_MGR_SERVICE_API_KEY'', sample_key)]"

lemma sample_key_strong: "validate_key_strength sample_key" "py_strip sample_key = sample_key"
    "py_lower sample_key \<notin> set PLACEHOLDER_SERVICE_API_KEYS"
proof -
  have "distinct sample_key" "length sample_key = 16" by (simp_all add: sample_key_def)
  then show "validate_key_strength sample_key"
    using entropy_distinct [of sample_key] by (simp add: validate_key_strength_def MIN_KEY_LENGTH_def MIN_KEY_ENTROPY_def)
  show "py_strip sample_key = sample_key" "py_lower sample_key \<notin> set PLACEHOLDER_SERVICE_API_KEYS" by code_simp+
qed

lemma production_keys_dedicated_witness:
  "\<exists>key. service_api_key_for_agent (\<lambda>_. None) sample_key_env
     \<lparr>kc_fallback = py_strip sample_key, kc_mapping = [], kc_mode = ''Strict'', kc_allowed = None\<rparr> (PStr ''agent-12-poda-mgr'') = Inr key
     \<and> 16 \<le> length key"
proof -
  have norm: "normalize_agent_id (PStr ''agent-12-poda-mgr'') = Some ''AGENT-12-PODA-MGR''"
    and norm2: "normalize_agent_id (PStr ''AGENT-12-PODA-MGR'') = Some ''AGENT-12-PODA-MGR''" by code_simp+
  have strict: "strict_mode ''Strict''" "py_lower (py_strip ''PROD'') \<in> {''prod'', ''production''}" by code_simp+
  have direct: "env_get sample_key_env (replace_char (CHR ''-'') (CHR ''_'') ''AGENT-12-PODA-MGR'' @ ''_SERVICE_API_KEY'') = sample_key"
    by code_simp
  have "sample_key \<noteq> []" by (simp add: sample_key_def)
  then have "service_api_key_for_agent (\<lambda>_. None) sample_key_env cfg (PStr ''AGENT-12-PODA-MGR'') = Inr sample_key" for cfg
    using direct by (simp add: service_api_key_for_agent_def norm2 agent_service_key_env_name_def sample_key_strong(2))
  then have "enforce_production_service_auth_config (\<lambda>_. None) sample_key_env ''PROD'' sample_key ''Strict'' [PStr ''agent-12-poda-mgr''] [] = Inr ()"
    using strict sample_key_strong norm by (simp add: enforce_production_service_auth_config_def PRODUCTION_ENVIRONMENTS_def)
  from production_keys_dedicated [OF this strict(2) _ norm refl] show ?thesis by auto
qed

lemma env_name_roundtrip_witness:
  "\<exists>env_name. agent_service_key_env_name ''AGENT-12-PODA-MGR'' = Some env_name \<and> env_agent_id env_name = Some ''AGENT-12-PODA-MGR''"
  by (rule env_name_roundtrip [of _ "CHR ''1''" "CHR ''2''" "''PODA-MGR''"])
    (simp_all add: is_digit_def is_upper_char_def)

lemma role_gate_witness:
  "require_roles [(''k'', [''worker''])] [''admin''] (Some ''k'') = Inl (HTTPException 403)"
  by (subst role_gate) simp_all

end
