(* ===== verification/Pod_Client.thy ===== *)
theory Pod_Client
  imports Pod_Assignments Source_Bundle Agent_Keys Protocol Effects
begin

text \<open>
  What the handlers of the pod worker share, from \<open>pod_worker/main.py\<close>: whose agent an event is for, the
  retrying HTTP client of the orchestrator's internal API, audit events and heartbeats sent through it,
  the schema nodes and the partition helpers. The world holds the orchestrator's stores behind the API
  and the state stream; an HTTP attempt and a Redis call each advance a clock, and the environment says
  for every tick how it ends and what other pods and the orchestrator wrote before it, so the theorems
  hold for all outages and interleavings. A reply can be lost after the request was served. The worker's own summaries are those of \<open>Audit_Chain\<close>. Metrics are not modelled.
\<close>

section \<open>Configuration, world and environment\<close>

record pod_config =
  pc_pod_name :: string
  pc_languages :: "string list"
  pc_bindings :: "string list"
  pc_worker_agent_id :: string
  pc_max_retries :: nat
  pc_keys :: key_config
  pc_key_env :: "string dict"
  pc_ir_store :: string

record pod_world =
  pw_store :: pod_store
  pw_posts :: "(string \<times> pydict) list"
  pw_clock :: nat
  pw_stream :: "(pydict \<times> pydict) list"
  pw_runs :: "(string \<times> string \<times> string) list"
  pw_dead :: "pydict list"
  pw_acked :: "string list"

type_synonym 'a pprog = "(pod_world, 'a) prog"

datatype attempt_end = Delivered | Reply_Lost | Request_Lost | Rejected nat

text \<open>The agents, the extractors and the Refined IR are arguments: an agent returns its category, the
  artifacts of its result and the dictionaries of result, validation and report; an extractor returns a
  summary and the attributes of the concepts and of the functions it found.\<close>

record pipeline =
  pl_category :: string
  pl_artifacts :: pyval
  pl_result :: pydict
  pl_validation :: pydict
  pl_report :: pydict

record extraction =
  ex_summary :: pydict
  ex_concepts :: "pydict list"
  ex_functions :: "pydict list"

record pod_worker_env =
  we_attempt :: "nat \<Rightarrow> attempt_end"
  we_redis :: "nat \<Rightarrow> call_outcome"
  we_server :: "nat \<Rightarrow> pod_env"
  we_others :: "nat \<Rightarrow> pod_db \<Rightarrow> pod_db"
  we_mission_json :: "MissionRecord \<Rightarrow> pyval"
  we_knowledge :: "string \<Rightarrow> int \<times> pyval"
  we_other :: "string \<Rightarrow> pydict \<Rightarrow> int"
  we_files :: "string \<Rightarrow> pyval option"
  we_pipeline :: "string \<Rightarrow> string \<Rightarrow> pydict \<Rightarrow> pipeline res"
  we_extract :: "string \<Rightarrow> pyval \<Rightarrow> string list \<Rightarrow> string option \<Rightarrow> extraction res"
  we_refined_ir :: "string \<Rightarrow> string \<Rightarrow> string \<Rightarrow> string \<Rightarrow> pydict list \<Rightarrow> string \<Rightarrow> pydict res"
  we_write_ir :: "pydict \<Rightarrow> pydict res"
  we_sha256 :: "string \<Rightarrow> string"
  we_confidence :: "pyval \<Rightarrow> pyval"
  we_schema_ok :: "pydict \<Rightarrow> bool"
  we_date_ok :: "string \<Rightarrow> bool"
  we_topics :: "string list"
  we_loads :: "string \<Rightarrow> pyval option"
  we_error_text :: "exc \<Rightarrow> string"
  we_stamp :: string
  we_uuid :: string

section \<open>Agents of an event\<close>

definition first_agent_id :: "pydict \<Rightarrow> string list \<Rightarrow> string option" where
  "first_agent_id d keys =
     (case List.map_filter (\<lambda>key. normalize_agent_id (dget d key)) keys of [] \<Rightarrow> None | a # _ \<Rightarrow> Some a)"

definition agent_keys :: "string list" where
  "agent_keys = [''agent_id'', ''target_agent_id'', ''selected_agent_id'', ''assigned_agent_id'']"

definition worker_agent_id_from_metadata :: "pyval \<Rightarrow> string option" where
  "worker_agent_id_from_metadata metadata =
     (case metadata of
        PDict md \<Rightarrow>
          (case first_agent_id md agent_keys of
             Some a \<Rightarrow> Some a
           | None \<Rightarrow> (case dget md ''agent'' of PDict nested \<Rightarrow> first_agent_id nested [''agent_id'', ''id''] | _ \<Rightarrow> None))
      | _ \<Rightarrow> None)"

definition agent_id_from_payload :: "pydict \<Rightarrow> string option" where
  "agent_id_from_payload payload =
     (case first_agent_id payload agent_keys of
        Some a \<Rightarrow> Some a
      | None \<Rightarrow> worker_agent_id_from_metadata (dget payload ''metadata''))"

text \<open>\<open>re.split(r"[\s,]+", raw.strip())\<close>\<close>

definition parse_agent_binding :: "string \<Rightarrow> string list" where
  "parse_agent_binding raw =
     sort (remdups (filter (\<lambda>c. c \<noteq> []) (map (py_upper \<circ> py_strip)
       (split_ws [] (replace_char (CHR '','') (CHR '' '') raw)))))"

definition effective_worker_agent_id :: "pod_config \<Rightarrow> string option \<Rightarrow> string option" where
  "effective_worker_agent_id cfg agent =
     (case normalize_agent_id (opt_str agent) of
        Some a \<Rightarrow> Some a
      | None \<Rightarrow>
          if pc_worker_agent_id cfg \<noteq> [] then Some (pc_worker_agent_id cfg)
          else case pc_bindings cfg of [b] \<Rightarrow> Some b | _ \<Rightarrow> None)"

definition DEFAULT_POD_MANAGER_AGENT_IDS :: "(string \<times> string) list" where
  "DEFAULT_POD_MANAGER_AGENT_IDS =
     [(''poda'', ''AGENT-12-PODA-MGR''), (''podb'', ''AGENT-18-PODB-MGR''),
      (''podc'', ''AGENT-24-PODC-MGR''), (''podd'', ''AGENT-30-PODD-MGR'')]"

definition pod_manager_of :: "pod_config \<Rightarrow> string option" where
  "pod_manager_of cfg = map_of DEFAULT_POD_MANAGER_AGENT_IDS (py_lower (py_strip (pc_pod_name cfg)))"

text \<open>\<open>make_specialist_for_language\<close> of \<open>orchestrator/agent_base.py\<close>, up to the agent it makes.\<close>

definition specialist_for_language :: "string \<Rightarrow> agent option" where
  "specialist_for_language language =
     (let known = registry_normalize_language (Some language);
          normalized = (if known = [] then py_lower (py_strip language) else known)
      in List.find (\<lambda>a. agent_category a = ''specialist''
            \<and> (normalized \<in> set (specialties a) \<or> language \<in> set (specialties a))) AGENT_REGISTRY)"

definition default_agent_id_for_event :: "pod_config \<Rightarrow> string \<Rightarrow> string \<Rightarrow> string option" where
  "default_agent_id_for_event cfg event_type target_language =
     (case effective_worker_agent_id cfg None of
        Some a \<Rightarrow> Some a
      | None \<Rightarrow>
          if py_upper (py_strip event_type) = ''MISSION_POD_MANAGER_ASSIGNED'' then pod_manager_of cfg
          else case specialist_for_language (registry_normalize_language (Some target_language)) of
            Some a \<Rightarrow> Some (agent_id a)
          | None \<Rightarrow> pod_manager_of cfg)"

definition mission_targets_supported_language :: "pod_config \<Rightarrow> string \<Rightarrow> bool" where
  "mission_targets_supported_language cfg target_language \<longleftrightarrow>
     (if target_language \<noteq> [] \<and> target_language \<notin> set (pc_languages cfg) then False
      else if target_language = [] \<and> pc_pod_name cfg \<noteq> ''podA'' then False else True)"

section \<open>Requests\<close>

text \<open>The calls of the internal API the worker makes, with the path of each.\<close>

datatype api_call =
    GetAssignment string
  | PostAssignment string string pydict
  | GetMission string
  | GetKnowledge string
  | PostTo string pydict

fun call_method :: "api_call \<Rightarrow> string" where
  "call_method (PostAssignment _ _ _) = ''POST''"
| "call_method (PostTo _ _) = ''POST''"
| "call_method _ = ''GET''"

fun call_path :: "api_call \<Rightarrow> string" where
  "call_path (GetAssignment mid) = ''/internal/missions/'' @ mid @ ''/pod-assignment''"
| "call_path (PostAssignment _ _ _) = ''/internal/pod-assignment''"
| "call_path (GetMission mid) = ''/missions/'' @ mid"
| "call_path (GetKnowledge mid) = ''/internal/missions/'' @ mid @ ''/knowledge''"
| "call_path (PostTo path _) = path"

fun call_body :: "api_call \<Rightarrow> pydict option" where
  "call_body (PostAssignment mid pod md) = Some [(''mission_id'', PStr mid), (''pod_name'', PStr pod), (''metadata'', PDict md)]"
| "call_body (PostTo _ body) = Some body"
| "call_body _ = None"

text \<open>The orchestrator's answer: the status and the JSON of the body. The endpoints other than the
  assignments and the missions record what they accept.\<close>

fun status_of :: "pydict res \<Rightarrow> int \<times> pyval" where
  "status_of (Inr doc) = (200, PDict doc)"
| "status_of (Inl (HTTPException n)) = (int n, PDict [])"
| "status_of (Inl _) = (500, PDict [])"

fun serve :: "pod_worker_env \<Rightarrow> api_call \<Rightarrow> pod_world \<Rightarrow> (int \<times> pyval) \<times> pod_world" where
  "serve env (GetAssignment mid) w =
     (status_of (get_pod_assignment_route (au_iso (pe_audit (we_server env (pw_clock w)))) (ps_pods (pw_store w)) mid), w)"
| "serve env (PostAssignment mid pod md) w =
     (let (r, store) = post_pod_assignment (we_server env (pw_clock w)) mid pod md None (pw_store w)
      in (status_of r, w\<lparr>pw_store := store\<rparr>))"
| "serve env (GetMission mid) w =
     (case fetch_mission (pd_missions (ps_pods (pw_store w))) mid of
        Inl e \<Rightarrow> ((500, PDict []), w)
      | Inr None \<Rightarrow> ((404, PDict []), w)
      | Inr (Some m) \<Rightarrow> ((200, we_mission_json env m), w))"
| "serve env (GetKnowledge mid) w = (we_knowledge env mid, w)"
| "serve env (PostTo path body) w =
     ((we_other env path body, PDict []),
      if we_other env path body < 400 then w\<lparr>pw_posts := pw_posts w @ [(path, body)]\<rparr> else w)"

text \<open>An attempt: what other transactions wrote since the last tick comes first. Whatever answers in place
  of the orchestrator answers with an error status.\<close>

definition others :: "pod_worker_env \<Rightarrow> nat \<Rightarrow> pod_world \<Rightarrow> pod_world" where
  "others env t w = w\<lparr>pw_store := (pw_store w)\<lparr>ps_pods := we_others env t (ps_pods (pw_store w))\<rparr>\<rparr>"

definition send_attempt :: "pod_worker_env \<Rightarrow> api_call \<Rightarrow> pod_world \<Rightarrow> (int \<times> pyval) option \<times> pod_world" where
  "send_attempt env call w =
     (let w' = (others env (pw_clock w) w)\<lparr>pw_clock := Suc (pw_clock w)\<rparr>
      in case we_attempt env (pw_clock w) of
           Delivered \<Rightarrow> (let (r, w') = serve env call w' in (Some r, w'))
         | Reply_Lost \<Rightarrow> (None, snd (serve env call w'))
         | Request_Lost \<Rightarrow> (None, w')
         | Rejected n \<Rightarrow> (Some (400 + int n, PNone), w'))"

definition conclusive :: "int \<Rightarrow> bool" where
  "conclusive status \<longleftrightarrow> status < 500 \<and> status \<noteq> 429"

text \<open>The retry loop: the last response and whether an attempt raised.\<close>

fun request_attempts ::
  "pod_worker_env \<Rightarrow> api_call \<Rightarrow> nat \<Rightarrow> (int \<times> pyval) option \<times> bool \<Rightarrow> pod_world
     \<Rightarrow> ((int \<times> pyval) option \<times> bool) \<times> pod_world" where
  "request_attempts env call 0 seen w = (seen, w)"
| "request_attempts env call (Suc n) (last_response, failed) w =
     (case send_attempt env call w of
        (Some r, w') \<Rightarrow>
          if conclusive (fst r) then ((Some r, failed), w')
          else request_attempts env call n (Some r, failed) w'
      | (None, w') \<Rightarrow> request_attempts env call n (last_response, True) w')"

definition request_raw :: "pod_worker_env \<Rightarrow> pod_config \<Rightarrow> api_call \<Rightarrow> string option \<Rightarrow> (int \<times> pyval) pprog" where
  "request_raw env cfg call agent = (\<lambda>w.
     case service_api_key_for_agent (we_files env) (pc_key_env cfg) (pc_keys cfg) (opt_str agent) of
       Inl e \<Rightarrow> (Inl e, w)
     | Inr _ \<Rightarrow>
         (case request_attempts env call (pc_max_retries cfg) (None, False) w of
            ((Some r, _), w') \<Rightarrow> (Inr r, w')
          | ((None, failed), w') \<Rightarrow> (Inl (if failed then ServiceError else RuntimeError), w')))"

text \<open>\<open>re.search(r"/missions/([^/]+)", path)\<close>\<close>

fun mission_in_path :: "string \<Rightarrow> string option" where
  "mission_in_path [] = None"
| "mission_in_path (c # s) =
     (let m = takeWhile (\<lambda>c. c \<noteq> CHR ''/'') (drop 10 (c # s))
      in if starts_with ''/missions/'' (c # s) \<and> m \<noteq> [] then Some m else mission_in_path s)"

definition mission_id_for_request :: "string \<Rightarrow> pydict option \<Rightarrow> string option" where
  "mission_id_for_request path body =
     (let named = (case body of None \<Rightarrow> [] | Some d \<Rightarrow> py_strip (py_str (dget_or d ''mission_id'' (PStr []))))
      in if named \<noteq> [] then Some named else map_option py_strip (mission_in_path path))"

record worker_audit =
  wa_mission :: "string option"
  wa_agent :: "string option"
  wa_event_type :: string
  wa_status :: string
  wa_object_type :: string
  wa_object_id :: string
  wa_tool :: "string option"
  wa_summary :: pydict

definition audit_body :: "pod_worker_env \<Rightarrow> pod_config \<Rightarrow> string \<Rightarrow> string \<Rightarrow> worker_audit \<Rightarrow> pydict" where
  "audit_body env cfg mid agent a =
     [(''mission_id'', PStr mid), (''agent_id'', PStr agent), (''service_name'', PStr (''pod-worker-'' @ pc_pod_name cfg)),
      (''event_type'', PStr (wa_event_type a)), (''status'', PStr (wa_status a)),
      (''object_type'', PStr (wa_object_type a)), (''object_id'', PStr (wa_object_id a)), (''tool_name'', opt_str (wa_tool a)),
      (''started_at'', PStr (we_stamp env)), (''ended_at'', PStr (we_stamp env)),
      (''payload_summary'', PDict (summarize_mapping (PDict (wa_summary a))))]"

definition emit_audit_event :: "pod_worker_env \<Rightarrow> pod_config \<Rightarrow> worker_audit \<Rightarrow> unit pprog" where
  "emit_audit_event env cfg a =
     (case wa_mission a of
        None \<Rightarrow> ret ()
      | Some mid \<Rightarrow>
          if mid = [] then ret ()
          else let agent = (case effective_worker_agent_id cfg (wa_agent a) of Some e \<Rightarrow> e | None \<Rightarrow>
                              case truthy_text (wa_agent a) of Some e \<Rightarrow> e | None \<Rightarrow> ''POD-WORKER'')
               in attempt (bnd (request_raw env cfg (PostTo ''/internal/audit-events'' (audit_body env cfg mid agent a)) (Some agent))
                    (\<lambda>_. ret ())) ())"

definition audit_call :: "pod_worker_env \<Rightarrow> pod_config \<Rightarrow> api_call \<Rightarrow> string option \<Rightarrow> int \<Rightarrow> unit pprog" where
  "audit_call env cfg call agent status =
     (if call_path call \<noteq> ''/internal/audit-events'' \<and> status \<notin> {401, 403}
      then emit_audit_event env cfg
        \<lparr>wa_mission = mission_id_for_request (call_path call) (call_body call), wa_agent = agent,
         wa_event_type = ''TOOL_HTTP_REQUEST'', wa_status = (if status < 400 then ''SUCCESS'' else ''ERROR''),
         wa_object_type = ''http_request'', wa_object_id = call_path call, wa_tool = Some ''orchestrator_api'',
         wa_summary = [(''method'', PStr (call_method call)), (''path'', PStr (call_path call)),
                       (''status_code'', PInt status)]\<rparr>
      else ret ())"

definition request :: "pod_worker_env \<Rightarrow> pod_config \<Rightarrow> api_call \<Rightarrow> string option \<Rightarrow> (int \<times> pyval) pprog" where
  "request env cfg call agent =
     bnd (request_raw env cfg call agent) (\<lambda>response.
       bnd (audit_call env cfg call agent (fst response)) (\<lambda>_. ret response))"

definition post_agent_heartbeat ::
  "pod_worker_env \<Rightarrow> pod_config \<Rightarrow> string option \<Rightarrow> string option \<Rightarrow> string \<Rightarrow> int \<Rightarrow> int \<Rightarrow> pydict \<Rightarrow> bool pprog" where
  "post_agent_heartbeat env cfg agent mid st queue_depth workload_pct md =
     (case effective_worker_agent_id cfg agent of
        None \<Rightarrow> ret False
      | Some effective \<Rightarrow>
          bnd (request env cfg (PostTo ''/internal/agents/heartbeat''
                 [(''agent_id'', PStr effective), (''state'', PStr st), (''queue_depth'', PInt (max 0 queue_depth)),
                  (''workload_pct'', PInt (max 0 (min 100 workload_pct))),
                  (''active_mission_ids'', PList (case truthy_text mid of Some m \<Rightarrow> [PStr m] | None \<Rightarrow> [])),
                  (''metadata'', PDict (fold (\<lambda>(k, v). dset k v) md
                     [(''producer'', PStr (''pod-worker-'' @ pc_pod_name cfg)), (''pod_name'', PStr (pc_pod_name cfg))]))])
                 (Some effective))
            (\<lambda>response. ret (fst response < 400)))"

definition has_assignment :: "pod_worker_env \<Rightarrow> pod_config \<Rightarrow> string \<Rightarrow> bool pprog" where
  "has_assignment env cfg mid =
     bnd (request env cfg (GetAssignment mid) None) (\<lambda>(status, assignment).
       if status \<ge> 400 then ret False
       else if is_provisional_assignment assignment then ret False
       else case assignment of
              PDict d \<Rightarrow> ret (truthy (dget d ''pod_name''))
            | _ \<Rightarrow> lift_res (Inl AttributeError))"

definition fetch_mission_snapshot :: "pod_worker_env \<Rightarrow> pod_config \<Rightarrow> string \<Rightarrow> pydict option pprog" where
  "fetch_mission_snapshot env cfg mid =
     bnd (request env cfg (GetMission mid) None) (\<lambda>(status, mission).
       if status \<ge> 400 then ret None else case mission of PDict d \<Rightarrow> ret (Some d) | _ \<Rightarrow> ret None)"

definition fetch_mission_agent_id :: "pod_worker_env \<Rightarrow> pod_config \<Rightarrow> string \<Rightarrow> string option pprog" where
  "fetch_mission_agent_id env cfg mid =
     bnd (fetch_mission_snapshot env cfg mid) (\<lambda>mission. ret
       (case mission of
          None \<Rightarrow> None
        | Some d \<Rightarrow> (case first_agent_id d agent_keys of
                       Some a \<Rightarrow> Some a | None \<Rightarrow> worker_agent_id_from_metadata (dget d ''metadata''))))"

definition mission_matches_agent_binding :: "pod_worker_env \<Rightarrow> pod_config \<Rightarrow> string \<Rightarrow> pydict \<Rightarrow> bool pprog" where
  "mission_matches_agent_binding env cfg mid payload =
     (if pc_bindings cfg = [] then ret True
      else bnd (case agent_id_from_payload payload of Some a \<Rightarrow> ret (Some a) | None \<Rightarrow> fetch_mission_agent_id env cfg mid)
        (\<lambda>agent. ret (case agent of None \<Rightarrow> False | Some a \<Rightarrow> a \<in> set (pc_bindings cfg))))"

section \<open>Logic nodes\<close>

definition non_blank :: "pyval list \<Rightarrow> pyval list" where
  "non_blank xs = map PStr (filter (\<lambda>s. py_strip s \<noteq> []) (map py_str xs))"

record node_spec =
  ns_node_id :: string
  ns_concept_id :: string
  ns_concept :: string
  ns_domain :: string
  ns_intent :: string
  ns_source_language :: string
  ns_target_language :: string
  ns_source_file :: string
  ns_snippet :: string
  ns_agent_id :: string
  ns_extra :: pydict
  ns_types_in :: "pyval list"
  ns_types_out :: "pyval list"
  ns_purity :: "string option"

definition or_text :: "string \<Rightarrow> string \<Rightarrow> string" where
  "or_text a b = (if a \<noteq> [] then a else b)"

definition merge_dict :: "pydict \<Rightarrow> pydict \<Rightarrow> pydict" where
  "merge_dict d extra = fold (\<lambda>(k, v). dset k v) extra d"

definition set_if :: "bool \<Rightarrow> string \<Rightarrow> pyval \<Rightarrow> pydict \<Rightarrow> pydict" where
  "set_if b k v d = (if b then dset k v d else d)"

definition is_number :: "pyval \<Rightarrow> bool" where
  "is_number v = (case v of PInt _ \<Rightarrow> True | PFloat _ _ \<Rightarrow> True | _ \<Rightarrow> False)"

text \<open>\<open>we_confidence\<close> is \<open>max(0.0, min(1.0, float(confidence)))\<close>.\<close>

definition build_schema_node :: "pod_worker_env \<Rightarrow> pod_config \<Rightarrow> node_spec \<Rightarrow> pydict" where
  "build_schema_node env cfg s =
     (let payload = merge_dict
            [(''origin'', PStr ''pod-worker''), (''pod_name'', PStr (pc_pod_name cfg)), (''concept_id'', PStr (ns_concept_id s)),
             (''concept'', PStr (ns_concept s)), (''domain'', PStr (ns_domain s)),
             (''node_name'', PStr (ns_domain s @ ''.'' @ ns_concept s)), (''source_language'', PStr (ns_source_language s)),
             (''target_language'', PStr (or_text (ns_target_language s) ''generic''))] (ns_extra s);
          node =
            [(''node_id'', PStr (ns_node_id s)), (''cmd'', PStr (ns_concept_id s)), (''payload'', PDict payload),
             (''priority'', PStr ''NORMAL''), (''intent'', PStr (ns_intent s)),
             (''types'', PDict [(''in'', PList (non_blank (ns_types_in s))), (''out'', PList (non_blank (ns_types_out s)))]),
             (''provenance'', PDict
               [(''source_ref'', PStr (or_text (ns_source_file s) (ns_source_language s))),
                (''snippet_hash'', PStr (we_sha256 env (ns_snippet s))),
                (''miner_agent'', PStr (or_text (ns_agent_id s) (pc_pod_name cfg))), (''timestamp'', PStr (we_stamp env))])];
          confidence = dget payload ''confidence''; extraction_method = dget payload ''extraction_method''
      in set_if (ns_purity s \<in> {Some ''PURE'', Some ''IMPURE'', Some ''UNKNOWN''}) ''purity'' (opt_str (ns_purity s))
          (set_if (extraction_method \<in> {PStr ''regex'', PStr ''ast''}) ''extraction_method'' extraction_method
          (set_if (is_number confidence) ''confidence'' (we_confidence env confidence)
          (set_if (ns_source_language s \<noteq> []) ''source_language'' (PStr (ns_source_language s))
          (set_if (ns_concept s \<noteq> []) ''concept'' (PStr (ns_concept s))
          (set_if (ns_domain s \<noteq> []) ''domain'' (PStr (ns_domain s)) node))))))"

definition coerce_schema_node ::
  "pod_worker_env \<Rightarrow> pod_config \<Rightarrow> pydict \<Rightarrow> string \<Rightarrow> string \<Rightarrow> string \<Rightarrow> string \<Rightarrow> pydict" where
  "coerce_schema_node env cfg logicnode node_id extraction_language target_language agent =
     (let existing = dget logicnode ''node''; d = dict_or_empty existing
      in if is_dict existing \<and> dhas d ''provenance'' \<and> dhas d ''cmd'' then d
         else let concept = py_str (py_or (dget logicnode ''concept'') (PStr ''extracted_intent''));
                  domain = py_str (py_or (dget logicnode ''domain'') (PStr ''generic''));
                  extra = (if is_dict existing
                           then fold (\<lambda>key. set_if (dhas d key) key (dget d key)) [''node_name'', ''source_language'', ''target_language'']
                                  (dict_or_empty (dget d ''payload''))
                           else [])
              in build_schema_node env cfg
                   \<lparr>ns_node_id = node_id, ns_concept_id = concept, ns_concept = concept, ns_domain = domain,
                    ns_intent = str_or_empty (dget logicnode ''intent''), ns_source_language = extraction_language,
                    ns_target_language = target_language, ns_source_file = str_or_empty (dget logicnode ''source_file''),
                    ns_snippet = str_or_empty (dget extra ''evidence''), ns_agent_id = agent, ns_extra = extra,
                    ns_types_in = [], ns_types_out = [], ns_purity = None\<rparr>)"

definition routing_stub_logicnode :: "pod_worker_env \<Rightarrow> pod_config \<Rightarrow> string \<Rightarrow> string \<Rightarrow> string \<Rightarrow> string \<Rightarrow> pydict" where
  "routing_stub_logicnode env cfg mid extraction_language target_language agent =
     (let node_id = pc_pod_name cfg @ ''.core.'' @ mid
      in [(''node_id'', PStr node_id), (''concept'', PStr ''routing_stub''), (''domain'', PStr ''core''),
          (''language'', PStr extraction_language), (''agent_id'', PStr agent),
          (''node'', PDict (build_schema_node env cfg
             \<lparr>ns_node_id = node_id, ns_concept_id = ''core'', ns_concept = ''routing_stub'', ns_domain = ''core'',
              ns_intent = [], ns_source_language = extraction_language, ns_target_language = target_language,
              ns_source_file = ''mission://'' @ mid, ns_snippet = [], ns_agent_id = agent,
              ns_extra = [(''node_name'', PStr (pc_pod_name cfg @ ''-logicnode-core''))],
              ns_types_in = [], ns_types_out = [], ns_purity = None\<rparr>))])"

section \<open>Context and partitions\<close>

definition cluster_pod :: "pydict \<Rightarrow> string" where
  "cluster_pod cluster = py_lower (py_strip (str_or_empty (py_or (dget cluster ''assigned_pod'')
     (py_or (dget cluster ''pod_name'') (dget cluster ''pod'')))))"

fun focus_domains :: "pod_config \<Rightarrow> string list \<Rightarrow> pyval list \<Rightarrow> string list" where
  "focus_domains cfg found [] = found"
| "focus_domains cfg found (PDict cluster # clusters) =
     (let pod = py_lower (py_strip (pc_pod_name cfg));
          manager = py_upper (py_strip (str_or_empty (dget cluster ''pod_manager_agent_id'')));
          domain = py_strip (str_or_empty (dget cluster ''domain''))
      in if cluster_pod cluster \<noteq> [] \<and> cluster_pod cluster \<noteq> pod then focus_domains cfg found clusters
         else if cluster_pod cluster = [] \<and> pod_manager_of cfg \<noteq> None \<and> Some manager \<noteq> pod_manager_of cfg
         then focus_domains cfg found clusters
         else focus_domains cfg (if domain \<noteq> [] \<and> domain \<notin> set found then found @ [domain] else found) clusters)"
| "focus_domains cfg found (_ # clusters) = focus_domains cfg found clusters"

definition focus_domains_for_pod :: "pod_config \<Rightarrow> pyval \<Rightarrow> string list" where
  "focus_domains_for_pod cfg mission_metadata =
     focus_domains cfg [] (list_or_empty (dget (dict_or_empty (dget (dict_or_empty mission_metadata) ''logic_clusters'')) ''clusters''))"

definition MAX_REPO_CHUNK_CONTEXT_RECORDS :: nat where "MAX_REPO_CHUNK_CONTEXT_RECORDS = 10"

fun context_parts :: "string \<Rightarrow> nat \<Rightarrow> pyval list \<Rightarrow> string list" where
  "context_parts language chunks [] = []"
| "context_parts language chunks (PDict record # records) =
     (let content = dict_or_empty (dget record ''content''); kind = dget content ''kind'';
          combined_text = py_strip (str_or_empty (dget content ''combined_text''));
          record_language = py_lower (py_strip (str_or_empty (dget content ''language'')))
      in if combined_text = [] then context_parts language chunks records
         else if kind = PStr ''bootstrap_documentation''
         then (if language \<noteq> [] \<and> record_language \<noteq> [] \<and> record_language \<noteq> language
               then context_parts language chunks records
               else combined_text # context_parts language chunks records)
         else if kind = PStr ''repo_summary'' then combined_text # context_parts language chunks records
         else if kind = PStr ''repo_source_chunk'' \<and> chunks < MAX_REPO_CHUNK_CONTEXT_RECORDS
         then combined_text # context_parts language (Suc chunks) records
         else context_parts language chunks records)"
| "context_parts language chunks (_ # records) = context_parts language chunks records"

definition fetch_doc_context :: "pod_worker_env \<Rightarrow> pod_config \<Rightarrow> string \<Rightarrow> string \<Rightarrow> string option pprog" where
  "fetch_doc_context env cfg mid language =
     bnd (attempt (bnd (request env cfg (GetKnowledge mid) None) (\<lambda>r. ret (Some r))) None) (\<lambda>response. ret
       (case response of
          Some (status, PList records) \<Rightarrow>
            if status \<ge> 400 then None
            else truthy_text (Some (join_str [newline, newline] (context_parts (py_lower (py_strip language)) 0 records)))
        | _ \<Rightarrow> None))"

definition partition_payload :: "pydict \<Rightarrow> pydict" where
  "partition_payload payload = dict_or_empty (dget payload ''partition'')"

definition partition_id :: "pydict \<Rightarrow> string" where
  "partition_id payload = py_strip (py_str (dget_or (partition_payload payload) ''partition_id'' (PStr [])))"

definition partition_assigned_items :: "pydict \<Rightarrow> string list" where
  "partition_assigned_items payload =
     filter (\<lambda>s. s \<noteq> []) (map (py_strip \<circ> py_str) (list_or_empty (dget (partition_payload payload) ''assigned_items'')))"

definition ends_with :: "string \<Rightarrow> string \<Rightarrow> bool" where
  "ends_with ending s \<longleftrightarrow> starts_with (rev ending) (rev s)"

definition suffixed_node :: "pod_config \<Rightarrow> string \<Rightarrow> pydict \<Rightarrow> pydict" where
  "suffixed_node cfg pid logicnode =
     (let base = or_text (py_strip (py_str (dget_or logicnode ''node_id'' (PStr [])))) (pc_pod_name cfg @ ''.partition.'' @ pid);
          updated = set_if (\<not> ends_with (''.'' @ pid) base) ''node_id'' (PStr (base @ ''.'' @ pid)) logicnode
      in case dget updated ''node'' of
           PDict node_payload \<Rightarrow>
             dset ''node'' (PDict (dset ''payload'' (PDict (dset ''partition_id'' (PStr pid) (dict_or_empty (dget node_payload ''payload''))))
               node_payload)) updated
         | _ \<Rightarrow> updated)"

definition apply_partition_suffix :: "pod_config \<Rightarrow> pydict list \<Rightarrow> string \<Rightarrow> pydict list" where
  "apply_partition_suffix cfg logicnodes pid = (if pid = [] then logicnodes else map (suffixed_node cfg pid) logicnodes)"

section \<open>The stream\<close>

definition on_redis :: "pod_worker_env \<Rightarrow> 'a pprog \<Rightarrow> 'a pprog" where
  "on_redis env m = (\<lambda>w. service (we_redis env (pw_clock w)) m (w\<lparr>pw_clock := Suc (pw_clock w)\<rparr>))"

definition build_worker_envelope :: "pod_worker_env \<Rightarrow> pod_config \<Rightarrow> string \<Rightarrow> string \<Rightarrow> pydict res" where
  "build_worker_envelope env cfg topic mid =
     (let envelope =
        [(''event_id'', PStr (''evt-'' @ we_uuid env)), (''topic'', PStr topic), (''timestamp'', PStr (we_stamp env)),
         (''producer'', PStr (''pod-worker-'' @ pc_pod_name cfg)), (''correlation_id'', PStr mid),
         (''payload_ref'', PStr (''registry://missions/'' @ mid @ ''/pod/'' @ pc_pod_name cfg @ ''/'' @ topic)),
         (''schema'', PStr ''pod.assignment.v1''), (''priority'', PStr ''NORMAL'')]
      in rbind (validate_envelope (we_schema_ok env) (we_date_ok env) (we_topics env) envelope) (\<lambda>_. Inr envelope))"

definition publish_event :: "pod_worker_env \<Rightarrow> pod_config \<Rightarrow> string \<Rightarrow> string \<Rightarrow> pydict \<Rightarrow> unit pprog" where
  "publish_event env cfg topic mid payload =
     bnd (lift_res (build_worker_envelope env cfg topic mid)) (\<lambda>envelope.
       on_redis env (\<lambda>w. (Inr (), w\<lparr>pw_stream := pw_stream w @ [(envelope, payload)]\<rparr>)))"

section \<open>A sample world\<close>

text \<open>A server that answers every request, and a pod that speaks \<open>python\<close>.\<close>

definition plain_audit_env :: audit_env where
  "plain_audit_env = \<lparr>au_sha256 = (\<lambda>t. CHR ''h'' # t), au_dumps_sorted = py_str, au_iso = int_str,
     au_millis = (\<lambda>d. d div 1000), au_uuid = ''u'', au_trace_id = None, au_span_id = None, au_now = 5\<rparr>"

definition sample_worker_env :: pod_worker_env where
  "sample_worker_env = \<lparr>we_attempt = (\<lambda>_. Delivered), we_redis = (\<lambda>_. Done),
     we_server = (\<lambda>t. \<lparr>pe_audit = plain_audit_env, pe_now = int t, pe_between = (\<lambda>db. db)\<rparr>), we_others = (\<lambda>_ db. db),
     we_mission_json = (\<lambda>m. PDict [(''mission_id'', PStr (m_mission_id m))]), we_knowledge = (\<lambda>_. (200, PList [])),
     we_other = (\<lambda>_ _. 200), we_files = (\<lambda>_. None),
     we_pipeline = (\<lambda>_ _ _. Inr \<lparr>pl_category = ''pod_manager'', pl_artifacts = PList [], pl_result = [], pl_validation = [], pl_report = []\<rparr>),
     we_extract = (\<lambda>_ _ _ _. Inr \<lparr>ex_summary = [], ex_concepts = [], ex_functions = []\<rparr>),
     we_refined_ir = (\<lambda>_ _ _ _ _ _. Inr []), we_write_ir = Inr, we_sha256 = (\<lambda>t. CHR ''h'' # t),
     we_confidence = (\<lambda>_. PFloat 1 ''1.0''), we_schema_ok = (\<lambda>_. True), we_date_ok = (\<lambda>_. True),
     we_topics = [''missions.state'', ''cluster.assigned.podA'', ''cluster.assigned.podB'', ''pod.standard.ready''],
     we_loads = (\<lambda>t. Some (PDict (if t = ''e'' then [(''topic'', PStr ''missions.state'')]
        else [(''mission_id'', PStr ''m1''), (''event_type'', PStr ''MISSION_POD_MANAGER_ASSIGNED''),
              (''requested_target_language'', PStr ''python''), (''agent_id'', PStr ''AGENT-12-PODA-MGR'')]))),
     we_error_text = (\<lambda>_. ''error''), we_stamp = ''now'', we_uuid = ''u''\<rparr>"

definition sample_pod :: "string \<Rightarrow> pod_config" where
  "sample_pod pod = \<lparr>pc_pod_name = pod, pc_languages = [''python''], pc_bindings = [], pc_worker_agent_id = [],
     pc_max_retries = 3, pc_keys = \<lparr>kc_fallback = ''k'', kc_mapping = [], kc_mode = ''shared'', kc_allowed = None\<rparr>,
     pc_key_env = [], pc_ir_store = []\<rparr>"

end
