(* ===== verification/Logic_Nodes.thy ===== *)
theory Logic_Nodes
  imports Pod_Client
begin

text \<open>
  The logic nodes of a mission, from the extraction to the row: \<open>_logicnodes_from_extraction\<close> and its
  helpers in \<open>pod_worker/main.py\<close>, the schema \<open>schemas/logicnode.schema.json\<close> that
  \<open>orchestrator/logicnode_schema.py\<close> enforces, the route \<open>POST /internal/logicnodes\<close> of
  \<open>routes/internal.py\<close> and the table of \<open>storage_logicnodes.py\<close>. A concept and a function are the
  dictionaries of their attributes. The texts of the validation errors are an argument; which documents
  are valid is transcribed from the schema. The graph mirror is not modelled: its failures are caught.
\<close>

section \<open>Nodes of an extraction\<close>

text \<open>The function whose definition line is the greatest one at or before the line of the concept.\<close>

fun closest_function :: "int \<Rightarrow> int \<Rightarrow> pydict option \<Rightarrow> pydict list \<Rightarrow> pydict option" where
  "closest_function line best_line best [] = best"
| "closest_function line best_line best (f # fs) =
     (case py_int (dget f ''line'') of
        Inl _ \<Rightarrow> closest_function line best_line best fs
      | Inr n \<Rightarrow> if best_line < n \<and> n \<le> line then closest_function line n (Some f) fs
                 else closest_function line best_line best fs)"

definition enclosing_function_for_line :: "pydict list \<Rightarrow> pyval \<Rightarrow> pydict option" where
  "enclosing_function_for_line functions source_line =
     (case py_int source_line of Inl _ \<Rightarrow> None | Inr line \<Rightarrow> closest_function line (-1) None functions)"

definition op_pair :: "pyval \<Rightarrow> pyval res" where
  "op_pair v = rbind (py_tuple v) (\<lambda>xs.
     case xs of [opcode, detail] \<Rightarrow> Inr (PList [PStr (py_str opcode), PStr (py_str detail)]) | _ \<Rightarrow> Inl ValueError)"

text \<open>What the enclosing function contributes: the types, the verdict and the entries of the payload.\<close>

record signature =
  sg_in :: "pyval list"
  sg_out :: "pyval list"
  sg_purity :: "string option"
  sg_payload :: pydict

definition signature_of :: "pydict option \<Rightarrow> signature res" where
  "signature_of enclosing =
     (case enclosing of
        None \<Rightarrow> Inr \<lparr>sg_in = [], sg_out = [], sg_purity = None, sg_payload = []\<rparr>
      | Some f \<Rightarrow>
          rbind (py_tuple (py_or (dget f ''arg_types'') (PList []))) (\<lambda>arg_types.
          rbind (py_tuple (py_or (dget f ''side_effects'') (PList []))) (\<lambda>side_effects.
          rbind (py_tuple (py_or (dget f ''ops'') (PList []))) (\<lambda>ops.
          rbind (rmap op_pair ops) (\<lambda>op_stream.
            let return_type = dget f ''return_type'';
                typed = (arg_types \<noteq> [] \<or> truthy return_type)
            in Inr \<lparr>sg_in = arg_types, sg_out = (if truthy return_type then [return_type] else []),
                 sg_purity = (if dget f ''purity'' \<in> {PStr ''PURE'', PStr ''IMPURE'', PStr ''UNKNOWN''}
                              then Some (str_of (dget f ''purity'')) else None),
                 sg_payload =
                   (if typed then [(''types_source'', PStr (''ast_signature:'' @ py_str (py_or (dget f ''name'') (PStr ''?''))))] else [])
                   @ (if side_effects \<noteq> [] then [(''side_effects'', PList side_effects)] else [])
                   @ (if op_stream \<noteq> [] then [(''op_stream'', PList op_stream)] else [])\<rparr>)))))"

definition concept_id_of :: "pydict \<Rightarrow> string" where
  "concept_id_of c = py_str (py_or (dget c ''concept_id'') (PStr ''core''))"

definition line_token :: "pydict \<Rightarrow> string" where
  "line_token c = (if dget c ''source_line'' = PNone then ''0'' else py_str (dget c ''source_line''))"

definition extraction_node_id :: "pod_worker_env \<Rightarrow> pod_config \<Rightarrow> string \<Rightarrow> string \<Rightarrow> string \<Rightarrow> pydict \<Rightarrow> string" where
  "extraction_node_id env cfg mid extraction_language source_file c =
     pc_pod_name cfg @ ''.'' @ concept_id_of c @ ''.'' @ mid @ ''.''
       @ take 8 (we_sha256 env (or_text source_file extraction_language)) @ ''.'' @ line_token c"

definition node_of_concept ::
  "pod_worker_env \<Rightarrow> pod_config \<Rightarrow> string \<Rightarrow> string \<Rightarrow> string \<Rightarrow> string \<Rightarrow> string \<Rightarrow> pydict list \<Rightarrow> pydict \<Rightarrow> pydict res" where
  "node_of_concept env cfg mid target_language extraction_language source_file agent functions c =
     rbind (signature_of (enclosing_function_for_line functions (dget c ''source_line''))) (\<lambda>sg.
       let node_id = extraction_node_id env cfg mid extraction_language source_file c;
           concept = py_str (py_or (dget c ''concept'') (PStr ''extracted_intent''));
           domain = py_str (py_or (dget c ''domain'') (PStr ''generic''));
           schema_node = build_schema_node env cfg
             \<lparr>ns_node_id = node_id, ns_concept_id = concept_id_of c, ns_concept = concept, ns_domain = domain,
              ns_intent = str_or_empty (dget c ''intent''), ns_source_language = extraction_language,
              ns_target_language = target_language, ns_source_file = source_file,
              ns_snippet = str_or_empty (dget c ''evidence''), ns_agent_id = agent,
              ns_extra =
                [(''confidence'', dget_or c ''confidence'' (PFloat 0 ''0.0'')), (''source_line'', dget c ''source_line''),
                 (''evidence'', dget_or c ''evidence'' (PStr [])),
                 (''extraction_method'', dget_or c ''extraction_method'' (PStr ''regex'')),
                 (''source_range'', dget c ''source_range'')] @ sg_payload sg,
              ns_types_in = sg_in sg, ns_types_out = sg_out sg, ns_purity = sg_purity sg\<rparr>
       in Inr [(''node_id'', PStr node_id), (''concept'', PStr concept), (''domain'', PStr domain),
               (''language'', PStr extraction_language), (''agent_id'', PStr agent), (''node'', PDict schema_node)])"

definition logicnodes_from_extraction ::
  "pod_worker_env \<Rightarrow> pod_config \<Rightarrow> string \<Rightarrow> string \<Rightarrow> string \<Rightarrow> pydict list \<Rightarrow> string \<Rightarrow> string \<Rightarrow> pydict list
     \<Rightarrow> pydict list res" where
  "logicnodes_from_extraction env cfg mid target_language extraction_language concepts source_file agent functions =
     rmap (node_of_concept env cfg mid target_language extraction_language source_file agent functions) concepts"

fun artifact_logicnodes :: "pyval list \<Rightarrow> pydict list res" where
  "artifact_logicnodes [] = Inr []"
| "artifact_logicnodes (PDict artifact # artifacts) =
     (if dget artifact ''type'' \<noteq> PStr ''logicnode_set'' then artifact_logicnodes artifacts
      else rbind (py_tuple (dget_or artifact ''logicnodes'' (PList []))) (\<lambda>nodes.
           rbind (artifact_logicnodes artifacts) (\<lambda>rest. Inr (map dict_or_empty (filter is_dict nodes) @ rest))))"
| "artifact_logicnodes (_ # artifacts) = artifact_logicnodes artifacts"

definition extract_logicnodes_from_agent_result :: "pipeline \<Rightarrow> pydict list res" where
  "extract_logicnodes_from_agent_result result = artifact_logicnodes (list_or_empty (pl_artifacts result))"

section \<open>The schema\<close>

fun is_string_list :: "pyval \<Rightarrow> bool" where
  "is_string_list (PList xs) = list_all is_str xs"
| "is_string_list _ = False"

definition string_in :: "string list \<Rightarrow> pyval \<Rightarrow> bool" where
  "string_in values v = (case v of PStr s \<Rightarrow> s \<in> set values | _ \<Rightarrow> False)"

definition min_length_one :: "pyval \<Rightarrow> bool" where
  "min_length_one v = (case v of PStr s \<Rightarrow> s \<noteq> [] | _ \<Rightarrow> False)"

definition unit_number :: "pyval \<Rightarrow> bool" where
  "unit_number v = (case v of PInt i \<Rightarrow> 0 \<le> i \<and> i \<le> 1 | PFloat r _ \<Rightarrow> 0 \<le> r \<and> r \<le> 1 | _ \<Rightarrow> False)"

text \<open>JSON Schema counts a float without a fractional part as an integer.\<close>

definition is_natural :: "pyval \<Rightarrow> bool" where
  "is_natural v = (case v of PInt i \<Rightarrow> 0 \<le> i | PFloat r _ \<Rightarrow> 0 \<le> r \<and> of_int \<lfloor>r\<rfloor> = r | _ \<Rightarrow> False)"

definition valid_types :: "pyval \<Rightarrow> bool" where
  "valid_types v = (case v of
     PDict d \<Rightarrow> dhas d ''in'' \<and> dhas d ''out'' \<and> list_all (\<lambda>(k, w). k \<in> {''in'', ''out''} \<and> is_string_list w) d
   | _ \<Rightarrow> False)"

definition valid_provenance :: "(string \<Rightarrow> bool) \<Rightarrow> pyval \<Rightarrow> bool" where
  "valid_provenance date_ok v = (case v of
     PDict d \<Rightarrow> list_all (dhas d) [''source_ref'', ''snippet_hash'', ''miner_agent'', ''timestamp'']
       \<and> list_all (\<lambda>(k, w). k \<in> {''source_ref'', ''snippet_hash'', ''miner_agent'', ''timestamp''} \<longrightarrow> is_str w) d
       \<and> list_all (\<lambda>(k, w). k = ''timestamp'' \<longrightarrow> date_ok (str_of w)) d
   | _ \<Rightarrow> False)"

definition node_properties :: "(string \<Rightarrow> bool) \<Rightarrow> (string \<times> (pyval \<Rightarrow> bool)) list" where
  "node_properties date_ok =
     [(''node_id'', min_length_one), (''cmd'', min_length_one), (''payload'', is_dict),
      (''priority'', string_in [''LOW'', ''NORMAL'', ''HIGH'', ''CRITICAL'']), (''intent'', is_str), (''types'', valid_types),
      (''domain'', is_str), (''concept'', is_str), (''confidence'', unit_number), (''source_language'', is_str),
      (''extraction_method'', string_in [''regex'', ''ast'']), (''paradigm'', is_str),
      (''purity'', string_in [''PURE'', ''IMPURE'', ''UNKNOWN'']), (''complexity'', is_natural), (''source_license'', is_str),
      (''tags'', is_string_list), (''provenance'', valid_provenance date_ok)]"

definition node_required :: "string list" where
  "node_required = [''node_id'', ''cmd'', ''payload'', ''priority'', ''intent'', ''types'', ''provenance'']"

definition logicnode_valid :: "(string \<Rightarrow> bool) \<Rightarrow> pydict \<Rightarrow> bool" where
  "logicnode_valid date_ok node \<longleftrightarrow>
     list_all (dhas node) node_required
     \<and> list_all (\<lambda>(k, v). case map_of (node_properties date_ok) k of None \<Rightarrow> False | Some ok \<Rightarrow> ok v) node"

section \<open>The route and the table\<close>

record node_env =
  ne_audit :: audit_env
  ne_schema_ready :: bool
  ne_date_ok :: "string \<Rightarrow> bool"
  ne_messages :: "pydict \<Rightarrow> string list"

record node_store =
  nt_missions :: mission_db
  nt_rows :: "((string \<times> string) \<times> (pydict \<times> int)) list"
  nt_audit :: audit_db

definition validate_logicnode :: "node_env \<Rightarrow> pydict \<Rightarrow> string list" where
  "validate_logicnode env node = (if logicnode_valid (ne_date_ok env) node then [] else ne_messages env node)"

definition node_document :: "(int \<Rightarrow> string) \<Rightarrow> string \<Rightarrow> string \<Rightarrow> pydict \<times> int \<Rightarrow> pydict" where
  "node_document iso_text mid node_id row =
     [(''mission_id'', PStr mid), (''node_id'', PStr node_id), (''node'', PDict (fst row)), (''created_at'', PStr (iso_text (snd row)))]"

definition upsert_logicnode ::
  "(int \<Rightarrow> string) \<Rightarrow> string \<Rightarrow> string \<Rightarrow> pydict \<Rightarrow> int \<Rightarrow> node_store \<Rightarrow> pydict res \<times> node_store" where
  "upsert_logicnode iso_text mid node_id node created_at w =
     (if \<not> dhas (missions (nt_missions w)) mid then (Inl ForeignKeyViolation, w)
      else (Inr (node_document iso_text mid node_id (node, created_at)),
            w\<lparr>nt_rows := AList.update (mid, node_id) (node, created_at) (nt_rows w)\<rparr>))"

definition list_logicnodes :: "(int \<Rightarrow> string) \<Rightarrow> node_store \<Rightarrow> string \<Rightarrow> nat \<Rightarrow> pydict list" where
  "list_logicnodes iso_text w mid limit =
     map (\<lambda>((mid, node_id), row). node_document iso_text mid node_id row)
       (take limit (sort_key (\<lambda>(_, row). - snd row) (filter (\<lambda>((m, _), _). m = mid) (nt_rows w))))"

definition list_recent_logicnodes :: "(int \<Rightarrow> string) \<Rightarrow> node_store \<Rightarrow> nat \<Rightarrow> pydict list" where
  "list_recent_logicnodes iso_text w limit =
     map (\<lambda>((mid, node_id), row). node_document iso_text mid node_id row)
       (take limit (sort_key (\<lambda>(_, row). - snd row) (nt_rows w)))"

definition agent_id_from_node :: "pydict \<Rightarrow> string option" where
  "agent_id_from_node node =
     (case agent_id_from_value (dget node ''agent_id'') of
        Some a \<Rightarrow> Some a
      | None \<Rightarrow> (case dget node ''payload'' of PDict nested \<Rightarrow> agent_id_from_metadata nested | _ \<Rightarrow> None))"

definition node_event :: "string \<Rightarrow> string \<Rightarrow> string list \<Rightarrow> AgentActionEventRecord" where
  "node_event agent node_id errors =
     (assignment_event agent node_id)
       \<lparr>ae_event_type := ''MISSION_LOGICNODE_WRITTEN'', ae_object_type := Some ''logicnode'',
        ae_status := (if errors \<noteq> [] then ''ERROR'' else ''SUCCESS'')\<rparr>"

definition post_logicnode ::
  "node_env \<Rightarrow> string \<Rightarrow> string \<Rightarrow> pyval \<Rightarrow> int option \<Rightarrow> node_store \<Rightarrow> pydict res \<times> node_store" where
  "post_logicnode env mid node_id body created_at w =
     (case body of
        PDict node \<Rightarrow>
          if mid = [] \<or> node_id = [] then (Inl (HTTPException 422), w)
          else (case fetch_mission (nt_missions w) mid of
             Inl e \<Rightarrow> (Inl e, w)
           | Inr None \<Rightarrow> (Inl (HTTPException 404), w)
           | Inr (Some mission) \<Rightarrow>
               let errors = (if ne_schema_ready env then validate_logicnode env node else []);
                   at_time = (case created_at of Some t \<Rightarrow> t | None \<Rightarrow> au_now (ne_audit env))
               in (case upsert_logicnode (au_iso (ne_audit env)) mid node_id node at_time w of
                     (Inl e, w) \<Rightarrow> (Inl e, w)
                   | (Inr record, w) \<Rightarrow>
                       let record = set_if (errors \<noteq> []) ''validation_errors'' (PList (map PStr errors)) record;
                           agent = (case agent_id_from_node node of Some a \<Rightarrow> a | None \<Rightarrow>
                                      case agent_id_from_metadata (m_metadata mission) of Some a \<Rightarrow> a | None \<Rightarrow> ''SYSTEM'');
                           (r, audit) = record_audit_event (ne_audit env) (Some mission)
                             \<lparr>rq_event = node_event agent node_id errors,
                              rq_summary = PDict [(''node_id'', PStr node_id), (''node'', PDict (summarize_mapping (PDict node))),
                                (''validation_errors'', PList (map PStr errors))],
                              rq_content = None, rq_started = None, rq_ended = None\<rparr> (nt_audit w)
                       in (rbind r (\<lambda>_. Inr record), w\<lparr>nt_audit := audit\<rparr>)))
      | _ \<Rightarrow> (Inl (HTTPException 422), w))"

section \<open>Nodes are valid\<close>

lemma in_set_dset: "x \<in> set (dset k v d) \<Longrightarrow> x = (k, v) \<or> x \<in> set d"
  unfolding dset_def by (induction d) (auto split: if_splits)

lemma logicnode_valid_dset:
  assumes "logicnode_valid date_ok d" and "map_of (node_properties date_ok) k = Some ok" and "ok v"
  shows "logicnode_valid date_ok (dset k v d)"
  using assms unfolding logicnode_valid_def list_all_iff by (auto dest!: in_set_dset split: option.splits prod.splits)

lemma logicnode_valid_set_if:
  assumes "logicnode_valid date_ok d" and "map_of (node_properties date_ok) k = Some ok" and "b \<Longrightarrow> ok v"
  shows "logicnode_valid date_ok (set_if b k v d)"
  using assms by (simp add: set_if_def logicnode_valid_dset)

text \<open>\<open>max(0.0, min(1.0, float(confidence)))\<close> is a number between 0 and 1.\<close>

definition clamps :: "pod_worker_env \<Rightarrow> bool" where
  "clamps env \<longleftrightarrow> (\<forall>v. is_number v \<longrightarrow> unit_number (we_confidence env v))"

lemma node_property_simps:
  "map_of (node_properties date_ok) ''purity'' = Some (string_in [''PURE'', ''IMPURE'', ''UNKNOWN''])"
  "map_of (node_properties date_ok) ''extraction_method'' = Some (string_in [''regex'', ''ast''])"
  "map_of (node_properties date_ok) ''confidence'' = Some unit_number"
  "map_of (node_properties date_ok) ''source_language'' = Some is_str"
  "map_of (node_properties date_ok) ''concept'' = Some is_str"
  "map_of (node_properties date_ok) ''domain'' = Some is_str"
  by (simp_all add: node_properties_def)

lemma non_blank_strings: "list_all is_str (non_blank xs)"
  by (simp add: non_blank_def list_all_iff)

lemma build_schema_node_valid:
  assumes "ns_node_id s \<noteq> []" and "ns_concept_id s \<noteq> []" and "date_ok (we_stamp env)" and "clamps env"
  shows "logicnode_valid date_ok (build_schema_node env cfg s)"
proof -
  have base: "logicnode_valid date_ok
    [(''node_id'', PStr (ns_node_id s)), (''cmd'', PStr (ns_concept_id s)), (''payload'', PDict p),
     (''priority'', PStr ''NORMAL''), (''intent'', PStr (ns_intent s)),
     (''types'', PDict [(''in'', PList (non_blank (ns_types_in s))), (''out'', PList (non_blank (ns_types_out s)))]),
     (''provenance'', PDict
       [(''source_ref'', PStr a), (''snippet_hash'', PStr b), (''miner_agent'', PStr c), (''timestamp'', PStr (we_stamp env))])]" for p a b c
    using assms(1-3)
    by (simp add: logicnode_valid_def node_required_def node_properties_def dhas_def min_length_one_def string_in_def
        valid_types_def valid_provenance_def non_blank_strings)
  show ?thesis
    unfolding build_schema_node_def Let_def
    by (intro logicnode_valid_set_if [OF _ node_property_simps(1)] logicnode_valid_set_if [OF _ node_property_simps(2)]
        logicnode_valid_set_if [OF _ node_property_simps(3)] logicnode_valid_set_if [OF _ node_property_simps(4)]
        logicnode_valid_set_if [OF _ node_property_simps(5)] logicnode_valid_set_if [OF _ node_property_simps(6)] base)
      (use assms(4) in \<open>auto simp: string_in_def opt_str_def clamps_def\<close>)
qed

definition text_ids :: "pydict list \<Rightarrow> bool" where
  "text_ids concepts \<longleftrightarrow> list_all (\<lambda>c. is_str (dget c ''concept_id'') \<or> dget c ''concept_id'' = PNone) concepts"

lemma concept_id_nonempty: "text_ids concepts \<Longrightarrow> c \<in> set concepts \<Longrightarrow> concept_id_of c \<noteq> []"
  by (cases "dget c ''concept_id''") (auto simp: text_ids_def list_all_iff concept_id_of_def py_or_def)

lemma dget_set_if: "dget (set_if b k v d) k' = (if b \<and> k' = k then v else dget d k')"
  by (simp add: set_if_def)

lemma dhas_set_if: "dhas (set_if b k v d) k' \<longleftrightarrow> b \<and> k' = k \<or> dhas d k'"
  by (auto simp: set_if_def)

lemma schema_node_fields:
  "dget (build_schema_node env cfg s) ''node_id'' = PStr (ns_node_id s)"
  "dhas (build_schema_node env cfg s) ''provenance''" "dhas (build_schema_node env cfg s) ''cmd''"
  by (simp_all add: build_schema_node_def Let_def dget_set_if dhas_set_if) (simp_all add: dget_def dhas_def)

lemma rmap_list_all2: "rmap f xs = Inr ys \<longleftrightarrow> list_all2 (\<lambda>x y. f x = Inr y) xs ys"
  by (induction xs arbitrary: ys) (auto simp: rbind_Inr_iff list_all2_Cons1)

lemma list_all2_member: "list_all2 P xs ys \<Longrightarrow> y \<in> set ys \<Longrightarrow> \<exists>x \<in> set xs. P x y"
  by (induction rule: list_all2_induct) auto

lemma node_of_concept_fields:
  assumes "node_of_concept env cfg mid tgt src sf agent fs c = Inr n"
  obtains s where "dget n ''node'' = PDict (build_schema_node env cfg s)"
    and "ns_node_id s = extraction_node_id env cfg mid src sf c" and "ns_concept_id s = concept_id_of c"
    and "dget n ''node_id'' = PStr (extraction_node_id env cfg mid src sf c)"
proof -
  obtain concept domain s where n: "n =
      [(''node_id'', PStr (extraction_node_id env cfg mid src sf c)), (''concept'', PStr concept), (''domain'', PStr domain),
       (''language'', PStr src), (''agent_id'', PStr agent), (''node'', PDict (build_schema_node env cfg s))]"
    and s: "ns_node_id s = extraction_node_id env cfg mid src sf c" "ns_concept_id s = concept_id_of c"
    using assms unfolding node_of_concept_def rbind_Inr_iff Let_def
    by (elim exE conjE) (simp only: sum.inject, metis node_spec.select_convs(1,2))
  show thesis by (rule that [OF _ s]) (simp_all add: n dget_def)
qed

lemma extraction_node_id_nonempty: "extraction_node_id env cfg mid src sf c \<noteq> []"
  by (simp add: extraction_node_id_def)


section \<open>Nodes keep their rows\<close>

lemma last_dot:
  assumes "CHR ''.'' \<notin> set x" and "CHR ''.'' \<notin> set y" and "p @ CHR ''.'' # x = q @ CHR ''.'' # y"
  shows "p = q \<and> x = y"
proof -
  have tw: "takeWhile (\<lambda>c. c \<noteq> CHR ''.'') (rev x @ CHR ''.'' # r) = rev x" if "CHR ''.'' \<notin> set x" for x r
    using that by (subst takeWhile_append2) auto
  have "rev x @ CHR ''.'' # rev p = rev y @ CHR ''.'' # rev q"
    using arg_cong [OF assms(3), of rev] by simp
  with tw [OF assms(1)] tw [OF assms(2)] show ?thesis by (metis append_same_eq rev_rev_ident assms(3) same_append_eq)
qed

lemma extraction_node_id_inj:
  assumes "CHR ''.'' \<notin> set (line_token c)" and "CHR ''.'' \<notin> set (line_token c')"
  shows "extraction_node_id env cfg mid src sf c = extraction_node_id env cfg mid src sf c'
    \<longleftrightarrow> concept_id_of c = concept_id_of c' \<and> line_token c = line_token c'"
proof
  assume "extraction_node_id env cfg mid src sf c = extraction_node_id env cfg mid src sf c'"
  then have "(concept_id_of c @ ''.'' @ mid @ ''.'' @ take 8 (we_sha256 env (or_text sf src))) @ CHR ''.'' # line_token c =
    (concept_id_of c' @ ''.'' @ mid @ ''.'' @ take 8 (we_sha256 env (or_text sf src))) @ CHR ''.'' # line_token c'"
    by (simp add: extraction_node_id_def)
  from last_dot [OF assms this] show "concept_id_of c = concept_id_of c' \<and> line_token c = line_token c'" by simp
qed (simp add: extraction_node_id_def)

text \<open>Storing nodes one after the other, as the worker posts them.\<close>

definition store_nodes :: "(int \<Rightarrow> string) \<Rightarrow> string \<Rightarrow> int \<Rightarrow> pydict list \<Rightarrow> node_store \<Rightarrow> node_store" where
  "store_nodes iso_text mid t nodes w =
     fold (\<lambda>n w. snd (upsert_logicnode iso_text mid (str_of (dget n ''node_id'')) (dict_or_empty (dget n ''node'')) t w)) nodes w"

lemma upsert_missions: "nt_missions (snd (upsert_logicnode iso_text mid nid n t w)) = nt_missions w"
  by (simp add: upsert_logicnode_def)

lemma store_nodes_rows:
  assumes "dhas (missions (nt_missions w)) mid"
  shows "map_of (nt_rows (store_nodes iso_text mid t nodes w)) (m, nid) =
    (case List.find (\<lambda>n. m = mid \<and> str_of (dget n ''node_id'') = nid) (rev nodes) of
       None \<Rightarrow> map_of (nt_rows w) (m, nid)
     | Some n \<Rightarrow> Some (dict_or_empty (dget n ''node''), t))"
proof (induction nodes rule: rev_induct)
  case (snoc n nodes)
  have "nt_missions (store_nodes iso_text mid t nodes w) = nt_missions w" for nodes
    unfolding store_nodes_def by (induction nodes arbitrary: w) (simp_all add: upsert_missions)
  then have "store_nodes iso_text mid t (nodes @ [n]) w =
    (store_nodes iso_text mid t nodes w)\<lparr>nt_rows := AList.update (mid, str_of (dget n ''node_id'')) (dict_or_empty (dget n ''node''), t)
       (nt_rows (store_nodes iso_text mid t nodes w))\<rparr>"
    using assms by (simp add: store_nodes_def upsert_logicnode_def)
  then show ?case using snoc by (auto simp: update_conv')
qed (simp add: store_nodes_def)

lemma store_nodes_keys:
  assumes "dhas (missions (nt_missions w)) mid"
  shows "fst ` set (nt_rows (store_nodes iso_text mid t nodes w)) =
    fst ` set (nt_rows w) \<union> (\<lambda>n. (mid, str_of (dget n ''node_id''))) ` set nodes"
proof -
  have "x \<in> fst ` set (nt_rows (store_nodes iso_text mid t nodes w)) \<longleftrightarrow>
    x \<in> fst ` set (nt_rows w) \<union> (\<lambda>n. (mid, str_of (dget n ''node_id''))) ` set nodes" for x
  proof (cases x)
    case (Pair m nid)
    have "x \<in> fst ` set rows \<longleftrightarrow> map_of rows x \<noteq> None" for rows :: "((string \<times> string) \<times> (pydict \<times> int)) list"
      by (simp add: map_of_eq_None_iff)
    moreover have "(m, nid) \<in> (\<lambda>n. (mid, str_of (dget n ''node_id''))) ` set nodes
      \<longleftrightarrow> List.find (\<lambda>n. m = mid \<and> str_of (dget n ''node_id'') = nid) (rev nodes) \<noteq> None"
      by (auto simp: find_None_iff)
    ultimately show ?thesis using assms by (auto simp: Pair store_nodes_rows split: option.splits)
  qed
  then show ?thesis by blast
qed

lemma card_same_kernel:
  "(\<And>x y. x \<in> set xs \<Longrightarrow> y \<in> set xs \<Longrightarrow> f x = f y \<longleftrightarrow> g x = g y) \<Longrightarrow> card (f ` set xs) = card (g ` set xs)"
proof (induction xs)
  case (Cons a xs)
  have "f a \<in> f ` set xs \<longleftrightarrow> g a \<in> g ` set xs" using Cons.prems by (auto simp: image_iff)
  moreover have "card (f ` set xs) = card (g ` set xs)" using Cons by simp
  ultimately show ?case by (simp add: card_insert_if)
qed simp

lemma node_ids_of_extraction:
  assumes "logicnodes_from_extraction env cfg mid tgt src concepts sf agent fs = Inr nodes"
  shows "map (\<lambda>n. str_of (dget n ''node_id'')) nodes = map (extraction_node_id env cfg mid src sf) concepts"
proof -
  have "list_all2 (\<lambda>c n. node_of_concept env cfg mid tgt src sf agent fs c = Inr n) concepts nodes"
    using assms by (simp add: logicnodes_from_extraction_def rmap_list_all2)
  then show ?thesis
  proof (induction rule: list_all2_induct)
    case (Cons c cs n ns)
    from Cons(1) show ?case by (rule node_of_concept_fields) (simp add: Cons)
  qed simp
qed

text \<open>Storing the nodes of an extraction loses no concept: the table gains exactly the ids of the
  extraction, as many as there are pairs of a concept and a line, and the rows of every other mission stay
  as they were. Only occurrences of one concept on one line share a row.\<close>

theorem extraction_keeps_every_concept:
  assumes "logicnodes_from_extraction env cfg mid tgt src concepts sf agent fs = Inr nodes"
    and "dhas (missions (nt_missions w)) mid"
    and "list_all (\<lambda>c. CHR ''.'' \<notin> set (line_token c)) concepts"
  shows "fst ` set (nt_rows (store_nodes iso_text mid t nodes w)) =
      fst ` set (nt_rows w) \<union> (\<lambda>c. (mid, extraction_node_id env cfg mid src sf c)) ` set concepts
    \<and> card (extraction_node_id env cfg mid src sf ` set concepts) =
      card ((\<lambda>c. (concept_id_of c, line_token c)) ` set concepts)
    \<and> (m \<noteq> mid \<longrightarrow> map_of (nt_rows (store_nodes iso_text mid t nodes w)) (m, nid) = map_of (nt_rows w) (m, nid))"
proof (intro conjI impI)
  have "(\<lambda>n. (mid, str_of (dget n ''node_id''))) ` set nodes =
    (\<lambda>c. (mid, extraction_node_id env cfg mid src sf c)) ` set concepts"
    using arg_cong [OF node_ids_of_extraction [OF assms(1)], of "\<lambda>xs. Pair mid ` set xs"] by (simp add: image_image)
  then show "fst ` set (nt_rows (store_nodes iso_text mid t nodes w)) =
      fst ` set (nt_rows w) \<union> (\<lambda>c. (mid, extraction_node_id env cfg mid src sf c)) ` set concepts"
    using store_nodes_keys [OF assms(2)] by metis
  show "card (extraction_node_id env cfg mid src sf ` set concepts) =
      card ((\<lambda>c. (concept_id_of c, line_token c)) ` set concepts)"
    using assms(3) by (intro card_same_kernel) (simp add: list_all_iff extraction_node_id_inj)
  show "map_of (nt_rows (store_nodes iso_text mid t nodes w)) (m, nid) = map_of (nt_rows w) (m, nid)" if "m \<noteq> mid"
    using that store_nodes_rows [OF assms(2)] by (simp add: find_None_iff [THEN iffD2])
qed

section \<open>The route keeps invalid nodes\<close>

lemma agent_id_from_value_nonempty: "agent_id_from_value v = Some a \<Longrightarrow> a \<noteq> []"
  by (auto simp: agent_id_from_value_def Let_def split: if_splits)

lemma agent_id_from_metadata_nonempty: "agent_id_from_metadata d = Some a \<Longrightarrow> a \<noteq> []"
  by (auto simp: agent_id_from_metadata_def map_filter_simps dest!: agent_id_from_value_nonempty
      split: option.splits if_splits)

lemma agent_id_from_node_nonempty: "agent_id_from_node d = Some a \<Longrightarrow> a \<noteq> []"
  by (auto simp: agent_id_from_node_def dest: agent_id_from_value_nonempty agent_id_from_metadata_nonempty
      split: option.splits pyval.splits)

lemma fetch_mission_id: "fetch_mission db mid = Inr (Some m) \<Longrightarrow> m_mission_id m = mid \<and> dhas (missions db) mid"
  by (auto simp: fetch_mission_def dhas_def row_of_def rbind_Inr_iff dest: row_to_mission_id split: option.splits)

text \<open>The route keeps an invalid node like a valid one, in the row of its mission and id, touches no other
  row, and answers with the validation errors exactly when the schema refuses the node.\<close>

theorem invalid_node_kept_and_flagged:
  assumes "fetch_mission (nt_missions w) mid = Inr (Some mission)" and "mid \<noteq> []" and "nid \<noteq> []"
    and "ne_schema_ready env" and "\<not> logicnode_valid (ne_date_ok env) node \<Longrightarrow> ne_messages env node \<noteq> []"
  shows "\<exists>record w'. post_logicnode env mid nid (PDict node) (Some t) w = (Inr record, w')
    \<and> nt_rows w' = AList.update (mid, nid) (node, t) (nt_rows w)
    \<and> dget record ''node'' = PDict node
    \<and> (dhas record ''validation_errors'' \<longleftrightarrow> \<not> logicnode_valid (ne_date_ok env) node)"
proof -
  let ?errors = "validate_logicnode env node"
  let ?agent = "case agent_id_from_node node of Some a \<Rightarrow> a | None \<Rightarrow>
      case agent_id_from_metadata (m_metadata mission) of Some a \<Rightarrow> a | None \<Rightarrow> ''SYSTEM''"
  have mission: "m_mission_id mission = mid" "dhas (missions (nt_missions w)) mid"
    using fetch_mission_id [OF assms(1)] by simp_all
  have agent: "?agent \<noteq> []"
    by (auto dest: agent_id_from_node_nonempty agent_id_from_metadata_nonempty split: option.splits)
  have recorded: "\<exists>x db'. record_audit_event (ne_audit env) (Some mission)
      \<lparr>rq_event = node_event ?agent nid ?errors, rq_summary = s, rq_content = None, rq_started = None, rq_ended = None\<rparr> db
      = (Inr x, db')" for s db
    using agent assms(2) mission(1)
    by (auto simp: record_audit_event_def audit_event_of_def node_event_def assignment_event_def Let_def
        split: prod.splits sum.splits)
  obtain x db' where r: "record_audit_event (ne_audit env) (Some mission)
      \<lparr>rq_event = node_event ?agent nid ?errors,
       rq_summary = PDict [(''node_id'', PStr nid), (''node'', PDict (summarize_mapping (PDict node))),
         (''validation_errors'', PList (map PStr ?errors))],
       rq_content = None, rq_started = None, rq_ended = None\<rparr> (nt_audit w) = (Inr x, db')"
    using recorded by blast
  have "?errors \<noteq> [] \<longleftrightarrow> \<not> logicnode_valid (ne_date_ok env) node"
    using assms(5) by (auto simp: validate_logicnode_def)
  then show ?thesis
    using assms(1-4) mission r
    by (simp add: post_logicnode_def upsert_logicnode_def node_document_def Let_def dget_set_if dhas_set_if)
      (simp add: dget_def dhas_def)
qed

section \<open>Examples\<close>

definition sample_concept :: pydict where
  "sample_concept = [(''concept_id'', PStr ''loop''), (''source_line'', PInt 3)]"

definition sample_node_env :: node_env where
  "sample_node_env = \<lparr>ne_audit = plain_audit_env, ne_schema_ready = True, ne_date_ok = (\<lambda>_. True), ne_messages = (\<lambda>_. [''error''])\<rparr>"

definition sample_node_store :: node_store where
  "sample_node_store = \<lparr>nt_missions = sample_db, nt_rows = [], nt_audit = \<lparr>ad_missions = [''m1''], ad_events = []\<rparr>\<rparr>"

lemma sample_extraction:
  "\<exists>nodes. logicnodes_from_extraction sample_worker_env (sample_pod ''podA'') ''m1'' ''python'' ''python'' [sample_concept, sample_concept]
     ''f.py'' ''A'' [] = Inr nodes"
  by (simp add: logicnodes_from_extraction_def node_of_concept_def enclosing_function_for_line_def signature_of_def
      sample_concept_def dget_def Let_def)


lemma extraction_keeps_every_concept_witness:
  "\<exists>nodes. logicnodes_from_extraction sample_worker_env (sample_pod ''podA'') ''m1'' ''python'' ''python'' [sample_concept, sample_concept]
     ''f.py'' ''A'' [] = Inr nodes
     \<and> card (fst ` set (nt_rows (store_nodes int_str ''m1'' 7 nodes sample_node_store))) = 1"
proof -
  obtain nodes where n: "logicnodes_from_extraction sample_worker_env (sample_pod ''podA'') ''m1'' ''python'' ''python''
     [sample_concept, sample_concept] ''f.py'' ''A'' [] = Inr nodes" using sample_extraction by blast
  have line: "line_token sample_concept = ''3''"
    by (simp add: line_token_def sample_concept_def dget_def int_str_def) code_simp
  have "dhas (missions (nt_missions sample_node_store)) ''m1''" by (simp add: sample_node_store_def sample_db_def dhas_def)
  from extraction_keeps_every_concept [OF n this, of int_str 7 "''m2''" "''x''"] n show ?thesis
    by (simp add: line sample_node_store_def)
qed

lemma invalid_node_kept_and_flagged_witness:
  "\<exists>doc w'. post_logicnode sample_node_env ''m1'' ''n1'' (PDict []) (Some 7) sample_node_store = (Inr doc, w')
     \<and> dhas doc ''validation_errors'' \<and> nt_rows w' = [((''m1'', ''n1''), ([], 7))]"
proof -
  obtain m where m: "fetch_mission (nt_missions sample_node_store) ''m1'' = Inr (Some m)"
    using MissionState_of_value [of Running]
    by (auto simp: sample_node_store_def fetch_mission_def sample_db_def row_to_mission_def sample_row_def Let_def)
  have invalid: "\<not> logicnode_valid f []" for f by (simp add: logicnode_valid_def node_required_def dhas_def)
  have "\<exists>doc w'. post_logicnode sample_node_env ''m1'' ''n1'' (PDict []) (Some 7) sample_node_store = (Inr doc, w')
     \<and> nt_rows w' = AList.update (''m1'', ''n1'') ([], 7) (nt_rows sample_node_store) \<and> dget doc ''node'' = PDict []
     \<and> (dhas doc ''validation_errors'' \<longleftrightarrow> \<not> logicnode_valid (ne_date_ok sample_node_env) [])"
    by (rule invalid_node_kept_and_flagged [OF m]) (simp_all add: sample_node_env_def)
  with invalid show ?thesis by (fastforce simp: sample_node_store_def)
qed

end
