(* ===== verification/Pod_Worker.thy ===== *)
theory Pod_Worker
  imports Logic_Nodes
begin

text \<open>
  The handlers and the consumer of the pod worker, \<open>pod_worker/main.py\<close>: a pod manager claims a mission
  and runs its pipeline, a specialist runs a mission or one partition of it, and the consumer settles the
  entries of the state stream. \<open>pw_runs\<close> observes every start of an agent pipeline as the event, the pod
  and the mission. Metrics and log messages are not modelled; an entry is the pair of fields the consumer
  reads, with its id.
\<close>

section \<open>What the handlers share\<close>

definition payload_mission :: "pydict \<Rightarrow> string" where
  "payload_mission payload = py_str (dget_or payload ''mission_id'' (PStr []))"

definition target_language_of :: "pydict \<Rightarrow> string" where
  "target_language_of payload = (case dget payload ''requested_target_language'' of PStr s \<Rightarrow> py_lower s | _ \<Rightarrow> [])"

definition snapshot_metadata :: "pydict option \<Rightarrow> pyval" where
  "snapshot_metadata snapshot = (case snapshot of None \<Rightarrow> PDict [] | Some d \<Rightarrow> dget d ''metadata'')"

definition resolve_agent_id ::
  "pod_worker_env \<Rightarrow> pod_config \<Rightarrow> string \<Rightarrow> pydict \<Rightarrow> pyval \<Rightarrow> string \<Rightarrow> string pprog" where
  "resolve_agent_id env cfg mid payload md event_type =
     bnd (case agent_id_from_payload payload of
            Some a \<Rightarrow> ret (Some a)
          | None \<Rightarrow> (case worker_agent_id_from_metadata md of
                       Some a \<Rightarrow> ret (Some a) | None \<Rightarrow> fetch_mission_agent_id env cfg mid))
       (\<lambda>found. ret (case found of
          Some a \<Rightarrow> a
        | None \<Rightarrow> (case default_agent_id_for_event cfg event_type (target_language_of payload) of
                     Some a \<Rightarrow> a | None \<Rightarrow> ''UNBOUND'')))"

definition claim_details :: "pod_config \<Rightarrow> string \<Rightarrow> string \<Rightarrow> pydict" where
  "claim_details cfg agent reason =
     [(''assigned_by'', PStr ''pod-worker''), (''pod_name'', PStr (pc_pod_name cfg)), (''agent_id'', PStr agent),
      (''supported_languages'', PList (map PStr (sort (remdups (pc_languages cfg))))), (''reason'', PStr reason)]"

definition claim_mission :: "pod_worker_env \<Rightarrow> pod_config \<Rightarrow> string \<Rightarrow> string \<Rightarrow> string \<Rightarrow> int pprog" where
  "claim_mission env cfg mid agent reason =
     bnd (request env cfg (PostAssignment mid (pc_pod_name cfg) (claim_details cfg agent reason)) (Some agent))
       (\<lambda>response. ret (fst response))"

definition audit_execution ::
  "pod_worker_env \<Rightarrow> pod_config \<Rightarrow> string \<Rightarrow> string \<Rightarrow> string \<Rightarrow> string \<Rightarrow> pydict \<Rightarrow> unit pprog" where
  "audit_execution env cfg mid agent event_type status summary =
     emit_audit_event env cfg
       \<lparr>wa_mission = Some mid, wa_agent = Some agent, wa_event_type = event_type, wa_status = status,
        wa_object_type = ''agent_execution'', wa_object_id = agent, wa_tool = None, wa_summary = summary\<rparr>"

definition audit_report :: "pod_worker_env \<Rightarrow> pod_config \<Rightarrow> string \<Rightarrow> string \<Rightarrow> string \<Rightarrow> pydict \<Rightarrow> unit pprog" where
  "audit_report env cfg mid agent knowledge_id summary =
     emit_audit_event env cfg
       \<lparr>wa_mission = Some mid, wa_agent = Some agent, wa_event_type = ''AGENT_REPORT_PERSISTED'', wa_status = ''SUCCESS'',
        wa_object_type = ''knowledge'', wa_object_id = knowledge_id, wa_tool = None, wa_summary = summary\<rparr>"

definition agent_payload :: "pydict \<Rightarrow> pydict list option \<Rightarrow> pydict" where
  "agent_payload payload nodes =
     (case nodes of None \<Rightarrow> payload | Some ns \<Rightarrow> dset ''logicnodes'' (PList (map PDict ns)) payload)"

definition run_agent_pipeline ::
  "pod_worker_env \<Rightarrow> pod_config \<Rightarrow> string \<Rightarrow> string \<Rightarrow> string \<Rightarrow> pydict \<Rightarrow> pydict list option
     \<Rightarrow> (pipeline \<times> pydict list) pprog" where
  "run_agent_pipeline env cfg event_type mid agent payload nodes = (\<lambda>w.
     (rbind (we_pipeline env agent mid (agent_payload payload nodes)) (\<lambda>p.
        rbind (extract_logicnodes_from_agent_result p) (\<lambda>ns. Inr (p, ns))),
      w\<lparr>pw_runs := pw_runs w @ [(event_type, pc_pod_name cfg, mid)]\<rparr>))"

text \<open>\<open>try: m except Exception as exc: await h(exc); raise\<close>\<close>

definition on_error :: "'a pprog \<Rightarrow> (exc \<Rightarrow> unit pprog) \<Rightarrow> 'a pprog" where
  "on_error m h = (\<lambda>w. case m w of (Inl e, w') \<Rightarrow> bnd (h e) (\<lambda>_. lift_res (Inl e)) w' | (Inr x, w') \<Rightarrow> (Inr x, w'))"

definition execute_agent ::
  "pod_worker_env \<Rightarrow> pod_config \<Rightarrow> string \<Rightarrow> string \<Rightarrow> string \<Rightarrow> pydict \<Rightarrow> pydict \<Rightarrow> pydict list option
     \<Rightarrow> (pipeline \<times> pydict list) pprog" where
  "execute_agent env cfg event_type mid agent extra payload nodes =
     bnd (audit_execution env cfg mid agent ''AGENT_EXECUTION_STARTED'' ''STARTED''
            ([(''agent_id'', PStr agent), (''event_type'', PStr event_type)] @ extra)) (\<lambda>_.
       on_error (run_agent_pipeline env cfg event_type mid agent payload nodes)
         (\<lambda>e. audit_execution env cfg mid agent ''AGENT_EXECUTION_COMPLETED'' ''ERROR''
                ([(''agent_id'', PStr agent)] @ extra @ [(''error'', PStr (we_error_text env e))])))"

definition post_knowledge ::
  "pod_worker_env \<Rightarrow> pod_config \<Rightarrow> string \<Rightarrow> string \<Rightarrow> string \<Rightarrow> pyval \<Rightarrow> pydict \<Rightarrow> unit pprog" where
  "post_knowledge env cfg mid agent knowledge_id summary md =
     bnd (request env cfg (PostTo ''/internal/knowledge''
            [(''mission_id'', PStr mid), (''knowledge_id'', PStr knowledge_id),
             (''content'', PDict [(''summary'', summary), (''metadata'', PDict md)])]) (Some agent)) (\<lambda>_. ret ())"

definition state_event :: "pod_config \<Rightarrow> string \<Rightarrow> string \<Rightarrow> pyval \<Rightarrow> string \<Rightarrow> pydict" where
  "state_event cfg mid event_type st agent =
     [(''mission_id'', PStr mid), (''pod_name'', PStr (pc_pod_name cfg)), (''event_type'', PStr event_type),
      (''state'', st), (''agent_id'', PStr agent)]"

section \<open>The pod manager\<close>

text \<open>After the claim: the manager's pipeline, its report and the event of the assignment.\<close>

definition manage_mission :: "pod_worker_env \<Rightarrow> pod_config \<Rightarrow> string \<Rightarrow> string \<Rightarrow> pydict \<Rightarrow> pyval \<Rightarrow> unit pprog" where
  "manage_mission env cfg mid agent payload md =
     (let event_type = ''MISSION_POD_MANAGER_ASSIGNED''; kid = pc_pod_name cfg @ ''.pod-manager.'' @ mid in
      bnd (execute_agent env cfg event_type mid agent []
             (merge_dict payload
                [(''pod_manager_agent_id'', PStr agent),
                 (''specialist_agent_id'', dget (dict_or_empty md) ''assigned_specialist_agent_id''),
                 (''requested_target_language'', PStr (target_language_of payload))]) None) (\<lambda>(p, _).
      bnd (audit_execution env cfg mid agent ''AGENT_EXECUTION_COMPLETED'' ''SUCCESS''
             [(''agent_id'', PStr agent), (''category'', PStr (pl_category p)),
              (''validation'', PDict (summarize_mapping (PDict (pl_validation p))))]) (\<lambda>_.
      bnd (post_knowledge env cfg mid agent kid
             (dget_or (pl_report p) ''summary'' (PStr (agent @ '' accepted pod assignment.'')))
             [(''pod_name'', PStr (pc_pod_name cfg)), (''source'', PStr ''pod-worker''), (''agent_id'', PStr agent),
              (''agent_category'', PStr (pl_category p)), (''validation'', PDict (pl_validation p)),
              (''report'', PDict (pl_report p))]) (\<lambda>_.
      bnd (audit_report env cfg mid agent kid [(''agent_id'', PStr agent), (''category'', PStr ''pod_manager'')]) (\<lambda>_.
      bnd (publish_event env cfg (''cluster.assigned.'' @ pc_pod_name cfg) mid
             (state_event cfg mid ''MISSION_POD_ASSIGNED'' (dget_or payload ''state'' (PStr ''POD_ASSIGNED'')) agent)) (\<lambda>_.
      bnd (post_agent_heartbeat env cfg (Some agent) (Some mid) ''ACTIVE'' 0 28
             [(''event_type'', PStr event_type), (''status'', PStr ''complete'')]) (\<lambda>_. ret ())))))))"

definition handle_pod_manager_assignment :: "pod_worker_env \<Rightarrow> pod_config \<Rightarrow> pydict \<Rightarrow> unit pprog" where
  "handle_pod_manager_assignment env cfg payload =
     (let mid = payload_mission payload in
      if mid = [] \<or> \<not> mission_targets_supported_language cfg (target_language_of payload) then ret ()
      else bnd (mission_matches_agent_binding env cfg mid payload) (\<lambda>bound. if \<not> bound then ret () else
      bnd (fetch_mission_snapshot env cfg mid) (\<lambda>snapshot. let md = snapshot_metadata snapshot in
      bnd (resolve_agent_id env cfg mid payload md ''MISSION_POD_MANAGER_ASSIGNED'') (\<lambda>agent.
      if agent = ''UNBOUND'' then ret () else
      bnd (post_agent_heartbeat env cfg (Some agent) (Some mid) ''RUNNING'' 1 44
             [(''event_type'', PStr ''MISSION_POD_MANAGER_ASSIGNED'')]) (\<lambda>_.
      bnd (has_assignment env cfg mid) (\<lambda>assigned. if assigned then ret () else
      bnd (claim_mission env cfg mid agent ''pod-manager-routing'') (\<lambda>status.
      if status \<ge> 400 then ret () else manage_mission env cfg mid agent payload md)))))))"

section \<open>The specialists\<close>

definition source_code_of :: "pydict \<Rightarrow> pyval \<Rightarrow> pyval" where
  "source_code_of payload md =
     py_or (dget payload ''source_code'') (py_or (dget (dict_or_empty md) ''source_code'') (PStr []))"

definition source_file_of :: "pydict \<Rightarrow> pyval \<Rightarrow> pyval \<Rightarrow> string" where
  "source_file_of payload md source_code =
     py_str (py_or (dget payload ''source_file'') (py_or (dget (dict_or_empty md) ''source_file'') source_code))"

definition extraction_language_of :: "pydict \<Rightarrow> string" where
  "extraction_language_of payload = or_text (target_language_of payload) ''python''"

text \<open>The extraction: the summary for the report and the nodes, a routing stub when there are none.\<close>

definition extract_nodes ::
  "pod_worker_env \<Rightarrow> pod_config \<Rightarrow> string \<Rightarrow> string \<Rightarrow> pydict \<Rightarrow> pyval \<Rightarrow> pyval \<Rightarrow> (pydict \<times> pydict list) pprog" where
  "extract_nodes env cfg mid agent payload md source_code =
     (let target = target_language_of payload; lang = extraction_language_of payload;
          focus = focus_domains_for_pod cfg md
      in bnd (fetch_doc_context env cfg mid lang) (\<lambda>doc.
         bnd (lift_res
               (if \<not> truthy source_code then Inr ([(''language'', PStr lang), (''concepts_found'', PInt 0)], [])
                else rbind (we_extract env lang source_code focus doc) (\<lambda>ex.
                     rbind (logicnodes_from_extraction env cfg mid target lang (ex_concepts ex)
                              (source_file_of payload md source_code) agent (ex_functions ex)) (\<lambda>nodes.
                     Inr (dset ''doc_context_ready'' (PBool (doc \<noteq> None))
                            (dset ''focus_domains'' (PList (map PStr focus)) (ex_summary ex)), nodes)))))
           (\<lambda>(summary, nodes).
              let nodes = (if nodes = [] then [routing_stub_logicnode env cfg mid lang target agent] else nodes)
              in ret (summary, map (dset ''agent_id'' (PStr agent)) nodes))))"

definition handoff_refined_ir :: "pod_worker_env \<Rightarrow> pod_config \<Rightarrow> string \<Rightarrow> pydict \<Rightarrow> unit pprog" where
  "handoff_refined_ir env cfg mid ir_module =
     attempt (bnd (request env cfg (PostTo (''/internal/missions/'' @ mid @ ''/refined-ir'')
       [(''projection_method'', dget ir_module ''projection_method''), (''module'', dget ir_module ''module''),
        (''fns'', dget_or ir_module ''fns'' (PList []))]) None) (\<lambda>_. ret ())) ()"

text \<open>The record of a written module: path, commit and digest, or the error; \<open>None\<close> without a store.\<close>

definition store_refined_ir :: "pod_worker_env \<Rightarrow> pod_config \<Rightarrow> pydict \<Rightarrow> (pydict \<times> string) option" where
  "store_refined_ir env cfg ir_module =
     (if pc_ir_store cfg = [] then None
      else case we_write_ir env ir_module of
             Inr record \<Rightarrow> Some (record, ''SUCCESS'')
           | Inl e \<Rightarrow> Some ([(''error'', PStr (we_error_text env e))], ''ERROR''))"

definition refine :: "pod_worker_env \<Rightarrow> pod_config \<Rightarrow> string \<Rightarrow> string \<Rightarrow> pydict \<Rightarrow> pydict list \<Rightarrow> string \<Rightarrow> string
     \<Rightarrow> (pydict \<times> pydict option) pprog" where
  "refine env cfg mid agent payload nodes source_ref object_id =
     (let lang = extraction_language_of payload in
      bnd (lift_res (we_refined_ir env mid agent lang (or_text (target_language_of payload) lang) nodes source_ref)) (\<lambda>ir_module.
      let stored = store_refined_ir env cfg ir_module in
      bnd (handoff_refined_ir env cfg mid ir_module) (\<lambda>_.
      bnd (case stored of
             None \<Rightarrow> ret ()
           | Some (record, status) \<Rightarrow> emit_audit_event env cfg
               \<lparr>wa_mission = Some mid, wa_agent = Some agent, wa_event_type = ''TOOL_REFINED_IR_WRITTEN'', wa_status = status,
                wa_object_type = ''refined_ir'', wa_object_id = object_id, wa_tool = Some ''refined_ir'', wa_summary = record\<rparr>)
        (\<lambda>_. ret (ir_module, map_option fst stored)))))"

definition node_request :: "pod_worker_env \<Rightarrow> pod_config \<Rightarrow> string \<Rightarrow> string \<Rightarrow> pydict \<Rightarrow> string \<Rightarrow> pydict \<Rightarrow> pydict res" where
  "node_request env cfg mid agent payload pid logicnode =
     (let node_id = or_text (py_strip (py_str (dget_or logicnode ''node_id'' (PStr []))))
            (pc_pod_name cfg @ ''.core.'' @ mid @ (if pid = [] then [] else ''.'' @ pid));
          node = coerce_schema_node env cfg logicnode node_id (extraction_language_of payload) (target_language_of payload) agent
      in rbind (if pid = [] then Inr node
                else if \<not> dhas node ''payload'' then Inl KeyError
                else case dget node ''payload'' of
                       PDict p \<Rightarrow> Inr (dset ''payload'' (PDict (dset ''partition_id'' (PStr pid) p)) node)
                     | _ \<Rightarrow> Inl TypeError)
           (\<lambda>node. Inr [(''mission_id'', PStr mid), (''node_id'', PStr node_id), (''node'', PDict node)]))"

fun post_logicnodes ::
  "pod_worker_env \<Rightarrow> pod_config \<Rightarrow> string \<Rightarrow> string \<Rightarrow> pydict \<Rightarrow> string \<Rightarrow> pydict list \<Rightarrow> unit pprog" where
  "post_logicnodes env cfg mid agent payload pid [] = ret ()"
| "post_logicnodes env cfg mid agent payload pid (n # ns) =
     bnd (lift_res (node_request env cfg mid agent payload pid n)) (\<lambda>body.
     bnd (request env cfg (PostTo ''/internal/logicnodes'' body) (Some agent)) (\<lambda>_.
       post_logicnodes env cfg mid agent payload pid ns))"

definition report_metadata :: "pod_config \<Rightarrow> string \<Rightarrow> pipeline \<Rightarrow> pydict \<Rightarrow> pydict \<Rightarrow> pydict option \<Rightarrow> pydict \<Rightarrow> pydict" where
  "report_metadata cfg agent p summary ir_module stored extra =
     [(''pod_name'', PStr (pc_pod_name cfg)), (''source'', PStr ''pod-worker'')] @ extra @
     [(''extraction'', PDict summary), (''agent_id'', PStr agent), (''agent_category'', PStr (pl_category p)),
      (''agent_result'', PDict (pl_result p)), (''validation'', PDict (pl_validation p)), (''report'', PDict (pl_report p)),
      (''refined_ir_module'', PDict ir_module),
      (''refined_ir_store'', (case stored of None \<Rightarrow> PNone | Some r \<Rightarrow> PDict r))]"

text \<open>The report of a running mission, after its pipeline.\<close>

definition report_mission ::
  "pod_worker_env \<Rightarrow> pod_config \<Rightarrow> string \<Rightarrow> string \<Rightarrow> pydict \<Rightarrow> pydict \<Rightarrow> pipeline \<Rightarrow> pydict list \<Rightarrow> unit pprog" where
  "report_mission env cfg mid agent payload summary p nodes =
     (let event_type = ''MISSION_RUNNING''; kid = pc_pod_name cfg @ ''.assignment.'' @ mid in
      bnd (refine env cfg mid agent payload nodes (''mission://'' @ mid) mid) (\<lambda>(ir_module, stored).
      bnd (post_logicnodes env cfg mid agent payload [] nodes) (\<lambda>_.
      bnd (post_knowledge env cfg mid agent kid
             (dget_or (pl_report p) ''summary'' (PStr (pc_pod_name cfg @ '' accepted mission for specialist routing.'')))
             (report_metadata cfg agent p summary ir_module stored [])) (\<lambda>_.
      bnd (lift_res (py_len (py_or (dget_or (pl_result p) ''artifacts'' (PList [])) (PList [])))) (\<lambda>artifacts.
      bnd (audit_report env cfg mid agent kid
             [(''agent_id'', PStr agent), (''logicnode_count'', PInt (int (length nodes))), (''artifact_count'', PInt artifacts)]) (\<lambda>_.
      bnd (audit_execution env cfg mid agent ''AGENT_EXECUTION_COMPLETED'' ''SUCCESS''
             [(''agent_id'', PStr agent), (''category'', PStr (pl_category p)), (''logicnode_count'', PInt (int (length nodes))),
              (''validation'', PDict (summarize_mapping (PDict (pl_validation p))))]) (\<lambda>_.
      bnd (publish_event env cfg (''cluster.assigned.'' @ pc_pod_name cfg) mid
             (state_event cfg mid ''MISSION_POD_ASSIGNED'' (dget_or payload ''state'' (PStr ''RUNNING'')) agent)) (\<lambda>_.
      bnd (publish_event env cfg ''pod.standard.ready'' mid
             (state_event cfg mid ''POD_READY'' (dget_or payload ''state'' (PStr ''RUNNING'')) agent)) (\<lambda>_.
      bnd (post_agent_heartbeat env cfg (Some agent) (Some mid) ''ACTIVE'' 0 24
             [(''event_type'', PStr event_type), (''status'', PStr ''complete'')]) (\<lambda>_. ret ()))))))))))"

definition run_mission :: "pod_worker_env \<Rightarrow> pod_config \<Rightarrow> string \<Rightarrow> string \<Rightarrow> pydict \<Rightarrow> pyval \<Rightarrow> unit pprog" where
  "run_mission env cfg mid agent payload md =
     (let source_code = source_code_of payload md in
      bnd (extract_nodes env cfg mid agent payload md source_code) (\<lambda>(summary, nodes).
      bnd (execute_agent env cfg ''MISSION_RUNNING'' mid agent []
             (merge_dict payload
                [(''source_payload'', source_code), (''requested_target_language'', PStr (extraction_language_of payload)),
                 (''agent_id'', PStr agent)]) (Some nodes)) (\<lambda>(p, agent_nodes).
        report_mission env cfg mid agent payload summary p (if agent_nodes \<noteq> [] then agent_nodes else nodes))))"

text \<open>Scaled missions are left to their partitions.\<close>

definition scaled_out :: "pyval \<Rightarrow> bool res" where
  "scaled_out md =
     (case md of
        PDict d \<Rightarrow>
          if dget d ''scaling_active'' = PBool True \<and> is_dict (dget d ''scaling_decision'')
          then rbind (py_int (dget_or (dict_or_empty (dget d ''scaling_decision'')) ''instance_count'' (PInt 1))) (\<lambda>n. Inr (n > 1))
          else Inr False
      | _ \<Rightarrow> Inr False)"

definition handle_running_mission :: "pod_worker_env \<Rightarrow> pod_config \<Rightarrow> pydict \<Rightarrow> unit pprog" where
  "handle_running_mission env cfg payload =
     (let mid = payload_mission payload in
      if mid = [] \<or> \<not> mission_targets_supported_language cfg (target_language_of payload) then ret ()
      else bnd (mission_matches_agent_binding env cfg mid payload) (\<lambda>bound. if \<not> bound then ret () else
      bnd (has_assignment env cfg mid) (\<lambda>assigned.
      bnd (fetch_mission_snapshot env cfg mid) (\<lambda>snapshot. let md = snapshot_metadata snapshot in
      bnd (resolve_agent_id env cfg mid payload md ''MISSION_RUNNING'') (\<lambda>agent.
      bnd (lift_res (scaled_out md)) (\<lambda>scaled. if scaled then ret () else
      bnd (post_agent_heartbeat env cfg (Some agent) (Some mid) ''RUNNING'' 1 56
             [(''event_type'', PStr ''MISSION_RUNNING'')]) (\<lambda>_.
      bnd (if assigned then ret 200 else claim_mission env cfg mid agent ''language-match'') (\<lambda>status.
      if status \<ge> 400 \<and> status \<noteq> 409 then ret () else run_mission env cfg mid agent payload md))))))))"

text \<open>The subset of a bundle that is not text makes the search of the pattern raise.\<close>

definition partition_source :: "pyval \<Rightarrow> string list \<Rightarrow> pyval res" where
  "partition_source source_code items =
     (case source_code of PStr s \<Rightarrow> Inr (PStr (subset_source_bundle s items)) | _ \<Rightarrow> Inl AttributeError)"

definition partition_report ::
  "pod_config \<Rightarrow> string \<Rightarrow> pipeline \<Rightarrow> pydict list \<Rightarrow> pydict list \<Rightarrow> pydict list \<times> pydict list" where
  "partition_report cfg pid p agent_nodes final_nodes =
     (apply_partition_suffix cfg (if agent_nodes \<noteq> [] then agent_nodes else final_nodes) pid,
      map dict_or_empty (filter is_dict (list_or_empty (dget (pl_result p) ''artifacts''))))"

definition report_partition ::
  "pod_worker_env \<Rightarrow> pod_config \<Rightarrow> string \<Rightarrow> string \<Rightarrow> pydict \<Rightarrow> pydict \<Rightarrow> pipeline \<Rightarrow> pydict list \<Rightarrow> pydict list \<Rightarrow> unit pprog" where
  "report_partition env cfg mid agent payload summary p agent_nodes extracted =
     (let pid = partition_id payload; items = partition_assigned_items payload;
          kid = pc_pod_name cfg @ ''.partition.'' @ pid @ ''.'' @ mid;
          nodes = apply_partition_suffix cfg (if agent_nodes \<noteq> [] then agent_nodes else extracted) pid;
          (part_nodes, artifacts) = partition_report cfg pid p agent_nodes nodes;
          part = (''partition_id'', PStr pid)
      in
      bnd (refine env cfg mid agent payload nodes (''mission://'' @ mid @ ''/partitions/'' @ pid) (mid @ '':'' @ pid)) (\<lambda>(ir_module, stored).
      bnd (post_logicnodes env cfg mid agent payload pid nodes) (\<lambda>_.
      bnd (post_knowledge env cfg mid agent kid
             (dget_or (pl_report p) ''summary'' (PStr (pc_pod_name cfg @ '' completed partition '' @ pid @ ''.'')))
             (report_metadata cfg agent p summary ir_module stored [part, (''assigned_items'', PList (map PStr items))])) (\<lambda>_.
      bnd (audit_report env cfg mid agent kid
             [(''agent_id'', PStr agent), part, (''artifact_count'', PInt (int (length artifacts)))]) (\<lambda>_.
      bnd (lift_res (py_int (dget_or (partition_payload payload) ''instance_index'' (PInt 0)))) (\<lambda>instance_index.
      bnd (request env cfg (PostTo (''/internal/missions/'' @ mid @ ''/partition-results'')
             [part, (''instance_index'', PInt instance_index), (''agent_id'', PStr agent),
              (''logicnodes'', PList (map PDict part_nodes)), (''artifacts'', PList (map PDict artifacts)),
              (''report'', PDict (pl_report p))]) (Some agent)) (\<lambda>_.
      bnd (audit_execution env cfg mid agent ''AGENT_EXECUTION_COMPLETED'' ''SUCCESS''
             [(''agent_id'', PStr agent), part, (''logicnode_count'', PInt (int (length part_nodes))),
              (''artifact_count'', PInt (int (length artifacts))),
              (''validation'', PDict (summarize_mapping (PDict (pl_validation p))))]) (\<lambda>_.
      bnd (publish_event env cfg ''pod.standard.ready'' mid
             (state_event cfg mid ''MISSION_PARTITION_COMPLETE'' (dget_or payload ''state'' (PStr ''RUNNING'')) agent @ [part])) (\<lambda>_.
      bnd (post_agent_heartbeat env cfg (Some agent) (Some mid) ''ACTIVE'' 0 18
             [(''event_type'', PStr ''MISSION_PARTITION_READY''), part, (''status'', PStr ''complete'')]) (\<lambda>_. ret ()))))))))))"

definition run_partition :: "pod_worker_env \<Rightarrow> pod_config \<Rightarrow> string \<Rightarrow> string \<Rightarrow> pydict \<Rightarrow> pyval \<Rightarrow> unit pprog" where
  "run_partition env cfg mid agent payload md =
     (let pid = partition_id payload; items = partition_assigned_items payload in
      bnd (lift_res (partition_source (source_code_of payload md) items)) (\<lambda>source_code.
      bnd (extract_nodes env cfg mid agent payload md source_code) (\<lambda>(summary, nodes).
      bnd (execute_agent env cfg ''MISSION_PARTITION_READY'' mid agent [(''partition_id'', PStr pid)]
             (merge_dict payload
                [(''source_payload'', source_code), (''requested_target_language'', PStr (extraction_language_of payload)),
                 (''agent_id'', PStr agent), (''partition_id'', PStr pid), (''partition_items'', PList (map PStr items))])
             (Some nodes)) (\<lambda>(p, agent_nodes).
        report_partition env cfg mid agent payload summary p agent_nodes nodes))))"

definition handle_partition_ready :: "pod_worker_env \<Rightarrow> pod_config \<Rightarrow> pydict \<Rightarrow> unit pprog" where
  "handle_partition_ready env cfg payload =
     (let mid = payload_mission payload; pid = partition_id payload in
      if mid = [] \<or> pid = [] \<or> \<not> mission_targets_supported_language cfg (target_language_of payload) then ret ()
      else bnd (mission_matches_agent_binding env cfg mid payload) (\<lambda>bound. if \<not> bound then ret () else
      bnd (fetch_mission_snapshot env cfg mid) (\<lambda>snapshot. let md = snapshot_metadata snapshot in
      bnd (resolve_agent_id env cfg mid payload md ''MISSION_RUNNING'') (\<lambda>agent.
      if agent = ''UNBOUND'' then ret () else
      bnd (post_agent_heartbeat env cfg (Some agent) (Some mid) ''RUNNING'' 1 64
             [(''event_type'', PStr ''MISSION_PARTITION_READY''), (''partition_id'', PStr pid)]) (\<lambda>_.
        run_partition env cfg mid agent payload md)))))"

section \<open>The consumer\<close>

record stream_entry =
  se_id :: string
  se_envelope :: "string option"
  se_payload :: "string option"

definition handle_state_event :: "pod_worker_env \<Rightarrow> pod_config \<Rightarrow> pydict \<Rightarrow> unit pprog" where
  "handle_state_event env cfg payload =
     (let event_type = py_str (dget_or payload ''event_type'' (PStr [])) in
      if event_type = ''MISSION_POD_MANAGER_ASSIGNED'' then handle_pod_manager_assignment env cfg payload
      else if event_type = ''MISSION_RUNNING'' then handle_running_mission env cfg payload
      else if event_type = ''MISSION_PARTITION_READY'' then handle_partition_ready env cfg payload
      else ret ())"

definition read_entry :: "pod_worker_env \<Rightarrow> stream_entry \<Rightarrow> pydict res" where
  "read_entry env e =
     (case (truthy_text (se_envelope e), truthy_text (se_payload e)) of
        (Some envelope_raw, Some payload_raw) \<Rightarrow>
          rbind (case we_loads env envelope_raw of
                   None \<Rightarrow> Inl ValueError
                 | Some (PDict envelope) \<Rightarrow> validate_envelope (we_schema_ok env) (we_date_ok env) (we_topics env) envelope
                 | Some _ \<Rightarrow> Inl ProtocolValidationError) (\<lambda>_.
            case we_loads env payload_raw of
              None \<Rightarrow> Inl ValueError
            | Some (PDict payload) \<Rightarrow> Inr payload
            | Some _ \<Rightarrow> Inl AttributeError)
      | _ \<Rightarrow> Inl ProtocolValidationError)"

definition process_entry :: "pod_worker_env \<Rightarrow> pod_config \<Rightarrow> stream_entry \<Rightarrow> unit pprog" where
  "process_entry env cfg e = bnd (lift_res (read_entry env e)) (handle_state_event env cfg)"

definition dead_letter :: "pod_worker_env \<Rightarrow> pod_config \<Rightarrow> stream_entry \<Rightarrow> exc \<Rightarrow> pydict" where
  "dead_letter env cfg e err =
     [(''error'', PStr (we_error_text env err)), (''entry_id'', PStr (se_id e)), (''pod_name'', PStr (pc_pod_name cfg)),
      (''envelope'', PStr (case se_envelope e of None \<Rightarrow> [] | Some s \<Rightarrow> s)),
      (''payload'', PStr (case se_payload e of None \<Rightarrow> [] | Some s \<Rightarrow> s)), (''ts'', PStr (we_stamp env))]"

definition pod_write_dlq :: "pod_worker_env \<Rightarrow> pod_config \<Rightarrow> stream_entry \<Rightarrow> exc \<Rightarrow> bool pprog" where
  "pod_write_dlq env cfg e err =
     attempt (on_redis env (\<lambda>w. (Inr True, w\<lparr>pw_dead := pw_dead w @ [dead_letter env cfg e err]\<rparr>))) False"

definition pod_xack :: "pod_worker_env \<Rightarrow> stream_entry \<Rightarrow> unit pprog" where
  "pod_xack env e = on_redis env (\<lambda>w. (Inr (), w\<lparr>pw_acked := pw_acked w @ [se_id e]\<rparr>))"

text \<open>Both \<open>except\<close> clauses write the dead letter; a failing acknowledgement leaves the consumer loop.\<close>

definition consume_entry :: "pod_worker_env \<Rightarrow> pod_config \<Rightarrow> stream_entry \<Rightarrow> unit pprog" where
  "consume_entry env cfg e = (\<lambda>w.
     case process_entry env cfg e w of
       (Inr _, w') \<Rightarrow> pod_xack env e w'
     | (Inl err, w') \<Rightarrow> bnd (pod_write_dlq env cfg e err) (\<lambda>written. if written then pod_xack env e else ret ()) w')"

fun consume_entries :: "pod_worker_env \<Rightarrow> pod_config \<Rightarrow> stream_entry list \<Rightarrow> unit pprog" where
  "consume_entries env cfg [] = ret ()"
| "consume_entries env cfg (e # es) = bnd (consume_entry env cfg e) (\<lambda>_. consume_entries env cfg es)"

section \<open>Claims over all interleavings\<close>

abbreviation holder :: "pod_world \<Rightarrow> string \<Rightarrow> string option" where
  "holder w \<equiv> claim_holder (ps_pods (pw_store w))"

text \<open>A claim stays with its holder, and a manager's run that starts on the way starts for the holder.\<close>

definition claims_kept :: "pod_world \<Rightarrow> pod_world \<Rightarrow> bool" where
  "claims_kept w w' \<longleftrightarrow>
     (\<forall>m p. holder w m = Some p \<longrightarrow> holder w' m = Some p)
     \<and> (\<exists>runs. pw_runs w' = pw_runs w @ runs
          \<and> (\<forall>(ev, pod, m) \<in> set runs. ev = ''MISSION_POD_MANAGER_ASSIGNED'' \<longrightarrow> holder w' m = Some pod))"

interpretation claims: preorder_rel claims_kept
proof
  show "claims_kept w w" for w by (simp add: claims_kept_def)
next
  fix u v w assume "claims_kept u v" "claims_kept v w"
  then show "claims_kept u w" unfolding claims_kept_def
    by (elim conjE exE, intro conjI) (blast, rule_tac x = "runs @ runsa" in exI, auto)
qed

lemma claims_keptI:
  "(\<And>m p. holder w m = Some p \<Longrightarrow> holder w' m = Some p) \<Longrightarrow> pw_runs w' = pw_runs w \<Longrightarrow> claims_kept w w'"
  by (simp add: claims_kept_def)

text \<open>Other pods and the orchestrator write only through the two statements, and no claim calls itself the
  orchestrator's; the missions they touch are arbitrary.\<close>

definition statements_only :: "(pod_db \<Rightarrow> pod_db) \<Rightarrow> bool" where
  "statements_only f \<longleftrightarrow>
     (\<forall>db. \<exists>xs ms. list_all honest_write xs \<and> f db = (run_statements xs db)\<lparr>pd_missions := ms\<rparr>)"

definition honest_env :: "pod_worker_env \<Rightarrow> bool" where
  "honest_env env \<longleftrightarrow> (\<forall>t. statements_only (we_others env t) \<and> statements_only (pe_between (we_server env t)))"

fun honest_call :: "api_call \<Rightarrow> bool" where
  "honest_call (PostAssignment mid pod md) \<longleftrightarrow> dget md ''assigned_by'' \<noteq> PStr PROVISIONAL_ASSIGNED_BY"
| "honest_call _ = True"

lemma claim_holder_missions [simp]: "claim_holder (db\<lparr>pd_missions := ms\<rparr>) = claim_holder db"
  by (simp add: claim_holder_def fun_eq_iff)

lemma statements_keep:
  assumes "statements_only f" and "claim_holder db m = Some p"
  shows "claim_holder (f db) m = Some p"
proof -
  from assms(1) obtain xs ms where "list_all honest_write xs" and "f db = (run_statements xs db)\<lparr>pd_missions := ms\<rparr>"
    unfolding statements_only_def by blast
  then show ?thesis using pods.kept_all [OF assms(2)] by (simp add: run_statements_def)
qed

lemma upsert_as_statement:
  "upsert_pod_assignment iso_text now between False mid pod md t db =
     (let x = \<lparr>pw_now = now, pw_provisional = False, pw_mission = mid, pw_pod = pod, pw_metadata = md, pw_assigned_at = t\<rparr> in
      if fst (run_statement x db)
      then (Inr (assignment_document iso_text mid \<lparr>as_pod = pod, as_metadata = md, as_assigned_at = t, as_updated_at = now\<rparr>),
            snd (run_statement x db))
      else if map_of (pd_rows db) mid = None then (Inl ForeignKeyViolation, db)
      else (case get_pod_assignment iso_text (between db) mid of
              None \<Rightarrow> (Inl RuntimeError, between db)
            | Some existing \<Rightarrow> (Inl (PodAssignmentConflictError existing), between db)))"
  by (auto simp: upsert_pod_assignment_def run_statement_def upsert_statement_def Let_def split: option.splits)

lemma upsert_keeps_claims:
  assumes "statements_only between" and "dget md ''assigned_by'' \<noteq> PStr PROVISIONAL_ASSIGNED_BY"
    and "upsert_pod_assignment iso_text now between False mid pod md t db = (r, db')"
  shows "claim_holder db m = Some p \<Longrightarrow> claim_holder db' m = Some p"
    and "r = Inr record \<Longrightarrow> claim_holder db' mid = Some pod"
proof -
  let ?x = "\<lparr>pw_now = now, pw_provisional = False, pw_mission = mid, pw_pod = pod, pw_metadata = md, pw_assigned_at = t\<rparr>"
  have x: "honest_write ?x" "claimant ?x = Some pod" using assms(2) by (simp_all add: honest_write_def claimant_def)
  show "claim_holder db m = Some p \<Longrightarrow> claim_holder db' m = Some p"
    using assms(3) pods.kept [OF x(1)] statements_keep [OF assms(1)]
    by (auto simp: upsert_as_statement Let_def split: if_splits option.splits)
  show "r = Inr record \<Longrightarrow> claim_holder db' mid = Some pod"
    using assms(3) pods.claimed [OF x] by (auto simp: upsert_as_statement Let_def split: if_splits option.splits)
qed

lemma audit_assignment_result:
  "audit_assignment env mission agent pod s c w = (r, w') \<Longrightarrow> ps_pods w' = ps_pods w \<and> (\<forall>n. r \<noteq> Inl (HTTPException n))"
  by (auto simp: audit_assignment_def record_audit_event_def Let_def rbind_def split: prod.splits option.splits if_splits sum.splits)

lemma fetch_mission_no_http: "fetch_mission db mid \<noteq> Inl (HTTPException n)"
  by (auto simp: fetch_mission_def row_to_mission_def MissionState_of_def Let_def rbind_def split: option.splits sum.splits)

lemma upsert_no_http: "fst (upsert_pod_assignment iso_text now between prov mid pod md t db) \<noteq> Inl (HTTPException n)"
  by (auto simp: upsert_pod_assignment_def upsert_statement_def Let_def split: option.splits)

lemma post_assignment_error:
  "post_pod_assignment env mid pod md None s = (Inl e, s') \<Longrightarrow> fst (status_of (Inl e)) \<ge> 400"
  using upsert_no_http [of "au_iso (pe_audit env)" "pe_now env" "pe_between env" False mid pod md "pe_now env" "ps_pods s"]
    fetch_mission_no_http [of "pd_missions (ps_pods s)" mid]
  by (cases e) (auto simp: post_pod_assignment_def Let_def dest!: audit_assignment_result
      split: if_splits sum.splits option.splits prod.splits exc.splits)

lemma post_assignment_claims:
  assumes "statements_only (pe_between env)" and "dget md ''assigned_by'' \<noteq> PStr PROVISIONAL_ASSIGNED_BY"
    and "post_pod_assignment env mid pod md None s = (r, s')"
  shows "claim_holder (ps_pods s) m = Some p \<Longrightarrow> claim_holder (ps_pods s') m = Some p"
    and "fst (status_of r) < 400 \<Longrightarrow> claim_holder (ps_pods s') mid = Some pod"
proof -
  obtain u db where u: "upsert_pod_assignment (au_iso (pe_audit env)) (pe_now env) (pe_between env) False mid pod md
      (pe_now env) (ps_pods s) = (u, db)" by fastforce
  note up = upsert_keeps_claims [OF assms(1,2) u]
  show "claim_holder (ps_pods s) m = Some p \<Longrightarrow> claim_holder (ps_pods s') m = Some p"
    using assms(3) up(1) u
    by (auto simp: post_pod_assignment_def Let_def dest!: audit_assignment_result
        split: if_splits sum.splits option.splits prod.splits exc.splits)
  show "claim_holder (ps_pods s') mid = Some pod" if "fst (status_of r) < 400"
  proof (cases r)
    case (Inl e)
    with that post_assignment_error assms(3) show ?thesis by fastforce
  next
    case (Inr doc)
    then show ?thesis using assms(3) up(2) u
      by (auto simp: post_pod_assignment_def Let_def dest!: audit_assignment_result
          split: if_splits sum.splits option.splits prod.splits exc.splits)
  qed
qed

lemma holder_others:
  "honest_env env \<Longrightarrow> holder w m = Some p \<Longrightarrow> holder ((others env t w)\<lparr>pw_clock := c\<rparr>) m = Some p"
  by (simp add: others_def honest_env_def statements_keep)

lemma serve_claims_kept:
  assumes "honest_env env" and "honest_call call"
  shows "claims_kept w (snd (serve env call w))"
proof (cases call)
  case (PostAssignment mid pod md)
  then show ?thesis using assms post_assignment_claims(1) [of "we_server env (pw_clock w)" md mid pod "pw_store w"]
    by (intro claims_keptI) (auto simp: honest_env_def split: prod.splits)
qed (auto intro!: claims_keptI split: sum.splits option.splits)

lemma attempt_claims_kept:
  assumes "honest_env env" and "honest_call call"
  shows "claims_kept w (snd (send_attempt env call w))"
proof -
  let ?w = "(others env (pw_clock w) w)\<lparr>pw_clock := Suc (pw_clock w)\<rparr>"
  have 1: "claims_kept w ?w" using holder_others [OF assms(1)] by (intro claims_keptI) (simp_all add: others_def)
  moreover from 1 serve_claims_kept [OF assms, of ?w] have "claims_kept w (snd (serve env call ?w))"
    by (rule claims.R_trans)
  ultimately show ?thesis
    by (auto simp: send_attempt_def Let_def split: attempt_end.splits prod.splits)
qed

lemma attempts_claims_kept:
  assumes "honest_env env" and "honest_call call"
  shows "claims_kept w (snd (request_attempts env call n seen w))"
proof (induction n arbitrary: seen w)
  case (Suc n)
  obtain lastr failed where seen: "seen = (lastr, failed)" by (cases seen)
  obtain a w' where a: "send_attempt env call w = (a, w')" by fastforce
  with attempt_claims_kept [OF assms, of w] have 1: "claims_kept w w'" by simp
  then have "claims_kept w (snd (request_attempts env call n s w'))" for s using Suc claims.R_trans by blast
  with 1 a show ?case by (auto simp: seen split: option.splits)
qed (simp add: claims.R_refl)

lemma keeps_request_raw [keeps_intros]:
  "honest_env env \<Longrightarrow> honest_call call \<Longrightarrow> keeps claims_kept (request_raw env cfg call agent)"
  unfolding keeps_def request_raw_def using attempts_claims_kept claims.R_refl
  by (auto split: sum.splits prod.splits option.splits) (metis snd_conv)+

lemma keeps_pod_emit [keeps_intros]: "honest_env env \<Longrightarrow> keeps claims_kept (emit_audit_event env cfg a)"
  unfolding emit_audit_event_def Let_def by (intro keeps_intros) simp_all

lemma keeps_audit_call [keeps_intros]: "honest_env env \<Longrightarrow> keeps claims_kept (audit_call env cfg call agent status)"
  unfolding audit_call_def by (intro keeps_intros)

lemma keeps_request [keeps_intros]:
  "honest_env env \<Longrightarrow> honest_call call \<Longrightarrow> keeps claims_kept (request env cfg call agent)"
  unfolding request_def by (intro keeps_intros)

lemma keeps_on_redis:
  "(\<And>w. claims_kept w (snd (m w))) \<Longrightarrow> keeps claims_kept (on_redis env m)"
proof -
  assume m: "\<And>w. claims_kept w (snd (m w))"
  have tick: "claims_kept w (w\<lparr>pw_clock := Suc (pw_clock w)\<rparr>)" for w by (rule claims_keptI) simp_all
  have "claims_kept w (snd (service c m (w\<lparr>pw_clock := Suc (pw_clock w)\<rparr>)))" for w c
    using tick claims.R_trans [OF tick m] by (cases c) (auto simp: service_def)
  then show ?thesis by (simp add: keeps_def on_redis_def)
qed

lemma keeps_pod_publish [keeps_intros]: "keeps claims_kept (publish_event env cfg topic mid payload)"
  unfolding publish_event_def by (intro keeps_intros keeps_on_redis) (rule claims_keptI, simp_all)

lemma keeps_heartbeat [keeps_intros]:
  "honest_env env \<Longrightarrow> keeps claims_kept (post_agent_heartbeat env cfg agent mid st q l md)"
  unfolding post_agent_heartbeat_def by (intro keeps_intros) simp_all

lemma keeps_has_assignment [keeps_intros]: "honest_env env \<Longrightarrow> keeps claims_kept (has_assignment env cfg mid)"
  unfolding has_assignment_def
  by (intro keeps_intros) (auto intro!: keeps_intros split: pyval.splits)

lemma keeps_snapshot [keeps_intros]: "honest_env env \<Longrightarrow> keeps claims_kept (fetch_mission_snapshot env cfg mid)"
  unfolding fetch_mission_snapshot_def
  by (intro keeps_intros) (auto intro!: keeps_intros split: pyval.splits)

lemma keeps_fetch_agent [keeps_intros]: "honest_env env \<Longrightarrow> keeps claims_kept (fetch_mission_agent_id env cfg mid)"
  unfolding fetch_mission_agent_id_def by (intro keeps_intros)

lemma keeps_binding [keeps_intros]: "honest_env env \<Longrightarrow> keeps claims_kept (mission_matches_agent_binding env cfg mid payload)"
  unfolding mission_matches_agent_binding_def by (intro keeps_intros)

lemma keeps_resolve [keeps_intros]: "honest_env env \<Longrightarrow> keeps claims_kept (resolve_agent_id env cfg mid payload md ev)"
  unfolding resolve_agent_id_def by (intro keeps_intros)

lemma attempts_claim:
  assumes "honest_env env" and "dget md ''assigned_by'' \<noteq> PStr PROVISIONAL_ASSIGNED_BY"
    and "request_attempts env (PostAssignment mid pod md) n seen w = ((Some r, failed), w')"
    and "\<And>s. fst seen = Some s \<Longrightarrow> fst s \<ge> 400" and "fst r < 400"
  shows "holder w' mid = Some pod"
  using assms(3,4)
proof (induction n arbitrary: seen w)
  case 0
  then show ?case using assms(5) by fastforce
next
  case (Suc n)
  obtain lastr f where seen: "seen = (lastr, f)" by (cases seen)
  let ?w = "(others env (pw_clock w) w)\<lparr>pw_clock := Suc (pw_clock w)\<rparr>"
  have served: "holder w1 mid = Some pod" if "serve env (PostAssignment mid pod md) ?w = ((st, b), w1)" "st < 400" for st b w1
    using that assms(1,2) post_assignment_claims(2) [of "we_server env (pw_clock ?w)" md mid pod "pw_store ?w"]
    by (auto simp: honest_env_def split: prod.splits)
  obtain a w1 where a: "send_attempt env (PostAssignment mid pod md) w = (a, w1)" by fastforce
  show ?case
  proof (cases a)
    case None
    then show ?thesis using Suc.IH [of "(lastr, True)" w1] Suc.prems a by (simp add: seen)
  next
    case (Some s)
    show ?thesis
    proof (cases "conclusive (fst s)")
      case True
      with Suc.prems a Some have "s = r" "w1 = w'" by (simp_all add: seen)
      with a Some assms(5) served show ?thesis
        by (cases r) (auto simp: send_attempt_def Let_def split: attempt_end.splits prod.splits)
    next
      case False
      then have "400 \<le> fst s" by (auto simp: conclusive_def)
      with False Suc.IH [of "(Some s, f)" w1] Suc.prems a Some show ?thesis by (simp add: seen)
    qed
  qed
qed

lemma claim_mission_holds:
  assumes "honest_env env" and "claim_mission env cfg mid agent reason w = (Inr status, w')" and "status < 400"
  shows "holder w' mid = Some (pc_pod_name cfg)"
proof -
  let ?call = "PostAssignment mid (pc_pod_name cfg) (claim_details cfg agent reason)"
  have details: "dget (claim_details cfg agent reason) ''assigned_by'' \<noteq> PStr PROVISIONAL_ASSIGNED_BY"
    by (simp add: claim_details_def dget_def PROVISIONAL_ASSIGNED_BY_def)
  from assms(2) obtain b where "request env cfg ?call (Some agent) w = (Inr (status, b), w')"
    unfolding claim_mission_def by (elim bnd_result) auto
  then obtain w1 w2 where r: "request_raw env cfg ?call (Some agent) w = (Inr (status, b), w1)"
    and a: "audit_call env cfg ?call (Some agent) status w1 = (Inr (), w2)" and w': "w' = w2"
    unfolding request_def by (elim bnd_result) auto
  have "claims_kept w1 w'"
    using keeps_result [OF keeps_audit_call [OF assms(1)] a] w' by simp
  from r obtain f where "request_attempts env ?call (pc_max_retries cfg) (None, False) w = ((Some (status, b), f), w1)"
    unfolding request_raw_def by (auto split: sum.splits prod.splits option.splits)
  from attempts_claim [OF assms(1) details this] assms(3) have "holder w1 mid = Some (pc_pod_name cfg)" by simp
  with \<open>claims_kept w1 w'\<close> show ?thesis unfolding claims_kept_def by blast
qed

lemma claims_kept_bnd:
  assumes "claims_kept w (snd (m w))" and "\<And>x. keeps claims_kept (f x)"
  shows "claims_kept w (snd (bnd m f w))"
proof (cases "m w")
  case (Pair r w')
  then show ?thesis using assms(1)
    by (cases r) (auto simp: bnd_def intro: claims.R_trans [OF _ keepsD [OF assms(2)]])
qed

lemma run_pipeline_claims:
  "ev \<noteq> ''MISSION_POD_MANAGER_ASSIGNED'' \<or> holder w mid = Some (pc_pod_name cfg) \<Longrightarrow>
   claims_kept w (snd (run_agent_pipeline env cfg ev mid agent payload nodes w))"
  by (auto simp: run_agent_pipeline_def claims_kept_def)

lemma on_error_claims:
  assumes "claims_kept w (snd (m w))" and "\<And>e. keeps claims_kept (h e)"
  shows "claims_kept w (snd (on_error m h w))"
proof (cases "m w")
  case (Pair r w')
  have h: "keeps claims_kept (bnd (h e) (\<lambda>_. lift_res (Inl e)))" for e by (intro keeps_intros assms(2))
  show ?thesis using assms(1) Pair
    by (cases r) (auto simp: on_error_def intro: claims.R_trans [OF _ keepsD [OF h]])
qed

lemma keeps_audit_execution [keeps_intros]:
  "honest_env env \<Longrightarrow> keeps claims_kept (audit_execution env cfg mid agent ev st s)"
  unfolding audit_execution_def by (intro keeps_intros)

lemma keeps_audit_report [keeps_intros]: "honest_env env \<Longrightarrow> keeps claims_kept (audit_report env cfg mid agent kid s)"
  unfolding audit_report_def by (intro keeps_intros)

lemma keeps_knowledge [keeps_intros]: "honest_env env \<Longrightarrow> keeps claims_kept (post_knowledge env cfg mid agent kid s md)"
  unfolding post_knowledge_def by (intro keeps_intros) simp_all

lemma execute_claims:
  assumes "honest_env env" and "ev \<noteq> ''MISSION_POD_MANAGER_ASSIGNED'' \<or> holder w mid = Some (pc_pod_name cfg)"
  shows "claims_kept w (snd (execute_agent env cfg ev mid agent extra payload nodes w))"
proof -
  let ?a = "audit_execution env cfg mid agent ''AGENT_EXECUTION_STARTED'' ''STARTED''
    ([(''agent_id'', PStr agent), (''event_type'', PStr ev)] @ extra)"
  obtain r w1 where a: "?a w = (r, w1)" by fastforce
  have 1: "claims_kept w w1" using keeps_result [OF keeps_audit_execution [OF assms(1)] a] .
  then have "ev \<noteq> ''MISSION_POD_MANAGER_ASSIGNED'' \<or> holder w1 mid = Some (pc_pod_name cfg)"
    using assms(2) by (auto simp: claims_kept_def)
  then have "claims_kept w1 (snd (on_error (run_agent_pipeline env cfg ev mid agent payload nodes) h w1))"
    if "\<And>e. keeps claims_kept (h e)" for h using on_error_claims run_pipeline_claims that by blast
  then show ?thesis using 1 a claims.R_trans [OF 1] keeps_audit_execution [OF assms(1)]
    by (cases r) (simp_all add: execute_agent_def bnd_def)
qed

lemma manage_claims:
  assumes "honest_env env" and "holder w mid = Some (pc_pod_name cfg)"
  shows "claims_kept w (snd (manage_mission env cfg mid agent payload md w))"
  unfolding manage_mission_def Let_def
  by (rule claims_kept_bnd [OF execute_claims]) (use assms in simp, use assms in simp, intro keeps_intros assms(1))

lemma keeps_manager [keeps_intros]:
  assumes "honest_env env"
  shows "keeps claims_kept (handle_pod_manager_assignment env cfg payload)"
proof -
  have "keeps claims_kept (bnd (claim_mission env cfg mid agent reason) (\<lambda>status.
      if status \<ge> 400 then ret () else manage_mission env cfg mid agent payload md))" for mid agent reason md
    unfolding keeps_def
  proof
    fix w
    obtain r w' where c: "claim_mission env cfg mid agent reason w = (r, w')" by fastforce
    have "keeps claims_kept (claim_mission env cfg mid agent reason)"
      unfolding claim_mission_def
      by (intro keeps_intros assms) (simp add: claim_details_def dget_def PROVISIONAL_ASSIGNED_BY_def)
    from keeps_result [OF this c] have 1: "claims_kept w w'" .
    show "claims_kept w (snd (bnd (claim_mission env cfg mid agent reason) (\<lambda>status.
      if status \<ge> 400 then ret () else manage_mission env cfg mid agent payload md) w))"
    proof (cases r)
      case (Inr status)
      show ?thesis
      proof (cases "status < 400")
        case True
        with manage_claims [OF assms claim_mission_holds [OF assms c [unfolded Inr]]] 1 show ?thesis
          by (auto simp: bnd_def c Inr intro: claims.R_trans)
      qed (use 1 in \<open>simp add: bnd_def c Inr\<close>)
    qed (use 1 in \<open>simp add: bnd_def c\<close>)
  qed
  note [keeps_intros] = this
  show ?thesis unfolding handle_pod_manager_assignment_def Let_def by (intro keeps_intros assms)
qed

lemma keeps_execute [keeps_intros]:
  "honest_env env \<Longrightarrow> ev \<noteq> ''MISSION_POD_MANAGER_ASSIGNED'' \<Longrightarrow>
   keeps claims_kept (execute_agent env cfg ev mid agent extra payload nodes)"
  unfolding keeps_def using execute_claims by blast

lemma keeps_doc_context [keeps_intros]: "honest_env env \<Longrightarrow> keeps claims_kept (fetch_doc_context env cfg mid lang)"
  unfolding fetch_doc_context_def by (intro keeps_intros) simp_all

lemma keeps_extract [keeps_intros]: "honest_env env \<Longrightarrow> keeps claims_kept (extract_nodes env cfg mid agent payload md src)"
  unfolding extract_nodes_def Let_def by (intro keeps_intros)

lemma keeps_handoff [keeps_intros]: "honest_env env \<Longrightarrow> keeps claims_kept (handoff_refined_ir env cfg mid ir_module)"
  unfolding handoff_refined_ir_def by (intro keeps_intros) simp_all

lemma keeps_refine [keeps_intros]: "honest_env env \<Longrightarrow> keeps claims_kept (refine env cfg mid agent payload nodes ref oid)"
  unfolding refine_def Let_def by (intro keeps_intros)

lemma keeps_post_logicnodes [keeps_intros]:
  "honest_env env \<Longrightarrow> keeps claims_kept (post_logicnodes env cfg mid agent payload pid ns)"
proof (induction ns)
  case Nil
  show ?case unfolding post_logicnodes.simps by (rule claims.keeps_ret)
next
  case (Cons n ns)
  then show ?case unfolding post_logicnodes.simps by (intro keeps_intros) simp_all
qed

lemma keeps_run_mission [keeps_intros]: "honest_env env \<Longrightarrow> keeps claims_kept (run_mission env cfg mid agent payload md)"
  unfolding run_mission_def report_mission_def Let_def by (intro keeps_intros) simp_all

lemma keeps_claim [keeps_intros]: "honest_env env \<Longrightarrow> keeps claims_kept (claim_mission env cfg mid agent reason)"
  unfolding claim_mission_def by (intro keeps_intros) (simp_all add: claim_details_def dget_def PROVISIONAL_ASSIGNED_BY_def)

lemma keeps_running [keeps_intros]: "honest_env env \<Longrightarrow> keeps claims_kept (handle_running_mission env cfg payload)"
  unfolding handle_running_mission_def Let_def by (intro keeps_intros)

lemma keeps_partition [keeps_intros]: "honest_env env \<Longrightarrow> keeps claims_kept (handle_partition_ready env cfg payload)"
  unfolding handle_partition_ready_def run_partition_def report_partition_def Let_def
  by (intro keeps_intros) simp_all

lemma keeps_process [keeps_intros]: "honest_env env \<Longrightarrow> keeps claims_kept (process_entry env cfg e)"
  unfolding process_entry_def handle_state_event_def Let_def by (intro keeps_intros)

lemma keeps_pod_dlq [keeps_intros]: "keeps claims_kept (pod_write_dlq env cfg e err)"
  unfolding pod_write_dlq_def by (intro keeps_intros keeps_on_redis) (rule claims_keptI, simp_all)

lemma keeps_pod_xack [keeps_intros]: "keeps claims_kept (pod_xack env e)"
  unfolding pod_xack_def by (intro keeps_on_redis) (rule claims_keptI, simp_all)

lemma keeps_consume_entry [keeps_intros]:
  assumes "honest_env env"
  shows "keeps claims_kept (consume_entry env cfg e)"
  unfolding keeps_def
proof
  fix w
  obtain r w' where p: "process_entry env cfg e w = (r, w')" by fastforce
  from keeps_result [OF keeps_process [OF assms] p] have 1: "claims_kept w w'" .
  have dead: "keeps claims_kept (bnd (pod_write_dlq env cfg e err) (\<lambda>written. if written then pod_xack env e else ret ()))"
    for err by (intro keeps_intros)
  show "claims_kept w (snd (consume_entry env cfg e w))"
    by (cases r) (auto simp: consume_entry_def p intro: claims.R_trans [OF 1 keepsD [OF dead]] claims.R_trans [OF 1 keepsD [OF keeps_pod_xack]])
qed

text \<open>Deliveries in any order, each to a pod with its own configuration and its own course of outages and
  of other transactions.\<close>

fun run_deliveries :: "(pod_worker_env \<times> pod_config \<times> stream_entry) list \<Rightarrow> pod_world \<Rightarrow> pod_world" where
  "run_deliveries [] w = w"
| "run_deliveries ((env, cfg, e) # ds) w = run_deliveries ds (snd (consume_entry env cfg e w))"

lemma deliveries_claims_kept:
  "list_all (\<lambda>(env, _). honest_env env) ds \<Longrightarrow> claims_kept w (run_deliveries ds w)"
proof (induction ds w rule: run_deliveries.induct)
  case (2 env cfg e ds w)
  then show ?case using claims.R_trans [OF keepsD [OF keeps_consume_entry [of env cfg e]]] by simp
qed (simp add: claims.R_refl)

text \<open>Every manager's run so far belongs to the pod that holds the claim.\<close>

definition runs_held :: "pod_world \<Rightarrow> bool" where
  "runs_held w \<longleftrightarrow>
     list_all (\<lambda>(ev, pod, m). ev = ''MISSION_POD_MANAGER_ASSIGNED'' \<longrightarrow> holder w m = Some pod) (pw_runs w)"

lemma claims_kept_runs_held: "claims_kept w w' \<Longrightarrow> runs_held w \<Longrightarrow> runs_held w'"
  unfolding claims_kept_def runs_held_def list_all_iff by fastforce

text \<open>C12. One pod manages a mission: whatever entries are delivered to whatever pods, with whatever outages,
  retries and concurrent writes of assignments, a manager's pipeline starts only for the pod that holds
  the claim, so all manager runs of a mission belong to one pod, and no claim changes hands.\<close>

theorem manager_runs_exclusive:
  assumes "list_all (\<lambda>(env, _). honest_env env) ds" and "runs_held w"
  shows "runs_held (run_deliveries ds w)
    \<and> (\<forall>p q m. (''MISSION_POD_MANAGER_ASSIGNED'', p, m) \<in> set (pw_runs (run_deliveries ds w)) \<longrightarrow>
          (''MISSION_POD_MANAGER_ASSIGNED'', q, m) \<in> set (pw_runs (run_deliveries ds w)) \<longrightarrow> p = q)
    \<and> (\<forall>m p. holder w m = Some p \<longrightarrow> holder (run_deliveries ds w) m = Some p)"
proof -
  have kept: "claims_kept w (run_deliveries ds w)" using assms(1) by (rule deliveries_claims_kept)
  then have held: "runs_held (run_deliveries ds w)" using assms(2) by (rule claims_kept_runs_held)
  then have run: "holder (run_deliveries ds w) m = Some p"
    if "(''MISSION_POD_MANAGER_ASSIGNED'', p, m) \<in> set (pw_runs (run_deliveries ds w))" for p m
    using that unfolding runs_held_def list_all_iff by fastforce
  have "p = q" if "(''MISSION_POD_MANAGER_ASSIGNED'', p, m) \<in> set (pw_runs (run_deliveries ds w))"
    and "(''MISSION_POD_MANAGER_ASSIGNED'', q, m) \<in> set (pw_runs (run_deliveries ds w))" for p q m
    using run [OF that(1)] run [OF that(2)] by simp
  with held kept show ?thesis unfolding claims_kept_def by blast
qed

section \<open>The consumer settles entries\<close>

lemma on_redis_result: "on_redis env m w = (Inr x, w') \<Longrightarrow> m (w\<lparr>pw_clock := Suc (pw_clock w)\<rparr>) = (Inr x, w')"
  unfolding on_redis_def by (rule service_result)

text \<open>C13. An entry is acknowledged only when it is settled: if the acknowledgement goes through, either its
  handler returned or the entry stands in the dead-letter stream with its fields and its error. If the
  dead letter cannot be written, the entry stays unacknowledged and the loop goes on.\<close>

theorem acknowledged_entry_settled:
  assumes "consume_entry env cfg e w = (r, w')"
  shows "case process_entry env cfg e w of
      (Inr _, v) \<Rightarrow> r = Inr () \<longrightarrow> pw_acked w' = pw_acked v @ [se_id e] \<and> pw_dead w' = pw_dead v
    | (Inl err, v) \<Rightarrow>
        (r = Inr () \<and> pw_acked w' = pw_acked v)
        \<or> (pw_dead w' = pw_dead v @ [dead_letter env cfg e err] \<and> (r = Inr () \<longrightarrow> pw_acked w' = pw_acked v @ [se_id e]))"
proof -
  obtain p v where p: "process_entry env cfg e w = (p, v)" by fastforce
  show ?thesis
  proof (cases p)
    case (Inr x)
    have "consume_entry env cfg e w = pod_xack env e v" by (simp add: consume_entry_def p Inr)
    then have "r = Inr () \<longrightarrow> pw_acked w' = pw_acked v @ [se_id e] \<and> pw_dead w' = pw_dead v"
      using assms on_redis_result [of env "\<lambda>w. (Inr (), w\<lparr>pw_acked := pw_acked w @ [se_id e]\<rparr>)" v "()" w']
      by (auto simp: pod_xack_def)
    then show ?thesis by (simp only: p Inr prod.case sum.case)
  next
    case (Inl err)
    then have e: "consume_entry env cfg e w =
        bnd (pod_write_dlq env cfg e err) (\<lambda>written. if written then pod_xack env e else ret ()) v"
      by (simp add: consume_entry_def p)
    have "fst (consume_entry env cfg e w) = Inr () \<and> pw_acked (snd (consume_entry env cfg e w)) = pw_acked v
        \<or> pw_dead (snd (consume_entry env cfg e w)) = pw_dead v @ [dead_letter env cfg e err]
          \<and> (fst (consume_entry env cfg e w) = Inr () \<longrightarrow>
               pw_acked (snd (consume_entry env cfg e w)) = pw_acked v @ [se_id e])"
      unfolding e
      by (cases "we_redis env (pw_clock v)"; cases "we_redis env (Suc (pw_clock v))")
        (simp_all add: pod_xack_def pod_write_dlq_def on_redis_def service_def attempt_def bnd_def)
    then show ?thesis by (simp only: assms p Inl prod.case sum.case fst_conv snd_conv)
  qed
qed

section \<open>Retries are bounded\<close>

text \<open>The answers of the first attempts of a request, \<open>None\<close> for one that raised.\<close>

fun answers :: "pod_worker_env \<Rightarrow> api_call \<Rightarrow> nat \<Rightarrow> pod_world \<Rightarrow> (int \<times> pyval) option list" where
  "answers env call 0 w = []"
| "answers env call (Suc k) w = (case send_attempt env call w of (a, w') \<Rightarrow> a # answers env call k w')"

definition settles :: "(int \<times> pyval) option \<Rightarrow> bool" where
  "settles a \<longleftrightarrow> (case a of None \<Rightarrow> False | Some r \<Rightarrow> conclusive (fst r))"

fun last_some :: "'a option \<Rightarrow> 'a option list \<Rightarrow> 'a option" where
  "last_some d [] = d"
| "last_some d (a # as) = last_some (if a = None then d else a) as"

lemma serve_clock: "pw_clock (snd (serve env call w)) = pw_clock w"
  by (cases call) (auto split: prod.splits sum.splits option.splits)

lemma attempt_clock: "send_attempt env call w = (a, w') \<Longrightarrow> pw_clock w' = Suc (pw_clock w)"
  using serve_clock [of env call "(others env (pw_clock w) w)\<lparr>pw_clock := Suc (pw_clock w)\<rparr>"]
  by (auto simp: send_attempt_def Let_def split: attempt_end.splits prod.splits)

lemma request_attempts_answers:
  assumes "request_attempts env call n (lastr, failed) w = ((res, f), w')"
  shows "\<exists>k \<le> n. pw_clock w' = pw_clock w + k
    \<and> list_all (\<lambda>a. \<not> settles a) (butlast (answers env call k w))
    \<and> (k < n \<longrightarrow> 0 < k \<and> settles (last (answers env call k w)))
    \<and> res = last_some lastr (answers env call k w)
    \<and> f = (failed \<or> None \<in> set (answers env call k w))"
  using assms
proof (induction n arbitrary: lastr failed w)
  case (Suc n)
  obtain a w1 where a: "send_attempt env call w = (a, w1)" by fastforce
  show ?case
  proof (cases "settles a")
    case True
    with Suc.prems a have "res = a" "f = failed" "w' = w1" "a \<noteq> None"
      by (auto simp: settles_def split: option.splits)
    with True attempt_clock [OF a] show ?thesis by (intro exI [of _ 1]) (auto simp: a)
  next
    case False
    then have "request_attempts env call n (if a = None then lastr else a, failed \<or> a = None) w1 = ((res, f), w')"
      using Suc.prems a by (auto simp: settles_def split: option.splits)
    from Suc.IH [OF this] obtain k where k: "k \<le> n" "pw_clock w' = pw_clock w1 + k"
      "list_all (\<lambda>a. \<not> settles a) (butlast (answers env call k w1))"
      "k < n \<longrightarrow> 0 < k \<and> settles (last (answers env call k w1))"
      "res = last_some (if a = None then lastr else a) (answers env call k w1)"
      "f = ((failed \<or> a = None) \<or> None \<in> set (answers env call k w1))" by blast
    have "answers env call k w1 = [] \<longleftrightarrow> k = 0" by (cases k) (auto split: prod.splits)
    with k False attempt_clock [OF a] show ?thesis by (intro exI [of _ "Suc k"]) (auto simp: a)
  qed
qed simp

text \<open>A request to the orchestrator ends after at most the configured number of attempts: it stops at the
  first answer that is neither a server error nor a rate limit, otherwise it uses all of them; it returns
  the last answer there was, and raises only when no attempt was answered.\<close>

theorem request_retry_bound:
  assumes "service_api_key_for_agent (we_files env) (pc_key_env cfg) (pc_keys cfg) (opt_str agent) = Inr key"
  shows "\<exists>k \<le> pc_max_retries cfg. pw_clock (snd (request_raw env cfg call agent w)) = pw_clock w + k
    \<and> list_all (\<lambda>a. \<not> settles a) (butlast (answers env call k w))
    \<and> (k < pc_max_retries cfg \<longrightarrow> settles (last (answers env call k w)))
    \<and> (case last_some None (answers env call k w) of
         Some r \<Rightarrow> fst (request_raw env cfg call agent w) = Inr r
       | None \<Rightarrow> isl (fst (request_raw env cfg call agent w)))"
proof -
  obtain res f w' where r: "request_attempts env call (pc_max_retries cfg) (None, False) w = ((res, f), w')"
    by (metis surj_pair)
  from request_attempts_answers [OF r] obtain k where k: "k \<le> pc_max_retries cfg" "pw_clock w' = pw_clock w + k"
    "list_all (\<lambda>a. \<not> settles a) (butlast (answers env call k w))"
    "k < pc_max_retries cfg \<longrightarrow> 0 < k \<and> settles (last (answers env call k w))"
    "res = last_some None (answers env call k w)" by blast
  have "request_raw env cfg call agent w =
    (case res of Some x \<Rightarrow> (Inr x, w') | None \<Rightarrow> (Inl (if f then ServiceError else RuntimeError), w'))"
    using assms r by (auto simp: request_raw_def split: option.splits)
  with k show ?thesis by (intro exI [of _ k]) (auto split: option.splits)
qed

section \<open>Examples\<close>

definition sample_world :: pod_world where
  "sample_world = \<lparr>pw_store = \<lparr>ps_pods = sample_pod_db, ps_audit = \<lparr>ad_missions = [''m1''], ad_events = []\<rparr>\<rparr>,
     pw_posts = [], pw_clock = 0, pw_stream = [], pw_runs = [], pw_dead = [], pw_acked = []\<rparr>"

definition sample_entry :: stream_entry where
  "sample_entry = \<lparr>se_id = ''1-0'', se_envelope = Some ''e'', se_payload = Some ''p''\<rparr>"

definition claimed_world :: pod_world where
  "claimed_world = sample_world
     \<lparr>pw_store := \<lparr>ps_pods = \<lparr>pd_missions = sample_db, pd_rows = [(''m1'', \<lparr>as_pod = ''podA'',
        as_metadata = [(''assigned_by'', PStr ''pod-worker'')], as_assigned_at = 1, as_updated_at = 1\<rparr>)]\<rparr>,
        ps_audit = \<lparr>ad_missions = [''m1''], ad_events = []\<rparr>\<rparr>,
      pw_runs := [(''MISSION_POD_MANAGER_ASSIGNED'', ''podA'', ''m1'')]\<rparr>"

lemma sample_env_honest: "honest_env sample_worker_env"
proof -
  have "statements_only (\<lambda>db. db)"
    unfolding statements_only_def
  proof
    fix db :: pod_db
    show "\<exists>xs ms. list_all honest_write xs \<and> db = run_statements xs db\<lparr>pd_missions := ms\<rparr>"
      by (intro exI [of _ "[]"] exI [of _ "pd_missions db"]) (simp add: run_statements_def)
  qed
  then show ?thesis by (simp add: honest_env_def sample_worker_env_def)
qed

lemma claimed_world_holder: "holder claimed_world ''m1'' = Some ''podA''"
  by (simp add: claimed_world_def claim_holder_def provisional_row_def dget_def PROVISIONAL_ASSIGNED_BY_def)

lemma manager_runs_exclusive_witness:
  "runs_held (run_deliveries [(sample_worker_env, sample_pod ''podB'', sample_entry)] claimed_world)
   \<and> holder (run_deliveries [(sample_worker_env, sample_pod ''podB'', sample_entry)] claimed_world) ''m1'' = Some ''podA''"
proof -
  have "runs_held claimed_world" using claimed_world_holder by (simp add: runs_held_def claimed_world_def)
  with manager_runs_exclusive [of "[(sample_worker_env, sample_pod ''podB'', sample_entry)]" claimed_world]
  show ?thesis using claimed_world_holder sample_env_honest by simp
qed

text \<open>An entry without a payload is dead-lettered and acknowledged.\<close>

lemma acknowledged_entry_settled_witness:
  "\<exists>w'. consume_entry sample_worker_env (sample_pod ''podA'') (sample_entry\<lparr>se_payload := None\<rparr>) sample_world = (Inr (), w')
     \<and> pw_acked w' = [''1-0''] \<and> length (pw_dead w') = 1"
proof -
  let ?e = "sample_entry\<lparr>se_payload := None\<rparr>"
  let ?w = "sample_world\<lparr>pw_clock := 2, pw_dead := [dead_letter sample_worker_env (sample_pod ''podA'') ?e ProtocolValidationError],
    pw_acked := [''1-0'']\<rparr>"
  have p: "process_entry sample_worker_env (sample_pod ''podA'') ?e sample_world = (Inl ProtocolValidationError, sample_world)"
    by (simp add: process_entry_def read_entry_def sample_entry_def truthy_text_def opt_str_def bnd_def)
  have c: "consume_entry sample_worker_env (sample_pod ''podA'') ?e sample_world = (Inr (), ?w)"
    unfolding consume_entry_def p
    by (simp add: pod_write_dlq_def pod_xack_def on_redis_def service_def attempt_def bnd_def sample_worker_env_def
        sample_world_def sample_entry_def numeral_2_eq_2)
  from acknowledged_entry_settled [OF c] have "pw_acked ?w = [''1-0'']" "length (pw_dead ?w) = 1"
    by (simp_all add: p sample_world_def)
  with c show ?thesis by blast
qed

lemma request_retry_bound_witness:
  "pw_clock (snd (request_raw (sample_worker_env\<lparr>we_attempt := (\<lambda>_. Request_Lost)\<rparr>) (sample_pod ''podA'') (GetMission ''m1'') None
     sample_world)) \<le> 3"
proof -
  have "service_api_key_for_agent f e c (opt_str None) = Inr (kc_fallback c)" for f e c
    by (simp add: service_api_key_for_agent_def opt_str_def normalize_agent_id_def py_or_def py_strip_def strip_by_def py_upper_def str_or_empty_def)
  from request_retry_bound [where env = "sample_worker_env\<lparr>we_attempt := (\<lambda>_. Request_Lost)\<rparr>" and cfg = "sample_pod ''podA''"
      and agent = None and call = "GetMission ''m1''" and w = sample_world, OF this]
  show ?thesis by (auto simp: sample_pod_def sample_world_def)
qed

end
