(* ===== verification/Gateway_Auth.thy ===== *)
theory Gateway_Auth
  imports Agent_Keys Source_Bundle Audit_Chain Effects
begin

text \<open>
  Who may do what at the API gateway, \<open>api_gateway/main.py\<close> and \<open>api_gateway/middleware.py\<close>: the table of
  API keys, the bearer tokens, the access checks of the three authentication modes, the headers a mutation
  is forwarded with, the start-up check, and the rate limiter in Redis. The JWT library is an argument, as
  are HMAC and SHA-256. An HTTP error carries its status and detail. Time is in whole seconds: the limiter
  only uses the floor of the clock divided by the window. A role set is a list.
\<close>

section \<open>Configuration\<close>

record gateway_config =
  gc_environment :: string
  gc_auth_mode :: string
  gc_admin_bypass :: bool
  gc_admin_key :: string
  gc_readonly_key :: string
  gc_internal_key :: string
  gc_api_keys :: string
  gc_required_role :: string
  gc_operator_role :: string
  gc_enforce_operator :: bool
  gc_role_claims :: "string list"
  gc_scope_claims :: "string list"
  gc_issuer :: string
  gc_audience :: string
  gc_shared_secret :: string
  gc_jwks_url :: string
  gc_strict_claims :: bool
  gc_required_tenant :: string
  gc_cors_allow_origins :: string
  gc_trust_proxy :: bool
  gc_write_limit :: int
  gc_read_limit :: int
  gc_window :: nat

type_synonym http_error = "nat \<times> string"

type_synonym 'a http = "http_error + 'a"

definition hbind :: "'a http \<Rightarrow> ('a \<Rightarrow> 'b http) \<Rightarrow> 'b http" where
  "hbind r f = (case r of Inl e \<Rightarrow> Inl e | Inr x \<Rightarrow> f x)"

lemma hbind_simps [simp]: "hbind (Inl e) f = Inl e" "hbind (Inr x) f = f x"
  by (simp_all add: hbind_def)

lemma hbind_Inr_iff: "hbind r f = Inr y \<longleftrightarrow> (\<exists>x. r = Inr x \<and> f x = Inr y)"
  by (cases r) auto

section \<open>API keys\<close>

definition admin_roles :: "string list" where
  "admin_roles = [''admin'', ''mutate'', ''internal'', ''read'']"

definition worker_roles :: "string list" where
  "worker_roles = [''worker'', ''mutate'', ''internal'', ''read'']"

definition setdefault :: "string \<Rightarrow> 'v \<Rightarrow> 'v dict \<Rightarrow> 'v dict" where
  "setdefault k v d = (if dhas d k then d else dset k v d)"

text \<open>One \<open>key=role1,role2\<close> entry of the \<open>ORCHESTRATOR_API_KEYS\<close> list.\<close>

definition key_roles_entry :: "string \<Rightarrow> role_map \<Rightarrow> role_map" where
  "key_roles_entry entry mapping =
     (let name = takeWhile (\<lambda>c. c \<noteq> CHR ''='') entry; roles_csv = drop (Suc (length name)) entry;
          roles = remdups (map (py_lower \<circ> py_strip) (filter (\<lambda>r. py_strip r \<noteq> []) (split_at (CHR '','') roles_csv)))
      in if CHR ''='' \<notin> set entry then mapping
         else if py_strip name \<noteq> [] \<and> roles \<noteq> [] then dset (py_strip name) roles mapping else mapping)"

definition extra_key_entries :: "string \<Rightarrow> string list" where
  "extra_key_entries raw = filter (\<lambda>e. e \<noteq> []) (map py_strip (split_at (CHR '';'') raw))"

definition gateway_api_key_roles :: "gateway_config \<Rightarrow> role_map" where
  "gateway_api_key_roles cfg =
     (let mapping = (if gc_admin_key cfg \<noteq> [] then dset (gc_admin_key cfg) admin_roles [] else []);
          mapping = (if py_strip (gc_internal_key cfg) \<noteq> []
                     then setdefault (py_strip (gc_internal_key cfg)) worker_roles mapping else mapping);
          mapping = (if gc_readonly_key cfg \<noteq> [] then setdefault (gc_readonly_key cfg) [''read''] mapping else mapping)
      in fold key_roles_entry (extra_key_entries (gc_api_keys cfg)) mapping)"

text \<open>The table of the orchestrator, \<open>Settings.api_key_roles\<close>; the agents' keys come last.\<close>

definition orchestrator_api_key_roles :: "string \<Rightarrow> string \<Rightarrow> string \<Rightarrow> string \<Rightarrow> string dict \<Rightarrow> role_map" where
  "orchestrator_api_key_roles admin_key internal_key readonly_key extra_keys agent_keys =
     (let mapping = (if admin_key \<noteq> [] then dset admin_key admin_roles [] else []);
          mapping = (if internal_key \<noteq> [] then dset internal_key worker_roles mapping else mapping);
          mapping = (if readonly_key \<noteq> [] then dset readonly_key [''read''] mapping else mapping);
          mapping = fold key_roles_entry (extra_key_entries extra_keys) mapping
      in fold (\<lambda>(_, key) m. if key \<noteq> [] then dset key worker_roles m else m) agent_keys mapping)"

definition match_gateway_api_key :: "gateway_config \<Rightarrow> string \<Rightarrow> string list option" where
  "match_gateway_api_key cfg candidate =
     fold (\<lambda>(stored_key, roles) matched. if stored_key = candidate then Some roles else matched)
       (gateway_api_key_roles cfg) None"

definition require_api_key_role :: "gateway_config \<Rightarrow> string option \<Rightarrow> string \<Rightarrow> unit http" where
  "require_api_key_role cfg x_api_key required_role =
     (case truthy_text x_api_key of
        None \<Rightarrow> Inl (401, ''x-api-key header is required'')
      | Some key \<Rightarrow>
          (case match_gateway_api_key cfg key of
             None \<Rightarrow> Inl (401, ''invalid api key'')
           | Some roles \<Rightarrow>
               if required_role \<noteq> [] \<and> required_role \<notin> set roles then Inl (403, ''insufficient role for endpoint'')
               else Inr ()))"

section \<open>Bearer tokens\<close>

definition extract_bearer_token :: "string option \<Rightarrow> string option" where
  "extract_bearer_token authorization =
     (case truthy_text authorization of
        None \<Rightarrow> None
      | Some header \<Rightarrow>
          (let scheme = takeWhile (\<lambda>c. c \<noteq> CHR '' '') header; token = drop (Suc (length scheme)) header
           in if py_lower (py_strip scheme) \<noteq> ''bearer'' then None else truthy_text (Some (py_strip token))))"

fun tokens_from_claim_value :: "pyval \<Rightarrow> string list" where
  "tokens_from_claim_value (PStr s) = map (py_lower \<circ> py_strip) (split_ws [] (replace_char (CHR '','') (CHR '' '') s))"
| "tokens_from_claim_value (PList vs) =
     map (\<lambda>v. py_lower (py_strip (str_of v))) (filter (\<lambda>v. is_str v \<and> py_strip (str_of v) \<noteq> []) vs)"
| "tokens_from_claim_value _ = []"

definition claim_includes_required_role :: "gateway_config \<Rightarrow> pydict \<Rightarrow> string \<Rightarrow> bool" where
  "claim_includes_required_role cfg claims required_role \<longleftrightarrow>
     (let required = py_lower (py_strip required_role)
      in required = []
         \<or> required \<in> (\<Union>claim_name \<in> set (gc_role_claims cfg @ gc_scope_claims cfg).
                           set (tokens_from_claim_value (dget claims claim_name))))"

text \<open>\<open>text.rstrip(c)\<close>\<close>

definition rstrip_char :: "char \<Rightarrow> string \<Rightarrow> string" where
  "rstrip_char c s = rev (dropWhile (\<lambda>x. x = c) (rev s))"

definition role_in_claims :: "pydict \<Rightarrow> string \<Rightarrow> bool" where
  "role_in_claims claims role \<longleftrightarrow>
     (\<exists>k \<in> {''roles'', ''groups'', ''cognito:groups''}. PStr role \<in> set (list_or_empty (dget claims k)))
     \<or> PStr role \<in> set (list_or_empty (dget (dict_or_empty (dget claims ''realm_access'')) ''roles''))
     \<or> (case dget_or claims ''scope'' (PStr []) of PStr s \<Rightarrow> role \<in> set (split_ws [] s) | _ \<Rightarrow> False)"

definition validate_strict_oidc_claims :: "string option \<Rightarrow> string \<Rightarrow> string \<Rightarrow> string \<Rightarrow> pydict \<Rightarrow> pydict http" where
  "validate_strict_oidc_claims required_role expected_issuer expected_audience required_tenant claims =
     (let sub = dget claims ''sub''; iss = dget claims ''iss''; aud = dget claims ''aud'';
          tenant = py_or (dget claims ''tenant_id'') (py_or (dget claims ''tid'') (dget claims ''tenant''))
      in if \<not> is_str sub \<or> py_strip (str_of sub) = []
         then Inl (401, ''oidc token missing valid 'sub' (subject) claim'')
         else if expected_issuer \<noteq> []
              \<and> (\<not> truthy iss \<or> rstrip_char (CHR ''/'') (py_str iss) \<noteq> rstrip_char (CHR ''/'') expected_issuer)
         then Inl (401, ''oidc token 'iss' (issuer) mismatch'')
         else if expected_audience \<noteq> [] \<and> \<not> truthy aud then Inl (401, ''oidc token missing 'aud' (audience) claim'')
         else if expected_audience \<noteq> []
              \<and> (case aud of PList as \<Rightarrow> PStr expected_audience \<notin> set as | _ \<Rightarrow> py_str aud \<noteq> expected_audience)
         then Inl (401, ''oidc token audience unauthorized'')
         else if required_tenant \<noteq> [] \<and> (\<not> truthy tenant \<or> py_str tenant \<noteq> required_tenant)
         then Inl (403, ''oidc token unauthorized for target tenant'')
         else case truthy_text required_role of
           None \<Rightarrow> Inr claims
         | Some role \<Rightarrow>
             if role_in_claims claims role then Inr claims
             else Inl (403, ''insufficient permissions: missing '' @ CHR 0x27 # role @ [CHR 0x27] @ '' role''))"

text \<open>The JWT library: whether it and its key client are installed, and the verification of a token under a
  key, an audience and an issuer (an empty one is not verified); \<open>None\<close> in place of a value is a client
  that finds no key.\<close>

datatype jwt_key = Shared_Secret string | Jwks string

datatype jwt_result = Decoded pyval | Expired | Refused

record jwt_library =
  jl_installed :: bool
  jl_key_client :: bool
  jl_decode :: "jwt_key \<Rightarrow> string \<Rightarrow> string \<Rightarrow> string \<Rightarrow> jwt_result"

definition token_key :: "gateway_config \<Rightarrow> jwt_library \<Rightarrow> jwt_key http" where
  "token_key cfg jwt =
     (if gc_shared_secret cfg \<noteq> [] then Inr (Shared_Secret (gc_shared_secret cfg))
      else if \<not> jl_key_client jwt then Inl (503, ''oidc jwks validation is unavailable'')
      else let jwks_url = (if gc_jwks_url cfg = [] \<and> gc_issuer cfg \<noteq> []
                           then rstrip_char (CHR ''/'') (gc_issuer cfg) @ ''/.well-known/jwks.json'' else gc_jwks_url cfg)
           in if jwks_url = [] then Inl (503, ''oidc jwks configuration is missing'') else Inr (Jwks jwks_url))"

definition decode_oidc_token :: "gateway_config \<Rightarrow> jwt_library \<Rightarrow> string \<Rightarrow> pydict http" where
  "decode_oidc_token cfg jwt token =
     (if \<not> jl_installed jwt then Inl (503, ''oidc auth dependencies are unavailable'')
      else hbind (token_key cfg jwt) (\<lambda>key.
        case jl_decode jwt key (gc_audience cfg) (gc_issuer cfg) token of
          Expired \<Rightarrow> Inl (401, ''expired bearer token'')
        | Refused \<Rightarrow> Inl (401, ''invalid bearer token'')
        | Decoded (PDict claims) \<Rightarrow>
            if gc_strict_claims cfg
            then hbind (validate_strict_oidc_claims None (gc_issuer cfg) (gc_audience cfg) (gc_required_tenant cfg) claims)
                   (\<lambda>_. Inr claims)
            else Inr claims
        | Decoded _ \<Rightarrow> Inl (401, ''invalid bearer token'')))"

section \<open>Access\<close>

definition require_token_role :: "gateway_config \<Rightarrow> jwt_library \<Rightarrow> string \<Rightarrow> string \<Rightarrow> string \<Rightarrow> unit http" where
  "require_token_role cfg jwt token role detail =
     hbind (decode_oidc_token cfg jwt token) (\<lambda>claims.
       if claim_includes_required_role cfg claims role then Inr () else Inl (403, detail))"

definition require_internal_service_api_key :: "gateway_config \<Rightarrow> string http" where
  "require_internal_service_api_key cfg =
     (if py_strip (gc_internal_key cfg) \<noteq> [] then Inr (py_strip (gc_internal_key cfg))
      else Inl (503, ''gateway internal auth is not configured''))"

definition resolve_mutation_forward_headers ::
  "gateway_config \<Rightarrow> jwt_library \<Rightarrow> string option \<Rightarrow> string option \<Rightarrow> string http" where
  "resolve_mutation_forward_headers cfg jwt x_api_key authorization =
     (let bearer = extract_bearer_token authorization; mode = gc_auth_mode cfg;
          forward_token = (\<lambda>token. hbind
            (require_token_role cfg jwt token (gc_required_role cfg) ''insufficient oidc role for endpoint'')
            (\<lambda>_. require_internal_service_api_key cfg))
      in if mode = ''api_key'' then
           (case truthy_text x_api_key of None \<Rightarrow> Inl (401, ''x-api-key header is required'') | Some key \<Rightarrow> Inr key)
         else if mode = ''hybrid'' then
           (case bearer of
              Some token \<Rightarrow> forward_token token
            | None \<Rightarrow> (case truthy_text x_api_key of
                Some key \<Rightarrow> Inr key
              | None \<Rightarrow> Inl (401, ''authorization bearer token or x-api-key header is required'')))
         else if mode = ''oidc'' then
           (case bearer of None \<Rightarrow> Inl (401, ''authorization bearer token is required'') | Some token \<Rightarrow> forward_token token)
         else Inl (500, ''gateway auth mode configuration error''))"

definition require_operator_access ::
  "gateway_config \<Rightarrow> jwt_library \<Rightarrow> string option \<Rightarrow> string option \<Rightarrow> unit http" where
  "require_operator_access cfg jwt x_api_key authorization =
     (let mode = gc_auth_mode cfg; bearer = extract_bearer_token authorization;
          check = (\<lambda>token. require_token_role cfg jwt token (gc_operator_role cfg) ''insufficient oidc role for operator route'')
      in if gc_admin_bypass cfg then Inr ()
         else if mode = ''api_key'' then require_api_key_role cfg x_api_key ''read''
         else if \<not> gc_enforce_operator cfg then Inr ()
         else if mode = ''hybrid'' then
           (case bearer of
              Some token \<Rightarrow> check token
            | None \<Rightarrow>
                if truthy_text x_api_key \<noteq> None then require_api_key_role cfg x_api_key ''read''
                else Inl (401, ''authorization bearer token or x-api-key header is required''))
         else if mode = ''oidc'' then
           (case bearer of None \<Rightarrow> Inl (401, ''authorization bearer token is required'') | Some token \<Rightarrow> check token)
         else Inl (500, ''gateway auth mode configuration error''))"

definition require_reader_access ::
  "gateway_config \<Rightarrow> jwt_library \<Rightarrow> string option \<Rightarrow> string option \<Rightarrow> unit http" where
  "require_reader_access cfg jwt x_api_key authorization =
     (let mode = gc_auth_mode cfg; bearer = extract_bearer_token authorization;
          check = (\<lambda>token. require_token_role cfg jwt token ''read'' ''insufficient oidc role for endpoint'')
      in if gc_admin_bypass cfg then Inr ()
         else if mode = ''api_key'' then require_api_key_role cfg x_api_key ''read''
         else if mode = ''hybrid'' then
           (case bearer of
              Some token \<Rightarrow> check token
            | None \<Rightarrow>
                if truthy_text x_api_key \<noteq> None then require_api_key_role cfg x_api_key ''read''
                else Inl (401, ''authorization bearer token or x-api-key header is required''))
         else if mode = ''oidc'' then
           (case bearer of None \<Rightarrow> Inl (401, ''authorization bearer token is required'') | Some token \<Rightarrow> check token)
         else Inl (500, ''gateway auth mode configuration error''))"

section \<open>Start-up\<close>

definition configured_cors_origins :: "gateway_config \<Rightarrow> string list" where
  "configured_cors_origins cfg =
     map py_strip (filter (\<lambda>origin. py_strip origin \<noteq> []) (split_at (CHR '','') (gc_cors_allow_origins cfg)))"

definition validate_startup_auth_config :: "gateway_config \<Rightarrow> unit res" where
  "validate_startup_auth_config cfg =
     (if gc_auth_mode cfg \<notin> {''api_key'', ''hybrid'', ''oidc''} then Inl RuntimeError
      else if gc_environment cfg = ''production'' \<and> ''*'' \<in> set (configured_cors_origins cfg) then Inl RuntimeError
      else if gc_admin_bypass cfg \<and> gc_environment cfg = ''production'' then Inl RuntimeError
      else if gc_auth_mode cfg = ''oidc'' \<and> gc_issuer cfg = [] then Inl RuntimeError
      else Inr ())"

section \<open>Metrics of refused requests\<close>

definition classify_auth_failure_reason :: "nat \<Rightarrow> string \<Rightarrow> string" where
  "classify_auth_failure_reason status_code detail =
     (let text = py_lower detail
      in if status_code = 403 \<or> contains_str ''insufficient'' text then ''insufficient_role''
         else if contains_str ''expired'' text then ''expired_token''
         else if contains_str ''required'' text \<or> contains_str ''missing'' text then ''missing_auth''
         else ''invalid_key'')"

definition route_prefix :: "string \<Rightarrow> string" where
  "route_prefix path =
     (case filter (\<lambda>p. p \<noteq> []) (split_at (CHR ''/'') path) of
        [] \<Rightarrow> ''/''
      | [p] \<Rightarrow> ''/'' @ p
      | p # q # _ \<Rightarrow> if p = ''v1'' then ''/v1/'' @ q else ''/'' @ p)"

section \<open>The rate limiter\<close>

text \<open>Redis keeps a count and a time to live per key; \<open>incr\<close> and \<open>expire\<close> each may be lost.\<close>

record counter =
  ct_count :: int
  ct_expires :: "nat option"

type_synonym counters = "string \<Rightarrow> counter option"

definition live :: "nat \<Rightarrow> counter option \<Rightarrow> counter option" where
  "live t c = (case c of None \<Rightarrow> None
     | Some c \<Rightarrow> (case ct_expires c of None \<Rightarrow> Some c | Some e \<Rightarrow> if t < e then Some c else None))"

definition redis_incr :: "nat \<Rightarrow> string \<Rightarrow> (counters, int) prog" where
  "redis_incr t key = (\<lambda>cs. case live t (cs key) of
     None \<Rightarrow> (Inr 1, cs(key \<mapsto> \<lparr>ct_count = 1, ct_expires = None\<rparr>))
   | Some c \<Rightarrow> (Inr (ct_count c + 1), cs(key \<mapsto> c\<lparr>ct_count := ct_count c + 1\<rparr>)))"

definition redis_expire :: "nat \<Rightarrow> string \<Rightarrow> nat \<Rightarrow> (counters, unit) prog" where
  "redis_expire t key seconds = (\<lambda>cs. case live t (cs key) of
     None \<Rightarrow> (Inr (), cs)
   | Some c \<Rightarrow> (Inr (), cs(key \<mapsto> c\<lparr>ct_expires := Some (t + seconds)\<rparr>)))"

record gw_request =
  rq_method :: string
  rq_path :: string
  rq_api_key :: "string option"
  rq_forwarded_for :: "string option"
  rq_host :: "string option"

record limiter_env =
  le_hmac :: "string \<Rightarrow> string"
  le_sha256 :: "string \<Rightarrow> string"

definition client_identifier :: "gateway_config \<Rightarrow> limiter_env \<Rightarrow> gw_request \<Rightarrow> string" where
  "client_identifier cfg env req =
     (case truthy_text (rq_api_key req) of
        Some api_key \<Rightarrow> ''api-key:'' @ le_hmac env api_key
      | None \<Rightarrow>
          (case truthy_text (if gc_trust_proxy cfg then rq_forwarded_for req else None) of
             Some forwarded_for \<Rightarrow> ''ip:'' @ py_strip (hd (split_at (CHR '','') forwarded_for))
           | None \<Rightarrow> ''ip:'' @ (case rq_host req of Some h \<Rightarrow> h | None \<Rightarrow> ''unknown'')))"

text \<open>What one request meets: the two clock readings and how the two calls end.\<close>

record visit =
  vi_now :: nat
  vi_later :: nat
  vi_incr :: call_outcome
  vi_expire :: call_outcome

definition rate_key :: "gateway_config \<Rightarrow> limiter_env \<Rightarrow> string \<Rightarrow> string \<Rightarrow> nat \<Rightarrow> string" where
  "rate_key cfg env bucket identifier now =
     ''ratelimit:api-gateway:'' @ bucket @ '':'' @ le_sha256 env identifier @ '':'' @ nat_str (now div gc_window cfg)"

definition check_rate_limit ::
  "gateway_config \<Rightarrow> limiter_env \<Rightarrow> visit \<Rightarrow> string \<Rightarrow> int \<Rightarrow> string \<Rightarrow> (counters, bool \<times> int \<times> int) prog" where
  "check_rate_limit cfg env v identifier limit bucket =
     (let key = rate_key cfg env bucket identifier (vi_now v) in
      bnd (service (vi_incr v) (redis_incr (vi_now v) key)) (\<lambda>current.
      bnd (if current = 1 then service (vi_expire v) (redis_expire (vi_now v) key (gc_window cfg + 5)) else ret ()) (\<lambda>_.
      ret (current > limit, int (gc_window cfg) - int (vi_later v mod gc_window cfg), max 0 (limit - current)))))"

text \<open>The middleware: an answer 429, or the request goes on, with the remaining budget when it was counted.
  \<open>ready\<close> says that a Redis client exists and is marked ready.\<close>

datatype limit_decision = Limited int int | Admitted "int option"

definition safe_method :: "gw_request \<Rightarrow> bool" where
  "safe_method req \<longleftrightarrow> py_upper (rq_method req) \<in> {''GET'', ''HEAD'', ''OPTIONS''}"

definition active_limit :: "gateway_config \<Rightarrow> gw_request \<Rightarrow> int" where
  "active_limit cfg req = (if safe_method req then gc_read_limit cfg else gc_write_limit cfg)"

definition limit_bucket :: "gw_request \<Rightarrow> string" where
  "limit_bucket req = (if safe_method req then ''read'' else ''write'')"

definition limit_applies :: "gateway_config \<Rightarrow> gw_request \<Rightarrow> bool" where
  "limit_applies cfg req \<longleftrightarrow>
     active_limit cfg req > 0 \<and> rq_path req \<notin> {''/health'', ''/readyz'', ''/metrics''} \<and> rq_path req \<noteq> ''/v1/stream/state''"

definition security_and_rate_limit ::
  "gateway_config \<Rightarrow> limiter_env \<Rightarrow> bool \<Rightarrow> visit \<Rightarrow> gw_request \<Rightarrow> counters \<Rightarrow> limit_decision \<times> counters" where
  "security_and_rate_limit cfg env ready v req cs =
     (if limit_applies cfg req \<and> ready then
        (case check_rate_limit cfg env v (client_identifier cfg env req) (active_limit cfg req) (limit_bucket req) cs of
           (Inl _, cs') \<Rightarrow> (Admitted None, cs')
         | (Inr (limited, retry_after, remaining), cs') \<Rightarrow>
             (if limited then Limited retry_after (active_limit cfg req) else Admitted (Some remaining), cs'))
      else (Admitted None, cs))"

fun admit_all ::
  "gateway_config \<Rightarrow> limiter_env \<Rightarrow> (bool \<times> visit \<times> gw_request) list \<Rightarrow> counters \<Rightarrow> limit_decision list \<times> counters" where
  "admit_all cfg env [] cs = ([], cs)"
| "admit_all cfg env ((ready, v, req) # rest) cs =
     (let (d, cs') = security_and_rate_limit cfg env ready v req cs; (ds, cs'') = admit_all cfg env rest cs'
      in (d # ds, cs''))"

section \<open>The key tables\<close>

lemma fold_last_match:
  "distinct (dkeys m) \<Longrightarrow>
   fold (\<lambda>(k, r) acc. if k = c then Some r else acc) m acc = (case map_of m c of None \<Rightarrow> acc | Some r \<Rightarrow> Some r)"
proof (induction m arbitrary: acc)
  case (Cons e m)
  obtain k r where e: "e = (k, r)" by (cases e) simp
  have "map_of m c = None" if "k = c"
    using Cons.prems that by (auto simp: e dkeys_def map_of_eq_None_iff)
  then show ?case using Cons by (auto simp: e dkeys_def split: option.splits)
qed simp

lemma distinct_setdefault: "distinct (dkeys d) \<Longrightarrow> distinct (dkeys (setdefault k v d))"
  by (simp add: setdefault_def)

lemma map_of_setdefault: "map_of (setdefault k v d) = (if dhas d k then map_of d else (map_of d)(k \<mapsto> v))"
  by (simp add: setdefault_def)

lemma distinct_key_entry: "distinct (dkeys d) \<Longrightarrow> distinct (dkeys (key_roles_entry entry d))"
  by (simp add: key_roles_entry_def Let_def)

lemma distinct_key_entries: "distinct (dkeys d) \<Longrightarrow> distinct (dkeys (fold key_roles_entry es d))"
  by (induction es arbitrary: d) (simp_all add: distinct_key_entry)

lemma key_entry_cong: "map_of d = map_of e \<Longrightarrow> map_of (key_roles_entry x d) = map_of (key_roles_entry x e)"
  by (simp add: key_roles_entry_def Let_def)

lemma key_entries_cong: "map_of d = map_of e \<Longrightarrow> map_of (fold key_roles_entry es d) = map_of (fold key_roles_entry es e)"
proof (induction es arbitrary: d e)
  case (Cons x es)
  from Cons.IH [OF key_entry_cong [OF Cons.prems]] show ?case by simp
qed simp

lemma distinct_gateway_keys: "distinct (dkeys (gateway_api_key_roles cfg))"
  unfolding gateway_api_key_roles_def Let_def
  by (intro distinct_key_entries) (simp add: distinct_setdefault dkeys_def [of "[]"])

lemma match_gateway: "match_gateway_api_key cfg key = map_of (gateway_api_key_roles cfg) key"
  unfolding match_gateway_api_key_def by (simp add: fold_last_match distinct_gateway_keys split: option.splits)

lemma agent_keys_frame:
  "key \<notin> snd ` set agent_keys \<Longrightarrow>
   map_of (fold (\<lambda>(_, k) m. if k \<noteq> [] then dset k worker_roles m else m) agent_keys d) key = map_of d key"
  by (induction agent_keys arbitrary: d) (auto split: prod.splits)

text \<open>The gateway promises to mirror the orchestrator's role model. It does, for every key that belongs to no
  agent, when the configured keys differ from each other: both services know the same keys and give each the
  same roles.\<close>

theorem gateway_mirrors_orchestrator:
  assumes "gc_internal_key cfg = py_strip (gc_internal_key cfg)"
    and "distinct (filter (\<lambda>k. k \<noteq> []) [gc_admin_key cfg, gc_internal_key cfg, gc_readonly_key cfg])"
    and "key \<notin> snd ` set agent_keys"
  shows "match_gateway_api_key cfg key
    = map_of (orchestrator_api_key_roles (gc_admin_key cfg) (gc_internal_key cfg) (gc_readonly_key cfg)
                (gc_api_keys cfg) agent_keys) key"
proof -
  define a i r where "a = gc_admin_key cfg" and "i = gc_internal_key cfg" and "r = gc_readonly_key cfg"
  have d: "a \<noteq> [] \<longrightarrow> i \<noteq> [] \<longrightarrow> a \<noteq> i" "a \<noteq> [] \<longrightarrow> r \<noteq> [] \<longrightarrow> a \<noteq> r" "i \<noteq> [] \<longrightarrow> r \<noteq> [] \<longrightarrow> i \<noteq> r"
    using assms(2) by (auto simp: a_def i_def r_def split: if_splits)
  let ?m1 = "if a \<noteq> [] then dset a admin_roles [] else []"
  let ?g2 = "if i \<noteq> [] then setdefault i worker_roles ?m1 else ?m1"
  let ?o2 = "if i \<noteq> [] then dset i worker_roles ?m1 else ?m1"
  have "map_of (if r \<noteq> [] then setdefault r [''read''] ?g2 else ?g2) = map_of (if r \<noteq> [] then dset r [''read''] ?o2 else ?o2)"
    using d by (auto simp: setdefault_def dhas_def)
  from fun_cong [OF key_entries_cong [OF this, of "extra_key_entries (gc_api_keys cfg)"], of key]
  show ?thesis
    unfolding match_gateway gateway_api_key_roles_def orchestrator_api_key_roles_def Let_def
      agent_keys_frame [OF assms(3)] assms(1) [symmetric] a_def i_def r_def .
qed

section \<open>At most the limit\<close>

definition quota :: "string \<Rightarrow> nat \<Rightarrow> int \<Rightarrow> counters \<Rightarrow> bool" where
  "quota key end_time n cs \<longleftrightarrow>
     (case cs key of None \<Rightarrow> n \<le> 0
      | Some c \<Rightarrow> n \<le> ct_count c \<and> (case ct_expires c of None \<Rightarrow> True | Some e \<Rightarrow> end_time \<le> e))"

lemma incr_quota:
  assumes "quota K e n cs" and "key = K \<Longrightarrow> t < e" and "redis_incr t key cs = (r, cs')"
  shows "quota K e n cs'" and "key = K \<Longrightarrow> \<exists>current. r = Inr current \<and> n + 1 \<le> current \<and> quota K e (n + 1) cs'"
  using assms by (auto simp: quota_def redis_incr_def live_def split: option.splits if_splits)

lemma expire_quota:
  assumes "quota K e n cs" and "key = K \<Longrightarrow> e \<le> t + seconds"
  shows "quota K e n (snd (redis_expire t key seconds cs))"
  using assms by (auto simp: quota_def redis_expire_def live_def split: option.splits if_splits)

lemma service_cases:
  obtains "service c m w = m w" | "service c m w = (Inl ServiceError, w)" | "service c m w = (Inl ServiceError, snd (m w))"
  by (cases c) (auto simp: service_def)

lemma check_quota:
  assumes quota: "quota K e n cs" and run: "check_rate_limit cfg env v ident limit bucket cs = (r, cs')"
    and time: "rate_key cfg env bucket ident (vi_now v) = K \<Longrightarrow> vi_now v < e \<and> e \<le> vi_now v + (gc_window cfg + 5)"
  shows "quota K e n cs'"
    and "rate_key cfg env bucket ident (vi_now v) = K \<Longrightarrow> r = Inr (False, x) \<Longrightarrow> quota K e (n + 1) cs' \<and> n + 1 \<le> limit"
proof -
  let ?key = "rate_key cfg env bucket ident (vi_now v)"
  let ?expire = "redis_expire (vi_now v) ?key (gc_window cfg + 5)"
  obtain c cs1 where incr: "redis_incr (vi_now v) ?key cs = (Inr c, cs1)"
    by (cases "redis_incr (vi_now v) ?key cs") (auto simp: redis_incr_def split: option.splits)
  note q1 = incr_quota [OF quota _ incr]
  have kept: "quota K e n cs1" using q1(1) time by blast
  have more: "n + 1 \<le> c \<and> quota K e (n + 1) cs1" if "?key = K" using q1(2) that time by blast
  have exp_kept: "quota K e m (snd (service (vi_expire v) ?expire cs1))" if "quota K e m cs1" for m
    using expire_quota [OF that, of ?key "vi_now v" "gc_window cfg + 5"] that time
    by (cases rule: service_cases [of "vi_expire v" ?expire cs1]) auto
  have rest: "(r = Inl ServiceError \<and> (cs' = cs \<or> cs' = cs1 \<or> cs' = snd (service (vi_expire v) ?expire cs1)))
      \<or> (\<exists>ra rem. r = Inr (c > limit, ra, rem) \<and> (cs' = cs1 \<or> cs' = snd (service (vi_expire v) ?expire cs1)))"
    using run unfolding check_rate_limit_def Let_def bnd_def
    by (cases "vi_incr v"; cases "vi_expire v")
      (auto simp: service_def incr ret_def redis_expire_def split: if_splits option.splits prod.splits)
  then show "quota K e n cs'" using quota kept exp_kept [OF kept] by auto
  show "quota K e (n + 1) cs' \<and> n + 1 \<le> limit" if "?key = K" and "r = Inr (False, x)"
    using rest that(2) more [OF that(1)] exp_kept [of "n + 1"] by auto
qed

text \<open>The visits of one client in one bucket and one window of the clock.\<close>

definition in_window ::
  "gateway_config \<Rightarrow> limiter_env \<Rightarrow> string \<Rightarrow> bool \<Rightarrow> nat \<Rightarrow> bool \<times> visit \<times> gw_request \<Rightarrow> bool" where
  "in_window cfg env ident safe k e \<longleftrightarrow>
     (case e of (_, v, req) \<Rightarrow>
        client_identifier cfg env req = ident \<and> safe_method req = safe \<and> vi_now v div gc_window cfg = k)"

definition counted :: "limit_decision \<Rightarrow> bool" where
  "counted d \<longleftrightarrow> (case d of Admitted (Some _) \<Rightarrow> True | _ \<Rightarrow> False)"

definition window_key :: "gateway_config \<Rightarrow> limiter_env \<Rightarrow> string \<Rightarrow> bool \<Rightarrow> nat \<Rightarrow> string" where
  "window_key cfg env ident safe k =
     ''ratelimit:api-gateway:'' @ (if safe then ''read'' else ''write'') @ '':'' @ le_sha256 env ident @ '':'' @ nat_str k"

lemma append_sep:
  assumes "a @ c # s = b @ c # t" and "c \<notin> set a" and "c \<notin> set b"
  shows "a = b \<and> s = t"
proof -
  have "takeWhile (\<lambda>x. x \<noteq> c) (a @ c # s) = a" "takeWhile (\<lambda>x. x \<noteq> c) (b @ c # t) = b"
    using assms(2,3) by (auto simp: takeWhile_append takeWhile_eq_all_conv)
  then show ?thesis using assms(1) by (metis same_append_eq list.inject)
qed

lemma rate_key_window:
  assumes "\<And>s. CHR '':'' \<notin> set (le_sha256 env s)"
    and "rate_key cfg env (limit_bucket req) i now = window_key cfg env ident safe k"
  shows "now div gc_window cfg = k"
proof -
  have "le_sha256 env i @ CHR '':'' # nat_str (now div gc_window cfg) = le_sha256 env ident @ CHR '':'' # nat_str k"
    using assms(2) by (auto simp: rate_key_def window_key_def limit_bucket_def split: if_splits)
  from append_sep [OF this] assms(1) show ?thesis by simp
qed

lemma window_times:
  fixes W :: nat
  assumes "now div W = k" and "0 < W"
  shows "now < Suc k * W" and "Suc k * W \<le> now + (W + 5)"
proof -
  have "now div W * W \<le> now" "now < now div W * W + W"
    using dividend_less_div_times [OF assms(2), of now] by (simp_all add: add.commute)
  then show "now < Suc k * W" "Suc k * W \<le> now + (W + 5)" using assms(1) by auto
qed

lemma step_quota:
  assumes hash: "\<And>s. CHR '':'' \<notin> set (le_sha256 env s)" and W: "0 < gc_window cfg"
    and quota: "quota (window_key cfg env ident safe k) (Suc k * gc_window cfg) n cs"
    and run: "security_and_rate_limit cfg env ready v req cs = (d, cs')"
  shows "quota (window_key cfg env ident safe k) (Suc k * gc_window cfg) n cs'"
    and "in_window cfg env ident safe k (ready, v, req) \<Longrightarrow> counted d \<Longrightarrow>
      quota (window_key cfg env ident safe k) (Suc k * gc_window cfg) (n + 1) cs' \<and> n + 1 \<le> active_limit cfg req"
proof -
  let ?K = "window_key cfg env ident safe k"
  let ?id = "client_identifier cfg env req"
  have time: "vi_now v < Suc k * gc_window cfg \<and> Suc k * gc_window cfg \<le> vi_now v + (gc_window cfg + 5)"
    if "rate_key cfg env (limit_bucket req) ?id (vi_now v) = ?K"
    using window_times [OF rate_key_window [OF hash that] W] by simp
  obtain r cs1 where check: "check_rate_limit cfg env v ?id (active_limit cfg req) (limit_bucket req) cs = (r, cs1)"
    by fastforce
  have q: "quota ?K (Suc k * gc_window cfg) n cs1" using check_quota(1) [OF quota check] time by blast
  show "quota ?K (Suc k * gc_window cfg) n cs'"
    using run quota q check by (auto simp: security_and_rate_limit_def split: if_splits sum.splits)
  assume mine: "in_window cfg env ident safe k (ready, v, req)" and "counted d"
  then obtain x where r: "r = Inr (False, x)" "cs' = cs1"
    using run check by (auto simp: security_and_rate_limit_def counted_def split: if_splits sum.splits)
  have "rate_key cfg env (limit_bucket req) ?id (vi_now v) = ?K"
    using mine by (auto simp: rate_key_def window_key_def in_window_def limit_bucket_def)
  from check_quota(2) [OF quota check _ this r(1)] time r(2)
  show "quota ?K (Suc k * gc_window cfg) (n + 1) cs' \<and> n + 1 \<le> active_limit cfg req" by blast
qed

lemma admit_quota:
  assumes hash: "\<And>s. CHR '':'' \<notin> set (le_sha256 env s)" and W: "0 < gc_window cfg"
    and "quota (window_key cfg env ident safe k) (Suc k * gc_window cfg) n cs"
    and "n \<le> max 0 (if safe then gc_read_limit cfg else gc_write_limit cfg)"
    and "admit_all cfg env es cs = (ds, cs')"
  shows "n + int (length (filter (\<lambda>(e, d). in_window cfg env ident safe k e \<and> counted d) (zip es ds)))
    \<le> max 0 (if safe then gc_read_limit cfg else gc_write_limit cfg)"
  using assms(3-)
proof (induction es arbitrary: n cs ds)
  case (Cons e es)
  obtain ready v req where e: "e = (ready, v, req)" by (cases e) auto
  obtain d cs1 where d: "security_and_rate_limit cfg env ready v req cs = (d, cs1)" by fastforce
  obtain ds1 where ds: "ds = d # ds1" "admit_all cfg env es cs1 = (ds1, cs')"
    using Cons.prems(3) d by (auto simp: e split: prod.splits)
  note q = step_quota [OF hash W Cons.prems(1) d]
  show ?case
  proof (cases "in_window cfg env ident safe k e \<and> counted d")
    case True
    then have "n + 1 \<le> active_limit cfg req" "safe_method req = safe"
      using q(2) by (auto simp: e in_window_def)
    then have "n + 1 \<le> max 0 (if safe then gc_read_limit cfg else gc_write_limit cfg)"
      by (auto simp: active_limit_def)
    with Cons.IH [OF _ this ds(2)] q(2) True show ?thesis by (simp add: ds e)
  next
    case False
    with Cons.IH [OF q(1) Cons.prems(2) ds(2)] show ?thesis by (auto simp: ds e)
  qed
qed simp

text \<open>C32. Whatever arrives, in whatever order and with whatever Redis failures, the limiter counts in at most the
  configured number of requests of a client per bucket and window; reads and writes do not share a budget.
  Requests it could not count pass uncounted.\<close>

theorem rate_limit_bound:
  assumes "\<And>s. CHR '':'' \<notin> set (le_sha256 env s)" and "0 < gc_window cfg"
    and "admit_all cfg env es (\<lambda>_. None) = (ds, cs')"
  shows "int (length (filter (\<lambda>(e, d). in_window cfg env ident safe k e \<and> counted d) (zip es ds)))
    \<le> max 0 (if safe then gc_read_limit cfg else gc_write_limit cfg)"
  using admit_quota [of env cfg ident safe k 0 "\<lambda>_. None", OF assms(1,2) _ _ assms(3)] by (simp add: quota_def)

section \<open>Access in production\<close>

text \<open>What a caller shows: a key of the table with a role, or a token the library accepts whose claims carry it.\<close>

definition shows_key :: "gateway_config \<Rightarrow> string option \<Rightarrow> string \<Rightarrow> bool" where
  "shows_key cfg x_api_key role \<longleftrightarrow>
     (\<exists>key roles. truthy_text x_api_key = Some key \<and> map_of (gateway_api_key_roles cfg) key = Some roles \<and> role \<in> set roles)"

definition shows_token :: "gateway_config \<Rightarrow> jwt_library \<Rightarrow> string option \<Rightarrow> string \<Rightarrow> bool" where
  "shows_token cfg jwt authorization role \<longleftrightarrow>
     (\<exists>token claims. extract_bearer_token authorization = Some token \<and> decode_oidc_token cfg jwt token = Inr claims
        \<and> claim_includes_required_role cfg claims role)"

lemma key_role_granted:
  "role \<noteq> [] \<Longrightarrow> require_api_key_role cfg x_api_key role = Inr () \<longleftrightarrow> shows_key cfg x_api_key role"
  by (auto simp: require_api_key_role_def shows_key_def match_gateway split: option.splits)

lemma key_role_refused: "require_api_key_role cfg x_api_key role = Inl e \<Longrightarrow> fst e \<in> {401, 403}"
  by (auto simp: require_api_key_role_def split: option.splits if_splits)

lemma token_role_granted:
  "extract_bearer_token authorization = Some token \<Longrightarrow>
   require_token_role cfg jwt token role detail = Inr () \<longleftrightarrow> shows_token cfg jwt authorization role"
  by (auto simp: require_token_role_def shows_token_def hbind_Inr_iff)

lemma strict_claims_refused: "validate_strict_oidc_claims r i a t claims = Inl e \<Longrightarrow> fst e \<in> {401, 403}"
  by (auto simp: validate_strict_oidc_claims_def Let_def split: if_splits option.splits pyval.splits)

lemma decode_refused: "decode_oidc_token cfg jwt token = Inl e \<Longrightarrow> fst e \<in> {401, 403, 503}"
proof (cases "token_key cfg jwt")
  case (Inr key)
  assume "decode_oidc_token cfg jwt token = Inl e"
  then show ?thesis
    by (cases "jl_decode jwt key (gc_audience cfg) (gc_issuer cfg) token")
      (auto simp: decode_oidc_token_def Inr hbind_def split: if_splits pyval.splits sum.splits dest!: strict_claims_refused)
qed (auto simp: decode_oidc_token_def token_key_def Let_def split: if_splits)

lemma token_role_refused: "require_token_role cfg jwt token role detail = Inl e \<Longrightarrow> fst e \<in> {401, 403, 503}"
  by (auto simp: require_token_role_def hbind_def split: sum.splits if_splits dest!: decode_refused)

text \<open>A gateway that passed the start-up check in production lets a reader in exactly on credentials: a key of
  the table with the read role, or a verified token with the read role, which alone counts when a hybrid gateway is
  shown one. Everybody else gets 401, 403 or 503; there is no bypass.\<close>

theorem production_reader_access:
  assumes "validate_startup_auth_config cfg = Inr ()" and "gc_environment cfg = ''production''"
  shows "(require_reader_access cfg jwt x_api_key authorization = Inr () \<longleftrightarrow>
      (if gc_auth_mode cfg = ''api_key'' \<or> gc_auth_mode cfg = ''hybrid'' \<and> extract_bearer_token authorization = None
       then shows_key cfg x_api_key ''read'' else shows_token cfg jwt authorization ''read''))
    \<and> (require_reader_access cfg jwt x_api_key authorization = Inl e \<longrightarrow> fst e \<in> {401, 403, 503})"
proof -
  have "\<not> gc_admin_bypass cfg" and "gc_auth_mode cfg \<in> {''api_key'', ''hybrid'', ''oidc''}"
    using assms by (auto simp: validate_startup_auth_config_def split: if_splits)
  then show ?thesis
    using key_role_granted [of "''read''"] token_role_granted [of authorization]
    by (auto simp: require_reader_access_def Let_def shows_token_def [of _ _ authorization] shows_key_def
        split: option.splits dest: key_role_refused token_role_refused)
qed

text \<open>C31. The gateway never lends its own key: a state change that the orchestrator accepts through it was asked for
  with a key that itself has a mutating role there, or with a verified token that carries the required role.\<close>

theorem state_change_authorised:
  assumes "resolve_mutation_forward_headers cfg jwt x_api_key authorization = Inr key"
    and "require_roles table [''mutate'', ''admin'', ''worker''] (Some key) = Inr ctx"
  shows "(gc_auth_mode cfg \<noteq> ''oidc'' \<and> truthy_text x_api_key = Some key
      \<and> (\<exists>roles. match_api_key key table = Some roles \<and> set roles \<inter> {''mutate'', ''admin'', ''worker''} \<noteq> {}))
    \<or> (gc_auth_mode cfg \<noteq> ''api_key'' \<and> shows_token cfg jwt authorization (gc_required_role cfg)
      \<and> key = py_strip (gc_internal_key cfg))"
proof -
  have accepted: "\<exists>roles. match_api_key key table = Some roles \<and> set roles \<inter> {''mutate'', ''admin'', ''worker''} \<noteq> {}"
    using assms(2) by (auto simp: require_roles_def split: if_splits option.splits)
  have lent: "shows_token cfg jwt authorization (gc_required_role cfg) \<and> key = py_strip (gc_internal_key cfg)"
    if "hbind (require_token_role cfg jwt token (gc_required_role cfg) detail)
          (\<lambda>_. require_internal_service_api_key cfg) = Inr key"
      and "extract_bearer_token authorization = Some token" for token detail
    using that(1) token_role_granted [OF that(2)]
    by (auto simp: hbind_Inr_iff require_internal_service_api_key_def split: if_splits)
  show ?thesis
    using assms(1) accepted lent unfolding resolve_mutation_forward_headers_def Let_def
    by (auto split: if_splits option.splits)
qed

text \<open>An operator route is open to everybody in the token modes when the operator check is switched off, in
  production too.\<close>

lemma operator_routes_open:
  assumes "gc_auth_mode cfg \<in> {''hybrid'', ''oidc''}" and "\<not> gc_enforce_operator cfg"
  shows "require_operator_access cfg jwt None None = Inr ()"
  using assms by (auto simp: require_operator_access_def Let_def)

section \<open>Examples\<close>

definition sample_gateway :: gateway_config where
  "sample_gateway = \<lparr>gc_environment = ''production'', gc_auth_mode = ''api_key'', gc_admin_bypass = False,
     gc_admin_key = ''adm'', gc_readonly_key = ''ro'', gc_internal_key = ''int'', gc_api_keys = ''m=mutate'',
     gc_required_role = ''mutate'', gc_operator_role = ''observe'', gc_enforce_operator = True,
     gc_role_claims = [''roles''], gc_scope_claims = [''scope''], gc_issuer = [], gc_audience = [],
     gc_shared_secret = ''s'', gc_jwks_url = [], gc_strict_claims = False, gc_required_tenant = [],
     gc_cors_allow_origins = ''http://x'', gc_trust_proxy = False, gc_write_limit = 2, gc_read_limit = 5, gc_window = 60\<rparr>"

definition sample_jwt :: jwt_library where
  "sample_jwt = \<lparr>jl_installed = True, jl_key_client = False,
     jl_decode = (\<lambda>_ _ _ token. if token = ''t'' then Decoded (PDict [(''roles'', PList [PStr ''Mutate''])]) else Refused)\<rparr>"

lemma sample_gateway_roles:
  "match_gateway_api_key sample_gateway ''ro'' = Some [''read'']" "match_gateway_api_key sample_gateway ''m'' = Some [''mutate'']"
  by code_simp+

lemma gateway_mirrors_orchestrator_witness:
  "map_of (orchestrator_api_key_roles ''adm'' ''int'' ''ro'' ''m=mutate'' [(''AGENT-03'', ''ag'')]) ''m'' = Some [''mutate'']"
proof -
  have "gc_internal_key sample_gateway = py_strip (gc_internal_key sample_gateway)" by code_simp
  from gateway_mirrors_orchestrator [of sample_gateway "''m''" "[(''AGENT-03'', ''ag'')]", OF this]
  show ?thesis by (simp add: sample_gateway_roles(2)) (simp add: sample_gateway_def)
qed

lemma production_reader_access_witness:
  "require_reader_access sample_gateway sample_jwt (Some ''ro'') None = Inr ()
   \<and> require_reader_access sample_gateway sample_jwt (Some ''m'') None \<noteq> Inr ()"
proof -
  have ok: "validate_startup_auth_config sample_gateway = Inr ()" "gc_environment sample_gateway = ''production''" by code_simp+
  have mode: "gc_auth_mode sample_gateway = ''api_key''" by (simp add: sample_gateway_def)
  have "shows_key sample_gateway (Some ''ro'') ''read''" "\<not> shows_key sample_gateway (Some ''m'') ''read''"
    using sample_gateway_roles by (auto simp: shows_key_def match_gateway truthy_text_def)
  with production_reader_access [OF ok, of sample_jwt "Some ''ro''" None undefined]
    production_reader_access [OF ok, of sample_jwt "Some ''m''" None undefined] mode
  show ?thesis by simp
qed

lemma state_change_authorised_witness:
  "shows_token (sample_gateway\<lparr>gc_auth_mode := ''oidc''\<rparr>) sample_jwt (Some ''Bearer t'') ''mutate''"
proof -
  have forward: "resolve_mutation_forward_headers (sample_gateway\<lparr>gc_auth_mode := ''oidc''\<rparr>) sample_jwt None (Some ''Bearer t'') = Inr ''int''"
    by code_simp
  have "require_roles [(''int'', worker_roles)] [''mutate'', ''admin'', ''worker''] (Some ''int'')
      = Inr \<lparr>ac_api_key = ''int'', ac_roles = worker_roles\<rparr>"
    by (simp add: require_roles_def match_api_key_def worker_roles_def)
  from state_change_authorised [OF forward this] show ?thesis by (simp add: sample_gateway_def truthy_text_def)
qed

definition sample_visits :: "(bool \<times> visit \<times> gw_request) list" where
  "sample_visits = replicate 3 (True, \<lparr>vi_now = 61, vi_later = 61, vi_incr = Done, vi_expire = Done\<rparr>,
     \<lparr>rq_method = ''POST'', rq_path = ''/v1/missions'', rq_api_key = None, rq_forwarded_for = None, rq_host = Some ''h''\<rparr>)"

definition sample_limiter :: limiter_env where
  "sample_limiter = \<lparr>le_hmac = (\<lambda>_. ''ab''), le_sha256 = (\<lambda>_. ''cd'')\<rparr>"

lemma rate_limit_bound_witness:
  "\<exists>ds cs'. admit_all sample_gateway sample_limiter sample_visits (\<lambda>_. None) = (ds, cs')
     \<and> length (filter (\<lambda>(e, d). in_window sample_gateway sample_limiter ''ip:h'' False 1 e \<and> counted d) (zip sample_visits ds)) \<le> 2"
proof -
  obtain ds cs' where run: "admit_all sample_gateway sample_limiter sample_visits (\<lambda>_. None) = (ds, cs')" by fastforce
  have "CHR '':'' \<notin> set (le_sha256 sample_limiter s)" for s by (simp add: sample_limiter_def)
  from rate_limit_bound [OF this _ run, of "''ip:h''" False 1] run show ?thesis by (auto simp: sample_gateway_def)
qed

end
