(* ===== verification/Text_Patterns.thy ===== *)
theory Text_Patterns
  imports Factory_Prelude
begin

text \<open>
  Regular expressions as the guards use them, with the backtracking meaning of Python's \<open>re\<close>: \<open>ends r s i\<close>
  lists where a match of \<open>r\<close> in \<open>s\<close> from \<open>i\<close> may end, the preferred end first (a repeat tries one more round
  before it stops, an alternative its left side), so \<open>pattern.match(s, i)\<close> is the head of the list. A repeat
  stops after an empty round. \<open>finditer\<close> scans from the left and goes on after each match; no pattern here matches the empty text.
\<close>

section \<open>Patterns\<close>

datatype rx =
    One "char \<Rightarrow> bool"
  | Eps
  | Word_Boundary
  | Line_Start
  | Seq rx rx
  | Alt rx rx
  | Rep nat "nat option" rx

text \<open>\<open>\w\<close>: letters, digits and underscore, with the letters and numerals above 127.\<close>

definition word_char :: "char \<Rightarrow> bool" where
  "word_char c \<longleftrightarrow>
     (let n = of_char c :: nat in
      is_digit c \<or> is_upper_char c \<or> is_lower_char c \<or> n = 95 \<or> n \<in> {170, 178, 179, 181, 185, 186, 188, 189, 190}
      \<or> 192 \<le> n \<and> n \<noteq> 215 \<and> n \<noteq> 247)"

definition word_at :: "string \<Rightarrow> nat \<Rightarrow> bool" where
  "word_at s i \<longleftrightarrow> i < length s \<and> word_char (s ! i)"

definition word_boundary :: "string \<Rightarrow> nat \<Rightarrow> bool" where
  "word_boundary s i \<longleftrightarrow> (0 < i \<and> word_at s (i - 1)) \<noteq> word_at s i"

definition line_start :: "string \<Rightarrow> nat \<Rightarrow> bool" where
  "line_start s i \<longleftrightarrow> i = 0 \<or> i \<le> length s \<and> s ! (i - 1) = CHR 0x0A"

fun rounds :: "(nat \<Rightarrow> nat list) \<Rightarrow> nat \<Rightarrow> nat \<Rightarrow> nat option \<Rightarrow> nat \<Rightarrow> nat list" where
  "rounds f 0 m n i = (if m = 0 then [i] else [])"
| "rounds f (Suc fuel) m n i =
     (if n = Some 0 then []
      else concat (map (\<lambda>j. if j \<le> i then [] else rounds f fuel (m - 1) (map_option (\<lambda>k. k - 1) n) j) (f i)))
     @ (if m = 0 then [i] else [])"

primrec ends :: "rx \<Rightarrow> string \<Rightarrow> nat \<Rightarrow> nat list" where
  "ends (One p) s i = (if i < length s \<and> p (s ! i) then [Suc i] else [])"
| "ends Eps s i = [i]"
| "ends Word_Boundary s i = (if word_boundary s i then [i] else [])"
| "ends Line_Start s i = (if line_start s i then [i] else [])"
| "ends (Seq a b) s i = concat (map (ends b s) (ends a s i))"
| "ends (Alt a b) s i = ends a s i @ ends b s i"
| "ends (Rep m n r) s i = rounds (ends r s) (Suc (length s - i)) m n i"

text \<open>\<open>[(m.start(), m.end()) for m in pattern.finditer(s)]\<close>; an empty match moves on by one.\<close>

fun find_from :: "rx \<Rightarrow> string \<Rightarrow> nat \<Rightarrow> nat \<Rightarrow> (nat \<times> nat) list" where
  "find_from r s 0 i = []"
| "find_from r s (Suc fuel) i =
     (if length s < i then []
      else case ends r s i of
        [] \<Rightarrow> find_from r s fuel (Suc i)
      | j # _ \<Rightarrow> (i, j) # find_from r s fuel (if j \<le> i then Suc i else j))"

definition finditer :: "rx \<Rightarrow> string \<Rightarrow> (nat \<times> nat) list" where
  "finditer r s = find_from r s (Suc (Suc (length s))) 0"

definition slice :: "string \<Rightarrow> nat \<Rightarrow> nat \<Rightarrow> string" where
  "slice s i j = take (j - i) (drop i s)"

text \<open>\<open>pattern.sub("", s)\<close>\<close>

fun remove_spans :: "string \<Rightarrow> nat \<Rightarrow> (nat \<times> nat) list \<Rightarrow> string" where
  "remove_spans s cursor [] = drop cursor s"
| "remove_spans s cursor ((i, j) # spans) = slice s cursor i @ remove_spans s j spans"

definition sub_empty :: "rx \<Rightarrow> string \<Rightarrow> string" where
  "sub_empty r s = remove_spans s 0 (finditer r s)"

section \<open>Building patterns\<close>

definition chars :: "string \<Rightarrow> char \<Rightarrow> bool" where
  "chars cs c \<longleftrightarrow> c \<in> set cs"

definition is_letter :: "char \<Rightarrow> bool" where
  "is_letter c \<longleftrightarrow> is_upper_char c \<or> is_lower_char c"

fun seq :: "rx list \<Rightarrow> rx" where
  "seq [] = Eps"
| "seq [r] = r"
| "seq (r # q # rs) = Seq r (seq (q # rs))"

fun alts :: "rx list \<Rightarrow> rx" where
  "alts [] = Eps"
| "alts [r] = r"
| "alts (r # q # rs) = Alt r (alts (q # rs))"

definition lit :: "string \<Rightarrow> rx" where
  "lit s = seq (map (\<lambda>c. One (\<lambda>d. d = c)) s)"

text \<open>A literal under \<open>re.IGNORECASE\<close>.\<close>

definition ilit :: "string \<Rightarrow> rx" where
  "ilit s = seq (map (\<lambda>c. One (\<lambda>d. low_char d = low_char c)) s)"

definition opt :: "rx \<Rightarrow> rx" where
  "opt r = Rep 0 (Some 1) r"

definition times :: "nat \<Rightarrow> rx \<Rightarrow> rx" where
  "times n r = Rep n (Some n) r"

definition star :: "rx \<Rightarrow> rx" where
  "star r = Rep 0 None r"

definition plus :: "rx \<Rightarrow> rx" where
  "plus r = Rep 1 None r"

section \<open>Lemmas\<close>

lemma rounds_range:
  assumes "\<And>i j. i \<le> L \<Longrightarrow> j \<in> set (f i) \<Longrightarrow> i \<le> j \<and> j \<le> L"
  shows "i \<le> L \<Longrightarrow> j \<in> set (rounds f fuel m n i) \<Longrightarrow> i \<le> j \<and> j \<le> L"
proof (induction fuel arbitrary: m n i)
  case (Suc fuel)
  from Suc.prems(2) consider "j = i"
    | k where "k \<in> set (f i)" "i < k" "j \<in> set (rounds f fuel (m - 1) (map_option (\<lambda>k. k - 1) n) k)"
    by (auto split: if_splits)
  then show ?case
  proof cases
    case (2 k)
    with assms [OF Suc.prems(1) 2(1)] Suc.IH [OF _ 2(3)] show ?thesis by simp
  qed (use Suc.prems in simp)
qed (simp split: if_splits)

lemma ends_range: "i \<le> length s \<Longrightarrow> j \<in> set (ends r s i) \<Longrightarrow> i \<le> j \<and> j \<le> length s"
proof (induction r arbitrary: i j)
  case (Seq a b)
  from Seq.prems(2) obtain k where k: "k \<in> set (ends a s i)" "j \<in> set (ends b s k)" by auto
  with Seq.IH(1) [OF Seq.prems(1) k(1)] Seq.IH(2) [OF _ k(2)] show ?case by simp
next
  case (Alt a b)
  from Alt.prems(2) have "j \<in> set (ends a s i) \<or> j \<in> set (ends b s i)" by simp
  with Alt.IH [OF Alt.prems(1)] show ?case by blast
next
  case (Rep m n r)
  from Rep.prems(2) have "j \<in> set (rounds (ends r s) (Suc (length s - i)) m n i)" by simp
  with rounds_range [of "length s" "ends r s", OF Rep.IH Rep.prems(1)] show ?case by blast
qed (simp_all split: if_splits)

text \<open>The matches \<open>finditer\<close> reports lie in the text, one after the other.\<close>

fun spans_from :: "nat \<Rightarrow> nat \<Rightarrow> (nat \<times> nat) list \<Rightarrow> bool" where
  "spans_from lo hi [] \<longleftrightarrow> lo \<le> hi"
| "spans_from lo hi ((i, j) # spans) \<longleftrightarrow> lo \<le> i \<and> i \<le> j \<and> j \<le> hi \<and> spans_from j hi spans"

lemma spans_from_le: "spans_from lo hi spans \<Longrightarrow> lo' \<le> lo \<Longrightarrow> spans_from lo' hi spans"
  by (cases "(lo, hi, spans)" rule: spans_from.cases) auto

lemma spans_from_bounds: "spans_from lo hi spans \<Longrightarrow> (i, j) \<in> set spans \<Longrightarrow> lo \<le> i \<and> i \<le> j \<and> j \<le> hi"
  by (induction lo hi spans rule: spans_from.induct) auto

lemma spans_from_hi: "spans_from lo hi spans \<Longrightarrow> lo \<le> hi"
  by (induction lo hi spans rule: spans_from.induct) auto

lemma find_from_spans: "i \<le> Suc (length s) \<Longrightarrow> spans_from (min i (length s)) (length s) (find_from r s fuel i)"
proof (induction fuel arbitrary: i)
  case (Suc fuel)
  show ?case
  proof (cases "length s < i")
    case False
    show ?thesis
    proof (cases "ends r s i")
      case Nil
      then show ?thesis using Suc.IH [of "Suc i"] False by (auto intro: spans_from_le)
    next
      case (Cons j js)
      then have "i \<le> j \<and> j \<le> length s" using ends_range [of i s j r] False by simp
      then show ?thesis
        using Cons False Suc.IH [of "if j \<le> i then Suc i else j"]
        by (auto split: if_splits intro: spans_from_le)
    qed
  qed simp
qed simp

lemma finditer_spans: "spans_from 0 (length s) (finditer r s)"
  using find_from_spans [of 0 s r "Suc (Suc (length s))"] by (simp add: finditer_def del: find_from.simps)

lemma slice_drop: "i \<le> j \<Longrightarrow> slice s i j @ drop j s = drop i s"
  unfolding slice_def by (metis append_take_drop_id drop_drop le_add_diff_inverse2)

end
