(* ===== verification/Input_Guards.thy ===== *)
theory Input_Guards
  imports Text_Patterns Mission_Vault "HOL-Library.Product_Lexorder"
    "HOL-Library.List_Lexorder" "HOL-Library.Char_ord"
begin

text \<open>
  The guards on what users and contexts hold: \<open>shared_runtime/pii_guard.py\<close> finds and redacts personal data
  and secrets, \<open>shared_runtime/prompt_guard.py\<close> finds prompt injections. The patterns are those of the two
  registries. A context is a graph of Python objects that may share and be cyclic, a heap of dictionaries and lists; dictionary keys are their text. Log output is not modelled; of an injection match the
  source text of the pattern, which its attack type determines, is left out.
\<close>

section \<open>Patterns for personal data\<close>

definition digit :: rx where "digit = One is_digit"

definition digits :: "nat \<Rightarrow> rx" where "digits n = times n digit"

definition alnum :: "string \<Rightarrow> rx" where
  "alnum extra = One (\<lambda>c. is_letter c \<or> is_digit c \<or> chars extra c)"

definition space :: rx where "space = One is_space"

definition phone_sep :: rx where
  "phone_sep = opt (One (\<lambda>c. chars ''-.'' c \<or> is_space c))"

definition SSN :: rx where
  "SSN = seq [Word_Boundary, digits 3, lit ''-'', digits 2, lit ''-'', digits 4, Word_Boundary]"

definition CREDIT_CARD :: rx where
  "CREDIT_CARD = seq [Word_Boundary,
     alts [seq [lit ''4'', digits 12, opt (digits 3)], seq [lit ''5'', One (chars ''12345''), digits 14],
           seq [lit ''3'', One (chars ''47''), digits 13], seq [lit ''6011'', digits 12]], Word_Boundary]"

definition EMAIL :: rx where
  "EMAIL = seq [Word_Boundary, plus (alnum ''._%+-''), lit ''@'', plus (alnum ''.-''), lit ''.'',
     Rep 2 None (One is_letter), Word_Boundary]"

definition PHONE_US :: rx where
  "PHONE_US = seq [Word_Boundary, opt (seq [lit ''+1'', phone_sep]), opt (lit ''(''), digits 3, opt (lit '')''),
     phone_sep, digits 3, phone_sep, digits 4, Word_Boundary]"

definition PHONE_INTL :: rx where
  "PHONE_INTL = seq [lit ''+'', Rep 1 (Some 3) digit, phone_sep, Rep 2 (Some 4) digit, phone_sep,
     Rep 4 (Some 10) digit, Word_Boundary]"

definition JWT_TOKEN :: rx where
  "JWT_TOKEN = seq [Word_Boundary, lit ''eyJ'', plus (alnum ''_-''), lit ''.'', plus (alnum ''_-''), lit ''.'',
     plus (alnum ''_-''), Word_Boundary]"

definition API_KEY_HEX :: rx where
  "API_KEY_HEX = seq [Word_Boundary, Rep 32 (Some 64) (One (chars ''abcdef0123456789'')), Word_Boundary]"

definition API_KEY_B64 :: rx where
  "API_KEY_B64 = seq [Word_Boundary, Rep 40 None (alnum ''+/''), Rep 0 (Some 2) (lit ''=''), Word_Boundary]"

definition PASSWORD_KV :: rx where
  "PASSWORD_KV = seq [alts [ilit ''password'', ilit ''passwd'', ilit ''secret'', ilit ''token'',
       seq [ilit ''api'', opt (One (chars ''_-'')), ilit ''key'']],
     star space, One (chars ''=:''), star space, plus (One (\<lambda>c. \<not> is_space c))]"

definition ip_octet :: rx where
  "ip_octet = alts [seq [lit ''25'', One (chars ''012345'')], seq [lit ''2'', One (chars ''01234''), digit],
     seq [lit ''1'', digits 2], Rep 1 (Some 2) digit]"

definition IP_ADDRESS :: rx where
  "IP_ADDRESS = seq [Word_Boundary, ip_octet, times 3 (Seq (lit ''.'') ip_octet), Word_Boundary]"

definition PII_PATTERNS :: "(string \<times> rx \<times> string) list" where
  "PII_PATTERNS =
     [(''SSN'', SSN, ''[REDACTED-SSN]''), (''CREDIT_CARD'', CREDIT_CARD, ''[REDACTED-CC]''),
      (''EMAIL'', EMAIL, ''[REDACTED-EMAIL]''), (''PHONE_US'', PHONE_US, ''[REDACTED-PHONE]''),
      (''PHONE_INTL'', PHONE_INTL, ''[REDACTED-PHONE]''), (''JWT_TOKEN'', JWT_TOKEN, ''[REDACTED-JWT]''),
      (''API_KEY_HEX'', API_KEY_HEX, ''[REDACTED-KEY]''), (''API_KEY_B64'', API_KEY_B64, ''[REDACTED-KEY]''),
      (''PASSWORD_KV'', PASSWORD_KV, ''[REDACTED-CREDENTIAL]''), (''IP_ADDRESS'', IP_ADDRESS, ''[REDACTED-IP]'')]"

section \<open>Finding and redacting\<close>

record PiiMatch =
  pii_type :: string
  pii_start :: nat
  pii_end :: nat
  placeholder :: string

definition all_matches :: "string \<Rightarrow> PiiMatch list" where
  "all_matches s = concat (map (\<lambda>(kind, r, mark).
     map (\<lambda>(i, j). \<lparr>pii_type = kind, pii_start = i, pii_end = j, placeholder = mark\<rparr>) (finditer r s)) PII_PATTERNS)"

text \<open>\<open>last_end\<close> starts at -1, below every position.\<close>

fun deduplicate_matches :: "int \<Rightarrow> PiiMatch list \<Rightarrow> PiiMatch list" where
  "deduplicate_matches last_end [] = []"
| "deduplicate_matches last_end (m # ms) =
     (if int (pii_start m) \<ge> last_end then m # deduplicate_matches (int (pii_end m)) ms
      else deduplicate_matches last_end ms)"

definition detect_pii :: "string \<Rightarrow> PiiMatch list" where
  "detect_pii s =
     (if s = [] then []
      else deduplicate_matches (- 1)
        (sort_key (\<lambda>m. (pii_start m, - (int (pii_end m) - int (pii_start m)))) (all_matches s)))"

fun redact_parts :: "string \<Rightarrow> nat \<Rightarrow> PiiMatch list \<Rightarrow> string" where
  "redact_parts s cursor [] = drop cursor s"
| "redact_parts s cursor (m # ms) = slice s cursor (pii_start m) @ placeholder m @ redact_parts s (pii_end m) ms"

definition redact_pii :: "string \<Rightarrow> string \<times> PiiMatch list" where
  "redact_pii s = (let ms = detect_pii s in if ms = [] then (s, []) else (redact_parts s 0 ms, ms))"

definition has_pii :: "string \<Rightarrow> bool" where
  "has_pii s \<longleftrightarrow> s \<noteq> [] \<and> (\<exists>(kind, r, mark) \<in> set PII_PATTERNS. \<exists>i \<in> set [0..<Suc (length s)]. ends r s i \<noteq> [])"

section \<open>Walking documents\<close>

text \<open>Every hit is a path and a type; a string below the depth limit is not looked at.\<close>

fun walk_dict :: "pyval \<Rightarrow> string \<Rightarrow> nat \<Rightarrow> (string \<times> string) list" where
  "walk_dict v path 0 = []"
| "walk_dict (PDict d) path (Suc depth) =
     concat (map (\<lambda>(k, v). walk_dict v (if path = [] then k else path @ ''.'' @ k) depth) d)"
| "walk_dict (PList vs) path (Suc depth) =
     concat (map (\<lambda>(i, v). walk_dict v (path @ ''['' @ nat_str i @ '']'') depth) (enumerate 0 vs))"
| "walk_dict (PStr s) path (Suc depth) = map (\<lambda>m. (path, pii_type m)) (detect_pii s)"
| "walk_dict _ path (Suc depth) = []"

definition scan_dict_for_pii :: "pydict \<Rightarrow> nat \<Rightarrow> (string \<times> string) list" where
  "scan_dict_for_pii data max_depth = walk_dict (PDict data) [] max_depth"

section \<open>Redacting a context\<close>

text \<open>The objects of a context. A recursion that runs out of frames gives \<open>None\<close>.\<close>

datatype hval = HNone | HBool bool | HInt int | HFloat rat string | HText string | HRef nat | HObject string

datatype hobj = HDict "(string \<times> hval) list" | HList "hval list"

definition FORBIDDEN_FORWARD_FIELDS :: "string list" where
  "FORBIDDEN_FORWARD_FIELDS = [''prompt'', ''source_code'', ''chain_trace'']"

definition MAX_CONTEXT_REDACTION_DEPTH :: nat where "MAX_CONTEXT_REDACTION_DEPTH = 12"

fun redact_context_value :: "(nat \<Rightarrow> hobj) \<Rightarrow> nat \<Rightarrow> nat \<Rightarrow> nat list \<Rightarrow> hval \<Rightarrow> pyval option" where
  "redact_context_value heap 0 depth seen v = None"
| "redact_context_value heap (Suc frames) depth seen v =
     (case v of
        HText s \<Rightarrow> Some (PStr (fst (redact_pii s)))
      | HNone \<Rightarrow> Some PNone
      | HBool b \<Rightarrow> Some (PBool b)
      | HInt i \<Rightarrow> Some (PInt i)
      | HFloat r t \<Rightarrow> Some (PFloat r t)
      | HRef a \<Rightarrow>
          if MAX_CONTEXT_REDACTION_DEPTH \<le> depth then Some (PStr ''[REDACTED-DEPTH-LIMIT]'')
          else if a \<in> set seen then Some (PStr ''[REDACTED-CYCLE]'')
          else (case heap a of
            HDict kvs \<Rightarrow>
              map_option (\<lambda>vs. PDict (dict_of_pairs vs))
                (those (map (\<lambda>(k, v). map_option (Pair k) (redact_context_value heap frames (Suc depth) (a # seen) v))
                  (filter (\<lambda>(k, v). k \<notin> set FORBIDDEN_FORWARD_FIELDS) kvs)))
          | HList vs \<Rightarrow>
              map_option PList (those (map (redact_context_value heap frames (Suc depth) (a # seen)) vs)))
      | HObject t \<Rightarrow>
          if MAX_CONTEXT_REDACTION_DEPTH \<le> depth then Some (PStr ''[REDACTED-DEPTH-LIMIT]'')
          else redact_context_value heap frames (Suc depth) seen (HText t))"

definition safe_context_json_redact :: "(nat \<Rightarrow> hobj) \<Rightarrow> nat \<Rightarrow> hval \<Rightarrow> pyval option" where
  "safe_context_json_redact heap frames v = redact_context_value heap frames 0 [] v"

section \<open>Patterns for prompt injections\<close>

definition turn_names :: rx where
  "turn_names = alts [ilit ''Human'', ilit ''Assistant'', ilit ''User'', ilit ''System'']"

definition DELIMITER_SYSTEM_TAG :: rx where
  "DELIMITER_SYSTEM_TAG = seq [lit ''<'', opt (lit ''/''), star space, ilit ''system'', star space, lit ''>'']"

definition DELIMITER_INST_TAG :: rx where
  "DELIMITER_INST_TAG = alts [ilit ''[INST]'', ilit ''[/INST]'', ilit ''<<SYS>>'', ilit ''<</SYS>>'']"

definition DELIMITER_HUMAN_TURN :: rx where
  "DELIMITER_HUMAN_TURN = seq [alts [lit [CHR 0x0A, CHR 0x0A], Line_Start], turn_names, star space, lit '':'', star space]"

definition DELIMITER_SEPARATOR :: rx where
  "DELIMITER_SEPARATOR = alts [Seq (lit ''--'') (plus (lit ''-'')), Seq (lit ''=='') (plus (lit ''='')),
     seq [lit ''###'', star space, ilit ''SYSTEM'', star space, lit ''###'']]"

definition words :: "string list \<Rightarrow> rx" where
  "words ws = alts (map ilit ws)"

definition override_of :: "string \<Rightarrow> rx" where
  "override_of verb = seq [ilit verb, opt (ilit ''all ''), opt (words [''previous '', ''above '']), ilit ''instruction'', opt (ilit ''s'')]"

definition ROLE_OVERRIDE :: rx where
  "ROLE_OVERRIDE = seq [Word_Boundary,
     alts [ilit ''you are now'', Seq (ilit ''pretend '') (words [''you are'', ''to be'']), ilit ''your new role is'',
       seq [ilit ''act as '', opt (words [''a'', ''an'']), star space,
         words [''unrestricted'', ''different'', ''new'', ''evil'', ''dan'', ''jailbreak'', ''hacked'', ''unaligned'', ''opposite''],
         Word_Boundary],
       seq [ilit ''act as '', words [''if'', ''though''], ilit '' you '', words [''have no'', ''are not bound'', ''are unrestricted'']],
       override_of ''ignore '', override_of ''disregard '', override_of ''forget ''], Word_Boundary]"

definition JAILBREAK_KEYWORD :: rx where
  "JAILBREAK_KEYWORD = seq [Word_Boundary,
     alts [ilit ''DAN mode'', ilit ''developer mode'', ilit ''jailbreak'', ilit ''no restrictions'', ilit ''unrestricted mode'',
       seq [ilit ''bypass '', words [''safety'', ''filter'', ''guardrail'', ''restriction''], opt (ilit ''s'')]], Word_Boundary]"

definition AGENT_ID_INJECT :: rx where
  "AGENT_ID_INJECT = seq [Word_Boundary, lit ''AGENT-'', digits 2, lit ''-'',
     plus (One (\<lambda>c. is_upper_char c \<or> is_digit c \<or> c = CHR ''-'')), Word_Boundary]"

definition PROMPT_EXTRACTION :: rx where
  "PROMPT_EXTRACTION = seq [Word_Boundary,
     alts [seq [ilit ''repeat '', words [''your'', ''the''], ilit '' '', opt (ilit ''system ''), ilit ''prompt''],
       seq [ilit ''show '', opt (ilit ''me ''), words [''your'', ''the''], ilit '' '', opt (ilit ''system ''), ilit ''prompt''],
       seq [ilit ''what '', words [''is'', ''are''], ilit '' '', words [''your'', ''the''], ilit '' '',
         alts [Seq (ilit ''instruction'') (opt (ilit ''s'')), ilit ''prompt'', Seq (ilit ''rule'') (opt (ilit ''s''))]]],
     Word_Boundary]"

definition BASE64_CONTENT :: rx where
  "BASE64_CONTENT = seq [Word_Boundary, Rep 50 None (alnum ''+/''), Rep 0 (Some 2) (lit ''=''), Word_Boundary]"

definition INJECTION_PATTERNS :: "(string \<times> rx \<times> string) list" where
  "INJECTION_PATTERNS =
     [(''DELIMITER_SYSTEM_TAG'', DELIMITER_SYSTEM_TAG, ''critical''), (''DELIMITER_INST_TAG'', DELIMITER_INST_TAG, ''critical''),
      (''DELIMITER_HUMAN_TURN'', DELIMITER_HUMAN_TURN, ''critical''), (''DELIMITER_SEPARATOR'', DELIMITER_SEPARATOR, ''medium''),
      (''ROLE_OVERRIDE'', ROLE_OVERRIDE, ''high''), (''JAILBREAK_KEYWORD'', JAILBREAK_KEYWORD, ''high''),
      (''AGENT_ID_INJECT'', AGENT_ID_INJECT, ''medium''), (''PROMPT_EXTRACTION'', PROMPT_EXTRACTION, ''medium''),
      (''BASE64_CONTENT'', BASE64_CONTENT, ''low'')]"

record InjectionMatch =
  attack_type :: string
  matched_text :: string

record InjectionResult =
  is_suspicious :: bool
  risk_level :: string
  ir_matches :: "InjectionMatch list"

definition RISK_PRIORITY :: "(string \<times> nat) list" where
  "RISK_PRIORITY = [(''critical'', 4), (''high'', 3), (''medium'', 2), (''low'', 1)]"

definition risk_rank :: "string \<Rightarrow> nat" where
  "risk_rank level = (case map_of RISK_PRIORITY level of Some n \<Rightarrow> n | None \<Rightarrow> 0)"

definition higher_risk :: "string \<Rightarrow> string \<Rightarrow> string" where
  "higher_risk level current = (if risk_rank level > risk_rank current then level else current)"

definition injection_matches :: "string \<Rightarrow> (InjectionMatch \<times> string) list" where
  "injection_matches s = concat (map (\<lambda>(kind, r, level).
     map (\<lambda>(i, j). (\<lparr>attack_type = kind, matched_text = take 200 (slice s i j)\<rparr>, level)) (finditer r s)) INJECTION_PATTERNS)"

definition check_prompt :: "string \<Rightarrow> InjectionResult" where
  "check_prompt s =
     (if s = [] \<or> py_strip s = [] then \<lparr>is_suspicious = False, risk_level = ''low'', ir_matches = []\<rparr>
      else let found = injection_matches s; top = fold (\<lambda>(_, level). higher_risk level) found ''low''
           in \<lparr>is_suspicious = (found \<noteq> []), risk_level = (if found \<noteq> [] then top else ''low''), ir_matches = map fst found\<rparr>)"

text \<open>The property \<open>InjectionResult.summary\<close>.\<close>

definition summary :: "InjectionResult \<Rightarrow> string" where
  "summary r =
     (if \<not> is_suspicious r then ''clean''
      else ''suspicious:'' @ risk_level r @ '':'' @ join_str '','' (sort (remdups (map attack_type (ir_matches r)))))"

definition sanitize_prompt :: "string \<Rightarrow> string" where
  "sanitize_prompt s =
     py_strip (sub_empty (seq [Line_Start, turn_names, star space, lit '':'', star space])
       (sub_empty (alts [seq [ilit ''['', opt (lit ''/''), ilit ''INST]''], seq [lit ''<<'', opt (lit ''/''), ilit ''SYS>>'']])
         (sub_empty DELIMITER_SYSTEM_TAG s)))"

section \<open>Detection\<close>

lemma in_all_matches:
  "m \<in> set (all_matches s) \<longleftrightarrow>
     (\<exists>(kind, r, mark) \<in> set PII_PATTERNS. \<exists>(i, j) \<in> set (finditer r s).
        m = \<lparr>pii_type = kind, pii_start = i, pii_end = j, placeholder = mark\<rparr>)"
  unfolding all_matches_def by fastforce

lemma all_matches_range: "m \<in> set (all_matches s) \<Longrightarrow> pii_start m \<le> pii_end m \<and> pii_end m \<le> length s"
  unfolding in_all_matches using spans_from_bounds [OF finditer_spans] by fastforce

fun apart :: "nat \<Rightarrow> nat \<Rightarrow> PiiMatch list \<Rightarrow> bool" where
  "apart lo hi [] \<longleftrightarrow> lo \<le> hi"
| "apart lo hi (m # ms) \<longleftrightarrow> lo \<le> pii_start m \<and> pii_start m \<le> pii_end m \<and> apart (pii_end m) hi ms"

lemma apart_le: "apart lo hi ms \<Longrightarrow> lo' \<le> lo \<Longrightarrow> apart lo' hi ms"
  by (cases ms) auto

lemma dedup_subset: "set (deduplicate_matches e ms) \<subseteq> set ms"
  by (induction ms arbitrary: e) auto

lemma dedup_apart:
  assumes "\<And>m. m \<in> set ms \<Longrightarrow> pii_start m \<le> pii_end m \<and> pii_end m \<le> hi" and "nat e \<le> hi"
  shows "apart (nat e) hi (deduplicate_matches e ms)"
  using assms
proof (induction ms arbitrary: e)
  case (Cons m ms)
  then show ?case using Cons.IH [of "int (pii_end m)"] Cons.IH [of e] by auto
qed simp

lemma dedup_covers:
  assumes "sorted (map pii_start ms)" and "m \<in> set ms" and "e \<le> int (pii_start m)"
  shows "\<exists>k \<in> set (deduplicate_matches e ms). k = m \<or> pii_start k \<le> pii_start m \<and> pii_start m < pii_end k"
  using assms
proof (induction ms arbitrary: e)
  case (Cons x xs)
  show ?case
  proof (cases "e \<le> int (pii_start x)")
    case False
    then have "m \<in> set xs" using Cons.prems(2,3) by auto
    then show ?thesis using Cons.IH [of e] Cons.prems False by auto
  next
    case True
    consider "m = x" | "m \<in> set xs" "pii_start m < pii_end x" | "m \<in> set xs" "int (pii_end x) \<le> int (pii_start m)"
      using Cons.prems(2) by force
    then show ?thesis
    proof cases
      case 2
      then have "pii_start x \<le> pii_start m" using Cons.prems(1) by simp
      then show ?thesis using True 2 by simp
    next
      case 3
      then show ?thesis using Cons.IH [OF _ 3(1,2)] Cons.prems(1) True by auto
    qed (use True in simp)
  qed
qed simp

lemma sorted_by_start:
  "sorted (map pii_start (sort_key (\<lambda>m. (pii_start m, - (int (pii_end m) - int (pii_start m)))) (ms :: PiiMatch list)))"
proof -
  define f :: "PiiMatch \<Rightarrow> nat \<times> int" where "f = (\<lambda>m. (pii_start m, - (int (pii_end m) - int (pii_start m))))"
  have "sorted (map f xs) \<Longrightarrow> sorted (map pii_start xs)" for xs
    by (induction xs) (auto simp: f_def)
  then show ?thesis using sorted_sort_key [of f ms] by (simp add: f_def)
qed

lemma detect_pii_apart: "apart 0 (length s) (detect_pii s)"
proof -
  have "apart (nat (- 1)) (length s) (deduplicate_matches (- 1)
      (sort_key (\<lambda>m. (pii_start m, - (int (pii_end m) - int (pii_start m)))) (all_matches s)))"
    by (rule dedup_apart) (simp_all add: all_matches_range)
  then show ?thesis by (simp add: detect_pii_def)
qed

lemma detect_pii_covers:
  assumes "m \<in> set (all_matches s)" and "s \<noteq> []"
  shows "\<exists>k \<in> set (detect_pii s). k = m \<or> pii_start k \<le> pii_start m \<and> pii_start m < pii_end k"
  using dedup_covers [OF sorted_by_start, of m "all_matches s" "- 1"] assms by (simp add: detect_pii_def)

text \<open>Redaction as a whole: the text is cut into the parts between the matches and the matched parts, and the
  result joins the same parts with the placeholders in between.\<close>

fun weave :: "string list \<Rightarrow> string list \<Rightarrow> string" where
  "weave (g # gs) (x # xs) = g @ x @ weave gs xs"
| "weave gs xs = concat gs"

fun gaps :: "string \<Rightarrow> nat \<Rightarrow> PiiMatch list \<Rightarrow> string list" where
  "gaps s cursor [] = [drop cursor s]"
| "gaps s cursor (m # ms) = slice s cursor (pii_start m) # gaps s (pii_end m) ms"

lemma weave_redacted: "redact_parts s cursor ms = weave (gaps s cursor ms) (map placeholder ms)"
  by (induction ms arbitrary: cursor) simp_all

lemma weave_original:
  "apart cursor (length s) ms \<Longrightarrow>
   drop cursor s = weave (gaps s cursor ms) (map (\<lambda>m. slice s (pii_start m) (pii_end m)) ms)"
proof (induction ms arbitrary: cursor)
  case (Cons m ms)
  then have "drop (pii_end m) s = weave (gaps s (pii_end m) ms) (map (\<lambda>m. slice s (pii_start m) (pii_end m)) ms)"
    and "cursor \<le> pii_start m" "pii_start m \<le> pii_end m" by simp_all
  then show ?case using slice_drop [of cursor "pii_start m" s] slice_drop [of "pii_start m" "pii_end m" s] by simp
qed simp

text \<open>Redaction replaces exactly the kept matches, which lie apart from each other, by their placeholders and leaves the rest of the
  text as it is; and wherever a pattern matches, its first character is in a match that was replaced.\<close>

theorem redaction_exact:
  assumes "redact_pii s = (redacted, ms)" and "s \<noteq> []"
  shows "(\<exists>gs. length gs = Suc (length ms) \<and> s = weave gs (map (\<lambda>m. slice s (pii_start m) (pii_end m)) ms)
      \<and> redacted = weave gs (map placeholder ms))
    \<and> (\<forall>(kind, r, mark) \<in> set PII_PATTERNS. \<forall>(i, j) \<in> set (finditer r s).
      \<exists>k \<in> set ms. pii_start k \<le> i \<and> (i < pii_end k \<or> pii_start k = i \<and> pii_end k = j))"
proof -
  have ms: "ms = detect_pii s" and redacted: "redacted = redact_parts s 0 ms"
    using assms by (auto simp: redact_pii_def Let_def split: if_splits)
  have len: "length (gaps s c xs) = Suc (length xs)" for c xs by (induction xs arbitrary: c) simp_all
  have "\<exists>gs. length gs = Suc (length ms) \<and> s = weave gs (map (\<lambda>m. slice s (pii_start m) (pii_end m)) ms)
      \<and> redacted = weave gs (map placeholder ms)"
    using weave_original [of 0 s "detect_pii s"] detect_pii_apart [of s]
    by (intro exI [of _ "gaps s 0 ms"]) (simp add: len ms redacted weave_redacted)
  moreover have "\<exists>k \<in> set ms. pii_start k \<le> i \<and> (i < pii_end k \<or> pii_start k = i \<and> pii_end k = j)"
    if "(kind, r, mark) \<in> set PII_PATTERNS" "(i, j) \<in> set (finditer r s)" for kind r mark i j
  proof -
    have "\<lparr>pii_type = kind, pii_start = i, pii_end = j, placeholder = mark\<rparr> \<in> set (all_matches s)"
      unfolding in_all_matches using that by blast
    from detect_pii_covers [OF this assms(2)] obtain k where
      "k \<in> set (detect_pii s)" "pii_start k \<le> i" "i < pii_end k \<or> pii_start k = i \<and> pii_end k = j" by fastforce
    then show ?thesis unfolding ms by blast
  qed
  ultimately show ?thesis by blast
qed

text \<open>The rest of an overlapping match is not: a match that starts inside an earlier one is dropped whole.\<close>

lemma overlap_leaks:
  "fst (redact_pii ''a@b.cc.token:x'') = ''[REDACTED-EMAIL]:x''"
  by code_simp

text \<open>The quick check agrees with detection.\<close>

lemma find_from_found:
  "find_from r s fuel i \<noteq> [] \<longleftrightarrow> (\<exists>k. i \<le> k \<and> k < i + fuel \<and> k \<le> length s \<and> ends r s k \<noteq> [])"
proof (induction fuel arbitrary: i)
  case (Suc fuel)
  show ?case
  proof (cases "length s < i")
    case False
    show ?thesis
    proof (cases "ends r s i")
      case Nil
      have "(\<exists>k. Suc i \<le> k \<and> k < Suc i + fuel \<and> k \<le> length s \<and> ends r s k \<noteq> [])
          \<longleftrightarrow> (\<exists>k. i \<le> k \<and> k < i + Suc fuel \<and> k \<le> length s \<and> ends r s k \<noteq> [])"
        using Nil by (metis Suc_leD Suc_leI add_Suc add_Suc_right le_neq_implies_less)
      then show ?thesis using Suc.IH [of "Suc i"] Nil False by simp
    next
      case (Cons j js)
      then show ?thesis using False by auto
    qed
  qed auto
qed simp

lemma finditer_found: "finditer r s \<noteq> [] \<longleftrightarrow> (\<exists>k \<in> set [0..<Suc (length s)]. ends r s k \<noteq> [])"
  unfolding finditer_def find_from_found by (auto simp: less_Suc_eq_le simp del: upt_Suc) (metis le_SucI)

theorem quick_check_agrees: "has_pii s \<longleftrightarrow> detect_pii s \<noteq> []"
proof (cases "s = []")
  case False
  have "has_pii s \<longleftrightarrow> (\<exists>(kind, r, mark) \<in> set PII_PATTERNS. finditer r s \<noteq> [])"
    unfolding has_pii_def finditer_found using False by simp
  also have "\<dots> \<longleftrightarrow> all_matches s \<noteq> []"
    by (simp add: all_matches_def case_prod_beta Bex_def)
  also have "\<dots> \<longleftrightarrow> detect_pii s \<noteq> []"
  proof
    assume "all_matches s \<noteq> []"
    then obtain m where "m \<in> set (all_matches s)" by (cases "all_matches s") auto
    from detect_pii_covers [OF this False] show "detect_pii s \<noteq> []" by auto
  qed (auto simp: detect_pii_def)
  finally show ?thesis .
qed (simp add: has_pii_def detect_pii_def)

section \<open>Contexts\<close>

fun context_clean :: "pyval \<Rightarrow> bool" where
  "context_clean (PStr s) \<longleftrightarrow> (\<exists>t. s = fst (redact_pii t)) \<or> s \<in> {''[REDACTED-DEPTH-LIMIT]'', ''[REDACTED-CYCLE]''}"
| "context_clean (PDict d) \<longleftrightarrow> (\<forall>(k, v) \<in> set d. k \<notin> set FORBIDDEN_FORWARD_FIELDS \<and> context_clean v)"
| "context_clean (PList vs) \<longleftrightarrow> (\<forall>v \<in> set vs. context_clean v)"
| "context_clean _ \<longleftrightarrow> True"

lemma those_all:
  assumes "\<And>x. x \<in> set xs \<Longrightarrow> \<exists>y. f x = Some y \<and> P y"
  shows "\<exists>ys. those (map f xs) = Some ys \<and> (\<forall>y \<in> set ys. P y)"
  using assms
proof (induction xs)
  case (Cons x xs)
  then obtain y ys where "f x = Some y" "P y" "those (map f xs) = Some ys" "\<forall>y \<in> set ys. P y" by fastforce
  then show ?case by simp
qed simp

lemma set_dict_of_pairs: "set (dict_of_pairs ps) \<subseteq> set ps"
proof -
  have "set (foldl (\<lambda>d (k, v). dset k v d) d ps) \<subseteq> set d \<union> set ps" for d :: "'a dict"
  proof (induction ps arbitrary: d)
    case (Cons p ps)
    obtain k v where p: "p = (k, v)" by fastforce
    have "set (dset k v d) \<subseteq> insert (k, v) (set d)"
      unfolding dset_def by (induction d) (auto split: if_splits)
    then show ?case using Cons.IH [of "dset k v d"] by (auto simp: p)
  qed simp
  then show ?thesis unfolding dict_of_pairs_def by (metis list.set(1) sup_bot.left_neutral)
qed

lemma redact_total:
  assumes "depth \<le> MAX_CONTEXT_REDACTION_DEPTH" and "MAX_CONTEXT_REDACTION_DEPTH < depth + frames"
  shows "\<exists>r. redact_context_value heap frames depth seen v = Some r \<and> context_clean r"
  using assms
proof (induction frames arbitrary: depth seen v)
  case (Suc frames)
  show ?case
  proof (cases "depth = MAX_CONTEXT_REDACTION_DEPTH")
    case True
    then show ?thesis by (cases v) auto
  next
    case False
    have deeper: "\<exists>r. redact_context_value heap frames (Suc depth) seen' v' = Some r \<and> context_clean r" for seen' v'
      using Suc.IH [of "Suc depth"] Suc.prems False by simp
    show ?thesis
    proof (cases v)
      case (HRef a)
      show ?thesis
      proof (cases "heap a")
        case (HDict kvs)
        let ?entry = "\<lambda>(k, v). map_option (Pair k) (redact_context_value heap frames (Suc depth) (a # seen) v)"
        let ?kept = "filter (\<lambda>(k, v). k \<notin> set FORBIDDEN_FORWARD_FIELDS) kvs"
        have "\<exists>e. ?entry x = Some e \<and> (fst e \<notin> set FORBIDDEN_FORWARD_FIELDS \<and> context_clean (snd e))"
          if "x \<in> set ?kept" for x
        proof -
          obtain k v where x: "x = (k, v)" by fastforce
          obtain r where "redact_context_value heap frames (Suc depth) (a # seen) v = Some r" "context_clean r"
            using deeper by blast
          then show ?thesis using that by (simp add: x)
        qed
        from those_all [of ?kept ?entry, OF this] obtain es where es: "those (map ?entry ?kept) = Some es"
          "\<forall>e \<in> set es. fst e \<notin> set FORBIDDEN_FORWARD_FIELDS \<and> context_clean (snd e)" by blast
        then have "context_clean (PDict (dict_of_pairs es))"
          using set_dict_of_pairs [of es] by fastforce
        then show ?thesis using HRef HDict es(1) False Suc.prems(1) by simp
      next
        case (HList vs)
        from those_all [of vs "redact_context_value heap frames (Suc depth) (a # seen)" context_clean, OF deeper]
        show ?thesis using HRef HList False Suc.prems(1) by auto
      qed
    qed (use deeper [of seen] False Suc.prems in auto)
  qed
qed simp

text \<open>C33. Redacting a context returns for every graph of objects, shared and cyclic ones included, within 13 frames of
  recursion, and the result holds none of the forbidden fields at any depth and no text but redacted text and
  the two marks.\<close>

theorem context_redaction_returns:
  assumes "13 \<le> frames"
  shows "\<exists>r. safe_context_json_redact heap frames v = Some r \<and> context_clean r"
  using redact_total [of 0 frames heap "[]" v] assms by (simp add: safe_context_json_redact_def MAX_CONTEXT_REDACTION_DEPTH_def)

section \<open>Prompts\<close>

lemma risk_fold:
  "risk_rank current \<le> risk_rank (fold (\<lambda>(_, level). higher_risk level) found current)
   \<and> (\<forall>(m, level) \<in> set found. risk_rank level \<le> risk_rank (fold (\<lambda>(_, level). higher_risk level) found current))
   \<and> (fold (\<lambda>(_, level). higher_risk level) found current = current
      \<or> (\<exists>(m, level) \<in> set found. fold (\<lambda>(_, level). higher_risk level) found current = level))"
proof (induction found arbitrary: current)
  case (Cons x xs)
  obtain m level where x: "x = (m, level)" by fastforce
  have "risk_rank current \<le> risk_rank (higher_risk level current)" "risk_rank level \<le> risk_rank (higher_risk level current)"
    "higher_risk level current = current \<or> higher_risk level current = level" by (auto simp: higher_risk_def)
  then show ?case using Cons.IH [of "higher_risk level current"] by (auto simp: x)
qed simp

lemma in_injection_matches:
  "x \<in> set (injection_matches s) \<longleftrightarrow>
     (\<exists>(kind, r, level) \<in> set INJECTION_PATTERNS. \<exists>(i, j) \<in> set (finditer r s).
        x = (\<lparr>attack_type = kind, matched_text = take 200 (slice s i j)\<rparr>, level))"
  unfolding injection_matches_def by fastforce

lemma injection_found:
  assumes "(kind, r, level) \<in> set INJECTION_PATTERNS" and "finditer r s \<noteq> []"
  shows "\<exists>m. (m, level) \<in> set (injection_matches s)"
proof -
  obtain i j where "(i, j) \<in> set (finditer r s)" using assms(2) by (cases "finditer r s") auto
  then show ?thesis using assms(1) unfolding in_injection_matches by blast
qed

lemma injection_source:
  assumes "(m, level) \<in> set (injection_matches s)"
  shows "\<exists>(kind, r, l) \<in> set INJECTION_PATTERNS. finditer r s \<noteq> [] \<and> l = level"
proof -
  obtain kind r l i j where "(kind, r, l) \<in> set INJECTION_PATTERNS" "(i, j) \<in> set (finditer r s)" "l = level"
    using assms unfolding in_injection_matches by auto
  moreover from this(2) have "finditer r s \<noteq> []" by auto
  ultimately show ?thesis by blast
qed

lemma check_prompt_found:
  assumes "py_strip s \<noteq> []"
  shows "check_prompt s = \<lparr>is_suspicious = (injection_matches s \<noteq> []),
      risk_level = (if injection_matches s \<noteq> [] then fold (\<lambda>(_, level). higher_risk level) (injection_matches s) ''low'' else ''low''),
      ir_matches = map fst (injection_matches s)\<rparr>"
proof -
  have "s \<noteq> []" using assms by auto
  then show ?thesis using assms by (simp add: check_prompt_def Let_def)
qed

lemma injection_risk:
  assumes "py_strip s \<noteq> []" and "(kind, r, level) \<in> set INJECTION_PATTERNS" and "finditer r s \<noteq> []"
  shows "is_suspicious (check_prompt s)" and "risk_rank level \<le> risk_rank (risk_level (check_prompt s))"
proof -
  from injection_found [OF assms(2,3)] obtain m where "(m, level) \<in> set (injection_matches s)" by blast
  then show "is_suspicious (check_prompt s)" "risk_rank level \<le> risk_rank (risk_level (check_prompt s))"
    using risk_fold [of "''low''" "injection_matches s"] by (auto simp: check_prompt_found [OF assms(1)])
qed

text \<open>A text is suspicious exactly when a pattern occurs in it, and its risk level is the highest among the patterns
  that occur.\<close>

theorem prompt_risk_is_highest:
  assumes "py_strip s \<noteq> []"
  shows "is_suspicious (check_prompt s) \<longleftrightarrow> (\<exists>(kind, r, level) \<in> set INJECTION_PATTERNS. finditer r s \<noteq> [])"
    and "(kind, r, level) \<in> set INJECTION_PATTERNS \<Longrightarrow> finditer r s \<noteq> [] \<Longrightarrow>
      risk_rank level \<le> risk_rank (risk_level (check_prompt s))"
    and "risk_level (check_prompt s) = ''low''
      \<or> (\<exists>(kind, r, level) \<in> set INJECTION_PATTERNS. finditer r s \<noteq> [] \<and> risk_level (check_prompt s) = level)"
proof -
  note check = check_prompt_found [OF assms]
  have found: "injection_matches s \<noteq> [] \<longleftrightarrow> (\<exists>(kind, r, level) \<in> set INJECTION_PATTERNS. finditer r s \<noteq> [])"
  proof
    assume "injection_matches s \<noteq> []"
    then obtain m level where "(m, level) \<in> set (injection_matches s)" by (cases "injection_matches s") auto
    from injection_source [OF this] show "\<exists>(kind, r, level) \<in> set INJECTION_PATTERNS. finditer r s \<noteq> []" by blast
  next
    assume "\<exists>(kind, r, level) \<in> set INJECTION_PATTERNS. finditer r s \<noteq> []"
    then show "injection_matches s \<noteq> []" using injection_found by fastforce
  qed
  show "is_suspicious (check_prompt s) \<longleftrightarrow> (\<exists>(kind, r, level) \<in> set INJECTION_PATTERNS. finditer r s \<noteq> [])"
    by (simp add: check found)
  note fold = risk_fold [of "''low''" "injection_matches s"]
  show "risk_rank level \<le> risk_rank (risk_level (check_prompt s))"
    if "(kind, r, level) \<in> set INJECTION_PATTERNS" "finditer r s \<noteq> []"
    using injection_risk(2) [OF assms that] .
  show "risk_level (check_prompt s) = ''low''
      \<or> (\<exists>(kind, r, level) \<in> set INJECTION_PATTERNS. finditer r s \<noteq> [] \<and> risk_level (check_prompt s) = level)"
  proof (cases "risk_level (check_prompt s) = ''low''")
    case False
    then obtain m where "(m, risk_level (check_prompt s)) \<in> set (injection_matches s)"
      using fold by (auto simp: check split: if_splits)
    from injection_source [OF this] show ?thesis by fastforce
  qed simp
qed

section \<open>Examples\<close>

lemma redaction_exact_witness:
  "\<exists>k \<in> set (snd (redact_pii ''at 10.0.0.1'')). pii_start k \<le> 3 \<and> 3 < pii_end k"
proof -
  obtain redacted ms where r: "redact_pii ''at 10.0.0.1'' = (redacted, ms)" by fastforce
  have "(''IP_ADDRESS'', IP_ADDRESS, ''[REDACTED-IP]'') \<in> set PII_PATTERNS" by (simp add: PII_PATTERNS_def)
  moreover have "finditer IP_ADDRESS ''at 10.0.0.1'' = [(3, 11)]" by code_simp
  ultimately show ?thesis using redaction_exact [OF r] r by fastforce
qed

lemma context_redaction_returns_witness:
  "\<exists>r. safe_context_json_redact (\<lambda>_. HDict [(''self'', HRef 0), (''prompt'', HText ''x'')]) 13 (HRef 0) = Some r \<and> context_clean r"
  by (rule context_redaction_returns) simp

lemma prompt_risk_is_highest_witness:
  "3 \<le> risk_rank (risk_level (check_prompt ''enable DAN mode''))"
proof -
  have s: "py_strip ''enable DAN mode'' \<noteq> []" by code_simp
  have k: "(''JAILBREAK_KEYWORD'', JAILBREAK_KEYWORD, ''high'') \<in> set INJECTION_PATTERNS" by (simp add: INJECTION_PATTERNS_def)
  have f: "finditer JAILBREAK_KEYWORD ''enable DAN mode'' \<noteq> []" by code_simp
  from prompt_risk_is_highest(2) [OF s k f] show ?thesis by (simp add: risk_rank_def RISK_PRIORITY_def)
qed

end
