(* ===== verification/Gateway_Routes.thy ===== *)
theory Gateway_Routes
  imports Gateway_Auth
begin

text \<open>
  The gateway's proxy routes: \<open>_proxy_get_internal\<close> and \<open>_proxy_post_internal\<close> of \<open>api_gateway/main.py\<close>, and
  the routes of \<open>routers/missions.py\<close>, \<open>routers/operations.py\<close>, the maintenance routes and the state change
  of \<open>main.py\<close>. The orchestrator behind them is an argument: it answers a call, or cannot be reached. A route
  is a constructor with its path, query and body arguments; the bounds FastAPI puts on the queries come first.
\<close>

section \<open>Calls and answers\<close>

record upstream_call =
  uc_method :: string
  uc_path :: string
  uc_params :: pydict
  uc_body :: "pydict option"
  uc_key :: string

text \<open>A body is a JSON document, a file of another content type, or neither.\<close>

datatype body = Doc pyval | Raw string | Broken

datatype reply = Unreachable | Answer nat body

type_synonym upstream = "upstream_call \<Rightarrow> reply"

definition proxy_get_internal ::
  "gateway_config \<Rightarrow> upstream \<Rightarrow> string \<Rightarrow> pydict \<Rightarrow> upstream_call list \<times> body http" where
  "proxy_get_internal cfg up path params =
     (case require_internal_service_api_key cfg of
        Inl e \<Rightarrow> ([], Inl e)
      | Inr key \<Rightarrow>
          (let call = \<lparr>uc_method = ''GET'', uc_path = path, uc_params = params, uc_body = None, uc_key = key\<rparr>
           in ([call],
               case up call of
                 Unreachable \<Rightarrow> Inl (502, ''orchestrator unavailable'')
               | Answer status body \<Rightarrow>
                   if status = 404 then Inl (404, ''resource not found'')
                   else if status \<in> {401, 403} then Inl (502, ''orchestrator internal auth rejected request'')
                   else if status \<ge> 400 then Inl (502, ''orchestrator internal query failed'')
                   else if body = Broken then Inl (500, ''Internal Server Error'') else Inr body)))"

definition error_detail :: "body \<Rightarrow> pyval" where
  "error_detail body = (case body of Doc (PDict d) \<Rightarrow> dget d ''detail'' | _ \<Rightarrow> PNone)"

definition proxy_post_internal ::
  "gateway_config \<Rightarrow> upstream \<Rightarrow> string \<Rightarrow> pydict \<Rightarrow> pydict option \<Rightarrow> upstream_call list \<times> body http" where
  "proxy_post_internal cfg up path params json_body =
     (case require_internal_service_api_key cfg of
        Inl e \<Rightarrow> ([], Inl e)
      | Inr key \<Rightarrow>
          (let call = \<lparr>uc_method = ''POST'', uc_path = path, uc_params = params, uc_body = json_body, uc_key = key\<rparr>
           in ([call],
               case up call of
                 Unreachable \<Rightarrow> Inl (502, ''orchestrator unavailable'')
               | Answer status body \<Rightarrow>
                   if status \<in> {401, 403} then Inl (502, ''orchestrator internal auth rejected request'')
                   else if status \<ge> 400
                   then Inl (502, py_str (py_or (error_detail body) (PStr ''orchestrator internal write failed'')))
                   else case body of Doc v \<Rightarrow> Inr (Doc v) | _ \<Rightarrow> Inl (500, ''Internal Server Error''))))"

section \<open>Routes\<close>

datatype gateway_route =
    Get_Mission string
  | List_Missions int
  | Mission_Events string int
  | Mission_Pod_Assignment string
  | Mission_Chain_Trace string
  | Create_Sow pydict
  | Get_Sow string
  | Create_Feature_Contract pydict
  | Mission_Logicnodes string int
  | Mission_Knowledge string int
  | Mission_Knowledge_Graph string int
  | Mission_Audit_Reports string int
  | Mission_Audit_Artifacts string int
  | Mission_Audit_Events string int
  | Mission_Build_Artifacts string int
  | Mission_Build_Artifact string string
  | Mission_Artifact string "string option" "string option" string
  | Mission_Token_Usage string
  | Export_Patch string string
  | Export_Sbom string
  | Operations_Summary
  | Operations_Agents int int int
  | Operations_Events int
  | Operations_Agent_Events int
  | Operations_Agent_Integrations
  | Operations_Logicnodes int "string option"
  | Operations_Pod_Assignments int
  | Operations_Projects int
  | Project_Audit_Events string int "string option" "string option" "string option"
  | Operations_Alerts int
  | Set_Alert_State string string
  | Create_Diagnostics "string option"
  | Trigger_Backup

text \<open>\<open>limit: int = Query(default=..., ge=..., le=...)\<close>\<close>

fun query_ok :: "gateway_route \<Rightarrow> bool" where
  "query_ok (List_Missions n) = (1 \<le> n \<and> n \<le> 200)"
| "query_ok (Mission_Events _ n) = (1 \<le> n \<and> n \<le> 500)"
| "query_ok (Mission_Logicnodes _ n) = (1 \<le> n \<and> n \<le> 1000)"
| "query_ok (Mission_Knowledge _ n) = (1 \<le> n \<and> n \<le> 500)"
| "query_ok (Mission_Knowledge_Graph _ n) = (1 \<le> n \<and> n \<le> 1000)"
| "query_ok (Mission_Audit_Reports _ n) = (1 \<le> n \<and> n \<le> 200)"
| "query_ok (Mission_Audit_Artifacts _ n) = (1 \<le> n \<and> n \<le> 200)"
| "query_ok (Mission_Audit_Events _ n) = (1 \<le> n \<and> n \<le> 500)"
| "query_ok (Mission_Build_Artifacts _ n) = (1 \<le> n \<and> n \<le> 200)"
| "query_ok (Operations_Agents m a e) = (50 \<le> m \<and> m \<le> 5000 \<and> 50 \<le> a \<and> a \<le> 5000 \<and> 50 \<le> e \<and> e \<le> 2000)"
| "query_ok (Operations_Events n) = (1 \<le> n \<and> n \<le> 1000)"
| "query_ok (Operations_Agent_Events n) = (1 \<le> n \<and> n \<le> 1000)"
| "query_ok (Operations_Logicnodes n _) = (1 \<le> n \<and> n \<le> 1000)"
| "query_ok (Operations_Pod_Assignments n) = (1 \<le> n \<and> n \<le> 1000)"
| "query_ok (Operations_Projects n) = (1 \<le> n \<and> n \<le> 500)"
| "query_ok (Project_Audit_Events _ n _ _ _) = (1 \<le> n \<and> n \<le> 1000)"
| "query_ok (Operations_Alerts n) = (1 \<le> n \<and> n \<le> 200)"
| "query_ok _ = True"

fun operator_route :: "gateway_route \<Rightarrow> bool" where
  "operator_route (Mission_Token_Usage _) = True"
| "operator_route Operations_Summary = True"
| "operator_route (Operations_Agents _ _ _) = True"
| "operator_route (Operations_Events _) = True"
| "operator_route (Operations_Agent_Events _) = True"
| "operator_route Operations_Agent_Integrations = True"
| "operator_route (Operations_Logicnodes _ _) = True"
| "operator_route (Operations_Pod_Assignments _) = True"
| "operator_route (Operations_Projects _) = True"
| "operator_route (Project_Audit_Events _ _ _ _ _) = True"
| "operator_route (Operations_Alerts _) = True"
| "operator_route (Set_Alert_State _ _) = True"
| "operator_route (Create_Diagnostics _) = True"
| "operator_route Trigger_Backup = True"
| "operator_route _ = False"

definition limit_param :: "int \<Rightarrow> pydict" where
  "limit_param n = [(''limit'', PInt n)]"

definition optional_param :: "string \<Rightarrow> string option \<Rightarrow> pydict" where
  "optional_param name value = (case truthy_text value of None \<Rightarrow> [] | Some s \<Rightarrow> [(name, PStr s)])"

definition mission_path :: "string \<Rightarrow> string \<Rightarrow> string" where
  "mission_path mid rest = ''/missions/'' @ mid @ rest"

definition internal_mission_path :: "string \<Rightarrow> string \<Rightarrow> string" where
  "internal_mission_path mid rest = ''/internal/missions/'' @ mid @ rest"

definition contract_prompt :: "pydict \<Rightarrow> string" where
  "contract_prompt payload = py_strip (str_or_empty (py_or (dget payload ''prompt'') (dget payload ''request'')))"

text \<open>What a route does once the caller is let in.\<close>

definition forward_route :: "gateway_config \<Rightarrow> upstream \<Rightarrow> gateway_route \<Rightarrow> upstream_call list \<times> body http" where
  "forward_route cfg up r =
     (let get = (\<lambda>path params. proxy_get_internal cfg up path params);
          post = (\<lambda>path params body. proxy_post_internal cfg up path params body)
      in case r of
        Get_Mission mid \<Rightarrow> get (mission_path mid []) []
      | List_Missions n \<Rightarrow> get ''/missions'' (limit_param n)
      | Mission_Events mid n \<Rightarrow> get (mission_path mid ''/events'') (limit_param n)
      | Mission_Pod_Assignment mid \<Rightarrow> get (internal_mission_path mid ''/pod-assignment'') []
      | Mission_Chain_Trace mid \<Rightarrow> get (internal_mission_path mid ''/chain-trace'') []
      | Create_Sow payload \<Rightarrow> post ''/internal/sows'' [] (Some payload)
      | Get_Sow sow \<Rightarrow> get (''/internal/sows/'' @ sow) []
      | Create_Feature_Contract payload \<Rightarrow>
          if length (contract_prompt payload) < 3 then ([], Inl (400, ''prompt must be at least 3 characters''))
          else post ''/internal/pm/feature-contract'' [] (Some (dset ''prompt'' (PStr (contract_prompt payload)) payload))
      | Mission_Logicnodes mid n \<Rightarrow> get (internal_mission_path mid ''/logicnodes'') (limit_param n)
      | Mission_Knowledge mid n \<Rightarrow> get (internal_mission_path mid ''/knowledge'') (limit_param n)
      | Mission_Knowledge_Graph mid n \<Rightarrow> get (internal_mission_path mid ''/knowledge-graph'') (limit_param n)
      | Mission_Audit_Reports mid n \<Rightarrow> get (internal_mission_path mid ''/audit-reports'') (limit_param n)
      | Mission_Audit_Artifacts mid n \<Rightarrow> get (internal_mission_path mid ''/audit-artifacts'') (limit_param n)
      | Mission_Audit_Events mid n \<Rightarrow> get (internal_mission_path mid ''/audit-events'') (limit_param n)
      | Mission_Build_Artifacts mid n \<Rightarrow> get (internal_mission_path mid ''/build-artifacts'') (limit_param n)
      | Mission_Build_Artifact mid artifact \<Rightarrow> get (internal_mission_path mid (''/build-artifacts/'' @ artifact)) []
      | Mission_Artifact mid artifact_id artifact_type format \<Rightarrow>
          get (mission_path mid ''/artifact'')
            ([(''format'', PStr format)] @ optional_param ''artifact_id'' artifact_id @ optional_param ''artifact_type'' artifact_type)
      | Mission_Token_Usage mid \<Rightarrow> get (mission_path mid ''/token-usage'') []
      | Export_Patch mid format \<Rightarrow> get (mission_path mid ''/export/patch'') [(''format'', PStr format)]
      | Export_Sbom mid \<Rightarrow> get (mission_path mid ''/export/sbom'') []
      | Operations_Summary \<Rightarrow> get ''/internal/operations/summary'' []
      | Operations_Agents m a e \<Rightarrow> get ''/internal/operations/agents''
          [(''mission_limit'', PInt m), (''assignment_limit'', PInt a), (''event_limit'', PInt e)]
      | Operations_Events n \<Rightarrow> get ''/internal/operations/events'' (limit_param n)
      | Operations_Agent_Events n \<Rightarrow> get ''/internal/operations/agent-events'' (limit_param n)
      | Operations_Agent_Integrations \<Rightarrow> get ''/internal/operations/agent-integrations'' []
      | Operations_Logicnodes n mid \<Rightarrow> get ''/internal/operations/logicnodes'' (limit_param n @ optional_param ''mission_id'' mid)
      | Operations_Pod_Assignments n \<Rightarrow> get ''/internal/operations/pod-assignments'' (limit_param n)
      | Operations_Projects n \<Rightarrow> get ''/internal/operations/projects'' (limit_param n)
      | Project_Audit_Events project n mid agent tool \<Rightarrow>
          get (''/internal/operations/projects/'' @ project @ ''/audit-events'')
            (limit_param n @ optional_param ''mission_id'' mid @ optional_param ''agent_id'' agent @ optional_param ''tool_name'' tool)
      | Operations_Alerts n \<Rightarrow> get ''/internal/operations/alerts'' (limit_param n)
      | Set_Alert_State alert_id new_state \<Rightarrow>
          post (''/internal/operations/alerts/'' @ alert_id @ ''/state'') [] (Some [(''state'', PStr new_state)])
      | Create_Diagnostics mid \<Rightarrow> post ''/internal/maintenance/diagnostics''
          [(''mission_id'', case mid of None \<Rightarrow> PNone | Some m \<Rightarrow> PStr m)] None
      | Trigger_Backup \<Rightarrow> post ''/internal/maintenance/backup'' [] None)"

definition handle_route ::
  "gateway_config \<Rightarrow> jwt_library \<Rightarrow> upstream \<Rightarrow> string option \<Rightarrow> string option \<Rightarrow> gateway_route
     \<Rightarrow> upstream_call list \<times> body http" where
  "handle_route cfg jwt up x_api_key authorization r =
     (if \<not> query_ok r then ([], Inl (422, ''query out of bounds''))
      else case (if operator_route r then require_operator_access cfg jwt x_api_key authorization
                 else require_reader_access cfg jwt x_api_key authorization) of
        Inl e \<Rightarrow> ([], Inl e)
      | Inr _ \<Rightarrow> forward_route cfg up r)"

text \<open>\<open>POST /v1/missions/{mission_id}/state\<close>: forwarded with the headers of the mutation check.\<close>

definition update_mission_state ::
  "gateway_config \<Rightarrow> jwt_library \<Rightarrow> upstream \<Rightarrow> string option \<Rightarrow> string option \<Rightarrow> string \<Rightarrow> string \<Rightarrow> string option
     \<Rightarrow> upstream_call list \<times> body http" where
  "update_mission_state cfg jwt up x_api_key authorization mid new_state expected_state =
     (case resolve_mutation_forward_headers cfg jwt x_api_key authorization of
        Inl e \<Rightarrow> ([], Inl e)
      | Inr key \<Rightarrow>
          (let call = \<lparr>uc_method = ''POST'', uc_path = mission_path mid ''/state'', uc_params = [],
                 uc_body = Some [(''new_state'', PStr new_state),
                   (''expected_state'', case expected_state of None \<Rightarrow> PNone | Some s \<Rightarrow> PStr s)], uc_key = key\<rparr>
           in ([call],
               case up call of
                 Unreachable \<Rightarrow> Inl (502, ''orchestrator unavailable'')
               | Answer status body \<Rightarrow>
                   if status \<in> {401, 403}
                   then (case body of Doc (PDict d) \<Rightarrow> Inl (status, py_str (dget d ''detail'')) | _ \<Rightarrow> Inl (500, ''Internal Server Error''))
                   else if status = 404 then Inl (404, ''mission not found'')
                   else if status \<ge> 400 then Inl (502, ''orchestrator mutation failed'')
                   else case body of Doc v \<Rightarrow> Inr (Doc v) | _ \<Rightarrow> Inl (500, ''Internal Server Error''))))"

section \<open>Properties\<close>

lemma proxy_calls:
  "fst (proxy_get_internal cfg up path params) = calls \<Longrightarrow> calls = [] \<or> (\<exists>c. calls = [c] \<and> uc_method c = ''GET''
     \<and> uc_key c = py_strip (gc_internal_key cfg) \<and> py_strip (gc_internal_key cfg) \<noteq> [])"
  "fst (proxy_post_internal cfg up path params json) = calls \<Longrightarrow> calls = [] \<or> (\<exists>c. calls = [c] \<and> uc_method c = ''POST''
     \<and> uc_key c = py_strip (gc_internal_key cfg) \<and> py_strip (gc_internal_key cfg) \<noteq> [])"
  by (auto simp: proxy_get_internal_def proxy_post_internal_def require_internal_service_api_key_def Let_def split: if_splits)

fun writing_route :: "gateway_route \<Rightarrow> bool" where
  "writing_route (Create_Sow _) = True"
| "writing_route (Create_Feature_Contract _) = True"
| "writing_route (Set_Alert_State _ _) = True"
| "writing_route (Create_Diagnostics _) = True"
| "writing_route Trigger_Backup = True"
| "writing_route _ = False"

definition proxied :: "gateway_config \<Rightarrow> string \<Rightarrow> upstream_call list \<Rightarrow> bool" where
  "proxied cfg http_method calls \<longleftrightarrow>
     calls = [] \<or> (\<exists>c. calls = [c] \<and> uc_method c = http_method \<and> uc_key c = py_strip (gc_internal_key cfg)
       \<and> py_strip (gc_internal_key cfg) \<noteq> [])"

lemma proxied_get: "proxied cfg ''GET'' (fst (proxy_get_internal cfg up path params))"
  and proxied_post: "proxied cfg ''POST'' (fst (proxy_post_internal cfg up path params json))"
  using proxy_calls by (auto simp: proxied_def)

lemma forward_proxied: "proxied cfg (if writing_route r then ''POST'' else ''GET'') (fst (forward_route cfg up r))"
  by (cases r) (simp_all add: forward_route_def Let_def proxied_get proxied_post, simp add: proxied_def)


text \<open>The read role is enough to write: whoever may read may create statements of work and feature contracts,
  change the state of alerts, run diagnostics and trigger backups, all under the gateway's own key.\<close>

lemma read_role_writes:
  assumes "gc_auth_mode cfg = ''api_key''" and "shows_key cfg x_api_key ''read''" and "py_strip (gc_internal_key cfg) \<noteq> []"
  shows "\<exists>c. fst (handle_route cfg jwt up x_api_key authorization Trigger_Backup) = [c] \<and> uc_method c = ''POST''
      \<and> uc_path c = ''/internal/maintenance/backup'' \<and> uc_key c = py_strip (gc_internal_key cfg)"
proof -
  have "require_operator_access cfg jwt x_api_key authorization = Inr ()"
    using assms(1,2) by (simp add: require_operator_access_def Let_def key_role_granted)
  then show ?thesis
    using assms(3) by (simp add: handle_route_def forward_route_def proxy_post_internal_def Let_def require_internal_service_api_key_def)
qed


end
