(* ===== verification/Gateway_Missions.thy ===== *)
theory Gateway_Missions
  imports Gateway_Routes Input_Guards Mission_Types Project_Identity Mission_Flow Protocol
begin

text \<open>
  Creating a mission at the gateway, \<open>create_mission\<close> of \<open>api_gateway/main.py\<close>: the metadata a mission
  starts with, the scans of its input, the idempotency record in Redis, the vault, the call that persists the
  mission at the orchestrator, with its retries, and the telemetry. A clock ticks with every Redis call and
  every upstream attempt; the environment says how each ends and what others wrote to Redis before it, so the theorems hold
  for all outages and interleavings. A request the upstream received counts as posted even when its answer is lost.
  \<open>json\<close>, SHA-256, the clock text, the ids and the tracing carrier are arguments; the lifetime of the idempotency keys is part of what others do.
\<close>

section \<open>The request\<close>

record attachment =
  at_file_id :: string
  at_filename :: string
  at_content_type :: string
  at_size_bytes :: int
  at_purpose :: "string option"

record mission_request =
  mr_prompt :: string
  mr_language :: "string option"
  mr_source_code :: "string option"
  mr_mission_type :: "string option"
  mr_depth_mode :: "string option"
  mr_output_mode :: "string option"
  mr_data_classification :: "string option"
  mr_attachments :: "attachment list"
  mr_directives :: "string list"
  mr_metadata :: pydict

definition opt_value :: "string option \<Rightarrow> pyval" where
  "opt_value v = (case v of None \<Rightarrow> PNone | Some s \<Rightarrow> PStr s)"

text \<open>The checks of the request model; \<open>dumps\<close> is the compact \<open>json.dumps\<close>, all of whose characters are ASCII.\<close>

definition mission_request_ok :: "(pyval \<Rightarrow> string) \<Rightarrow> mission_request \<Rightarrow> bool" where
  "mission_request_ok dumps r \<longleftrightarrow>
     3 \<le> length (mr_prompt r)
     \<and> (case mr_source_code r of None \<Rightarrow> True | Some s \<Rightarrow> length s \<le> 512000)
     \<and> length (dumps (PDict (mr_metadata r))) \<le> 4096"

definition attachment_dump :: "attachment \<Rightarrow> pydict" where
  "attachment_dump a =
     [(''file_id'', PStr (at_file_id a)), (''filename'', PStr (at_filename a)), (''content_type'', PStr (at_content_type a)),
      (''size_bytes'', PInt (at_size_bytes a)), (''purpose'', opt_value (at_purpose a))]"

definition request_dump :: "mission_request \<Rightarrow> pydict" where
  "request_dump r =
     [(''prompt'', PStr (mr_prompt r)), (''requested_target_language'', opt_value (mr_language r)),
      (''source_code'', opt_value (mr_source_code r)), (''mission_type'', opt_value (mr_mission_type r)),
      (''depth_mode'', opt_value (mr_depth_mode r)), (''output_mode'', opt_value (mr_output_mode r)),
      (''data_classification'', opt_value (mr_data_classification r)),
      (''attachments'', PList (map (\<lambda>a. PDict (attachment_dump a)) (mr_attachments r))),
      (''global_style_directives'', PList (map PStr (mr_directives r))), (''metadata'', PDict (mr_metadata r))]"

section \<open>Metadata\<close>

record intake_config =
  ic_flow_v2 :: "string option"
  ic_langgraph :: "string option"
  ic_guard_mode :: string
  ic_block_level :: string
  ic_ttl :: int
  ic_attempts :: nat

definition env_bool :: "string option \<Rightarrow> bool \<Rightarrow> bool" where
  "env_bool value d =
     (case value of None \<Rightarrow> d | Some v \<Rightarrow> py_lower (py_strip v) \<in> {''1'', ''true'', ''yes'', ''on''})"

definition active_lifecycle_engine_name :: "intake_config \<Rightarrow> string" where
  "active_lifecycle_engine_name ic =
     (if env_bool (ic_flow_v2 ic) True then ''mission_flow_v2''
      else if env_bool (ic_langgraph ic) False then ''langgraph'' else ''legacy_v1'')"

definition GW_POD_MANAGER_BY_LANGUAGE :: "(string \<times> string) list" where
  "GW_POD_MANAGER_BY_LANGUAGE =
     map (\<lambda>l. (l, ''AGENT-12-PODA-MGR'')) [''python'', ''javascript'', ''typescript'', ''ruby'', ''php'']
     @ map (\<lambda>l. (l, ''AGENT-18-PODB-MGR'')) [''go'', ''rust'', ''c'', ''cpp'', ''zig'']
     @ map (\<lambda>l. (l, ''AGENT-24-PODC-MGR'')) [''java'', ''csharp'', ''kotlin'', ''scala'']
     @ map (\<lambda>l. (l, ''AGENT-30-PODD-MGR'')) [''matlab'', ''r'', ''julia'', ''mathematica'', ''haskell'', ''ocaml'']"

definition gw_normalize_language :: "string option \<Rightarrow> string" where
  "gw_normalize_language value = (case value of Some s \<Rightarrow> py_lower (py_strip s) | None \<Rightarrow> [])"

definition gw_resolve_pod_manager_agent :: "string option \<Rightarrow> string" where
  "gw_resolve_pod_manager_agent language =
     (case map_of GW_POD_MANAGER_BY_LANGUAGE (gw_normalize_language language) of
        None \<Rightarrow> ''AGENT-12-PODA-MGR'' | Some a \<Rightarrow> a)"

definition gw_normalize_project_id :: "pyval \<Rightarrow> string \<Rightarrow> string" where
  "gw_normalize_project_id value fallback =
     (let candidate = strip_by edge_char (slug_sub False (py_lower (py_strip (str_or_empty value))))
      in if candidate = [] then fallback
         else if starts_with ''project-'' candidate then candidate else ''project-'' @ candidate)"

definition gw_resolve_project_id :: "pydict \<Rightarrow> string \<Rightarrow> string" where
  "gw_resolve_project_id metadata mission_id =
     (if usable_text (dget metadata ''project_id'') then gw_normalize_project_id (dget metadata ''project_id'') ''project-unknown''
      else if usable_text (dget metadata ''source'') then gw_normalize_project_id (dget metadata ''source'') ''project-unknown''
      else gw_normalize_project_id (PStr mission_id) ''project-unknown'')"

definition is_pm_intake :: "pyval \<Rightarrow> bool" where
  "is_pm_intake record_doc \<longleftrightarrow> py_str (dget_or (dict_or_empty record_doc) ''event_type'' (PStr [])) = ''MISSION_PM_INTAKE''"

definition pm_intake_event :: pyval where
  "pm_intake_event =
     PDict [(''event_type'', PStr ''MISSION_PM_INTAKE''), (''agent_id'', PStr ''AGENT-01-PM''),
            (''details'', PDict [(''source'', PStr ''api-gateway-intake'')])]"

definition normalize_chain_trace :: "pyval \<Rightarrow> pyval list" where
  "normalize_chain_trace chain_trace =
     (let kept = filter is_dict (list_or_empty chain_trace)
      in if list_ex is_pm_intake kept then kept else kept @ [pm_intake_event])"

definition with_project :: "pydict \<Rightarrow> pydict" where
  "with_project d =
     (let source = dget d ''source'';
          d = (if usable_text (dget d ''project_id'')
               then dset ''project_id'' (PStr (gw_normalize_project_id (dget d ''project_id'') ''project-unknown'')) d
               else if usable_text source
               then dset ''project_id'' (PStr (gw_normalize_project_id source ''project-unknown'')) d
               else ddel ''project_id'' d)
      in if \<not> dhas d ''project_name'' \<and> usable_text source
         then dset ''project_name'' (PStr (py_strip (str_of source))) d else d)"

definition normalize_mission_metadata :: "intake_config \<Rightarrow> string option \<Rightarrow> pydict \<Rightarrow> pydict res" where
  "normalize_mission_metadata ic language metadata =
     (let provided = normalize_agent_id
            (py_or (dget metadata ''agent_id'') (py_or (dget metadata ''selected_agent_id'')
              (py_or (dget metadata ''target_agent_id'') (dget metadata ''assigned_agent_id''))));
          trace = normalize_chain_trace (dget metadata ''chain_trace'')
      in if provided \<noteq> None \<and> provided \<noteq> Some ''AGENT-01-PM'' then Inl (HTTPException 422)
         else Inr (dset ''last_chain_event_at'' PNone
              (dset ''last_chain_event_type'' (PStr ''MISSION_PM_INTAKE'')
              (dset ''chain_trace'' (PList trace)
              (with_project
              (dset ''selected_agent_id'' (PStr ''AGENT-01-PM'')
              (dset ''agent_id'' (PStr ''AGENT-01-PM'')
              (dset ''expected_pod_manager_agent_id'' (PStr (gw_resolve_pod_manager_agent language))
              (dset ''executive_agent_id'' (PStr ''AGENT-02-CEO'')
              (dset ''intake_agent_id'' (PStr ''AGENT-01-PM'')
              (dset ''routing_enforced'' (PBool True)
              (dset ''lifecycle_engine'' (PStr (active_lifecycle_engine_name ic))
              (dset ''routing_version'' (PStr ''v1.1'') metadata)))))))))))))"

definition or_metadata :: "string option \<Rightarrow> pydict \<Rightarrow> string \<Rightarrow> pyval" where
  "or_metadata value metadata k = (case value of Some s \<Rightarrow> PStr s | None \<Rightarrow> dget metadata k)"

definition blank_value :: "pyval \<Rightarrow> bool" where
  "blank_value v \<longleftrightarrow> py_strip (str_or_empty v) = []"

text \<open>The defaults of the normalisers are their keyword defaults.\<close>

definition mission_classification :: "mission_request \<Rightarrow> pydict \<Rightarrow> (string \<times> string \<times> string \<times> string) res" where
  "mission_classification r metadata =
     rbind (normalize_mission_type (or_metadata (mr_mission_type r) metadata ''mission_type'') ''BUILD_NEW'') (\<lambda>mission_type.
     let raw_output = or_metadata (mr_output_mode r) metadata ''output_mode'' in
     rbind (if blank_value raw_output \<and> mission_type = ''PORT'' then Inr ''FULL_TRANSFORMATION''
            else if blank_value raw_output \<and> mission_type = ''ANALYZE_ONLY'' then Inr ''ANALYZE_ONLY''
            else normalize_output_mode raw_output ''FULL_BUILD'') (\<lambda>output_mode.
     rbind (normalize_depth_mode (or_metadata (mr_depth_mode r) metadata ''depth_mode'') ''STANDARD'') (\<lambda>depth_mode.
     rbind (normalize_data_classification (or_metadata (mr_data_classification r) metadata ''data_classification'') ''TIER_1_INTERNAL'')
       (\<lambda>classification. Inr (mission_type, output_mode, depth_mode, classification)))))"

definition apply_mission_classification :: "mission_request \<Rightarrow> pydict \<Rightarrow> pydict res" where
  "apply_mission_classification r metadata =
     (case mission_classification r metadata of
        Inl UnknownMissionTypeError \<Rightarrow> Inl (HTTPException 422)
      | Inl e \<Rightarrow> Inl e
      | Inr (mission_type, output_mode, depth_mode, classification) \<Rightarrow>
          Inr (dset ''data_classification'' (PStr classification) (dset ''depth_mode'' (PStr depth_mode)
                (dset ''output_mode'' (PStr output_mode) (dset ''mission_type'' (PStr mission_type) metadata)))))"

section \<open>Scans\<close>

text \<open>Counts per field and kind; of the input only field names, kinds and counts are kept.\<close>

type_synonym field_counts = "((string \<times> string) \<times> nat) list"

definition count_hit :: "string \<times> string \<Rightarrow> field_counts \<Rightarrow> field_counts" where
  "count_hit key counts = AList.update key (Suc (case map_of counts key of None \<Rightarrow> 0 | Some n \<Rightarrow> n)) counts"

definition indexed :: "string \<Rightarrow> nat \<Rightarrow> string" where
  "indexed name i = name @ ''['' @ nat_str i @ '']''"

text \<open>The text fields of a request: the prompt, the source code (for the sensitive scan), the directives and the attachments.\<close>

definition directive_fields :: "mission_request \<Rightarrow> (string \<times> string) list" where
  "directive_fields r = map (\<lambda>(i, d). (indexed ''global_style_directives'' i, d)) (enumerate 0 (mr_directives r))"

definition attachment_fields :: "mission_request \<Rightarrow> (string \<times> string) list" where
  "attachment_fields r = concat (map (\<lambda>(i, a).
     [(indexed ''attachments'' i @ ''.filename'', at_filename a), (indexed ''attachments'' i @ ''.content_type'', at_content_type a)])
     (enumerate 0 (mr_attachments r)))"

definition sensitive_hits :: "mission_request \<Rightarrow> (string \<times> string) list" where
  "sensitive_hits r =
     concat (map (\<lambda>(field, s). map (\<lambda>m. (field, pii_type m)) (detect_pii s))
       ([(''prompt'', mr_prompt r), (''source_code'', case mr_source_code r of None \<Rightarrow> [] | Some s \<Rightarrow> s)]
        @ directive_fields r @ attachment_fields r))
     @ map (\<lambda>(path, kind). (''metadata.'' @ path, kind))
         (filter (\<lambda>(path, kind). path \<notin> {''source_code'', ''prompt'', ''chain_trace''} \<and> \<not> starts_with ''vault'' path)
           (scan_dict_for_pii (mr_metadata r) 4))"

definition build_sensitive_input_scan :: "mission_request \<Rightarrow> pydict" where
  "build_sensitive_input_scan r =
     (let counts = sort_key fst (fold count_hit (sensitive_hits r) []);
          total = sum_list (map snd counts)
      in [(''schema_version'', PStr ''sensitive_input_scan.v1''), (''scanner'', PStr ''shared_runtime.pii_guard''),
          (''has_sensitive_input'', PBool (total > 0)), (''total_matches'', PInt (int total)),
          (''pii_types'', PList (map PStr (sort (remdups (map (\<lambda>((f, k), n). k) counts))))),
          (''fields'', PList (map (\<lambda>((f, k), n).
             PDict [(''field'', PStr f), (''pii_type'', PStr k), (''match_count'', PInt (int n))]) counts))])"

text \<open>The strings of the metadata up to the depth limit; \<open>left\<close> is what is left of it.\<close>

fun metadata_prompt_fields :: "pyval \<Rightarrow> string \<Rightarrow> nat \<Rightarrow> (string \<times> string) list" where
  "metadata_prompt_fields v pre 0 = []"
| "metadata_prompt_fields (PStr s) pre (Suc left) = [(pre, s)]"
| "metadata_prompt_fields (PDict d) pre (Suc left) =
     concat (map (\<lambda>(k, v). if k \<in> {''source_code'', ''prompt'', ''chain_trace'', ''vault''} then []
                           else metadata_prompt_fields v (pre @ ''.'' @ k) left) d)"
| "metadata_prompt_fields (PList vs) pre (Suc left) =
     concat (map (\<lambda>(i, v). metadata_prompt_fields v (indexed pre i) left) (enumerate 0 (take 20 vs)))"
| "metadata_prompt_fields _ pre (Suc left) = []"

type_synonym findings = "((string \<times> string) \<times> string \<times> nat) list"

definition prompt_texts :: "mission_request \<Rightarrow> (string \<times> string) list" where
  "prompt_texts r =
     [(''prompt'', mr_prompt r)] @ directive_fields r @ attachment_fields r
     @ metadata_prompt_fields (PDict (mr_metadata r)) ''metadata'' 5"

definition add_finding :: "string \<Rightarrow> string \<Rightarrow> InjectionMatch \<Rightarrow> findings \<Rightarrow> findings" where
  "add_finding field level m rows =
     (let key = (field, attack_type m)
      in AList.update key (case map_of rows key of
           None \<Rightarrow> (level, 1)
         | Some (row_level, n) \<Rightarrow> (higher_risk level row_level, Suc n)) rows)"

definition add_text :: "string \<times> string \<Rightarrow> findings \<Rightarrow> findings" where
  "add_text entry rows =
     (case entry of (field, s) \<Rightarrow>
        let result = check_prompt s
        in if s = [] \<or> \<not> is_suspicious result then rows
           else fold (add_finding field (risk_level result)) (ir_matches result) rows)"

definition prompt_findings :: "mission_request \<Rightarrow> findings" where
  "prompt_findings r = sort_key fst (fold add_text (prompt_texts r) [])"

definition max_risk :: "findings \<Rightarrow> string" where
  "max_risk rows = fold (\<lambda>(_, level, _) top. higher_risk level top) rows ''low''"

definition build_prompt_input_scan :: "mission_request \<Rightarrow> pydict" where
  "build_prompt_input_scan r =
     (let rows = prompt_findings r
      in [(''schema_version'', PStr ''prompt_input_scan.v1''), (''scanner'', PStr ''shared_runtime.prompt_guard''),
          (''has_prompt_injection_risk'', PBool (rows \<noteq> [])), (''max_risk_level'', PStr (max_risk rows)),
          (''attack_types'', PList (map PStr (sort (remdups (map (\<lambda>((f, k), _). k) rows))))),
          (''total_matches'', PInt (int (sum_list (map (\<lambda>(_, _, n). n) rows)))),
          (''fields'', PList (map (\<lambda>((f, k), level, n).
             PDict [(''field'', PStr f), (''attack_type'', PStr k), (''risk_level'', PStr level), (''count'', PInt (int n))]) rows))])"

definition should_block_prompt_input_scan :: "intake_config \<Rightarrow> pydict \<Rightarrow> bool" where
  "should_block_prompt_input_scan ic scan_doc \<longleftrightarrow>
     ic_guard_mode ic = ''block''
     \<and> (case map_of RISK_PRIORITY (ic_block_level ic) of Some n \<Rightarrow> n | None \<Rightarrow> 3)
         \<le> risk_rank (py_str (py_or (dget scan_doc ''max_risk_level'') (PStr ''low'')))"

text \<open>Both scans stamped onto the metadata; the sensitive one raises the classification.\<close>

definition stamp_prompt_scan :: "intake_config \<Rightarrow> mission_request \<Rightarrow> mission_request res" where
  "stamp_prompt_scan ic r =
     (let scan_doc = build_prompt_input_scan r; risky = truthy (dget scan_doc ''has_prompt_injection_risk'');
          md = dset ''contains_prompt_injection_risk'' (dget scan_doc ''has_prompt_injection_risk'')
                 (dset ''prompt_input_scan'' (PDict scan_doc) (mr_metadata r));
          md = (if risky then dset ''prompt_injection_attack_types'' (dget scan_doc ''attack_types'') md else md)
      in if risky \<and> should_block_prompt_input_scan ic scan_doc then Inl (HTTPException 422)
         else Inr (r\<lparr>mr_metadata := md\<rparr>))"

definition stamp_sensitive_scan :: "mission_request \<Rightarrow> mission_request" where
  "stamp_sensitive_scan r =
     (let scan_doc = build_sensitive_input_scan r; sensitive = truthy (dget scan_doc ''has_sensitive_input'');
          md = dset ''contains_sensitive_input'' (dget scan_doc ''has_sensitive_input'')
                 (dset ''sensitive_input_scan'' (PDict scan_doc) (mr_metadata r));
          current = py_upper (str_or_empty (dget md ''data_classification''))
      in r\<lparr>mr_metadata :=
           (if sensitive then
              (let md = dset ''sensitive_input_pii_types'' (dget scan_doc ''pii_types'') md
               in if current \<notin> {''TIER_2_SENSITIVE'', ''TIER_3_REGULATED''}
                  then dset ''data_classification'' (PStr ''TIER_2_SENSITIVE'') md else md)
            else setdefault ''data_classification'' (PStr ''TIER_1_INTERNAL'') md)\<rparr>)"

text \<open>The request as the rest of the handler sees it, and the secrets split off it.\<close>

definition prepare_request :: "intake_config \<Rightarrow> mission_request \<Rightarrow> (mission_request \<times> string dict) res" where
  "prepare_request ic r =
     rbind (normalize_mission_metadata ic (mr_language r) (mr_metadata r)) (\<lambda>md.
     let (clean, secrets) = split_vault (PDict md);
         clean = (case truthy_text (mr_source_code r) of None \<Rightarrow> clean | Some s \<Rightarrow> dset ''source_code'' (PStr s) clean)
     in rbind (apply_mission_classification r clean) (\<lambda>md.
        rbind (stamp_prompt_scan ic (r\<lparr>mr_metadata := md\<rparr>)) (\<lambda>r.
          Inr (stamp_sensitive_scan r, secrets))))"

section \<open>World\<close>

record gw_world =
  gw_redis :: redis
  gw_clock :: nat
  gw_posts :: "(string option \<times> string \<times> pydict) list"
  gw_stream :: "(pydict \<times> pydict) list"

type_synonym 'a gprog = "(gw_world, 'a) prog"

record gw_env =
  ge_redis :: "nat \<Rightarrow> call_outcome"
  ge_others :: "nat \<Rightarrow> redis \<Rightarrow> redis"
  ge_upstream :: "nat \<Rightarrow> upstream"
  ge_uuid :: "nat \<Rightarrow> string"
  ge_now :: "nat \<Rightarrow> string"
  ge_dumps :: "pyval \<Rightarrow> string"
  ge_loads :: "string \<Rightarrow> pyval option"
  ge_compact :: "pyval \<Rightarrow> string"
  ge_canonical :: "pyval \<Rightarrow> string"
  ge_sha256 :: "string \<Rightarrow> string"
  ge_schema_ok :: "pydict \<Rightarrow> bool"
  ge_date_ok :: "string \<Rightarrow> bool"
  ge_topics :: "string list"
  ge_topic :: string
  ge_carrier :: "nat \<Rightarrow> string dict"
  ge_error_text :: "exc \<Rightarrow> string"

definition gw_tick :: "gw_env \<Rightarrow> gw_world \<Rightarrow> gw_world" where
  "gw_tick env w = w\<lparr>gw_redis := ge_others env (gw_clock w) (gw_redis w), gw_clock := Suc (gw_clock w)\<rparr>"

definition gw_redis_call :: "gw_env \<Rightarrow> (redis, 'a) prog \<Rightarrow> 'a gprog" where
  "gw_redis_call env m = (\<lambda>w.
     let (r, rd) = service (ge_redis env (gw_clock w)) m (gw_redis (gw_tick env w))
     in (r, (gw_tick env w)\<lparr>gw_redis := rd\<rparr>))"

definition redis_set :: "string \<Rightarrow> string \<Rightarrow> int \<Rightarrow> bool \<Rightarrow> (redis, bool) prog" where
  "redis_set key v ex nx = (\<lambda>rd.
     if nx \<and> dhas (kv rd) key then (Inr False, rd)
     else (Inr True, rd\<lparr>kv := dset key v (kv rd), ttl := dset key ex (ttl rd)\<rparr>))"

definition redis_get :: "string \<Rightarrow> (redis, string option) prog" where
  "redis_get key = (\<lambda>rd. (Inr (map_of (kv rd) key), rd))"

section \<open>Idempotency\<close>

definition request_hash :: "gw_env \<Rightarrow> mission_request \<Rightarrow> string" where
  "request_hash env r = ge_sha256 env (ge_canonical env (PDict (request_dump r)))"

definition idempotency_redis_key :: "gw_env \<Rightarrow> string \<Rightarrow> string" where
  "idempotency_redis_key env key = ''idempotency:missions:'' @ ge_sha256 env key"

definition load_idempotency_record :: "gw_env \<Rightarrow> string \<Rightarrow> pydict option gprog" where
  "load_idempotency_record env redis_key =
     bnd (gw_redis_call env (redis_get redis_key)) (\<lambda>raw.
       ret (case truthy_text raw of
         None \<Rightarrow> None
       | Some s \<Rightarrow> (case ge_loads env s of Some (PDict d) \<Rightarrow> Some d | _ \<Rightarrow> None)))"

definition save_idempotency_record :: "gw_env \<Rightarrow> intake_config \<Rightarrow> string \<Rightarrow> pydict \<Rightarrow> bool \<Rightarrow> bool gprog" where
  "save_idempotency_record env ic redis_key doc nx =
     gw_redis_call env (redis_set redis_key (ge_dumps env (PDict doc)) (ic_ttl ic) nx)"

record gw_mission =
  gm_mission_id :: string
  gm_prompt :: string
  gm_language :: "string option"
  gm_metadata :: pydict
  gm_project_id :: "string option"
  gm_lifecycle_engine :: "string option"
  gm_state :: string
  gm_created_at :: string

text \<open>\<open>MissionRecord(**doc)\<close>: the types of the fields, defaults for the optional ones.\<close>

fun opt_text_of :: "pyval \<Rightarrow> string option res" where
  "opt_text_of PNone = Inr None"
| "opt_text_of (PStr s) = Inr (Some s)"
| "opt_text_of _ = Inl ValidationError"

fun text_of :: "pyval \<Rightarrow> string res" where
  "text_of (PStr s) = Inr s"
| "text_of _ = Inl ValidationError"

definition gw_mission_of :: "pydict \<Rightarrow> gw_mission res" where
  "gw_mission_of d =
     rbind (text_of (dget d ''mission_id'')) (\<lambda>mid.
     rbind (text_of (dget d ''prompt'')) (\<lambda>prompt.
     rbind (opt_text_of (dget d ''requested_target_language'')) (\<lambda>language.
     rbind (case dget_or d ''metadata'' (PDict []) of PDict md \<Rightarrow> Inr md | _ \<Rightarrow> Inl ValidationError) (\<lambda>md.
     rbind (opt_text_of (dget d ''project_id'')) (\<lambda>project.
     rbind (opt_text_of (dget d ''lifecycle_engine'')) (\<lambda>engine.
     rbind (text_of (dget d ''state'')) (\<lambda>st.
     rbind (text_of (dget d ''created_at'')) (\<lambda>created.
       Inr \<lparr>gm_mission_id = mid, gm_prompt = prompt, gm_language = language, gm_metadata = md, gm_project_id = project,
            gm_lifecycle_engine = engine, gm_state = st, gm_created_at = created\<rparr>))))))))"

definition gw_mission_dump :: "gw_mission \<Rightarrow> pydict" where
  "gw_mission_dump m =
     [(''mission_id'', PStr (gm_mission_id m)), (''prompt'', PStr (gm_prompt m)),
      (''requested_target_language'', opt_value (gm_language m)), (''metadata'', PDict (gm_metadata m)),
      (''project_id'', opt_value (gm_project_id m)), (''lifecycle_engine'', opt_value (gm_lifecycle_engine m)),
      (''state'', PStr (gm_state m)), (''created_at'', PStr (gm_created_at m))]"

definition upstream_get :: "gw_env \<Rightarrow> gateway_config \<Rightarrow> string \<Rightarrow> body http gprog" where
  "upstream_get env cfg path = (\<lambda>w.
     (Inr (snd (proxy_get_internal cfg (ge_upstream env (gw_clock w)) path [])), gw_tick env w))"

definition reconcile_idempotent_mission ::
  "gw_env \<Rightarrow> gateway_config \<Rightarrow> intake_config \<Rightarrow> string \<Rightarrow> string \<Rightarrow> string \<Rightarrow> gw_mission option gprog" where
  "reconcile_idempotent_mission env cfg ic redis_key hash mid =
     bnd (upstream_get env cfg (mission_path mid [])) (\<lambda>answer.
       case answer of
         Inl (status, detail) \<Rightarrow> if status = 404 then ret None else lift_res (Inl (HTTPException status))
       | Inr (Doc (PDict d)) \<Rightarrow>
           bnd (lift_res (gw_mission_of d)) (\<lambda>m.
           let m = (if gm_project_id m \<in> {None, Some []}
                    then m\<lparr>gm_project_id := Some (gw_resolve_project_id (gm_metadata m) (gm_mission_id m))\<rparr> else m)
           in bnd (save_idempotency_record env ic redis_key
                [(''status'', PStr ''completed''), (''request_hash'', PStr hash), (''mission_id'', PStr mid),
                 (''mission'', PDict (gw_mission_dump m))] False) (\<lambda>_. ret (Some m)))
       | Inr _ \<Rightarrow> lift_res (Inl TypeError))"

definition in_progress :: "gw_env \<Rightarrow> mission_request \<Rightarrow> string \<Rightarrow> pydict" where
  "in_progress env r provisional =
     [(''status'', PStr ''processing''), (''request_hash'', PStr (request_hash env r)), (''mission_id'', PStr provisional)]"

text \<open>The decision on an existing record: the id to go on with, or the mission to answer with.\<close>

definition resume_record ::
  "gw_env \<Rightarrow> gateway_config \<Rightarrow> intake_config \<Rightarrow> string \<Rightarrow> mission_request \<Rightarrow> pydict \<Rightarrow> (string option \<times> gw_mission option) gprog" where
  "resume_record env cfg ic redis_key r existing =
     (let existing_id = py_strip (str_or_empty (dget existing ''mission_id'')) in
      if dget existing ''request_hash'' \<noteq> PStr (request_hash env r) then lift_res (Inl (HTTPException 409))
      else case (dget existing ''status'' = PStr ''completed'', dget existing ''mission'') of
        (True, PDict d) \<Rightarrow> bnd (lift_res (gw_mission_of d)) (\<lambda>m. ret (None, Some m))
      | _ \<Rightarrow>
          if dget existing ''status'' = PStr ''upstream_unknown'' \<and> existing_id \<noteq> [] then
            bnd (reconcile_idempotent_mission env cfg ic redis_key (request_hash env r) existing_id) (\<lambda>reconciled.
              ret (case reconciled of Some m \<Rightarrow> (None, Some m) | None \<Rightarrow> (Some existing_id, None)))
          else lift_res (Inl (HTTPException 409)))"

definition handle_mission_idempotency ::
  "gw_env \<Rightarrow> gateway_config \<Rightarrow> intake_config \<Rightarrow> string \<Rightarrow> mission_request \<Rightarrow> string \<Rightarrow> (string option \<times> gw_mission option) gprog" where
  "handle_mission_idempotency env cfg ic idempotency_key r provisional =
     (let key = py_strip idempotency_key; redis_key = idempotency_redis_key env key;
          acquire = save_idempotency_record env ic redis_key (in_progress env r provisional) True
      in if key = [] \<or> length key > 256 then lift_res (Inl (HTTPException 400))
         else bnd acquire (\<lambda>acquired.
           if acquired then ret (Some provisional, None)
           else bnd (load_idempotency_record env redis_key) (\<lambda>existing.
             case existing of
               None \<Rightarrow> bnd acquire (\<lambda>acquired.
                 if acquired then ret (Some provisional, None) else lift_res (Inl (HTTPException 409)))
             | Some d \<Rightarrow> resume_record env cfg ic redis_key r d)))"

section \<open>Creating a mission\<close>

definition stamp_intake_event :: "string \<Rightarrow> pyval \<Rightarrow> pyval" where
  "stamp_intake_event created_at entry =
     (if is_dict entry \<and> is_pm_intake entry \<and> \<not> truthy (dget (dict_or_empty entry) ''ts'')
      then PDict (dset ''ts'' (PStr created_at) (dict_or_empty entry)) else entry)"

definition initial_metadata :: "string \<Rightarrow> pydict \<Rightarrow> pydict" where
  "initial_metadata created_at md =
     dset ''last_chain_event_at'' (PStr created_at)
       (case dget md ''chain_trace'' of
          PList trace \<Rightarrow> dset ''chain_trace'' (PList (map (stamp_intake_event created_at) trace)) md
        | _ \<Rightarrow> md)"

definition prepare_initial_mission_payload :: "string \<Rightarrow> mission_request \<Rightarrow> string \<Rightarrow> pydict" where
  "prepare_initial_mission_payload mid r created_at =
     [(''mission_id'', PStr mid), (''prompt'', PStr (mr_prompt r)), (''requested_target_language'', opt_value (mr_language r)),
      (''metadata'', PDict (initial_metadata created_at (mr_metadata r))),
      (''project_id'', dget (mr_metadata r) ''project_id''), (''lifecycle_engine'', dget (mr_metadata r) ''lifecycle_engine''),
      (''created_at'', PStr created_at), (''state'', PStr ''INTAKE'')]"

definition persist_body :: "string \<Rightarrow> mission_request \<Rightarrow> pydict \<Rightarrow> string \<Rightarrow> pydict" where
  "persist_body mid r metadata created_at =
     [(''mission_id'', PStr mid), (''prompt'', PStr (mr_prompt r)), (''requested_target_language'', opt_value (mr_language r)),
      (''mission_type'', dget metadata ''mission_type''), (''depth_mode'', dget metadata ''depth_mode''),
      (''output_mode'', dget metadata ''output_mode''), (''data_classification'', dget metadata ''data_classification''),
      (''attachments'', PList (map (\<lambda>a. PDict (attachment_dump a)) (mr_attachments r))),
      (''global_style_directives'', PList (map PStr (mr_directives r))), (''metadata'', PDict metadata),
      (''project_id'', dget metadata ''project_id''), (''created_at'', PStr created_at)]"

text \<open>\<open>MISSION_CREATE_UPSTREAM_MAX_ATTEMPTS\<close> attempts, the last of which is not retried.\<close>

fun persist_attempts ::
  "gw_env \<Rightarrow> gateway_config \<Rightarrow> string option \<Rightarrow> string \<Rightarrow> pydict \<Rightarrow> nat \<Rightarrow> body http gprog" where
  "persist_attempts env cfg tag mid json 0 w = (Inl RuntimeError, w)"
| "persist_attempts env cfg tag mid json (Suc n) w =
     (let (calls, answer) = proxy_post_internal cfg (ge_upstream env (gw_clock w)) ''/missions'' [] (Some json);
          w' = (gw_tick env w)\<lparr>gw_posts := gw_posts w @ map (\<lambda>_. (tag, mid, json)) calls\<rparr>
      in if answer = Inl (502, ''orchestrator unavailable'') \<and> 0 < n
         then persist_attempts env cfg tag mid json n w' else (Inr answer, w'))"

definition persist_mission_upstream ::
  "gw_env \<Rightarrow> gateway_config \<Rightarrow> intake_config \<Rightarrow> string option \<Rightarrow> string \<Rightarrow> mission_request \<Rightarrow> pydict \<Rightarrow> string \<Rightarrow> pyval gprog" where
  "persist_mission_upstream env cfg ic tag mid r metadata created_at =
     bnd (persist_attempts env cfg tag mid (persist_body mid r metadata created_at) (ic_attempts ic)) (\<lambda>answer.
       case answer of
         Inl (status, detail) \<Rightarrow> lift_res (Inl (HTTPException status))
       | Inr (Doc v) \<Rightarrow> ret v
       | Inr _ \<Rightarrow> lift_res (Inl ValueError))"

definition inject_carrier :: "string dict \<Rightarrow> pydict \<Rightarrow> pydict" where
  "inject_carrier carrier envelope =
     (let add = (\<lambda>k d. case truthy_text (map_of carrier k) of None \<Rightarrow> d | Some s \<Rightarrow> dset k (PStr s) d)
      in add ''tracestate'' (add ''traceparent'' envelope))"

definition build_envelope :: "gw_env \<Rightarrow> nat \<Rightarrow> string \<Rightarrow> string \<Rightarrow> pydict res" where
  "build_envelope env t correlation_id payload_ref =
     (let envelope = inject_carrier (ge_carrier env t)
            [(''event_id'', PStr (''evt-'' @ ge_uuid env t)), (''topic'', PStr (ge_topic env)), (''timestamp'', PStr (ge_now env t)),
             (''producer'', PStr ''api-gateway''), (''correlation_id'', PStr correlation_id), (''payload_ref'', PStr payload_ref),
             (''schema'', PStr ''missions.intake.v1''), (''priority'', PStr ''NORMAL'')]
      in rbind (validate_envelope (ge_schema_ok env) (ge_date_ok env) (ge_topics env) envelope) (\<lambda>_. Inr envelope))"

definition emit_intake_telemetry :: "gw_env \<Rightarrow> string \<Rightarrow> pydict \<Rightarrow> unit gprog" where
  "emit_intake_telemetry env mid mission_payload =
     (let scrubbed = (case dget mission_payload ''metadata'' of
            PDict md \<Rightarrow> dset ''metadata'' (PDict (strip_vault md)) mission_payload | _ \<Rightarrow> mission_payload)
      in attempt (\<lambda>w.
           case build_envelope env (gw_clock w) mid (''registry://missions/'' @ mid @ ''/intake'') of
             Inl e \<Rightarrow> (Inl e, w)
           | Inr envelope \<Rightarrow>
               service (ge_redis env (gw_clock w)) (\<lambda>w. (Inr (), w\<lparr>gw_stream := gw_stream w @ [(envelope, scrubbed)]\<rparr>))
                 (gw_tick env w)) ())"

text \<open>What is stored and answered after the orchestrator accepted the mission.\<close>

definition merge_persisted :: "string \<Rightarrow> string \<Rightarrow> pydict \<Rightarrow> pydict \<Rightarrow> pydict" where
  "merge_persisted mid created_at mission_payload persisted =
     (let md = dict_or_empty (dget mission_payload ''metadata'')
      in fold (\<lambda>(k, v). dset k v)
           [(''state'', PStr (py_str (dget_or persisted ''state'' (PStr ''QUEUED'')))),
            (''created_at'', PStr (py_str (dget_or persisted ''created_at'' (PStr created_at)))),
            (''metadata'', if is_dict (dget persisted ''metadata'') then dget persisted ''metadata'' else PDict md),
            (''project_id'', PStr (py_str (py_or (dget persisted ''project_id'') (py_or (dget md ''project_id'')
               (py_or (dget mission_payload ''project_id'') (PStr (gw_resolve_project_id md mid))))))),
            (''lifecycle_engine'', py_or (dget persisted ''lifecycle_engine'')
               (py_or (dget (dict_or_empty (dget persisted ''metadata'')) ''lifecycle_engine'') (dget mission_payload ''lifecycle_engine'')))] mission_payload)"

definition gw_store_vault :: "gw_env \<Rightarrow> string \<Rightarrow> string dict \<Rightarrow> unit gprog" where
  "gw_store_vault env mid vault =
     (if vault = [] then ret ()
      else attempt (gw_redis_call env (\<lambda>rd.
             (Inr (), the (snd (store_vault (ge_dumps env) True (Some rd) mid vault))))) ())"

text \<open>\<open>try: x = await m except Exception as e: f(e) else: g(x)\<close>\<close>

definition try_else :: "('w, 'a) prog \<Rightarrow> (exc \<Rightarrow> ('w, 'b) prog) \<Rightarrow> ('a \<Rightarrow> ('w, 'b) prog) \<Rightarrow> ('w, 'b) prog" where
  "try_else m f g = (\<lambda>w. case m w of (Inl e, w') \<Rightarrow> f e w' | (Inr x, w') \<Rightarrow> g x w')"

definition save_outcome :: "gw_env \<Rightarrow> intake_config \<Rightarrow> string option \<Rightarrow> pydict \<Rightarrow> unit gprog" where
  "save_outcome env ic key doc =
     (case key of None \<Rightarrow> ret () | Some k \<Rightarrow> bnd (save_idempotency_record env ic k doc False) (\<lambda>_. ret ()))"

definition outcome_record :: "gw_env \<Rightarrow> mission_request \<Rightarrow> string \<Rightarrow> string \<Rightarrow> string \<times> pyval \<Rightarrow> pydict" where
  "outcome_record env r mid status extra =
     [(''status'', PStr status), (''request_hash'', PStr (request_hash env r)), (''mission_id'', PStr mid), extra]"

text \<open>The upstream call failed: clients can reconcile on retry.\<close>

definition mark_unknown ::
  "gw_env \<Rightarrow> intake_config \<Rightarrow> string option \<Rightarrow> string \<Rightarrow> mission_request \<Rightarrow> exc \<Rightarrow> gw_mission gprog" where
  "mark_unknown env ic key mid r e =
     bnd (save_outcome env ic key (outcome_record env r mid ''upstream_unknown'' (''last_error'', PStr (ge_error_text env e))))
       (\<lambda>_. lift_res (Inl e))"

definition finish_mission ::
  "gw_env \<Rightarrow> intake_config \<Rightarrow> string option \<Rightarrow> string \<Rightarrow> mission_request \<Rightarrow> string \<Rightarrow> pyval \<Rightarrow> gw_mission gprog" where
  "finish_mission env ic key mid r created_at persisted =
     (case persisted of
        PDict d \<Rightarrow>
          (let merged = merge_persisted mid created_at (prepare_initial_mission_payload mid r created_at) d
           in bnd (emit_intake_telemetry env mid merged) (\<lambda>_.
              bnd (attempt (save_outcome env ic key (outcome_record env r mid ''completed'' (''mission'', PDict merged))) ()) (\<lambda>_.
              lift_res (gw_mission_of merged))))
      | _ \<Rightarrow> lift_res (Inl AttributeError))"

text \<open>From the mission's id on: the vault, the upstream call, the telemetry and the completed record.\<close>

definition persist_and_finish ::
  "gw_env \<Rightarrow> gateway_config \<Rightarrow> intake_config \<Rightarrow> string option \<Rightarrow> string \<Rightarrow> mission_request \<Rightarrow> string \<Rightarrow> gw_mission gprog" where
  "persist_and_finish env cfg ic key mid r created_at =
     try_else (persist_mission_upstream env cfg ic key mid r (initial_metadata created_at (mr_metadata r)) created_at)
       (mark_unknown env ic key mid r) (finish_mission env ic key mid r created_at)"

definition launch_mission ::
  "gw_env \<Rightarrow> gateway_config \<Rightarrow> intake_config \<Rightarrow> string option \<Rightarrow> string \<Rightarrow> mission_request \<Rightarrow> string dict \<Rightarrow> gw_mission gprog" where
  "launch_mission env cfg ic key mid r secrets =
     bnd (gw_store_vault env mid secrets) (\<lambda>_ w. persist_and_finish env cfg ic key mid r (ge_now env (gw_clock w)) w)"

definition create_with_key ::
  "gw_env \<Rightarrow> gateway_config \<Rightarrow> intake_config \<Rightarrow> string \<Rightarrow> string \<Rightarrow> mission_request \<Rightarrow> string dict \<Rightarrow> gw_mission gprog" where
  "create_with_key env cfg ic key provisional r secrets =
     bnd (handle_mission_idempotency env cfg ic key r provisional) (\<lambda>(mid, existing).
       case (mid, existing) of
         (_, Some m) \<Rightarrow> bnd (gw_store_vault env (gm_mission_id m) secrets) (\<lambda>_. ret m)
       | (Some mid, None) \<Rightarrow> launch_mission env cfg ic (Some (idempotency_redis_key env (py_strip key))) mid r secrets
       | (None, None) \<Rightarrow> lift_res (Inl TypeError))"

definition create_prepared ::
  "gw_env \<Rightarrow> gateway_config \<Rightarrow> intake_config \<Rightarrow> string option \<Rightarrow> mission_request \<Rightarrow> gw_mission gprog" where
  "create_prepared env cfg ic key r = (\<lambda>w.
     let provisional = ''mission-'' @ ge_uuid env (gw_clock w)
     in bnd (lift_res (prepare_request ic r)) (\<lambda>(r, secrets). case truthy_text key of
          None \<Rightarrow> launch_mission env cfg ic None provisional r secrets
        | Some s \<Rightarrow> create_with_key env cfg ic s provisional r secrets) w)"

definition redis_ping :: "gw_env \<Rightarrow> unit gprog" where
  "redis_ping env = (\<lambda>w. case gw_redis_call env (ret ()) w of
     (Inl _, w') \<Rightarrow> (Inl (HTTPException 503), w') | (Inr _, w') \<Rightarrow> (Inr (), w'))"

definition create_mission ::
  "gw_env \<Rightarrow> gateway_config \<Rightarrow> intake_config \<Rightarrow> jwt_library \<Rightarrow> string option \<Rightarrow> string option \<Rightarrow> string option \<Rightarrow> mission_request
     \<Rightarrow> gw_mission gprog" where
  "create_mission env cfg ic jwt x_api_key authorization idempotency_key r =
     (if \<not> mission_request_ok (ge_compact env) r then lift_res (Inl (HTTPException 422))
      else case require_reader_access cfg jwt x_api_key authorization of
        Inl (status, detail) \<Rightarrow> lift_res (Inl (HTTPException status))
      | Inr _ \<Rightarrow> bnd (redis_ping env) (\<lambda>_. create_prepared env cfg ic idempotency_key r))"

text \<open>Requests one after the other; what other gateways do in between is in the environment.\<close>

record creation =
  cn_api_key :: "string option"
  cn_authorization :: "string option"
  cn_idempotency_key :: "string option"
  cn_request :: mission_request

fun create_all ::
  "gw_env \<Rightarrow> gateway_config \<Rightarrow> intake_config \<Rightarrow> jwt_library \<Rightarrow> creation list \<Rightarrow> gw_world \<Rightarrow> (string option \<times> gw_mission res) list \<times> gw_world" where
  "create_all env cfg ic jwt [] w = ([], w)"
| "create_all env cfg ic jwt (c # cs) w =
     (let (r, w') = create_mission env cfg ic jwt (cn_api_key c) (cn_authorization c) (cn_idempotency_key c) (cn_request c) w;
          (rs, w'') = create_all env cfg ic jwt cs w'
      in ((cn_idempotency_key c, r) # rs, w''))"

section \<open>Counting\<close>

lemma sum_update:
  fixes d :: field_counts
  assumes "distinct (map fst d)"
  shows "sum_list (map snd (count_hit key d)) = Suc (sum_list (map snd d))"
proof -
  have "sum_list (map snd (AList.update key (Suc (case map_of d key of None \<Rightarrow> 0 | Some n \<Rightarrow> n)) d)) = Suc (sum_list (map snd d))"
    using assms by (induction d) (auto simp: map_of_eq_None_iff split: option.splits)
  then show ?thesis by (simp add: count_hit_def)
qed

lemma count_distinct: "distinct (map fst d) \<Longrightarrow> distinct (map fst (count_hit key d))"
  by (simp add: count_hit_def distinct_update)

lemma count_all:
  "distinct (map fst d) \<Longrightarrow> sum_list (map snd (fold count_hit hits d)) = length hits + sum_list (map snd d)"
  by (induction hits arbitrary: d) (simp_all add: count_distinct sum_update)

lemma sum_sorted:
  fixes d :: field_counts
  shows "sum_list (map snd (sort_key fst d)) = sum_list (map snd d)"
  by (metis mset_map mset_sort sum_mset_sum_list)

lemma sensitive_total:
  "dget (build_sensitive_input_scan r) ''total_matches'' = PInt (int (length (sensitive_hits r)))"
  "dget (build_sensitive_input_scan r) ''has_sensitive_input'' = PBool (sensitive_hits r \<noteq> [])"
  using count_all [of "[]" "sensitive_hits r"]
  by (simp_all add: build_sensitive_input_scan_def Let_def sum_sorted dget_def)

text \<open>A match in a field of the input is a hit.\<close>

lemma field_hit:
  assumes "detect_pii (mr_prompt r) \<noteq> [] \<or> (\<exists>s. mr_source_code r = Some s \<and> detect_pii s \<noteq> [])
    \<or> (\<exists>d \<in> set (mr_directives r). detect_pii d \<noteq> [])"
  shows "sensitive_hits r \<noteq> []"
proof -
  have "(indexed ''global_style_directives'' i, mr_directives r ! i) \<in> set (directive_fields r)" if "i < length (mr_directives r)" for i
    using that by (force simp: directive_fields_def in_set_enumerate_eq)
  then have "\<exists>field. (field, d) \<in> set (directive_fields r)" if "d \<in> set (mr_directives r)" for d
    using that by (metis in_set_conv_nth)
  then show ?thesis using assms unfolding sensitive_hits_def by (fastforce simp: neq_Nil_conv split: option.splits)
qed

lemma classification_official:
  assumes "apply_mission_classification r clean = Inr md"
  shows "\<exists>c. dget md ''data_classification'' = PStr c \<and> c \<in> set OFFICIAL_DATA_CLASSIFICATIONS"
proof -
  have official: "c \<in> set OFFICIAL_DATA_CLASSIFICATIONS" if "normalize_data_classification v ''TIER_1_INTERNAL'' = Inr c" for v c
    using that by (auto simp: normalize_data_classification_def Let_def OFFICIAL_DATA_CLASSIFICATIONS_def split: if_splits)
  obtain x where x: "mission_classification r clean = Inr x"
    using assms by (cases "mission_classification r clean") (auto simp: apply_mission_classification_def split: exc.splits)
  then have "snd (snd (snd x)) \<in> set OFFICIAL_DATA_CLASSIFICATIONS"
    using official by (auto simp: mission_classification_def rbind_Inr_iff Let_def)
  then show ?thesis using assms x by (auto simp: apply_mission_classification_def split: prod.splits)
qed

text \<open>C28. A mission with personal data or secrets in its prompt, source or directives enters the factory as sensitive or regulated,
  whatever classification the request asked for.\<close>

theorem sensitive_input_classified:
  assumes "prepare_request ic r = Inr (r', secrets)"
    and "detect_pii (mr_prompt r) \<noteq> [] \<or> (\<exists>s. mr_source_code r = Some s \<and> detect_pii s \<noteq> [])
      \<or> (\<exists>d \<in> set (mr_directives r). detect_pii d \<noteq> [])"
  shows "str_of (dget (mr_metadata r') ''data_classification'') \<in> {''TIER_2_SENSITIVE'', ''TIER_3_REGULATED''}
    \<and> dget (mr_metadata r') ''contains_sensitive_input'' = PBool True"
proof -
  obtain md r2 where r2: "stamp_prompt_scan ic (r\<lparr>mr_metadata := md\<rparr>) = Inr r2" and r': "r' = stamp_sensitive_scan r2"
    and md: "\<exists>clean. apply_mission_classification r clean = Inr md"
    using assms(1) by (auto simp: prepare_request_def rbind_Inr_iff Let_def case_prod_beta)
  have same: "mr_prompt r2 = mr_prompt r" "mr_source_code r2 = mr_source_code r" "mr_directives r2 = mr_directives r"
    using r2 by (auto simp: stamp_prompt_scan_def Let_def split: if_splits)
  have "\<exists>c. dget md ''data_classification'' = PStr c \<and> c \<in> set OFFICIAL_DATA_CLASSIFICATIONS"
    using md classification_official by blast
  then obtain c where "dget (mr_metadata r2) ''data_classification'' = PStr c" and c: "c \<in> set OFFICIAL_DATA_CLASSIFICATIONS"
    using r2 by (auto simp: stamp_prompt_scan_def Let_def split: if_splits)
  moreover have "list_all (\<lambda>c. py_upper c = c) OFFICIAL_DATA_CLASSIFICATIONS" by code_simp
  then have "py_upper c = c" using c by (simp add: list_all_iff)
  moreover have "sensitive_hits r2 \<noteq> []" using field_hit [of r2] assms(2) same by metis
  ultimately show ?thesis
    by (auto simp: r' stamp_sensitive_scan_def Let_def sensitive_total)
qed

section \<open>Injections\<close>

text \<open>A row of at least a given risk, which further findings do not lower.\<close>

definition at_least :: "nat \<Rightarrow> findings \<Rightarrow> bool" where
  "at_least n rows \<longleftrightarrow> (\<exists>key level count. (key, level, count) \<in> set rows \<and> n \<le> risk_rank level)"

lemma higher_risk_rank: "risk_rank (higher_risk a b) = max (risk_rank a) (risk_rank b)"
  by (simp add: higher_risk_def)

lemma higher_risk_ne: "t \<noteq> [] \<Longrightarrow> higher_risk level t \<noteq> []"
  by (cases "level = []") (simp_all add: higher_risk_def risk_rank_def RISK_PRIORITY_def)

lemma in_update: "(key, v) \<in> set (AList.update key v d)"
  by (induction d) auto

lemma in_update_other: "x \<in> set d \<Longrightarrow> fst x \<noteq> key \<Longrightarrow> x \<in> set (AList.update key v d)"
  by (induction d) auto

lemma finding_at_least:
  assumes "distinct (map fst rows)"
  shows "at_least (risk_rank level) (add_finding field level m rows)" and "at_least n rows \<Longrightarrow> at_least n (add_finding field level m rows)"
    and "distinct (map fst (add_finding field level m rows))"
proof -
  define key where "key = (field, attack_type m)"
  define v where "v = (case map_of rows key of None \<Rightarrow> (level, 1) | Some (row_level, n) \<Rightarrow> (higher_risk level row_level, Suc n))"
  have add: "add_finding field level m rows = AList.update key v rows" by (simp add: add_finding_def key_def v_def Let_def)
  have v: "risk_rank level \<le> risk_rank (fst v)" by (auto simp: v_def higher_risk_rank split: option.splits)
  then show "at_least (risk_rank level) (add_finding field level m rows)"
    unfolding at_least_def add by (metis in_update prod.collapse)
  show "distinct (map fst (add_finding field level m rows))" unfolding add using assms by (rule distinct_update)
  assume "at_least n rows"
  then obtain k l c where row: "(k, l, c) \<in> set rows" "n \<le> risk_rank l" unfolding at_least_def by blast
  show "at_least n (add_finding field level m rows)"
  proof (cases "k = key")
    case True
    then have "map_of rows key = Some (l, c)" using row(1) assms by (simp add: map_of_is_SomeI)
    then have "n \<le> risk_rank (fst v)" using row(2) by (simp add: v_def higher_risk_rank)
    then show ?thesis unfolding at_least_def add by (metis in_update prod.collapse)
  next
    case False
    then show ?thesis unfolding at_least_def add using row in_update_other by (metis fst_conv)
  qed
qed

lemma findings_at_least:
  assumes "distinct (map fst rows)"
  shows "distinct (map fst (fold (add_finding field level) ms rows))"
    and "at_least n rows \<Longrightarrow> at_least n (fold (add_finding field level) ms rows)"
    and "ms \<noteq> [] \<Longrightarrow> at_least (risk_rank level) (fold (add_finding field level) ms rows)"
proof -
  have "distinct (map fst (fold (add_finding field level) ms rows))
      \<and> (at_least n rows \<longrightarrow> at_least n (fold (add_finding field level) ms rows))" if "distinct (map fst rows)" for rows n ms
    using that finding_at_least by (induction ms arbitrary: rows) auto
  then show "distinct (map fst (fold (add_finding field level) ms rows))"
    and "at_least n rows \<Longrightarrow> at_least n (fold (add_finding field level) ms rows)"
    and "ms \<noteq> [] \<Longrightarrow> at_least (risk_rank level) (fold (add_finding field level) ms rows)"
    using assms finding_at_least(1,3) by (blast, blast, cases ms) auto
qed

lemma text_at_least:
  assumes "distinct (map fst rows)"
  shows "distinct (map fst (add_text e rows))" and "at_least n rows \<Longrightarrow> at_least n (add_text e rows)"
    and "snd e \<noteq> [] \<Longrightarrow> is_suspicious (check_prompt (snd e)) \<Longrightarrow> at_least (risk_rank (risk_level (check_prompt (snd e)))) (add_text e rows)"
proof -
  have "ir_matches (check_prompt s) \<noteq> []" if "is_suspicious (check_prompt s)" for s
    using that by (auto simp: check_prompt_def Let_def split: if_splits)
  then show "distinct (map fst (add_text e rows))" and "at_least n rows \<Longrightarrow> at_least n (add_text e rows)"
    and "snd e \<noteq> [] \<Longrightarrow> is_suspicious (check_prompt (snd e)) \<Longrightarrow> at_least (risk_rank (risk_level (check_prompt (snd e)))) (add_text e rows)"
    using assms findings_at_least [OF assms] by (auto simp: add_text_def Let_def split: prod.splits)
qed

lemma texts_at_least:
  assumes "distinct (map fst rows)" and "at_least n rows \<or> (\<exists>e \<in> set es. snd e \<noteq> [] \<and> is_suspicious (check_prompt (snd e))
    \<and> n \<le> risk_rank (risk_level (check_prompt (snd e))))"
  shows "at_least n (fold add_text es rows)"
  using assms
proof (induction es arbitrary: rows)
  case (Cons e es)
  have "at_least n (add_text e rows)" if "snd e \<noteq> []" "is_suspicious (check_prompt (snd e))" "n \<le> risk_rank (risk_level (check_prompt (snd e)))"
    using text_at_least(3) [OF Cons.prems(1) that(1,2)] that(3) unfolding at_least_def by (meson order_trans)
  then have "at_least n (add_text e rows) \<or> (\<exists>e \<in> set es. snd e \<noteq> [] \<and> is_suspicious (check_prompt (snd e))
      \<and> n \<le> risk_rank (risk_level (check_prompt (snd e))))"
    using Cons.prems(2) text_at_least(2) [OF Cons.prems(1), of n e] by auto
  from Cons.IH [OF text_at_least(1) [OF Cons.prems(1)] this] show ?case by simp
qed simp

lemma max_risk_at_least: "at_least n rows \<Longrightarrow> n \<le> risk_rank (max_risk rows)"
proof -
  have "risk_rank top \<le> risk_rank (fold (\<lambda>(_, level, _) top. higher_risk level top) rows top)
      \<and> (at_least n rows \<longrightarrow> n \<le> risk_rank (fold (\<lambda>(_, level, _) top. higher_risk level top) rows top))" for top
  proof (induction rows arbitrary: top)
    case (Cons x rows)
    obtain key level count where x: "x = (key, level, count)" by (cases x)
    show ?case using Cons.IH [of "higher_risk level top"] by (auto simp: x at_least_def higher_risk_rank)
  qed (simp add: at_least_def)
  then show "at_least n rows \<Longrightarrow> n \<le> risk_rank (max_risk rows)" by (simp add: max_risk_def)
qed

lemma max_risk_ne: "max_risk rows \<noteq> []"
proof -
  have "fold (\<lambda>(_, level, _) top. higher_risk level top) rows top \<noteq> []" if "top \<noteq> []" for top
    using that
  proof (induction rows arbitrary: top)
    case (Cons x rows)
    obtain key level count where x: "x = (key, level, count)" by (cases x)
    show ?case using Cons.IH [of "higher_risk level top"] Cons.prems by (simp add: x higher_risk_ne)
  qed simp
  then show ?thesis by (simp add: max_risk_def)
qed

lemma normalize_error:
  "normalize_mission_type v d = Inl e \<Longrightarrow> e = UnknownMissionTypeError"
  "normalize_output_mode v d = Inl e \<Longrightarrow> e = UnknownMissionTypeError"
  "normalize_depth_mode v d = Inl e \<Longrightarrow> e = UnknownMissionTypeError"
  "normalize_data_classification v d = Inl e \<Longrightarrow> e = UnknownMissionTypeError"
  by (auto simp: normalize_mission_type_def normalize_output_mode_def normalize_depth_mode_def normalize_data_classification_def Let_def
      split: if_splits option.splits)

lemma rbind_Inl_iff: "rbind m f = Inl e \<longleftrightarrow> m = Inl e \<or> (\<exists>x. m = Inr x \<and> f x = Inl e)"
  by (cases m) simp_all

lemma classification_error: "mission_classification r md = Inl e \<Longrightarrow> e = UnknownMissionTypeError"
  unfolding mission_classification_def Let_def rbind_Inl_iff by (auto split: if_splits dest: normalize_error)


section \<open>The orchestrator's vocabulary\<close>

lemma map_of_checked:
  assumes "list_all (\<lambda>(l, a). map_of g l = Some a) h" and "map_of h l = Some a"
  shows "map_of g l = Some a"
  using assms map_of_SomeD [OF assms(2)] by (auto simp: list_all_iff)

text \<open>The gateway and the orchestrator, which keep separate copies of the tables, agree on the pod manager of every language and on every
  project id.\<close>

theorem gateway_agrees_with_orchestrator:
  "gw_resolve_pod_manager_agent language = resolve_pod_manager_agent_id language"
  "gw_normalize_project_id value fallback = normalize_project_id value fallback"
proof -
  have tables: "list_all (\<lambda>(l, a). map_of POD_MANAGER_BY_LANGUAGE l = Some a) GW_POD_MANAGER_BY_LANGUAGE"
    "list_all (\<lambda>(l, a). map_of GW_POD_MANAGER_BY_LANGUAGE l = Some a) POD_MANAGER_BY_LANGUAGE" by code_simp+
  have same: "map_of GW_POD_MANAGER_BY_LANGUAGE = map_of POD_MANAGER_BY_LANGUAGE"
  proof
    show "map_of GW_POD_MANAGER_BY_LANGUAGE l = map_of POD_MANAGER_BY_LANGUAGE l" for l
      using map_of_checked [OF tables(1), of l] map_of_checked [OF tables(2), of l]
      by (cases "map_of GW_POD_MANAGER_BY_LANGUAGE l"; cases "map_of POD_MANAGER_BY_LANGUAGE l") auto
  qed
  show "gw_resolve_pod_manager_agent language = resolve_pod_manager_agent_id language"
    unfolding gw_resolve_pod_manager_agent_def resolve_pod_manager_agent_id_def gw_normalize_language_def normalize_language_def
      Mission_Flow.DEFAULT_POD_MANAGER_AGENT_ID_def same ..
  have "strip_by edge_char (slug_sub False (py_lower [])) = []" by (simp add: strip_by_def py_lower_def)
  then show "gw_normalize_project_id value fallback = normalize_project_id value fallback"
    by (simp add: gw_normalize_project_id_def normalize_project_id_def Let_def)
qed

section \<open>Examples\<close>

definition sample_intake_config :: "string \<Rightarrow> intake_config" where
  "sample_intake_config mode = \<lparr>ic_flow_v2 = None, ic_langgraph = None, ic_guard_mode = mode, ic_block_level = ''high'', ic_ttl = 86400, ic_attempts = 3\<rparr>"

definition sample_mission_request :: "string \<Rightarrow> mission_request" where
  "sample_mission_request p = \<lparr>mr_prompt = p, mr_language = Some ''python'', mr_source_code = None, mr_mission_type = None, mr_depth_mode = None,
     mr_output_mode = None, mr_data_classification = None, mr_attachments = [], mr_directives = [], mr_metadata = []\<rparr>"

lemma sample_prepared: "\<exists>r' secrets. prepare_request (sample_intake_config ''warn'') (sample_mission_request p) = Inr (r', secrets)"
proof -
  have c: "apply_mission_classification (sample_mission_request p) = apply_mission_classification (sample_mission_request [])"
    by (rule ext) (simp add: apply_mission_classification_def mission_classification_def sample_mission_request_def)
  have "\<not> isl (rbind (normalize_mission_metadata (sample_intake_config ''warn'') (Some ''python'') [])
      (\<lambda>md. apply_mission_classification (sample_mission_request []) (fst (split_vault (PDict md)))))" by code_simp
  then obtain md2 where "rbind (normalize_mission_metadata (sample_intake_config ''warn'') (Some ''python'') [])
      (\<lambda>md. apply_mission_classification (sample_mission_request []) (fst (split_vault (PDict md)))) = Inr md2"
    by (metis (no_types) isl_def sum.exhaust)
  then obtain md where md: "normalize_mission_metadata (sample_intake_config ''warn'') (Some ''python'') [] = Inr md"
    and md2: "apply_mission_classification (sample_mission_request []) (fst (split_vault (PDict md))) = Inr md2"
    by (cases "normalize_mission_metadata (sample_intake_config ''warn'') (Some ''python'') []") simp_all
  have "\<exists>r'. stamp_prompt_scan (sample_intake_config ''warn'') r = Inr r'" for r
    by (simp add: stamp_prompt_scan_def Let_def should_block_prompt_input_scan_def sample_intake_config_def)
  moreover have "mr_language (sample_mission_request p) = Some ''python''" "mr_metadata (sample_mission_request p) = []" 
    "mr_source_code (sample_mission_request p) = None" by (simp_all add: sample_mission_request_def)
  ultimately show ?thesis
    by (auto simp: prepare_request_def Let_def case_prod_beta c truthy_text_def md md2 rbind_Inr_iff)
qed
lemma sensitive_input_classified_witness:
  "\<exists>r' secrets. prepare_request (sample_intake_config ''warn'') (sample_mission_request ''a@b.cc'') = Inr (r', secrets)
    \<and> dget (mr_metadata r') ''contains_sensitive_input'' = PBool True"
proof -
  obtain r' secrets where p: "prepare_request (sample_intake_config ''warn'') (sample_mission_request ''a@b.cc'') = Inr (r', secrets)"
    using sample_prepared by blast
  have "detect_pii ''a@b.cc'' \<noteq> []" by code_simp
  then have "detect_pii (mr_prompt (sample_mission_request ''a@b.cc'')) \<noteq> []" by (simp add: sample_mission_request_def)
  then show ?thesis using p sensitive_input_classified [OF p] by blast
qed


end
