(* ===== verification/Gateway_Idempotency.thy ===== *)
theory Gateway_Idempotency
  imports Gateway_Missions Bus_Consumer
begin

text \<open>
  What creating missions at the gateway guarantees: one mission per idempotency key over all interleavings
  and outages, a key for one request, and no credentials outside the vault. The relation \<open>idem_ok\<close> collects what every step of
  every gateway keeps; \<open>triple\<close> carries what the steps of one creation learn about its key.
\<close>

section \<open>What an idempotency key is bound to\<close>

definition idem_key :: "string \<Rightarrow> bool" where
  "idem_key k \<longleftrightarrow> starts_with ''idempotency:missions:'' k"

definition record_id :: "pydict \<Rightarrow> string" where
  "record_id d = py_strip (str_or_empty (dget d ''mission_id''))"

text \<open>A record's mission, if it has one, is the mission it names.\<close>

definition sound_record :: "pydict \<Rightarrow> bool" where
  "sound_record d \<longleftrightarrow>
     (\<forall>m. gw_mission_of (dict_or_empty (dget d ''mission'')) = Inr m \<longrightarrow> gm_mission_id m = record_id d)"

definition binding :: "gw_env \<Rightarrow> redis \<Rightarrow> string \<Rightarrow> (string \<times> pyval) option" where
  "binding env rd k =
     (case truthy_text (map_of (kv rd) k) of
        None \<Rightarrow> None
      | Some raw \<Rightarrow>
          (case ge_loads env raw of
             Some (PDict d) \<Rightarrow> if sound_record d then Some (record_id d, dget d ''request_hash'') else None
           | _ \<Rightarrow> None))"

definition all_sound :: "gw_env \<Rightarrow> redis \<Rightarrow> bool" where
  "all_sound env rd \<longleftrightarrow> (\<forall>k. idem_key k \<longrightarrow> dhas (kv rd) k \<longrightarrow> binding env rd k \<noteq> None)"

definition redis_ok :: "gw_env \<Rightarrow> redis \<Rightarrow> redis \<Rightarrow> bool" where
  "redis_ok env rd rd' \<longleftrightarrow>
     (all_sound env rd \<longrightarrow> all_sound env rd' \<and> (\<forall>k b. idem_key k \<longrightarrow> binding env rd k = Some b \<longrightarrow> binding env rd' k = Some b))"

text \<open>A post under a key carries the id the key is bound to.\<close>

definition post_ok :: "gw_env \<Rightarrow> redis \<Rightarrow> string option \<times> string \<times> pydict \<Rightarrow> bool" where
  "post_ok env rd p \<longleftrightarrow>
     (case p of (None, _) \<Rightarrow> True | (Some k, mid, _) \<Rightarrow> idem_key k \<and> (\<exists>h. binding env rd k = Some (mid, h)))"

definition idem_ok :: "gw_env \<Rightarrow> gw_world \<Rightarrow> gw_world \<Rightarrow> bool" where
  "idem_ok env w w' \<longleftrightarrow>
     redis_ok env (gw_redis w) (gw_redis w')
     \<and> (all_sound env (gw_redis w) \<longrightarrow>
          (\<exists>new. gw_posts w' = gw_posts w @ new \<and> (\<forall>p \<in> set new. post_ok env (gw_redis w') p)))"

text \<open>The same from a world where the key \<open>k\<close> is bound to \<open>b\<close>.\<close>

definition bound_at :: "gw_env \<Rightarrow> string \<Rightarrow> string \<times> pyval \<Rightarrow> gw_world \<Rightarrow> bool" where
  "bound_at env k b w \<longleftrightarrow> all_sound env (gw_redis w) \<and> idem_key k \<and> binding env (gw_redis w) k = Some b"

definition bound_ok :: "gw_env \<Rightarrow> string \<Rightarrow> string \<times> pyval \<Rightarrow> gw_world \<Rightarrow> gw_world \<Rightarrow> bool" where
  "bound_ok env k b w w' \<longleftrightarrow> (bound_at env k b w \<longrightarrow> idem_ok env w w')"

lemma redis_ok_refl [simp]: "redis_ok env rd rd"
  by (simp add: redis_ok_def)

lemma redis_ok_trans: "redis_ok env a b \<Longrightarrow> redis_ok env b c \<Longrightarrow> redis_ok env a c"
  by (simp add: redis_ok_def)

lemma post_ok_kept:
  "post_ok env rd p \<Longrightarrow> redis_ok env rd rd' \<Longrightarrow> all_sound env rd \<Longrightarrow> post_ok env rd' p"
  by (auto simp: post_ok_def redis_ok_def split: option.splits prod.splits)

lemma idem_ok_refl: "idem_ok env w w"
  by (simp add: idem_ok_def)

lemma idem_ok_trans:
  assumes "idem_ok env u v" and "idem_ok env v w"
  shows "idem_ok env u w"
  unfolding idem_ok_def
proof (intro conjI impI)
  show "redis_ok env (gw_redis u) (gw_redis w)"
    using assms redis_ok_trans unfolding idem_ok_def by blast
  assume s: "all_sound env (gw_redis u)"
  then have sv: "all_sound env (gw_redis v)" using assms(1) by (simp add: idem_ok_def redis_ok_def)
  obtain n1 n2 where "gw_posts v = gw_posts u @ n1" "\<forall>p \<in> set n1. post_ok env (gw_redis v) p"
    "gw_posts w = gw_posts v @ n2" "\<forall>p \<in> set n2. post_ok env (gw_redis w) p"
    using assms s sv unfolding idem_ok_def by blast
  then show "\<exists>new. gw_posts w = gw_posts u @ new \<and> (\<forall>p \<in> set new. post_ok env (gw_redis w) p)"
    using assms(2) sv post_ok_kept unfolding idem_ok_def by (intro exI [of _ "n1 @ n2"]) auto
qed

interpretation idem: preorder_rel "idem_ok env" for env
  by unfold_locales (rule idem_ok_refl, rule idem_ok_trans)

lemma bound_at_kept: "bound_at env k b w \<Longrightarrow> idem_ok env w w' \<Longrightarrow> bound_at env k b w'"
  by (cases b) (simp add: bound_at_def idem_ok_def redis_ok_def)

interpretation at_key: preorder_rel "bound_ok env k b" for env k b
proof unfold_locales
  show "bound_ok env k b w w" for w by (simp add: bound_ok_def idem_ok_refl)
  show "bound_ok env k b u w" if "bound_ok env k b u v" "bound_ok env k b v w" for u v w
    using that bound_at_kept idem_ok_trans unfolding bound_ok_def by blast
qed

lemma keeps_at: "keeps (idem_ok env) m \<Longrightarrow> keeps (bound_ok env k b) m"
  by (simp add: keeps_def bound_ok_def)

text \<open>The environments considered: the others treat the keys likewise and do not drop a binding, the JSON text of a document
  reads back, ids hold no white space, and the orchestrator answers for a mission with that mission.\<close>

definition honest_gateway :: "gw_env \<Rightarrow> bool" where
  "honest_gateway env \<longleftrightarrow>
     (\<forall>t rd. redis_ok env rd (ge_others env t rd))
     \<and> (\<forall>v. ge_loads env (ge_dumps env v) = Some v \<and> ge_dumps env v \<noteq> [])
     \<and> (\<forall>t. \<forall>c \<in> set (ge_uuid env t). \<not> is_space c)
     \<and> (\<forall>t call status d mid. ge_upstream env t call = Answer status (Doc (PDict d)) \<longrightarrow> uc_method call = ''GET'' \<longrightarrow>
          uc_path call = mission_path mid [] \<longrightarrow> status < 400 \<longrightarrow> dget d ''mission_id'' = PStr mid)"

lemma tick_ok: "honest_gateway env \<Longrightarrow> idem_ok env w (gw_tick env w)"
  by (simp add: honest_gateway_def idem_ok_def gw_tick_def)

lemma redis_call_ok:
  assumes "honest_gateway env" and "\<And>rd. redis_ok env rd (snd (m rd))"
  shows "keeps (idem_ok env) (gw_redis_call env m)"
  unfolding keeps_def
proof
  fix w
  obtain r rd where call: "service (ge_redis env (gw_clock w)) m (gw_redis (gw_tick env w)) = (r, rd)" by fastforce
  have "redis_ok env (gw_redis (gw_tick env w)) rd"
    using call assms(2) [of "gw_redis (gw_tick env w)"]
    by (cases "ge_redis env (gw_clock w)") (auto simp: service_def)
  moreover have "redis_ok env (gw_redis w) (gw_redis (gw_tick env w))" using tick_ok [OF assms(1)] by (simp add: idem_ok_def)
  ultimately show "idem_ok env w (snd (gw_redis_call env m w))"
    using redis_ok_trans by (simp add: gw_redis_call_def call idem_ok_def) (simp add: gw_tick_def)
qed

definition put :: "string \<Rightarrow> string \<Rightarrow> int \<Rightarrow> redis \<Rightarrow> redis" where
  "put key v ex rd = rd\<lparr>kv := dset key v (kv rd), ttl := dset key ex (ttl rd)\<rparr>"

lemma binding_put_other [simp]: "k' \<noteq> k \<Longrightarrow> binding env (put k v ex rd) k' = binding env rd k'"
  by (simp add: binding_def put_def)

lemma binding_put:
  assumes "honest_gateway env" and "sound_record d"
  shows "binding env (put k (ge_dumps env (PDict d)) ex rd) k = Some (record_id d, dget d ''request_hash'')"
  using assms by (simp add: binding_def put_def honest_gateway_def truthy_text_def)

lemma all_sound_put: "all_sound env rd \<Longrightarrow> (idem_key k \<Longrightarrow> binding env (put k v ex rd) k \<noteq> None) \<Longrightarrow> all_sound env (put k v ex rd)"
  unfolding all_sound_def by (metis (no_types, lifting) binding_put_other dhas_dset put_def redis.select_convs(1) redis.surjective redis.update_convs(1,2))

lemma put_other_ok: "\<not> idem_key k \<Longrightarrow> redis_ok env rd (put k v ex rd)"
  unfolding redis_ok_def using all_sound_put by (metis binding_put_other)

lemma set_nx_ok:
  assumes "honest_gateway env" and "sound_record d"
  shows "redis_ok env rd (snd (redis_set k (ge_dumps env (PDict d)) ex True rd))"
proof (cases "dhas (kv rd) k")
  case False
  then have "binding env rd k = None" by (simp add: binding_def dhas_def truthy_text_def)
  then have "redis_ok env rd (put k (ge_dumps env (PDict d)) ex rd)"
    unfolding redis_ok_def using all_sound_put [of env rd k] binding_put [OF assms, of k ex rd]
    by (metis binding_put_other option.distinct(1))
  then show ?thesis using False by (simp add: redis_set_def put_def)
qed (simp add: redis_set_def)

text \<open>Writing the binding a key has.\<close>

lemma set_same_ok:
  assumes "honest_gateway env" and "sound_record d" and "binding env rd k = Some (record_id d, dget d ''request_hash'')"
  shows "redis_ok env rd (snd (redis_set k (ge_dumps env (PDict d)) ex False rd))"
proof -
  have "redis_ok env rd (put k (ge_dumps env (PDict d)) ex rd)"
    unfolding redis_ok_def using all_sound_put [of env rd k] binding_put [OF assms(1,2), of k ex rd] assms(3)
    by (metis binding_put_other option.distinct(1))
  then show ?thesis by (simp add: redis_set_def put_def)
qed

lemma keeps_load [keeps_intros]: "honest_gateway env \<Longrightarrow> keeps (idem_ok env) (load_idempotency_record env k)"
  unfolding load_idempotency_record_def by (intro keeps_intros redis_call_ok) (simp_all add: redis_get_def)

lemma keeps_acquire [keeps_intros]:
  "honest_gateway env \<Longrightarrow> sound_record d \<Longrightarrow> keeps (idem_ok env) (save_idempotency_record env ic k d True)"
  unfolding save_idempotency_record_def by (intro redis_call_ok set_nx_ok)

lemma vault_key_not_idem: "\<not> idem_key (vault_key mid)"
  by (simp add: idem_key_def vault_key_def starts_with_def)

lemma keeps_gw_vault [keeps_intros]: "honest_gateway env \<Longrightarrow> keeps (idem_ok env) (gw_store_vault env mid vault)"
  unfolding gw_store_vault_def
  by (intro keeps_intros redis_call_ok)
    (simp_all add: store_vault_def put_other_ok [OF vault_key_not_idem, unfolded put_def])

lemma redis_call_at:
  assumes "honest_gateway env" and "\<And>rd. all_sound env rd \<Longrightarrow> binding env rd k = Some b \<Longrightarrow> redis_ok env rd (snd (m rd))"
  shows "keeps (bound_ok env k b) (gw_redis_call env m)"
  unfolding keeps_def bound_ok_def
proof (intro allI impI)
  fix w
  assume at: "bound_at env k b w"
  obtain r rd where call: "service (ge_redis env (gw_clock w)) m (gw_redis (gw_tick env w)) = (r, rd)" by fastforce
  have "redis_ok env (gw_redis (gw_tick env w)) (snd (m (gw_redis (gw_tick env w))))"
    using assms(2) bound_at_kept [OF at tick_ok [OF assms(1)]] by (simp add: bound_at_def)
  then have "redis_ok env (gw_redis (gw_tick env w)) rd"
    using call by (cases "ge_redis env (gw_clock w)") (auto simp: service_def)
  moreover have "redis_ok env (gw_redis w) (gw_redis (gw_tick env w))" using tick_ok [OF assms(1)] by (simp add: idem_ok_def)
  ultimately show "idem_ok env w (snd (gw_redis_call env m w))"
    using redis_ok_trans by (simp add: gw_redis_call_def call idem_ok_def) (simp add: gw_tick_def)
qed

lemma keeps_save_at:
  "honest_gateway env \<Longrightarrow> sound_record d \<Longrightarrow> b = (record_id d, dget d ''request_hash'') \<Longrightarrow>
   keeps (bound_ok env k b) (save_idempotency_record env ic k d False)"
  unfolding save_idempotency_record_def by (intro redis_call_at set_same_ok) simp_all

lemma keeps_telemetry [keeps_intros]: "honest_gateway env \<Longrightarrow> keeps (idem_ok env) (emit_intake_telemetry env mid p)"
proof -
  assume h: "honest_gateway env"
  have stream: "idem_ok env w (w\<lparr>gw_stream := s\<rparr>)" for w s by (simp add: idem_ok_def)
  have "idem_ok env w (snd (service c (\<lambda>w. (Inr (), w\<lparr>gw_stream := gw_stream w @ x\<rparr>)) (gw_tick env w)))" for c w x
    using idem_ok_trans [OF tick_ok [OF h] stream] tick_ok [OF h] by (cases c) (simp_all add: service_def)
  then show ?thesis
    unfolding emit_intake_telemetry_def Let_def
    by (intro idem.keeps_attempt) (auto simp: keeps_def idem_ok_refl split: sum.splits)
qed

text \<open>A post under a key that is bound to the posted id; a post without a key.\<close>

lemma attempts_at:
  assumes "honest_gateway env"
  shows "bound_ok env k (mid, h) w (snd (persist_attempts env cfg (Some k) mid json n w))"
    and "idem_ok env w (snd (persist_attempts env cfg None mid json n w))"
proof -
  have posted: "idem_ok env w ((gw_tick env w)\<lparr>gw_posts := gw_posts w @ map (\<lambda>_. (tag, mid, json)) calls\<rparr>)"
    if "tag = None \<or> tag = Some k \<and> bound_at env k (mid, h) w" for tag w and calls :: "upstream_call list"
    using that tick_ok [OF assms, of w] bound_at_kept [of env k "(mid, h)" w "gw_tick env w"]
    by (auto simp: idem_ok_def post_ok_def bound_at_def)
  show "bound_ok env k (mid, h) w (snd (persist_attempts env cfg (Some k) mid json n w))"
  proof (induction n arbitrary: w)
    case (Suc n)
    obtain calls answer where p: "proxy_post_internal cfg (ge_upstream env (gw_clock w)) ''/missions'' [] (Some json) = (calls, answer)"
      by fastforce
    let ?w = "(gw_tick env w)\<lparr>gw_posts := gw_posts w @ map (\<lambda>_. (Some k, mid, json)) calls\<rparr>"
    have step: "persist_attempts env cfg (Some k) mid json (Suc n) w =
        (if answer = Inl (502, ''orchestrator unavailable'') \<and> 0 < n then persist_attempts env cfg (Some k) mid json n ?w
         else (Inr answer, ?w))"
      by (simp add: p Let_def)
    have "bound_ok env k (mid, h) w ?w" using posted [of "Some k" w calls] by (simp add: bound_ok_def)
    with at_key.R_trans [OF this Suc.IH] show ?case unfolding step by simp
  qed (simp add: bound_ok_def idem_ok_refl)
  show "idem_ok env w (snd (persist_attempts env cfg None mid json n w))"
  proof (induction n arbitrary: w)
    case (Suc n)
    obtain calls answer where p: "proxy_post_internal cfg (ge_upstream env (gw_clock w)) ''/missions'' [] (Some json) = (calls, answer)"
      by fastforce
    let ?w = "(gw_tick env w)\<lparr>gw_posts := gw_posts w @ map (\<lambda>_. (None, mid, json)) calls\<rparr>"
    have step: "persist_attempts env cfg (None) mid json (Suc n) w =
        (if answer = Inl (502, ''orchestrator unavailable'') \<and> 0 < n then persist_attempts env cfg (None) mid json n ?w
         else (Inr answer, ?w))"
      by (simp add: p Let_def)
    have "idem_ok env w ?w" using posted [of None w calls] by simp
    with idem_ok_trans [OF this Suc.IH] show ?case unfolding step by simp
  qed (simp add: idem_ok_refl)
qed

section \<open>One mission per key\<close>

lemma merged_mission_id: "dget (merge_persisted mid t (prepare_initial_mission_payload mid r t') persisted) ''mission_id'' = PStr mid"
  by (simp add: merge_persisted_def Let_def prepare_initial_mission_payload_def) (simp add: dget_def)

lemma mission_of_id: "gw_mission_of d = Inr m \<Longrightarrow> dget d ''mission_id'' = PStr (gm_mission_id m)"
  by (cases "dget d ''mission_id''") (auto simp: gw_mission_of_def rbind_Inr_iff)

lemma no_mission_sound: "\<not> is_dict (dget d ''mission'') \<Longrightarrow> sound_record d"
  by (simp add: sound_record_def dict_or_empty_not_dict gw_mission_of_def)

lemma in_progress_sound: "sound_record (in_progress env r p)"
  by (rule no_mission_sound) (simp add: in_progress_def dget_def)

lemma keeps_case:
  assumes "keeps R m" and "\<And>u v w. R u v \<Longrightarrow> R v w \<Longrightarrow> R u w" and "\<And>e. keeps R (f e)" and "\<And>x. keeps R (g x)"
  shows "keeps R (try_else m f g)"
  unfolding keeps_def
proof
  fix w
  obtain r w' where m: "m w = (r, w')" by fastforce
  have "R w w'" using assms(1) m by (metis keepsD snd_conv)
  then show "R w (snd (try_else m f g w))"
    using assms(2) keepsD [OF assms(3)] keepsD [OF assms(4)] by (cases r) (simp_all add: try_else_def m)
qed

lemma keeps_now: "(\<And>t. keeps R (f t)) \<Longrightarrow> keeps R (\<lambda>w. f (g w) w)"
  by (simp add: keeps_def)

text \<open>What the launch of a mission needs of a relation to keep it: the vault, the telemetry, the posts of the mission's body and the
  records of its outcome stay in it.\<close>

definition names_mission :: "string \<Rightarrow> string \<times> pyval \<Rightarrow> bool" where
  "names_mission mid extra \<longleftrightarrow>
     \<not> is_dict (snd extra) \<or> fst extra = ''mission'' \<and> dget (dict_or_empty (snd extra)) ''mission_id'' = PStr mid"

locale launch_rel = preorder_rel R for R :: "gw_world \<Rightarrow> gw_world \<Rightarrow> bool" +
  fixes env :: gw_env and cfg :: gateway_config and ic :: intake_config and key :: "string option"
    and mid :: string and r :: mission_request
  assumes vaulted: "keeps R (gw_store_vault env mid vault)"
    and told: "keeps R (emit_intake_telemetry env mid payload)"
    and posted: "keeps R (persist_attempts env cfg key mid (persist_body mid r (initial_metadata t (mr_metadata r)) t) n)"
    and recorded: "names_mission mid extra \<Longrightarrow> keeps R (save_outcome env ic key (outcome_record env r mid status extra))"
begin

lemma launch_persist: "keeps R (persist_mission_upstream env cfg ic key mid r (initial_metadata t (mr_metadata r)) t)"
  unfolding persist_mission_upstream_def
proof (rule keeps_bnd [OF posted])
  show "keeps R (case a of Inl (status, detail) \<Rightarrow> lift_res (Inl (HTTPException status))
      | Inr (Doc v) \<Rightarrow> ret v | Inr _ \<Rightarrow> lift_res (Inl ValueError))" for a
    by (auto split: sum.splits body.splits intro: keeps_lift keeps_ret)
qed

lemma launch_finish: "keeps R (finish_mission env ic key mid r t v)"
  unfolding finish_mission_def Let_def
  by (cases v) (auto intro!: keeps_bnd keeps_attempt keeps_lift recorded told simp: names_mission_def merged_mission_id)

lemma launch_kept: "keeps R (launch_mission env cfg ic key mid r secrets)"
proof -
  have unknown: "keeps R (mark_unknown env ic key mid r e)" for e
    unfolding mark_unknown_def by (intro keeps_bnd recorded keeps_lift) (simp add: names_mission_def)
  have "keeps R (persist_and_finish env cfg ic key mid r t)" for t
    unfolding persist_and_finish_def by (rule keeps_case [OF launch_persist R_trans unknown launch_finish])
  from keeps_now [where f = "persist_and_finish env cfg ic key mid r" and g = "\<lambda>w. ge_now env (gw_clock w)", OF this]
  show ?thesis
    unfolding launch_mission_def by (rule keeps_bnd [OF vaulted])
qed

end

text \<open>A relation under a condition on the run.\<close>

definition under :: "bool \<Rightarrow> ('w \<Rightarrow> 'w \<Rightarrow> bool) \<Rightarrow> 'w \<Rightarrow> 'w \<Rightarrow> bool" where
  "under P R v w \<longleftrightarrow> (P \<longrightarrow> R v w)"

lemma keeps_under [simp]: "keeps (under P R) m \<longleftrightarrow> (P \<longrightarrow> keeps R m)"
  by (auto simp: keeps_def under_def)

lemma outcome_sound:
  assumes "names_mission mid extra" and "py_strip mid = mid"
  shows "sound_record (outcome_record env r mid status extra)"
proof (cases "is_dict (snd extra)")
  case True
  then have "fst extra = ''mission''" "dget (dict_or_empty (snd extra)) ''mission_id'' = PStr mid"
    using assms(1) by (auto simp: names_mission_def)
  then show ?thesis
    using mission_of_id by (cases extra) (fastforce simp: sound_record_def record_id_def outcome_record_def dget_def [of "_ # _"] assms(2))
next
  case False
  then show ?thesis by (cases extra) (auto simp: outcome_record_def dget_def split: if_splits intro!: no_mission_sound)
qed

lemma outcome_at_key:
  assumes "honest_gateway env" and "py_strip mid = mid" and "names_mission mid extra"
  shows "keeps (bound_ok env k (mid, PStr (request_hash env r))) (save_outcome env ic (Some k) (outcome_record env r mid status extra))"
proof -
  have "keeps (bound_ok env k (mid, PStr (request_hash env r)))
      (save_idempotency_record env ic k (outcome_record env r mid status extra) False)"
    by (rule keeps_save_at [OF assms(1) outcome_sound [OF assms(3,2)]]) (simp add: outcome_record_def record_id_def dget_def assms(2))
  then show ?thesis unfolding save_outcome_def by (auto intro: at_key.keeps_bnd at_key.keeps_ret)
qed

interpretation at_launch: launch_rel
  "under (honest_gateway env \<and> py_strip mid = mid) (bound_ok env k (mid, PStr (request_hash env r)))" env cfg ic "Some k" mid r
  for env cfg ic k mid r
proof unfold_locales
  let ?R = "under (honest_gateway env \<and> py_strip mid = mid) (bound_ok env k (mid, PStr (request_hash env r)))"
  show "?R w w" for w by (simp add: under_def at_key.R_refl)
  show "?R u w" if "?R u v" "?R v w" for u v w using that at_key.R_trans unfolding under_def by blast
  show "keeps ?R (gw_store_vault env mid vault)" for vault by (simp add: keeps_at keeps_gw_vault)
  show "keeps ?R (emit_intake_telemetry env mid payload)" for payload by (simp add: keeps_at keeps_telemetry)
  show "keeps ?R (persist_attempts env cfg (Some k) mid (persist_body mid r (initial_metadata t (mr_metadata r)) t) n)" for t n
    by (simp add: keeps_def under_def attempts_at(1))
  show "keeps ?R (save_outcome env ic (Some k) (outcome_record env r mid status extra))" if "names_mission mid extra" for extra status
    using outcome_at_key that by simp
qed

interpretation keyless_launch: launch_rel "under (honest_gateway env) (idem_ok env)" env cfg ic None mid r for env cfg ic mid r
proof unfold_locales
  let ?R = "under (honest_gateway env) (idem_ok env)"
  show "?R w w" for w by (simp add: under_def idem_ok_refl)
  show "?R u w" if "?R u v" "?R v w" for u v w using that idem_ok_trans unfolding under_def by blast
  show "keeps ?R (gw_store_vault env mid vault)" for vault by (simp add: keeps_gw_vault)
  show "keeps ?R (emit_intake_telemetry env mid payload)" for payload by (simp add: keeps_telemetry)
  show "keeps ?R (persist_attempts env cfg None mid (persist_body mid r (initial_metadata t (mr_metadata r)) t) n)" for t n
    by (simp add: keeps_def under_def attempts_at(2))
  show "keeps ?R (save_outcome env ic None (outcome_record env r mid status extra))" for extra status
    by (simp add: save_outcome_def idem.keeps_ret)
qed

lemma launch_at_key:
  assumes "honest_gateway env" and "py_strip mid = mid"
  shows "keeps (bound_ok env k (mid, PStr (request_hash env r))) (launch_mission env cfg ic (Some k) mid r secrets)"
  using at_launch.launch_kept assms by simp

lemma launch_no_key:
  assumes "honest_gateway env"
  shows "keeps (idem_ok env) (launch_mission env cfg ic None mid r secrets)"
  using keyless_launch.launch_kept assms by simp

lemma launch_result: "launch_mission env cfg ic key mid r secrets w = (Inr m, w') \<Longrightarrow> gm_mission_id m = mid"
proof -
  assume "launch_mission env cfg ic key mid r secrets w = (Inr m, w')"
  then obtain w1 where "persist_and_finish env cfg ic key mid r (ge_now env (gw_clock w1)) w1 = (Inr m, w')"
    unfolding launch_mission_def by (elim bnd_result)
  then obtain v w2 where "finish_mission env ic key mid r (ge_now env (gw_clock w1)) v w2 = (Inr m, w')"
    by (auto simp: persist_and_finish_def try_else_def mark_unknown_def split: prod.splits sum.splits elim: bnd_result)
  then show ?thesis
    by (cases v) (auto simp: finish_mission_def Let_def elim!: bnd_result dest!: mission_of_id simp: merged_mission_id)
qed

lemma load_result:
  assumes "honest_gateway env" and "all_sound env (gw_redis w)" and "idem_key k"
    and "load_idempotency_record env k w = (Inr (Some d), w')"
  shows "bound_at env k (record_id d, dget d ''request_hash'') w' \<and> sound_record d"
proof -
  have others: "all_sound env (gw_redis (gw_tick env w))"
    using assms(1,2) tick_ok by (auto simp: idem_ok_def redis_ok_def)
  have "ge_redis env (gw_clock w) = Done"
    using assms(4) by (cases "ge_redis env (gw_clock w)") (auto simp: load_idempotency_record_def bnd_def gw_redis_call_def service_def)
  then have w': "w' = gw_tick env w" and "\<exists>raw. truthy_text (map_of (kv (gw_redis w')) k) = Some raw \<and> ge_loads env raw = Some (PDict d)"
    using assms(4) by (auto simp: load_idempotency_record_def bnd_def gw_redis_call_def service_def redis_get_def
        split: option.splits pyval.splits)
  then obtain raw where raw: "truthy_text (map_of (kv (gw_redis w')) k) = Some raw" "ge_loads env raw = Some (PDict d)" by blast
  then have "dhas (kv (gw_redis w')) k" by (auto simp: dhas_def truthy_text_def split: option.splits)
  then have "binding env (gw_redis w') k \<noteq> None" using others assms(3) by (simp add: all_sound_def w')
  then show ?thesis using others assms(3) raw by (auto simp: binding_def bound_at_def w' split: if_splits)
qed

lemma acquire_result:
  assumes "honest_gateway env" and "all_sound env (gw_redis w)" and "idem_key k" and "py_strip p = p"
    and "save_idempotency_record env ic k (in_progress env r p) True w = (Inr True, w')"
  shows "bound_at env k (p, PStr (request_hash env r)) w'"
proof -
  have "idem_ok env w w'" using keeps_acquire [OF assms(1) in_progress_sound] assms(5) by (metis keepsD snd_conv)
  then have "all_sound env (gw_redis w')" using assms(2) by (simp add: idem_ok_def redis_ok_def)
  moreover have "gw_redis w' = put k (ge_dumps env (PDict (in_progress env r p))) (ic_ttl ic) (gw_redis (gw_tick env w))"
    using assms(5) by (cases "ge_redis env (gw_clock w)")
      (auto simp: save_idempotency_record_def gw_redis_call_def service_def redis_set_def put_def split: if_splits)
  moreover have "record_id (in_progress env r p) = p" "dget (in_progress env r p) ''request_hash'' = PStr (request_hash env r)"
    by (simp_all add: record_id_def in_progress_def dget_def assms(4))
  ultimately show ?thesis using binding_put [OF assms(1) in_progress_sound] assms(3) by (simp add: bound_at_def)
qed

lemma opt_text_back [simp]: "opt_text_of (opt_value v) = Inr v"
  by (cases v) (simp_all add: opt_value_def)

lemma mission_dump_back: "gw_mission_of (gw_mission_dump m) = Inr m"
  by (simp add: gw_mission_of_def gw_mission_dump_def dget_def dget_or_def)

lemma reconcile_spec:
  assumes "honest_gateway env" and "bound_at env k (mid, PStr h) w" and "py_strip mid = mid"
    and "reconcile_idempotent_mission env cfg ic k h mid w = (res, w')"
  shows "idem_ok env w w' \<and> (\<forall>m. res = Inr (Some m) \<longrightarrow> gm_mission_id m = mid)"
proof -
  let ?call = "\<lparr>uc_method = ''GET'', uc_path = mission_path mid [], uc_params = [], uc_body = None, uc_key = py_strip (gc_internal_key cfg)\<rparr>"
  obtain answer where answer: "snd (proxy_get_internal cfg (ge_upstream env (gw_clock w)) (mission_path mid []) []) = answer" by simp
  have tick: "idem_ok env w (gw_tick env w)" by (rule tick_ok [OF assms(1)])
  have id: "dget d ''mission_id'' = PStr mid" if doc: "answer = Inr (Doc (PDict d))" for d
  proof -
    obtain status where "ge_upstream env (gw_clock w) ?call = Answer status (Doc (PDict d))" "status < 400"
      using answer unfolding doc by (auto simp: proxy_get_internal_def require_internal_service_api_key_def Let_def
          split: if_splits reply.splits)
    then show ?thesis using assms(1) unfolding honest_gateway_def
      by (metis upstream_call.select_convs(1,2))
  qed
  show ?thesis
  proof (cases "\<exists>d m. answer = Inr (Doc (PDict d)) \<and> gw_mission_of d = Inr m")
    case False
    then have "w' = gw_tick env w \<and> (\<forall>m. res \<noteq> Inr (Some m))"
      using assms(4) by (auto simp: reconcile_idempotent_mission_def upstream_get_def bnd_def answer lift_res_def ret_def
          split: sum.splits body.splits pyval.splits prod.splits if_splits)
    then show ?thesis using tick by simp
  next
    case True
    then obtain d m where d: "answer = Inr (Doc (PDict d))" "gw_mission_of d = Inr m" by blast
    then have m: "gm_mission_id m = mid" using mission_of_id [OF d(2)] id by simp
    define n where "n = (if gm_project_id m \<in> {None, Some []}
                    then m\<lparr>gm_project_id := Some (gw_resolve_project_id (gm_metadata m) (gm_mission_id m))\<rparr> else m)"
    have n: "gm_mission_id n = mid" by (simp add: n_def m)
    let ?doc = "[(''status'', PStr ''completed''), (''request_hash'', PStr h), (''mission_id'', PStr mid), (''mission'', PDict (gw_mission_dump n))]"
    have run: "bnd (save_idempotency_record env ic k ?doc False) (\<lambda>_. ret (Some n)) (gw_tick env w) = (res, w')"
      using assms(4) by (simp add: reconcile_idempotent_mission_def upstream_get_def bnd_Inr answer d n_def Let_def cong: if_cong)
    have "sound_record ?doc"
      using n by (simp add: sound_record_def record_id_def dget_def assms(3) mission_dump_back)
    then have "keeps (bound_ok env k (mid, PStr h)) (save_idempotency_record env ic k ?doc False)"
      by (intro keeps_save_at [OF assms(1)]) (simp_all add: record_id_def dget_def assms(3))
    then have "keeps (bound_ok env k (mid, PStr h)) (bnd (save_idempotency_record env ic k ?doc False) (\<lambda>_. ret (Some n)))"
      by (intro at_key.keeps_bnd at_key.keeps_ret)
    then have "bound_ok env k (mid, PStr h) (gw_tick env w) w'" using run by (metis keepsD snd_conv)
    then have "idem_ok env (gw_tick env w) w'" using bound_at_kept [OF assms(2) tick] by (simp add: bound_ok_def)
    moreover have "\<forall>m. res = Inr (Some m) \<longrightarrow> gm_mission_id m = mid" using run n by (auto elim!: bnd_result)
    ultimately show ?thesis using tick idem_ok_trans by blast
  qed
qed

text \<open>Triples: from a world with \<open>P\<close> the call keeps the bindings, and its result and the world after it satisfy \<open>Q\<close>.\<close>

definition triple :: "gw_env \<Rightarrow> (gw_world \<Rightarrow> bool) \<Rightarrow> 'a gprog \<Rightarrow> ('a \<Rightarrow> gw_world \<Rightarrow> bool) \<Rightarrow> bool" where
  "triple env P m Q \<longleftrightarrow>
     (\<forall>w res w'. P w \<longrightarrow> m w = (res, w') \<longrightarrow> idem_ok env w w' \<and> (\<forall>x. res = Inr x \<longrightarrow> Q x w'))"

abbreviation sound_world :: "gw_env \<Rightarrow> gw_world \<Rightarrow> bool" where
  "sound_world env w \<equiv> all_sound env (gw_redis w)"

lemma tripleI:
  assumes "\<And>w res w'. P w \<Longrightarrow> m w = (res, w') \<Longrightarrow> idem_ok env w w'"
    and "\<And>w x w'. P w \<Longrightarrow> m w = (Inr x, w') \<Longrightarrow> Q x w'"
  shows "triple env P m Q"
  using assms unfolding triple_def by blast

lemma triple_bnd:
  assumes m: "triple env P m Q" and f: "\<And>x. triple env (Q x) (f x) S"
  shows "triple env P (bnd m f) S"
  unfolding triple_def
proof (intro allI impI)
  fix w res w'
  assume p: "P w" and run: "bnd m f w = (res, w')"
  obtain a w1 where a: "m w = (a, w1)" by fastforce
  then have kept: "idem_ok env w w1" and q: "\<And>x. a = Inr x \<Longrightarrow> Q x w1" using m p unfolding triple_def by blast+
  show "idem_ok env w w' \<and> (\<forall>x. res = Inr x \<longrightarrow> S x w')"
  proof (cases a)
    case (Inl e)
    then show ?thesis using run a kept by (auto simp: bnd_def)
  next
    case (Inr x)
    then have "f x w1 = (res, w')" using run a by (simp add: bnd_def)
    then have "idem_ok env w1 w' \<and> (\<forall>x. res = Inr x \<longrightarrow> S x w')" using f q [OF Inr] unfolding triple_def by blast
    then show ?thesis using idem_ok_trans [OF kept] by blast
  qed
qed

lemma triple_ret: "(\<And>w. P w \<Longrightarrow> Q x w) \<Longrightarrow> triple env P (ret x) Q"
  by (simp add: triple_def idem_ok_refl)

lemma triple_raise: "triple env P (lift_res (Inl e)) Q"
  by (simp add: triple_def idem_ok_refl)

lemma triple_lift: "triple env P (lift_res r) (\<lambda>x w. P w \<and> r = Inr x)"
  by (simp add: triple_def idem_ok_refl)

lemma triple_pre: "triple env P m Q \<Longrightarrow> (\<And>w. P' w \<Longrightarrow> P w) \<Longrightarrow> triple env P' m Q"
  unfolding triple_def by blast

lemma triple_fact: "(b \<Longrightarrow> triple env P m Q) \<Longrightarrow> triple env (\<lambda>w. P w \<and> b) m Q"
  unfolding triple_def by blast

lemma triple_keeps:
  assumes "keeps (idem_ok env) m" and "\<And>w w'. P w \<Longrightarrow> idem_ok env w w' \<Longrightarrow> P w'"
  shows "triple env P m (\<lambda>_. P)"
  unfolding triple_def using assms by (metis keepsD snd_conv)

lemma sound_kept: "sound_world env w \<Longrightarrow> idem_ok env w w' \<Longrightarrow> sound_world env w'"
  by (simp add: idem_ok_def redis_ok_def)

lemma bound_sound: "bound_at env k b w \<Longrightarrow> sound_world env w"
  by (simp add: bound_at_def)

text \<open>What the idempotency step hands on: the mission to answer with, or the id to go on with.\<close>

definition key_settled :: "gw_env \<Rightarrow> string \<Rightarrow> mission_request \<Rightarrow> string option \<times> gw_mission option \<Rightarrow> gw_world \<Rightarrow> bool" where
  "key_settled env k r x w \<longleftrightarrow>
     (case x of
        (_, Some m) \<Rightarrow> bound_at env k (gm_mission_id m, PStr (request_hash env r)) w
      | (Some mid, None) \<Rightarrow> bound_at env k (mid, PStr (request_hash env r)) w \<and> py_strip mid = mid
      | (None, None) \<Rightarrow> False)"

lemma triple_reconcile:
  assumes "honest_gateway env" and "py_strip mid = mid"
  shows "triple env (bound_at env k (mid, PStr h)) (reconcile_idempotent_mission env cfg ic k h mid)
    (\<lambda>found w. bound_at env k (mid, PStr h) w \<and> (\<forall>m. found = Some m \<longrightarrow> gm_mission_id m = mid))"
  using reconcile_spec [OF assms(1) _ assms(2)] bound_at_kept by (intro tripleI) (blast, metis)

lemma triple_resume:
  assumes "honest_gateway env" and "sound_record d"
  shows "triple env (bound_at env k (record_id d, dget d ''request_hash'')) (resume_record env cfg ic k r d) (key_settled env k r)"
proof (cases "dget d ''request_hash'' = PStr (request_hash env r)")
  case True
  have strip: "py_strip (record_id d) = record_id d" by (simp add: record_id_def)
  have unknown: "triple env (bound_at env k (record_id d, PStr (request_hash env r)))
      (bnd (reconcile_idempotent_mission env cfg ic k (request_hash env r) (record_id d)) (\<lambda>reconciled.
              ret (case reconciled of Some m \<Rightarrow> (None, Some m) | None \<Rightarrow> (Some (record_id d), None)))) (key_settled env k r)"
    by (rule triple_bnd [OF triple_reconcile [OF assms(1) strip]], rule triple_ret)
      (auto simp: key_settled_def strip split: option.splits)
  have completed: "triple env (bound_at env k (record_id d, PStr (request_hash env r)))
      (bnd (lift_res (gw_mission_of doc)) (\<lambda>m. ret (None, Some m))) (key_settled env k r)"
    if "dget d ''mission'' = PDict doc" for doc
    using assms(2) that by (intro triple_bnd [OF triple_lift] triple_ret) (auto simp: key_settled_def sound_record_def)
  show ?thesis
    unfolding resume_record_def Let_def True record_id_def [symmetric]
    using unknown completed triple_raise by (auto split: prod.splits bool.splits pyval.splits)
qed (simp add: resume_record_def Let_def triple_raise del: bnd_lift)

lemma triple_acquire:
  assumes "honest_gateway env" and "idem_key k" and "py_strip p = p"
  shows "triple env (sound_world env) (save_idempotency_record env ic k (in_progress env r p) True)
    (\<lambda>acquired w. sound_world env w \<and> (acquired \<longrightarrow> key_settled env k r (Some p, None) w))"
proof (rule tripleI)
  show kept: "idem_ok env w w'" if "save_idempotency_record env ic k (in_progress env r p) True w = (res, w')" for w res w'
    using keeps_acquire [OF assms(1) in_progress_sound] that by (metis keepsD snd_conv)
  show "sound_world env w' \<and> (x \<longrightarrow> key_settled env k r (Some p, None) w')"
    if "sound_world env w" "save_idempotency_record env ic k (in_progress env r p) True w = (Inr x, w')" for w x w'
    using that kept [OF that(2)] sound_kept acquire_result [OF assms(1) that(1) assms(2,3)] assms(3)
    by (cases x) (auto simp: key_settled_def)
qed

lemma triple_load:
  assumes "honest_gateway env" and "idem_key k"
  shows "triple env (sound_world env) (load_idempotency_record env k)
    (\<lambda>existing w. sound_world env w \<and>
       (\<forall>d. existing = Some d \<longrightarrow> bound_at env k (record_id d, dget d ''request_hash'') w \<and> sound_record d))"
proof (rule tripleI)
  show kept: "idem_ok env w w'" if "load_idempotency_record env k w = (res, w')" for w res w'
    using keeps_load [OF assms(1)] that by (metis keepsD snd_conv)
  show "sound_world env w' \<and>
       (\<forall>d. x = Some d \<longrightarrow> bound_at env k (record_id d, dget d ''request_hash'') w' \<and> sound_record d)"
    if "sound_world env w" "load_idempotency_record env k w = (Inr x, w')" for w x w'
    using that kept [OF that(2)] sound_kept load_result [OF assms(1) that(1) assms(2)] by blast
qed

lemma triple_handle:
  assumes "honest_gateway env" and "py_strip p = p"
  shows "triple env (sound_world env) (handle_mission_idempotency env cfg ic key r p)
    (key_settled env (idempotency_redis_key env (py_strip key)) r)"
proof -
  let ?k = "idempotency_redis_key env (py_strip key)"
  have k: "idem_key ?k" by (simp add: idempotency_redis_key_def idem_key_def starts_with_def)
  note acquire = triple_acquire [OF assms(1) k assms(2), of ic r]
  have again: "triple env (sound_world env)
      (bnd (save_idempotency_record env ic ?k (in_progress env r p) True)
         (\<lambda>acquired. if acquired then ret (Some p, None) else lift_res (Inl (HTTPException 409)))) (key_settled env ?k r)"
  proof (rule triple_bnd [OF acquire])
    show "triple env (\<lambda>w. sound_world env w \<and> (acquired \<longrightarrow> key_settled env ?k r (Some p, None) w))
        (if acquired then ret (Some p, None) else lift_res (Inl (HTTPException 409))) (key_settled env ?k r)" for acquired
      by (cases acquired) (auto intro: triple_ret triple_raise)
  qed
  have loaded: "triple env (\<lambda>w. sound_world env w \<and>
         (\<forall>d. existing = Some d \<longrightarrow> bound_at env ?k (record_id d, dget d ''request_hash'') w \<and> sound_record d))
      (case existing of
         None \<Rightarrow> bnd (save_idempotency_record env ic ?k (in_progress env r p) True)
           (\<lambda>acquired. if acquired then ret (Some p, None) else lift_res (Inl (HTTPException 409)))
       | Some d \<Rightarrow> resume_record env cfg ic ?k r d) (key_settled env ?k r)" for existing
  proof (cases existing)
    case None
    then show ?thesis using triple_pre [OF again] by simp
  next
    case (Some d)
    have "triple env (\<lambda>w. bound_at env ?k (record_id d, dget d ''request_hash'') w \<and> sound_record d)
        (resume_record env cfg ic ?k r d) (key_settled env ?k r)"
      by (intro triple_fact triple_resume assms(1))
    then show ?thesis unfolding Some by (auto elim: triple_pre)
  qed
  have rest: "triple env (\<lambda>w. sound_world env w \<and> (acquired \<longrightarrow> key_settled env ?k r (Some p, None) w))
      (if acquired then ret (Some p, None) else bnd (load_idempotency_record env ?k) (\<lambda>existing. case existing of
         None \<Rightarrow> bnd (save_idempotency_record env ic ?k (in_progress env r p) True)
           (\<lambda>acquired. if acquired then ret (Some p, None) else lift_res (Inl (HTTPException 409)))
       | Some d \<Rightarrow> resume_record env cfg ic ?k r d)) (key_settled env ?k r)" for acquired
    by (cases acquired) (auto intro: triple_ret intro!: triple_pre [OF triple_bnd [OF triple_load [OF assms(1) k] loaded]])
  show ?thesis
    unfolding handle_mission_idempotency_def Let_def
    using triple_bnd [OF acquire rest] triple_raise by auto
qed

lemma triple_launch:
  assumes "honest_gateway env" and "py_strip mid = mid"
  shows "triple env (bound_at env k (mid, PStr (request_hash env r))) (launch_mission env cfg ic (Some k) mid r secrets)
    (\<lambda>m. bound_at env k (gm_mission_id m, PStr (request_hash env r)))"
proof (rule tripleI)
  show kept: "idem_ok env w w'"
    if "bound_at env k (mid, PStr (request_hash env r)) w" "launch_mission env cfg ic (Some k) mid r secrets w = (res, w')" for w res w'
    using launch_at_key [OF assms] that by (metis bound_ok_def keepsD snd_conv)
  show "bound_at env k (gm_mission_id m, PStr (request_hash env r)) w'"
    if "bound_at env k (mid, PStr (request_hash env r)) w" "launch_mission env cfg ic (Some k) mid r secrets w = (Inr m, w')" for w m w'
    using bound_at_kept [OF that(1) kept [OF that]] launch_result [OF that(2)] by simp
qed

lemma triple_with_key:
  assumes "honest_gateway env" and "py_strip p = p"
  shows "triple env (sound_world env) (create_with_key env cfg ic key p r secrets)
    (\<lambda>m. bound_at env (idempotency_redis_key env (py_strip key)) (gm_mission_id m, PStr (request_hash env r)))"
  unfolding create_with_key_def
proof (rule triple_bnd [OF triple_handle [OF assms]])
  let ?k = "idempotency_redis_key env (py_strip key)"
  show "triple env (key_settled env ?k r x) (case x of (mid, existing) \<Rightarrow> case (mid, existing) of
         (_, Some m) \<Rightarrow> bnd (gw_store_vault env (gm_mission_id m) secrets) (\<lambda>_. ret m)
       | (Some mid, None) \<Rightarrow> launch_mission env cfg ic (Some ?k) mid r secrets
       | (None, None) \<Rightarrow> lift_res (Inl TypeError)) (\<lambda>m. bound_at env ?k (gm_mission_id m, PStr (request_hash env r)))" for x
  proof -
    obtain mid existing where x: "x = (mid, existing)" by fastforce
    consider (answer) m where "existing = Some m" | (launch) i where "mid = Some i" "existing = None" | (none) "mid = None" "existing = None"
      by (cases existing; cases mid) auto
    then show ?thesis
    proof cases
      case (answer m)
      have "triple env (bound_at env ?k (gm_mission_id m, PStr (request_hash env r)))
          (bnd (gw_store_vault env (gm_mission_id m) secrets) (\<lambda>_. ret m)) (\<lambda>m. bound_at env ?k (gm_mission_id m, PStr (request_hash env r)))"
        by (rule triple_bnd [OF triple_keeps [OF keeps_gw_vault [OF assms(1)] bound_at_kept] triple_ret])
      then have "triple env (key_settled env ?k r (mid, Some m)) (bnd (gw_store_vault env (gm_mission_id m) secrets) (\<lambda>_. ret m))
          (\<lambda>m. bound_at env ?k (gm_mission_id m, PStr (request_hash env r)))"
        by (rule triple_pre) (simp add: key_settled_def split: option.splits)
      then show ?thesis by (cases mid) (simp_all add: x answer)
    next
      case (launch i)
      have "triple env (\<lambda>w. bound_at env ?k (i, PStr (request_hash env r)) w \<and> py_strip i = i)
          (launch_mission env cfg ic (Some ?k) i r secrets) (\<lambda>m. bound_at env ?k (gm_mission_id m, PStr (request_hash env r)))"
        by (intro triple_fact triple_launch assms(1))
      then have "triple env (key_settled env ?k r (Some i, None)) (launch_mission env cfg ic (Some ?k) i r secrets)
          (\<lambda>m. bound_at env ?k (gm_mission_id m, PStr (request_hash env r)))"
        by (rule triple_pre) (simp add: key_settled_def)
      then show ?thesis by (simp add: x launch)
    qed (simp add: x triple_raise)
  qed
qed

lemma provisional_id:
  assumes "honest_gateway env"
  shows "py_strip (''mission-'' @ ge_uuid env t) = ''mission-'' @ ge_uuid env t"
proof -
  let ?s = "''mission-'' @ ge_uuid env t"
  have "list_all (\<lambda>c. \<not> is_space c) ''mission-''" by code_simp
  then have "\<not> is_space c" if "c \<in> set ?s" for c
    using that assms by (auto simp: honest_gateway_def list_all_iff)
  then show ?thesis unfolding py_strip_def by (intro strip_by_id) (metis append_is_Nil_conv hd_in_set last_in_set list.distinct(1))
qed

text \<open>A creation keeps the bindings, and a mission answered under a key is the one the key is bound to.\<close>

definition keyed_answer :: "gw_env \<Rightarrow> string option \<Rightarrow> gw_mission \<Rightarrow> gw_world \<Rightarrow> bool" where
  "keyed_answer env key m w \<longleftrightarrow>
     (case truthy_text key of None \<Rightarrow> True
      | Some s \<Rightarrow> \<exists>h. bound_at env (idempotency_redis_key env (py_strip s)) (gm_mission_id m, h) w)"

lemma triple_prepared:
  assumes "honest_gateway env"
  shows "triple env (sound_world env) (create_prepared env cfg ic key r) (keyed_answer env key)"
proof -
  have "triple env (sound_world env)
      (bnd (lift_res (prepare_request ic r)) (\<lambda>(r, secrets). case truthy_text key of
         None \<Rightarrow> launch_mission env cfg ic None p r secrets
       | Some s \<Rightarrow> create_with_key env cfg ic s p r secrets)) (keyed_answer env key)" if p: "py_strip p = p" for p
  proof (rule triple_bnd [OF triple_lift])
    show "triple env (\<lambda>w. sound_world env w \<and> prepare_request ic r = Inr x)
        (case x of (r, secrets) \<Rightarrow> case truthy_text key of
           None \<Rightarrow> launch_mission env cfg ic None p r secrets
         | Some s \<Rightarrow> create_with_key env cfg ic s p r secrets) (keyed_answer env key)" for x
    proof (cases "truthy_text key")
      case None
      have "triple env (sound_world env) (launch_mission env cfg ic None p (fst x) (snd x)) (keyed_answer env key)"
        using launch_no_key [OF assms] None by (intro tripleI) (metis keepsD snd_conv, simp add: keyed_answer_def)
      then show ?thesis by (auto simp: None split: prod.splits elim: triple_pre)
    next
      case (Some s)
      have "triple env (sound_world env) (create_with_key env cfg ic s p (fst x) (snd x)) (keyed_answer env key)"
        using triple_with_key [OF assms p] unfolding triple_def keyed_answer_def Some by fastforce
      then show ?thesis by (auto simp: Some split: prod.splits elim: triple_pre)
    qed
  qed
  from this [OF provisional_id [OF assms]] show ?thesis
    unfolding triple_def create_prepared_def Let_def by blast
qed

lemma triple_create:
  assumes "honest_gateway env"
  shows "triple env (sound_world env) (create_mission env cfg ic jwt x_api_key authorization key r) (keyed_answer env key)"
proof -
  have "keeps (idem_ok env) (redis_ping env)"
    using redis_call_ok [OF assms, of "ret ()"] by (auto simp: keeps_def redis_ping_def split: prod.splits sum.splits) (metis snd_conv)+
  then have "triple env (sound_world env) (bnd (redis_ping env) (\<lambda>_. create_prepared env cfg ic key r)) (keyed_answer env key)"
    by (intro triple_bnd [OF triple_keeps [OF _ sound_kept] triple_prepared [OF assms]])
  then show ?thesis
    unfolding create_mission_def by (auto simp: triple_raise split: sum.splits)
qed

lemma create_all_spec:
  assumes "honest_gateway env" and "sound_world env w" and "create_all env cfg ic jwt cs w = (answers, w')"
  shows "idem_ok env w w' \<and> (\<forall>(key, res) \<in> set answers. \<forall>m. res = Inr m \<longrightarrow> keyed_answer env key m w')"
  using assms(2,3)
proof (induction cs arbitrary: w answers)
  case (Cons c cs)
  obtain res w1 where one: "create_mission env cfg ic jwt (cn_api_key c) (cn_authorization c) (cn_idempotency_key c) (cn_request c) w = (res, w1)"
    by fastforce
  obtain rest where rest: "create_all env cfg ic jwt cs w1 = (rest, w')" "answers = (cn_idempotency_key c, res) # rest"
    using Cons.prems(2) one by (auto split: prod.splits)
  have kept: "idem_ok env w w1" and answer: "\<And>m. res = Inr m \<Longrightarrow> keyed_answer env (cn_idempotency_key c) m w1"
    using triple_create [OF assms(1)] Cons.prems(1) one unfolding triple_def by blast+
  note later = Cons.IH [OF sound_kept [OF Cons.prems(1) kept] rest(1)]
  have "keyed_answer env key m w'" if "keyed_answer env key m w1" for key m
    using that bound_at_kept later by (auto simp: keyed_answer_def split: option.splits) blast
  then show ?case using idem_ok_trans [OF kept] later answer rest(2) by auto
qed (simp add: idem_ok_refl)

section \<open>Properties\<close>

text \<open>C9. However many requests carry an idempotency key, through whichever gateways, with whatever outages, lost answers and
  retries: while the key lives, all posts to the orchestrator under it are for one mission, and every answer under it is that mission.\<close>

theorem one_mission_per_key:
  assumes "honest_gateway env" and "all_sound env (gw_redis w)" and "gw_posts w = []"
    and "create_all env cfg ic jwt cs w = (answers, w')"
    and "truthy_text key = Some s" and "(Some (idempotency_redis_key env (py_strip s)), mid, body) \<in> set (gw_posts w')"
  shows "((Some (idempotency_redis_key env (py_strip s)), mid', body') \<in> set (gw_posts w') \<longrightarrow> mid' = mid)
    \<and> ((key, Inr m) \<in> set answers \<longrightarrow> gm_mission_id m = mid)"
proof -
  note spec = create_all_spec [OF assms(1,2,4)]
  then have posts: "\<forall>p \<in> set (gw_posts w'). post_ok env (gw_redis w') p"
    using assms(2,3) by (auto simp: idem_ok_def)
  let ?k = "idempotency_redis_key env (py_strip s)"
  obtain h where h: "binding env (gw_redis w') ?k = Some (mid, h)"
    using posts assms(6) by (fastforce simp: post_ok_def)
  have "mid' = mid" if "(Some ?k, mid', body') \<in> set (gw_posts w')"
    using posts that h by (fastforce simp: post_ok_def)
  moreover have "gm_mission_id m = mid" if "(key, Inr m) \<in> set answers"
    using spec that h assms(5) by (fastforce simp: keyed_answer_def bound_at_def)
  ultimately show ?thesis by blast
qed

section \<open>A key is for one request\<close>

text \<open>A call that can only fail and posts nothing, from every world with \<open>P\<close>.\<close>

definition refuses :: "(gw_world \<Rightarrow> bool) \<Rightarrow> 'a gprog \<Rightarrow> bool" where
  "refuses P m \<longleftrightarrow> (\<forall>w res w'. P w \<longrightarrow> m w = (res, w') \<longrightarrow> (\<exists>e. res = Inl e) \<and> gw_posts w' = gw_posts w)"

lemma redis_call_posts: "gw_posts (snd (gw_redis_call env m w)) = gw_posts w"
  by (auto simp: gw_redis_call_def gw_tick_def split: prod.splits)

lemma load_posts: "gw_posts (snd (load_idempotency_record env k w)) = gw_posts w"
  using redis_call_posts [of env "redis_get k" w] by (auto simp: load_idempotency_record_def bnd_def split: prod.splits sum.splits)

lemma refuses_bnd:
  assumes "triple env P m Q" and "\<And>w. gw_posts (snd (m w)) = gw_posts w" and "\<And>x. refuses (Q x) (f x)"
  shows "refuses P (bnd m f)"
  unfolding refuses_def
proof (intro allI impI)
  fix w res w'
  assume p: "P w" and run: "bnd m f w = (res, w')"
  obtain a w1 where a: "m w = (a, w1)" by fastforce
  have same: "gw_posts w1 = gw_posts w" using assms(2) [of w] a by simp
  show "(\<exists>e. res = Inl e) \<and> gw_posts w' = gw_posts w"
  proof (cases a)
    case (Inl e)
    then show ?thesis using run a same by (auto simp: bnd_def)
  next
    case (Inr x)
    then have "Q x w1" and "f x w1 = (res, w')" using assms(1) p a run by (auto simp: triple_def bnd_def)
    then show ?thesis using assms(3) same unfolding refuses_def by metis
  qed
qed

lemma refuses_never: "(\<And>w. \<not> P w) \<Longrightarrow> refuses P m"
  by (simp add: refuses_def)

lemma refuses_raise: "refuses P (lift_res (Inl e))"
  by (simp add: refuses_def)

lemma acquire_bound:
  assumes "honest_gateway env"
  shows "triple env (bound_at env k b) (save_idempotency_record env ic k (in_progress env r p) True)
    (\<lambda>acquired w. bound_at env k b w \<and> \<not> acquired)"
proof (rule tripleI)
  show kept: "idem_ok env w w'" if "save_idempotency_record env ic k (in_progress env r p) True w = (res, w')" for w res w'
    using keeps_acquire [OF assms in_progress_sound] that by (metis keepsD snd_conv)
  show "bound_at env k b w' \<and> \<not> x"
    if at: "bound_at env k b w" and run: "save_idempotency_record env ic k (in_progress env r p) True w = (Inr x, w')" for w x w'
  proof -
    have "binding env (gw_redis (gw_tick env w)) k = Some b"
      using bound_at_kept [OF at tick_ok [OF assms]] by (simp add: bound_at_def)
    then have "dhas (kv (gw_redis (gw_tick env w))) k" by (auto simp: binding_def dhas_def truthy_text_def split: option.splits)
    then have "\<not> x" using run by (cases "ge_redis env (gw_clock w)")
      (auto simp: save_idempotency_record_def gw_redis_call_def service_def redis_set_def split: prod.splits)
    then show ?thesis using bound_at_kept [OF at kept [OF run]] by simp
  qed
qed

lemma load_bound:
  assumes "honest_gateway env"
  shows "triple env (bound_at env k b) (load_idempotency_record env k)
    (\<lambda>existing w. \<exists>d. existing = Some d \<and> dget d ''request_hash'' = snd b)"
proof (rule tripleI)
  show "idem_ok env w w'" if "load_idempotency_record env k w = (res, w')" for w res w'
    using keeps_load [OF assms] that by (metis keepsD snd_conv)
  show "\<exists>d. x = Some d \<and> dget d ''request_hash'' = snd b"
    if at: "bound_at env k b w" and run: "load_idempotency_record env k w = (Inr x, w')" for w x w'
  proof -
    have "binding env (gw_redis (gw_tick env w)) k = Some b"
      using bound_at_kept [OF at tick_ok [OF assms]] by (simp add: bound_at_def)
    then show ?thesis using run by (cases "ge_redis env (gw_clock w)")
      (auto simp: load_idempotency_record_def bnd_def gw_redis_call_def service_def redis_get_def binding_def
        split: option.splits pyval.splits if_splits)
  qed
qed

lemma resume_refuses:
  "dget d ''request_hash'' \<noteq> PStr (request_hash env r) \<Longrightarrow> refuses P (resume_record env cfg ic k r d)"
  by (simp add: resume_record_def Let_def refuses_raise)

lemma handle_refuses:
  assumes "honest_gateway env" and "h \<noteq> PStr (request_hash env r)"
  shows "refuses (bound_at env (idempotency_redis_key env (py_strip key)) (mid, h)) (handle_mission_idempotency env cfg ic key r p)"
proof -
  let ?k = "idempotency_redis_key env (py_strip key)"
  have resumed: "refuses (\<lambda>w. \<exists>d. existing = Some d \<and> dget d ''request_hash'' = snd (mid, h))
      (case existing of None \<Rightarrow> m | Some d \<Rightarrow> resume_record env cfg ic ?k r d)" for existing m
    using assms(2) resume_refuses by (cases existing) (auto simp: refuses_def)
  have "refuses (bound_at env ?k (mid, h)) (bnd (save_idempotency_record env ic ?k (in_progress env r p) True) (\<lambda>acquired.
      if acquired then ret (Some p, None)
      else bnd (load_idempotency_record env ?k) (\<lambda>existing. case existing of
         None \<Rightarrow> bnd (save_idempotency_record env ic ?k (in_progress env r p) True)
           (\<lambda>acquired. if acquired then ret (Some p, None) else lift_res (Inl (HTTPException 409)))
       | Some d \<Rightarrow> resume_record env cfg ic ?k r d)))"
  proof (rule refuses_bnd [OF acquire_bound [OF assms(1)]])
    show "refuses (\<lambda>w. bound_at env ?k (mid, h) w \<and> \<not> acquired)
      (if acquired then ret (Some p, None) else bnd (load_idempotency_record env ?k) (\<lambda>existing. case existing of
         None \<Rightarrow> bnd (save_idempotency_record env ic ?k (in_progress env r p) True)
           (\<lambda>acquired. if acquired then ret (Some p, None) else lift_res (Inl (HTTPException 409)))
       | Some d \<Rightarrow> resume_record env cfg ic ?k r d))" for acquired
      by (cases acquired) (auto intro: refuses_never intro!: refuses_bnd [OF load_bound [OF assms(1)] load_posts resumed])
  qed (simp add: save_idempotency_record_def redis_call_posts)
  then show ?thesis
    unfolding handle_mission_idempotency_def Let_def by (simp add: refuses_raise)
qed

text \<open>C10. A key that is bound to one request refuses every other: the creation fails and nothing is posted. The hash is taken over
  the request without its credentials.\<close>

theorem key_reuse_refused:
  assumes "honest_gateway env" and "truthy_text key = Some s"
    and "bound_at env (idempotency_redis_key env (py_strip s)) (mid, h) w"
    and "\<And>r' secrets. prepare_request ic r = Inr (r', secrets) \<Longrightarrow> h \<noteq> PStr (request_hash env r')"
    and "create_mission env cfg ic jwt x_api_key authorization key r w = (res, w')"
  shows "(\<exists>e. res = Inl e) \<and> gw_posts w' = gw_posts w"
proof -
  let ?k = "idempotency_redis_key env (py_strip s)"
  have keyed: "refuses (bound_at env ?k (mid, h)) (create_with_key env cfg ic s p r' secrets)"
    if "prepare_request ic r = Inr (r', secrets)" for p r' secrets
    using handle_refuses [OF assms(1) assms(4) [OF that], of s mid cfg ic p]
    unfolding create_with_key_def refuses_def by (fastforce simp: bnd_def split: prod.splits sum.splits)
  have prepared: "refuses (bound_at env ?k (mid, h)) (create_prepared env cfg ic key r)"
    using keyed by (cases "prepare_request ic r") (auto simp: refuses_def create_prepared_def Let_def assms(2) split: prod.splits)
  have "keeps (idem_ok env) (redis_ping env)"
    using redis_call_ok [OF assms(1), of "ret ()"] by (auto simp: keeps_def redis_ping_def split: prod.splits sum.splits) (metis snd_conv)+
  moreover have "gw_posts (snd (redis_ping env w)) = gw_posts w" for w
    using redis_call_posts [of env "ret ()" w] by (auto simp: redis_ping_def split: prod.splits sum.splits)
  ultimately have "refuses (bound_at env ?k (mid, h)) (bnd (redis_ping env) (\<lambda>_. create_prepared env cfg ic key r))"
    using prepared bound_at_kept by (intro refuses_bnd [OF triple_keeps])
  then show ?thesis
    using assms(3,5) unfolding refuses_def create_mission_def by (auto split: if_splits sum.splits)
qed

section \<open>Credentials stay\<close>

definition vaultless :: "pyval \<Rightarrow> bool" where
  "vaultless doc \<longleftrightarrow> \<not> dhas (dict_or_empty (dget (dict_or_empty doc) ''metadata'')) ''vault''"

text \<open>What is posted and what is put on the stream from one world to the next holds no credentials.\<close>

definition sealed :: "gw_world \<Rightarrow> gw_world \<Rightarrow> bool" where
  "sealed w w' \<longleftrightarrow>
     (\<exists>posts entries. gw_posts w' = gw_posts w @ posts \<and> gw_stream w' = gw_stream w @ entries
        \<and> (\<forall>(_, _, json) \<in> set posts. vaultless (PDict json)) \<and> (\<forall>(_, payload) \<in> set entries. vaultless (PDict payload)))"

lemma sealed_same: "gw_posts w' = gw_posts w \<Longrightarrow> gw_stream w' = gw_stream w \<Longrightarrow> sealed w w'"
  by (simp add: sealed_def)

interpretation seal: preorder_rel sealed
proof unfold_locales
  show "sealed w w" for w by (simp add: sealed_same)
  show "sealed u w" if uv: "sealed u v" and vw: "sealed v w" for u v w
  proof -
    obtain p1 e1 where 1: "gw_posts v = gw_posts u @ p1" "gw_stream v = gw_stream u @ e1"
      "\<forall>(_, _, json) \<in> set p1. vaultless (PDict json)" "\<forall>(_, payload) \<in> set e1. vaultless (PDict payload)"
      using uv unfolding sealed_def by blast
    obtain p2 e2 where 2: "gw_posts w = gw_posts v @ p2" "gw_stream w = gw_stream v @ e2"
      "\<forall>(_, _, json) \<in> set p2. vaultless (PDict json)" "\<forall>(_, payload) \<in> set e2. vaultless (PDict payload)"
      using vw unfolding sealed_def by blast
    from 1 2 show ?thesis unfolding sealed_def by (intro exI [of _ "p1 @ p2"] exI [of _ "e1 @ e2"]) auto
  qed
qed

lemma seal_redis [keeps_intros]: "keeps sealed (gw_redis_call env m)"
  unfolding keeps_def by (auto simp: gw_redis_call_def gw_tick_def split: prod.splits intro: sealed_same)

lemma seal_load [keeps_intros]: "keeps sealed (load_idempotency_record env k)"
  unfolding load_idempotency_record_def by (intro keeps_intros)

lemma seal_save [keeps_intros]: "keeps sealed (save_idempotency_record env ic k d nx)"
  unfolding save_idempotency_record_def by (intro keeps_intros)

lemma seal_vault [keeps_intros]: "keeps sealed (gw_store_vault env mid vault)"
  unfolding gw_store_vault_def by (intro keeps_intros)

lemma seal_get [keeps_intros]: "keeps sealed (upstream_get env cfg path)"
  unfolding keeps_def by (auto simp: upstream_get_def gw_tick_def intro: sealed_same)

lemma seal_reconcile [keeps_intros]: "keeps sealed (reconcile_idempotent_mission env cfg ic k h mid)"
  unfolding reconcile_idempotent_mission_def Let_def
  by (rule seal.keeps_bnd [OF seal_get]) (auto split: sum.splits body.splits pyval.splits prod.splits intro!: keeps_intros)

lemma seal_resume [keeps_intros]: "keeps sealed (resume_record env cfg ic k r d)"
  unfolding resume_record_def Let_def
  by (auto split: bool.splits pyval.splits prod.splits simp del: bnd_lift intro!: keeps_intros)

lemma seal_handle [keeps_intros]: "keeps sealed (handle_mission_idempotency env cfg ic key r p)"
  unfolding handle_mission_idempotency_def Let_def by (intro keeps_intros)

lemma seal_attempts:
  assumes "vaultless (PDict json)"
  shows "keeps sealed (persist_attempts env cfg tag mid json n)"
proof -
  have "sealed w (snd (persist_attempts env cfg tag mid json n w))" for w
  proof (induction n arbitrary: w)
    case (Suc n)
    obtain calls answer where p: "proxy_post_internal cfg (ge_upstream env (gw_clock w)) ''/missions'' [] (Some json) = (calls, answer)"
      by fastforce
    let ?w = "(gw_tick env w)\<lparr>gw_posts := gw_posts w @ map (\<lambda>_. (tag, mid, json)) calls\<rparr>"
    have "sealed w ?w" using assms by (auto simp: sealed_def gw_tick_def)
    with seal.R_trans [OF this Suc.IH] show ?case by (simp add: p Let_def)
  qed (simp add: sealed_same)
  then show ?thesis by (simp add: keeps_def)
qed

lemma seal_telemetry [keeps_intros]: "keeps sealed (emit_intake_telemetry env mid payload)"
proof -
  let ?p = "case dget payload ''metadata'' of PDict md \<Rightarrow> dset ''metadata'' (PDict (strip_vault md)) payload | _ \<Rightarrow> payload"
  have clean: "vaultless (PDict ?p)"
    by (cases "dget payload ''metadata''") (auto simp: vaultless_def strip_vault_eq VAULT_METADATA_KEY_def, simp_all add: dhas_def)
  then have "sealed w (snd (service c (\<lambda>w. (Inr (), w\<lparr>gw_stream := gw_stream w @ [(envelope, ?p)]\<rparr>)) (gw_tick env w)))" for c envelope w
    by (cases c) (auto simp: service_def sealed_def gw_tick_def)
  then show ?thesis
    unfolding emit_intake_telemetry_def Let_def
    by (intro seal.keeps_attempt) (auto simp: keeps_def sealed_same split: sum.splits)
qed

lemma seal_outcome [keeps_intros]: "keeps sealed (save_outcome env ic key d)"
  unfolding save_outcome_def by (intro keeps_intros)

interpretation seal_launch: launch_rel "under (\<not> dhas (mr_metadata r) ''vault'') sealed" env cfg ic key mid r for env cfg ic key mid r
proof unfold_locales
  let ?R = "under (\<not> dhas (mr_metadata r) ''vault'') sealed"
  show "?R w w" for w by (simp add: under_def sealed_same)
  show "?R u w" if "?R u v" "?R v w" for u v w using that seal.R_trans unfolding under_def by blast
  show "keeps ?R (gw_store_vault env mid vault)" for vault by (simp add: seal_vault)
  show "keeps ?R (emit_intake_telemetry env mid payload)" for payload by (simp add: seal_telemetry)
  show "keeps ?R (persist_attempts env cfg key mid (persist_body mid r (initial_metadata t (mr_metadata r)) t) n)" for t n
    using seal_attempts by (auto simp: vaultless_def persist_body_def dget_def [of "_ # _"] initial_metadata_def split: pyval.splits)
  show "keeps ?R (save_outcome env ic key (outcome_record env r mid status extra))" for extra status by (simp add: seal_outcome)
qed

lemma classified_vault: "apply_mission_classification r md = Inr md' \<Longrightarrow> dhas md' ''vault'' \<longleftrightarrow> dhas md ''vault''"
  by (auto simp: apply_mission_classification_def split: sum.splits exc.splits)

lemma prompt_scan_vault: "stamp_prompt_scan ic r = Inr r' \<Longrightarrow> dhas (mr_metadata r') ''vault'' \<longleftrightarrow> dhas (mr_metadata r) ''vault''"
  by (auto simp: stamp_prompt_scan_def Let_def split: if_splits)

lemma sensitive_scan_vault: "dhas (mr_metadata (stamp_sensitive_scan r)) ''vault'' \<longleftrightarrow> dhas (mr_metadata r) ''vault''"
  by (simp add: stamp_sensitive_scan_def Let_def setdefault_def)

lemma prepared_vaultless:
  assumes "prepare_request ic r = Inr (r', secrets)"
  shows "\<not> dhas (mr_metadata r') ''vault''"
proof -
  obtain md clean md2 r2 where md: "normalize_mission_metadata ic (mr_language r) (mr_metadata r) = Inr md"
    and clean: "clean = (case truthy_text (mr_source_code r) of None \<Rightarrow> fst (split_vault (PDict md))
        | Some s \<Rightarrow> dset ''source_code'' (PStr s) (fst (split_vault (PDict md))))"
    and md2: "apply_mission_classification r clean = Inr md2" and r2: "stamp_prompt_scan ic (r\<lparr>mr_metadata := md2\<rparr>) = Inr r2"
    and r': "r' = stamp_sensitive_scan r2"
    using assms by (auto simp: prepare_request_def rbind_Inr_iff Let_def case_prod_beta)
  have "\<not> dhas (fst (split_vault (PDict md))) ''vault''"
    by (simp add: split_vault_def Let_def VAULT_METADATA_KEY_def)
  then have "\<not> dhas clean ''vault''" by (simp add: clean split: option.splits)
  then show ?thesis
    using classified_vault [OF md2] prompt_scan_vault [OF r2] sensitive_scan_vault r' by simp
qed

text \<open>C11. The credentials of a mission leave the gateway in no request to the orchestrator and in no event: they are only in the
  vault, whatever fails on the way.\<close>

theorem credentials_stay_in_vault:
  assumes "create_mission env cfg ic jwt x_api_key authorization key r w = (res, w')"
  shows "sealed w w'"
proof -
  have launch: "keeps sealed (launch_mission env cfg ic k mid r' secrets)"
    if "prepare_request ic r = Inr (r', secrets)" for k mid r' secrets
    using that seal_launch.launch_kept prepared_vaultless by simp
  then have with_key: "keeps sealed (create_with_key env cfg ic k p r' secrets)"
    if "prepare_request ic r = Inr (r', secrets)" for k p r' secrets
    using that unfolding create_with_key_def
    by (intro seal.keeps_bnd seal_handle) (auto split: prod.splits option.splits intro!: keeps_intros)
  have "keeps sealed (create_prepared env cfg ic key r)"
  proof (cases "prepare_request ic r")
    case (Inr rs)
    obtain r' secrets where rs: "rs = (r', secrets)" by fastforce
    show ?thesis
      unfolding create_prepared_def Let_def keeps_def
      using launch with_key Inr by (auto simp: rs keepsD split: option.splits)
  qed (simp add: create_prepared_def Let_def keeps_def sealed_same)
  moreover have "keeps sealed (redis_ping env)"
    using seal_redis [of env "ret ()"] by (auto simp: keeps_def redis_ping_def split: prod.splits sum.splits) (metis snd_conv)+
  ultimately have "keeps sealed (create_mission env cfg ic jwt x_api_key authorization key r)"
    unfolding create_mission_def by (auto split: sum.splits intro!: keeps_intros)
  then show ?thesis using assms by (metis keepsD snd_conv)
qed

section \<open>Examples\<close>

definition sample_gw :: gw_env where
  "sample_gw = \<lparr>ge_redis = (\<lambda>_. Done), ge_others = (\<lambda>_ rd. rd), ge_upstream = (\<lambda>_ _. Answer 403 (Raw ''gone'')), ge_uuid = (\<lambda>_. ''1''),
     ge_now = (\<lambda>_. ''now''), ge_dumps = numbered_text, ge_loads = numbered_document, ge_compact = (\<lambda>_. ''{}''),
     ge_canonical = numbered_text, ge_sha256 = (\<lambda>s. s), ge_schema_ok = (\<lambda>_. True), ge_date_ok = (\<lambda>_. True), ge_topics = [],
     ge_topic = [], ge_carrier = (\<lambda>_. []), ge_error_text = (\<lambda>_. [])\<rparr>"

definition gw_sample_world :: "string dict \<Rightarrow> gw_world" where
  "gw_sample_world keys = \<lparr>gw_redis = \<lparr>kv = keys, ttl = []\<rparr>, gw_clock = 0, gw_posts = [], gw_stream = []\<rparr>"

definition gw_sample_key :: string where
  "gw_sample_key = ''idempotency:missions:k''"

lemma gw_sample_honest: "honest_gateway sample_gw"
  by (auto simp: honest_gateway_def sample_gw_def numbered_roundtrip is_space_def)

lemma gw_sample_reader: "require_reader_access sample_gateway sample_jwt (Some ''ro'') None = Inr ()"
  by code_simp

lemma gw_sample_redis_key: "idempotency_redis_key sample_gw (py_strip ''k'') = gw_sample_key"
  by (simp add: idempotency_redis_key_def sample_gw_def gw_sample_key_def) code_simp

lemma gw_sample_posts:
  assumes "create_mission sample_gw sample_gateway (sample_intake_config ''warn'') sample_jwt (Some ''ro'') None (Some ''k'')
      (sample_mission_request ''make'') (gw_sample_world []) = (res, w')"
  shows "\<exists>body. (Some gw_sample_key, ''mission-1'', body) \<in> set (gw_posts w')"
proof -
  obtain r' secrets where p: "prepare_request (sample_intake_config ''warn'') (sample_mission_request ''make'') = Inr (r', secrets)"
    using sample_prepared by blast
  have ok: "mission_request_ok (ge_compact sample_gw) (sample_mission_request ''make'')"
    by (simp add: mission_request_ok_def sample_gw_def sample_mission_request_def)
  have k: "py_strip ''k'' = ''k''" by code_simp
  have i: "require_internal_service_api_key sample_gateway = Inr ''int''" by code_simp
  let ?ic = "sample_intake_config ''warn''" and ?k = "Some (idempotency_redis_key sample_gw (py_strip ''k''))"
  have called: "gw_redis_call sample_gw m w = (fst (m (gw_redis w)), w\<lparr>gw_redis := snd (m (gw_redis w)), gw_clock := Suc (gw_clock w)\<rparr>)" for m :: "(redis, 'a) prog" and w
    by (simp add: gw_redis_call_def service_def sample_gw_def gw_tick_def case_prod_beta)
  have ping: "redis_ping sample_gw w = (Inr (), w\<lparr>gw_clock := Suc (gw_clock w)\<rparr>)" for w
    by (simp add: redis_ping_def called)
  have acquired: "\<exists>w2. handle_mission_idempotency sample_gw sample_gateway ?ic ''k'' r' ''mission-1'' w = (Inr (Some ''mission-1'', None), w2)"
    if "kv (gw_redis w) = []" for w
    using that by (simp add: handle_mission_idempotency_def Let_def k bnd_def save_idempotency_record_def called redis_set_def dhas_def)
  have up: "ge_upstream sample_gw t c = Answer 403 (Raw ''gone'')" for t c by (simp add: sample_gw_def)
  have vault: "\<exists>w2. gw_store_vault sample_gw mid secrets w = (Inr (), w2)" for mid w
    by (simp add: gw_store_vault_def attempt_def called)
  have refused: "proxy_post_internal sample_gateway (ge_upstream sample_gw t) path [] json
      = ([\<lparr>uc_method = ''POST'', uc_path = path, uc_params = [], uc_body = json, uc_key = ''int''\<rparr>], Inl (502, ''orchestrator internal auth rejected request''))"
    for t path json by (simp add: proxy_post_internal_def i up)
  have n: "ic_attempts ?ic = Suc 2" by (simp add: sample_intake_config_def)
  have attempts: "persist_attempts sample_gw sample_gateway ?k ''mission-1'' json (Suc 2) w
      = (Inr (Inl (502, ''orchestrator internal auth rejected request'')), (gw_tick sample_gw w)\<lparr>gw_posts := gw_posts w @ [(?k, ''mission-1'', json)]\<rparr>)"
    for json w by (simp only: persist_attempts.simps(2)) (simp add: refused)
  have launched: "\<exists>body. (?k, ''mission-1'', body) \<in> set (gw_posts (snd (launch_mission sample_gw sample_gateway ?ic ?k ''mission-1'' r' secrets w)))" for w
  proof -
    obtain w2 where w2: "gw_store_vault sample_gw ''mission-1'' secrets w = (Inr (), w2)" using vault by blast
    show ?thesis
      unfolding launch_mission_def bnd_def w2 persist_and_finish_def try_else_def persist_mission_upstream_def n attempts
      by (simp add: mark_unknown_def save_outcome_def save_idempotency_record_def bnd_def called split: sum.splits) blast
  qed
  obtain w2 where w2: "handle_mission_idempotency sample_gw sample_gateway ?ic ''k'' r' ''mission-1'' ((gw_sample_world [])\<lparr>gw_clock := 1\<rparr>)
      = (Inr (Some ''mission-1'', None), w2)" using acquired [of "(gw_sample_world [])\<lparr>gw_clock := 1\<rparr>"] by (auto simp: gw_sample_world_def)
  have "ge_uuid sample_gw t = ''1''" for t by (simp add: sample_gw_def)
  then have "create_mission sample_gw sample_gateway ?ic sample_jwt (Some ''ro'') None (Some ''k'') (sample_mission_request ''make'') (gw_sample_world [])
      = launch_mission sample_gw sample_gateway ?ic ?k ''mission-1'' r' secrets w2"
    using w2 by (simp add: create_mission_def ok gw_sample_reader bnd_def ping create_prepared_def p truthy_text_def create_with_key_def gw_sample_world_def)
  then show ?thesis using assms launched [of w2] gw_sample_redis_key by (metis snd_conv)
qed

lemma gw_sample_sound: "all_sound sample_gw \<lparr>kv = [], ttl = []\<rparr>"
  by (simp add: all_sound_def dhas_def)

lemma one_mission_per_key_witness:
  "\<exists>answers w'. create_all sample_gw sample_gateway (sample_intake_config ''warn'') sample_jwt
       [\<lparr>cn_api_key = Some ''ro'', cn_authorization = None, cn_idempotency_key = Some ''k'', cn_request = sample_mission_request ''make''\<rparr>]
       (gw_sample_world []) = (answers, w')
     \<and> gw_posts w' \<noteq> [] \<and> (\<forall>mid body. (Some gw_sample_key, mid, body) \<in> set (gw_posts w') \<longrightarrow> mid = ''mission-1'')"
proof -
  let ?c = "\<lparr>cn_api_key = Some ''ro'', cn_authorization = None, cn_idempotency_key = Some ''k'', cn_request = sample_mission_request ''make''\<rparr>"
  obtain res w' where run: "create_mission sample_gw sample_gateway (sample_intake_config ''warn'') sample_jwt (Some ''ro'') None (Some ''k'')
      (sample_mission_request ''make'') (gw_sample_world []) = (res, w')" by fastforce
  then have all: "create_all sample_gw sample_gateway (sample_intake_config ''warn'') sample_jwt [?c] (gw_sample_world []) = ([(Some ''k'', res)], w')"
    by simp
  obtain body where "(Some gw_sample_key, ''mission-1'', body) \<in> set (gw_posts w')" using gw_sample_posts [OF run] by blast
  then have posted: "(Some (idempotency_redis_key sample_gw (py_strip ''k'')), ''mission-1'', body) \<in> set (gw_posts w')"
    by (simp add: gw_sample_redis_key)
  have start: "all_sound sample_gw (gw_redis (gw_sample_world []))" "gw_posts (gw_sample_world []) = []"
    by (simp_all add: gw_sample_world_def gw_sample_sound)
  have "truthy_text (Some ''k'') = Some ''k''" by (simp add: truthy_text_def)
  from one_mission_per_key [OF gw_sample_honest start all this posted]
  have "mid = ''mission-1''" if "(Some gw_sample_key, mid, body') \<in> set (gw_posts w')" for mid body'
    using that by (simp add: gw_sample_redis_key)
  moreover have "gw_posts w' \<noteq> []" using posted by auto
  ultimately show ?thesis using all by blast
qed

lemma key_reuse_refused_witness:
  "\<exists>e. fst (create_mission sample_gw sample_gateway (sample_intake_config ''warn'') sample_jwt (Some ''ro'') None (Some ''k'') (sample_mission_request ''make'')
     (gw_sample_world [(gw_sample_key, numbered_text (PDict [(''mission_id'', PStr ''m''), (''request_hash'', PStr ''h'')]))])) = Inl e"
proof -
  let ?d = "[(''mission_id'', PStr ''m''), (''request_hash'', PStr ''h'')]"
  let ?w = "gw_sample_world [(gw_sample_key, numbered_text (PDict ?d))]"
  have bound: "binding sample_gw (gw_redis ?w) gw_sample_key = Some (''m'', PStr ''h'')"
  proof -
    have "sound_record ?d" by (rule no_mission_sound) (simp add: dget_def)
    moreover have "record_id ?d = ''m''" by code_simp
    ultimately show ?thesis
      by (simp add: binding_def gw_sample_world_def truthy_text_def numbered_roundtrip sample_gw_def dget_def)
  qed
  have "bound_at sample_gw gw_sample_key (''m'', PStr ''h'') ?w"
    using bound by (auto simp: bound_at_def all_sound_def gw_sample_world_def dhas_def idem_key_def gw_sample_key_def starts_with_def split: if_splits)
  then have at: "bound_at sample_gw (idempotency_redis_key sample_gw (py_strip ''k'')) (''m'', PStr ''h'') ?w"
    by (simp add: gw_sample_redis_key)
  have other: "PStr ''h'' \<noteq> PStr (request_hash sample_gw r')" for r'
    by (simp add: request_hash_def sample_gw_def numbered_text_def Cons_replicate_eq)
  obtain res w' where run: "create_mission sample_gw sample_gateway (sample_intake_config ''warn'') sample_jwt (Some ''ro'') None (Some ''k'')
      (sample_mission_request ''make'') ?w = (res, w')" by fastforce
  have "truthy_text (Some ''k'') = Some ''k''" by (simp add: truthy_text_def)
  from key_reuse_refused [OF gw_sample_honest this at other run] show ?thesis using run by auto
qed

lemma credentials_stay_in_vault_witness:
  "\<exists>res w'. create_mission sample_gw sample_gateway (sample_intake_config ''warn'') sample_jwt (Some ''ro'') None (Some ''k'') (sample_mission_request ''make'')
     (gw_sample_world []) = (res, w') \<and> sealed (gw_sample_world []) w' \<and> gw_posts w' \<noteq> []"
proof -
  obtain res w' where run: "create_mission sample_gw sample_gateway (sample_intake_config ''warn'') sample_jwt (Some ''ro'') None (Some ''k'')
      (sample_mission_request ''make'') (gw_sample_world []) = (res, w')" by fastforce
  show ?thesis using run credentials_stay_in_vault [OF run] gw_sample_posts [OF run] by fastforce
qed

end
