(* ===== verification/Mission_API.thy ===== *)
theory Mission_API
  imports Intake Audit_Chain Legacy_Engine
begin

text \<open>
  The mission routes of the orchestrator, \<open>orchestrator/routes/missions.py\<close>: creating a mission,
  reading it and its events, the state route and the clarification route, with \<open>_ensure_db_ready\<close>
  and \<open>_fetch_existing_mission\<close> of \<open>orchestrator/main.py\<close> and the request models of
  \<open>orchestrator/models.py\<close>. The world is the database and state stream of the lifecycle driver, the
  vault store in Redis, the action events and the lifecycle tasks. Every storage call may be lost
  before or after it took effect; the requests after the readiness probe run with the Redis flag the
  probe found. The clarification route is also given in its three parts, so that requests that
  interleave at its awaits can be stated.
\<close>

section \<open>World and environment\<close>

record api_world =
  aw_world :: world
  aw_redis :: "redis option"
  aw_events :: "AgentActionEventRecord list"
  aw_tasks :: task_table

type_synonym 'a aprog = "(api_world, 'a) prog"

datatype storage_call = UpsertCall | EventCall | FetchMissionCall | ListCall | MetadataCall | TransitionCall

record api_env =
  ap_env :: lifecycle_env
  ap_audit :: audit_env
  ap_auto_transition :: bool
  ap_protocol_ready :: bool
  ap_redis_ready :: bool
  ap_db_ready :: bool
  ap_vault_up :: bool
  ap_dumps :: "pyval \<Rightarrow> string"
  ap_fault :: "storage_call \<Rightarrow> call_outcome"

record MissionCreate =
  mc_mission_id :: string
  mc_prompt :: string
  mc_language :: "string option"
  mc_mission_type :: "string option"
  mc_depth_mode :: "string option"
  mc_output_mode :: "string option"
  mc_data_classification :: "string option"
  mc_metadata :: pydict
  mc_project_id :: "string option"
  mc_created_at :: "int option"

text \<open>What pydantic accepts.\<close>

definition enum_ok :: "string list \<Rightarrow> string option \<Rightarrow> bool" where
  "enum_ok values v = (case v of None \<Rightarrow> True | Some s \<Rightarrow> s \<in> set values)"

definition mission_create_ok :: "MissionCreate \<Rightarrow> bool" where
  "mission_create_ok p = (1 \<le> length (mc_mission_id p) \<and> 3 \<le> length (mc_prompt p)
     \<and> enum_ok MissionType_values (mc_mission_type p) \<and> enum_ok DepthMode_values (mc_depth_mode p)
     \<and> enum_ok OutputMode_values (mc_output_mode p)
     \<and> enum_ok DataClassification_values (mc_data_classification p))"

definition clarify_request_ok :: "string \<Rightarrow> bool" where
  "clarify_request_ok clarification = (3 \<le> length clarification \<and> length clarification \<le> 2000)"

definition on_world :: "'a wprog \<Rightarrow> 'a aprog" where
  "on_world m = (\<lambda>w. let (r, v) = m (aw_world w) in (r, w\<lparr>aw_world := v\<rparr>))"

definition refuse :: "bool \<Rightarrow> nat \<Rightarrow> unit aprog" where
  "refuse bad status = (if bad then lift_res (Inl (HTTPException status)) else ret ())"

definition ensure_db_ready :: "api_env \<Rightarrow> unit aprog" where
  "ensure_db_ready env = (\<lambda>w. refuse (\<not> ap_db_ready env) 503
     (w\<lparr>aw_world := aw_world w\<lparr>w_redis_ready := ap_redis_ready env\<rparr>\<rparr>))"

definition fetch_existing_mission :: "api_env \<Rightarrow> string \<Rightarrow> MissionRecord aprog" where
  "fetch_existing_mission env mid =
     bnd (service (ap_fault env FetchMissionCall) (on_world (fetch mid))) (\<lambda>found.
     case found of None \<Rightarrow> lift_res (Inl (HTTPException 404)) | Some m \<Rightarrow> ret m)"

section \<open>What the mutating routes share\<close>

text \<open>The emission block: only with Redis ready and connected and the protocol loaded.\<close>

definition announce :: "api_env \<Rightarrow> MissionRecord \<Rightarrow> string \<Rightarrow> unit aprog" where
  "announce env record event_type = (\<lambda>w.
     if aw_redis w \<noteq> None \<and> ap_protocol_ready env
     then on_world (emit_quietly (ap_env env) record event_type) w else (Inr (), w))"

text \<open>The request of \<open>record_audit_event\<close>, with the defaults of its signature. The foreign key of the
  events is the table of missions.\<close>

definition api_event :: "string \<Rightarrow> string \<Rightarrow> string \<Rightarrow> string \<Rightarrow> AgentActionEventRecord" where
  "api_event agent event_type object_type object_id =
     \<lparr>ae_event_id = [], ae_project_id = [], ae_mission_id = [], ae_agent_id = agent,
      ae_service_name = ''orchestrator'', ae_event_type = event_type, ae_status = ''SUCCESS'',
      ae_object_type = Some object_type, ae_object_id = Some object_id, ae_tool_name = None, ae_trace_id = None,
      ae_span_id = None, ae_correlation_id = None, ae_parent_event_id = None, ae_started_at = 0, ae_ended_at = None,
      ae_duration_ms = None, ae_payload_summary = [], ae_content_sha256 = None, ae_blob_ref = None,
      ae_prev_event_digest = None, ae_event_digest = [], ae_created_at = 0\<rparr>"

definition audit :: "api_env \<Rightarrow> MissionRecord \<Rightarrow> AgentActionEventRecord \<Rightarrow> pydict \<Rightarrow> unit aprog" where
  "audit env mission event summary = (\<lambda>w.
     let (r, db) = record_audit_event (ap_audit env) (Some mission)
           \<lparr>rq_event = event, rq_summary = PDict summary, rq_content = None, rq_started = None, rq_ended = None\<rparr>
           \<lparr>ad_missions = map fst (missions (w_db (aw_world w))), ad_events = aw_events w\<rparr>
     in (rbind r (\<lambda>_. Inr ()), w\<lparr>aw_events := ad_events db\<rparr>))"

definition start_mission_task :: "api_env \<Rightarrow> string \<Rightarrow> unit aprog" where
  "start_mission_task env mid = (\<lambda>w.
     (Inr (), w\<lparr>aw_tasks := start_lifecycle_task (ap_auto_transition env) mid (aw_tasks w)\<rparr>))"

definition acting_agent :: "pydict \<Rightarrow> string \<Rightarrow> string" where
  "acting_agent metadata d =
     py_str (py_or (dget metadata ''agent_id'') (py_or (dget metadata ''selected_agent_id'') (PStr d)))"

section \<open>Creating a mission\<close>

definition store_secrets :: "api_env \<Rightarrow> string \<Rightarrow> string dict \<Rightarrow> unit aprog" where
  "store_secrets env mid vault_secrets = (\<lambda>w.
     if vault_secrets \<noteq> [] \<and> aw_redis w \<noteq> None
     then (Inr (), w\<lparr>aw_redis := snd (store_vault (ap_dumps env) (ap_vault_up env) (aw_redis w) mid vault_secrets)\<rparr>)
     else (Inr (), w))"

definition create_metadata :: "api_env \<Rightarrow> MissionCreate \<Rightarrow> pydict" where
  "create_metadata env p =
     dset ''lifecycle_engine'' (PStr (get_lifecycle_engine_name (e_engine (ap_env env))))
       (with_project_identity (PDict (fst (split_vault (PDict (mc_metadata p))))) (PStr (mc_mission_id p)))"

definition create_record :: "api_env \<Rightarrow> MissionCreate \<Rightarrow> MissionRecord" where
  "create_record env p =
     (let metadata = create_metadata env p
      in \<lparr>m_mission_id = mc_mission_id p, m_prompt = mc_prompt p, m_requested_target_language = mc_language p,
          m_mission_type = mc_mission_type p, m_depth_mode = mc_depth_mode p, m_output_mode = mc_output_mode p,
          m_data_classification = mc_data_classification p, m_metadata = metadata,
          m_project_id = Some (case truthy_text (mc_project_id p) of Some pid \<Rightarrow> pid
            | None \<Rightarrow> resolve_project_id (PDict metadata) (PStr (mc_mission_id p))),
          m_lifecycle_engine = Some (get_lifecycle_engine_name (e_engine (ap_env env))), m_state = Queued,
          m_created_at = (case mc_created_at p of Some t \<Rightarrow> t | None \<Rightarrow> e_now (ap_env env))\<rparr>)"

definition upsert_call :: "api_env \<Rightarrow> MissionRecord \<Rightarrow> unit aprog" where
  "upsert_call env record = service (ap_fault env UpsertCall) (on_world (on_db (\<lambda>db.
     (Inr (), upsert_mission (e_now (ap_env env)) record None db))))"

definition queued_event_call :: "api_env \<Rightarrow> MissionRecord \<Rightarrow> unit aprog" where
  "queued_event_call env record = service (ap_fault env EventCall) (on_world (on_db
     (insert_mission_event (e_engine (ap_env env)) (e_now (ap_env env)) (m_mission_id record)
       (Some Intake) Queued ''MISSION_QUEUED'')))"

definition create_summary :: "MissionRecord \<Rightarrow> pydict" where
  "create_summary r =
     [(''project_id'', py_opt (m_project_id r)),
      (''requested_target_language'', py_opt (m_requested_target_language r)),
      (''mission_type'', py_opt (m_mission_type r)), (''depth_mode'', py_opt (m_depth_mode r)),
      (''output_mode'', py_opt (m_output_mode r)), (''data_classification'', py_opt (m_data_classification r)),
      (''source'', dget (m_metadata r) ''source''), (''project_name'', dget (m_metadata r) ''project_name'')]"

definition create_mission_route :: "api_env \<Rightarrow> MissionCreate \<Rightarrow> MissionRecord aprog" where
  "create_mission_route env p =
     bnd (refuse (\<not> mission_create_ok p) 422) (\<lambda>_.
     bnd (ensure_db_ready env) (\<lambda>_.
     bnd (store_secrets env (mc_mission_id p) (snd (split_vault (PDict (mc_metadata p))))) (\<lambda>_.
     let record = create_record env p; mid = m_mission_id record in
     bnd (upsert_call env record) (\<lambda>_.
     bnd (queued_event_call env record) (\<lambda>_.
     bnd (announce env record ''MISSION_QUEUED'') (\<lambda>_.
     bnd (audit env record (api_event (acting_agent (m_metadata record) ''AGENT-01-PM'') ''MISSION_CREATED''
            ''mission'' mid) (create_summary record)) (\<lambda>_.
     bnd (start_mission_task env mid) (\<lambda>_.
     ret record))))))))"

section \<open>Reading\<close>

definition get_mission_route :: "api_env \<Rightarrow> string \<Rightarrow> MissionRecord aprog" where
  "get_mission_route env mid = bnd (ensure_db_ready env) (\<lambda>_. fetch_existing_mission env mid)"

definition list_call :: "api_env \<Rightarrow> (mission_db \<Rightarrow> 'a res) \<Rightarrow> 'a aprog" where
  "list_call env f = service (ap_fault env ListCall) (\<lambda>w. (f (w_db (aw_world w)), w))"

definition list_missions_route :: "api_env \<Rightarrow> nat \<Rightarrow> MissionRecord list aprog" where
  "list_missions_route env limit =
     bnd (refuse (limit < 1 \<or> 200 < limit) 422) (\<lambda>_.
     bnd (ensure_db_ready env) (\<lambda>_. list_call env (\<lambda>db. list_missions db limit)))"

definition get_mission_events_route :: "api_env \<Rightarrow> string \<Rightarrow> nat \<Rightarrow> MissionEvent list aprog" where
  "get_mission_events_route env mid limit =
     bnd (refuse (limit < 1 \<or> 500 < limit) 422) (\<lambda>_.
     bnd (ensure_db_ready env) (\<lambda>_.
     bnd (fetch_existing_mission env mid) (\<lambda>_.
     list_call env (\<lambda>db. list_mission_events db mid limit))))"

text \<open>The public view of a runtime report: \<open>stored\<close> is the row of the report table, when there is one.\<close>

definition or_value :: "pydict \<Rightarrow> pydict \<Rightarrow> string \<Rightarrow> pyval" where
  "or_value execution record k = py_or (dget execution k) (dget record k)"

definition public_runtime_qc :: "string \<Rightarrow> MissionRecord \<Rightarrow> pydict option \<Rightarrow> pydict res" where
  "public_runtime_qc mid mission stored =
     rbind (case stored of
         Some r \<Rightarrow> Inr r
       | None \<Rightarrow> (case dget (m_metadata mission) ''runtime_qc_report'' of
           PDict report \<Rightarrow> Inr [(''mission_id'', PStr mid), (''execution_result'', PDict report),
                             (''qc_assessment'', dget report ''qc_assessment'')]
         | _ \<Rightarrow> Inl (HTTPException 404))) (\<lambda>record.
       let execution = dict_or_empty (dget record ''execution_result'');
           qc = dict_or_empty (dget record ''qc_assessment'')
       in Inr [(''mission_id'', PStr mid), (''verdict'', or_value execution record ''verdict''),
               (''execution_type'', or_value execution record ''execution_type''),
               (''qc_verdict'', py_or (dget qc ''qc_verdict'') (dget record ''qc_verdict'')),
               (''deployment_safe'', dget qc ''deployment_safe''),
               (''stdout_preview'', or_value execution record ''stdout_preview''), (''stderr_preview'', PNone),
               (''language'', or_value execution record ''language''),
               (''filename'', or_value execution record ''filename'')])"

section \<open>The state route\<close>

definition transition_call ::
  "api_env \<Rightarrow> string \<Rightarrow> MissionState option \<Rightarrow> MissionState \<Rightarrow> string \<Rightarrow> MissionRecord aprog" where
  "transition_call env mid expected new_state event_type =
     bnd (service (ap_fault env TransitionCall) (on_world (on_db
       (transition_mission_state (e_now (ap_env env)) mid expected new_state event_type)))) (\<lambda>moved.
     case moved of None \<Rightarrow> lift_res (Inl (HTTPException 409)) | Some record \<Rightarrow> ret record)"

definition update_mission_state_route ::
  "api_env \<Rightarrow> string \<Rightarrow> MissionState \<Rightarrow> MissionState option \<Rightarrow> MissionRecord aprog" where
  "update_mission_state_route env mid new_state expected_state =
     (let event_type = ''MISSION_'' @ state_value new_state in
     bnd (ensure_db_ready env) (\<lambda>_.
     bnd (transition_call env mid expected_state new_state event_type) (\<lambda>record.
     bnd (announce env record event_type) (\<lambda>_.
     bnd (audit env record (api_event (acting_agent (m_metadata record) ''SYSTEM'') ''MISSION_STATE_UPDATED''
            ''mission_state'' (m_mission_id record))
            [(''new_state'', PStr (state_value new_state)),
             (''expected_state'', py_opt (map_option state_value expected_state))]) (\<lambda>_.
     ret record)))))"

section \<open>The clarification route\<close>

definition clarify_read :: "api_env \<Rightarrow> string \<Rightarrow> MissionRecord aprog" where
  "clarify_read env mid =
     bnd (ensure_db_ready env) (\<lambda>_.
     bnd (fetch_existing_mission env mid) (\<lambda>mission.
     bnd (refuse (m_state mission \<noteq> Clarifying) 409) (\<lambda>_. ret mission)))"

definition clarified_metadata :: "api_env \<Rightarrow> MissionRecord \<Rightarrow> string \<Rightarrow> pydict" where
  "clarified_metadata env mission clarification =
     append_chain_event
       (dset ''user_intent'' (PStr ''finalize_plan'')
       (dset ''pm_clarification'' (PStr clarification) (chain_defaults_of mission)))
       ''MISSION_CLARIFICATION_RECEIVED'' ''AGENT-01-PM''
       [(''clarification_length'', PInt (int (length clarification)))] (e_stamp (ap_env env))"

definition clarify_apply :: "api_env \<Rightarrow> string \<Rightarrow> string \<Rightarrow> MissionRecord \<Rightarrow> MissionRecord aprog" where
  "clarify_apply env mid clarification mission =
     bnd (service (ap_fault env MetadataCall) (on_world (save_metadata (ap_env env) mid
            (clarified_metadata env mission clarification)))) (\<lambda>_.
     transition_call env mid (Some Clarifying) Queued ''MISSION_CLARIFICATION_APPLIED'')"

definition clarify_announce :: "api_env \<Rightarrow> string \<Rightarrow> string \<Rightarrow> MissionRecord \<Rightarrow> MissionRecord aprog" where
  "clarify_announce env mid clarification record =
     bnd (announce env record ''MISSION_CLARIFICATION_APPLIED'') (\<lambda>_.
     bnd (audit env record (api_event ''AGENT-01-PM'' ''MISSION_CLARIFICATION_RECEIVED'' ''mission'' mid)
            [(''clarification_length'', PInt (int (length clarification)))]) (\<lambda>_.
     bnd (start_mission_task env mid) (\<lambda>_. ret record)))"

definition clarify_mission_route :: "api_env \<Rightarrow> string \<Rightarrow> string \<Rightarrow> MissionRecord aprog" where
  "clarify_mission_route env mid clarification =
     bnd (refuse (\<not> clarify_request_ok clarification) 422) (\<lambda>_.
     bnd (clarify_read env mid) (\<lambda>mission.
     bnd (clarify_apply env mid clarification mission) (\<lambda>record.
     clarify_announce env mid clarification record)))"

section \<open>Requests\<close>

datatype api_request =
    CreateRequest MissionCreate
  | StateRequest string MissionState "MissionState option"
  | ClarifyRequest string string

fun handle_request :: "api_env \<Rightarrow> api_request \<Rightarrow> MissionRecord aprog" where
  "handle_request env (CreateRequest p) = create_mission_route env p"
| "handle_request env (StateRequest mid new_state expected) = update_mission_state_route env mid new_state expected"
| "handle_request env (ClarifyRequest mid clarification) = clarify_mission_route env mid clarification"

definition handle_requests :: "(api_env \<times> api_request) list \<Rightarrow> api_world \<Rightarrow> api_world" where
  "handle_requests rs w = foldl (\<lambda>w (env, r). snd (handle_request env r w)) w rs"

section \<open>What the shared parts do\<close>

definition adb :: "api_world \<Rightarrow> mission_db" where
  "adb w = w_db (aw_world w)"

lemma refuse_simps [simp]: "refuse True st = lift_res (Inl (HTTPException st))" "refuse False st = ret ()"
  by (simp_all add: refuse_def)

lemma ensure_result:
  "ap_db_ready env \<Longrightarrow> ensure_db_ready env w
     = (Inr (), w\<lparr>aw_world := aw_world w\<lparr>w_redis_ready := ap_redis_ready env\<rparr>\<rparr>)"
  "\<not> ap_db_ready env \<Longrightarrow> ensure_db_ready env w
     = (Inl (HTTPException 503), w\<lparr>aw_world := aw_world w\<lparr>w_redis_ready := ap_redis_ready env\<rparr>\<rparr>)"
  by (simp_all add: ensure_db_ready_def)

lemma ensure_views [simp]:
  "adb (w\<lparr>aw_world := aw_world w\<lparr>w_redis_ready := b\<rparr>\<rparr>) = adb w"
  by (simp add: adb_def)

lemma emit_quietly_db: "w_db (snd (emit_quietly env m ev v)) = w_db v"
  using emit_db [of env m ev v] by (simp add: emit_quietly_def)

lemma emit_quietly_returns: "fst (emit_quietly env m ev v) = Inr ()"
  by (auto simp: emit_quietly_def attempt_def split: prod.split sum.split)

lemma announce_result:
  obtains w' where "announce env r ev w = (Inr (), w')" and "adb w' = adb w" and "aw_redis w' = aw_redis w"
    and "aw_events w' = aw_events w" and "aw_tasks w' = aw_tasks w"
proof -
  let ?v = "emit_quietly (ap_env env) r ev (aw_world w)"
  have v: "?v = (Inr (), snd ?v)" using emit_quietly_returns [of "ap_env env" r ev "aw_world w"]
    by (metis prod.collapse)
  have "w_db (snd ?v) = w_db (aw_world w)" by (rule emit_quietly_db)
  then show thesis using v
    by (intro that [of "snd (announce env r ev w)"])
      (simp_all add: announce_def on_world_def adb_def Let_def case_prod_beta prod_eq_iff)
qed

lemma audit_views:
  "adb (snd (audit env m ev s w)) = adb w" "aw_redis (snd (audit env m ev s w)) = aw_redis w"
  "aw_tasks (snd (audit env m ev s w)) = aw_tasks w"
  by (simp_all add: audit_def adb_def Let_def case_prod_beta)

lemma audit_ok:
  assumes "m_mission_id m \<noteq> []" and "agent \<noteq> []" and "ev \<noteq> []"
  shows "fst (audit env m (api_event agent ev ot oid) s w) = Inr ()"
  using assms
  by (auto simp: audit_def record_audit_event_def audit_event_of_def api_event_def Let_def case_prod_beta
      split: prod.split sum.split)

lemma audit_result:
  assumes "m_mission_id m \<noteq> []" and "agent \<noteq> []" and "ev \<noteq> []"
  obtains w' where "audit env m (api_event agent ev ot oid) s w = (Inr (), w')" and "adb w' = adb w"
    and "aw_redis w' = aw_redis w" and "aw_tasks w' = aw_tasks w"
  using audit_ok [OF assms, of env ot oid s w] audit_views [of env m "api_event agent ev ot oid" s w]
  by (metis prod.collapse)

lemma task_result: "start_mission_task env mid w
   = (Inr (), w\<lparr>aw_tasks := start_lifecycle_task (ap_auto_transition env) mid (aw_tasks w)\<rparr>)"
  by (simp add: start_mission_task_def)

section \<open>Histories\<close>

text \<open>Whatever is lost on the way, a request leaves a history of the mission tables, provided a create
  that wrote its row also wrote its event.\<close>

definition grows_history :: "api_world \<Rightarrow> api_world \<Rightarrow> bool" where
  "grows_history w w' \<longleftrightarrow> (history (adb w) \<longrightarrow> history (adb w'))"

interpretation grows_history: preorder_rel grows_history
  by standard (simp_all add: grows_history_def)

lemma history_same_db: "(\<And>w. adb (snd (m w)) = adb w) \<Longrightarrow> keeps grows_history m"
  by (simp add: keeps_def grows_history_def)

lemma history_on_db:
  "(\<And>db. history db \<Longrightarrow> history (snd (f db))) \<Longrightarrow> keeps grows_history (on_world (on_db f))"
  by (simp add: keeps_def grows_history_def on_world_def on_db_def adb_def case_prod_beta)

lemma history_refuse [keeps_intros]: "keeps grows_history (refuse b st)"
  by (rule history_same_db) (simp add: refuse_def)

lemma history_ensure [keeps_intros]: "keeps grows_history (ensure_db_ready env)"
  by (rule history_same_db) (cases "ap_db_ready env"; simp add: ensure_result)

lemma history_announce [keeps_intros]: "keeps grows_history (announce env r ev)"
  by (rule history_same_db) (metis announce_result snd_conv)

lemma history_audit [keeps_intros]: "keeps grows_history (audit env m ev s)"
  by (rule history_same_db) (rule audit_views)

lemma history_task [keeps_intros]: "keeps grows_history (start_mission_task env mid)"
  by (rule history_same_db) (simp add: task_result adb_def)

lemma history_fetch [keeps_intros]: "keeps grows_history (fetch_existing_mission env mid)"
proof -
  have [keeps_intros]: "keeps grows_history (on_world (fetch mid))"
    by (rule history_same_db) (simp add: on_world_def fetch_def adb_def)
  show ?thesis unfolding fetch_existing_mission_def by (intro keeps_intros)
qed

lemma history_move [keeps_intros]:
  "ev \<in> set EventType \<Longrightarrow> keeps grows_history (transition_call env mid xst new ev)"
  unfolding transition_call_def
  by (intro keeps_intros history_on_db history_transition)

lemma clarified_known: "''MISSION_CLARIFICATION_APPLIED'' \<in> set EventType"
  by (simp add: EventType_def)

lemma history_clarify [keeps_intros]: "keeps grows_history (clarify_apply env mid text mission)"
  unfolding clarify_apply_def save_metadata_def
  by (intro keeps_intros history_on_db history_metadata clarified_known)

text \<open>The two statements of a create make one step of a history.\<close>

definition create_uncut :: "api_env \<Rightarrow> bool" where
  "create_uncut env \<longleftrightarrow> ap_fault env UpsertCall \<noteq> Lost_After
     \<and> (ap_fault env UpsertCall = Done \<longrightarrow> ap_fault env EventCall \<noteq> Lost_Before)"

lemma history_created:
  assumes "create_uncut env" and "m_state r = Queued"
  shows "keeps grows_history (bnd (upsert_call env r) (\<lambda>_. queued_event_call env r))"
proof -
  have "history db \<Longrightarrow> history (snd (insert_mission_event settings t (m_mission_id r) (Some Intake) Queued
      ''MISSION_QUEUED'' (upsert_mission t r None db)))" for db settings t
    using assms(2) by (intro history_create)
  then show ?thesis using assms(1)
    by (cases "ap_fault env UpsertCall"; cases "ap_fault env EventCall")
      (auto simp: keeps_def grows_history_def create_uncut_def bnd_def upsert_call_def queued_event_call_def
        service_def on_world_def on_db_def adb_def case_prod_beta split: sum.split)
qed

lemma api_bnd_assoc: "bnd (bnd m f) g = bnd m (\<lambda>x. bnd (f x) g)"
  by (auto simp: bnd_def fun_eq_iff split: prod.split sum.split)

lemma history_request:
  assumes "\<forall>p. r = CreateRequest p \<longrightarrow> create_uncut env"
  shows "keeps grows_history (handle_request env r)"
proof (cases r)
  case (CreateRequest p)
  have [keeps_intros]: "keeps grows_history (store_secrets env mid v)" for mid v
    by (rule history_same_db) (simp add: store_secrets_def adb_def)
  have [keeps_intros]: "keeps grows_history (bnd (upsert_call env (create_record env p))
      (\<lambda>_. queued_event_call env (create_record env p)))"
    using assms CreateRequest by (intro history_created) (simp_all add: create_record_def Let_def)
  show ?thesis unfolding CreateRequest handle_request.simps create_mission_route_def Let_def
    api_bnd_assoc [symmetric, of "upsert_call env (create_record env p)"]
    by (intro keeps_intros)
next
  case (StateRequest mid new xst)
  show ?thesis unfolding StateRequest handle_request.simps update_mission_state_route_def Let_def
    by (intro keeps_intros state_events_known)
next
  case (ClarifyRequest mid c)
  show ?thesis unfolding ClarifyRequest handle_request.simps clarify_mission_route_def clarify_read_def clarify_announce_def
    by (intro keeps_intros)
qed

lemma history_requests:
  assumes "\<forall>(env, r) \<in> set rs. (\<forall>p. r = CreateRequest p \<longrightarrow> create_uncut env)" and "history (adb w)"
  shows "history (adb (handle_requests rs w))"
  using assms
proof (induction rs arbitrary: w)
  case Nil
  then show ?case by (simp add: handle_requests_def)
next
  case (Cons x rs)
  obtain env r where x: "x = (env, r)" by (cases x)
  have "keeps grows_history (handle_request env r)" using Cons.prems(1) x by (intro history_request) auto
  then have "history (adb (snd (handle_request env r w)))"
    using Cons.prems(2) by (simp add: keeps_def grows_history_def)
  with Cons.IH [of "snd (handle_request env r w)"] Cons.prems(1) x show ?case by (simp add: handle_requests_def)
qed

lemma queued_event_appends:
  assumes "row_of db mid \<noteq> None"
  obtains db' e where "insert_mission_event settings t mid (Some Intake) Queued ''MISSION_QUEUED'' db = (Inr (), db')"
    and "row_of db' = row_of db" and "events db' = events db @ [e]" and "erow_type e = ''MISSION_QUEUED''"
    and "erow_mission_id e = mid" and "erow_new e = state_value Queued"
  using assms by (auto simp: insert_mission_event_def dhas_row_of Let_def)

lemma created_in_db:
  assumes "ap_fault env = (\<lambda>_. Done)" and "m_state r = Queued"
  obtains v row e where "bnd (upsert_call env r) (\<lambda>_. queued_event_call env r) w = (Inr (), v)"
    and "row_of (adb v) = (row_of (adb w))(m_mission_id r \<mapsto> row)" and "row_state row = state_value Queued"
    and "\<not> dhas (row_metadata row) ''vault''" and "events (adb v) = events (adb w) @ [e]"
    and "erow_type e = ''MISSION_QUEUED''" and "erow_mission_id e = m_mission_id r"
    and "aw_redis v = aw_redis w" and "aw_tasks v = aw_tasks w"
proof -
  let ?t = "e_now (ap_env env)"
  obtain row where up: "upsert_mission ?t r None (adb w) = (adb w)\<lparr>missions := dset (m_mission_id r) row (missions (adb w))\<rparr>"
    and row: "row_state row = state_value (m_state r)" "\<not> dhas (row_metadata row) ''vault''"
    by (rule upsert_row)
  let ?db = "(adb w)\<lparr>missions := dset (m_mission_id r) row (missions (adb w))\<rparr>"
  obtain db' e where ev: "insert_mission_event (e_engine (ap_env env)) ?t (m_mission_id r) (Some Intake) Queued
      ''MISSION_QUEUED'' ?db = (Inr (), db')" "row_of db' = row_of ?db" "events db' = events ?db @ [e]"
      "erow_type e = ''MISSION_QUEUED''" "erow_mission_id e = m_mission_id r" "erow_new e = state_value Queued"
    by (rule queued_event_appends [of ?db "m_mission_id r"]) simp_all
  let ?c = "bnd (upsert_call env r) (\<lambda>_. queued_event_call env r) w"
  have "?c = (Inr (), w\<lparr>aw_world := (aw_world w)\<lparr>w_db := db'\<rparr>\<rparr>)"
    using up ev(1) assms(1) by (simp add: bnd_def upsert_call_def queued_event_call_def service_def on_world_def on_db_def adb_def)
  then show thesis using ev row assms(2)
    by (intro that [of "w\<lparr>aw_world := (aw_world w)\<lparr>w_db := db'\<rparr>\<rparr>" row e]) (simp_all add: adb_def)
qed

lemma secrets_stored:
  obtains v where "store_secrets env mid secrets w = (Inr (), v)" and "adb v = adb w" and "aw_tasks v = aw_tasks w"
    and "other \<noteq> mid \<Longrightarrow> redis_value (aw_redis v) other = redis_value (aw_redis w) other"
    and "secrets \<noteq> [] \<Longrightarrow> aw_redis w \<noteq> None \<Longrightarrow> ap_vault_up env \<Longrightarrow>
      redis_value (aw_redis v) mid = Some (ap_dumps env (PDict (map (\<lambda>(k, v). (k, PStr v)) secrets)))"
proof (cases "secrets \<noteq> [] \<and> aw_redis w \<noteq> None")
  case True
  let ?v = "w\<lparr>aw_redis := snd (store_vault (ap_dumps env) (ap_vault_up env) (aw_redis w) mid secrets)\<rparr>"
  from True show thesis
    by (intro that [of ?v])
      (auto simp: store_secrets_def adb_def store_vault_value store_vault_def redis_value_def)
qed (auto intro!: that [of w] simp: store_secrets_def)

lemma history_reads:
  assumes "history (adb w)" and "ap_db_ready env" and "ap_fault env = (\<lambda>_. Done)"
    and row: "row_of (adb w) mid = Some row" and "1 \<le> limit" "limit \<le> 500"
  shows "\<exists>m w' evs w''. get_mission_route env mid w = (Inr m, w')
    \<and> state_value (m_state m) = erow_new (last (mission_log (adb w) mid))
    \<and> get_mission_events_route env mid limit w = (Inr evs, w'')"
proof -
  have inv: "store_inv (adb w)" using assms(1) by (rule history_inv)
  from store_inv_row [OF inv row] obtain s where s: "row_state row = state_value s"
    and l: "row_state row = erow_new (last (mission_log (adb w) mid))" by (auto simp: row_ok_def)
  obtain m where m: "fetch_mission (adb w) mid = Inr (Some m)" "m_state m = s" by (rule fetch_ok [OF row s])
  obtain evs where evs: "list_mission_events (adb w) mid limit = Inr evs"
    using inv unfolding list_mission_events_def
    by (metis (no_types, lifting) rmap_ok row_to_event_ok store_inv_def in_set_takeD set_sort filter_is_subset subsetD)
  show ?thesis using m evs s l assms(2,3,5,6)
    by (simp add: get_mission_route_def get_mission_events_route_def fetch_existing_mission_def list_call_def bnd_def
        ensure_result service_def on_world_def fetch_def adb_def)
qed

section \<open>Writes of the routes\<close>

lemma clarify_saved:
  assumes row: "row_of db mid = Some row" "row_state row = state_value s"
  obtains m row' where "update_mission_metadata now mid md db = (Inr (Some m), db\<lparr>missions := dset mid row' (missions db)\<rparr>)"
    and "row_state row' = row_state row"
    and "k \<notin> {''vault'', ''project_id'', ''project_name'', ''delta_audit_gate''} \<Longrightarrow> dget (row_metadata row') k = dget md k"
proof -
  let ?md = "strip_vault (with_project_identity (PDict md) (PStr mid))"
  let ?row = "row\<lparr>row_metadata := keep_delta_gate (row_metadata row) ?md,
    row_project_id := Some (resolve_project_id (PDict ?md) (PStr mid)), row_updated_at := now\<rparr>"
  obtain m where "row_to_mission mid ?row = Inr m"
    using row_to_mission_state [of ?row s mid] row(2) by auto
  then show thesis
    using row(1) by (intro that [of m ?row])
      (auto simp: update_mission_metadata_def row_of_def Let_def keep_delta_gate_def dget_def
        strip_vault_frame VAULT_METADATA_KEY_def with_project_identity_frame)
qed

text \<open>The two writes of the route, on a mission in any state: the document is replaced, and only a
  waiting mission is moved.\<close>

lemma clarify_applied:
  assumes row: "row_of (adb w) mid = Some row" "row_state row = state_value s"
    and env: "ap_fault env = (\<lambda>_. Done)"
  obtains r w' row' where "clarify_apply env mid answer mission w = (r, w')"
    and "r = Inl (HTTPException 409) \<and> s \<noteq> Clarifying \<and> row_state row' = row_state row \<and> events (adb w') = events (adb w)
      \<or> (\<exists>m. r = Inr m \<and> m_state m = Queued \<and> m_mission_id m = mid) \<and> s = Clarifying \<and> row_state row' = ''QUEUED''
        \<and> events (adb w') = events (adb w) @ [\<lparr>erow_mission_id = mid, erow_previous = Some ''CLARIFYING'',
             erow_new = ''QUEUED'', erow_type = ''MISSION_CLARIFICATION_APPLIED'', erow_ts = e_now (ap_env env)\<rparr>]"
    and "row_of (adb w') = (row_of (adb w))(mid \<mapsto> row')"
    and "dget (row_metadata row') ''pm_clarification'' = PStr answer"
    and "aw_redis w' = aw_redis w" and "aw_events w' = aw_events w" and "aw_tasks w' = aw_tasks w"
proof -
  obtain m1 row1 where saved: "update_mission_metadata (e_now (ap_env env)) mid (clarified_metadata env mission answer) (adb w)
      = (Inr (Some m1), (adb w)\<lparr>missions := dset mid row1 (missions (adb w))\<rparr>)"
    and st: "row_state row1 = row_state row"
    and pm: "dget (row_metadata row1) ''pm_clarification'' = dget (clarified_metadata env mission answer) ''pm_clarification''"
    by (rule clarify_saved [OF row, where k = "''pm_clarification''" and md = "clarified_metadata env mission answer"
          and now = "e_now (ap_env env)"]) auto
  let ?db = "(adb w)\<lparr>missions := dset mid row1 (missions (adb w))\<rparr>"
  have pm': "dget (row_metadata row1) ''pm_clarification'' = PStr answer"
    using pm by (simp add: clarified_metadata_def dget_append_chain_event)
  have row1: "row_of ?db mid = Some row1" by simp
  have run: "clarify_apply env mid answer mission w
      = transition_call env mid (Some Clarifying) Queued ''MISSION_CLARIFICATION_APPLIED'' (w\<lparr>aw_world := (aw_world w)\<lparr>w_db := ?db\<rparr>\<rparr>)"
    using saved env by (simp add: clarify_apply_def bnd_def service_def on_world_def save_metadata_def on_db_def adb_def)
  let ?c = "clarify_apply env mid answer mission w"
  show thesis
  proof (cases "s = Clarifying")
    case True
    then have hit: "Some Clarifying = None \<or> row_state row1 = state_value (the (Some Clarifying))" using row(2) st by simp
    obtain m db' where t: "transition_mission_state (e_now (ap_env env)) mid (Some Clarifying) Queued
        ''MISSION_CLARIFICATION_APPLIED'' ?db = (Inr (Some m), db')" "m_state m = Queued" 
        "row_of db' = (row_of ?db)(mid \<mapsto> row1\<lparr>row_state := state_value Queued, row_updated_at := e_now (ap_env env)\<rparr>)"
        "events db' = events ?db @ [\<lparr>erow_mission_id = mid, erow_previous = map_option state_value (Some Clarifying),
           erow_new = state_value Queued, erow_type = ''MISSION_CLARIFICATION_APPLIED'', erow_ts = e_now (ap_env env)\<rparr>]"
      by (rule transition_hit [OF row1 hit, where new = Queued and ev = "''MISSION_CLARIFICATION_APPLIED''"
            and now = "e_now (ap_env env)"]) blast
    have "m_mission_id m = mid"
      using t(1) by (auto simp: transition_mission_state_def Let_def rbind_Inr_iff row_to_mission_id
          split: option.splits if_splits)
    then show thesis using t True pm' env
      by (intro that [of "fst ?c" "snd ?c" "row1\<lparr>row_state := state_value Queued, row_updated_at := e_now (ap_env env)\<rparr>"])
        (auto simp: run transition_call_def bnd_def service_def on_world_def on_db_def adb_def)
  next
    case False
    then have t: "transition_mission_state (e_now (ap_env env)) mid (Some Clarifying) Queued
        ''MISSION_CLARIFICATION_APPLIED'' ?db = (Inr None, ?db)"
      using row(2) st by (intro transition_stale [OF row1]) (cases s; simp)
    then show thesis using False pm' env st
      by (intro that [of "fst ?c" "snd ?c" row1])
        (auto simp: run transition_call_def bnd_def service_def on_world_def on_db_def adb_def)
  qed
qed


text \<open>The state route applies whatever move it is asked for: the table of valid transitions is not
  consulted, only the state the request expects, when it names one.\<close>

theorem state_route_moves_anywhere:
  assumes "ap_db_ready env" and "ap_fault env = (\<lambda>_. Done)" and "mid \<noteq> []"
    and row: "row_of (adb w) mid = Some row" "row_state row = state_value s"
    and "acting_agent (row_metadata row) ''SYSTEM'' \<noteq> []"
    and run: "update_mission_state_route env mid new_state expected w = (r, w')"
  shows "if expected = None \<or> expected = Some s
    then (\<exists>m e. r = Inr m \<and> m_state m = new_state \<and> db_state (adb w') mid = Some (state_value new_state)
           \<and> events (adb w') = events (adb w) @ [e] \<and> erow_type e = ''MISSION_'' @ state_value new_state)
    else r = Inl (HTTPException 409) \<and> adb w' = adb w"
proof (cases "expected = None \<or> expected = Some s")
  case False
  then obtain x where x: "expected = Some x" "x \<noteq> s" by (cases expected) auto
  have "transition_mission_state (e_now (ap_env env)) mid (Some x) new_state (''MISSION_'' @ state_value new_state) (adb w)
      = (Inr None, adb w)" using x row(2) by (intro transition_stale [OF row(1)]) auto
  then show ?thesis using run assms(1,2) x
    by (auto simp: update_mission_state_route_def transition_call_def Let_def bnd_def ensure_result service_def
        on_world_def on_db_def adb_def)
next
  case True
  let ?ev = "''MISSION_'' @ state_value new_state"
  let ?w = "w\<lparr>aw_world := aw_world w\<lparr>w_redis_ready := ap_redis_ready env\<rparr>\<rparr>"
  from True row(2) have hit: "expected = None \<or> row_state row = state_value (the expected)" by auto
  obtain m db' where t: "transition_mission_state (e_now (ap_env env)) mid expected new_state ?ev (adb w) = (Inr (Some m), db')"
      "m_state m = new_state" "m_metadata m = row_metadata row"
      "row_of db' = (row_of (adb w))(mid \<mapsto> row\<lparr>row_state := state_value new_state, row_updated_at := e_now (ap_env env)\<rparr>)"
      "events db' = events (adb w) @ [\<lparr>erow_mission_id = mid, erow_previous = map_option state_value expected,
         erow_new = state_value new_state, erow_type = ?ev, erow_ts = e_now (ap_env env)\<rparr>]"
    by (rule transition_hit [OF row(1) hit, where new = new_state and ev = ?ev and now = "e_now (ap_env env)"]) blast
  have mid: "m_mission_id m = mid"
    using t(1) by (auto simp: transition_mission_state_def Let_def rbind_Inr_iff row_to_mission_id split: option.splits if_splits)
  let ?v = "?w\<lparr>aw_world := (aw_world ?w)\<lparr>w_db := db'\<rparr>\<rparr>"
  have move: "transition_call env mid expected new_state ?ev ?w = (Inr m, ?v)"
    using t(1) assms(2) by (simp add: transition_call_def bnd_def service_def on_world_def on_db_def adb_def)
  obtain v1 where v1: "announce env m ?ev ?v = (Inr (), v1)" "adb v1 = adb ?v" by (rule announce_result)
  obtain v2 where v2: "audit env m (api_event (acting_agent (m_metadata m) ''SYSTEM'') ''MISSION_STATE_UPDATED''
        ''mission_state'' (m_mission_id m)) [(''new_state'', PStr (state_value new_state)),
          (''expected_state'', py_opt (map_option state_value expected))] v1 = (Inr (), v2)" "adb v2 = adb v1"
    by (rule audit_result [of m "acting_agent (m_metadata m) ''SYSTEM''" "''MISSION_STATE_UPDATED''"])
      (use assms(3,6) in \<open>auto simp: mid t(3)\<close>)
  have "update_mission_state_route env mid new_state expected w = (Inr m, v2)"
    using assms(1) move v1(1) v2(1) by (simp add: update_mission_state_route_def Let_def bnd_def ensure_result)
  with run v1 v2 t True show ?thesis by (auto simp: adb_def db_state_def)
qed

text \<open>C16. From any history of the tables, whatever requests follow and whatever storage calls they lose, the
  tables go on being a history (unless a create was cut between its two statements): every mission can
  be read, in the state its newest event names, and so can its events.\<close>

theorem requests_keep_history:
  assumes "history (adb w)" and "\<forall>(env, r) \<in> set rs. (\<forall>p. r = CreateRequest p \<longrightarrow> create_uncut env)"
    and "ap_db_ready env" and "ap_fault env = (\<lambda>_. Done)"
    and "row_of (adb (handle_requests rs w)) mid = Some row" and "1 \<le> limit" "limit \<le> 500"
  shows "history (adb (handle_requests rs w))
    \<and> (\<exists>m w' evs w''. get_mission_route env mid (handle_requests rs w) = (Inr m, w')
         \<and> state_value (m_state m) = erow_new (last (mission_log (adb (handle_requests rs w)) mid))
         \<and> get_mission_events_route env mid limit (handle_requests rs w) = (Inr evs, w''))"
  using history_requests [OF assms(2,1)] history_reads [OF _ assms(3,4,5,6,7)] by blast


text \<open>Two operators may answer the same question: when the mission left CLARIFYING between a request's
  read and its writes, that request is answered 409, but its text has replaced the stored one.\<close>

theorem refused_clarification_overwrites:
  assumes "ap_fault env = (\<lambda>_. Done)" and "row_of (adb w) mid = Some row" and "row_state row = state_value s"
    and "s \<noteq> Clarifying"
  shows "\<exists>w' row'. clarify_apply env mid answer mission w = (Inl (HTTPException 409), w')
    \<and> row_of (adb w') mid = Some row' \<and> row_state row' = row_state row \<and> events (adb w') = events (adb w)
    \<and> dget (row_metadata row') ''pm_clarification'' = PStr answer"
  by (rule clarify_applied [OF assms(2,3,1), of answer mission]) (use assms(4) in auto)

section \<open>A sample application\<close>

definition sample_api_env :: api_env where
  "sample_api_env = \<lparr>ap_env = sample_env, ap_audit = sample_audit_env, ap_auto_transition = True,
     ap_protocol_ready = True, ap_redis_ready = True, ap_db_ready = True, ap_vault_up = True,
     ap_dumps = (\<lambda>_. ''json''), ap_fault = (\<lambda>_. Done)\<rparr>"

definition sample_api_world :: "string \<Rightarrow> api_world" where
  "sample_api_world st = \<lparr>aw_world = sample_world st, aw_redis = Some \<lparr>kv = [], ttl = []\<rparr>, aw_events = [],
     aw_tasks = no_tasks\<rparr>"

definition empty_api_world :: api_world where
  "empty_api_world = (sample_api_world [])\<lparr>aw_world := \<lparr>w_db = \<lparr>missions = [], events = [], metrics = []\<rparr>,
     w_stream = [], w_redis_ready = True\<rparr>\<rparr>"

definition sample_create :: MissionCreate where
  "sample_create = \<lparr>mc_mission_id = ''m1'', mc_prompt = ''build'', mc_language = None, mc_mission_type = None,
     mc_depth_mode = None, mc_output_mode = None, mc_data_classification = None,
     mc_metadata = [(''vault'', PDict [(''openai'', PStr ''sk'')])], mc_project_id = None, mc_created_at = None\<rparr>"

lemma sample_api_sel [simp]:
  "ap_db_ready sample_api_env" "ap_fault sample_api_env = (\<lambda>_. Done)" "ap_auto_transition sample_api_env"
  "ap_vault_up sample_api_env" "aw_redis (sample_api_world st) = Some \<lparr>kv = [], ttl = []\<rparr>"
  "create_uncut sample_api_env" "aw_redis empty_api_world = Some \<lparr>kv = [], ttl = []\<rparr>"
  "adb empty_api_world = \<lparr>missions = [], events = [], metrics = []\<rparr>"
  "mc_mission_id sample_create = ''m1''" "mission_create_ok sample_create"
  by (simp_all add: sample_api_env_def sample_api_world_def create_uncut_def empty_api_world_def sample_create_def
      mission_create_ok_def enum_ok_def adb_def)

lemma sample_api_row: "row_of (adb (sample_api_world st)) ''m1'' = Some (sample_row\<lparr>row_state := st\<rparr>)"
  by (simp add: sample_api_world_def sample_world_def sample_db_def row_of_def adb_def)

lemma sample_create_agent: "acting_agent (create_metadata sample_api_env sample_create) ''AGENT-01-PM'' \<noteq> []"
  by (simp add: create_metadata_def acting_agent_def sample_create_def sample_api_env_def split_vault_def Let_def
      py_or_def with_project_identity_def VAULT_METADATA_KEY_def dget_def usable_text_def)


theorem refused_clarification_overwrites_witness:
  "\<exists>w' row'. clarify_apply sample_api_env ''m1'' ''use Rust'' sample_record (sample_api_world ''RUNNING'')
      = (Inl (HTTPException 409), w') \<and> row_of (adb w') ''m1'' = Some row'
      \<and> dget (row_metadata row') ''pm_clarification'' = PStr ''use Rust''"
  using refused_clarification_overwrites [of sample_api_env "sample_api_world ''RUNNING''" "''m1''" _ Running
      "''use Rust''" sample_record] sample_api_row by fastforce


theorem state_route_moves_anywhere_witness:
  "\<exists>m w'. update_mission_state_route sample_api_env ''m1'' Running None (sample_api_world ''COMPLETE'') = (Inr m, w')
     \<and> db_state (adb w') ''m1'' = Some ''RUNNING'' \<and> Running \<notin> set (VALID_TRANSITIONS Complete)"
proof -
  obtain r w' where run: "update_mission_state_route sample_api_env ''m1'' Running None (sample_api_world ''COMPLETE'') = (r, w')"
    by fastforce
  have "acting_agent (row_metadata (sample_row\<lparr>row_state := ''COMPLETE''\<rparr>)) ''SYSTEM'' \<noteq> []"
    by (simp add: sample_row_def acting_agent_def py_or_def dget_def)
  with state_route_moves_anywhere [OF _ _ _ sample_api_row, where s = Complete, OF _ _ _ _ _ run] run
  show ?thesis by auto
qed

theorem requests_keep_history_witness:
  "\<exists>m w' evs w''. get_mission_route sample_api_env ''m1'' (handle_requests [(sample_api_env, CreateRequest sample_create),
       (sample_api_env, StateRequest ''m1'' Running None)] empty_api_world) = (Inr m, w')
     \<and> get_mission_events_route sample_api_env ''m1'' 10 (handle_requests [(sample_api_env, CreateRequest sample_create),
       (sample_api_env, StateRequest ''m1'' Running None)] empty_api_world) = (Inr evs, w'')"
proof -
  let ?rs = "[(sample_api_env, CreateRequest sample_create), (sample_api_env, StateRequest ''m1'' Running None)]"
  have "db_state (adb (handle_requests ?rs empty_api_world)) ''m1'' = Some ''RUNNING''" by code_simp
  then obtain row where row: "row_of (adb (handle_requests ?rs empty_api_world)) ''m1'' = Some row"
    by (auto simp: db_state_def)
  show ?thesis
    using requests_keep_history [OF _ _ _ _ row, where env = sample_api_env and limit = 10] history_empty by auto
qed

end
