(* ===== verification/Project_Ledger.thy ===== *)
theory Project_Ledger
  imports Effects Project_Identity
begin

text \<open>
  The project continuity bus: the tables of \<open>orchestrator/storage_projects.py\<close> (projects, handoffs and
  the work ledger, with the constraints of \<open>V010_project_continuity_bus.sql\<close>) and the two entry points
  of \<open>orchestrator/project_bus.py\<close> that seed, claim and close work items for a mission. Each storage
  call is a transaction of its own: before call number \<open>n\<close> the rest of the system may change the tables
  (\<open>ple_between n\<close>) and the call may be lost (\<open>ple_fault n\<close>). Ids are fresh by the argument
  \<open>ple_hex\<close>; instants are integers.
\<close>

section \<open>Tables\<close>

record project_row =
  pr_name :: string
  pr_source :: "string option"
  pr_status :: string
  pr_plan_authority :: pydict
  pr_metadata :: pydict
  pr_created_at :: int
  pr_updated_at :: int

record handoff_row =
  ho_phase :: string
  ho_next_action :: string
  ho_blockers :: "pyval list"
  ho_last_mission :: "string option"
  ho_revision :: int
  ho_summary :: "string option"
  ho_authority :: pydict
  ho_evidence :: "pyval list"
  ho_updated_at :: int

record work_item =
  wi_project :: string
  wi_title :: string
  wi_status :: string
  wi_source :: string
  wi_mission :: "string option"
  wi_order :: int
  wi_evidence :: "string option"
  wi_metadata :: pydict
  wi_created_at :: int
  wi_updated_at :: int

record ledger =
  ld_projects :: "project_row dict"
  ld_handoffs :: "handoff_row dict"
  ld_items :: "work_item dict"

definition ALLOWED_WORK_STATUSES :: "string list" where
  "ALLOWED_WORK_STATUSES = [''open'', ''in_progress'', ''blocked'', ''done'']"

definition ledger_key :: "string \<Rightarrow> string" where
  "ledger_key pid = normalize_project_id (PStr pid) ''project-unknown''"

definition nonempty_or :: "string \<Rightarrow> string \<Rightarrow> string" where
  "nonempty_or s d = (if s = [] then d else s)"

definition coalesced :: "'a option \<Rightarrow> 'a option \<Rightarrow> 'a option" where
  "coalesced a b = (case a of None \<Rightarrow> b | Some _ \<Rightarrow> a)"

text \<open>The operator \<open>||\<close> of two \<open>jsonb\<close> objects.\<close>

definition jsonb_concat :: "pydict \<Rightarrow> pydict \<Rightarrow> pydict" where
  "jsonb_concat d e = foldl (\<lambda>acc (k, v). dset k v acc) d e"

section \<open>Storage calls\<close>

text \<open>The optional arguments of \<open>upsert_project\<close>, with the defaults of its signature.\<close>

record project_args =
  pa_name :: "string option"
  pa_source :: "string option"
  pa_status :: string
  pa_plan_authority :: pydict
  pa_metadata :: pydict

definition project_args_default :: project_args where
  "project_args_default = \<lparr>pa_name = None, pa_source = None, pa_status = ''active'', pa_plan_authority = [],
     pa_metadata = []\<rparr>"

definition upsert_project :: "int \<Rightarrow> string \<Rightarrow> project_args \<Rightarrow> ledger \<Rightarrow> project_row \<times> ledger" where
  "upsert_project now project_id a db =
     (let pid = ledger_key project_id;
          name = nonempty_or (py_strip (case pa_name a of Some n \<Rightarrow> nonempty_or n pid | None \<Rightarrow> pid)) pid;
          row = (case map_of (ld_projects db) pid of
              None \<Rightarrow> \<lparr>pr_name = name, pr_source = pa_source a, pr_status = pa_status a,
                       pr_plan_authority = pa_plan_authority a, pr_metadata = pa_metadata a,
                       pr_created_at = now, pr_updated_at = now\<rparr>
            | Some old \<Rightarrow> old\<lparr>pr_name := nonempty_or name (pr_name old),
                       pr_source := coalesced (pa_source a) (pr_source old), pr_status := pa_status a,
                       pr_plan_authority := (if pa_plan_authority a = [] then pr_plan_authority old else pa_plan_authority a),
                       pr_metadata := jsonb_concat (pr_metadata old) (pa_metadata a), pr_updated_at := now\<rparr>)
      in (row, db\<lparr>ld_projects := dset pid row (ld_projects db)\<rparr>))"

definition fetch_project :: "string \<Rightarrow> ledger \<Rightarrow> project_row option" where
  "fetch_project project_id db = map_of (ld_projects db) (ledger_key project_id)"

record handoff_args =
  ha_phase :: string
  ha_next_action :: string
  ha_blockers :: "pyval list"
  ha_last_mission :: "string option"
  ha_revision :: "int option"
  ha_summary :: "string option"
  ha_authority :: pydict
  ha_evidence :: "pyval list"

definition handoff_args_default :: handoff_args where
  "handoff_args_default = \<lparr>ha_phase = ''intake'', ha_next_action = ''pm_intake'', ha_blockers = [],
     ha_last_mission = None, ha_revision = None, ha_summary = None, ha_authority = [], ha_evidence = []\<rparr>"

text \<open>The revision that reaches the statement is never null, so its \<open>COALESCE\<close> takes it.\<close>

definition upsert_project_handoff :: "int \<Rightarrow> string \<Rightarrow> handoff_args \<Rightarrow> ledger \<Rightarrow> unit res \<times> ledger" where
  "upsert_project_handoff now project_id a db =
     (let pid = ledger_key project_id;
          revision = (case ha_revision a of Some r \<Rightarrow> r | None \<Rightarrow> 0);
          row = \<lparr>ho_phase = ha_phase a, ho_next_action = ha_next_action a, ho_blockers = ha_blockers a,
                 ho_last_mission = ha_last_mission a, ho_revision = revision, ho_summary = ha_summary a,
                 ho_authority = ha_authority a, ho_evidence = ha_evidence a, ho_updated_at = now\<rparr>;
          row = (case map_of (ld_handoffs db) pid of
              None \<Rightarrow> row
            | Some old \<Rightarrow> row\<lparr>ho_last_mission := coalesced (ha_last_mission a) (ho_last_mission old),
                       ho_revision := the (coalesced (Some revision) (Some (ho_revision old))),
                       ho_summary := coalesced (ha_summary a) (ho_summary old),
                       ho_authority := (if ha_authority a = [] then ho_authority old else ha_authority a)\<rparr>)
      in if \<not> dhas (ld_projects db) pid then (Inl ForeignKeyViolation, db)
         else (Inr (), db\<lparr>ld_handoffs := dset pid row (ld_handoffs db)\<rparr>))"

definition fetch_project_handoff :: "string \<Rightarrow> ledger \<Rightarrow> handoff_row option" where
  "fetch_project_handoff project_id db = map_of (ld_handoffs db) (ledger_key project_id)"

text \<open>\<open>upsert_work_item\<close>; \<open>fresh\<close> is the hexadecimal text of the id it makes up.\<close>

record item_args =
  ia_id :: "string option"
  ia_title :: string
  ia_status :: string
  ia_source :: string
  ia_mission :: "string option"
  ia_order :: int
  ia_evidence :: "string option"
  ia_metadata :: pydict

definition upsert_work_item :: "string \<Rightarrow> int \<Rightarrow> string \<Rightarrow> item_args \<Rightarrow> ledger \<Rightarrow> unit res \<times> ledger" where
  "upsert_work_item fresh now project_id a db =
     (let pid = ledger_key project_id;
          title = nonempty_or (py_strip (ia_title a)) ''untitled'';
          status = (if ia_status a \<in> set ALLOWED_WORK_STATUSES then ia_status a else ''open'');
          wid = (case ia_id a of Some i \<Rightarrow> nonempty_or i (''wi-'' @ take 12 fresh) | None \<Rightarrow> ''wi-'' @ take 12 fresh)
      in case map_of (ld_items db) wid of
           None \<Rightarrow>
             if \<not> dhas (ld_projects db) pid then (Inl ForeignKeyViolation, db)
             else (Inr (), db\<lparr>ld_items := dset wid \<lparr>wi_project = pid, wi_title = title, wi_status = status,
                    wi_source = ia_source a, wi_mission = ia_mission a, wi_order = ia_order a,
                    wi_evidence = ia_evidence a, wi_metadata = ia_metadata a, wi_created_at = now,
                    wi_updated_at = now\<rparr> (ld_items db)\<rparr>)
         | Some old \<Rightarrow>
             (Inr (), db\<lparr>ld_items := dset wid (old\<lparr>wi_title := title, wi_status := status, wi_source := ia_source a,
                    wi_mission := coalesced (ia_mission a) (wi_mission old), wi_order := ia_order a,
                    wi_evidence := coalesced (ia_evidence a) (wi_evidence old),
                    wi_metadata := jsonb_concat (wi_metadata old) (ia_metadata a), wi_updated_at := now\<rparr>)
                    (ld_items db)\<rparr>))"

definition list_work_items :: "string \<Rightarrow> string option \<Rightarrow> int \<Rightarrow> ledger \<Rightarrow> (string \<times> work_item) list" where
  "list_work_items project_id status limit db =
     (let pid = ledger_key project_id;
          wanted = (\<lambda>(wid, i). wi_project i = pid \<and> (case status of
             Some s \<Rightarrow> s \<noteq> [] \<and> s \<in> set ALLOWED_WORK_STATUSES \<longrightarrow> wi_status i = s | None \<Rightarrow> True))
      in take (nat (max 1 (min limit 500)))
           (sort_key (\<lambda>(wid, i). wi_order i) (sort_key (\<lambda>(wid, i). wi_created_at i) (filter wanted (ld_items db)))))"

definition mark_item :: "int \<Rightarrow> string \<Rightarrow> string \<Rightarrow> string option \<Rightarrow> string list \<Rightarrow> work_item \<Rightarrow> work_item" where
  "mark_item now pid mid evidence statuses i =
     (if wi_project i = pid \<and> wi_mission i = Some mid \<and> wi_status i \<in> set statuses
      then i\<lparr>wi_status := ''done'', wi_evidence := coalesced evidence (wi_evidence i), wi_updated_at := now\<rparr> else i)"

definition mark_work_items_done_for_mission ::
  "int \<Rightarrow> string \<Rightarrow> string \<Rightarrow> string option \<Rightarrow> string list \<Rightarrow> ledger \<Rightarrow> int \<times> ledger" where
  "mark_work_items_done_for_mission now project_id mid evidence only_statuses db =
     (let pid = ledger_key project_id;
          statuses = filter (\<lambda>s. s \<in> set ALLOWED_WORK_STATUSES) only_statuses
      in if statuses = [] then (0, db)
         else (int (length (filter (\<lambda>(wid, i). wi_project i = pid \<and> wi_mission i = Some mid \<and> wi_status i \<in> set statuses)
                      (ld_items db))),
               db\<lparr>ld_items := map (\<lambda>(wid, i). (wid, mark_item now pid mid evidence statuses i)) (ld_items db)\<rparr>))"

section \<open>The bus over a changing store\<close>

record ledger_world =
  lw_db :: ledger
  lw_calls :: nat

type_synonym 'a lprog = "(ledger_world, 'a) prog"

record ledger_env =
  ple_now :: int
  ple_stamp :: string
  ple_hex :: "ledger \<Rightarrow> string"
  ple_iso :: "int \<Rightarrow> string"
  ple_between :: "nat \<Rightarrow> ledger \<Rightarrow> ledger"
  ple_fault :: "nat \<Rightarrow> call_outcome"
  ple_error_name :: "exc \<Rightarrow> string"

definition call :: "ledger_env \<Rightarrow> (ledger \<Rightarrow> 'a res \<times> ledger) \<Rightarrow> 'a lprog" where
  "call env f = (\<lambda>w.
     let db = ple_between env (lw_calls w) (lw_db w)
     in service (ple_fault env (lw_calls w)) (\<lambda>v. let (r, db') = f (lw_db v) in (r, v\<lparr>lw_db := db'\<rparr>))
          (w\<lparr>lw_db := db, lw_calls := lw_calls w + 1\<rparr>))"

definition call_project :: "ledger_env \<Rightarrow> string \<Rightarrow> project_args \<Rightarrow> unit lprog" where
  "call_project env pid a = call env (\<lambda>db. (Inr (), snd (upsert_project (ple_now env) pid a db)))"

definition call_fetch :: "ledger_env \<Rightarrow> (ledger \<Rightarrow> 'a) \<Rightarrow> 'a lprog" where
  "call_fetch env f = call env (\<lambda>db. (Inr (f db), db))"

definition call_handoff :: "ledger_env \<Rightarrow> string \<Rightarrow> handoff_args \<Rightarrow> unit lprog" where
  "call_handoff env pid a = call env (upsert_project_handoff (ple_now env) pid a)"

definition call_item :: "ledger_env \<Rightarrow> string \<Rightarrow> item_args \<Rightarrow> unit lprog" where
  "call_item env pid a = call env (\<lambda>db. upsert_work_item (ple_hex env db) (ple_now env) pid a db)"

definition opt_pystr :: "string option \<Rightarrow> pyval" where
  "opt_pystr v = (case v of None \<Rightarrow> PNone | Some s \<Rightarrow> PStr s)"

definition handoff_dict :: "ledger_env \<Rightarrow> string \<Rightarrow> handoff_row \<Rightarrow> pydict" where
  "handoff_dict env pid h =
     [(''project_id'', PStr pid), (''current_phase'', PStr (ho_phase h)), (''next_action'', PStr (ho_next_action h)),
      (''blockers'', PList (ho_blockers h)), (''last_mission_id'', opt_pystr (ho_last_mission h)),
      (''plan_revision'', PInt (ho_revision h)), (''plan_summary'', opt_pystr (ho_summary h)),
      (''authority'', PDict (ho_authority h)), (''evidence_refs'', PList (ho_evidence h)),
      (''updated_at'', PStr (ple_iso env (ho_updated_at h)))]"

definition openish :: "string \<times> work_item \<Rightarrow> bool" where
  "openish = (\<lambda>(wid, i). wi_status i \<in> {''open'', ''in_progress'', ''blocked''})"

text \<open>\<open>load_project_bus\<close>: the three reads; the project itself is not used by its callers.\<close>

definition load_project_bus ::
  "ledger_env \<Rightarrow> string \<Rightarrow> (handoff_row option \<times> (string \<times> work_item) list) lprog" where
  "load_project_bus env project_id =
     bnd (call_fetch env (fetch_project project_id)) (\<lambda>_.
     bnd (call_fetch env (fetch_project_handoff project_id)) (\<lambda>handoff.
     bnd (call_fetch env (list_work_items project_id None 200)) (\<lambda>items.
     ret (handoff, filter openish items))))"

definition handoff_value :: "ledger_env \<Rightarrow> string \<Rightarrow> handoff_row option \<Rightarrow> pyval" where
  "handoff_value env project_id handoff =
     (case handoff of None \<Rightarrow> PNone | Some h \<Rightarrow> PDict (handoff_dict env (ledger_key project_id) h))"

section \<open>Seeding and claiming\<close>

text \<open>The acceptance criteria to seed, the contract's title standing in for missing ones.\<close>

definition contract_title :: "pydict \<Rightarrow> string" where
  "contract_title contract = py_strip (str_or_empty (dget contract ''title''))"

definition seed_criteria :: "pydict \<Rightarrow> pyval list" where
  "seed_criteria contract =
     (let criteria = list_or_empty (py_or (dget contract ''acceptance_criteria'') (PList []))
      in if criteria = []
         then (if contract_title contract = [] then [] else [PStr (contract_title contract)])
         else criteria)"

definition seed_title :: "pyval \<Rightarrow> string" where
  "seed_title item = py_strip (case item of
     PDict d \<Rightarrow> py_str (py_or (dget d ''text'') (py_or (dget d ''title'') (py_or (dget d ''criterion'') (PStr []))))
   | v \<Rightarrow> py_str v)"

fun seed_items :: "ledger_env \<Rightarrow> string \<Rightarrow> string \<Rightarrow> int \<Rightarrow> pyval list \<Rightarrow> unit lprog" where
  "seed_items env pid mid idx [] = ret ()"
| "seed_items env pid mid idx (item # items) =
     bnd (if seed_title item = [] then ret ()
          else call_item env pid \<lparr>ia_id = None, ia_title = take 500 (seed_title item), ia_status = ''in_progress'',
                 ia_source = ''acceptance_criteria'', ia_mission = Some mid, ia_order = idx, ia_evidence = None,
                 ia_metadata = [(''seeded_from'', PStr ''feature_contract'')]\<rparr>) (\<lambda>_.
     seed_items env pid mid (idx + 1) items)"

definition seed_work_items_from_contract :: "ledger_env \<Rightarrow> string \<Rightarrow> string \<Rightarrow> pyval \<Rightarrow> unit lprog" where
  "seed_work_items_from_contract env pid mid contract =
     (case contract of PDict c \<Rightarrow> seed_items env pid mid 0 (take 40 (seed_criteria c)) | _ \<Rightarrow> ret ())"

text \<open>The loop that claims the open items no mission has.\<close>

definition unclaimed :: "work_item \<Rightarrow> bool" where
  "unclaimed i = (case wi_mission i of None \<Rightarrow> True | Some m \<Rightarrow> m = [])"

fun claim_items :: "ledger_env \<Rightarrow> string \<Rightarrow> string \<Rightarrow> (string \<times> work_item) list \<Rightarrow> unit lprog" where
  "claim_items env pid mid [] = ret ()"
| "claim_items env pid mid ((wid, i) # items) =
     bnd (if \<not> unclaimed i then ret ()
          else call_item env pid \<lparr>ia_id = Some wid, ia_title = wi_title i, ia_status = ''in_progress'',
                 ia_source = nonempty_or (wi_source i) ''mission'', ia_mission = Some mid, ia_order = wi_order i,
                 ia_evidence = None, ia_metadata = [(''claimed_by_mission'', PStr mid)]\<rparr>) (\<lambda>_.
     claim_items env pid mid items)"

section \<open>A mission joins its project\<close>

definition bootstrap_project ::
  "ledger_env \<Rightarrow> string \<Rightarrow> string \<Rightarrow> string option \<Rightarrow> string \<Rightarrow> pyval \<Rightarrow> unit lprog" where
  "bootstrap_project env pid name source mid contract =
     bnd (call_project env pid (project_args_default\<lparr>pa_name := Some name, pa_source := source,
            pa_metadata := [(''bootstrapped_by_mission'', PStr mid)]\<rparr>)) (\<lambda>_.
     bnd (call_handoff env pid (handoff_args_default\<lparr>ha_last_mission := Some mid, ha_revision := Some 0\<rparr>)) (\<lambda>_.
     seed_work_items_from_contract env pid mid contract))"

definition adopt_contract :: "ledger_env \<Rightarrow> string \<Rightarrow> string \<Rightarrow> string \<Rightarrow> pydict \<Rightarrow> unit lprog" where
  "adopt_contract env pid name mid contract =
     (let title = contract_title contract;
          authority = [(''feature_contract_title'', PStr title),
            (''acceptance_criteria_count'',
               PInt (int (length (list_or_empty (py_or (dget contract ''acceptance_criteria'') (PList [])))))),
            (''mission_id'', PStr mid)]
      in bnd (call_project env pid (project_args_default\<lparr>pa_name := Some name, pa_plan_authority := authority\<rparr>)) (\<lambda>_.
         bnd (call_fetch env (fetch_project_handoff pid)) (\<lambda>prev.
         call_handoff env pid
           \<lparr>ha_phase = ''pm_intake'', ha_next_action = ''build'',
            ha_blockers = (case prev of None \<Rightarrow> [] | Some h \<Rightarrow> ho_blockers h), ha_last_mission = Some mid,
            ha_revision = Some ((case prev of None \<Rightarrow> 0 | Some h \<Rightarrow> ho_revision h) + 1),
            ha_summary = (if title = [] then (case prev of None \<Rightarrow> None | Some h \<Rightarrow> ho_summary h) else Some title),
            ha_authority = authority, ha_evidence = (case prev of None \<Rightarrow> [] | Some h \<Rightarrow> ho_evidence h)\<rparr>)))"

definition rejoin_project ::
  "ledger_env \<Rightarrow> string \<Rightarrow> string \<Rightarrow> string option \<Rightarrow> string \<Rightarrow> pyval \<Rightarrow> project_row \<Rightarrow> unit lprog" where
  "rejoin_project env pid name source mid contract existing =
     bnd (call_project env pid (project_args_default\<lparr>pa_name := Some name, pa_source := coalesced source (pr_source existing)\<rparr>)) (\<lambda>_.
     bnd (call_fetch env (fetch_project_handoff pid)) (\<lambda>handoff.
     bnd (case handoff of
            None \<Rightarrow> call_handoff env pid (handoff_args_default\<lparr>ha_last_mission := Some mid\<rparr>)
          | Some _ \<Rightarrow>
              bnd (call_fetch env (list_work_items pid (Some ''open'') 50)) (\<lambda>open_items.
              bnd (claim_items env pid mid open_items) (\<lambda>_.
              bnd (call_fetch env (list_work_items pid None 5)) (\<lambda>all_items.
              if all_items = [] \<and> is_dict contract
              then seed_work_items_from_contract env pid mid contract else ret ())))) (\<lambda>_.
     case contract of
       PDict c \<Rightarrow> if c = [] then ret () else adopt_contract env pid name mid c
     | _ \<Rightarrow> ret ())))"

definition item_brief :: "string \<times> work_item \<Rightarrow> pyval" where
  "item_brief = (\<lambda>(wid, i). PDict [(''work_item_id'', PStr wid), (''title'', PStr (wi_title i)), (''status'', PStr (wi_status i))])"

definition bus_snapshot :: "ledger_env \<Rightarrow> string \<Rightarrow> handoff_row option \<times> (string \<times> work_item) list \<Rightarrow> pydict" where
  "bus_snapshot env pid = (\<lambda>(handoff, open_items).
     [(''project_id'', PStr pid), (''handoff'', handoff_value env pid handoff),
      (''open_work_item_count'', PInt (int (length open_items))),
      (''open_work_items'', PList (map item_brief (take 20 open_items))),
      (''plan_revision'', case handoff of None \<Rightarrow> PNone | Some h \<Rightarrow> PInt (ho_revision h))])"

text \<open>\<open>try\<close> whose handler returns a document.\<close>

definition guarded :: "'a lprog \<Rightarrow> (exc \<Rightarrow> 'a) \<Rightarrow> 'a lprog" where
  "guarded m h = (\<lambda>w. case m w of (Inl e, w') \<Rightarrow> (Inr (h e), w') | (Inr x, w') \<Rightarrow> (Inr x, w'))"

definition ensure_project_bus_for_mission :: "ledger_env \<Rightarrow> string \<Rightarrow> pydict \<Rightarrow> pyval \<Rightarrow> pydict lprog" where
  "ensure_project_bus_for_mission env mid metadata contract =
     (let meta = with_project_identity (PDict metadata) (PStr mid);
          pid = resolve_project_id (PDict meta) (PStr mid);
          name = py_str (py_or (dget meta ''project_name'') (py_or (dget meta ''source'') (PStr pid)));
          src = py_strip (str_or_empty (dget meta ''source''));
          source = (if src = [] then None else Some src)
      in guarded
           (bnd (call_fetch env (fetch_project pid)) (\<lambda>existing.
            bnd (case existing of
                   None \<Rightarrow> bootstrap_project env pid name source mid contract
                 | Some p \<Rightarrow> rejoin_project env pid name source mid contract p) (\<lambda>_.
            bnd (load_project_bus env pid) (\<lambda>bus.
            ret (dset ''project_bus'' (PDict (bus_snapshot env pid bus)) (dset ''project_id'' (PStr pid) meta))))))
           (\<lambda>e. dset ''project_bus_error'' (PStr (ple_error_name env e)) (dset ''project_id'' (PStr pid) meta)))"

section \<open>A mission leaves its project\<close>

definition outcome_norm :: "string \<Rightarrow> string" where
  "outcome_norm outcome = py_lower (py_strip (nonempty_or outcome ''complete''))"

definition completed_outcome :: "string \<Rightarrow> bool" where
  "completed_outcome o' = (o' \<in> set [''complete'', ''delivered'', ''success''])"

definition blocked_outcome :: "string \<Rightarrow> bool" where
  "blocked_outcome o' = (o' \<in> set [''blocked'', ''failed'', ''clarifying''])"

definition finalize_evidence :: "string option \<Rightarrow> string \<Rightarrow> pydict \<Rightarrow> string \<Rightarrow> string" where
  "finalize_evidence evidence_ref mid delivery o' =
     (case evidence_ref of
        Some e \<Rightarrow> nonempty_or e (''mission:'' @ mid @ (if delivery \<noteq> [] then '':delivery'' else '':'' @ o'))
      | None \<Rightarrow> ''mission:'' @ mid @ (if delivery \<noteq> [] then '':delivery'' else '':'' @ o'))"

text \<open>\<open>(meta.get("feature_contract") or \<open>{}\<close>).get("title")\<close>, reached when the delivery has no title.\<close>

definition delivered_summary :: "pydict \<Rightarrow> pydict \<Rightarrow> string option res" where
  "delivered_summary meta delivery =
     rbind (if truthy (dget delivery ''delivery_title'') then Inr (dget delivery ''delivery_title'')
            else (case py_or (dget meta ''feature_contract'') (PDict []) of
                    PDict c \<Rightarrow> Inr (py_or (dget c ''title'') (PStr []))
                  | _ \<Rightarrow> Inl AttributeError)) (\<lambda>v.
     Inr (if py_str v = [] then None else Some (py_str v)))"

definition close_completed :: "ledger_env \<Rightarrow> string \<Rightarrow> string \<Rightarrow> pydict \<Rightarrow> pydict \<Rightarrow> string \<Rightarrow> unit lprog" where
  "close_completed env pid mid meta delivery evidence =
     bnd (call env (\<lambda>db. let (n, db) = mark_work_items_done_for_mission (ple_now env) pid mid (Some evidence)
                                 [''open'', ''in_progress''] db in (Inr n, db))) (\<lambda>_.
     bnd (lift_res (delivered_summary meta delivery)) (\<lambda>summary.
     bnd (call_handoff env pid (handoff_args_default\<lparr>ha_phase := ''delivered'', ha_next_action := ''await_follow_on'',
            ha_last_mission := Some mid, ha_summary := summary,
            ha_authority := [(''last_outcome'', PStr ''complete''), (''mission_id'', PStr mid)],
            ha_evidence := [PStr evidence]\<rparr>)) (\<lambda>_.
     call_project env pid project_args_default)))"

definition block_reason :: "pydict \<Rightarrow> string \<Rightarrow> string" where
  "block_reason meta o' = py_str (py_or (dget meta ''block_reason'') (py_or (dget meta ''failure_reason'') (PStr o')))"

definition close_blocked :: "ledger_env \<Rightarrow> string \<Rightarrow> string \<Rightarrow> pydict \<Rightarrow> string \<Rightarrow> string \<Rightarrow> unit lprog" where
  "close_blocked env pid mid meta o' evidence =
     bnd (call_handoff env pid (handoff_args_default\<lparr>ha_phase := o', ha_next_action := ''operator_review'',
            ha_last_mission := Some mid,
            ha_blockers := [PDict [(''mission_id'', PStr mid), (''outcome'', PStr o'), (''reason'', PStr (block_reason meta o'))]],
            ha_evidence := [PStr evidence],
            ha_authority := [(''last_outcome'', PStr o'), (''mission_id'', PStr mid)]\<rparr>)) (\<lambda>_.
     if o' = ''failed'' then call_project env pid (project_args_default\<lparr>pa_status := ''paused''\<rparr>) else ret ())"

definition finalize_project_bus_for_mission ::
  "ledger_env \<Rightarrow> string \<Rightarrow> pydict \<Rightarrow> string \<Rightarrow> string option \<Rightarrow> pydict lprog" where
  "finalize_project_bus_for_mission env mid metadata outcome evidence_ref =
     (let meta = metadata;
          pid = resolve_project_id (PDict meta) (PStr mid);
          o' = outcome_norm outcome;
          delivery = dict_or_empty (dget meta ''delivery_summary'');
          evidence = finalize_evidence evidence_ref mid delivery o'
      in guarded
           (bnd (if completed_outcome o' then close_completed env pid mid meta delivery evidence
                 else if blocked_outcome o' then close_blocked env pid mid meta o' evidence
                 else call_handoff env pid (handoff_args_default\<lparr>ha_phase := o', ha_next_action := ''continue'',
                        ha_last_mission := Some mid, ha_evidence := [PStr evidence]\<rparr>)) (\<lambda>_.
            bnd (load_project_bus env pid) (\<lambda>(handoff, open_items).
            ret (dset ''project_bus'' (PDict [(''project_id'', PStr pid), (''handoff'', handoff_value env pid handoff),
                   (''open_work_item_count'', PInt (int (length open_items))), (''finalized_outcome'', PStr o')]) meta))))
           (\<lambda>e. dset ''project_bus_finalize_error'' (PStr (ple_error_name env e)) meta))"

section \<open>Calls without interference\<close>

definition alone :: "ledger_env \<Rightarrow> bool" where
  "alone env \<longleftrightarrow> ple_between env = (\<lambda>n db. db)"

lemma call_done:
  assumes "alone env" and "ple_fault env = (\<lambda>_. Done)"
  shows "call env f w = (fst (f (lw_db w)), \<lparr>lw_db = snd (f (lw_db w)), lw_calls = lw_calls w + 1\<rparr>)"
  using assms by (simp add: call_def alone_def service_def case_prod_beta Let_def)

text \<open>The tables before and after, for a relation the calls of a program keep.\<close>

definition over_db :: "(ledger \<Rightarrow> ledger \<Rightarrow> bool) \<Rightarrow> ledger_world \<Rightarrow> ledger_world \<Rightarrow> bool" where
  "over_db R w w' = R (lw_db w) (lw_db w')"

lemma call_keeps:
  assumes "alone env" and "\<And>db. R db db" and "\<And>db. R db (snd (f db))"
  shows "keeps (over_db R) (call env f)"
  unfolding keeps_def over_db_def
proof
  fix w
  show "R (lw_db w) (lw_db (snd (call env f w)))"
    using assms by (cases "ple_fault env (lw_calls w)") (simp_all add: call_def alone_def service_def case_prod_beta Let_def)
qed

section \<open>Work items that are done\<close>

text \<open>The done items are the same, with the same contents.\<close>

definition same_done :: "ledger \<Rightarrow> ledger \<Rightarrow> bool" where
  "same_done db db' \<longleftrightarrow> (\<forall>wid i. wi_status i = ''done'' \<longrightarrow>
     (map_of (ld_items db) wid = Some i \<longleftrightarrow> map_of (ld_items db') wid = Some i))"

lemma same_done_of_items: "ld_items db' = ld_items db \<Longrightarrow> same_done db db'"
  by (simp add: same_done_def)

lemma same_done_trans: "same_done a b \<Longrightarrow> same_done b c \<Longrightarrow> same_done a c"
  by (simp add: same_done_def)

text \<open>Relative to a ledger \<open>base\<close>: what spared its done items goes on doing so.\<close>

definition spared :: "ledger \<Rightarrow> ledger \<Rightarrow> ledger \<Rightarrow> bool" where
  "spared base db db' \<longleftrightarrow> (same_done base db \<longrightarrow> same_done base db')"

interpretation done_items: preorder_rel "over_db (spared base)"
  by standard (simp_all add: over_db_def spared_def)

text \<open>The ids made up during the run are not ids of the ledger it started from.\<close>

definition ids_fresh :: "ledger_env \<Rightarrow> ledger \<Rightarrow> bool" where
  "ids_fresh env base \<longleftrightarrow> (\<forall>db. \<not> dhas (ld_items base) (''wi-'' @ take 12 (ple_hex env db)))"

lemma spared_items: "ld_items db' = ld_items db \<Longrightarrow> spared base db db'"
  by (simp add: spared_def same_done_def)

lemma done_project [keeps_intros]: "alone env \<Longrightarrow> keeps (over_db (spared base)) (call_project env pid a)"
  unfolding call_project_def by (rule call_keeps) (simp_all add: spared_items upsert_project_def Let_def)

lemma done_fetch [keeps_intros]: "alone env \<Longrightarrow> keeps (over_db (spared base)) (call_fetch env f)"
  unfolding call_fetch_def by (rule call_keeps) (simp_all add: spared_items)

lemma done_handoff [keeps_intros]: "alone env \<Longrightarrow> keeps (over_db (spared base)) (call_handoff env pid a)"
  unfolding call_handoff_def
  by (rule call_keeps) (simp_all add: spared_items upsert_project_handoff_def Let_def)

lemma done_fresh_item:
  assumes "alone env" and "ids_fresh env base" and "ia_id a = None" and "ia_status a \<noteq> ''done''"
  shows "keeps (over_db (spared base)) (call_item env pid a)"
  unfolding call_item_def
proof (rule call_keeps [OF assms(1)])
  fix db
  let ?wid = "''wi-'' @ take 12 (ple_hex env db)"
  have fresh: "map_of (ld_items base) ?wid = None" using assms(2) by (simp add: ids_fresh_def dhas_def)
  show "spared base db (snd (upsert_work_item (ple_hex env db) (ple_now env) pid a db))"
    unfolding spared_def
  proof
    assume db: "same_done base db"
    with fresh have "map_of (ld_items db) ?wid = Some i \<Longrightarrow> wi_status i \<noteq> ''done''" for i
      unfolding same_done_def by (metis option.distinct(1))
    then show "same_done base (snd (upsert_work_item (ple_hex env db) (ple_now env) pid a db))"
      using assms(3,4) db fresh
      by (auto simp: upsert_work_item_def same_done_def Let_def split: option.split)
  qed
qed (simp add: spared_def)

lemma done_seed [keeps_intros]:
  assumes "alone env" and "ids_fresh env base"
  shows "keeps (over_db (spared base)) (seed_work_items_from_contract env pid mid contract)"
proof -
  have "keeps (over_db (spared base)) (seed_items env pid mid idx items)" for idx items
    by (induction items arbitrary: idx) (auto intro!: keeps_intros done_fresh_item assms)
  then show ?thesis unfolding seed_work_items_from_contract_def
    by (cases contract) (auto intro: keeps_intros)
qed

text \<open>A claim touches an item of the ledger that is not done.\<close>

definition not_done :: "ledger \<Rightarrow> string \<Rightarrow> bool" where
  "not_done db wid \<longleftrightarrow> (\<exists>i. map_of (ld_items db) wid = Some i \<and> wi_status i \<noteq> ''done'')"

lemma claim_step:
  assumes "alone env" and "not_done (lw_db w) wid" and "wid \<noteq> []" and "ia_id a = Some wid" and "ia_status a = ''in_progress''"
  shows "same_done (lw_db w) (lw_db (snd (call_item env pid a w)))
    \<and> (\<forall>x. not_done (lw_db w) x \<longrightarrow> not_done (lw_db (snd (call_item env pid a w))) x)"
proof -
  let ?db = "snd (upsert_work_item (ple_hex env (lw_db w)) (ple_now env) pid a (lw_db w))"
  have "same_done (lw_db w) ?db \<and> (\<forall>x. not_done (lw_db w) x \<longrightarrow> not_done ?db x)"
    using assms(2-5)
    by (auto simp: upsert_work_item_def not_done_def same_done_def nonempty_or_def ALLOWED_WORK_STATUSES_def Let_def
        split: if_splits)
  moreover have "lw_db (snd (call_item env pid a w)) \<in> {lw_db w, ?db}"
    using assms(1) by (cases "ple_fault env (lw_calls w)")
      (simp_all add: call_item_def call_def alone_def service_def case_prod_beta Let_def)
  ultimately show ?thesis by (auto simp: same_done_def)
qed

lemma claims_same_done:
  assumes "alone env" and "\<forall>(wid, i) \<in> set items. wid \<noteq> [] \<and> not_done (lw_db w) wid"
  shows "same_done (lw_db w) (lw_db (snd (claim_items env pid mid items w)))"
  using assms(2)
proof (induction items arbitrary: w)
  case (Cons x items)
  obtain wid i where x: "x = (wid, i)" by (cases x)
  show ?case
  proof (cases "unclaimed i")
    case False
    with Cons x show ?thesis by simp
  next
    case True
    let ?a = "\<lparr>ia_id = Some wid, ia_title = wi_title i, ia_status = ''in_progress'',
      ia_source = nonempty_or (wi_source i) ''mission'', ia_mission = Some mid, ia_order = wi_order i,
      ia_evidence = None, ia_metadata = [(''claimed_by_mission'', PStr mid)]\<rparr>"
    obtain r v where v: "call_item env pid ?a w = (r, v)" by fastforce
    have step: "same_done (lw_db w) (lw_db v)" "\<forall>y. not_done (lw_db w) y \<longrightarrow> not_done (lw_db v) y"
      using claim_step [OF assms(1), of w wid ?a pid] Cons.prems x v by auto
    then have "\<forall>(wid, i) \<in> set items. wid \<noteq> [] \<and> not_done (lw_db v) wid" using Cons.prems by auto
    from Cons.IH [OF this] step(1) True x v show ?thesis
      by (cases r) (auto simp: bnd_def same_done_def)
  qed
qed (simp add: same_done_def)

text \<open>What the ledger's primary key gives: one row per id, and no empty id.\<close>

definition ledger_ok :: "ledger \<Rightarrow> bool" where
  "ledger_ok db \<longleftrightarrow> distinct (dkeys (ld_items db)) \<and> [] \<notin> set (dkeys (ld_items db))"

lemma listed_open:
  assumes "ledger_ok db" and "(wid, i) \<in> set (list_work_items pid (Some ''open'') n db)"
  shows "wid \<noteq> [] \<and> not_done db wid"
proof -
  have i: "(wid, i) \<in> set (ld_items db)" "wi_status i = ''open''"
    using assms(2) by (auto simp: list_work_items_def Let_def ALLOWED_WORK_STATUSES_def dest!: in_set_takeD)
  from i(1) have "wid \<in> set (dkeys (ld_items db))" by (force simp: dkeys_def)
  moreover have "map_of (ld_items db) wid = Some i" using assms(1) i(1) by (simp add: ledger_ok_def dkeys_def)
  ultimately show ?thesis using assms(1) i(2) by (auto simp: ledger_ok_def not_done_def)
qed

definition same_items :: "ledger \<Rightarrow> ledger \<Rightarrow> bool" where
  "same_items db db' \<longleftrightarrow> ld_items db' = ld_items db"

interpretation item_table: preorder_rel "over_db same_items"
  by standard (simp_all add: over_db_def same_items_def)

lemma items_project: "alone env \<Longrightarrow> keeps (over_db same_items) (call_project env pid a)"
  unfolding call_project_def by (rule call_keeps) (simp_all add: same_items_def upsert_project_def Let_def)

lemma items_fetch: "alone env \<Longrightarrow> keeps (over_db same_items) (call_fetch env f)"
  unfolding call_fetch_def by (rule call_keeps) (simp_all add: same_items_def)

lemma fetch_result: "call_fetch env f w = (Inr x, v) \<Longrightarrow> x = f (lw_db v)"
  by (cases "ple_fault env (lw_calls w)") (auto simp: call_fetch_def call_def service_def Let_def)

lemma claims_listed:
  assumes "alone env" and "ledger_ok (lw_db w)"
  shows "same_done (lw_db w) (lw_db (snd (bnd (call_fetch env (list_work_items pid (Some ''open'') 50))
    (claim_items env pid mid) w)))"
proof -
  obtain r v where v: "call_fetch env (list_work_items pid (Some ''open'') 50) w = (r, v)" by fastforce
  have eq: "ld_items (lw_db v) = ld_items (lw_db w)"
    using keeps_result [OF items_fetch [OF assms(1)] v] by (simp add: over_db_def same_items_def)
  show ?thesis
  proof (cases r)
    case (Inl e)
    then show ?thesis using v eq by (simp add: bnd_def same_done_of_items)
  next
    case (Inr items)
    have "ledger_ok (lw_db v)" using assms(2) eq by (simp add: ledger_ok_def)
    moreover have "items = list_work_items pid (Some ''open'') 50 (lw_db v)"
      using v Inr by (auto dest: fetch_result)
    ultimately have "\<forall>(wid, i) \<in> set items. wid \<noteq> [] \<and> not_done (lw_db v) wid"
      using listed_open by fast
    from claims_same_done [OF assms(1) this] Inr v eq show ?thesis
      by (simp add: bnd_def same_done_def)
  qed
qed

text \<open>Programs that keep the done items when they start from a well-formed ledger.\<close>

definition spares_done :: "ledger \<Rightarrow> 'a lprog \<Rightarrow> bool" where
  "spares_done base m \<longleftrightarrow> (\<forall>w. ledger_ok (lw_db w) \<longrightarrow> spared base (lw_db w) (lw_db (snd (m w))))"

lemma spares_keeps: "keeps (over_db (spared base)) m \<Longrightarrow> spares_done base m"
  by (simp add: spares_done_def keeps_def over_db_def)

lemma spares_after:
  assumes "keeps (over_db same_items) m" and "\<And>x. spares_done base (f x)"
  shows "spares_done base (bnd m f)"
  unfolding spares_done_def
proof (intro allI impI)
  fix w :: ledger_world
  assume ok: "ledger_ok (lw_db w)"
  obtain r v where v: "m w = (r, v)" by fastforce
  have eq: "ld_items (lw_db v) = ld_items (lw_db w)"
    using keeps_result [OF assms(1) v] by (simp add: over_db_def same_items_def)
  then have "ledger_ok (lw_db v)" using ok by (simp add: ledger_ok_def)
  then show "spared base (lw_db w) (lw_db (snd (bnd m f w)))"
    using assms(2) v eq by (cases r) (auto simp: bnd_def spares_done_def spared_def same_done_def)
qed

lemma spares_before:
  assumes "spares_done base m" and "\<And>x. keeps (over_db (spared base)) (f x)"
  shows "spares_done base (bnd m f)"
  unfolding spares_done_def
proof (intro allI impI)
  fix w :: ledger_world
  assume ok: "ledger_ok (lw_db w)"
  obtain r v where v: "m w = (r, v)" by fastforce
  have "spared base (lw_db w) (lw_db v)" using assms(1) ok v unfolding spares_done_def by (metis snd_conv)
  moreover have "spared base (lw_db v) (lw_db (snd (f x v)))" for x
    using assms(2) by (simp add: keeps_def over_db_def)
  ultimately show "spared base (lw_db w) (lw_db (snd (bnd m f w)))"
    using v by (cases r) (auto simp: bnd_def spared_def)
qed

lemma bnd_nest: "bnd (bnd m f) g = bnd m (\<lambda>x. bnd (f x) g)"
  by (auto simp: bnd_def fun_eq_iff split: prod.split sum.split)

lemma done_adopt [keeps_intros]: "alone env \<Longrightarrow> keeps (over_db (spared base)) (adopt_contract env pid name mid c)"
  unfolding adopt_contract_def Let_def by (intro keeps_intros)

lemma rejoin_spares:
  assumes "alone env" and "ids_fresh env base"
  shows "spares_done base (rejoin_project env pid name source mid contract existing)"
proof -
  have contract: "keeps (over_db (spared base))
      (case contract of PDict c \<Rightarrow> if c = [] then ret () else adopt_contract env pid name mid c | _ \<Rightarrow> ret ())"
    using assms(1) by (cases contract) (auto intro: keeps_intros)
  have claims: "spares_done base (bnd (call_fetch env (list_work_items pid (Some ''open'') 50)) (claim_items env pid mid))"
    using claims_listed [OF assms(1)] unfolding spares_done_def spared_def by (blast intro: same_done_trans)
  have seeds: "keeps (over_db (spared base)) (bnd (call_fetch env (list_work_items pid None 5)) (\<lambda>all_items.
      if all_items = [] \<and> is_dict contract then seed_work_items_from_contract env pid mid contract else ret ()))"
    using assms by (intro keeps_intros)
  have loop: "spares_done base (bnd (call_fetch env (list_work_items pid (Some ''open'') 50)) (\<lambda>open_items.
      bnd (claim_items env pid mid open_items) (\<lambda>_. bnd (call_fetch env (list_work_items pid None 5)) (\<lambda>all_items.
      if all_items = [] \<and> is_dict contract then seed_work_items_from_contract env pid mid contract else ret ()))))"
    using spares_before [OF claims seeds] by (simp add: bnd_nest)
  show ?thesis unfolding rejoin_project_def
  proof (rule spares_after [OF items_project [OF assms(1)] spares_after [OF items_fetch [OF assms(1)] spares_before [OF _ contract]]])
    fix handoff :: "handoff_row option"
    show "spares_done base (case handoff of
        None \<Rightarrow> call_handoff env pid (handoff_args_default\<lparr>ha_last_mission := Some mid\<rparr>)
      | Some _ \<Rightarrow> bnd (call_fetch env (list_work_items pid (Some ''open'') 50)) (\<lambda>open_items.
          bnd (claim_items env pid mid open_items) (\<lambda>_. bnd (call_fetch env (list_work_items pid None 5)) (\<lambda>all_items.
          if all_items = [] \<and> is_dict contract then seed_work_items_from_contract env pid mid contract else ret ()))))"
      using loop spares_keeps [OF done_handoff [OF assms(1)]] by (cases handoff) simp_all
  qed
qed

lemma guarded_world: "snd (guarded m h w) = snd (m w)"
  by (simp add: guarded_def split: prod.split sum.split)

lemma spares_guarded: "spares_done base m \<Longrightarrow> spares_done base (guarded m h)"
  by (simp add: spares_done_def guarded_world)

lemma ensure_spares:
  assumes "alone env" and "ids_fresh env base"
  shows "spares_done base (ensure_project_bus_for_mission env mid metadata contract)"
proof -
  have boot: "keeps (over_db (spared base)) (bootstrap_project env pid name source mid contract)" for pid name source
    unfolding bootstrap_project_def using assms by (intro keeps_intros)
  have load: "keeps (over_db (spared base)) (load_project_bus env pid)" for pid
    unfolding load_project_bus_def using assms(1) by (intro keeps_intros)
  have join: "spares_done base (case existing of None \<Rightarrow> bootstrap_project env pid name source mid contract
      | Some p \<Rightarrow> rejoin_project env pid name source mid contract p)" for existing pid name source
    using rejoin_spares [OF assms] spares_keeps [OF boot] by (cases existing) simp_all
  have body: "spares_done base (bnd (call_fetch env (fetch_project pid)) (\<lambda>existing.
      bnd (case existing of None \<Rightarrow> bootstrap_project env pid name source mid contract
             | Some p \<Rightarrow> rejoin_project env pid name source mid contract p) (\<lambda>_.
      bnd (load_project_bus env pid) (\<lambda>bus. ret (g bus)))))" for pid name source and g :: "_ \<Rightarrow> pydict"
    by (intro spares_after [OF items_fetch [OF assms(1)]] spares_before [OF join] done_items.keeps_bnd load keeps_intros)
  show ?thesis unfolding ensure_project_bus_for_mission_def Let_def by (rule spares_guarded, rule body)
qed

section \<open>Closing work items\<close>

text \<open>Every item is as before, or was an active one of the mission and is done.\<close>

definition closes :: "string \<Rightarrow> string \<Rightarrow> bool \<Rightarrow> ledger \<Rightarrow> ledger \<Rightarrow> bool" where
  "closes pid mid completed db db' \<longleftrightarrow> (\<forall>wid i'. map_of (ld_items db') wid = Some i' \<longrightarrow>
     (\<exists>i. map_of (ld_items db) wid = Some i \<and> (i' = i \<or> completed \<and> wi_project i = pid \<and> wi_mission i = Some mid
        \<and> wi_status i \<in> {''open'', ''in_progress''} \<and> wi_status i' = ''done'')))"

interpretation closing: preorder_rel "over_db (closes pid mid completed)"
proof
  show "over_db (closes pid mid completed) w w" for w by (simp add: over_db_def closes_def)
  fix u v w
  assume "over_db (closes pid mid completed) u v" "over_db (closes pid mid completed) v w"
  then show "over_db (closes pid mid completed) u w" unfolding over_db_def closes_def by fastforce
qed

lemma closes_items: "ld_items db' = ld_items db \<Longrightarrow> closes pid mid c db db'"
  by (simp add: closes_def)

lemma closes_handoff [keeps_intros]: "alone env \<Longrightarrow> keeps (over_db (closes p m c)) (call_handoff env pid a)"
  unfolding call_handoff_def
  by (rule call_keeps) (simp_all add: closes_items upsert_project_handoff_def Let_def)

lemma closes_project [keeps_intros]: "alone env \<Longrightarrow> keeps (over_db (closes p m c)) (call_project env pid a)"
  unfolding call_project_def by (rule call_keeps) (simp_all add: closes_items upsert_project_def Let_def)

lemma closes_fetch [keeps_intros]: "alone env \<Longrightarrow> keeps (over_db (closes p m c)) (call_fetch env f)"
  unfolding call_fetch_def by (rule call_keeps) (simp_all add: closes_items)

lemma closes_load [keeps_intros]: "alone env \<Longrightarrow> keeps (over_db (closes p m c)) (load_project_bus env pid)"
  unfolding load_project_bus_def by (intro keeps_intros)

lemma closes_mark:
  "closes (ledger_key pid) mid True db
     (snd (mark_work_items_done_for_mission now pid mid ev [''open'', ''in_progress''] db))"
  by (auto simp: closes_def mark_work_items_done_for_mission_def ALLOWED_WORK_STATUSES_def map_of_map mark_item_def Let_def)

lemma ledger_key_resolved [simp]: "ledger_key (resolve_project_id d mid) = resolve_project_id d mid"
  unfolding ledger_key_def by (rule canonical_id_fixed [OF resolve_canonical])

lemma py_strip_resolved [simp]: "py_strip (resolve_project_id d mid) = resolve_project_id d mid"
proof -
  have c: "canonical_id (resolve_project_id d mid)" by (rule resolve_canonical)
  then have "resolve_project_id d mid \<noteq> []" by (auto simp: canonical_id_def dest: canonical_id_prefix)
  with c show ?thesis unfolding py_strip_def canonical_id_def list_all_iff
    by (intro strip_by_id) (auto simp: slug_char_not_space)
qed

lemma resolved_not_Nil [simp]: "resolve_project_id d mid \<noteq> []"
  using resolve_canonical [of d mid] by (auto simp: canonical_id_def dest: canonical_id_prefix)

lemma closes_completed:
  "alone env \<Longrightarrow> keeps (over_db (closes (ledger_key pid) mid True)) (close_completed env pid mid meta delivery evidence)"
  unfolding close_completed_def
  by (intro keeps_intros call_keeps) (simp_all add: case_prod_beta closes_mark closes_items Let_def)

lemma guarded_keeps: "keeps R m \<Longrightarrow> keeps R (guarded m h)"
  by (simp add: keeps_def guarded_world)

lemma finalize_closes:
  assumes "alone env"
  shows "keeps (over_db (closes (resolve_project_id (PDict metadata) (PStr mid)) mid
      (completed_outcome (outcome_norm outcome)))) (finalize_project_bus_for_mission env mid metadata outcome evidence_ref)"
proof -
  let ?pid = "resolve_project_id (PDict metadata) (PStr mid)"
  have closed: "keeps (over_db (closes ?pid mid c)) (close_completed env ?pid mid meta delivery evidence)" if c for meta delivery evidence c
    using closes_completed [OF assms, of ?pid mid meta delivery evidence] that by simp
  have block: "keeps (over_db (closes ?pid mid c)) (close_blocked env ?pid mid meta o' evidence)" for meta o' evidence c
    unfolding close_blocked_def using assms by (intro keeps_intros)
  show ?thesis unfolding finalize_project_bus_for_mission_def Let_def
    using assms by (intro guarded_keeps keeps_intros closed block)
qed

section \<open>Properties\<close>


text \<open>The bus never fails a mission: whatever calls are lost and whatever others write, both entry points
  return the mission's document with its own entries unchanged.\<close>

theorem bus_never_fails_mission:
  "\<exists>d w' d' w''. ensure_project_bus_for_mission env mid metadata contract w = (Inr d, w')
    \<and> finalize_project_bus_for_mission env mid metadata outcome evidence_ref w = (Inr d', w'')
    \<and> dget d ''project_id'' = PStr (resolve_project_id (PDict metadata) (PStr mid))
    \<and> (k \<in> {''project_id'', ''project_name'', ''project_bus'', ''project_bus_error'', ''project_bus_finalize_error''}
       \<or> dget d k = dget metadata k \<and> dget d' k = dget metadata k)"
proof -
  have total: "\<exists>d w'. guarded m h w = (Inr d, w') \<and> P d" if "\<And>x w'. m w = (Inr x, w') \<Longrightarrow> P x" "\<And>e. P (h e)"
    for m :: "pydict lprog" and h P
    using that by (cases "m w"; cases "fst (m w)") (auto simp: guarded_def)
  let ?meta = "with_project_identity (PDict metadata) (PStr mid)"
  let ?P = "\<lambda>d. dget d ''project_id'' = PStr (resolve_project_id (PDict metadata) (PStr mid))
    \<and> (k \<in> {''project_id'', ''project_name'', ''project_bus'', ''project_bus_error'', ''project_bus_finalize_error''}
       \<or> dget d k = dget metadata k)"
  let ?Q = "\<lambda>d. k \<in> {''project_id'', ''project_name'', ''project_bus'', ''project_bus_error'', ''project_bus_finalize_error''}
       \<or> dget d k = dget metadata k"
  have kept: "dget ?meta k = dget metadata k" if "k \<noteq> ''project_id''" "k \<noteq> ''project_name''"
    using that by (simp add: dget_def with_project_identity_frame)
  have pid: "resolve_project_id (PDict ?meta) (PStr mid) = resolve_project_id (PDict metadata) (PStr mid)"
    by (rule resolve_with_project_identity)
  have "\<exists>d w'. ensure_project_bus_for_mission env mid metadata contract w = (Inr d, w') \<and> ?P d"
    unfolding ensure_project_bus_for_mission_def Let_def
    by (rule total) (auto simp: pid kept elim!: bnd_result)
  moreover have "\<exists>d w'. finalize_project_bus_for_mission env mid metadata outcome evidence_ref w = (Inr d, w') \<and> ?Q d"
    unfolding finalize_project_bus_for_mission_def Let_def
    by (rule total) (auto elim!: bnd_result split: prod.splits)
  ultimately show ?thesis by blast
qed

text \<open>A claim is not a compare and swap: an item that another mission closed after it was listed goes back to
  work under the claiming mission.\<close>

theorem stale_claim_reopens:
  assumes "ple_fault env = (\<lambda>_. Done)" and "unclaimed i" and "wid \<noteq> []"
    and "map_of (ld_items (ple_between env (lw_calls w) (lw_db w))) wid = Some j" and "wi_status j = ''done''"
  shows "\<exists>w' j'. claim_items env pid mid [(wid, i)] w = (Inr (), w') \<and> map_of (ld_items (lw_db w')) wid = Some j'
    \<and> wi_status j' = ''in_progress'' \<and> wi_mission j' = Some mid"
proof -
  let ?db = "ple_between env (lw_calls w) (lw_db w)"
  show ?thesis using assms
    by (auto simp: bnd_def call_item_def call_def service_def upsert_work_item_def nonempty_or_def Let_def
        ALLOWED_WORK_STATUSES_def coalesced_def case_prod_beta)
qed

text \<open>Closing a completed mission sets the plan revision back to 0 and the project's name to its id: the
  statement's defaults are never null, so its \<open>COALESCE\<close> does not keep the stored values.\<close>

theorem finalize_forgets_revision:
  assumes "alone env" and "ple_fault env = (\<lambda>_. Done)" and "completed_outcome (outcome_norm outcome)"
    and "delivered_summary metadata (dict_or_empty (dget metadata ''delivery_summary'')) = Inr summary"
    and "dhas (ld_projects (lw_db w)) (resolve_project_id (PDict metadata) (PStr mid))"
    and "finalize_project_bus_for_mission env mid metadata outcome evidence_ref w = (r, w')"
  shows "\<exists>h p. map_of (ld_handoffs (lw_db w')) (resolve_project_id (PDict metadata) (PStr mid)) = Some h
    \<and> ho_revision h = 0 \<and> ho_phase h = ''delivered''
    \<and> map_of (ld_projects (lw_db w')) (resolve_project_id (PDict metadata) (PStr mid)) = Some p
    \<and> pr_name p = resolve_project_id (PDict metadata) (PStr mid)"
proof -
  let ?pid = "resolve_project_id (PDict metadata) (PStr mid)"
  note calls = call_done [OF assms(1,2)]
  show ?thesis using assms(3-6)
    by (auto simp: finalize_project_bus_for_mission_def guarded_def close_completed_def bnd_def calls Let_def
        call_handoff_def call_project_def call_fetch_def load_project_bus_def upsert_project_handoff_def
        upsert_project_def mark_work_items_done_for_mission_def ALLOWED_WORK_STATUSES_def
        handoff_args_default_def project_args_default_def coalesced_def dhas_def nonempty_or_def
        split: option.splits prod.splits)
qed

section \<open>A sample ledger\<close>

definition sample_ledger_env :: ledger_env where
  "sample_ledger_env = \<lparr>ple_now = 7, ple_stamp = ''t7'', ple_hex = (\<lambda>_. ''0123456789abcdef''), ple_iso = (\<lambda>_. ''iso''),
     ple_between = (\<lambda>n db. db), ple_fault = (\<lambda>_. Done), ple_error_name = (\<lambda>_. ''Error'')\<rparr>"

definition sample_item :: "string \<Rightarrow> string option \<Rightarrow> work_item" where
  "sample_item st m = \<lparr>wi_project = ''project-p'', wi_title = ''sort'', wi_status = st, wi_source = ''mission'', wi_mission = m,
     wi_order = 0, wi_evidence = None, wi_metadata = [], wi_created_at = 1, wi_updated_at = 1\<rparr>"

definition sample_ledger :: ledger where
  "sample_ledger = \<lparr>ld_projects = [(''project-p'', \<lparr>pr_name = ''Shop'', pr_source = None, pr_status = ''active'',
       pr_plan_authority = [], pr_metadata = [], pr_created_at = 1, pr_updated_at = 1\<rparr>)],
     ld_handoffs = [(''project-p'', \<lparr>ho_phase = ''build'', ho_next_action = ''build'', ho_blockers = [],
       ho_last_mission = None, ho_revision = 4, ho_summary = None, ho_authority = [], ho_evidence = [], ho_updated_at = 1\<rparr>)],
     ld_items = [(''a'', sample_item ''done'' (Some ''m0'')), (''b'', sample_item ''open'' None),
       (''c'', sample_item ''in_progress'' (Some ''m1''))]\<rparr>"

definition sample_ledger_world :: ledger_world where
  "sample_ledger_world = \<lparr>lw_db = sample_ledger, lw_calls = 0\<rparr>"

definition sample_meta :: pydict where
  "sample_meta = [(''project_id'', PStr ''project-p'')]"

lemma sample_alone: "alone sample_ledger_env"
  by (simp add: alone_def sample_ledger_env_def)

lemma sample_faults: "ple_fault sample_ledger_env = (\<lambda>_. Done)"
  by (simp add: sample_ledger_env_def)

lemma sample_pid: "resolve_project_id (PDict sample_meta) (PStr mid) = ''project-p''"
  unfolding sample_meta_def by (rule resolve_fixed) (simp add: dget_def, code_simp)


text \<open>Between the listing and the claim, mission m2 took the open item and completed.\<close>

theorem stale_claim_reopens_witness:
  "\<exists>w' j'. claim_items (sample_ledger_env\<lparr>ple_between := (\<lambda>n db. db\<lparr>ld_items := dset ''b''
       (sample_item ''done'' (Some ''m2'')) (ld_items db)\<rparr>)\<rparr>) ''project-p'' ''m1'' [(''b'', sample_item ''open'' None)]
       sample_ledger_world = (Inr (), w')
     \<and> map_of (ld_items (lw_db w')) ''b'' = Some j' \<and> wi_status j' = ''in_progress'' \<and> wi_mission j' = Some ''m1''"
  by (rule stale_claim_reopens [where j = "sample_item ''done'' (Some ''m2'')"])
    (simp_all add: sample_ledger_env_def sample_item_def unclaimed_def)

theorem finalize_forgets_revision_witness:
  "\<exists>h p. map_of (ld_handoffs (lw_db (snd (finalize_project_bus_for_mission sample_ledger_env ''m1'' sample_meta ''''
       None sample_ledger_world)))) ''project-p'' = Some h \<and> ho_revision h = 0
     \<and> map_of (ld_projects (lw_db (snd (finalize_project_bus_for_mission sample_ledger_env ''m1'' sample_meta ''''
       None sample_ledger_world)))) ''project-p'' = Some p \<and> pr_name p = ''project-p''"
proof -
  have o1: "completed_outcome (outcome_norm '''')" by code_simp
  have o2: "delivered_summary sample_meta (dict_or_empty (dget sample_meta ''delivery_summary'')) = Inr None"
    by (simp add: delivered_summary_def sample_meta_def dget_def py_or_def)
  have o3: "dhas (ld_projects (lw_db sample_ledger_world)) (resolve_project_id (PDict sample_meta) (PStr ''m1''))"
    by (simp add: sample_pid sample_ledger_world_def sample_ledger_def dhas_def)
  from finalize_forgets_revision [OF sample_alone sample_faults o1 o2 o3 prod.collapse [symmetric], of None] show ?thesis
    unfolding sample_pid by blast
qed

end
