(* ===== verification/Audit_Worker.thy ===== *)
theory Audit_Worker
  imports Agent_Keys Protocol Effects "HOL-Library.Countable"
begin

text \<open>
  The audit worker, \<open>audit_worker/main.py\<close>: the consumer of the state stream that files an audit
  report for every verified or failed mission with the orchestrator and announces the verdict on the
  same stream. The world is the stream with the group's cursor and pending entries, the requests the
  orchestrator received, the dead letters and the counters; \<open>wk_redis\<close> says call by call what Redis
  does and \<open>wk_respond\<close> what the orchestrator answers (\<open>None\<close>: a transport error), each counted by the
  world's clock. The JSON codec, the schema validator, the clock, the ids and the signature are
  arguments. \<open>MAXLEN\<close> of the streams is not modelled.
\<close>

section \<open>World and environment\<close>

type_synonym entry = "string \<times> string dict"

record audit_post =
  ap_mission :: string
  ap_status :: string
  ap_report :: pydict
  ap_api_key :: string
  ap_response :: "nat option"

record worker_world =
  ww_stream :: "entry list"
  ww_cursor :: nat
  ww_pending :: "string list"
  ww_posts :: "audit_post list"
  ww_dead :: "pydict list"
  ww_acked :: "string list"
  ww_processed :: nat
  ww_errors :: nat
  ww_clock :: nat

type_synonym 'a wkprog = "(worker_world, 'a) prog"

record worker_env =
  wk_loads :: "string \<Rightarrow> pyval option"
  wk_dumps :: "pydict \<Rightarrow> string"
  wk_schema_ok :: "pydict \<Rightarrow> bool"
  wk_date_ok :: "string \<Rightarrow> bool"
  wk_topics :: "string list"
  wk_stamp :: "nat \<Rightarrow> string"
  wk_uuid :: "nat \<Rightarrow> string"
  wk_error_text :: "exc \<Rightarrow> string"
  wk_sign :: "pydict \<Rightarrow> pyval option"
  wk_respond :: "nat \<Rightarrow> nat option"
  wk_redis :: "nat \<Rightarrow> call_outcome"
  wk_entry_id :: "nat \<Rightarrow> string"
  wk_files :: "string \<Rightarrow> pyval option"
  wk_process_env :: "string dict"
  wk_keys :: key_config
  wk_agent :: string
  wk_max_retries :: int

text \<open>A call of Redis at the current instant.\<close>

definition redis_call :: "worker_env \<Rightarrow> (worker_world \<Rightarrow> worker_world) \<Rightarrow> unit wkprog" where
  "redis_call env f = (\<lambda>w.
     service (wk_redis env (ww_clock w)) (\<lambda>v. (Inr (), f v)) (w\<lparr>ww_clock := ww_clock w + 1\<rparr>))"

section \<open>Publishing a verdict\<close>

definition build_audit_envelope :: "worker_env \<Rightarrow> nat \<Rightarrow> string \<Rightarrow> string \<Rightarrow> string \<Rightarrow> string \<Rightarrow> pydict res" where
  "build_audit_envelope env now topic mid payload_ref schema_name =
     (let envelope = [(''event_id'', PStr (''evt-'' @ wk_uuid env now)), (''topic'', PStr topic),
            (''timestamp'', PStr (wk_stamp env now)), (''producer'', PStr ''audit-worker''),
            (''correlation_id'', PStr mid), (''payload_ref'', PStr payload_ref), (''schema'', PStr schema_name),
            (''priority'', PStr ''NORMAL'')]
      in rbind (validate_envelope (wk_schema_ok env) (wk_date_ok env) (wk_topics env) envelope) (\<lambda>_. Inr envelope))"

definition publish_verdict :: "worker_env \<Rightarrow> string \<Rightarrow> string \<Rightarrow> pydict \<Rightarrow> unit wkprog" where
  "publish_verdict env topic mid payload = (\<lambda>w.
     bnd (lift_res (build_audit_envelope env (ww_clock w) topic mid
            (''registry://missions/'' @ mid @ ''/audit/'' @ topic) ''audit.report.v1'')) (\<lambda>envelope.
     redis_call env (\<lambda>v. v\<lparr>ww_stream := ww_stream v @
       [(wk_entry_id env (length (ww_stream v)),
         [(''envelope'', wk_dumps env envelope), (''payload'', wk_dumps env payload)])]\<rparr>)) w)"

section \<open>Filing a report\<close>

text \<open>The retry loop: any answer but a server error or a 429 decides; \<open>Some accepted\<close> is returned by it,
  \<open>None\<close> when the attempts are used up, which is then a refusal, since the last response is a server
  error, a 429 or nothing.\<close>

definition signed_report :: "worker_env \<Rightarrow> string \<Rightarrow> pydict \<Rightarrow> pydict" where
  "signed_report env summary report =
     (let payload = foldl (\<lambda>d (k, v). dset k v d) [(''summary'', PStr summary)] report
      in case wk_sign env payload of None \<Rightarrow> payload | Some s \<Rightarrow> dset ''signature_record'' s payload)"

definition decisive :: "nat option \<Rightarrow> bool" where
  "decisive response = (case response of None \<Rightarrow> False | Some st \<Rightarrow> st < 500 \<and> st \<noteq> 429)"

definition accepted :: "nat option \<Rightarrow> bool" where
  "accepted response = (case response of None \<Rightarrow> False | Some st \<Rightarrow> st < 400)"

fun post_attempts :: "worker_env \<Rightarrow> nat \<Rightarrow> nat option \<Rightarrow> string \<Rightarrow> string \<Rightarrow> pydict \<Rightarrow> string \<Rightarrow> bool wkprog" where
  "post_attempts env 0 last_response mid status report key = ret (accepted last_response)"
| "post_attempts env (Suc n) last_response mid status report key = (\<lambda>w.
     let response = wk_respond env (ww_clock w);
         w = w\<lparr>ww_clock := ww_clock w + 1, ww_posts := ww_posts w @
           [\<lparr>ap_mission = mid, ap_status = status, ap_report = report, ap_api_key = key, ap_response = response\<rparr>]\<rparr>
     in if decisive response then (Inr (accepted response), w)
        else post_attempts env n (case response of None \<Rightarrow> last_response | Some _ \<Rightarrow> response) mid status report key w)"

definition post_audit :: "worker_env \<Rightarrow> string \<Rightarrow> string \<Rightarrow> string \<Rightarrow> pydict \<Rightarrow> bool wkprog" where
  "post_audit env mid status summary report =
     bnd (lift_res (service_api_key_for_agent (wk_files env) (wk_process_env env) (wk_keys env) (PStr (wk_agent env)))) (\<lambda>key.
     post_attempts env (nat (wk_max_retries env)) None mid status (signed_report env summary report) key)"

section \<open>Handling an entry\<close>

definition field :: "string dict \<Rightarrow> string \<Rightarrow> string" where
  "field fs k = (case map_of fs k of None \<Rightarrow> [] | Some v \<Rightarrow> v)"

definition audit_and_announce ::
  "worker_env \<Rightarrow> string \<Rightarrow> string \<Rightarrow> string \<Rightarrow> pydict \<Rightarrow> string \<Rightarrow> unit wkprog" where
  "audit_and_announce env mid status summary report topic =
     bnd (post_audit env mid status summary report) (\<lambda>ok.
     if ok then publish_verdict env topic mid
       [(''mission_id'', PStr mid), (''event_type'', PStr (''AUDIT_'' @ status)), (''status'', PStr status)]
     else ret ())"

definition handle_payload :: "worker_env \<Rightarrow> string \<Rightarrow> string \<Rightarrow> unit wkprog" where
  "handle_payload env event_type mid =
     (if event_type = ''MISSION_VERIFIED''
      then audit_and_announce env mid ''PASS'' ''Automated audit checks passed.''
             [(''auditor'', PStr ''audit-worker''), (''checks'', PList [PStr ''contract'', PStr ''flow'']),
              (''result'', PStr ''PASS'')] ''artifact.rir.verified''
      else if event_type = ''MISSION_FAILED''
      then audit_and_announce env mid ''FAIL'' ''Mission failed during orchestration checks.''
             [(''auditor'', PStr ''audit-worker''), (''result'', PStr ''FAIL'')] ''artifact.rir.rejected''
      else ret ())"

text \<open>The two documents of an entry, the envelope validated: the schema wants an object.\<close>

definition take_entry :: "worker_env \<Rightarrow> string dict \<Rightarrow> (string \<times> string) res" where
  "take_entry env fs =
     (if field fs ''envelope'' = [] \<or> field fs ''payload'' = [] then Inl ProtocolValidationError
      else rbind (case wk_loads env (field fs ''envelope'') of
             None \<Rightarrow> Inl ValueError
           | Some (PDict e) \<Rightarrow> validate_envelope (wk_schema_ok env) (wk_date_ok env) (wk_topics env) e
           | Some _ \<Rightarrow> Inl ProtocolValidationError) (\<lambda>_.
      case wk_loads env (field fs ''payload'') of
        None \<Rightarrow> Inl ValueError
      | Some (PDict payload) \<Rightarrow>
          (let mid = py_str (dget_or payload ''mission_id'' (PStr [])) in
           if mid = [] then Inl ValueError else Inr (py_str (dget_or payload ''event_type'' (PStr [])), mid))
      | Some _ \<Rightarrow> Inl AttributeError))"

definition handle_audit_entry :: "worker_env \<Rightarrow> string dict \<Rightarrow> unit wkprog" where
  "handle_audit_entry env fs =
     bnd (lift_res (take_entry env fs)) (\<lambda>(event_type, mid).
     bnd (handle_payload env event_type mid) (\<lambda>_.
     (\<lambda>w. (Inr (), w\<lparr>ww_processed := ww_processed w + 1\<rparr>))))"

fun permanent :: "exc \<Rightarrow> bool" where
  "permanent ProtocolValidationError = True"
| "permanent KeyError = True"
| "permanent TypeError = True"
| "permanent ValueError = True"
| "permanent ValidationError = True"
| "permanent _ = False"

text \<open>A dead letter that cannot be written is only logged.\<close>

definition write_audit_dlq :: "worker_env \<Rightarrow> string \<Rightarrow> string dict \<Rightarrow> exc \<Rightarrow> unit wkprog" where
  "write_audit_dlq env eid fs e = (\<lambda>w.
     attempt (redis_call env (\<lambda>v. v\<lparr>ww_dead := ww_dead v @
       [[(''error'', PStr (wk_error_text env e)), (''entry_id'', PStr eid),
         (''envelope'', PStr (field fs ''envelope'')), (''payload'', PStr (field fs ''payload'')),
         (''ts'', PStr (wk_stamp env (ww_clock w)))]]\<rparr>)) () w)"

definition ack :: "worker_env \<Rightarrow> string \<Rightarrow> unit wkprog" where
  "ack env eid = redis_call env (\<lambda>v. v\<lparr>ww_acked := ww_acked v @ [eid], ww_pending := removeAll eid (ww_pending v)\<rparr>)"

definition work_entry :: "worker_env \<Rightarrow> entry \<Rightarrow> unit wkprog" where
  "work_entry env = (\<lambda>(eid, fs) w.
     case handle_audit_entry env fs w of
       (Inr _, w) \<Rightarrow> ack env eid w
     | (Inl e, w) \<Rightarrow>
         let w = w\<lparr>ww_errors := ww_errors w + 1\<rparr>
         in if permanent e then bnd (write_audit_dlq env eid fs e) (\<lambda>_. ack env eid) w
            else (Inr (), w))"

fun work_entries :: "worker_env \<Rightarrow> entry list \<Rightarrow> unit wkprog" where
  "work_entries env [] = ret ()"
| "work_entries env (x # xs) = bnd (work_entry env x) (\<lambda>_. work_entries env xs)"

section \<open>The consumer loop\<close>

text \<open>One round: the entries the group has not delivered yet become pending and are handled. An exception
  that leaves the round (an acknowledgement that failed) ends the consumer task.\<close>

definition read_group :: "worker_world \<Rightarrow> entry list \<times> worker_world" where
  "read_group w =
     (let batch = take 20 (drop (ww_cursor w) (ww_stream w))
      in (batch, w\<lparr>ww_cursor := ww_cursor w + length batch, ww_pending := ww_pending w @ map fst batch\<rparr>))"

definition consumer_round :: "worker_env \<Rightarrow> unit wkprog" where
  "consumer_round env = (\<lambda>w. let (batch, w) = read_group w in work_entries env batch w)"

text \<open>The rounds of the loop; before a round other services may append entries. The flag tells whether the
  task still runs.\<close>

fun consumer_rounds :: "worker_env \<Rightarrow> entry list list \<Rightarrow> worker_world \<Rightarrow> bool \<times> worker_world" where
  "consumer_rounds env [] w = (True, w)"
| "consumer_rounds env (new # news) w =
     (case consumer_round env (w\<lparr>ww_stream := ww_stream w @ new\<rparr>) of
        (Inl e, w) \<Rightarrow> (False, w)
      | (Inr _, w) \<Rightarrow> consumer_rounds env news w)"

section \<open>What a call of Redis does\<close>

lemma redis_done: "wk_redis env (ww_clock w) = Done \<Longrightarrow>
   redis_call env f w = (Inr (), f (w\<lparr>ww_clock := ww_clock w + 1\<rparr>))"
  by (simp add: redis_call_def service_def)

section \<open>Filing a report\<close>

text \<open>The posts of one filing: for one mission and verdict, at most one of them accepted, the last.\<close>

definition filed :: "string \<Rightarrow> string \<Rightarrow> nat \<Rightarrow> bool \<Rightarrow> audit_post list \<Rightarrow> bool" where
  "filed mid status n ok ps \<longleftrightarrow> length ps \<le> n
     \<and> (\<forall>p \<in> set ps. ap_mission p = mid \<and> ap_status p = status)
     \<and> (\<forall>p \<in> set (butlast ps). \<not> accepted (ap_response p))
     \<and> (ok \<longleftrightarrow> ps \<noteq> [] \<and> accepted (ap_response (last ps)))"

lemma accepted_decisive: "accepted r \<Longrightarrow> decisive r"
  by (cases r) (auto simp: accepted_def decisive_def)

lemma attempts_filed:
  assumes "post_attempts env n last_response mid status report key w = (r, w')" and "\<not> decisive last_response"
  shows "\<exists>ps ok. r = Inr ok \<and> filed mid status n ok ps
    \<and> w' = w\<lparr>ww_posts := ww_posts w @ ps, ww_clock := ww_clock w + length ps\<rparr>"
  using assms
proof (induction n arbitrary: last_response w)
  case 0
  then have "\<not> accepted last_response" using accepted_decisive by blast
  with 0 show ?case by (intro exI [of _ "[]"] exI [of _ False]) (auto simp: filed_def)
next
  case (Suc n)
  let ?resp = "wk_respond env (ww_clock w)"
  let ?p = "\<lparr>ap_mission = mid, ap_status = status, ap_report = report, ap_api_key = key, ap_response = ?resp\<rparr>"
  let ?v = "w\<lparr>ww_clock := ww_clock w + 1, ww_posts := ww_posts w @ [?p]\<rparr>"
  show ?case
  proof (cases "decisive ?resp")
    case True
    with Suc.prems show ?thesis
      by (intro exI [of _ "[?p]"] exI [of _ "accepted ?resp"]) (auto simp: filed_def Let_def)
  next
    case False
    let ?last = "case ?resp of None \<Rightarrow> last_response | Some _ \<Rightarrow> ?resp"
    have "\<not> decisive ?last" using False Suc.prems(2) by (cases ?resp) simp_all
    moreover have "post_attempts env n ?last mid status report key ?v = (r, w')"
      using Suc.prems(1) False by (simp add: Let_def)
    ultimately obtain ps ok where ps: "r = Inr ok" "filed mid status n ok ps"
      "w' = ?v\<lparr>ww_posts := ww_posts ?v @ ps, ww_clock := ww_clock ?v + length ps\<rparr>"
      using Suc.IH by blast
    have "\<not> accepted ?resp" using False accepted_decisive by blast
    then have "filed mid status (Suc n) ok (?p # ps)" using ps(2) by (auto simp: filed_def)
    with ps show ?thesis by (intro exI [of _ "?p # ps"] exI [of _ ok]) simp
  qed
qed

lemma not_decisive_None [simp]: "\<not> decisive None"
  by (simp add: decisive_def)

lemma post_audit_result:
  assumes "post_audit env mid status summary report w = (r, w')"
  obtains e where "r = Inl e" and "w' = w"
  | ok ps where "r = Inr ok" and "filed mid status (nat (wk_max_retries env)) ok ps"
    and "w' = w\<lparr>ww_posts := ww_posts w @ ps, ww_clock := ww_clock w + length ps\<rparr>"
proof (cases "service_api_key_for_agent (wk_files env) (wk_process_env env) (wk_keys env) (PStr (wk_agent env))")
  case (Inl e)
  with assms show thesis by (intro that(1) [of e]) (auto simp: post_audit_def)
next
  case (Inr key)
  with assms have "post_attempts env (nat (wk_max_retries env)) None mid status (signed_report env summary report) key w = (r, w')"
    by (simp add: post_audit_def)
  from attempts_filed [OF this] show thesis using that(2) by fastforce
qed

section \<open>Handling an entry\<close>

text \<open>The verdict an event calls for.\<close>

definition verdict :: "string \<Rightarrow> (string \<times> string) option" where
  "verdict event_type =
     (if event_type = ''MISSION_VERIFIED'' then Some (''PASS'', ''artifact.rir.verified'')
      else if event_type = ''MISSION_FAILED'' then Some (''FAIL'', ''artifact.rir.rejected'')
      else None)"

definition announcement :: "worker_env \<Rightarrow> string \<Rightarrow> string \<Rightarrow> entry \<Rightarrow> bool" where
  "announcement env mid status x \<longleftrightarrow> (\<exists>n. fst x = wk_entry_id env n) \<and> field (snd x) ''payload'' = wk_dumps env
     [(''mission_id'', PStr mid), (''event_type'', PStr (''AUDIT_'' @ status)), (''status'', PStr status)]"

text \<open>What handling an event did: the posts \<open>ps\<close> and the entries \<open>xs\<close> it appended.\<close>

definition handled :: "worker_env \<Rightarrow> string \<Rightarrow> string \<Rightarrow> audit_post list \<Rightarrow> entry list \<Rightarrow> bool" where
  "handled env event_type mid ps xs \<longleftrightarrow> (case verdict event_type of
       None \<Rightarrow> ps = [] \<and> xs = []
     | Some (status, topic) \<Rightarrow>
         (\<exists>ok. filed mid status (nat (wk_max_retries env)) ok ps
            \<and> (xs = [] \<or> ok \<and> (\<exists>x. xs = [x] \<and> announcement env mid status x))))"

lemma some_id [simp]: "\<exists>n. wk_entry_id env m = wk_entry_id env n"
  by blast

lemma publish_result:
  assumes "publish_verdict env topic mid payload w = (r, w')"
  obtains t xs where "w' = w\<lparr>ww_stream := ww_stream w @ xs, ww_clock := t\<rparr>"
    and "xs = [] \<or> (\<exists>x n. xs = [x] \<and> fst x = wk_entry_id env n \<and> field (snd x) ''payload'' = wk_dumps env payload)"
proof (cases "build_audit_envelope env (ww_clock w) topic mid
    (''registry://missions/'' @ mid @ ''/audit/'' @ topic) ''audit.report.v1''")
  case (Inl e)
  with assms show thesis by (intro that [of "ww_clock w" "[]"]) (auto simp: publish_verdict_def)
next
  case (Inr envelope)
  let ?x = "(wk_entry_id env (length (ww_stream w)),
    [(''envelope'', wk_dumps env envelope), (''payload'', wk_dumps env payload)])"
  from assms Inr have "w' = w\<lparr>ww_clock := ww_clock w + 1\<rparr>
      \<or> w' = w\<lparr>ww_clock := ww_clock w + 1, ww_stream := ww_stream w @ [?x]\<rparr>"
    by (cases "wk_redis env (ww_clock w)") (auto simp: publish_verdict_def redis_call_def service_def)
  then show thesis
  proof
    assume "w' = w\<lparr>ww_clock := ww_clock w + 1\<rparr>"
    then show thesis by (intro that [of "ww_clock w + 1" "[]"]) simp_all
  next
    assume "w' = w\<lparr>ww_clock := ww_clock w + 1, ww_stream := ww_stream w @ [?x]\<rparr>"
    then show thesis by (intro that [of "ww_clock w + 1" "[?x]"]) (simp_all add: field_def)
  qed
qed

text \<open>Handling the document of an event, and then the whole entry.\<close>

lemma announce_result_of:
  assumes "audit_and_announce env mid status summary report topic w = (r, w')"
  obtains ps xs t ok where "w' = w\<lparr>ww_stream := ww_stream w @ xs, ww_posts := ww_posts w @ ps, ww_clock := t\<rparr>"
    and "filed mid status (nat (wk_max_retries env)) ok ps"
    and "xs = [] \<or> ok \<and> (\<exists>x. xs = [x] \<and> announcement env mid status x)"
proof -
  obtain r1 v where v: "post_audit env mid status summary report w = (r1, v)" by fastforce
  from v show thesis
  proof (cases rule: post_audit_result)
    case (1 e)
    with assms v have "w' = w" by (simp add: audit_and_announce_def bnd_def)
    then show thesis by (intro that [where xs = "[]" and ps = "[]" and t = "ww_clock w" and ok = False]) (simp_all add: filed_def)
  next
    case (2 ok ps)
    show thesis
    proof (cases ok)
      case False
      with assms v 2 have "w' = v" by (simp add: audit_and_announce_def bnd_def)
      with 2 show thesis by (intro that [where xs = "[]" and ps = ps and t = "ww_clock v" and ok = ok]) simp_all
    next
      case True
      with assms v 2 have "publish_verdict env topic mid [(''mission_id'', PStr mid),
          (''event_type'', PStr (''AUDIT_'' @ status)), (''status'', PStr status)] v = (r, w')"
        by (simp add: audit_and_announce_def bnd_def)
      then obtain t xs where xs: "w' = v\<lparr>ww_stream := ww_stream v @ xs, ww_clock := t\<rparr>"
        "xs = [] \<or> (\<exists>x. xs = [x] \<and> announcement env mid status x)"
        by (rule publish_result) (auto simp: announcement_def)
      then show thesis using 2 True by (intro that [where xs = xs and ps = ps and t = t and ok = ok]) auto
    qed
  qed
qed

lemma payload_result:
  assumes "handle_payload env event_type mid w = (r, w')"
  obtains ps xs t where "w' = w\<lparr>ww_stream := ww_stream w @ xs, ww_posts := ww_posts w @ ps, ww_clock := t\<rparr>"
    and "handled env event_type mid ps xs" and "verdict event_type = None \<longrightarrow> r = Inr ()"
proof (cases "event_type = ''MISSION_VERIFIED'' \<or> event_type = ''MISSION_FAILED''")
  case False
  with assms show thesis
    by (intro that [where xs = "[]" and ps = "[]" and t = "ww_clock w"]) (auto simp: handle_payload_def handled_def verdict_def)
next
  case True
  then obtain status topic summary report where v: "verdict event_type = Some (status, topic)"
    "handle_payload env event_type mid = audit_and_announce env mid status summary report topic"
    by (auto simp: verdict_def handle_payload_def)
  with assms have "audit_and_announce env mid status summary report topic w = (r, w')" by simp
  then show thesis
    by (rule announce_result_of) (rule that, assumption, auto simp: handled_def v(1))
qed

lemma entry_result:
  assumes "handle_audit_entry env fs w = (r, w')"
  obtains e where "take_entry env fs = Inl e" and "r = Inl e" and "w' = w"
  | event_type mid ps xs t n where "take_entry env fs = Inr (event_type, mid)"
    and "w' = w\<lparr>ww_stream := ww_stream w @ xs, ww_posts := ww_posts w @ ps, ww_clock := t, ww_processed := n\<rparr>"
    and "handled env event_type mid ps xs" and "verdict event_type = None \<longrightarrow> r = Inr ()"
proof (cases "take_entry env fs")
  case (Inl e)
  with assms show thesis by (intro that(1) [of e]) (simp_all add: handle_audit_entry_def)
next
  case (Inr em)
  obtain event_type mid where em: "em = (event_type, mid)" by (cases em)
  obtain r1 v where v: "handle_payload env event_type mid w = (r1, v)" by fastforce
  from v obtain ps xs t where h: "v = w\<lparr>ww_stream := ww_stream w @ xs, ww_posts := ww_posts w @ ps, ww_clock := t\<rparr>"
    "handled env event_type mid ps xs" "verdict event_type = None \<longrightarrow> r1 = Inr ()" by (rule payload_result)
  show thesis
  proof (cases r1)
    case (Inl e)
    with assms Inr em v have "r = Inl e" "w' = v" by (simp_all add: handle_audit_entry_def bnd_def)
    with h Inr em Inl show thesis
      by (intro that(2) [where event_type = event_type and mid = mid and xs = xs and ps = ps and t = t and n = "ww_processed w"]) auto
  next
    case (Inr u)
    with assms \<open>take_entry env fs = Inr em\<close> em v have "r = Inr ()" "w' = v\<lparr>ww_processed := ww_processed v + 1\<rparr>"
      by (simp_all add: handle_audit_entry_def bnd_def)
    with h \<open>take_entry env fs = Inr em\<close> em show thesis
      by (intro that(2) [where event_type = event_type and mid = mid and xs = xs and ps = ps and t = t and n = "ww_processed w + 1"]) auto
  qed
qed

text \<open>The frame of an entry: what is appended to the stream and posted, and what stays.\<close>

definition same_io :: "worker_world \<Rightarrow> worker_world \<Rightarrow> bool" where
  "same_io w w' \<longleftrightarrow> ww_stream w' = ww_stream w \<and> ww_posts w' = ww_posts w \<and> ww_cursor w' = ww_cursor w"

definition settled_by :: "string \<Rightarrow> worker_world \<Rightarrow> worker_world \<Rightarrow> bool" where
  "settled_by eid w w' \<longleftrightarrow> ww_pending w' = ww_pending w \<and> ww_acked w' = ww_acked w
     \<or> ww_pending w' = removeAll eid (ww_pending w) \<and> ww_acked w' = ww_acked w @ [eid]"

lemma ack_frame: "same_io u (snd (ack env eid u)) \<and> settled_by eid u (snd (ack env eid u))"
  by (cases "wk_redis env (ww_clock u)") (auto simp: ack_def redis_call_def service_def same_io_def settled_by_def)

lemma dlq_frame:
  "fst (write_audit_dlq env eid fs e u) = Inr () \<and> same_io u (snd (write_audit_dlq env eid fs e u))
   \<and> ww_pending (snd (write_audit_dlq env eid fs e u)) = ww_pending u
   \<and> ww_acked (snd (write_audit_dlq env eid fs e u)) = ww_acked u"
  by (cases "wk_redis env (ww_clock u)")
    (auto simp: write_audit_dlq_def attempt_def redis_call_def service_def same_io_def)

lemma settle_frame:
  assumes "work_entry env (eid, fs) w = (r, w')" and "handle_audit_entry env fs w = (r1, v)"
  shows "same_io v w' \<and> settled_by eid v w'"
proof (cases r1)
  case (Inr u)
  with assms have "w' = snd (ack env eid v)" by (simp add: work_entry_def)
  then show ?thesis using ack_frame by simp
next
  case (Inl e)
  let ?u = "v\<lparr>ww_errors := ww_errors v + 1\<rparr>"
  show ?thesis
  proof (cases "permanent e")
    case False
    with assms Inl have "w' = ?u" by (simp add: work_entry_def Let_def)
    then show ?thesis by (simp add: same_io_def settled_by_def)
  next
    case True
    obtain d where d: "write_audit_dlq env eid fs e ?u = (Inr (), d)" using dlq_frame by (metis prod.collapse)
    with assms Inl True have "w' = snd (ack env eid d)" by (simp add: work_entry_def Let_def bnd_def)
    then show ?thesis using dlq_frame [of env eid fs e ?u] ack_frame [of d env eid] d
      by (auto simp: same_io_def settled_by_def)
  qed
qed

lemma work_frame:
  assumes "work_entry env (eid, fs) w = (r, w')"
  obtains ps xs where "ww_stream w' = ww_stream w @ xs" and "ww_posts w' = ww_posts w @ ps"
    and "ww_cursor w' = ww_cursor w" and "settled_by eid w w'"
    and "ps = [] \<and> xs = [] \<or> (\<exists>event_type mid. take_entry env fs = Inr (event_type, mid) \<and> handled env event_type mid ps xs)"
proof -
  obtain r1 v where v: "handle_audit_entry env fs w = (r1, v)" by fastforce
  note after = settle_frame [OF assms v]
  from v show thesis
  proof (cases rule: entry_result)
    case (1 e)
    with after show thesis by (intro that [where ps = "[]" and xs = "[]"]) (auto simp: same_io_def settled_by_def)
  next
    case (2 event_type mid ps xs t n)
    with after show thesis by (intro that [where ps = ps and xs = xs]) (auto simp: same_io_def settled_by_def)
  qed
qed

section \<open>Rounds\<close>

text \<open>An entry that is pending and not about to be delivered again stays pending.\<close>

lemma entries_pending:
  assumes "work_entries env batch w = (r, w')" and "eid \<in> set (ww_pending w)" and "eid \<notin> fst ` set batch"
  shows "eid \<in> set (ww_pending w') \<and> (eid \<in> set (ww_acked w') \<longrightarrow> eid \<in> set (ww_acked w))"
  using assms
proof (induction batch arbitrary: w)
  case (Cons x batch)
  obtain e fs where x: "x = (e, fs)" by (cases x)
  obtain r1 v where v: "work_entry env (e, fs) w = (r1, v)" by fastforce
  have "settled_by e w v" by (rule work_frame [OF v])
  then have kept: "eid \<in> set (ww_pending v)" "eid \<in> set (ww_acked v) \<longrightarrow> eid \<in> set (ww_acked w)"
    using Cons.prems(2,3) x by (auto simp: settled_by_def)
  show ?case
  proof (cases r1)
    case (Inl err)
    with Cons.prems(1) x v kept show ?thesis by (simp add: bnd_def)
  next
    case (Inr u)
    with Cons.prems(1) x v have "work_entries env batch v = (r, w')" by (simp add: bnd_def)
    from Cons.IH [OF this kept(1)] Cons.prems(3) kept(2) show ?thesis by auto
  qed
qed simp

lemma entries_cursor:
  assumes "work_entries env batch w = (r, w')"
  obtains xs where "ww_stream w' = ww_stream w @ xs" and "ww_cursor w' = ww_cursor w"
    and "\<forall>x \<in> set xs. \<exists>n. fst x = wk_entry_id env n"
  using assms
proof (induction batch arbitrary: w thesis)
  case (Cons x batch)
  obtain e fs where x: "x = (e, fs)" by (cases x)
  obtain r1 v where v: "work_entry env (e, fs) w = (r1, v)" by fastforce
  obtain ps xs where xs: "ww_stream v = ww_stream w @ xs" "ww_cursor v = ww_cursor w"
    "ps = [] \<and> xs = [] \<or> (\<exists>event_type mid. take_entry env fs = Inr (event_type, mid) \<and> handled env event_type mid ps xs)"
    by (rule work_frame [OF v])
  then have ids: "\<forall>x \<in> set xs. \<exists>n. fst x = wk_entry_id env n"
    by (auto simp: handled_def announcement_def split: option.splits)
  show ?case
  proof (cases r1)
    case (Inl err)
    with Cons.prems(2) x v xs ids show ?thesis by (intro Cons.prems(1) [of xs]) (simp_all add: bnd_def)
  next
    case (Inr u)
    with Cons.prems(2) x v have "work_entries env batch v = (r, w')" by (simp add: bnd_def)
    then obtain ys where "ww_stream w' = ww_stream v @ ys" "ww_cursor w' = ww_cursor v"
      "\<forall>x \<in> set ys. \<exists>n. fst x = wk_entry_id env n" by (rule Cons.IH [rotated]) blast
    with xs ids show ?thesis by (intro Cons.prems(1) [of "xs @ ys"]) auto
  qed
qed simp

lemma round_pending:
  assumes "consumer_round env w = (r, w')" and "eid \<in> set (ww_pending w)" and "\<forall>n. wk_entry_id env n \<noteq> eid"
    and "eid \<notin> fst ` set (drop (ww_cursor w) (ww_stream w))"
  shows "eid \<in> set (ww_pending w') \<and> (eid \<in> set (ww_acked w') \<longrightarrow> eid \<in> set (ww_acked w))
    \<and> eid \<notin> fst ` set (drop (ww_cursor w') (ww_stream w'))
    \<and> (ww_cursor w \<le> length (ww_stream w) \<longrightarrow> ww_cursor w' \<le> length (ww_stream w'))"
proof -
  let ?batch = "take 20 (drop (ww_cursor w) (ww_stream w))"
  let ?v = "w\<lparr>ww_cursor := ww_cursor w + length ?batch, ww_pending := ww_pending w @ map fst ?batch\<rparr>"
  have run: "work_entries env ?batch ?v = (r, w')"
    using assms(1) by (simp add: consumer_round_def read_group_def Let_def)
  have "eid \<notin> fst ` set ?batch" using assms(4) by (auto dest: in_set_takeD)
  then have p: "eid \<in> set (ww_pending w') \<and> (eid \<in> set (ww_acked w') \<longrightarrow> eid \<in> set (ww_acked w))"
    using entries_pending [OF run, of eid] assms(2) by simp
  obtain xs where xs: "ww_stream w' = ww_stream ?v @ xs" "ww_cursor w' = ww_cursor ?v"
    "\<forall>x \<in> set xs. \<exists>n. fst x = wk_entry_id env n" by (rule entries_cursor [OF run])
  have "set (drop (ww_cursor w') (ww_stream w')) \<subseteq> set (drop (ww_cursor w) (ww_stream w)) \<union> set xs"
    using xs(1,2) set_drop_subset_set_drop [of "ww_cursor w" "ww_cursor w + length ?batch" "ww_stream w"]
    by (auto dest: in_set_dropD)
  then have "fst ` set (drop (ww_cursor w') (ww_stream w')) \<subseteq> fst ` set (drop (ww_cursor w) (ww_stream w)) \<union> fst ` set xs"
    by blast
  moreover have "eid \<notin> fst ` set xs" using assms(3) xs(3) by (metis imageE)
  ultimately have "eid \<notin> fst ` set (drop (ww_cursor w') (ww_stream w'))" using assms(4) by blast
  moreover have "ww_cursor w \<le> length (ww_stream w) \<longrightarrow> ww_cursor w' \<le> length (ww_stream w')"
    using xs(1,2) by auto
  ultimately show ?thesis using p by simp
qed

section \<open>Draining the stream\<close>

text \<open>What an entry may still cost: its own handling and that of the announcement it may append.\<close>

definition weight :: "worker_env \<Rightarrow> entry \<Rightarrow> nat" where
  "weight env x = (case take_entry env (snd x) of
     Inl _ \<Rightarrow> 1 | Inr (event_type, _) \<Rightarrow> if verdict event_type = None then 1 else 2)"

definition backlog :: "worker_env \<Rightarrow> worker_world \<Rightarrow> nat" where
  "backlog env w = sum_list (map (weight env) (drop (ww_cursor w) (ww_stream w)))"

lemma weight_pos: "1 \<le> weight env x"
  by (auto simp: weight_def split: sum.split)

lemma weight_not_0 [simp]: "weight env x \<noteq> 0"
  using weight_pos [of env x] by simp

lemma announcement_weight:
  assumes "announcement env mid status x" and "\<And>p. wk_loads env (wk_dumps env p) = Some (PDict p)"
  shows "weight env x = 1"
proof -
  have "verdict (''AUDIT_'' @ s) = None" for s by (simp add: verdict_def)
  then show ?thesis using assms
    by (auto simp: weight_def announcement_def take_entry_def rbind_def dget_or_def Let_def split: sum.split option.split pyval.split)
qed

lemma handled_weight:
  assumes "ps = [] \<and> xs = [] \<or> (\<exists>event_type mid. take_entry env fs = Inr (event_type, mid) \<and> handled env event_type mid ps xs)"
    and "\<And>p. wk_loads env (wk_dumps env p) = Some (PDict p)"
  shows "sum_list (map (weight env) xs) + 1 \<le> weight env (eid, fs)"
  using assms(1)
proof
  assume "ps = [] \<and> xs = []"
  then show ?thesis using weight_pos by simp
next
  assume "\<exists>event_type mid. take_entry env fs = Inr (event_type, mid) \<and> handled env event_type mid ps xs"
  then obtain et mid where h: "take_entry env fs = Inr (et, mid)" "handled env et mid ps xs" by blast
  show ?thesis
  proof (cases "verdict et")
    case None
    with h show ?thesis by (simp add: handled_def weight_def)
  next
    case (Some v)
    with h have "xs = [] \<or> (\<exists>x status. xs = [x] \<and> announcement env mid status x)"
      by (cases v) (auto simp: handled_def)
    with h Some show ?thesis using announcement_weight [OF _ assms(2)] by (auto simp: weight_def)
  qed
qed

text \<open>With Redis up, handling a batch lowers the backlog by at least its length.\<close>

lemma work_entry_runs: "wk_redis env = (\<lambda>_. Done) \<Longrightarrow> fst (work_entry env x w) = Inr ()"
proof -
  assume up: "wk_redis env = (\<lambda>_. Done)"
  obtain eid fs where x: "x = (eid, fs)" by (cases x)
  obtain r v where v: "handle_audit_entry env fs w = (r, v)" by fastforce
  have "fst (ack env eid u) = Inr ()" for u using up by (simp add: ack_def redis_done)
  moreover have "write_audit_dlq env eid fs e u = (Inr (), snd (write_audit_dlq env eid fs e u))" for e u
    using dlq_frame by (metis prod.collapse)
  then have "bnd (write_audit_dlq env eid fs e) f u = f () (snd (write_audit_dlq env eid fs e u))"
    for e u and f :: "unit \<Rightarrow> unit wkprog" by (rule bnd_Inr)
  ultimately show ?thesis
    unfolding x work_entry_def by (cases r) (simp_all add: v Let_def)
qed

lemma entries_backlog:
  assumes "wk_redis env = (\<lambda>_. Done)" and "\<And>p. wk_loads env (wk_dumps env p) = Some (PDict p)"
  shows "\<exists>w' xs. work_entries env batch w = (Inr (), w') \<and> ww_stream w' = ww_stream w @ xs \<and> ww_cursor w' = ww_cursor w
    \<and> sum_list (map (weight env) xs) + length batch \<le> sum_list (map (weight env) batch)"
proof (induction batch arbitrary: w)
  case (Cons x batch)
  obtain e fs where x: "x = (e, fs)" by (cases x)
  obtain v where v: "work_entry env (e, fs) w = (Inr (), v)"
    using work_entry_runs [OF assms(1), of "(e, fs)" w] by (metis prod.collapse)
  obtain ps xs where xs: "ww_stream v = ww_stream w @ xs" "ww_cursor v = ww_cursor w"
    "ps = [] \<and> xs = [] \<or> (\<exists>event_type mid. take_entry env fs = Inr (event_type, mid) \<and> handled env event_type mid ps xs)"
    by (rule work_frame [OF v])
  have "sum_list (map (weight env) xs) + 1 \<le> weight env x"
    using handled_weight [OF xs(3) assms(2), of e] x by simp
  moreover obtain w' ys where "work_entries env batch v = (Inr (), w')" "ww_stream w' = ww_stream v @ ys"
    "ww_cursor w' = ww_cursor v" "sum_list (map (weight env) ys) + length batch \<le> sum_list (map (weight env) batch)"
    using Cons.IH by blast
  ultimately show ?case using x v xs
    by (intro exI [of _ w'] exI [of _ "xs @ ys"]) (simp add: bnd_def)
qed simp

lemma round_backlog:
  assumes "wk_redis env = (\<lambda>_. Done)" and "\<And>p. wk_loads env (wk_dumps env p) = Some (PDict p)"
    and "ww_cursor w \<le> length (ww_stream w)"
  obtains w' where "consumer_round env w = (Inr (), w')" and "ww_cursor w' \<le> length (ww_stream w')"
    and "backlog env w' < backlog env w \<or> ww_cursor w = length (ww_stream w) \<and> ww_cursor w' = length (ww_stream w')
           \<and> backlog env w' = backlog env w"
proof -
  let ?n = "ww_cursor w" and ?batch = "take 20 (drop (ww_cursor w) (ww_stream w))"
  let ?v = "w\<lparr>ww_cursor := ?n + length ?batch, ww_pending := ww_pending w @ map fst ?batch\<rparr>"
  obtain w' xs where run: "work_entries env ?batch ?v = (Inr (), w')" "ww_stream w' = ww_stream ?v @ xs"
    "ww_cursor w' = ww_cursor ?v" "sum_list (map (weight env) xs) + length ?batch \<le> sum_list (map (weight env) ?batch)"
    using entries_backlog [OF assms(1,2), where batch = ?batch and w = ?v] by blast
  have round: "consumer_round env w = (Inr (), w')"
    using run(1) by (simp add: consumer_round_def read_group_def Let_def)
  have cur: "ww_cursor w' = ?n + length ?batch" using run(3) by simp
  have le: "?n + length ?batch \<le> length (ww_stream w)" using assms(3) by simp
  have "drop (ww_cursor w') (ww_stream w') = drop 20 (drop ?n (ww_stream w)) @ xs"
    using run(2) cur le by (cases "length (drop ?n (ww_stream w)) \<le> 20") (simp_all add: min_def add.commute)
  then have b': "backlog env w' = sum_list (map (weight env) (drop 20 (drop ?n (ww_stream w)))) + sum_list (map (weight env) xs)"
    by (simp add: backlog_def)
  have "backlog env w = sum_list (map (weight env) ?batch) + sum_list (map (weight env) (drop 20 (drop ?n (ww_stream w))))"
    unfolding backlog_def by (metis append_take_drop_id map_append sum_list_append)
  with b' run(4) have "backlog env w' + length ?batch \<le> backlog env w" by simp
  moreover have "?n = length (ww_stream w) \<Longrightarrow> xs = []"
    using run(4) by (cases xs) (use weight_pos [of env] in \<open>auto simp: Suc_le_eq\<close>)
  moreover have "?n < length (ww_stream w) \<Longrightarrow> length ?batch > 0" by simp
  ultimately show thesis using round cur le run(2) assms(3)
    by (intro that [of w']) (auto simp: le_less)
qed

section \<open>Properties\<close>

text \<open>C20. No verdict is announced that the orchestrator did not take: handling an entry appends at most one
  announcement to the stream, only for an entry whose event calls for that verdict on that mission,
  and after a report with it was filed, whose last request and no earlier one was accepted; the
  requests are at most the configured attempts.\<close>

theorem verdicts_backed:
  assumes "work_entry env (eid, fs) w = (r, w')"
  shows "\<exists>ps xs. ww_posts w' = ww_posts w @ ps \<and> ww_stream w' = ww_stream w @ xs \<and> length xs \<le> 1
    \<and> length ps \<le> nat (wk_max_retries env) \<and> (\<forall>p \<in> set (butlast ps). \<not> accepted (ap_response p))
    \<and> (\<forall>x \<in> set xs. \<exists>event_type mid status topic. take_entry env fs = Inr (event_type, mid)
         \<and> (event_type, status, topic) \<in> {(''MISSION_VERIFIED'', ''PASS'', ''artifact.rir.verified''),
                                         (''MISSION_FAILED'', ''FAIL'', ''artifact.rir.rejected'')}
         \<and> announcement env mid status x \<and> ps \<noteq> [] \<and> ap_mission (last ps) = mid \<and> ap_status (last ps) = status
         \<and> accepted (ap_response (last ps)))"
proof -
  obtain ps xs where f: "ww_stream w' = ww_stream w @ xs" "ww_posts w' = ww_posts w @ ps"
    "ps = [] \<and> xs = [] \<or> (\<exists>event_type mid. take_entry env fs = Inr (event_type, mid) \<and> handled env event_type mid ps xs)"
    by (rule work_frame [OF assms])
  show ?thesis
  proof (cases "ps = [] \<and> xs = []")
    case True
    with f show ?thesis by (intro exI [of _ ps] exI [of _ xs]) simp
  next
    case False
    with f(3) obtain et mid where h: "take_entry env fs = Inr (et, mid)" "handled env et mid ps xs" by blast
    with False obtain status topic where v: "verdict et = Some (status, topic)" by (auto simp: handled_def split: option.splits)
    with h(2) obtain ok where ok: "filed mid status (nat (wk_max_retries env)) ok ps"
      "xs = [] \<or> ok \<and> (\<exists>x. xs = [x] \<and> announcement env mid status x)" by (auto simp: handled_def)
    have "(et, status, topic) \<in> {(''MISSION_VERIFIED'', ''PASS'', ''artifact.rir.verified''),
        (''MISSION_FAILED'', ''FAIL'', ''artifact.rir.rejected'')}"
      using v by (auto simp: verdict_def split: if_splits)
    with ok f(1,2) h(1) show ?thesis
      by (intro exI [of _ ps] exI [of _ xs]) (auto simp: filed_def)
  qed
qed

text \<open>An entry whose handling failed for a passing reason is not redelivered: the loop reads new entries
  only, so the entry stays pending and unacknowledged however long the worker runs.\<close>

theorem transient_failure_never_retried:
  assumes "consumer_rounds env news w = (alive, w')" and "eid \<in> set (ww_pending w)" and "eid \<notin> set (ww_acked w)"
    and "eid \<notin> fst ` set (drop (ww_cursor w) (ww_stream w))" and "\<forall>new \<in> set news. eid \<notin> fst ` set new"
    and "\<forall>n. wk_entry_id env n \<noteq> eid" and "ww_cursor w \<le> length (ww_stream w)"
  shows "eid \<in> set (ww_pending w') \<and> eid \<notin> set (ww_acked w')"
  using assms
proof (induction news arbitrary: w)
  case (Cons new news)
  let ?w = "w\<lparr>ww_stream := ww_stream w @ new\<rparr>"
  obtain r v where v: "consumer_round env ?w = (r, v)" by fastforce
  have "eid \<notin> fst ` set (drop (ww_cursor ?w) (ww_stream ?w))" using Cons.prems(4,5,7) by auto
  then have kept: "eid \<in> set (ww_pending v)" "eid \<notin> set (ww_acked v)"
    "eid \<notin> fst ` set (drop (ww_cursor v) (ww_stream v))"
    using round_pending [OF v, of eid] Cons.prems(2,3,6) by auto
  have cur: "ww_cursor v \<le> length (ww_stream v)"
    using round_pending [OF v, of eid] \<open>eid \<notin> fst ` set (drop (ww_cursor ?w) (ww_stream ?w))\<close> Cons.prems(2,6,7) by simp
  show ?case
  proof (cases r)
    case (Inl e)
    with Cons.prems(1) v kept show ?thesis by simp
  next
    case (Inr u)
    with Cons.prems(1) v have "consumer_rounds env news v = (alive, w')" by simp
    from Cons.IH [OF this kept(1,2,3)] Cons.prems(5,6) cur show ?thesis by simp
  qed
qed simp

text \<open>A report the orchestrator never takes is lost without a trace: once the attempts are used up, or after one
  client error, the entry is acknowledged, with no announcement, no dead letter and no error counted.\<close>

theorem unfiled_report_acknowledged:
  assumes "wk_redis env = (\<lambda>_. Done)" and "\<forall>n. \<not> accepted (wk_respond env n)"
    and "service_api_key_for_agent (wk_files env) (wk_process_env env) (wk_keys env) (PStr (wk_agent env)) = Inr key"
    and "take_entry env fs = Inr (''MISSION_VERIFIED'', mid)"
  shows "\<exists>w'. work_entry env (eid, fs) w = (Inr (), w') \<and> ww_acked w' = ww_acked w @ [eid]
    \<and> ww_stream w' = ww_stream w \<and> ww_dead w' = ww_dead w \<and> ww_errors w' = ww_errors w
    \<and> ww_processed w' = ww_processed w + 1"
proof -
  have refused: "\<exists>ps t. post_attempts env n l m st rep key u = (Inr False, u\<lparr>ww_posts := ps, ww_clock := t\<rparr>)"
    if "\<not> accepted l" for n l m st rep u
    using that
  proof (induction n arbitrary: l u)
    case 0
    then show ?case by (cases u) simp
  next
    case (Suc n)
    let ?r = "wk_respond env (ww_clock u)"
    let ?u = "u\<lparr>ww_clock := ww_clock u + 1, ww_posts := ww_posts u @
      [\<lparr>ap_mission = m, ap_status = st, ap_report = rep, ap_api_key = key, ap_response = ?r\<rparr>]\<rparr>"
    have no1: "\<not> accepted ?r" using assms(2) by blast
    have no2: "\<not> accepted (case ?r of None \<Rightarrow> l | Some _ \<Rightarrow> ?r)"
      by (cases ?r) (use no1 Suc.prems in simp_all)
    note no = no1 no2
    obtain ps t where "post_attempts env n (case ?r of None \<Rightarrow> l | Some _ \<Rightarrow> ?r) m st rep key ?u
        = (Inr False, ?u\<lparr>ww_posts := ps, ww_clock := t\<rparr>)" using Suc.IH [OF no(2)] by blast
    moreover have "decisive ?r \<Longrightarrow> post_attempts env (Suc n) l m st rep key u
        = (Inr False, u\<lparr>ww_posts := ww_posts ?u, ww_clock := ww_clock u + 1\<rparr>)"
      using no(1) by (simp add: Let_def)
    moreover have "\<not> decisive ?r \<Longrightarrow> post_attempts env (Suc n) l m st rep key u
        = post_attempts env n (case ?r of None \<Rightarrow> l | Some _ \<Rightarrow> ?r) m st rep key ?u" by (simp add: Let_def)
    moreover have "?u\<lparr>ww_posts := ps, ww_clock := t\<rparr> = u\<lparr>ww_posts := ps, ww_clock := t\<rparr>" by simp
    ultimately show ?case by metis
  qed
  let ?rep = "signed_report env ''Automated audit checks passed.'' [(''auditor'', PStr ''audit-worker''),
    (''checks'', PList [PStr ''contract'', PStr ''flow'']), (''result'', PStr ''PASS'')]"
  obtain ps t where "post_attempts env (nat (wk_max_retries env)) None mid ''PASS'' ?rep key w
      = (Inr False, w\<lparr>ww_posts := ps, ww_clock := t\<rparr>)"
    using refused [of None "nat (wk_max_retries env)" mid "''PASS''" ?rep w] by (auto simp: accepted_def)
  then have "handle_audit_entry env fs w = (Inr (), w\<lparr>ww_posts := ps, ww_clock := t, ww_processed := ww_processed w + 1\<rparr>)"
    using assms(3,4) by (simp add: handle_audit_entry_def handle_payload_def audit_and_announce_def post_audit_def bnd_def)
  then show ?thesis using assms(1) by (simp add: work_entry_def ack_def redis_done)
qed


section \<open>A sample worker\<close>

text \<open>JSON text numbers the documents; \<open>E\<close> is an envelope and \<open>V\<close> a verified event. The first answer of the
  orchestrator is a 503.\<close>

definition sample_worker_loads :: "string \<Rightarrow> pyval option" where
  "sample_worker_loads s = (if s = ''E'' then Some (PDict [(''topic'', PStr ''state'')])
     else if s = ''V'' then Some (PDict [(''event_type'', PStr ''MISSION_VERIFIED''), (''mission_id'', PStr ''m1'')])
     else Some (PDict (from_nat (length s - 1))))"

definition sample_audit_worker :: worker_env where
  "sample_audit_worker = \<lparr>wk_loads = sample_worker_loads,
     wk_dumps = (\<lambda>p. CHR ''x'' # replicate (to_nat p) (CHR ''x'')), wk_schema_ok = (\<lambda>_. True), wk_date_ok = (\<lambda>_. True),
     wk_topics = [''state'', ''artifact.rir.verified''], wk_stamp = (\<lambda>_. ''t''), wk_uuid = (\<lambda>_. ''u''),
     wk_error_text = (\<lambda>_. ''e''), wk_sign = (\<lambda>_. None), wk_respond = (\<lambda>n. if n = 0 then Some 503 else Some 201),
     wk_redis = (\<lambda>_. Done), wk_entry_id = (\<lambda>n. ''9-'' @ nat_str n), wk_files = (\<lambda>_. None), wk_process_env = [],
     wk_keys = \<lparr>kc_fallback = ''worker-key'', kc_mapping = [], kc_mode = ''shared'', kc_allowed = None\<rparr>,
     wk_agent = [], wk_max_retries = 3\<rparr>"

definition vetoed_entry :: entry where
  "vetoed_entry = (''1-0'', [(''envelope'', ''E''), (''payload'', ''V'')])"

definition sample_worker_world :: worker_world where
  "sample_worker_world = \<lparr>ww_stream = [vetoed_entry], ww_cursor = 0, ww_pending = [], ww_posts = [], ww_dead = [],
     ww_acked = [], ww_processed = 0, ww_errors = 0, ww_clock = 0\<rparr>"

lemma sample_codec: "wk_loads sample_audit_worker (wk_dumps sample_audit_worker p) = Some (PDict p)"
  by (simp add: sample_audit_worker_def sample_worker_loads_def)

lemma sample_read: "take_entry sample_audit_worker (snd vetoed_entry) = Inr (''MISSION_VERIFIED'', ''m1'')"
  by (simp add: take_entry_def vetoed_entry_def sample_audit_worker_def sample_worker_loads_def field_def
      validate_envelope_def dhas_def dget_def dget_or_def)

lemma sample_worker_key: "service_api_key_for_agent (wk_files sample_audit_worker) (wk_process_env sample_audit_worker)
    (wk_keys sample_audit_worker) (PStr (wk_agent sample_audit_worker)) = Inr ''worker-key''"
  unfolding sample_audit_worker_def by code_simp

lemma sample_up: "wk_redis sample_audit_worker = (\<lambda>_. Done)"
  by (simp add: sample_audit_worker_def)

theorem verdicts_backed_witness:
  "\<exists>w' ps xs. work_entry sample_audit_worker vetoed_entry sample_worker_world = (Inr (), w')
     \<and> ww_posts w' = ps \<and> map ap_response ps = [Some 503, Some 201] \<and> ww_stream w' = vetoed_entry # xs \<and> length xs = 1"
proof -
  obtain r w' where run: "work_entry sample_audit_worker (''1-0'', snd vetoed_entry) sample_worker_world = (r, w')" by fastforce
  have "map ap_response (ww_posts w') = [Some 503, Some 201] \<and> length (ww_stream w') = 2 \<and> r = Inr ()"
    using run
    by (simp add: work_entry_def handle_audit_entry_def sample_read bnd_def handle_payload_def audit_and_announce_def
        post_audit_def sample_worker_key)
      (auto simp: sample_audit_worker_def sample_worker_world_def numeral_3_eq_3 Let_def decisive_def accepted_def
        publish_verdict_def build_audit_envelope_def validate_envelope_def dhas_def dget_def bnd_def redis_call_def
        service_def ack_def)
  moreover from verdicts_backed [OF run] have "ww_stream w' = [vetoed_entry] @ drop 1 (ww_stream w')"
    by (auto simp: sample_worker_world_def)
  moreover have "vetoed_entry = (''1-0'', snd vetoed_entry)" by (simp add: vetoed_entry_def)
  ultimately show ?thesis using run
    by (intro exI [of _ w'] exI [of _ "ww_posts w'"] exI [of _ "drop 1 (ww_stream w')"]) auto
qed

text \<open>The publication failed after the report was filed; the worker then runs two more rounds.\<close>

theorem transient_failure_never_retried_witness:
  "''0-1'' \<in> set (ww_pending (snd (consumer_rounds sample_audit_worker [[], [vetoed_entry]]
      (sample_worker_world\<lparr>ww_cursor := 1, ww_pending := [''0-1'']\<rparr>))))
   \<and> ''0-1'' \<notin> set (ww_acked (snd (consumer_rounds sample_audit_worker [[], [vetoed_entry]]
      (sample_worker_world\<lparr>ww_cursor := 1, ww_pending := [''0-1'']\<rparr>))))"
  by (rule transient_failure_never_retried [OF prod.collapse [symmetric]])
    (simp_all add: sample_worker_world_def vetoed_entry_def sample_audit_worker_def)

theorem unfiled_report_acknowledged_witness:
  "\<exists>w'. work_entry (sample_audit_worker\<lparr>wk_respond := (\<lambda>_. Some 503)\<rparr>) vetoed_entry sample_worker_world = (Inr (), w')
     \<and> ww_acked w' = [''1-0''] \<and> ww_stream w' = [vetoed_entry] \<and> ww_dead w' = []"
proof -
  let ?env = "sample_audit_worker\<lparr>wk_respond := (\<lambda>_. Some 503)\<rparr>"
  have "take_entry ?env (snd vetoed_entry) = Inr (''MISSION_VERIFIED'', ''m1'')"
    by (simp add: take_entry_def vetoed_entry_def sample_audit_worker_def sample_worker_loads_def field_def
        validate_envelope_def dhas_def dget_def dget_or_def)
  then have "\<exists>w'. work_entry ?env (''1-0'', snd vetoed_entry) sample_worker_world = (Inr (), w')
    \<and> ww_acked w' = ww_acked sample_worker_world @ [''1-0''] \<and> ww_stream w' = ww_stream sample_worker_world
    \<and> ww_dead w' = ww_dead sample_worker_world \<and> ww_errors w' = ww_errors sample_worker_world
    \<and> ww_processed w' = ww_processed sample_worker_world + 1"
    using sample_worker_key sample_up by (intro unfiled_report_acknowledged) (auto simp: accepted_def)
  moreover have "(''1-0'', snd vetoed_entry) = vetoed_entry" by (simp add: vetoed_entry_def)
  ultimately show ?thesis by (auto simp: sample_worker_world_def)
qed


end
