(* ===== verification/Contract_Oracle.thy ===== *)
theory Contract_Oracle
  imports Factory_Prelude
begin

text \<open>
  The contract oracle, \<open>orchestrator/contract_oracle.py\<close>: the acceptance criteria a mission is judged by,
  the validation of the test vectors a language model proposes for them, and the comparison of what
  the artifact returned or printed with what a vector expects. The functions of the artifact's
  interface come from \<open>ast\<close> and from two regular expressions and are an argument, as are the JSON codec
  (\<open>dumps_size\<close> is the length of the text, when the value has one). Numbers are exact: the rounding of
  an integer to a float is not modelled.
\<close>

section \<open>Acceptance criteria\<close>

definition MAX_CONTRACT_VECTORS :: nat where "MAX_CONTRACT_VECTORS = 12"
definition MAX_JSON_BYTES :: nat where "MAX_JSON_BYTES = 4096"
definition MAX_STDOUT_EXPECTATION :: nat where "MAX_STDOUT_EXPECTATION = 2000"
definition STDOUT_MATCH_MODES :: "string list" where "STDOUT_MATCH_MODES = [''exact'', ''contains'', ''json'']"

definition text_items :: "pyval \<Rightarrow> nat \<Rightarrow> string list" where
  "text_items value limit =
     (case value of
        PList xs \<Rightarrow> take limit (map (\<lambda>x. py_strip (py_str x)) (filter (\<lambda>x. py_strip (str_or_empty x) \<noteq> []) xs))
      | _ \<Rightarrow> [])"

fun add_criteria :: "string list \<Rightarrow> string list \<Rightarrow> string list \<Rightarrow> string list" where
  "add_criteria seen ordered [] = ordered"
| "add_criteria seen ordered (c # cs) =
     (if py_lower c \<in> set seen then add_criteria seen ordered cs
      else add_criteria (py_lower c # seen) (ordered @ [c]) cs)"

definition acceptance_criteria :: "pydict \<Rightarrow> string list" where
  "acceptance_criteria metadata =
     take 12 (add_criteria [] []
       (text_items (dget (dict_or_empty (dget metadata ''feature_contract'')) ''acceptance_criteria'') 20
        @ text_items (dget (dict_or_empty (dget metadata ''mission_contract'')) ''acceptance_criteria'') 20))"

section \<open>The interface shown to the oracle\<close>

record oracle_interface =
  oi_language :: string
  oi_filename :: string
  oi_kind :: string
  oi_functions :: "(string \<times> string list) list"
  oi_usage :: string
  oi_supports_call :: bool
  oi_supports_cli :: bool

definition interface_for_oracle ::
  "(string \<Rightarrow> (string \<times> string list) list) \<Rightarrow> (string \<Rightarrow> (string \<times> string list) list) \<Rightarrow> string \<Rightarrow> string \<Rightarrow> pydict \<Rightarrow> string
     \<Rightarrow> oracle_interface" where
  "interface_for_oracle python_functions js_ts_functions language code generated_output artifact_kind =
     (let normalized = py_lower (py_strip language);
          functions = (if normalized = ''python'' then python_functions code
                       else if normalized \<in> set [''javascript'', ''typescript''] then js_ts_functions code
                       else [])
      in \<lparr>oi_language = normalized, oi_filename = take 128 (str_or_empty (dget generated_output ''filename'')),
          oi_kind = artifact_kind, oi_functions = functions,
          oi_usage = take 300 (py_strip (str_or_empty (dget generated_output ''usage_example''))),
          oi_supports_call = (functions \<noteq> []), oi_supports_cli = (artifact_kind = ''cli'')\<rparr>)"

text \<open>The dict comprehension over the functions: the last one of a name counts.\<close>

definition params_of :: "oracle_interface \<Rightarrow> string \<Rightarrow> string list option" where
  "params_of i name = map_of (rev (oi_functions i)) name"

section \<open>Validating vectors\<close>

record vector_base =
  vb_id :: string
  vb_criterion_index :: nat
  vb_criterion :: string
  vb_rationale :: string

datatype vector_body =
    CallVector string "pyval list" pyval
  | CliVector "string list" string int "string option" string

type_synonym vector = "vector_base \<times> vector_body"

definition json_size_ok :: "(pyval \<Rightarrow> nat option) \<Rightarrow> pyval \<Rightarrow> bool" where
  "json_size_ok dumps_size v = (case dumps_size v of None \<Rightarrow> False | Some n \<Rightarrow> n \<le> MAX_JSON_BYTES)"

definition criterion_index :: "pydict \<Rightarrow> int" where
  "criterion_index raw = (case py_int (dget raw ''criterion_index'') of Inl _ \<Rightarrow> - 1 | Inr i \<Rightarrow> i)"

datatype rejection = Not_Object | No_Criterion | Unknown_Function | Wrong_Arity | No_Expected | Not_Cli | Bad_Argv
  | Argv_Bounds | Stdin_Size | Bad_Exit | Bad_Stdout | Bad_Match | No_Observation | Unknown_Kind

definition validate_call ::
  "(pyval \<Rightarrow> nat option) \<Rightarrow> oracle_interface \<Rightarrow> pydict \<Rightarrow> rejection + vector_body" where
  "validate_call dumps_size i raw =
     (let name = str_or_empty (dget raw ''function'') in
      case params_of i name of
        None \<Rightarrow> Inl Unknown_Function
      | Some params \<Rightarrow>
          (case dget raw ''args'' of
             PList args \<Rightarrow>
               if length args \<noteq> length params then Inl Wrong_Arity
               else if \<not> dhas raw ''expected'' \<or> \<not> json_size_ok dumps_size (PList args)
                 \<or> \<not> json_size_ok dumps_size (dget raw ''expected'') then Inl No_Expected
               else Inr (CallVector name args (dget raw ''expected''))
           | _ \<Rightarrow> Inl Wrong_Arity))"

definition text_args :: "pyval \<Rightarrow> string list option" where
  "text_args v = (case v of
     PList xs \<Rightarrow> if \<forall>x \<in> set xs. is_str x then Some (map str_of xs) else None
   | _ \<Rightarrow> None)"

definition validate_cli :: "oracle_interface \<Rightarrow> pydict \<Rightarrow> rejection + vector_body" where
  "validate_cli i raw =
     (if \<not> oi_supports_cli i then Inl Not_Cli
      else case text_args (dget_or raw ''argv'' (PList [])) of
        None \<Rightarrow> Inl Bad_Argv
      | Some argv \<Rightarrow>
          let stdin = dget_or raw ''stdin'' (PStr []); exit_code = dget_or raw ''expected_exit_code'' (PInt 0);
              stdout = dget raw ''expected_stdout'';
              mode = py_lower (py_strip (py_str (py_or (dget raw ''stdout_match'') (PStr ''exact''))))
          in if length argv > 16 \<or> (\<exists>a \<in> set argv. length a > 200) \<or> \<not> is_str stdin then Inl Argv_Bounds
             else if length (str_of stdin) > MAX_JSON_BYTES then Inl Stdin_Size
             else case exit_code of
               PInt code \<Rightarrow>
                 if stdout \<noteq> PNone \<and> (\<not> is_str stdout \<or> length (str_of stdout) > MAX_STDOUT_EXPECTATION) then Inl Bad_Stdout
                 else if mode \<notin> set STDOUT_MATCH_MODES then Inl Bad_Match
                 else if stdout = PNone \<and> code = 0 then Inl No_Observation
                 else Inr (CliVector argv (str_of stdin) code (if stdout = PNone then None else Some (str_of stdout)) mode)
             | _ \<Rightarrow> Inl Bad_Exit)"

definition validate_vector ::
  "(pyval \<Rightarrow> nat option) \<Rightarrow> oracle_interface \<Rightarrow> string list \<Rightarrow> nat \<Rightarrow> pyval \<Rightarrow> rejection + vector" where
  "validate_vector dumps_size i criteria kept raw =
     (case raw of
        PDict d \<Rightarrow>
          (let kind = py_lower (py_strip (str_or_empty (dget d ''kind''))); ci = criterion_index d in
           if \<not> (0 \<le> ci \<and> ci < int (length criteria)) then Inl No_Criterion
           else let base = \<lparr>vb_id = ''cv-'' @ nat_str (kept + 1), vb_criterion_index = nat ci,
                      vb_criterion = take 300 (criteria ! nat ci),
                      vb_rationale = take 300 (str_or_empty (dget d ''rationale''))\<rparr>
             in case (if kind = ''call'' then validate_call dumps_size i d
                      else if kind = ''cli'' then validate_cli i d else Inl Unknown_Kind) of
                  Inl r \<Rightarrow> Inl r | Inr body \<Rightarrow> Inr (base, body))
      | _ \<Rightarrow> Inl Not_Object)"

text \<open>The loop stops when enough vectors are kept. A rejection carries the index of its vector.\<close>

fun validate_loop ::
  "(pyval \<Rightarrow> nat option) \<Rightarrow> oracle_interface \<Rightarrow> string list \<Rightarrow> nat \<Rightarrow> pyval list
     \<Rightarrow> vector list \<Rightarrow> (nat \<times> rejection) list \<Rightarrow> vector list \<times> (nat \<times> rejection) list" where
  "validate_loop dumps_size i criteria idx [] vs rs = (vs, rs)"
| "validate_loop dumps_size i criteria idx (raw # raws) vs rs =
     (case validate_vector dumps_size i criteria (length vs) raw of
        Inl r \<Rightarrow> validate_loop dumps_size i criteria (idx + 1) raws vs (rs @ [(idx, r)])
      | Inr v \<Rightarrow>
          if length vs + 1 \<ge> MAX_CONTRACT_VECTORS then (vs @ [v], rs)
          else validate_loop dumps_size i criteria (idx + 1) raws (vs @ [v]) rs)"

text \<open>\<open>None\<close> in the second component stands for the reply that carried no list.\<close>

definition validate_vectors ::
  "(pyval \<Rightarrow> nat option) \<Rightarrow> oracle_interface \<Rightarrow> string list \<Rightarrow> pyval \<Rightarrow> vector list \<times> (nat \<times> rejection) list option" where
  "validate_vectors dumps_size i criteria raw_vectors =
     (case raw_vectors of
        PList raws \<Rightarrow>
          (let (vs, rs) = validate_loop dumps_size i criteria 0 (take (MAX_CONTRACT_VECTORS * 2) raws) [] []
           in (vs, Some rs))
      | _ \<Rightarrow> ([], None))"

section \<open>Comparing results\<close>

definition is_close :: "rat \<Rightarrow> rat \<Rightarrow> bool" where
  "is_close a b = (\<bar>a - b\<bar> \<le> max (max \<bar>a\<bar> \<bar>b\<bar> / 10 ^ 9) (1 / 10 ^ 12))"

fun number :: "pyval \<Rightarrow> rat option" where
  "number (PInt i) = Some (of_int i)"
| "number (PFloat r _) = Some r"
| "number _ = None"

function (sequential) values_equal :: "pyval \<Rightarrow> pyval \<Rightarrow> bool" where
  "values_equal (PBool a) w = (w = PBool a)"
| "values_equal (PList xs) w =
     (case w of
        PList ys \<Rightarrow> length xs = length ys \<and> (\<forall>(x, y) \<in> set (zip xs ys). values_equal x y)
      | _ \<Rightarrow> False)"
| "values_equal (PDict d) w =
     (case w of
        PDict e \<Rightarrow> set (dkeys d) = set (dkeys e)
          \<and> (\<forall>(k, v) \<in> set d. case map_of e k of None \<Rightarrow> False | Some v' \<Rightarrow> values_equal v v')
      | _ \<Rightarrow> False)"
| "values_equal (PInt i) w = (case number w of None \<Rightarrow> False | Some b \<Rightarrow> is_close (of_int i) b)"
| "values_equal (PFloat r t) w = (case number w of None \<Rightarrow> False | Some b \<Rightarrow> is_close r b)"
| "values_equal (PStr s) w = (w = PStr s)"
| "values_equal PNone w = (w = PNone)"
  by pat_completeness auto

lemma dict_value_size: "(k, v) \<in> set d \<Longrightarrow> size v \<le> size_list (size_prod (\<lambda>x. 0) size) d"
  by (rule size_list_estimation') auto

termination values_equal
  by (relation "measure (\<lambda>(v, w). size v)")
    (auto simp: less_Suc_eq_le dict_value_size dest!: set_zip_leftD intro: size_list_estimation' [OF _ order_refl])

definition line_feed :: char where "line_feed = CHR 0x0A"

fun crlf_to_lf :: "string \<Rightarrow> string" where
  "crlf_to_lf (a # b # s) = (if a = CHR 0x0D \<and> b = line_feed then line_feed # crlf_to_lf s else a # crlf_to_lf (b # s))"
| "crlf_to_lf s = s"

definition blank :: "char \<Rightarrow> bool" where "blank c = (c = CHR '' '' \<or> c = CHR 0x09)"

text \<open>The substitution of blanks at line ends: \<open>pending\<close> are the blanks seen since the last other
  character.\<close>

fun drop_trailing :: "string \<Rightarrow> string \<Rightarrow> string" where
  "drop_trailing pending [] = []"
| "drop_trailing pending (c # s) =
     (if blank c then drop_trailing (pending @ [c]) s
      else if c = line_feed then c # drop_trailing [] s
      else pending @ c # drop_trailing [] s)"

definition normalise_stdout :: "string \<Rightarrow> string" where
  "normalise_stdout text = strip_by (\<lambda>c. c = line_feed) (drop_trailing [] (crlf_to_lf text))"

definition stdout_matches :: "(string \<Rightarrow> pyval option) \<Rightarrow> string \<Rightarrow> string \<Rightarrow> string \<Rightarrow> bool" where
  "stdout_matches loads expected actual mode =
     (if mode = ''contains'' then contains_str (normalise_stdout expected) (normalise_stdout actual)
      else if mode = ''json''
      then (case (loads expected, loads actual) of (Some e, Some a) \<Rightarrow> values_equal e a | _ \<Rightarrow> False)
      else normalise_stdout expected = normalise_stdout actual)"

section \<open>Command lines\<close>

definition shell_safe :: "char \<Rightarrow> bool" where
  "shell_safe c = (is_lower_char c \<or> is_upper_char c \<or> is_digit c \<or> c \<in> set ''_@%+=:,./-'')"

definition shell_quote :: "string \<Rightarrow> string" where
  "shell_quote s =
     (if s = [] then [CHR 0x27, CHR 0x27]
      else if \<forall>c \<in> set s. shell_safe c then s
      else CHR 0x27 # concat (map (\<lambda>c. if c = CHR 0x27 then [CHR 0x27, CHR 0x22, CHR 0x27, CHR 0x22, CHR 0x27] else [c]) s)
             @ [CHR 0x27])"

definition cli_command :: "string \<Rightarrow> string list \<Rightarrow> string option \<Rightarrow> string" where
  "cli_command run_command argv stdin_file =
     (let command = rev (dropWhile is_space (rev (run_command @ '' '' @ join_str '' '' (map shell_quote argv))))
      in case stdin_file of
           None \<Rightarrow> command
         | Some f \<Rightarrow> if f = [] then command else command @ '' < '' @ shell_quote f)"

section \<open>What the validation keeps\<close>

text \<open>A body that can be executed as it stands, and that is the one the reply stated.\<close>

definition executable :: "(pyval \<Rightarrow> nat option) \<Rightarrow> oracle_interface \<Rightarrow> vector_body \<Rightarrow> bool" where
  "executable dumps_size i body = (case body of
     CallVector f args e \<Rightarrow> (case params_of i f of None \<Rightarrow> False | Some ps \<Rightarrow> length args = length ps)
       \<and> json_size_ok dumps_size (PList args) \<and> json_size_ok dumps_size e
   | CliVector argv stdin code out mode \<Rightarrow> oi_supports_cli i \<and> length argv \<le> 16 \<and> (\<forall>a \<in> set argv. length a \<le> 200)
       \<and> length stdin \<le> MAX_JSON_BYTES \<and> mode \<in> set STDOUT_MATCH_MODES
       \<and> (case out of None \<Rightarrow> code \<noteq> 0 | Some s \<Rightarrow> length s \<le> MAX_STDOUT_EXPECTATION))"

definition stated :: "pydict \<Rightarrow> vector_body \<Rightarrow> bool" where
  "stated d body = (case body of
     CallVector f args e \<Rightarrow> f = str_or_empty (dget d ''function'') \<and> dget d ''args'' = PList args
       \<and> map_of d ''expected'' = Some e
   | CliVector argv stdin code out mode \<Rightarrow> dget_or d ''argv'' (PList []) = PList (map PStr argv)
       \<and> dget_or d ''stdin'' (PStr []) = PStr stdin \<and> dget_or d ''expected_exit_code'' (PInt 0) = PInt code
       \<and> dget d ''expected_stdout'' = (case out of None \<Rightarrow> PNone | Some s \<Rightarrow> PStr s))"

definition kept_ok :: "(pyval \<Rightarrow> nat option) \<Rightarrow> oracle_interface \<Rightarrow> string list \<Rightarrow> pyval list \<Rightarrow> vector \<Rightarrow> bool" where
  "kept_ok dumps_size i criteria raws v \<longleftrightarrow>
     vb_criterion_index (fst v) < length criteria
     \<and> vb_criterion (fst v) = take 300 (criteria ! vb_criterion_index (fst v))
     \<and> executable dumps_size i (snd v)
     \<and> (\<exists>d. PDict d \<in> set raws \<and> criterion_index d = int (vb_criterion_index (fst v)) \<and> stated d (snd v))"

lemma is_str_eq: "is_str v \<Longrightarrow> v = PStr (str_of v)"
  by (cases v) auto

lemma text_args_map: "text_args v = Some argv \<Longrightarrow> v = PList (map PStr argv)"
  by (auto simp: text_args_def is_str_eq [symmetric] o_def intro!: map_idI [symmetric] split: pyval.splits if_splits)

lemma call_kept: "validate_call dumps_size i d = Inr body \<Longrightarrow> executable dumps_size i body \<and> stated d body"
  by (auto simp: validate_call_def executable_def stated_def Let_def dhas_def dget_def
      split: option.splits pyval.splits if_splits)

lemma cli_kept:
  assumes "validate_cli i d = Inr body"
  shows "executable dumps_size i body \<and> stated d body"
proof -
  obtain argv where argv: "text_args (dget_or d ''argv'' (PList [])) = Some argv"
    using assms by (auto simp: validate_cli_def split: option.splits if_splits)
  obtain code where code: "dget_or d ''expected_exit_code'' (PInt 0) = PInt code"
    using assms argv by (auto simp: validate_cli_def Let_def split: pyval.splits if_splits)
  have str: "is_str (dget_or d ''stdin'' (PStr []))" using assms argv
    by (auto simp: validate_cli_def Let_def split: if_splits)
  have out: "dget d ''expected_stdout'' = PNone \<or> is_str (dget d ''expected_stdout'')"
    using assms argv code by (auto simp: validate_cli_def Let_def split: if_splits)
  show ?thesis using assms argv code text_args_map [OF argv] is_str_eq [OF str] out
    by (auto simp: validate_cli_def executable_def stated_def Let_def is_str_eq not_less split: if_splits)
qed

lemma vector_kept:
  assumes "validate_vector dumps_size i criteria n raw = Inr v" and "raw \<in> set raws"
  shows "kept_ok dumps_size i criteria raws v \<and> vb_id (fst v) = ''cv-'' @ nat_str (n + 1)"
proof -
  obtain d where d: "raw = PDict d" using assms(1) by (cases raw) (auto simp: validate_vector_def)
  let ?kind = "py_lower (py_strip (str_or_empty (dget d ''kind'')))"
  let ?body = "if ?kind = ''call'' then validate_call dumps_size i d
    else if ?kind = ''cli'' then validate_cli i d else Inl Unknown_Kind"
  have ci: "0 \<le> criterion_index d" "criterion_index d < int (length criteria)"
    using assms(1) d by (auto simp: validate_vector_def Let_def split: if_splits)
  obtain body where body: "?body = Inr body" "snd v = body"
    and base: "vb_id (fst v) = ''cv-'' @ nat_str (n + 1)" "vb_criterion_index (fst v) = nat (criterion_index d)"
      "vb_criterion (fst v) = take 300 (criteria ! nat (criterion_index d))"
    using assms(1) d ci by (cases ?body) (auto simp: validate_vector_def Let_def)
  have "executable dumps_size i body \<and> stated d body"
    using body(1) call_kept cli_kept by (metis sum.distinct(1))
  then show ?thesis using body(2) base ci d assms(2) by (auto simp: kept_ok_def)
qed

lemma loop_kept:
  assumes "validate_loop dumps_size i criteria idx raws vs rs = (vs', rs')" and "set raws \<subseteq> set all_raws"
    and "\<forall>v \<in> set vs. kept_ok dumps_size i criteria all_raws v" and "length vs < MAX_CONTRACT_VECTORS"
    and "map (\<lambda>v. vb_id (fst v)) vs = map (\<lambda>n. ''cv-'' @ nat_str (n + 1)) [0..<length vs]"
  shows "(\<forall>v \<in> set vs'. kept_ok dumps_size i criteria all_raws v) \<and> length vs' \<le> MAX_CONTRACT_VECTORS
    \<and> map (\<lambda>v. vb_id (fst v)) vs' = map (\<lambda>n. ''cv-'' @ nat_str (n + 1)) [0..<length vs']
    \<and> length vs' + length rs' \<le> length vs + length rs + length raws
    \<and> (length vs' < MAX_CONTRACT_VECTORS \<longrightarrow> length vs' + length rs' = length vs + length rs + length raws)"
  using assms
proof (induction raws arbitrary: idx vs rs)
  case (Cons raw raws)
  show ?case
  proof (cases "validate_vector dumps_size i criteria (length vs) raw")
    case (Inl r)
    with Cons.prems have "validate_loop dumps_size i criteria (idx + 1) raws vs (rs @ [(idx, r)]) = (vs', rs')" by simp
    from Cons.IH [OF this] Cons.prems show ?thesis by simp
  next
    case (Inr v)
    then have v: "kept_ok dumps_size i criteria all_raws v" "vb_id (fst v) = ''cv-'' @ nat_str (length vs + 1)"
      using vector_kept [OF Inr, of all_raws] Cons.prems(2) by auto
    show ?thesis
    proof (cases "length vs + 1 \<ge> MAX_CONTRACT_VECTORS")
      case True
      with Inr Cons.prems v show ?thesis by (auto simp: upt_Suc_append)
    next
      case False
      with Inr Cons.prems(1) have "validate_loop dumps_size i criteria (idx + 1) raws (vs @ [v]) rs = (vs', rs')" by simp
      from Cons.IH [OF this] Cons.prems v False show ?thesis by (simp add: upt_Suc_append)
    qed
  qed
qed auto

section \<open>Comparison\<close>

text \<open>Documents as JSON has them: an object has a key once.\<close>

fun json_doc :: "pyval \<Rightarrow> bool" where
  "json_doc (PList xs) = (\<forall>x \<in> set xs. json_doc x)"
| "json_doc (PDict d) = (distinct (dkeys d) \<and> (\<forall>(k, v) \<in> set d. json_doc v))"
| "json_doc _ = True"

lemma is_close_refl: "is_close a a"
  by (simp add: is_close_def)

lemma is_close_sym: "is_close a b = is_close b a"
  by (simp add: is_close_def abs_minus_commute max.commute)

lemma number_values: "number v = Some a \<Longrightarrow> values_equal v w = (case number w of None \<Rightarrow> False | Some b \<Rightarrow> is_close a b)"
  by (cases v) auto

lemma values_equal_reflexive: "json_doc v \<Longrightarrow> values_equal v v"
proof (induction v rule: json_doc.induct)
  case (1 xs)
  then show ?case by (auto simp: set_zip)
next
  case (2 d)
  then have "map_of d k = Some v" if "(k, v) \<in> set d" for k v
    using that by (simp add: dkeys_def)
  with 2 show ?case by auto
qed (simp_all add: is_close_refl)

lemma values_equal_sym: "values_equal v w \<Longrightarrow> json_doc v \<Longrightarrow> json_doc w \<Longrightarrow> values_equal w v"
proof (induction v w rule: values_equal.induct)
  case (2 xs w)
  then obtain ys where w: "w = PList ys" and len: "length xs = length ys" by (auto split: pyval.splits)
  have "values_equal y x" if "(y, x) \<in> set (zip ys xs)" for x y
  proof -
    from that have "(x, y) \<in> set (zip xs ys)" "x \<in> set xs" "y \<in> set ys"
      using len by (auto simp: set_zip dest: set_zip_leftD set_zip_rightD)
    with 2 w show ?thesis by fastforce
  qed
  with w len show ?case by auto
next
  case (3 d w)
  obtain e where w: "w = PDict e" using 3 by (cases w) auto
  have keys: "set (dkeys d) = set (dkeys e)" using "3.prems"(1) w by simp
  have sub: "\<exists>v'. map_of e k = Some v' \<and> values_equal v v'" if "(k, v) \<in> set d" for k v
    using "3.prems"(1) w that by (fastforce split: option.splits)
  have "\<exists>v. map_of d k = Some v \<and> values_equal v' v" if e: "(k, v') \<in> set e" for k v'
  proof -
    have e': "map_of e k = Some v'" using 3 e w by (simp add: dkeys_def)
    obtain v where v: "map_of d k = Some v"
      using e keys by (metis dhas_def dhas_iff dkeys_def fst_conv image_eqI option.exhaust set_map)
    then have d: "(k, v) \<in> set d" by (rule map_of_SomeD)
    with sub e' have "values_equal v v'" by fastforce
    with 3 d e e' w v show ?thesis by fastforce
  qed
  with w keys show ?case by fastforce
next
  case (4 i w)
  then show ?case by (cases w) (auto simp: is_close_sym)
next
  case (5 r t w)
  then show ?case by (cases w) (auto simp: is_close_sym)
qed auto

section \<open>Properties\<close>


text \<open>The comparison is an even-handed one: it accepts a value for itself and does not depend on which side
  is the expected one, on documents whose objects have a key once; printed output that matches exactly
  also matches in the other text mode.\<close>

theorem comparison_even_handed:
  assumes "json_doc v" and "json_doc w"
  shows "values_equal v v \<and> (values_equal v w \<longleftrightarrow> values_equal w v)
    \<and> (stdout_matches loads expected actual ''exact'' \<longrightarrow> stdout_matches loads expected actual ''contains''
         \<and> stdout_matches loads actual expected ''contains'')"
proof -
  have "contains_str s s" for s by (cases s) (simp_all add: starts_with_def)
  then show ?thesis
    using values_equal_reflexive [OF assms(1)] values_equal_sym [of v w] values_equal_sym [of w v] assms
    by (auto simp: stdout_matches_def)
qed

section \<open>A sample reply\<close>

definition sample_interface :: oracle_interface where
  "sample_interface = \<lparr>oi_language = ''python'', oi_filename = ''a.py'', oi_kind = ''cli'', oi_functions = [(''add'', [''a'', ''b''])],
     oi_usage = [], oi_supports_call = True, oi_supports_cli = True\<rparr>"

definition sample_reply :: "pyval list" where
  "sample_reply =
     [PDict [(''kind'', PStr ''call''), (''criterion_index'', PInt 0), (''function'', PStr ''add''),
             (''args'', PList [PInt 1, PInt 2]), (''expected'', PInt 3)],
      PDict [(''kind'', PStr ''call''), (''criterion_index'', PInt 0), (''function'', PStr ''mul''), (''args'', PList [])],
      PDict [(''kind'', PStr ''cli''), (''criterion_index'', PInt 0), (''argv'', PList [PStr ''x''])]]"


theorem comparison_even_handed_witness:
  "values_equal (PDict [(''a'', PInt 1), (''b'', PFloat (1/2) ''0.5'')]) (PDict [(''b'', PFloat (1/2) ''0.50''), (''a'', PFloat 1 ''1.0'')])
   \<and> values_equal (PDict [(''b'', PFloat (1/2) ''0.50''), (''a'', PFloat 1 ''1.0'')]) (PDict [(''a'', PInt 1), (''b'', PFloat (1/2) ''0.5'')])"
proof -
  let ?v = "PDict [(''a'', PInt 1), (''b'', PFloat (1/2) ''0.5'')]"
  let ?w = "PDict [(''b'', PFloat (1/2) ''0.50''), (''a'', PFloat 1 ''1.0'')]"
  have "values_equal ?v ?w" by (auto simp: dkeys_def is_close_def)
  moreover have "json_doc ?v" "json_doc ?w" by (simp_all add: dkeys_def)
  ultimately show ?thesis using comparison_even_handed [of ?v ?w] by blast
qed

end
