(* ===== verification/Port_Coordinator.thy ===== *)
theory Port_Coordinator
  imports Source_Bundle Mission_Flow
begin

text \<open>
  Two-phase ports, \<open>orchestrator/port_coordinator.py\<close> with the suffix table of \<open>aim_generator.py\<close>: the
  detection of the source language from the headers of a source bundle or from words of the prompt,
  the routing of the extraction phase, and what that phase makes of the application model. The model
  generators themselves call a language model and are arguments (\<open>None\<close>: they raised).
\<close>

section \<open>Tables\<close>

definition LANGUAGE_BY_SUFFIX :: "string dict" where
  "LANGUAGE_BY_SUFFIX =
    [(''.py'', ''python''), (''.js'', ''javascript''), (''.jsx'', ''javascript''),
     (''.mjs'', ''javascript''), (''.cjs'', ''javascript''), (''.ts'', ''typescript''),
     (''.tsx'', ''typescript''), (''.rb'', ''ruby''), (''.php'', ''php''), (''.c'', ''c''),
     (''.h'', ''c''), (''.cpp'', ''cpp''), (''.cc'', ''cpp''), (''.cxx'', ''cpp''), (''.hpp'', ''cpp''),
     (''.hxx'', ''cpp''), (''.rs'', ''rust''), (''.go'', ''go''), (''.zig'', ''zig''),
     (''.java'', ''java''), (''.cs'', ''csharp''), (''.scala'', ''scala''), (''.kt'', ''kotlin''),
     (''.kts'', ''kotlin''), (''.r'', ''r''), (''.R'', ''r''), (''.jl'', ''julia''),
     (''.m'', ''matlab''), (''.wl'', ''mathematica''), (''.nb'', ''mathematica''),
     (''.hs'', ''haskell''), (''.ml'', ''ocaml''), (''.mli'', ''ocaml''), (''.swift'', ''swift''),
     (''.mm'', ''objc''), (''.lua'', ''lua''), (''.glsl'', ''glsl''), (''.hlsl'', ''hlsl''),
     (''.wgsl'', ''wgsl''), (''.shader'', ''glsl'')]"

definition PORT_POD_MANAGER_BY_LANGUAGE :: "string dict" where
  "PORT_POD_MANAGER_BY_LANGUAGE =
    [(''python'', ''AGENT-12-PODA-MGR''), (''javascript'', ''AGENT-12-PODA-MGR''),
     (''typescript'', ''AGENT-12-PODA-MGR''), (''ruby'', ''AGENT-12-PODA-MGR''),
     (''php'', ''AGENT-12-PODA-MGR''), (''c'', ''AGENT-18-PODB-MGR''), (''cpp'', ''AGENT-18-PODB-MGR''),
     (''rust'', ''AGENT-18-PODB-MGR''), (''go'', ''AGENT-18-PODB-MGR''),
     (''zig'', ''AGENT-18-PODB-MGR''), (''java'', ''AGENT-24-PODC-MGR''),
     (''csharp'', ''AGENT-24-PODC-MGR''), (''scala'', ''AGENT-24-PODC-MGR''),
     (''kotlin'', ''AGENT-24-PODC-MGR''), (''matlab'', ''AGENT-30-PODD-MGR''),
     (''r'', ''AGENT-30-PODD-MGR''), (''julia'', ''AGENT-30-PODD-MGR''),
     (''mathematica'', ''AGENT-30-PODD-MGR''), (''haskell'', ''AGENT-30-PODD-MGR''),
     (''ocaml'', ''AGENT-30-PODD-MGR'')]"

definition PORT_SPECIALIST_BY_LANGUAGE :: "string dict" where
  "PORT_SPECIALIST_BY_LANGUAGE =
    [(''python'', ''AGENT-14-PYTHON''), (''javascript'', ''AGENT-15-JAVASCRIPT''),
     (''typescript'', ''AGENT-15-JAVASCRIPT''), (''ruby'', ''AGENT-16-RUBY''),
     (''php'', ''AGENT-17-PHP''), (''c'', ''AGENT-20-C''), (''cpp'', ''AGENT-21-CPP''),
     (''rust'', ''AGENT-22-RUST''), (''zig'', ''AGENT-23-ZIG''), (''java'', ''AGENT-26-JAVA''),
     (''csharp'', ''AGENT-27-CSHARP''), (''scala'', ''AGENT-28-SCALA''),
     (''kotlin'', ''AGENT-29-KOTLIN''), (''matlab'', ''AGENT-32-MATLAB''), (''r'', ''AGENT-33-R''),
     (''julia'', ''AGENT-34-JULIA''), (''mathematica'', ''AGENT-35-MATHEMATICA''),
     (''go'', ''AGENT-36-GO''), (''haskell'', ''AGENT-37-HASKELL''), (''ocaml'', ''AGENT-38-OCAML'')]"

text \<open>The words looked for in a prompt, in this order.\<close>

definition PROMPT_HINTS :: "string list" where
  "PROMPT_HINTS = [''python'', ''javascript'', ''typescript'', ''rust'', ''go'', ''cpp'', ''c'', ''java'', ''csharp'', ''kotlin'',
     ''scala'', ''ruby'', ''php'', ''zig'', ''haskell'', ''ocaml'', ''julia'', ''r'', ''matlab'']"

section \<open>Source language\<close>

text \<open>\<open>^## FILE .+?(\.[a-zA-Z0-9]+)$\<close> on one line: the suffix is what follows the last dot, when it is one or
  more letters and digits and the dot is not the first character of the path.\<close>

definition suffix_char :: "char \<Rightarrow> bool" where
  "suffix_char c = (is_lower_char c \<or> is_upper_char c \<or> is_digit c)"

definition header_suffix :: "string \<Rightarrow> string option" where
  "header_suffix line =
     (let path = drop 8 line; ext = rev (takeWhile (\<lambda>c. c \<noteq> CHR ''.'') (rev path))
      in if starts_with ''## FILE '' line \<and> CHR ''.'' \<in> set path \<and> ext \<noteq> [] \<and> (\<forall>c \<in> set ext. suffix_char c)
           \<and> length ext + 1 < length path
         then Some (CHR ''.'' # ext) else None)"

definition line_language :: "string \<Rightarrow> string option" where
  "line_language line = (case header_suffix line of None \<Rightarrow> None | Some ext \<Rightarrow> map_of LANGUAGE_BY_SUFFIX (py_lower ext))"

text \<open>\<open>ext_counts\<close>: a dict in the order of first occurrence.\<close>

definition bump :: "string \<Rightarrow> nat dict \<Rightarrow> nat dict" where
  "bump lang counts = dset lang ((case map_of counts lang of None \<Rightarrow> 0 | Some n \<Rightarrow> n) + 1) counts"

definition bundle_languages :: "string \<Rightarrow> string list" where
  "bundle_languages source_code = List.map_filter line_language (split_on newline source_code)"

definition ext_counts :: "string \<Rightarrow> nat dict" where
  "ext_counts source_code = foldl (\<lambda>counts lang. bump lang counts) [] (bundle_languages source_code)"

text \<open>\<open>max(d, key=d.get)\<close>: the first key with the greatest count.\<close>

fun max_key :: "string \<Rightarrow> nat \<Rightarrow> nat dict \<Rightarrow> string" where
  "max_key best n [] = best"
| "max_key best n ((k, m) # d) = (if m > n then max_key k m d else max_key best n d)"

definition prompt_language :: "string \<Rightarrow> string" where
  "prompt_language prompt =
     (case filter (\<lambda>lang. contains_str lang (py_lower prompt)) PROMPT_HINTS of [] \<Rightarrow> ''python'' | lang # _ \<Rightarrow> lang)"

definition detect_source_language_from_bundle :: "pyval \<Rightarrow> string \<Rightarrow> string" where
  "detect_source_language_from_bundle source_code prompt =
     (if is_str source_code \<and> py_strip (str_of source_code) \<noteq> [] \<and> ext_counts (str_of source_code) \<noteq> []
      then (case ext_counts (str_of source_code) of (k, n) # d \<Rightarrow> max_key k n d)
      else prompt_language prompt)"

section \<open>Routing the extraction phase\<close>

definition table_or :: "string dict \<Rightarrow> string \<Rightarrow> string \<Rightarrow> string" where
  "table_or t k d = (case map_of t k of None \<Rightarrow> d | Some v \<Rightarrow> v)"

text \<open>The first cluster whose domain speaks of extraction; its ids replace the table's when they are not
  blank.\<close>

definition extraction_cluster :: "pyval \<Rightarrow> pydict option" where
  "extraction_cluster clusters =
     (case filter (\<lambda>c. is_dict c \<and> contains_str ''extraction'' (py_lower (str_or_empty (dget (dict_or_empty c) ''domain''))))
             (list_or_empty clusters) of
        [] \<Rightarrow> None | c # _ \<Rightarrow> Some (dict_or_empty c))"

definition cluster_agent :: "pydict option \<Rightarrow> string \<Rightarrow> string \<Rightarrow> string" where
  "cluster_agent cluster k d =
     (case cluster of
        None \<Rightarrow> d
      | Some c \<Rightarrow> (let a = py_strip (str_or_empty (dget c k)) in if a = [] then d else a))"

definition setup_port_two_phase :: "pydict \<Rightarrow> string \<Rightarrow> string option \<Rightarrow> pyval \<Rightarrow> pydict" where
  "setup_port_two_phase metadata prompt requested_target_language clusters =
     (let source = detect_source_language_from_bundle (dget metadata ''source_code'') prompt;
          requested = (case requested_target_language of Some l \<Rightarrow> PStr l | None \<Rightarrow> PNone);
          target = py_lower (py_strip (py_str (py_or requested (py_or (dget metadata ''port_target_language'') (PStr ''python'')))));
          cluster = extraction_cluster clusters
      in dset ''port_source_specialist_agent_id''
           (PStr (cluster_agent cluster ''specialist_agent_id'' (table_or PORT_SPECIALIST_BY_LANGUAGE source ''AGENT-14-PYTHON'')))
         (dset ''port_source_pod_manager_agent_id''
           (PStr (cluster_agent cluster ''pod_manager_agent_id'' (table_or PORT_POD_MANAGER_BY_LANGUAGE source ''AGENT-12-PODA-MGR'')))
         (dset ''port_phase'' (PStr ''extraction'')
         (dset ''port_target_language'' (PStr target)
         (dset ''port_source_language'' (PStr source) metadata)))))"

section \<open>The extraction phase\<close>

definition aim_node :: "string \<Rightarrow> pydict \<Rightarrow> pyval" where
  "aim_node source_language node = PDict
     [(''domain'', dget_or node ''domain'' (PStr ''general'')), (''concept'', dget_or node ''concept'' (PStr [])),
      (''intent'', dget_or node ''intent'' (PStr [])), (''confidence'', dget_or node ''confidence'' (PFloat (1/2) ''0.5'')),
      (''source_language'', PStr source_language),
      (''extraction_method'', dget_or node ''extraction_method'' (PStr ''aim''))]"

text \<open>\<open>(entry.get("extracted_concepts") or [])[:10]\<close>: the characters of a text are no dicts, and a dict or a
  number cannot be sliced, a \<open>TypeError\<close>.\<close>

definition entry_nodes :: "string \<Rightarrow> pydict \<Rightarrow> pyval list res" where
  "entry_nodes source_language file_entry =
     (case py_or (dget file_entry ''extracted_concepts'') (PList []) of
        PList nodes \<Rightarrow> Inr (map (\<lambda>n. aim_node source_language (dict_or_empty n)) (filter is_dict (take 10 nodes)))
      | PStr _ \<Rightarrow> Inr []
      | _ \<Rightarrow> Inl TypeError)"

definition source_logicnodes :: "string \<Rightarrow> pydict \<Rightarrow> pyval list res" where
  "source_logicnodes source_language aim =
     (case dget aim ''files'' of
        PList files \<Rightarrow> rbind (rmap (\<lambda>f. entry_nodes source_language (dict_or_empty f)) (filter is_dict (take 20 files)))
          (\<lambda>nss. Inr (concat nss))
      | _ \<Rightarrow> Inr [])"

text \<open>What the generators returned: the application model, when the mission has source code, and the plan;
  \<open>None\<close> when the call raised. The result is the updated document of the mission and the fields returned.\<close>

definition run_port_extraction_phase ::
  "pydict option \<Rightarrow> pydict option \<Rightarrow> pydict \<Rightarrow> string \<Rightarrow> (pydict \<times> pydict) res" where
  "run_port_extraction_phase aim_result plan_result metadata now =
     (let source = py_str (py_or (dget metadata ''port_source_language'') (PStr ''python''));
          specialist = py_str (py_or (dget metadata ''port_source_specialist_agent_id'')
            (PStr (table_or PORT_SPECIALIST_BY_LANGUAGE source ''AGENT-14-PYTHON'')));
          code = dget metadata ''source_code'';
          aim = (if is_str code \<and> py_strip (str_of code) \<noteq> []
                 then (case aim_result of None \<Rightarrow> [(''source'', PStr ''error''), (''files'', PList [])] | Some a \<Rightarrow> a)
                 else []);
          plan = (case plan_result of None \<Rightarrow> [(''source'', PStr ''fallback'')] | Some p \<Rightarrow> p)
      in rbind (source_logicnodes source aim) (\<lambda>nodes.
         let metadata = append_chain_event metadata ''MISSION_PORT_EXTRACTION_COMPLETE'' specialist
               [(''source_language'', PStr source), (''logicnode_count'', PInt (int (length nodes))),
                (''aim_file_count'', PInt (int (length (list_or_empty (dget aim ''files''))))),
                (''source'', dget_or aim ''source'' (PStr ''unknown''))] now;
             degraded = (dget aim ''source'' \<in> set [PStr ''error'', PStr ''fallback''] \<or> dget plan ''source'' = PStr ''fallback'')
         in Inr (metadata,
              [(''port_source_logicnodes'', PList nodes), (''port_source_aim'', PDict aim), (''port_source_plan'', PDict plan),
               (''port_phase'', PStr ''generation''), (''extraction_degraded'', PBool degraded)])))"

section \<open>Counting\<close>

lemma bump_counts: "map_of (bump lang counts) l = (if l = lang then Some (Suc (case map_of counts l of None \<Rightarrow> 0 | Some n \<Rightarrow> n))
   else map_of counts l)"
  by (simp add: bump_def)

lemma counts_of:
  "map_of (foldl (\<lambda>counts lang. bump lang counts) counts langs) l
     = (if l \<in> set langs then Some ((case map_of counts l of None \<Rightarrow> 0 | Some n \<Rightarrow> n) + count_list langs l) else map_of counts l)"
proof (induction langs arbitrary: counts)
  case (Cons a langs)
  show ?case
    by (cases "l \<in> set langs") (auto simp: Cons.IH bump_counts count_list_0_iff split: option.split)
qed simp

lemma ext_counts_of:
  "map_of (ext_counts s) l = (if l \<in> set (bundle_languages s) then Some (count_list (bundle_languages s) l) else None)"
  by (simp add: ext_counts_def counts_of)

lemma ext_counts_distinct: "distinct (dkeys (ext_counts s))"
proof -
  have "distinct (dkeys counts) \<Longrightarrow> distinct (dkeys (foldl (\<lambda>counts lang. bump lang counts) counts langs))" for langs counts
    by (induction langs arbitrary: counts) (simp_all add: bump_def dkeys_def dset_def distinct_update)
  then show ?thesis by (simp add: ext_counts_def dkeys_def)
qed

lemma max_key_max:
  "(max_key best n d, Max (insert n (snd ` set d))) \<in> insert (best, n) (set d)"
proof (induction d arbitrary: best n)
  case (Cons x d)
  obtain k m where x: "x = (k, m)" by (cases x)
  have "Max (insert n (snd ` set (x # d))) = (if m > n then Max (insert m (snd ` set d)) else Max (insert n (snd ` set d)))"
    using x by (cases "set d = {}") (auto simp: max_def)
  with Cons.IH [of k m] Cons.IH [of best n] x show ?case by auto
qed simp

lemma bundle_has_text:
  assumes "bundle_languages s \<noteq> []"
  shows "py_strip s \<noteq> []"
proof -
  from assms obtain line where line: "line \<in> set (split_on newline s)" "header_suffix line \<noteq> None"
    by (auto simp: bundle_languages_def map_filter_def line_language_def filter_empty_conv split: option.splits)
  from line(2) have "starts_with ''## FILE '' line" by (auto simp: header_suffix_def Let_def split: if_splits)
  then have "CHR ''#'' \<in> set line" by (auto simp: starts_with_iff)
  then have "CHR ''#'' \<in> set s" using split_on_part [OF line(1)] by auto
  then show ?thesis by (rule py_strip_not_Nil) (simp add: is_space_def Let_def)
qed

lemma contains_set: "contains_str w s \<Longrightarrow> set w \<subseteq> set s"
proof (induction w s rule: contains_str.induct)
  case (2 p c s)
  have "starts_with p (c # s) \<Longrightarrow> set p \<subseteq> set (c # s)"
    unfolding starts_with_def by (metis set_take_subset)
  with 2 show ?case by auto
qed simp

lemma contains_char: "contains_str [c] s \<longleftrightarrow> c \<in> set s"
  by (induction s) (auto simp: starts_with_def)

lemma port_tables_agree:
  "list_all (\<lambda>l. table_or PORT_SPECIALIST_BY_LANGUAGE l ''AGENT-14-PYTHON'' = resolve_specialist_agent_id (Some l)
     \<and> table_or PORT_POD_MANAGER_BY_LANGUAGE l ''AGENT-12-PODA-MGR'' = resolve_pod_manager_agent_id (Some l))
     (dkeys PORT_SPECIALIST_BY_LANGUAGE)"
  by code_simp

section \<open>Properties\<close>

text \<open>A source bundle with a file of a known suffix has the language most of its files have, whatever the prompt
  says.\<close>

theorem bundle_language_majority:
  assumes "bundle_languages s \<noteq> []"
  shows "detect_source_language_from_bundle (PStr s) prompt \<in> set (bundle_languages s)
    \<and> (\<forall>l. count_list (bundle_languages s) l
          \<le> count_list (bundle_languages s) (detect_source_language_from_bundle (PStr s) prompt))"
proof -
  let ?counts = "ext_counts s" and ?langs = "bundle_languages s"
  from assms obtain l0 where "l0 \<in> set ?langs" by (cases ?langs) auto
  then have "map_of ?counts l0 \<noteq> None" by (simp add: ext_counts_of)
  then obtain k n d where c: "?counts = (k, n) # d" by (cases ?counts) auto
  let ?l = "max_key k n d" and ?m = "Max (snd ` set ?counts)"
  have "(?l, ?m) \<in> set ?counts" using max_key_max [of k n d] c by simp
  then have "map_of ?counts ?l = Some ?m" using ext_counts_distinct by (simp add: dkeys_def)
  then have l: "?l \<in> set ?langs" "?m = count_list ?langs ?l" by (auto simp: ext_counts_of split: if_splits)
  have "count_list ?langs l' \<le> ?m" for l'
  proof (cases "l' \<in> set ?langs")
    case True
    then have "(l', count_list ?langs l') \<in> set ?counts" by (intro map_of_SomeD) (simp add: ext_counts_of)
    then show ?thesis by (intro Max_ge) force+
  qed (simp add: count_list_0_iff)
  with l c bundle_has_text [OF assms] show ?thesis by (simp add: detect_source_language_from_bundle_def)
qed

text \<open>Without one, words of the prompt decide, and the hint of the language C is its letter: no prompt is ever taken
  for C sharp, Scala or OCaml, and none that has the letter for any hint after it.\<close>

theorem letter_c_hides_later_hints:
  "prompt_language prompt \<notin> {''csharp'', ''scala'', ''ocaml''}
   \<and> (CHR ''c'' \<in> set (py_lower prompt) \<longrightarrow>
        prompt_language prompt \<in> {''python'', ''javascript'', ''typescript'', ''rust'', ''go'', ''cpp'', ''c''})"
proof -
  let ?p = "py_lower prompt"
  let ?found = "\<lambda>lang. contains_str lang ?p"
  let ?early = "[''python'', ''javascript'', ''typescript'', ''rust'', ''go'', ''cpp'', ''c'']"
  have hints: "PROMPT_HINTS = ?early @ drop 7 PROMPT_HINTS" by (simp add: PROMPT_HINTS_def)
  have early: "prompt_language prompt \<in> set ?early" if "CHR ''c'' \<in> set ?p"
  proof -
    have "''c'' \<in> set (filter ?found ?early)" using that by (simp add: contains_char)
    then obtain x xs where x: "filter ?found ?early = x # xs" by (cases "filter ?found ?early") auto
    then have "x \<in> set ?early" by (metis filter_eq_ConsD in_set_conv_decomp)
    moreover have "filter ?found PROMPT_HINTS = x # xs @ filter ?found (drop 7 PROMPT_HINTS)"
      by (subst hints, subst filter_append, subst x) simp
    then have "prompt_language prompt = x" by (simp add: prompt_language_def)
    ultimately show ?thesis by simp
  qed
  have "prompt_language prompt \<notin> {''csharp'', ''scala'', ''ocaml''}"
  proof (cases "CHR ''c'' \<in> set ?p")
    case True
    from early [OF this] show ?thesis by auto
  next
    case False
    have "prompt_language prompt = ''python'' \<or> ?found (prompt_language prompt)"
    proof (cases "filter ?found PROMPT_HINTS")
      case Nil
      then show ?thesis by (simp add: prompt_language_def)
    next
      case (Cons x xs)
      then have "x \<in> set (filter ?found PROMPT_HINTS)" by simp
      then have "?found x" by simp
      moreover have "prompt_language prompt = x" using Cons by (simp add: prompt_language_def)
      ultimately show ?thesis by simp
    qed
    with False contains_set [of "prompt_language prompt" ?p] show ?thesis by auto
  qed
  with early show ?thesis by simp
qed

text \<open>The tables of the coordinator route a language as the mission flow does, and an extraction cluster's blank ids do
  not unroute it: the specialist and the pod manager of the extraction phase are the mission flow's for
  every language of the tables, unless a cluster names others.\<close>

theorem port_routing_agrees:
  assumes "extraction_cluster clusters = None \<or> (\<forall>k \<in> {''specialist_agent_id'', ''pod_manager_agent_id''}.
      py_strip (str_or_empty (dget (the (extraction_cluster clusters)) k)) = [])"
    and "detect_source_language_from_bundle (dget metadata ''source_code'') prompt = l"
    and "l \<in> set (dkeys PORT_SPECIALIST_BY_LANGUAGE)"
  shows "dget (setup_port_two_phase metadata prompt target clusters) ''port_source_specialist_agent_id''
      = PStr (resolve_specialist_agent_id (Some l))
    \<and> dget (setup_port_two_phase metadata prompt target clusters) ''port_source_pod_manager_agent_id''
      = PStr (resolve_pod_manager_agent_id (Some l))
    \<and> dget (setup_port_two_phase metadata prompt target clusters) ''port_phase'' = PStr ''extraction''"
proof -
  have "table_or PORT_SPECIALIST_BY_LANGUAGE l ''AGENT-14-PYTHON'' = resolve_specialist_agent_id (Some l)
    \<and> table_or PORT_POD_MANAGER_BY_LANGUAGE l ''AGENT-12-PODA-MGR'' = resolve_pod_manager_agent_id (Some l)"
    using port_tables_agree assms(3) by (simp add: list_all_iff)
  then show ?thesis using assms(1,2)
    by (cases "extraction_cluster clusters") (simp_all add: setup_port_two_phase_def cluster_agent_def Let_def)
qed

theorem bundle_language_majority_witness:
  "detect_source_language_from_bundle (PStr (''## FILE a.rb'' @ [newline] @ ''## FILE b.py'' @ [newline] @ ''## FILE c.rb'')) ''to go''
     = ''ruby''"
proof -
  let ?s = "''## FILE a.rb'' @ [newline] @ ''## FILE b.py'' @ [newline] @ ''## FILE c.rb''"
  have langs: "bundle_languages ?s = [''ruby'', ''python'', ''ruby'']" by code_simp
  have ne: "bundle_languages ?s \<noteq> []" by (simp only: langs) simp
  obtain l where l: "detect_source_language_from_bundle (PStr ?s) ''to go'' = l" by simp
  from bundle_language_majority [OF ne, of "''to go''", unfolded langs l]
  have "l \<in> set [''ruby'', ''python'', ''ruby'']"
    "count_list [''ruby'', ''python'', ''ruby''] ''ruby'' \<le> count_list [''ruby'', ''python'', ''ruby''] l" by blast+
  then have "l = ''ruby''" by auto
  with l show ?thesis by simp
qed

theorem letter_c_hides_later_hints_witness:
  "prompt_language ''Convert our Scala code'' \<in> {''python'', ''javascript'', ''typescript'', ''rust'', ''go'', ''cpp'', ''c''}"
proof -
  have "CHR ''c'' \<in> set (py_lower ''Convert our Scala code'')" by code_simp
  with letter_c_hides_later_hints [of "''Convert our Scala code''"] show ?thesis by blast
qed

theorem port_routing_agrees_witness:
  "dget (setup_port_two_phase [] ''a rust crate'' None PNone) ''port_source_specialist_agent_id'' = PStr (resolve_specialist_agent_id (Some ''rust''))"
proof -
  have "detect_source_language_from_bundle (dget [] ''source_code'') ''a rust crate'' = ''rust''" by code_simp
  moreover have "extraction_cluster PNone = None" by code_simp
  moreover have "''rust'' \<in> set (dkeys PORT_SPECIALIST_BY_LANGUAGE)" by code_simp
  ultimately show ?thesis using port_routing_agrees [of PNone "[]" "''a rust crate''" "''rust''"] by blast
qed

end
