(* ===== verification/Mission_Charter.thy ===== *)
theory Mission_Charter
  imports Mission_Storage Agent_Scaling
begin

text \<open>
  \<open>mission_flow_v2/base.py\<close>, the mission charter: the vocabulary tables, the planning package, the document
  that PM intake builds from a feature contract, and its check against the checked-in schema
  (\<open>schemas/mission_charter.v1.json\<close>, of which the check reads only the keys listed here). The charter's
  fresh id and the instant are arguments. A value outside what the check allows is a \<open>ValueError\<close>.
\<close>

section \<open>Vocabulary\<close>

definition table_get :: "'v dict \<Rightarrow> string \<Rightarrow> 'v \<Rightarrow> 'v" where
  "table_get table k d = (case map_of table k of None \<Rightarrow> d | Some v \<Rightarrow> v)"

definition mission_mode_for_type :: "string \<Rightarrow> int" where
  "mission_mode_for_type mission_type =
     table_get [(''BUILD_NEW'', 1), (''IMPORT_MODERNIZE'', 2), (''PORT'', 3), (''DEBUG_REPAIR'', 4),
        (''SECURITY_HARDEN'', 5), (''REDUCE_DEPENDENCIES'', 6), (''RUN_QC'', 7), (''ARCHITECTURE_DOCS'', 8),
        (''ANALYZE_ONLY'', 9), (''SELF_ANALYZE'', 10)] (py_upper (py_strip mission_type)) 1"

definition schema_depth_mode :: "string \<Rightarrow> string" where
  "schema_depth_mode depth_mode =
     table_get [(''SPRINT'', ''quick_scan''), (''STANDARD'', ''standard''), (''PRODUCTION'', ''deep_audit''),
        (''REGULATED'', ''deep_audit''), (''AUTONOMOUS_LONG_RUN'', ''autonomous_long_run'')]
       (py_upper (py_strip depth_mode)) ''standard''"

definition schema_output_mode :: "string \<Rightarrow> string" where
  "schema_output_mode output_mode =
     table_get [(''ANALYZE_ONLY'', ''report_only''), (''PLAN_ONLY'', ''report_only''),
        (''PATCH_PROPOSAL'', ''patch_files''), (''APPLY_PATCH'', ''patch_files''), (''FULL_BUILD'', ''full_branch''),
        (''DEPENDENCY_REDUCTION'', ''full_branch''), (''RUN_QC'', ''report_only''),
        (''FULL_TRANSFORMATION'', ''full_branch'')] (py_upper (py_strip output_mode)) ''full_branch''"

definition text_or :: "string \<Rightarrow> string \<Rightarrow> string" where
  "text_or s d = (if s = [] then d else s)"

section \<open>The schema check\<close>

definition MISSION_CHARTER_SCHEMA :: pydict where
  "MISSION_CHARTER_SCHEMA =
    [(''required'', PList [PStr ''schema'', PStr ''schema_version'', PStr ''charter_id'', PStr ''mission_id'',
        PStr ''mission_type'', PStr ''depth_mode'', PStr ''output_mode'', PStr ''data_classification'',
        PStr ''target_outcome'', PStr ''risk_level'', PStr ''human_approval_required'', PStr ''created_at'',
        PStr ''objective'', PStr ''success_criteria'', PStr ''definition_of_done'']),
     (''properties'', PDict [
      (''schema'', PDict [(''type'', PStr ''string''), (''const'', PStr ''mission_charter.v1'')]),
      (''schema_version'', PDict [(''type'', PStr ''string''), (''const'', PStr ''1.0.0'')]),
      (''charter_id'', PDict [(''type'', PStr ''string''), (''minLength'', PInt 1)]),
      (''mission_id'', PDict [(''type'', PStr ''string''), (''minLength'', PInt 1)]),
      (''mission_type'', PDict [(''type'', PStr ''string''), (''enum'', PList [PStr ''BUILD_NEW'',
        PStr ''IMPORT_MODERNIZE'', PStr ''PORT'', PStr ''DEBUG_REPAIR'', PStr ''SECURITY_HARDEN'',
        PStr ''REDUCE_DEPENDENCIES'', PStr ''RUN_QC'', PStr ''ARCHITECTURE_DOCS'', PStr ''ANALYZE_ONLY'',
        PStr ''SELF_ANALYZE''])]),
      (''depth_mode'', PDict [(''type'', PStr ''string''), (''enum'', PList [PStr ''SPRINT'', PStr ''STANDARD'',
        PStr ''PRODUCTION'', PStr ''REGULATED'', PStr ''AUTONOMOUS_LONG_RUN'', PStr ''quick_scan'',
        PStr ''standard'', PStr ''deep_audit'', PStr ''autonomous_long_run''])]),
      (''output_mode'', PDict [(''type'', PStr ''string''), (''enum'', PList [PStr ''ANALYZE_ONLY'',
        PStr ''PLAN_ONLY'', PStr ''PATCH_PROPOSAL'', PStr ''APPLY_PATCH'', PStr ''FULL_BUILD'',
        PStr ''DEPENDENCY_REDUCTION'', PStr ''RUN_QC'', PStr ''FULL_TRANSFORMATION'', PStr ''report_only'',
        PStr ''patch_files'', PStr ''full_branch''])]),
      (''data_classification'', PDict [(''type'', PStr ''string''), (''enum'', PList [PStr ''TIER_0_PUBLIC'',
        PStr ''TIER_1_INTERNAL'', PStr ''TIER_2_SENSITIVE'', PStr ''TIER_3_REGULATED''])]),
      (''source_type'', PDict [(''type'', PStr ''string''), (''enum'', PList [PStr ''github_repo'',
        PStr ''local_directory'', PStr ''zip_bundle'', PStr ''url'', PStr ''direct_input''])]),
      (''target_outcome'', PDict [(''type'', PStr ''string''), (''minLength'', PInt 3)]),
      (''risk_level'', PDict [(''type'', PStr ''string''), (''enum'', PList [PStr ''low'', PStr ''medium'',
        PStr ''high'', PStr ''enterprise''])]),
      (''required_agents'', PDict [(''type'', PStr ''array'')]),
      (''provider_routing_policy'', PDict [(''type'', PStr ''string''), (''enum'', PList [PStr ''any'',
        PStr ''local_preferred'', PStr ''local_only'', PStr ''anthropic_preferred'', PStr ''openai_preferred''])]),
      (''human_approval_required'', PDict [(''type'', PStr ''boolean'')]),
      (''approval_gates_required'', PDict [(''type'', PStr ''array'')]),
      (''expected_artifacts'', PDict [(''type'', PStr ''array'')]),
      (''created_at'', PDict [(''type'', PStr ''string'')]),
      (''objective'', PDict [(''type'', PStr ''string''), (''minLength'', PInt 3)]),
      (''success_criteria'', PDict [(''type'', PStr ''array'')]),
      (''definition_of_done'', PDict [(''type'', PStr ''object'')]),
      (''approved_at'', PDict [(''type'', PList [PStr ''string'', PStr ''null''])]),
      (''approved_by'', PDict [(''type'', PList [PStr ''string'', PStr ''null''])]),
      (''notes'', PDict [(''type'', PStr ''string'')])]),
     (''additionalProperties'', PBool True)]"
fun validate_schema_type :: "pyval \<Rightarrow> pyval \<Rightarrow> bool" where
  "validate_schema_type v (PList ts) = list_ex (validate_schema_type v) ts"
| "validate_schema_type v expected =
     (if expected = PStr ''string'' then is_str v
      else if expected = PStr ''boolean'' then (case v of PBool _ \<Rightarrow> True | _ \<Rightarrow> False)
      else if expected = PStr ''integer'' then (case v of PInt _ \<Rightarrow> True | _ \<Rightarrow> False)
      else if expected = PStr ''number'' then (case v of PInt _ \<Rightarrow> True | PFloat _ _ \<Rightarrow> True | _ \<Rightarrow> False)
      else if expected = PStr ''object'' then is_dict v
      else if expected = PStr ''array'' then is_list v
      else if expected = PStr ''null'' then v = PNone
      else True)"

definition rules_ok :: "pydict \<Rightarrow> pyval \<Rightarrow> bool" where
  "rules_ok rules v =
     ((dhas rules ''const'' \<longrightarrow> v = dget rules ''const'')
      \<and> (case dget rules ''enum'' of PList vs \<Rightarrow> v \<in> set vs | _ \<Rightarrow> True)
      \<and> (dhas rules ''type'' \<longrightarrow> validate_schema_type v (dget rules ''type''))
      \<and> (case (dget rules ''minLength'', v) of (PInt n, PStr s) \<Rightarrow> n \<le> int (length s) | _ \<Rightarrow> True))"

definition property_ok :: "pydict \<Rightarrow> string \<times> pyval \<Rightarrow> bool" where
  "property_ok charter = (\<lambda>(key, rules).
     case (map_of charter key, rules) of (Some v, PDict r) \<Rightarrow> rules_ok r v | _ \<Rightarrow> True)"

definition validate_mission_charter_schema :: "pydict \<Rightarrow> pydict \<Rightarrow> pydict res" where
  "validate_mission_charter_schema schema charter =
     (let required = list_or_empty (dget schema ''required'');
          missing = filter (\<lambda>key. case key of PStr k \<Rightarrow> \<not> dhas charter k | _ \<Rightarrow> True) required;
          properties = dict_or_empty (dget schema ''properties'')
      in if missing \<noteq> [] then Inl ValueError
         else if \<not> list_all (property_ok charter) properties then Inl ValueError
         else if dget schema ''additionalProperties'' = PBool False
           \<and> \<not> set (dkeys charter) \<subseteq> set (dkeys properties) then Inl ValueError
         else Inr charter)"

section \<open>The planning package\<close>

text \<open>\<open>list(contract.get(key) or [])[:n]\<close>.\<close>

definition listed :: "pydict \<Rightarrow> string \<Rightarrow> pyval list res" where
  "listed contract key = py_tuple (py_or (dget contract key) (PList []))"

definition build_phase :: "string \<Rightarrow> string \<Rightarrow> string \<Rightarrow> pyval" where
  "build_phase phase owner objective =
     PDict [(''phase'', PStr phase), (''owner_agent_id'', PStr owner), (''objective'', PStr objective)]"

definition phased_build_plan :: "pyval list" where
  "phased_build_plan =
     [build_phase ''intake'' ''AGENT-01-PM''
        ''Confirm scope, assumptions, acceptance criteria, and operator approval.'',
      build_phase ''delegation'' ''AGENT-02-CEO''
        ''Translate the approved PM plan into pod and support-ring work packages.'',
      build_phase ''implementation'' ''selected_specialist''
        ''Build the requested artifact against the mission contract and LogicNodes.'',
      build_phase ''verification'' ''audit_and_support_ring''
        ''Run required gates and prove each acceptance criterion.'']"

definition list_or :: "pyval list \<Rightarrow> string \<Rightarrow> pyval" where
  "list_or xs d = PList (if xs = [] then [PStr d] else xs)"

definition build_pm_planning_package ::
  "pydict \<Rightarrow> string option \<Rightarrow> string \<Rightarrow> string list \<Rightarrow> pydict res" where
  "build_pm_planning_package contract language mission_type gates =
     rbind (listed contract ''functional_requirements'') (\<lambda>requirements.
     rbind (listed contract ''non_functional_requirements'') (\<lambda>constraints.
     rbind (listed contract ''acceptance_criteria'') (\<lambda>acceptance.
     rbind (listed contract ''risk_notes'') (\<lambda>risk_notes.
     let requirements = take 8 requirements; constraints = take 6 constraints; acceptance = take 8 acceptance;
         risk_notes = take 6 risk_notes;
         objective = py_strip (py_str (py_or (dget contract ''summary'') (PStr ''Complete the requested mission.'')));
         lang = text_or (py_lower (py_strip (case language of None \<Rightarrow> ''auto'' | Some l \<Rightarrow> text_or l ''auto''))) ''auto''
     in Inr
       [(''statement_of_work'', PDict
          [(''objective'', PStr objective),
           (''mission_type'', PStr (text_or (py_upper (py_strip mission_type)) ''BUILD_NEW'')),
           (''target_language'', PStr lang),
           (''deliverables'', list_or requirements ''Complete the requested mission deliverable.''),
           (''out_of_scope'', PList [])]),
        (''product_requirements'', PDict
          [(''functional_requirements'', PList requirements), (''non_functional_requirements'', PList constraints),
           (''acceptance_criteria'', PList acceptance)]),
        (''phased_build_plan'', PList phased_build_plan),
        (''risk_register'', PList (map (\<lambda>risk. PDict [(''risk'', risk),
           (''mitigation'', PStr ''Carry into CEO delegation and verification gates.'')]) risk_notes)),
        (''test_strategy'', PDict
          [(''acceptance_tests'', list_or acceptance ''Mission completes without error.''),
           (''required_gates'', PList (map PStr gates))])]))))"

section \<open>The charter\<close>

definition approval_required :: "pydict \<Rightarrow> string \<Rightarrow> bool" where
  "approval_required contract depth =
     (truthy (dget_or contract ''human_approval_required'' (PBool False))
      \<or> depth \<in> {''deep_audit'', ''autonomous_long_run''})"

definition approval_gates :: "string \<Rightarrow> bool \<Rightarrow> string list" where
  "approval_gates depth approval =
     [''pod_audit_pass'']
     @ (if depth \<noteq> ''quick_scan'' then [''security_scan_pass'', ''integration_tests_pass''] else [])
     @ (if approval then [''operator_approval''] else [])"

definition charter_objective :: "pydict \<Rightarrow> string \<Rightarrow> string" where
  "charter_objective contract prompt =
     (let objective = take 500 (py_str (py_or (dget contract ''summary'')
            (py_or (PStr prompt) (PStr ''Complete mission''))))
      in if length (py_strip objective) < 10 then ''Complete the requested mission.'' else objective)"

definition risk_level :: "pydict \<Rightarrow> string res" where
  "risk_level contract =
     (case py_or (dget contract ''risk_assessment'') (PDict []) of
        PDict risk \<Rightarrow> Inr (py_lower (py_str (py_or (dget risk ''complexity'') (PStr ''medium''))))
      | _ \<Rightarrow> Inl AttributeError)"

definition charter_target :: "string \<Rightarrow> string option \<Rightarrow> pyval" where
  "charter_target prompt language =
     PDict [(''type'', PStr (if prompt \<noteq> [] then ''local_repo'' else ''self'')),
            (''primary_language'', PStr (py_lower (py_strip
               (case language of None \<Rightarrow> ''unknown'' | Some l \<Rightarrow> text_or l ''unknown'')))),
            (''detected_languages'', PList (case language of
               Some l \<Rightarrow> if l = [] then [] else [PStr (py_lower (py_strip l))] | None \<Rightarrow> []))]"

definition charter_document ::
  "string \<Rightarrow> string \<Rightarrow> string \<Rightarrow> string \<Rightarrow> string option \<Rightarrow> pydict \<Rightarrow> string \<Rightarrow> string \<Rightarrow> string
     \<Rightarrow> pydict \<Rightarrow> string \<Rightarrow> pyval list \<Rightarrow> pyval list \<Rightarrow> pyval list \<Rightarrow> pydict" where
  "charter_document uuid now mid prompt language contract mission_type depth_mode output_mode package risk
       requirements assumptions criteria =
     (let depth = schema_depth_mode depth_mode;
          approval = approval_required contract depth; gates = approval_gates depth approval;
          objective = charter_objective contract prompt;
          type_label = text_or (py_upper (py_strip mission_type)) ''BUILD_NEW''
      in [(''schema'', PStr ''mission_charter.v1''), (''schema_version'', PStr ''1.0.0''),
          (''charter_id'', PStr (''charter-'' @ uuid)), (''mission_id'', PStr mid), (''created_at'', PStr now),
          (''requested_by'', PStr ''operator:mission-control''), (''mission_type'', PStr type_label),
          (''mission_mode'', PInt (mission_mode_for_type mission_type)), (''mission_mode_label'', PStr type_label),
          (''depth_mode'', PStr depth), (''depth_mode_label'', PStr (text_or (py_upper (py_strip depth_mode)) ''STANDARD'')),
          (''output_mode'', PStr (schema_output_mode output_mode)),
          (''output_mode_label'', PStr (text_or (py_upper (py_strip output_mode)) ''FULL_BUILD'')),
          (''data_classification'', PStr ''TIER_1_INTERNAL''), (''source_type'', PStr ''direct_input''),
          (''target_outcome'', PStr objective), (''risk_level'', PStr risk),
          (''human_approval_required'', PBool approval), (''approval_gates_required'', PList (map PStr gates)),
          (''expected_artifacts'', PList [PStr ''mission_contract'', PStr ''logic_clusters'', PStr ''generated_output'']),
          (''target'', charter_target prompt language), (''objective'', PStr objective), (''raw_input'', PStr prompt),
          (''scope'', PDict [(''in_scope'', PList (take 8 requirements)), (''out_of_scope'', PList []),
                           (''assumptions'', PList (take 5 assumptions))]),
          (''planning_package'', PDict package), (''statement_of_work'', dget package ''statement_of_work''),
          (''product_requirements'', dget package ''product_requirements''),
          (''phased_build_plan'', dget package ''phased_build_plan''), (''risk_register'', dget package ''risk_register''),
          (''test_strategy'', dget package ''test_strategy''),
          (''success_criteria'', list_or criteria ''Mission completes without error.''),
          (''definition_of_done'', PDict
            [(''depth_mode'', PStr depth), (''gates'', PList (map PStr gates)),
             (''requires_operator_approval'', PBool approval),
             (''requires_runtime_qc'', PBool (depth \<in> {''deep_audit'', ''autonomous_long_run''})),
             (''requires_dependency_absorption'', PBool (py_upper (py_strip mission_type) = ''REDUCE_DEPENDENCIES''))]),
          (''non_functional_constraints'', PDict
            [(''sensitive_code_tier'', PInt 1), (''provider_restriction'', PStr ''any'')]),
          (''metadata'', PDict [(''source'', PStr (py_str (py_or (dget contract ''source'') (PStr ''fallback''))))])])"

definition build_mission_charter ::
  "pydict \<Rightarrow> string \<Rightarrow> string \<Rightarrow> string \<Rightarrow> string \<Rightarrow> string option \<Rightarrow> pydict \<Rightarrow> string \<Rightarrow> string \<Rightarrow> string
     \<Rightarrow> pydict res" where
  "build_mission_charter schema uuid now mid prompt language contract mission_type depth_mode output_mode =
     (let depth = schema_depth_mode depth_mode;
          gates = approval_gates depth (approval_required contract depth);
          type_label = text_or (py_upper (py_strip mission_type)) ''BUILD_NEW''
      in rbind (build_pm_planning_package contract language type_label gates) (\<lambda>package.
         rbind (risk_level contract) (\<lambda>risk.
         rbind (listed contract ''functional_requirements'') (\<lambda>requirements.
         rbind (listed contract ''assumptions'') (\<lambda>assumptions.
         rbind (listed contract ''acceptance_criteria'') (\<lambda>criteria.
         validate_mission_charter_schema schema
           (charter_document uuid now mid prompt language contract mission_type depth_mode output_mode package risk
              requirements assumptions criteria)))))))"

section \<open>Which charters are valid\<close>

definition RISK_LEVELS :: "string list" where
  "RISK_LEVELS = [''low'', ''medium'', ''high'', ''enterprise'']"

lemma schema_lists:
  "dget MISSION_CHARTER_SCHEMA ''additionalProperties'' = PBool True"
  "list_or_empty (dget MISSION_CHARTER_SCHEMA ''required'') = map PStr [''schema'', ''schema_version'', ''charter_id'',
     ''mission_id'', ''mission_type'', ''depth_mode'', ''output_mode'', ''data_classification'', ''target_outcome'',
     ''risk_level'', ''human_approval_required'', ''created_at'', ''objective'', ''success_criteria'',
     ''definition_of_done'']"
  by (simp_all add: MISSION_CHARTER_SCHEMA_def dget_def)

lemma schema_properties:
  "dict_or_empty (dget MISSION_CHARTER_SCHEMA ''properties'') = [
      (''schema'', PDict [(''type'', PStr ''string''), (''const'', PStr ''mission_charter.v1'')]),
      (''schema_version'', PDict [(''type'', PStr ''string''), (''const'', PStr ''1.0.0'')]),
      (''charter_id'', PDict [(''type'', PStr ''string''), (''minLength'', PInt 1)]),
      (''mission_id'', PDict [(''type'', PStr ''string''), (''minLength'', PInt 1)]),
      (''mission_type'', PDict [(''type'', PStr ''string''), (''enum'', PList [PStr ''BUILD_NEW'',
        PStr ''IMPORT_MODERNIZE'', PStr ''PORT'', PStr ''DEBUG_REPAIR'', PStr ''SECURITY_HARDEN'',
        PStr ''REDUCE_DEPENDENCIES'', PStr ''RUN_QC'', PStr ''ARCHITECTURE_DOCS'', PStr ''ANALYZE_ONLY'',
        PStr ''SELF_ANALYZE''])]),
      (''depth_mode'', PDict [(''type'', PStr ''string''), (''enum'', PList [PStr ''SPRINT'', PStr ''STANDARD'',
        PStr ''PRODUCTION'', PStr ''REGULATED'', PStr ''AUTONOMOUS_LONG_RUN'', PStr ''quick_scan'',
        PStr ''standard'', PStr ''deep_audit'', PStr ''autonomous_long_run''])]),
      (''output_mode'', PDict [(''type'', PStr ''string''), (''enum'', PList [PStr ''ANALYZE_ONLY'',
        PStr ''PLAN_ONLY'', PStr ''PATCH_PROPOSAL'', PStr ''APPLY_PATCH'', PStr ''FULL_BUILD'',
        PStr ''DEPENDENCY_REDUCTION'', PStr ''RUN_QC'', PStr ''FULL_TRANSFORMATION'', PStr ''report_only'',
        PStr ''patch_files'', PStr ''full_branch''])]),
      (''data_classification'', PDict [(''type'', PStr ''string''), (''enum'', PList [PStr ''TIER_0_PUBLIC'',
        PStr ''TIER_1_INTERNAL'', PStr ''TIER_2_SENSITIVE'', PStr ''TIER_3_REGULATED''])]),
      (''source_type'', PDict [(''type'', PStr ''string''), (''enum'', PList [PStr ''github_repo'',
        PStr ''local_directory'', PStr ''zip_bundle'', PStr ''url'', PStr ''direct_input''])]),
      (''target_outcome'', PDict [(''type'', PStr ''string''), (''minLength'', PInt 3)]),
      (''risk_level'', PDict [(''type'', PStr ''string''), (''enum'', PList [PStr ''low'', PStr ''medium'',
        PStr ''high'', PStr ''enterprise''])]),
      (''required_agents'', PDict [(''type'', PStr ''array'')]),
      (''provider_routing_policy'', PDict [(''type'', PStr ''string''), (''enum'', PList [PStr ''any'',
        PStr ''local_preferred'', PStr ''local_only'', PStr ''anthropic_preferred'', PStr ''openai_preferred''])]),
      (''human_approval_required'', PDict [(''type'', PStr ''boolean'')]),
      (''approval_gates_required'', PDict [(''type'', PStr ''array'')]),
      (''expected_artifacts'', PDict [(''type'', PStr ''array'')]),
      (''created_at'', PDict [(''type'', PStr ''string'')]),
      (''objective'', PDict [(''type'', PStr ''string''), (''minLength'', PInt 3)]),
      (''success_criteria'', PDict [(''type'', PStr ''array'')]),
      (''definition_of_done'', PDict [(''type'', PStr ''object'')]),
      (''approved_at'', PDict [(''type'', PList [PStr ''string'', PStr ''null''])]),
      (''approved_by'', PDict [(''type'', PList [PStr ''string'', PStr ''null''])]),
      (''notes'', PDict [(''type'', PStr ''string'')])]"
  by (simp add: MISSION_CHARTER_SCHEMA_def dget_def)

lemma schema_depth_known: "schema_depth_mode d \<in> {''quick_scan'', ''standard'', ''deep_audit'', ''autonomous_long_run''}"
  by (auto simp: schema_depth_mode_def table_get_def split: option.split dest!: map_of_SomeD)

lemma schema_output_known: "schema_output_mode d \<in> {''report_only'', ''patch_files'', ''full_branch''}"
  by (auto simp: schema_output_mode_def table_get_def split: option.split dest!: map_of_SomeD)

lemma length_py_strip: "length (py_strip s) \<le> length s"
  unfolding py_strip_def strip_by_def by (metis length_dropWhile_le length_rev order_trans)

lemma objective_long: "3 \<le> length (charter_objective c p)"
proof -
  have "3 \<le> length (if length (py_strip x) < 10 then ''Complete the requested mission.'' else x)" for x :: string
    using length_py_strip [of x] by auto
  then show ?thesis unfolding charter_objective_def Let_def .
qed

lemma text_or_self: "text_or s d \<noteq> [] \<longleftrightarrow> s \<noteq> [] \<or> d \<noteq> []"
  by (simp add: text_or_def)

lemma document_checked:
  assumes "text_or (py_upper (py_strip mission_type)) ''BUILD_NEW'' \<in> set MissionType_values" and "mid \<noteq> []"
  shows "validate_mission_charter_schema MISSION_CHARTER_SCHEMA (charter_document uuid now mid prompt language contract
      mission_type depth_mode output_mode package risk rs asm cs)
    = (if risk \<in> set RISK_LEVELS then Inr (charter_document uuid now mid prompt language contract mission_type depth_mode output_mode
         package risk rs asm cs) else Inl ValueError)"
proof -
  let ?d = "charter_document uuid now mid prompt language contract mission_type depth_mode output_mode package risk rs asm cs"
  define D where "D = ?d"
  note at = charter_document_def Let_def D_def
  have known: "dhas D k" if "k \<in> {''schema'', ''schema_version'', ''charter_id'', ''mission_id'', ''mission_type'', ''depth_mode'', ''output_mode'',
     ''data_classification'', ''target_outcome'', ''risk_level'', ''human_approval_required'', ''created_at'', ''objective'',
     ''success_criteria'', ''definition_of_done''}" for k
    using that by (auto simp: at dhas_def)
  have vals: "map_of D ''schema'' = Some (PStr ''mission_charter.v1'')" "map_of D ''schema_version'' = Some (PStr ''1.0.0'')"
    "map_of D ''charter_id'' = Some (PStr (''charter-'' @ uuid))" "map_of D ''mission_id'' = Some (PStr mid)"
    "map_of D ''mission_type'' = Some (PStr (text_or (py_upper (py_strip mission_type)) ''BUILD_NEW''))"
    "map_of D ''depth_mode'' = Some (PStr (schema_depth_mode depth_mode))"
    "map_of D ''output_mode'' = Some (PStr (schema_output_mode output_mode))"
    "map_of D ''data_classification'' = Some (PStr ''TIER_1_INTERNAL'')"
    "map_of D ''source_type'' = Some (PStr ''direct_input'')"
    "map_of D ''target_outcome'' = Some (PStr (charter_objective contract prompt))"
    "map_of D ''risk_level'' = Some (PStr risk)"
    "\<exists>b. map_of D ''human_approval_required'' = Some (PBool b)" "\<exists>xs. map_of D ''approval_gates_required'' = Some (PList xs)"
    "\<exists>xs. map_of D ''expected_artifacts'' = Some (PList xs)" "map_of D ''created_at'' = Some (PStr now)"
    "map_of D ''objective'' = Some (PStr (charter_objective contract prompt))"
    "\<exists>xs. map_of D ''success_criteria'' = Some (PList xs)" "\<exists>xs. map_of D ''definition_of_done'' = Some (PDict xs)"
    "map_of D ''required_agents'' = None" "map_of D ''provider_routing_policy'' = None" "map_of D ''approved_at'' = None"
    "map_of D ''approved_by'' = None" "map_of D ''notes'' = None"
    by (simp_all add: at list_or_def)
  have enums: "PStr x \<in> set (map PStr xs) \<longleftrightarrow> x \<in> set xs" for x xs by auto
  have props: "list_all (property_ok D) (dict_or_empty (dget MISSION_CHARTER_SCHEMA ''properties'')) \<longleftrightarrow> risk \<in> set RISK_LEVELS"
  proof -
    have "text_or (py_upper (py_strip mission_type)) ''BUILD_NEW'' \<in> set [''BUILD_NEW'', ''IMPORT_MODERNIZE'', ''PORT'',
        ''DEBUG_REPAIR'', ''SECURITY_HARDEN'', ''REDUCE_DEPENDENCIES'', ''RUN_QC'', ''ARCHITECTURE_DOCS'', ''ANALYZE_ONLY'', ''SELF_ANALYZE'']"
      using assms(1) by (simp only: MissionType_values_def)
    note in_type = this [folded enums, simplified list.map]
    have "schema_depth_mode depth_mode \<in> set [''SPRINT'', ''STANDARD'', ''PRODUCTION'', ''REGULATED'', ''AUTONOMOUS_LONG_RUN'',
        ''quick_scan'', ''standard'', ''deep_audit'', ''autonomous_long_run'']"
      using schema_depth_known [of depth_mode] unfolding list.set by blast
    note in_depth = this [folded enums, simplified list.map]
    have "schema_output_mode output_mode \<in> set [''ANALYZE_ONLY'', ''PLAN_ONLY'', ''PATCH_PROPOSAL'', ''APPLY_PATCH'', ''FULL_BUILD'',
        ''DEPENDENCY_REDUCTION'', ''RUN_QC'', ''FULL_TRANSFORMATION'', ''report_only'', ''patch_files'', ''full_branch'']"
      using schema_output_known [of output_mode] unfolding list.set by blast
    note in_output = this [folded enums, simplified list.map]
    have in_risk: "PStr risk \<in> set [PStr ''low'', PStr ''medium'', PStr ''high'', PStr ''enterprise''] \<longleftrightarrow> risk \<in> set RISK_LEVELS"
      unfolding RISK_LEVELS_def enums [symmetric] by (simp only: list.map)
    have len: "1 \<le> int (length (''charter-'' @ uuid))" "1 \<le> int (length mid)" "3 \<le> int (length (charter_objective contract prompt))"
      using assms(2) objective_long [of contract prompt] by (simp_all add: Suc_le_eq)
    have lit: "PStr ''TIER_1_INTERNAL'' \<in> set [PStr ''TIER_0_PUBLIC'', PStr ''TIER_1_INTERNAL'', PStr ''TIER_2_SENSITIVE'', PStr ''TIER_3_REGULATED'']"
      "PStr ''direct_input'' \<in> set [PStr ''github_repo'', PStr ''local_directory'', PStr ''zip_bundle'', PStr ''url'', PStr ''direct_input'']"
      by simp_all
    have rules: "rules_ok [(''type'', ty), (''enum'', PList vs)] v \<longleftrightarrow> v \<in> set vs \<and> validate_schema_type v ty"
      "rules_ok [(''type'', ty), (''const'', c)] v \<longleftrightarrow> v = c \<and> validate_schema_type v ty"
      "rules_ok [(''type'', ty), (''minLength'', PInt n)] (PStr x) \<longleftrightarrow> n \<le> int (length x) \<and> validate_schema_type (PStr x) ty"
      "rules_ok [(''type'', ty)] v \<longleftrightarrow> validate_schema_type v ty" for ty vs v c n x
      by (auto simp: rules_ok_def dget_def dhas_def)
    have types: "validate_schema_type (PStr x) (PStr ''string'')" "validate_schema_type (PBool b) (PStr ''boolean'')"
      "validate_schema_type (PList xs) (PStr ''array'')" "validate_schema_type (PDict d) (PStr ''object'')" for x b xs d
      by simp_all
    have step: "property_ok D (k, PDict r) \<longleftrightarrow> (case map_of D k of None \<Rightarrow> True | Some v \<Rightarrow> rules_ok r v)" for k r
      by (simp add: property_ok_def split: option.split)
    obtain hb ag ea sc dd where more: "map_of D ''human_approval_required'' = Some (PBool hb)"
      "map_of D ''approval_gates_required'' = Some (PList ag)" "map_of D ''expected_artifacts'' = Some (PList ea)"
      "map_of D ''success_criteria'' = Some (PList sc)" "map_of D ''definition_of_done'' = Some (PDict dd)"
      using vals by blast
    show ?thesis
      unfolding schema_properties list.pred_inject step vals more option.case rules
      using in_type in_depth in_output in_risk len lit by (simp only: types simp_thms list.pred_inject)
  qed
  show ?thesis
    unfolding D_def [symmetric] validate_mission_charter_schema_def Let_def schema_lists props
    using known by (simp add: schema_lists)
qed

lemma charter_fields:
  "dget (charter_document uuid now mid prompt language contract mission_type depth_mode output_mode package risk rs asm cs)
     ''mission_id'' = PStr mid"
  "dget (charter_document uuid now mid prompt language contract mission_type depth_mode output_mode package risk rs asm cs)
     ''human_approval_required'' = PBool (approval_required contract (schema_depth_mode depth_mode))"
  "dget (charter_document uuid now mid prompt language contract mission_type depth_mode output_mode package risk rs asm cs)
     ''approval_gates_required'' = PList (map PStr (approval_gates (schema_depth_mode depth_mode)
       (approval_required contract (schema_depth_mode depth_mode))))"
  by (simp_all add: charter_document_def Let_def dget_def)

lemma deep_modes:
  "schema_depth_mode d \<in> {''deep_audit'', ''autonomous_long_run''}
     \<longleftrightarrow> py_upper (py_strip d) \<in> {''PRODUCTION'', ''REGULATED'', ''AUTONOMOUS_LONG_RUN''}"
  by (auto simp: schema_depth_mode_def table_get_def)

lemma operator_gate: "PStr ''operator_approval'' \<in> PStr ` set (approval_gates d b) \<longleftrightarrow> b"
  by (auto simp: approval_gates_def)



end
