(* ===== verification/Stage_Base.thy ===== *)
theory Stage_Base
  imports Lifecycle_V2 Pod_Assignments Bus_Consumer Mission_Charter Source_Bundle Legacy_Engine
begin

text \<open>
  What the stages of the v2 lifecycle share (\<open>mission_flow_v2/base.py\<close> and the helpers at the top of the
  \<open>phases_*.py\<close> files): the world they run in, the calls they make, and the documents they pass on.

  A stage reads and writes the mission tables and the state stream (\<open>sg_world\<close>, the world of the driver), the
  assignment table and the audit trail (\<open>sg_pods\<close>), the protocol bus, and rows of tables that only later readers
  use (\<open>sg_tables\<close>: artifacts, manifests, reports). \<open>sg_calls\<close> numbers the calls; the environment answers a
  call by its number, so that two calls with the same arguments may differ. The generators of \<open>llm_delegation\<close>,
  the report builders and the sandbox are such calls, \<open>sv_call\<close>, named by their function; each returns a dict or
  raises.
\<close>

section \<open>World and environment\<close>

record stage_world =
  sg_world :: world
  sg_pods :: pod_store
  sg_bus :: bus
  sg_tables :: "(string \<times> string \<times> pydict) list"
  sg_calls :: nat

type_synonym 'a sprog = "(stage_world, 'a) prog"

record stage_env =
  sv_life :: lifecycle_env
  sv_audit :: "nat \<Rightarrow> audit_env"
  sv_pod :: "nat \<Rightarrow> pod_env"
  sv_client :: bus_client
  sv_bus :: bus_env
  sv_outage :: outage
  sv_request :: "nat \<Rightarrow> bus_request"
  sv_call :: "nat \<Rightarrow> string \<Rightarrow> pydict \<Rightarrow> pydict res"
  sv_answer :: "nat \<Rightarrow> string \<Rightarrow> pydict \<Rightarrow> pyval res"
  sv_rows :: "nat \<Rightarrow> string \<Rightarrow> string \<Rightarrow> pyval list res"
  sv_uuid :: "nat \<Rightarrow> nat \<Rightarrow> string"
  sv_write_ok :: "nat \<Rightarrow> bool"
  sv_schema :: pydict
  sv_sows :: "string \<Rightarrow> pydict option"
  sv_sign :: "nat \<Rightarrow> pyval \<Rightarrow> pydict option"

definition on_life :: "'a wprog \<Rightarrow> 'a sprog" where
  "on_life m = (\<lambda>w. let (r, v) = m (sg_world w) in (r, w\<lparr>sg_world := v\<rparr>))"

definition stamp :: "stage_env \<Rightarrow> string" where
  "stamp env = e_stamp (sv_life env)"

definition ask :: "stage_env \<Rightarrow> string \<Rightarrow> pydict \<Rightarrow> pydict sprog" where
  "ask env name args = (\<lambda>w. (sv_call env (sg_calls w) name args, w\<lparr>sg_calls := Suc (sg_calls w)\<rparr>))"

definition ask_value :: "stage_env \<Rightarrow> string \<Rightarrow> pydict \<Rightarrow> pyval sprog" where
  "ask_value env name args = (\<lambda>w. (sv_answer env (sg_calls w) name args, w\<lparr>sg_calls := Suc (sg_calls w)\<rparr>))"

definition rows_of :: "stage_env \<Rightarrow> string \<Rightarrow> string \<Rightarrow> pyval list sprog" where
  "rows_of env table mid = (\<lambda>w. (sv_rows env (sg_calls w) table mid, w\<lparr>sg_calls := Suc (sg_calls w)\<rparr>))"

definition write_row :: "stage_env \<Rightarrow> string \<Rightarrow> string \<Rightarrow> pydict \<Rightarrow> unit sprog" where
  "write_row env table mid document = (\<lambda>w.
     if sv_write_ok env (sg_calls w)
     then (Inr (), w\<lparr>sg_tables := sg_tables w @ [(table, mid, document)], sg_calls := Suc (sg_calls w)\<rparr>)
     else (Inl ServiceError, w\<lparr>sg_calls := Suc (sg_calls w)\<rparr>))"

section \<open>Mission row, audit trail and bus\<close>

definition save :: "stage_env \<Rightarrow> string \<Rightarrow> pydict \<Rightarrow> MissionRecord option sprog" where
  "save env mid md = on_life (save_metadata (sv_life env) mid md)"

text \<open>\<open>_persist_metadata(...) is not None\<close>.\<close>

definition persisted :: "stage_env \<Rightarrow> string \<Rightarrow> pydict \<Rightarrow> (string \<times> MissionState) option \<Rightarrow> bool sprog" where
  "persisted env mid md emit =
     bnd (on_life (persist_metadata (sv_life env) mid md emit)) (\<lambda>r. ret (r \<noteq> None))"

definition with_mission :: "string \<Rightarrow> 'a \<Rightarrow> (MissionRecord \<Rightarrow> 'a sprog) \<Rightarrow> 'a sprog" where
  "with_mission mid absent f =
     bnd (on_life (fetch mid)) (\<lambda>found. case found of None \<Rightarrow> ret absent | Some mission \<Rightarrow> f mission)"

text \<open>The tables of assignments and of the audit trail refer to the missions as they are stored now.\<close>

definition pods_now :: "stage_world \<Rightarrow> pod_store" where
  "pods_now w = (sg_pods w)
     \<lparr>ps_pods := (ps_pods (sg_pods w))\<lparr>pd_missions := w_db (sg_world w)\<rparr>,
      ps_audit := (ps_audit (sg_pods w))\<lparr>ad_missions := map fst (missions (w_db (sg_world w)))\<rparr>\<rparr>"

definition stage_event :: "string \<Rightarrow> string \<Rightarrow> string \<Rightarrow> string \<Rightarrow> string option \<Rightarrow> AgentActionEventRecord" where
  "stage_event agent event_type object_type object_id tool =
     \<lparr>ae_event_id = [], ae_project_id = [], ae_mission_id = [], ae_agent_id = agent,
      ae_service_name = ''orchestrator'', ae_event_type = event_type, ae_status = ''SUCCESS'',
      ae_object_type = Some object_type, ae_object_id = Some object_id, ae_tool_name = tool, ae_trace_id = None,
      ae_span_id = None, ae_correlation_id = None, ae_parent_event_id = None, ae_started_at = 0, ae_ended_at = None,
      ae_duration_ms = None, ae_payload_summary = [], ae_content_sha256 = None, ae_blob_ref = None,
      ae_prev_event_digest = None, ae_event_digest = [], ae_created_at = 0\<rparr>"

text \<open>\<open>record_audit_event\<close> of a stage; an agent id that is no text fails the validation of the event.\<close>

definition record_event ::
  "stage_env \<Rightarrow> MissionRecord \<Rightarrow> pyval \<Rightarrow> string \<Rightarrow> string \<Rightarrow> string \<Rightarrow> string option \<Rightarrow> pydict \<Rightarrow> pyval \<Rightarrow> unit sprog" where
  "record_event env mission agent event_type object_type object_id tool summary content = (\<lambda>w.
     case agent of
       PStr a \<Rightarrow>
         (let (r, audit) = record_audit_event (sv_audit env (sg_calls w)) (Some mission)
                \<lparr>rq_event = stage_event a event_type object_type object_id tool, rq_summary = PDict summary,
                 rq_content = Some content, rq_started = None, rq_ended = None\<rparr> (ps_audit (pods_now w))
          in (rbind r (\<lambda>_. Inr ()),
              w\<lparr>sg_pods := (sg_pods w)\<lparr>ps_audit := audit\<rparr>, sg_calls := Suc (sg_calls w)\<rparr>))
     | _ \<Rightarrow> (Inl ValidationError, w))"

text \<open>A message to the protocol bus. The producer swallows every failure.\<close>

definition tell_bus :: "stage_env \<Rightarrow> string \<Rightarrow> pyval \<Rightarrow> pyval \<Rightarrow> pydict \<Rightarrow> string \<Rightarrow> unit sprog" where
  "tell_bus env protocol sender recipient payload correlation_id = (\<lambda>w.
     case sender of
       PStr s \<Rightarrow> (Inr (), w\<lparr>sg_bus := snd (send_protocol_message (sv_client env) (sv_bus env) (sv_outage env)
                    (sv_request env (sg_calls w)) protocol s recipient payload ''normal'' correlation_id (sg_bus w)),
                    sg_calls := Suc (sg_calls w)\<rparr>)
     | _ \<Rightarrow> (Inr (), w))"

definition send_alpha_directive ::
  "stage_env \<Rightarrow> string \<Rightarrow> string \<Rightarrow> string \<Rightarrow> string \<Rightarrow> pydict \<Rightarrow> string \<Rightarrow> unit sprog" where
  "send_alpha_directive env sender recipient target_pod directive_type directive correlation_id =
     tell_bus env ''alpha'' (PStr sender) (PStr recipient)
       [(''schema_version'', PStr ''v1''), (''priority'', PStr ''normal''), (''target_pod'', PStr target_pod),
        (''directive_type'', PStr directive_type), (''directive'', PDict directive),
        (''global_style_directives'', PList [])] correlation_id"

definition send_beta_result ::
  "stage_env \<Rightarrow> pyval \<Rightarrow> string \<Rightarrow> string \<Rightarrow> string \<Rightarrow> pydict \<Rightarrow> string \<Rightarrow> unit sprog" where
  "send_beta_result env sender recipient logicnode_id source_language payload correlation_id =
     tell_bus env ''beta'' sender (PStr recipient)
       [(''schema_version'', PStr ''v1''), (''logicnode_id'', PStr logicnode_id),
        (''confidence_score'', PFloat 0 ''0.0''), (''source_language'', PStr source_language),
        (''payload'', PDict payload)] correlation_id"

definition send_omega_message :: "stage_env \<Rightarrow> string \<Rightarrow> pyval \<Rightarrow> pydict \<Rightarrow> string \<Rightarrow> string \<Rightarrow> unit sprog" where
  "send_omega_message env sender recipient feature_contract user_intent correlation_id =
     tell_bus env ''omega'' (PStr sender) recipient
       [(''schema_version'', PStr ''v1''), (''feature_contract'', PDict feature_contract), (''visual_blueprint'', PDict []),
        (''user_intent'', PStr (text_or user_intent ''mission handoff'')), (''attachments'', PList []),
        (''global_style_directives'', PList [])] correlation_id"

definition send_sigma_knowledge ::
  "stage_env \<Rightarrow> string \<Rightarrow> pyval \<Rightarrow> string \<Rightarrow> string \<Rightarrow> string \<Rightarrow> pydict \<Rightarrow> string \<Rightarrow> unit sprog" where
  "send_sigma_knowledge env sender recipient knowledge_type embedding_ref relevance_scope content correlation_id =
     tell_bus env ''sigma'' (PStr sender) recipient
       [(''schema_version'', PStr ''v1''), (''knowledge_type'', PStr knowledge_type), (''embedding_ref'', PStr embedding_ref),
        (''relevance_scope'', PStr relevance_scope), (''content'', PDict content)] correlation_id"

section \<open>Documents\<close>

definition item :: "pydict \<Rightarrow> string \<Rightarrow> pyval res" where
  "item d k = (case map_of d k of None \<Rightarrow> Inl KeyError | Some v \<Rightarrow> Inr v)"

text \<open>\<open>d.get(a) or {}\<close> followed by \<open>.get(b, dflt)\<close>.\<close>

definition inner_get :: "pydict \<Rightarrow> string \<Rightarrow> string \<Rightarrow> pyval \<Rightarrow> pyval res" where
  "inner_get d a b dflt =
     (case py_or (dget d a) (PDict []) of PDict e \<Rightarrow> Inr (dget_or e b dflt) | _ \<Rightarrow> Inl AttributeError)"

definition mode_text :: "pydict \<Rightarrow> string \<Rightarrow> string \<Rightarrow> string" where
  "mode_text md key d = py_upper (py_strip (py_str (py_or (dget md key) (PStr d))))"

text \<open>\<open>if not _chain_event_exists(md, event): append_chain_event(md, ...)\<close>.\<close>

definition mark_with :: "stage_env \<Rightarrow> string \<Rightarrow> string \<Rightarrow> pydict res \<Rightarrow> pydict \<Rightarrow> pydict res" where
  "mark_with env event_type agent details md =
     rbind (chain_event_exists md event_type) (\<lambda>found.
       if found then Inr md
       else rbind details (\<lambda>details. Inr (append_chain_event md event_type agent details (stamp env))))"

definition mark :: "stage_env \<Rightarrow> string \<Rightarrow> string \<Rightarrow> pydict \<Rightarrow> pydict \<Rightarrow> pydict res" where
  "mark env event_type agent details = mark_with env event_type agent (Inr details)"

definition artifact :: "stage_env \<Rightarrow> string \<Rightarrow> string \<Rightarrow> string \<Rightarrow> pydict \<Rightarrow> pydict \<Rightarrow> pydict" where
  "artifact env stage event_type agent details md = record_artifact md stage event_type agent details (stamp env)"

definition pick :: "pydict \<Rightarrow> string list \<Rightarrow> pydict" where
  "pick d ks = map (\<lambda>k. (k, dget d k)) ks"

definition mission_context :: "MissionRecord \<Rightarrow> pydict \<Rightarrow> pydict" where
  "mission_context mission md =
     [(''mission_id'', PStr (m_mission_id mission)), (''prompt'', PStr (m_prompt mission)),
      (''requested_target_language'', py_opt (m_requested_target_language mission))]
     @ pick md [''source'', ''routing_version'', ''routing_enforced'']"

definition extract_support_agent_flags :: "pydict \<Rightarrow> string \<Rightarrow> string list" where
  "extract_support_agent_flags ceo_delegation mission_type =
     (let t = py_upper (py_str (dget_or ceo_delegation ''rationale'' (PStr [])) @ '' '' @ mission_type)
      in dedup [] (map snd (filter (\<lambda>(keyword, _). contains_str keyword t)
           [(''SECURITY'', ''AGENT-05-SECURITY''), (''COMPLIANCE'', ''AGENT-08-COMPLIANCE''),
            (''DEPABS'', ''AGENT-39-DEPABS''), (''DEPENDENC'', ''AGENT-39-DEPABS''), (''TEST'', ''AGENT-10-TESTER''),
            (''VC'', ''AGENT-07-VC'')])))"

definition cluster_managers :: "pydict \<Rightarrow> string list" where
  "cluster_managers logic_clusters =
     (case dget logic_clusters ''clusters'' of
        PList clusters \<Rightarrow> sort (remdups (filter (\<lambda>p. p \<noteq> [])
          (map (\<lambda>c. py_upper (py_strip (str_or_empty (dget c ''pod_manager_agent_id'')))) (dicts_of clusters))))
      | _ \<Rightarrow> [])"

definition extract_cross_pod_flags :: "pydict \<Rightarrow> string list" where
  "extract_cross_pod_flags logic_clusters =
     (let pods = cluster_managers logic_clusters in if length pods > 1 then pods else [])"

definition extension_for_language :: "string \<Rightarrow> string" where
  "extension_for_language language =
     table_get [(''python'', ''py''), (''javascript'', ''js''), (''typescript'', ''ts''), (''java'', ''java''),
        (''csharp'', ''cs''), (''rust'', ''rs''), (''go'', ''go'')] (py_lower language) ''txt''"

section \<open>What a stage leaves alone\<close>

text \<open>A quiet stage is quiet for the driver: it changes the state of no mission and logs only checkpoints of
  its own.\<close>

definition stage_quiet :: "string \<Rightarrow> stage_world \<Rightarrow> stage_world \<Rightarrow> bool" where
  "stage_quiet mid w w' \<longleftrightarrow> quiet mid (sg_world w) (sg_world w')"

interpretation stage_quiet: preorder_rel "stage_quiet mid"
  by standard (auto simp: stage_quiet_def intro: quiet.R_refl quiet.R_trans)

lemma stage_same_world:
  assumes "\<And>w. sg_world (snd (m w)) = sg_world w"
  shows "keeps (stage_quiet mid) m"
  by (simp add: keeps_def stage_quiet_def assms quiet.R_refl)

lemma stage_on_life: "keeps (quiet mid) m \<Longrightarrow> keeps (stage_quiet mid) (on_life m)"
  by (auto simp: keeps_def stage_quiet_def on_life_def case_prod_beta Let_def)

lemma same_world_calls:
  "sg_world (snd (ask env f args w)) = sg_world w" "sg_world (snd (ask_value env f args w)) = sg_world w"
  "sg_world (snd (rows_of env table mid w)) = sg_world w"
  "sg_world (snd (write_row env table mid d w)) = sg_world w"
  "sg_world (snd (record_event env mission agent ev ot oid tool summary content w)) = sg_world w"
  "sg_world (snd (tell_bus env proto sender recipient payload cid w)) = sg_world w"
  by (simp_all add: ask_def ask_value_def rows_of_def write_row_def record_event_def tell_bus_def case_prod_beta Let_def
      split: pyval.split)

lemma stage_quiet_calls [keeps_intros]:
  "keeps (stage_quiet mid) (ask env f args)" "keeps (stage_quiet mid) (ask_value env f args)"
  "keeps (stage_quiet mid) (rows_of env table mid')"
  "keeps (stage_quiet mid) (write_row env table mid' d)"
  "keeps (stage_quiet mid) (record_event env mission agent ev ot oid tool summary content)"
  "keeps (stage_quiet mid) (tell_bus env proto sender recipient payload cid)"
  by (rule stage_same_world; rule same_world_calls)+

lemma stage_quiet_sends [keeps_intros]:
  "keeps (stage_quiet mid) (send_alpha_directive env s r p t d c)"
  "keeps (stage_quiet mid) (send_beta_result env bs r l lang d c)"
  "keeps (stage_quiet mid) (send_omega_message env s rv d u c)"
  "keeps (stage_quiet mid) (send_sigma_knowledge env s rv p t u d c)"
  unfolding send_alpha_directive_def send_beta_result_def send_omega_message_def send_sigma_knowledge_def
  by (intro keeps_intros)+

lemma quiet_persist [keeps_intros]: "keeps (quiet mid) (persist_metadata env mid md emit)"
  unfolding persist_metadata_def
  by (intro keeps_intros)

lemma stage_quiet_save [keeps_intros]: "keeps (stage_quiet mid) (save env mid' md)"
  unfolding save_def by (intro stage_on_life keeps_intros)

lemma stage_quiet_persisted [keeps_intros]: "keeps (stage_quiet mid) (persisted env mid md emit)"
  unfolding persisted_def by (intro keeps_intros stage_on_life)

lemma stage_quiet_with_mission [keeps_intros]:
  "(\<And>m. keeps (stage_quiet mid) (f m)) \<Longrightarrow> keeps (stage_quiet mid) (with_mission mid' absent f)"
  unfolding with_mission_def by (intro keeps_intros stage_on_life)

section \<open>Reading a document after it was stamped\<close>

lemma dget_mark_with:
  assumes "mark_with env ev agent details md = Inr md'"
    and "k \<notin> {''chain_trace'', ''last_chain_event_type'', ''last_chain_event_at''}"
  shows "dget md' k = dget md k" and "dhas md' k = dhas md k"
  using assms by (auto simp: mark_with_def rbind_def append_chain_event_def Let_def split: sum.splits if_splits)

lemmas dget_mark = dget_mark_with [where details = "Inr details" for details, folded mark_def]

lemma dget_artifact:
  "k \<noteq> ''mission_artifacts'' \<Longrightarrow> dget (artifact env stage ev agent details md) k = dget md k"
  "k \<noteq> ''mission_artifacts'' \<Longrightarrow> dhas (artifact env stage ev agent details md) k = dhas md k"
  by (simp_all add: artifact_def record_artifact_def Let_def)

lemma mark_total:
  assumes "dget md ''chain_trace'' = PList tr"
  obtains md' tr' where "mark env ev agent details md = Inr md'" and "dget md' ''chain_trace'' = PList tr'"
proof -
  have "map_of md ''chain_trace'' = Some (PList tr)"
    using assms by (simp add: dget_def split: option.splits)
  then have run: "mark env ev agent details md = Inr (if \<exists>r \<in> set tr. is_event_record ev r then md
      else append_chain_event md ev agent details (stamp env))"
    by (simp add: mark_def mark_with_def chain_event_exists_def dget_or_def rbind_def)
  have "\<exists>tr'. dget (if b then md else append_chain_event md ev agent details (stamp env)) ''chain_trace'' = PList tr'" for b
    using assms by (simp add: append_chain_event_def Let_def)
  with run show thesis using that by blast
qed

section \<open>What a stage has written\<close>

text \<open>A run that ends normally, read backwards.\<close>

lemma bnd_run: "bnd m f w = (Inr y, w') \<longleftrightarrow> (\<exists>x v. m w = (Inr x, v) \<and> f x v = (Inr y, w'))"
  by (auto simp: bnd_def split: prod.splits sum.splits)

lemma ret_run: "ret x w = (Inr y, w') \<longleftrightarrow> y = x \<and> w' = w"
  by auto

lemma lift_run: "lift_res r w = (Inr y, w') \<longleftrightarrow> r = Inr y \<and> w' = w"
  by auto

lemma on_life_run: "on_life m w = (Inr x, w') \<longleftrightarrow> (\<exists>v. m (sg_world w) = (Inr x, v) \<and> w' = w\<lparr>sg_world := v\<rparr>)"
  by (auto simp: on_life_def Let_def split: prod.splits)

lemmas run_simps = bnd_run ret_run lift_run

lemma park_never_true: "park_for_clarification env mid md fc score n w \<noteq> (Inr True, w')"
  by (auto simp: park_for_clarification_def run_simps split: option.splits)

definition stored_md :: "stage_world \<Rightarrow> string \<Rightarrow> pydict" where
  "stored_md w mid = (case row_of (w_db (sg_world w)) mid of None \<Rightarrow> [] | Some row \<Rightarrow> row_metadata row)"

text \<open>The keys the storage fills in by itself.\<close>

definition storage_keys :: "string list" where
  "storage_keys = [''vault'', ''project_id'', ''project_name'', ''delta_audit_gate'']"

definition same_rows :: "world \<Rightarrow> world \<Rightarrow> bool" where
  "same_rows w w' \<longleftrightarrow> missions (w_db w') = missions (w_db w)"

interpretation same_rows: preorder_rel same_rows
  by standard (auto simp: same_rows_def)

lemma same_rows_checkpoint [keeps_intros]: "keeps same_rows (checkpoint env mid s ev)"
  by (auto simp: keeps_def same_rows_def checkpoint_def on_db_def insert_mission_event_def add_event_def Let_def)

lemma same_rows_emit [keeps_intros]: "keeps same_rows (emit_quietly env m ev)"
proof -
  have "keeps same_rows (xadd_state env entry)" for entry
    by (auto simp: keeps_def same_rows_def xadd_state_def)
  then have "keeps same_rows (emit_state_event env m ev)"
    unfolding emit_state_event_def Let_def by (intro keeps_intros)
  then have "keeps same_rows (attempt (emit_state_event env m ev) ())" by (intro keeps_intros)
  then show ?thesis by (auto simp: keeps_def emit_quietly_def same_rows.R_refl)
qed

lemma dget_stored:
  assumes "k \<notin> set storage_keys"
  shows "dget (keep_delta_gate old (strip_vault (with_project_identity (PDict md) v))) k = dget md k"
    and "dhas (keep_delta_gate old (strip_vault (with_project_identity (PDict md) v))) k = dhas md k"
proof -
  have "map_of (keep_delta_gate old (strip_vault (with_project_identity (PDict md) v))) k = map_of md k"
    using assms by (simp add: keep_delta_gate_def storage_keys_def strip_vault_frame VAULT_METADATA_KEY_def
        with_project_identity_frame)
  then show "dget (keep_delta_gate old (strip_vault (with_project_identity (PDict md) v))) k = dget md k"
    "dhas (keep_delta_gate old (strip_vault (with_project_identity (PDict md) v))) k = dhas md k"
    by (simp_all add: dget_def dhas_def)
qed

lemma save_stores:
  assumes "save_metadata env mid md w = (Inr (Some m), w')"
  obtains row where "row_of (w_db w') mid = Some row" and "row_to_mission mid row = Inr m"
    and "\<And>k. k \<notin> set storage_keys \<Longrightarrow> dget (row_metadata row) k = dget md k"
proof -
  obtain old where old: "map_of (missions (w_db w)) mid = Some old"
    using assms by (auto simp: save_metadata_def on_db_def update_mission_metadata_def Let_def split: option.splits)
  let ?row = "old\<lparr>row_metadata := keep_delta_gate (row_metadata old)
      (strip_vault (with_project_identity (PDict md) (PStr mid))),
    row_project_id := Some (resolve_project_id (PDict (strip_vault (with_project_identity (PDict md) (PStr mid)))) (PStr mid)),
    row_updated_at := e_now env\<rparr>"
  have "row_of (w_db w') mid = Some ?row" "row_to_mission mid ?row = Inr m"
    using assms old by (auto simp: save_metadata_def on_db_def update_mission_metadata_def row_of_def Let_def rbind_def
        split: sum.splits)
  then show thesis by (rule that) (simp add: dget_stored)
qed

lemma persist_stores:
  assumes "persist_metadata env mid md emit w = (Inr (Some m), w')"
  obtains row where "row_of (w_db w') mid = Some row" and "row_to_mission mid row = Inr m"
    and "\<And>k. k \<notin> set storage_keys \<Longrightarrow> dget (row_metadata row) k = dget md k"
proof -
  obtain r v where saved: "save_metadata env mid md w = (Inr r, v)"
    and rest: "(case (r, emit) of (Some x, Some (event_type, event_state)) \<Rightarrow>
           bnd (checkpoint env mid event_state event_type) (\<lambda>_. bnd (emit_quietly env x event_type) (\<lambda>_. ret r))
       | _ \<Rightarrow> ret r) v = (Inr (Some m), w')"
    using assms unfolding persist_metadata_def by (rule bnd_result)
  have r: "r = Some m"
    using rest by (cases r; cases emit) (auto elim!: bnd_result)
  obtain row where row: "row_of (w_db v) mid = Some row" "row_to_mission mid row = Inr m"
    "\<And>k. k \<notin> set storage_keys \<Longrightarrow> dget (row_metadata row) k = dget md k"
    using saved unfolding r by (rule save_stores) blast
  have "keeps same_rows (case (r, emit) of (Some x, Some (event_type, event_state)) \<Rightarrow>
           bnd (checkpoint env mid event_state event_type) (\<lambda>_. bnd (emit_quietly env x event_type) (\<lambda>_. ret r))
       | _ \<Rightarrow> ret r)"
    by (cases r; cases emit) (auto intro: keeps_intros)
  then have "same_rows v w'" using rest by (rule keeps_result)
  with row show thesis by (intro that [of row]) (simp_all add: same_rows_def row_of_def)
qed

lemma persisted_stores:
  assumes "persisted env mid md emit w = (Inr True, w')" and "k \<notin> set storage_keys"
  shows "dget (stored_md w' mid) k = dget md k"
proof -
  obtain m v where run: "persist_metadata (sv_life env) mid md emit (sg_world w) = (Inr (Some m), v)" and "sg_world w' = v"
    using assms(1) by (auto simp: persisted_def on_life_def Let_def bnd_def split: prod.splits sum.splits)
  moreover obtain row where "row_of (w_db v) mid = Some row" "dget (row_metadata row) k = dget md k"
    using run assms(2) by (metis persist_stores)
  ultimately show ?thesis by (simp add: stored_md_def)
qed

text \<open>Reading the mission does not change the world.\<close>

lemma with_mission_run:
  assumes "with_mission mid absent f w = (Inr y, w')" and "y \<noteq> absent"
  obtains mission where "fetch_mission (w_db (sg_world w)) mid = Inr (Some mission)" and "f mission w = (Inr y, w')"
  using assms by (auto simp: with_mission_def on_life_def fetch_def bnd_def split: prod.splits sum.splits option.splits)

lemma fetched_metadata:
  assumes "fetch_mission (w_db (sg_world w)) mid = Inr (Some mission)"
  shows "stored_md w mid = m_metadata mission"
proof -
  obtain row where "row_of (w_db (sg_world w)) mid = Some row" "row_to_mission mid row = Inr mission"
    using assms by (auto simp: fetch_mission_def row_of_def rbind_def split: option.splits sum.splits)
  then show ?thesis
    by (auto simp: stored_md_def row_to_mission_def Let_def rbind_def split: sum.splits)
qed

section \<open>A sample environment\<close>

definition sample_stage_audit :: audit_env where
  "sample_stage_audit = sample_audit_env\<lparr>au_dumps_sorted := (\<lambda>_. ''json'')\<rparr>"

definition sample_stage_env :: "pydict \<Rightarrow> stage_env" where
  "sample_stage_env answer = \<lparr>sv_life = sample_env, sv_audit = (\<lambda>_. sample_stage_audit),
     sv_pod = (\<lambda>_. \<lparr>pe_audit = sample_stage_audit, pe_now = 7, pe_between = id\<rparr>),
     sv_client = \<lparr>bc_url = [], bc_api_key = [], bc_uuid = ''u'', bc_float = (\<lambda>_. Inl ValueError)\<rparr>,
     sv_bus = sample_bus_env, sv_outage = (\<lambda>_. Done), sv_request = (\<lambda>_. sample_request),
     sv_call = (\<lambda>_ _ _. Inr answer), sv_answer = (\<lambda>_ _ _. Inr PNone), sv_rows = (\<lambda>_ _ _. Inr []),
     sv_uuid = (\<lambda>_ _. ''u''), sv_write_ok = (\<lambda>_. True), sv_schema = MISSION_CHARTER_SCHEMA,
     sv_sows = (\<lambda>_. None), sv_sign = (\<lambda>_ _. None)\<rparr>"

definition sample_stage_world :: "string \<Rightarrow> string option \<Rightarrow> pydict \<Rightarrow> stage_world" where
  "sample_stage_world st language md =
     \<lparr>sg_world = (sample_world st)\<lparr>w_db := sample_db\<lparr>missions := [(''m1'', sample_row\<lparr>row_state := st,
        row_language := language, row_metadata := md\<rparr>)]\<rparr>\<rparr>,
      sg_pods = \<lparr>ps_pods = \<lparr>pd_missions = sample_db, pd_rows = []\<rparr>, ps_audit = \<lparr>ad_missions = [], ad_events = []\<rparr>\<rparr>,
      sg_bus = sample_bus, sg_tables = [], sg_calls = 0\<rparr>"

end
