(* ===== verification/Stage_Intake.thy ===== *)
theory Stage_Intake
  imports Stage_Base Port_Coordinator
begin

text \<open>
  The first three stages, \<open>mission_flow_v2/phases_intake.py\<close>: PM intake (the feature contract, its
  clarification gate and the charter), the fetch phase of the IS agent, and the CEO's delegation. Attachments and
  style directives are fields of a mission that no table stores, so every stored mission has none. A SOW file is
  looked up by its id (\<open>sv_sows\<close>) after the id passed the file-name check.
\<close>

section \<open>Inputs of PM intake\<close>

definition REPO_CONTEXT_MAX_CHARS :: nat where "REPO_CONTEXT_MAX_CHARS = 6000"
definition MAX_REPO_CHUNK_RECORDS :: nat where "MAX_REPO_CHUNK_RECORDS = 20"

text \<open>The texts collected so far: the manifest, the summary and the source chunks.\<close>

type_synonym repo_texts = "string option \<times> string option \<times> string list"

definition add_record :: "pyval \<Rightarrow> repo_texts \<Rightarrow> repo_texts" where
  "add_record record = (\<lambda>(manifest, summary, chunks).
     case dget (dict_or_empty record) ''content'' of
       PDict content \<Rightarrow>
         (let kind = str_or_empty (dget content ''kind''); t = py_strip (str_or_empty (dget content ''combined_text'')) in
          if t = [] then (manifest, summary, chunks)
          else if kind = ''repo_manifest'' \<and> manifest = None then (Some t, summary, chunks)
          else if kind = ''repo_summary'' \<and> summary = None then (manifest, Some t, chunks)
          else if kind = ''repo_source_chunk'' \<and> length chunks < MAX_REPO_CHUNK_RECORDS
          then (manifest, summary, chunks @
            [if truthy (dget content ''path'') then ''# '' @ py_str (dget content ''path'') @ [newline] @ t else t])
          else (manifest, summary, chunks))
     | _ \<Rightarrow> (manifest, summary, chunks))"

definition load_repo_context :: "pyval list res \<Rightarrow> string option" where
  "load_repo_context listed_rows =
     (case listed_rows of
        Inl _ \<Rightarrow> None
      | Inr records \<Rightarrow>
          (let (manifest, summary, chunks) = fold add_record records (None, None, []);
               parts = (case manifest of None \<Rightarrow> [] | Some t \<Rightarrow> [t]) @ (case summary of None \<Rightarrow> [] | Some t \<Rightarrow> [t]) @ chunks;
               merged = join_str [newline, newline] parts
           in if parts = [] then None
              else Some (if length merged > REPO_CONTEXT_MAX_CHARS
                         then take REPO_CONTEXT_MAX_CHARS merged @ [newline] @ ''...[truncated]'' else merged)))"

text \<open>\<open>sow_store.py\<close>: only a plain name leads to a file.\<close>

definition sow_id_char :: "char \<Rightarrow> bool" where
  "sow_id_char c = (is_digit c \<or> is_upper_char c \<or> is_lower_char c \<or> c = CHR ''-'' \<or> c = CHR ''_'')"

definition load_approved_sow :: "stage_env \<Rightarrow> string \<Rightarrow> pydict option" where
  "load_approved_sow env sow_id = (if sow_id \<noteq> [] \<and> list_all sow_id_char sow_id then sv_sows env sow_id else None)"

definition as_number :: "pyval \<Rightarrow> rat option" where
  "as_number v = (case v of PInt i \<Rightarrow> Some (of_int i) | PFloat r _ \<Rightarrow> Some r | PBool b \<Rightarrow> Some (if b then 1 else 0) | _ \<Rightarrow> None)"

definition AMBIGUITY_LIMIT :: rat where "AMBIGUITY_LIMIT = 7 / 10"

text \<open>\<open>score >= 0.7\<close>.\<close>

definition score_high :: "pyval \<Rightarrow> bool res" where
  "score_high v = (case as_number v of None \<Rightarrow> Inl TypeError | Some r \<Rightarrow> Inr (AMBIGUITY_LIMIT \<le> r))"

definition score_of :: "pydict \<Rightarrow> pyval" where
  "score_of contract = dget_or contract ''ambiguity_score'' (PFloat 0 ''0.0'')"

definition intent_of :: "pydict \<Rightarrow> string" where
  "intent_of md = py_strip (str_or_empty (dget md ''user_intent''))"

definition finalize_intent :: "pydict \<Rightarrow> bool" where
  "finalize_intent md = (py_lower (intent_of md) = ''finalize_plan'')"

definition questions_of :: "pydict \<Rightarrow> pyval" where
  "questions_of contract = py_or (dget contract ''clarifying_questions'') (PList [])"

definition auto_accepts :: "stage_env \<Rightarrow> bool" where
  "auto_accepts env = setting_bool (e_settings (sv_life env)) ''pm_auto_accept_defaults_enabled'' True"

section \<open>The feature contract\<close>

definition ready_contract :: "pyval \<Rightarrow> pydict \<Rightarrow> pydict" where
  "ready_contract prior_score contract =
     dset ''intake_status'' (PStr ''ready'') (dset ''ambiguity_score'' (PFloat 0 ''0.0'')
       (dset ''prior_ambiguity_score'' prior_score contract))"

definition approved_contract :: "pydict \<Rightarrow> pydict res" where
  "approved_contract contract =
     rbind (listed contract ''assumptions'') (\<lambda>items.
       let contract = dset ''assumptions'' (PList (map PStr (filter (\<lambda>s. s \<noteq> []) (map (py_strip \<circ> py_str) items)))) contract;
           prior_score = score_of contract
       in Inr (case as_number prior_score of
                 Some r \<Rightarrow> if AMBIGUITY_LIMIT \<le> r then ready_contract prior_score contract else contract
               | None \<Rightarrow> contract))"

record intake_request =
  ir_mission :: MissionRecord
  ir_mission_type :: string
  ir_depth_mode :: string
  ir_output_mode :: string
  ir_source_code :: pyval
  ir_context :: pydict

text \<open>The arguments of the contract generator. The second request names no source code.\<close>

definition contract_args :: "intake_request \<Rightarrow> pydict \<Rightarrow> pyval \<Rightarrow> pydict" where
  "contract_args r source user_intent =
     [(''prompt'', PStr (m_prompt (ir_mission r))), (''mission_type'', PStr (ir_mission_type r)),
      (''depth_mode'', PStr (ir_depth_mode r)), (''output_mode'', PStr (ir_output_mode r)),
      (''requested_target_language'', py_opt (m_requested_target_language (ir_mission r))),
      (''attachments'', PList []), (''global_style_directives'', PList [])] @ source
     @ [(''conversation_context'', PDict (ir_context r)), (''user_intent'', user_intent)]"

definition sow_contract :: "stage_env \<Rightarrow> string \<Rightarrow> pydict option" where
  "sow_contract env sow_id =
     (case load_approved_sow env sow_id of
        Some sow \<Rightarrow> (case dget sow ''feature_contract'' of PDict c \<Rightarrow> Some c | _ \<Rightarrow> None)
      | None \<Rightarrow> None)"

definition first_contract :: "stage_env \<Rightarrow> intake_request \<Rightarrow> string \<Rightarrow> pydict \<Rightarrow> (pydict \<times> pydict) sprog" where
  "first_contract env r sow_id md =
     (case sow_contract env sow_id of
        Some c \<Rightarrow>
          bnd (lift_res (approved_contract c)) (\<lambda>contract.
            ret (dset ''approved_sow_digest'' (dget (the (load_approved_sow env sow_id)) ''digest'')
                  (dset ''approved_sow_id'' (PStr sow_id) md), contract))
      | None \<Rightarrow>
          bnd (ask env ''generate_pm_feature_contract'' (contract_args r [(''source_code'', ir_source_code r)]
                 (if intent_of md = [] then PNone else PStr (intent_of md)))) (\<lambda>contract.
            ret (md, contract)))"

definition accepted_defaults :: "stage_env \<Rightarrow> pyval list \<Rightarrow> pyval \<Rightarrow> string \<Rightarrow> pyval" where
  "accepted_defaults env questions score reason =
     PDict [(''questions'', PList (map (PStr \<circ> py_str) questions)), (''ambiguity_score'', score),
            (''applied_at'', PStr (stamp env)), (''reason'', PStr reason)]"

text \<open>The PM's questions are answered with its own defaults, once, and the contract is asked for again.\<close>

definition accept_defaults ::
  "stage_env \<Rightarrow> intake_request \<Rightarrow> string \<Rightarrow> pydict \<Rightarrow> pydict \<Rightarrow> (pydict \<times> pydict) sprog" where
  "accept_defaults env r sow_id md contract =
     (let score = score_of contract in
      bnd (lift_res (if sow_id \<noteq> [] then Inr False else score_high score)) (\<lambda>high.
        case questions_of contract of
          PList (q # qs) \<Rightarrow>
            if high \<and> auto_accepts env \<and> \<not> finalize_intent md
            then let md = append_chain_event
                       (dset ''user_intent'' (PStr ''finalize_plan'')
                       (dset ''pm_auto_accepted_defaults'' (accepted_defaults env (q # qs) score
                          ''clarifying questions carried recommended defaults'') md))
                       ''MISSION_CLARIFICATION_APPLIED'' PM_AGENT_ID
                       [(''auto_accepted'', PBool True), (''question_count'', PInt (int (length (q # qs)))),
                        (''prior_ambiguity_score'', score)] (stamp env)
                 in bnd (ask env ''generate_pm_feature_contract'' (contract_args r [] (PStr ''finalize_plan''))) (\<lambda>contract.
                      ret (md, contract))
            else ret (md, contract)
        | _ \<Rightarrow> ret (md, contract)))"

definition all_have_defaults :: "pydict \<Rightarrow> bool" where
  "all_have_defaults contract =
     (case questions_of contract of
        PList qs \<Rightarrow> list_all (\<lambda>q. contains_str ''recommended default'' (py_lower (py_str q))) qs
      | _ \<Rightarrow> False)"

text \<open>The circuit breaker; its last component says whether the mission is still too ambiguous.\<close>

definition break_circuit :: "stage_env \<Rightarrow> pydict \<Rightarrow> pydict \<Rightarrow> (pydict \<times> pydict \<times> int \<times> bool) res" where
  "break_circuit env md contract =
     rbind (py_int (py_or (dget md ''clarification_loop_count'') (PInt 0))) (\<lambda>loop_count.
     rbind (score_high (score_of contract)) (\<lambda>high.
       if high \<and> auto_accepts env \<and> all_have_defaults contract \<and> (2 \<le> loop_count \<or> finalize_intent md)
       then Inr (dset ''pm_auto_accepted_defaults'' (accepted_defaults env (list_or_empty (questions_of contract))
                   (score_of contract) ''circuit breaker: finalize intent or repeated clarification'') md,
                 ready_contract (score_of contract) contract, loop_count, False)
       else Inr (md, contract, loop_count, high)))"

section \<open>After the gate\<close>

definition counted_len :: "pydict \<Rightarrow> string \<Rightarrow> pyval res" where
  "counted_len d k = rbind (py_len (dget_or d k (PList []))) (\<lambda>n. Inr (PInt n))"

definition contract_details :: "pydict \<Rightarrow> pydict res" where
  "contract_details contract =
     rbind (counted_len contract ''functional_requirements'') (\<lambda>requirements.
     rbind (counted_len contract ''acceptance_criteria'') (\<lambda>criteria.
       Inr [(''source'', dget contract ''source''), (''requirement_count'', requirements),
            (''acceptance_criteria_count'', criteria),
            (''human_approval_required'', dget contract ''human_approval_required'')]))"

definition contract_metadata :: "stage_env \<Rightarrow> pydict \<Rightarrow> pydict \<Rightarrow> pydict \<Rightarrow> pydict res" where
  "contract_metadata env contract charter md =
     (let md = dset ''risk_assessment'' (dget contract ''risk_assessment'')
                 (dset ''mission_charter'' (PDict charter) (dset ''feature_contract'' (PDict contract) md));
          source = dget_or md ''source'' (PStr ''mission-flow-v2'')
      in rbind (mark env ''MISSION_PM_INTAKE'' PM_AGENT_ID
                 [(''source'', source), (''feature_contract_source'', dget contract ''source''),
                  (''title'', dget contract ''title'')] md) (\<lambda>md.
         rbind (mark_with env ''FEATURE_CONTRACT_CREATED'' PM_AGENT_ID (contract_details contract) md) (\<lambda>md.
         Inr (artifact env ''pm_intake'' ''MISSION_PM_INTAKE'' PM_AGENT_ID
               [(''source'', dget_or md ''source'' (PStr ''mission-flow-v2'')),
                (''feature_contract_source'', dget contract ''source''),
                (''mission_charter_id'', dget charter ''charter_id'')] md))))"

definition AIM_REQUIRING_MISSION_TYPES :: "string list" where
  "AIM_REQUIRING_MISSION_TYPES =
     [''IMPORT_MODERNIZE'', ''PORT'', ''DEBUG_REPAIR'', ''SECURITY_HARDEN'', ''REDUCE_DEPENDENCIES'', ''ANALYZE_ONLY'']"

definition mission_requires_aim :: "string \<Rightarrow> bool" where
  "mission_requires_aim mission_type = (py_upper (py_strip mission_type) \<in> set AIM_REQUIRING_MISSION_TYPES)"

definition aim_details :: "pydict \<Rightarrow> pydict res" where
  "aim_details aim =
     rbind (inner_get aim ''extraction_summary'' ''files_analyzed'' (PInt 0)) (\<lambda>files_analyzed.
       Inr [(''aim_id'', dget aim ''aim_id''), (''primary_language'', dget aim ''primary_language''),
            (''detected_languages'', dget_or aim ''detected_languages'' (PList [])), (''files_analyzed'', files_analyzed),
            (''total_functions'', dget_or aim ''total_functions'' (PInt 0)),
            (''total_classes'', dget_or aim ''total_classes'' (PInt 0)),
            (''complexity'', dget aim ''complexity_assessment''),
            (''human_approval_recommended'', dget_or aim ''human_approval_recommended'' (PBool False)),
            (''source'', dget aim ''source'')])"

definition add_aim :: "stage_env \<Rightarrow> intake_request \<Rightarrow> string \<Rightarrow> pydict \<Rightarrow> pydict \<Rightarrow> pydict sprog" where
  "add_aim env r mid contract md =
     bnd (ask env ''generate_aim''
       [(''mission_id'', PStr mid), (''source_code'', dget md ''source_code''), (''prompt'', PStr (m_prompt (ir_mission r))),
        (''mission_type'', PStr (ir_mission_type r)),
        (''requested_target_language'', py_opt (m_requested_target_language (ir_mission r))),
        (''feature_contract'', PDict contract)]) (\<lambda>aim.
     bnd (lift_res (mark_with env ''MISSION_AIM_GENERATED'' CEO_AGENT_ID (aim_details aim)
            (dset ''application_intelligence_map'' (PDict aim) md))) (\<lambda>md.
     let md = artifact env ''aim'' ''MISSION_AIM_GENERATED'' CEO_AGENT_ID
                (pick aim [''aim_id'', ''schema_version'', ''source'', ''model_provider'', ''model'']) md in
     bnd (lift_res (inner_get aim ''extraction_summary'' ''files_analyzed'' (PInt 0))) (\<lambda>files_analyzed.
     bnd (record_event env (ir_mission r) (PStr CEO_AGENT_ID) ''MISSION_AIM_GENERATED'' ''application_intelligence_map''
            (py_str (py_or (dget aim ''aim_id'') (PStr ''application_intelligence_map''))) (Some ''aim_generator'')
            [(''source'', dget aim ''source''), (''primary_language'', dget aim ''primary_language''),
             (''files_analyzed'', files_analyzed),
             (''human_approval_recommended'', dget_or aim ''human_approval_recommended'' (PBool False))] (PDict aim)) (\<lambda>_.
     ret md))))"

definition finish_intake :: "stage_env \<Rightarrow> intake_request \<Rightarrow> string \<Rightarrow> pydict \<Rightarrow> pydict \<Rightarrow> bool sprog" where
  "finish_intake env r mid md contract =
     bnd (\<lambda>w. (build_mission_charter (sv_schema env) (sv_uuid env (sg_calls w) 0) (stamp env) mid
            (m_prompt (ir_mission r)) (m_requested_target_language (ir_mission r)) contract (ir_mission_type r)
            (ir_depth_mode r) (ir_output_mode r), w)) (\<lambda>charter.
     bnd (lift_res (contract_metadata env contract charter md)) (\<lambda>md.
     bnd (lift_res (counted_len contract ''functional_requirements'')) (\<lambda>requirements.
     bnd (record_event env (ir_mission r) (PStr PM_AGENT_ID) ''FEATURE_CONTRACT_CREATED'' ''feature_contract''
            ''feature_contract'' (Some ''llm_delegation'')
            [(''source'', dget contract ''source''), (''title'', dget contract ''title''),
             (''requirement_count'', requirements),
             (''human_approval_required'', dget contract ''human_approval_required'')] (PDict contract)) (\<lambda>_.
     bnd (if mission_requires_aim (ir_mission_type r) \<and> is_str (dget md ''source_code'')
          then add_aim env r mid contract md else ret md) (\<lambda>md.
     persisted env mid md None)))))"

section \<open>PM intake\<close>

definition repo_import_of :: "pydict \<Rightarrow> pydict option" where
  "repo_import_of md =
     (case dget md ''repo_import'' of
        PDict d \<Rightarrow> if truthy (dget d ''index_required'') then Some d else None
      | _ \<Rightarrow> None)"

definition index_complete :: "pydict \<Rightarrow> bool" where
  "index_complete repo_import =
     (py_lower (py_strip (py_str (py_or (dget repo_import ''index_status'') (PStr ''pending'')))) = ''complete'')"

definition await_index :: "stage_env \<Rightarrow> string \<Rightarrow> pydict \<Rightarrow> pydict \<Rightarrow> bool sprog" where
  "await_index env mid repo_import md =
     bnd (lift_res (chain_event_exists md ''REPO_INDEX_PENDING'')) (\<lambda>found.
     if found then ret False
     else bnd (save env mid (append_chain_event md ''REPO_INDEX_PENDING'' PM_AGENT_ID
                 (pick repo_import [''import_id'', ''index_status'']) (stamp env))) (\<lambda>_. ret False))"

definition intake_context :: "stage_env \<Rightarrow> string \<Rightarrow> pydict \<Rightarrow> pydict sprog" where
  "intake_context env mid md =
     (let context = dict_or_empty (dget md ''conversation_context'');
          clarification = py_strip (str_or_empty (dget md ''pm_clarification''));
          context = (if clarification = [] then context else dset ''operator_clarification'' (PStr clarification) context)
      in if repo_import_of md = None then ret context
         else (\<lambda>w. (Inr (case load_repo_context (sv_rows env (sg_calls w) ''mission_knowledge'' mid) of
                 None \<Rightarrow> context | Some t \<Rightarrow> dset ''repository_context'' (PStr t) context),
               w\<lparr>sg_calls := Suc (sg_calls w)\<rparr>)))"

definition request_of :: "MissionRecord \<Rightarrow> pydict \<Rightarrow> pydict \<Rightarrow> intake_request" where
  "request_of mission md context =
     \<lparr>ir_mission = mission, ir_mission_type = mode_text md ''mission_type'' ''BUILD_NEW'',
      ir_depth_mode = mode_text md ''depth_mode'' ''STANDARD'', ir_output_mode = mode_text md ''output_mode'' ''FULL_BUILD'',
      ir_source_code = (case dget md ''source_code'' of PStr s \<Rightarrow> if py_strip s = [] then PNone else PStr s | _ \<Rightarrow> PNone),
      ir_context = context\<rparr>"

definition sow_id_of :: "pydict \<Rightarrow> string" where
  "sow_id_of md = py_strip (str_or_empty (dget md ''sow_id''))"

definition gate_intake :: "stage_env \<Rightarrow> string \<Rightarrow> intake_request \<Rightarrow> pydict \<Rightarrow> bool sprog" where
  "gate_intake env mid r md =
     bnd (first_contract env r (sow_id_of md) md) (\<lambda>(md, contract).
     bnd (accept_defaults env r (sow_id_of md) md contract) (\<lambda>(md, contract).
     bnd (lift_res (break_circuit env md contract)) (\<lambda>(md, contract, loop_count, ambiguous).
       if ambiguous then on_life (park_for_clarification (sv_life env) mid md contract (score_of contract) loop_count)
       else finish_intake env r mid md contract)))"

definition prepare_pm_intake :: "stage_env \<Rightarrow> string \<Rightarrow> bool sprog" where
  "prepare_pm_intake env mid =
     with_mission mid False (\<lambda>mission.
       let md = dset ''agent_id'' (PStr PM_AGENT_ID) (dset ''selected_agent_id'' (PStr PM_AGENT_ID) (chain_defaults_of mission))
       in case repo_import_of md of
            Some repo_import \<Rightarrow>
              if \<not> index_complete repo_import then await_index env mid repo_import md
              else bnd (intake_context env mid md) (\<lambda>context. gate_intake env mid (request_of mission md context) md)
          | None \<Rightarrow> bnd (intake_context env mid md) (\<lambda>context. gate_intake env mid (request_of mission md context) md))"

section \<open>The fetch phase\<close>

definition KNOWLEDGE_LAKE_ID :: string where "KNOWLEDGE_LAKE_ID = ''__knowledge_lake__''"
definition IS_AGENT_ID :: string where "IS_AGENT_ID = ''AGENT-06-IS''"

text \<open>\<open>is_stocked\<close> for a mission; a failed read is no stock.\<close>

definition is_stocked :: "stage_env \<Rightarrow> string \<Rightarrow> bool sprog" where
  "is_stocked env mid = (\<lambda>w.
     let (r, w) = rows_of env ''mission_knowledge'' (if mid = [] then KNOWLEDGE_LAKE_ID else mid) w
     in (Inr (case r of Inl _ \<Rightarrow> False | Inr records \<Rightarrow> list_ex is_dict records), w))"

text \<open>\<open>sorted(languages)\<close> before they are joined: a text has its characters, a dict its keys.\<close>

definition sorted_texts :: "pyval \<Rightarrow> string list res" where
  "sorted_texts v =
     (case v of
        PList items \<Rightarrow> if list_all is_str items then Inr (sort (map str_of items)) else Inl TypeError
      | PStr s \<Rightarrow> Inr (sort (map (\<lambda>c. [c]) s))
      | PDict d \<Rightarrow> Inr (sort (map fst d))
      | _ \<Rightarrow> Inl TypeError)"

definition broadcast_knowledge_ready :: "stage_env \<Rightarrow> pyval \<Rightarrow> string \<Rightarrow> unit sprog" where
  "broadcast_knowledge_ready env languages mid =
     (if \<not> truthy languages \<or> bc_url (sv_client env) = [] then ret ()
      else bnd (lift_res (sorted_texts languages)) (\<lambda>ordered. \<lambda>w.
        send_sigma_knowledge env IS_AGENT_ID (PStr ''broadcast'') ''documentation'' KNOWLEDGE_LAKE_ID (''mission:'' @ mid)
          [(''mission_id'', PStr mid), (''languages'', PList (map PStr ordered)), (''knowledge_ready'', PBool True),
           (''vector_store_ref'', PStr KNOWLEDGE_LAKE_ID),
           (''content_summary'', PStr (''Bootstrap docs indexed for: '' @ join_str '', '' ordered)),
           (''indexed_at'', PStr (stamp env))]
          (''sigma-'' @ mid @ ''-'' @ sv_uuid env (sg_calls w) 0) w))"

definition fetch_details :: "pydict \<Rightarrow> pydict res" where
  "fetch_details result =
     rbind (item result ''indexed_languages'') (\<lambda>indexed.
     rbind (item result ''skipped_languages'') (\<lambda>skipped.
     rbind (item result ''errors'') (\<lambda>errors.
     rbind (item result ''knowledge_ready'') (\<lambda>ready.
       Inr [(''indexed_languages'', indexed), (''skipped'', skipped), (''errors'', errors),
            (''knowledge_ids'', dget_or result ''knowledge_ids'' (PList [])), (''knowledge_ready'', ready),
            (''refreshed_languages'', dget_or result ''refreshed_languages'' (PList [])),
            (''unchanged_languages'', dget_or result ''unchanged_languages'' (PList [])),
            (''embedding_provider'', dget result ''embedding_provider''),
            (''embedding_model'', dget result ''embedding_model'')]))))"

text \<open>The scan for languages is part of the call: its regular expressions are not modelled.\<close>

definition prepare_fetch_phase :: "stage_env \<Rightarrow> string \<Rightarrow> bool sprog" where
  "prepare_fetch_phase env mid =
     with_mission mid False (\<lambda>mission.
       let md = chain_defaults_of mission in
       bnd (ask env ''run_fetch_phase''
              [(''mission_id'', PStr mid), (''prompt'', PStr (m_prompt mission)),
               (''requested_target_language'', py_opt (m_requested_target_language mission)),
               (''source_code'', dget md ''source_code''), (''mission_type'', PStr (mode_text md ''mission_type'' ''BUILD_NEW'')),
               (''attachments'', PList [])]) (\<lambda>result.
       bnd (lift_res (item result ''knowledge_ready'')) (\<lambda>ready.
       bnd (is_stocked env mid) (\<lambda>stocked.
       bnd (lift_res (mark_with env ''MISSION_FETCH_COMPLETE'' IS_AGENT_ID (fetch_details result)
              (dset ''knowledge_lake_stocked'' (PBool stocked) (dset ''knowledge_lake_ready'' ready
                (dset ''fetch_result'' (PDict result) md))))) (\<lambda>md.
       bnd (if truthy ready \<and> truthy (dget result ''indexed_languages'')
            then broadcast_knowledge_ready env (dget result ''indexed_languages'') mid else ret ()) (\<lambda>_.
       persisted env mid md None))))))"

section \<open>The CEO's delegation\<close>

definition routed_details :: "pydict \<Rightarrow> pydict" where
  "routed_details delegation = pick delegation [''source'', ''llm_route'', ''model_provider'', ''model'']"

definition ceo_details :: "string \<Rightarrow> string \<Rightarrow> pydict \<Rightarrow> pydict" where
  "ceo_details manager specialist delegation =
     [(''target_agent_id'', PStr manager), (''specialist_agent_id'', PStr specialist)] @ routed_details delegation"

definition mission_contract_details :: "pydict \<Rightarrow> pydict res" where
  "mission_contract_details contract =
     rbind (counted_len contract ''logicnode_requirements'') (\<lambda>requirements.
     rbind (counted_len contract ''acceptance_criteria'') (\<lambda>criteria.
       Inr (pick contract [''source'', ''output_format'']
            @ [(''requirement_count'', requirements), (''acceptance_criteria_count'', criteria)]
            @ pick contract [''model_provider'', ''model''])))"

definition cluster_count :: "pydict \<Rightarrow> pyval" where
  "cluster_count logic_clusters = PInt (int (length (list_or_empty (dget logic_clusters ''clusters''))))"

definition mark_reasoning :: "stage_env \<Rightarrow> pydict \<Rightarrow> pydict \<Rightarrow> pydict \<Rightarrow> pydict \<Rightarrow> pydict res" where
  "mark_reasoning env delegation contract clusters md =
     rbind (chain_event_exists md ''CEO_REASONING_SUMMARY'') (\<lambda>found.
       if found then Inr md
       else let flags = PList (map PStr (extract_support_agent_flags delegation
                  (py_str (py_or (dget md ''mission_type'') (PStr ''BUILD_NEW'')))))
            in Inr (append_chain_event (dset ''ceo_support_agent_flags'' flags md) ''CEO_REASONING_SUMMARY'' CEO_AGENT_ID
                 [(''delegation_rationale'', dget delegation ''rationale''),
                  (''contract_summary'', dget contract ''contract_summary''), (''cluster_count'', cluster_count clusters),
                  (''cross_pod_flags'', PList (map PStr (extract_cross_pod_flags clusters))),
                  (''support_agent_flags'', flags)] (stamp env)))"

definition ceo_metadata ::
  "stage_env \<Rightarrow> string \<Rightarrow> string \<Rightarrow> pydict \<Rightarrow> pydict \<Rightarrow> pydict \<Rightarrow> pydict \<Rightarrow> pydict res" where
  "ceo_metadata env manager specialist delegation contract clusters md =
     rbind (mark env ''MISSION_CEO_DELEGATED'' CEO_AGENT_ID (ceo_details manager specialist delegation) md) (\<lambda>md.
     rbind (mark_with env ''MISSION_CONTRACT_GENERATED'' CEO_AGENT_ID (mission_contract_details contract) md) (\<lambda>md.
     rbind (mark env ''LOGIC_CLUSTERS_DECOMPOSED'' CEO_AGENT_ID
              ((''source'', dget clusters ''source'') # (''cluster_count'', cluster_count clusters)
                # pick clusters [''model_provider'', ''model'']) md) (\<lambda>md.
     rbind (mark_reasoning env delegation contract clusters md) (\<lambda>md.
     rbind (counted_len contract ''logicnode_requirements'') (\<lambda>requirements.
       Inr (artifact env ''logic_clusters'' ''LOGIC_CLUSTERS_DECOMPOSED'' CEO_AGENT_ID
              [(''source'', dget clusters ''source''), (''cluster_count'', cluster_count clusters)]
            (artifact env ''mission_contract'' ''MISSION_CONTRACT_GENERATED'' CEO_AGENT_ID
              (pick contract [''source'', ''output_format''] @ [(''requirement_count'', requirements)])
            (artifact env ''ceo_delegated'' ''MISSION_CEO_DELEGATED'' CEO_AGENT_ID
              (ceo_details manager specialist delegation) md))))))))"

definition ceo_events ::
  "stage_env \<Rightarrow> MissionRecord \<Rightarrow> string \<Rightarrow> string \<Rightarrow> pydict \<Rightarrow> pydict \<Rightarrow> pydict \<Rightarrow> unit sprog" where
  "ceo_events env mission manager specialist delegation contract clusters =
     bnd (record_event env mission (PStr CEO_AGENT_ID) ''AGENT_DELEGATION_PLANNED'' ''delegation'' ''ceo''
            (Some ''llm_delegation'')
            (routed_details delegation
              @ [(''pod_manager_agent_id'', PStr manager), (''specialist_agent_id'', PStr specialist)])
            (PDict delegation)) (\<lambda>_.
     bnd (lift_res (counted_len contract ''logicnode_requirements'')) (\<lambda>requirements.
     bnd (lift_res (counted_len contract ''acceptance_criteria'')) (\<lambda>criteria.
     bnd (record_event env mission (PStr CEO_AGENT_ID) ''MISSION_CONTRACT_GENERATED'' ''mission_contract''
            ''mission_contract'' (Some ''llm_delegation'')
            (pick contract [''source'', ''output_format'']
              @ [(''requirement_count'', requirements), (''acceptance_criteria_count'', criteria)]) (PDict contract)) (\<lambda>_.
     record_event env mission (PStr CEO_AGENT_ID) ''LOGIC_CLUSTERS_DECOMPOSED'' ''logic_clusters'' ''logic_clusters''
       (Some ''llm_delegation'')
       [(''source'', dget clusters ''source''), (''cluster_count'', cluster_count clusters)] (PDict clusters)))))"

definition routed_to :: "string \<Rightarrow> string \<Rightarrow> pydict \<Rightarrow> pydict" where
  "routed_to manager specialist delegation =
     dset ''specialist_agent_id'' (PStr specialist) (dset ''pod_manager_agent_id'' (PStr manager) delegation)"

definition ceo_context :: "MissionRecord \<Rightarrow> pydict \<Rightarrow> pydict" where
  "ceo_context mission md = mission_context mission md @ pick md [''feature_contract'', ''mission_charter'']"

definition contract_request :: "MissionRecord \<Rightarrow> pydict \<Rightarrow> pydict \<Rightarrow> pydict \<Rightarrow> pydict" where
  "contract_request mission context delegation md =
     [(''mission_context'', PDict context), (''prompt'', PStr (m_prompt mission)),
      (''mission_type'', PStr (py_str (py_or (dget md ''mission_type'') (PStr ''BUILD_NEW'')))),
      (''output_mode'', PStr (py_str (py_or (dget md ''output_mode'') (PStr ''FULL_BUILD'')))),
      (''requested_target_language'', py_opt (m_requested_target_language mission)),
      (''ceo_delegation'', PDict delegation)]"

definition port_two_phase :: "stage_env \<Rightarrow> bool" where
  "port_two_phase env = setting_bool (e_settings (sv_life env)) ''port_two_phase_enabled'' False"

definition prepare_ceo_delegation :: "stage_env \<Rightarrow> string \<Rightarrow> bool sprog" where
  "prepare_ceo_delegation env mid =
     with_mission mid False (\<lambda>mission.
       let md = chain_defaults_of mission; language = m_requested_target_language mission;
           context = ceo_context mission md in
       bnd (ask env ''generate_ceo_delegation''
              [(''mission_context'', PDict context), (''requested_target_language'', py_opt language)]) (\<lambda>delegation.
       let manager = validate_agent_id (dget delegation ''pod_manager_agent_id'') (resolve_pod_manager_agent_id language);
           specialist = validate_agent_id (dget delegation ''specialist_agent_id'') (resolve_specialist_agent_id language);
           delegation = routed_to manager specialist delegation;
           md = dset ''agent_id'' (PStr manager) (dset ''selected_agent_id'' (PStr manager)
                  (dset ''ceo_delegation'' (PDict delegation) md)) in
       bnd (ask env ''generate_mission_contract'' (contract_request mission context delegation md)) (\<lambda>contract.
       let md = dset ''mission_contract'' (PDict contract) md in
       bnd (ask env ''generate_logic_clusters''
              [(''mission_context'', PDict (context @ [(''mission_contract'', PDict contract)])),
               (''mission_contract'', PDict contract), (''requested_target_language'', py_opt language),
               (''ceo_delegation'', PDict delegation)]) (\<lambda>clusters.
       bnd (lift_res (ceo_metadata env manager specialist delegation contract clusters
              (dset ''logic_clusters'' (PDict clusters) md))) (\<lambda>md.
       bnd (ceo_events env mission manager specialist delegation contract clusters) (\<lambda>_.
       persisted env mid
         (if mode_text md ''mission_type'' ''BUILD_NEW'' = ''PORT'' \<and> port_two_phase env
          then setup_port_two_phase md (m_prompt mission) language (dget clusters ''clusters'') else md) None))))))"

section \<open>What the first stages leave alone\<close>

lemma stage_quiet_reads [keeps_intros]:
  "keeps (stage_quiet mid) (intake_context env mid' md)" "keeps (stage_quiet mid) (is_stocked env mid')"
  "keeps (stage_quiet mid) (\<lambda>w. (f w, w))"
  by (rule stage_same_world; simp add: intake_context_def is_stocked_def rows_of_def Let_def case_prod_beta)+

lemma stage_quiet_broadcast [keeps_intros]: "keeps (stage_quiet mid) (broadcast_knowledge_ready env languages mid')"
proof -
  have "keeps (stage_quiet mid) (\<lambda>w. send_sigma_knowledge env s r p t u d (cid w) w)" for s r p t u d cid
    using stage_quiet_sends(4) by (auto simp: keeps_def)
  then show ?thesis unfolding broadcast_knowledge_ready_def by (intro keeps_intros)
qed

lemma prepare_fetch_phase_quiet: "keeps (stage_quiet mid) (prepare_fetch_phase env mid)"
  unfolding prepare_fetch_phase_def Let_def by (intro keeps_intros)

lemma prepare_ceo_delegation_quiet: "keeps (stage_quiet mid) (prepare_ceo_delegation env mid)"
  unfolding prepare_ceo_delegation_def ceo_events_def Let_def by (intro keeps_intros)

lemma stage_quiet_contract [keeps_intros]: "keeps (stage_quiet mid) (first_contract env r sow_id md)"
  unfolding first_contract_def by (intro keeps_intros)

lemma stage_quiet_defaults [keeps_intros]: "keeps (stage_quiet mid) (accept_defaults env r sow_id md contract)"
proof -
  have "keeps (stage_quiet mid) (case v of PList (q # qs) \<Rightarrow> f q qs | _ \<Rightarrow> ret x)"
    if "\<And>q qs. keeps (stage_quiet mid) (f q qs)" for v f x
    using that by (auto split: pyval.split list.split intro: stage_quiet.keeps_ret)
  note cases = this
  show ?thesis unfolding accept_defaults_def Let_def by (intro keeps_intros cases)
qed

lemma stage_quiet_finish [keeps_intros]:
  "keeps (stage_quiet mid) (finish_intake env r mid md contract)"
  unfolding finish_intake_def add_aim_def Let_def by (intro keeps_intros)

text \<open>PM intake may also park its mission; then it does not report success.\<close>

definition parked :: "string \<Rightarrow> world \<Rightarrow> world \<Rightarrow> bool" where
  "parked mid w w' \<longleftrightarrow>
     db_state (w_db w) mid = Some (state_value Queued)
     \<and> db_state (w_db w') = (db_state (w_db w))(mid \<mapsto> state_value Clarifying)
     \<and> (\<exists>es. events (w_db w') = events (w_db w) @ es \<and> (\<forall>e \<in> set es. erow_mission_id e = mid
          \<and> (erow_previous e = Some (erow_new e)
             \<or> erow_previous e = Some (state_value Queued) \<and> erow_new e = state_value Clarifying)))"

definition stage_clarify :: "string \<Rightarrow> bool sprog \<Rightarrow> bool" where
  "stage_clarify mid m \<longleftrightarrow> (\<forall>w r w'. m w = (r, w') \<longrightarrow>
     quiet mid (sg_world w) (sg_world w') \<or> r \<noteq> Inr True \<and> parked mid (sg_world w) (sg_world w'))"

lemma clarify_only_parked:
  "clarify_only mid m \<longleftrightarrow> (\<forall>w r w'. m w = (r, w') \<longrightarrow> quiet mid w w' \<or> r \<noteq> Inr True \<and> parked mid w w')"
  unfolding clarify_only_def parked_def by (rule refl)

lemma quiet_parked: "quiet mid u v \<Longrightarrow> parked mid v w \<Longrightarrow> parked mid u w"
  unfolding quiet_def parked_def by (fastforce simp: Ball_def)

named_theorems clarify_intros \<open>composition rules of stage_clarify\<close>

lemma clarify_keeps: "keeps (stage_quiet mid) m \<Longrightarrow> stage_clarify mid m"
  unfolding stage_clarify_def stage_quiet_def keeps_def by (metis snd_conv)

lemma clarify_bnd [clarify_intros]:
  assumes m: "keeps (stage_quiet mid) m" and f: "\<And>x. stage_clarify mid (f x)"
  shows "stage_clarify mid (bnd m f)"
  unfolding stage_clarify_def
proof (intro allI impI)
  fix w r w'
  assume run: "bnd m f w = (r, w')"
  obtain x v where mv: "m w = (x, v)" by fastforce
  have q: "quiet mid (sg_world w) (sg_world v)" using keeps_result [OF m mv] by (simp add: stage_quiet_def)
  show "quiet mid (sg_world w) (sg_world w') \<or> r \<noteq> Inr True \<and> parked mid (sg_world w) (sg_world w')"
  proof (cases x)
    case (Inl e)
    with run mv q show ?thesis by (simp add: bnd_def)
  next
    case (Inr y)
    with run mv have "f y v = (r, w')" by (simp add: bnd_def)
    with f [of y] show ?thesis
      unfolding stage_clarify_def by (metis q quiet.R_trans quiet_parked)
  qed
qed

lemma clarify_cases [clarify_intros]:
  "(b \<Longrightarrow> stage_clarify mid m) \<Longrightarrow> (\<not> b \<Longrightarrow> stage_clarify mid n) \<Longrightarrow> stage_clarify mid (if b then m else n)"
  "(z = None \<Longrightarrow> stage_clarify mid m) \<Longrightarrow> (\<And>y. z = Some y \<Longrightarrow> stage_clarify mid (g y)) \<Longrightarrow>
     stage_clarify mid (case z of None \<Rightarrow> m | Some y \<Rightarrow> g y)"
  "(\<And>a c. p = (a, c) \<Longrightarrow> stage_clarify mid (h a c)) \<Longrightarrow> stage_clarify mid (case p of (a, c) \<Rightarrow> h a c)"
  by (auto split: option.split prod.split)

lemma clarify_on_life [clarify_intros]: "clarify_only mid m \<Longrightarrow> stage_clarify mid (on_life m)"
  unfolding clarify_only_parked stage_clarify_def on_life_def
  by (auto simp: Let_def split: prod.splits)

lemma gate_intake_clarify [clarify_intros]: "stage_clarify mid (gate_intake env mid r md)"
  unfolding gate_intake_def
  by (intro clarify_intros keeps_intros park_clarify_only clarify_keeps)

lemma prepare_pm_intake_clarify: "stage_clarify mid (prepare_pm_intake env mid)"
proof -
  have "keeps (stage_quiet mid) (on_life (fetch mid))" by (intro stage_on_life keeps_intros)
  moreover have "keeps (stage_quiet mid) (await_index env mid repo md)" for repo md
    unfolding await_index_def by (intro keeps_intros)
  ultimately show ?thesis
    unfolding prepare_pm_intake_def with_mission_def Let_def
    by (intro clarify_intros keeps_intros clarify_keeps)
qed

section \<open>The contract a mission goes on with\<close>

lemma contract_metadata_stores:
  assumes "contract_metadata env contract charter md = Inr md'"
  shows "dget md' ''feature_contract'' = PDict contract" and "dget md' ''mission_charter'' = PDict charter"
proof -
  let ?md = "dset ''risk_assessment'' (dget contract ''risk_assessment'')
    (dset ''mission_charter'' (PDict charter) (dset ''feature_contract'' (PDict contract) md))"
  obtain d1 d2 m1 m2 where
    1: "mark_with env ''MISSION_PM_INTAKE'' PM_AGENT_ID d1 ?md = Inr m1" and
    2: "mark_with env ''FEATURE_CONTRACT_CREATED'' PM_AGENT_ID d2 m1 = Inr m2" and
    3: "\<exists>ev d. md' = artifact env ''pm_intake'' ev PM_AGENT_ID d m2"
    using assms unfolding contract_metadata_def mark_def Let_def rbind_Inr_iff
    by (elim exE conjE) (rule that, assumption, assumption, simp only: sum.inject, blast)
  from 3 obtain ev d where "md' = artifact env ''pm_intake'' ev PM_AGENT_ID d m2" by blast
  then show "dget md' ''feature_contract'' = PDict contract" "dget md' ''mission_charter'' = PDict charter"
    by (simp_all add: dget_artifact dget_mark_with(1) [OF 2] dget_mark_with(1) [OF 1])
qed

lemma add_aim_keeps:
  assumes "add_aim env r mid contract md w = (Inr md', w')"
    and "k \<notin> {''application_intelligence_map'', ''chain_trace'', ''last_chain_event_type'', ''last_chain_event_at'', ''mission_artifacts''}"
  shows "dget md' k = dget md k"
proof -
  obtain aim d m1 where m1: "mark_with env ''MISSION_AIM_GENERATED'' CEO_AGENT_ID d
      (dset ''application_intelligence_map'' (PDict aim) md) = Inr m1"
    and "md' = artifact env ''aim'' ''MISSION_AIM_GENERATED'' CEO_AGENT_ID
      (pick aim [''aim_id'', ''schema_version'', ''source'', ''model_provider'', ''model'']) m1"
    using assms(1) unfolding add_aim_def Let_def run_simps by blast
  then show ?thesis using assms(2) by (simp add: dget_artifact dget_mark_with(1) [OF m1])
qed

lemma finish_intake_stores:
  assumes "finish_intake env r mid md contract w = (Inr True, w')"
  shows "dget (stored_md w' mid) ''feature_contract'' = PDict contract"
proof -
  obtain charter m1 m2 u v where m1: "contract_metadata env contract charter md = Inr m1"
    and m2: "(if mission_requires_aim (ir_mission_type r) \<and> is_str (dget m1 ''source_code'')
              then add_aim env r mid contract m1 else ret m1) u = (Inr m2, v)"
    and saved: "persisted env mid m2 None v = (Inr True, w')"
    using assms unfolding finish_intake_def run_simps
    by (elim exE conjE) (rule that, assumption, assumption, assumption)
  have "dget m2 ''feature_contract'' = dget m1 ''feature_contract''"
    using m2 add_aim_keeps [of env r mid contract m1 u m2 v "''feature_contract''"] by (simp split: if_splits)
  then show ?thesis
    using persisted_stores [OF saved] contract_metadata_stores(1) [OF m1] by (simp add: storage_keys_def)
qed

lemma break_circuit_clear:
  assumes "break_circuit env md contract = Inr (md', contract', n, False)"
  obtains score where "as_number (score_of contract') = Some score" and "score < AMBIGUITY_LIMIT"
proof -
  have limit: "(0 :: rat) < AMBIGUITY_LIMIT" by (simp add: AMBIGUITY_LIMIT_def)
  obtain high where high: "score_high (score_of contract) = Inr high"
    using assms by (auto simp: break_circuit_def rbind_def split: sum.splits)
  show thesis
  proof (cases high)
    case True
    then have "contract' = ready_contract (score_of contract) contract"
      using assms high by (auto simp: break_circuit_def rbind_def split: sum.splits if_splits)
    then have "as_number (score_of contract') = Some 0"
      by (simp add: ready_contract_def score_of_def as_number_def dget_or_def)
    then show thesis using limit by (rule that)
  next
    case False
    then have "contract' = contract"
      using assms high by (auto simp: break_circuit_def rbind_def split: sum.splits if_splits)
    with high False that show thesis
      by (auto simp: score_high_def split: option.splits)
  qed
qed

lemma intake_gate_cleared:
  assumes "gate_intake env mid r md u = (Inr True, w')"
  obtains md2 c2 md3 c3 n v where "break_circuit env md2 c2 = Inr (md3, c3, n, False)"
    and "finish_intake env r mid md3 c3 v = (Inr True, w')"
proof -
  obtain md2 c2 md3 c3 n held v where circuit: "break_circuit env md2 c2 = Inr (md3, c3, n, held)"
    and rest: "(if held then on_life (park_for_clarification (sv_life env) mid md3 c3 (score_of c3) n)
           else finish_intake env r mid md3 c3) v = (Inr True, w')"
    using assms unfolding gate_intake_def run_simps case_prod_beta by (metis prod.collapse)
  have "\<not> held"
  proof
    assume held
    with rest show False by (simp add: on_life_run park_never_true)
  qed
  with circuit rest show thesis by (intro that) simp_all
qed

lemma intake_gated:
  assumes "prepare_pm_intake env mid w = (Inr True, w')"
  obtains r md u where "gate_intake env mid r md u = (Inr True, w')"
proof -
  obtain mission where run: "(let md = dset ''agent_id'' (PStr PM_AGENT_ID) (dset ''selected_agent_id'' (PStr PM_AGENT_ID)
         (chain_defaults_of mission)) in
       case repo_import_of md of
         Some repo_import \<Rightarrow>
           if \<not> index_complete repo_import then await_index env mid repo_import md
           else bnd (intake_context env mid md) (\<lambda>context. gate_intake env mid (request_of mission md context) md)
       | None \<Rightarrow> bnd (intake_context env mid md) (\<lambda>context. gate_intake env mid (request_of mission md context) md)) w
     = (Inr True, w')"
    using assms unfolding prepare_pm_intake_def by (rule with_mission_run) simp_all
  have waits: "await_index env mid repo md w \<noteq> (Inr True, w')" for repo md
    by (auto simp: await_index_def run_simps split: if_splits)
  from run show thesis
    by (auto simp: Let_def waits bnd_run split: option.splits if_splits intro: that)
qed

lemma record_event_ok:
  assumes "a \<noteq> []" and "ev \<noteq> []" and "m_mission_id mission \<noteq> []"
  obtains w' where "record_event env mission (PStr a) ev ot oid tool summary content w = (Inr (), w')"
    and "sg_world w' = sg_world w"
proof -
  let ?run = "record_event env mission (PStr a) ev ot oid tool summary content w"
  have "fst ?run = Inr ()"
    using assms by (auto simp: record_event_def record_audit_event_def stage_event_def audit_event_of_def Let_def rbind_def
        split: prod.splits sum.splits if_splits)
  then show thesis using same_world_calls(5) by (intro that [of "snd ?run"]) (simp_all add: prod_eq_iff)
qed

lemma persisted_ok:
  assumes "row_of (w_db (sg_world w)) mid = Some row" and "row_state row = state_value s"
  obtains w' where "persisted env mid md emit w = (Inr True, w')"
proof -
  obtain m v where saved: "save_metadata (sv_life env) mid md (sg_world w) = (Inr (Some m), v)"
    by (rule save_ok [OF assms])
  then obtain row' where "row_of (w_db v) mid = Some row'" by (rule save_stores)
  then have "\<exists>u. checkpoint (sv_life env) mid st ev v = (Inr (), u)" for st ev
    by (simp add: checkpoint_def on_db_def insert_mission_event_def row_of_def dhas_def Let_def)
  then have "\<exists>u. persist_metadata (sv_life env) mid md emit (sg_world w) = (Inr (Some m), u)"
  proof (cases emit)
    case (Some a)
    obtain ev st where a: "a = (ev, st)" by fastforce
    obtain u1 where "checkpoint (sv_life env) mid st ev v = (Inr (), u1)"
      using \<open>\<And>st ev. \<exists>u. checkpoint (sv_life env) mid st ev v = (Inr (), u)\<close> by blast
    moreover obtain u2 where "emit_quietly (sv_life env) m ev u1 = (Inr (), u2)"
      using emit_quietly_ok by blast
    ultimately show ?thesis using saved Some a by (simp add: persist_metadata_def bnd_def)
  qed (use saved in \<open>simp add: persist_metadata_def bnd_def\<close>)
  then show thesis
    by (elim exE) (rule that, simp add: persisted_def on_life_def bnd_def)
qed

lemma contract_metadata_ok:
  assumes "dget md ''chain_trace'' = PList tr" and "contract_details contract = Inr d"
  obtains md' where "contract_metadata env contract charter md = Inr md'"
proof -
  let ?md = "dset ''risk_assessment'' (dget contract ''risk_assessment'')
    (dset ''mission_charter'' (PDict charter) (dset ''feature_contract'' (PDict contract) md))"
  have "dget ?md ''chain_trace'' = PList tr" using assms(1) by simp
  then obtain m1 tr1 where 1: "mark env ''MISSION_PM_INTAKE'' PM_AGENT_ID
      [(''source'', dget_or ?md ''source'' (PStr ''mission-flow-v2'')), (''feature_contract_source'', dget contract ''source''),
       (''title'', dget contract ''title'')] ?md = Inr m1" "dget m1 ''chain_trace'' = PList tr1"
    by (rule mark_total)
  obtain m2 where "mark env ''FEATURE_CONTRACT_CREATED'' PM_AGENT_ID d m1 = Inr m2"
    by (rule mark_total [OF 1(2)])
  with 1 show thesis
    by (intro that) (simp add: contract_metadata_def Let_def mark_def assms(2))
qed

lemma finish_intake_ok:
  assumes "row_of (w_db (sg_world w)) mid = Some row" and "row_state row = state_value s"
    and "build_mission_charter (sv_schema env) (sv_uuid env (sg_calls w) 0) (stamp env) mid (m_prompt (ir_mission r))
      (m_requested_target_language (ir_mission r)) contract (ir_mission_type r) (ir_depth_mode r) (ir_output_mode r) = Inr charter"
    and "dget md ''chain_trace'' = PList tr" and "contract_details contract = Inr d"
    and "m_mission_id (ir_mission r) \<noteq> []" and "\<not> mission_requires_aim (ir_mission_type r)"
  obtains w' where "finish_intake env r mid md contract w = (Inr True, w')"
proof -
  obtain md' where md': "contract_metadata env contract charter md = Inr md'"
    using assms(4,5) by (rule contract_metadata_ok)
  obtain n where n: "counted_len contract ''functional_requirements'' = Inr n"
    using assms(5) by (auto simp: contract_details_def rbind_Inr_iff)
  obtain v where v: "record_event env (ir_mission r) (PStr PM_AGENT_ID) ''FEATURE_CONTRACT_CREATED'' ''feature_contract''
            ''feature_contract'' (Some ''llm_delegation'')
            [(''source'', dget contract ''source''), (''title'', dget contract ''title''),
             (''requirement_count'', n),
             (''human_approval_required'', dget contract ''human_approval_required'')] (PDict contract) w = (Inr (), v)"
    "sg_world v = sg_world w"
    by (rule record_event_ok [of PM_AGENT_ID "''FEATURE_CONTRACT_CREATED''" "ir_mission r"])
      (use assms(6) in \<open>simp_all add: PM_AGENT_ID_def\<close>)
  obtain w' where "persisted env mid md' None v = (Inr True, w')"
    by (rule persisted_ok [of v mid row s]) (use assms(1,2) v(2) in simp_all)
  with assms(3,7) md' n v(1) show thesis
    by (intro that [of w']) (simp add: finish_intake_def bnd_Inr [where m = "\<lambda>w. (build_mission_charter _ _ _ _ _ _ _ _ _ _, w)"] bnd_Inr)
qed

lemma intake_clear:
  assumes "prepare_pm_intake env mid w = (Inr True, w')"
  shows "\<exists>contract score. dget (stored_md w' mid) ''feature_contract'' = PDict contract
    \<and> as_number (score_of contract) = Some score \<and> score < AMBIGUITY_LIMIT"
proof -
  obtain r md u where gate: "gate_intake env mid r md u = (Inr True, w')"
    using assms by (rule intake_gated)
  then obtain md2 c2 md3 c3 n v where clear: "break_circuit env md2 c2 = Inr (md3, c3, n, False)"
    and fin: "finish_intake env r mid md3 c3 v = (Inr True, w')"
    by (rule intake_gate_cleared)
  from clear obtain score where "as_number (score_of c3) = Some score" "score < AMBIGUITY_LIMIT"
    by (rule break_circuit_clear)
  with finish_intake_stores [OF fin] show ?thesis by blast
qed

text \<open>A mission leaves PM intake only with a feature contract on its row whose ambiguity score is below the limit,
  whatever the generators answered; a mission whose contract stays above it is held.\<close>

lemma sample_intake_runs:
  obtains w' where "prepare_pm_intake (sample_stage_env [(''title'', PStr ''t'')]) ''m1''
    (sample_stage_world ''QUEUED'' None []) = (Inr True, w')"
proof -
  let ?c = "[(''title'', PStr ''t'')]"
  let ?e = "sample_stage_env ?c" and ?w = "sample_stage_world ''QUEUED'' None []"
  let ?row = "sample_row\<lparr>row_state := ''QUEUED'', row_language := None, row_metadata := []\<rparr>"
  have row: "row_of (w_db (sg_world ?w)) ''m1'' = Some ?row"
    by (simp add: sample_stage_world_def sample_world_def row_of_def)
  obtain m where m: "fetch_mission (w_db (sg_world ?w)) ''m1'' = Inr (Some m)" "m_metadata m = []" "m_mission_id m = ''m1''"
    "m_requested_target_language m = None" "m_prompt m = ''p''"
  proof -
    have "MissionState_of ''QUEUED'' = Inr Queued" by code_simp
    then show thesis
      using row that by (simp add: row_of_def fetch_mission_def row_to_mission_def sample_row_def Let_def)
  qed
  let ?md = "dset ''agent_id'' (PStr PM_AGENT_ID) (dset ''selected_agent_id'' (PStr PM_AGENT_ID) (chain_defaults_of m))"
  have unset: "dget (chain_defaults_of m) k = PNone" if "k \<notin> {''routing_version'', ''routing_enforced'', ''intake_agent_id'',
    ''executive_agent_id'', ''expected_pod_manager_agent_id'', ''expected_specialist_agent_id'',
    ''selected_agent_id'', ''agent_id'', ''chain_trace''}" for k
    using that by (simp add: chain_defaults_of_def m dget_def with_chain_defaults_frame)
  let ?r = "request_of m ?md []"
  have gate: "gate_intake ?e ''m1'' ?r ?md ?w = finish_intake ?e ?r ''m1'' ?md ?c (?w\<lparr>sg_calls := 1\<rparr>)"
  proof -
    have low: "score_high (score_of ?c) = Inr False" "questions_of ?c = PList []" by code_simp+
    have env: "sv_call ?e n f a = Inr ?c" "sg_calls ?w = 0" for n f a
      by (simp_all add: sample_stage_env_def sample_stage_world_def)
    have "first_contract ?e ?r [] ?md ?w = (Inr (?md, ?c), ?w\<lparr>sg_calls := 1\<rparr>)"
      by (simp add: first_contract_def sow_contract_def load_approved_sow_def bnd_def ask_def env)
    moreover have "accept_defaults ?e ?r [] ?md ?c v = (Inr (?md, ?c), v)" for v
      by (simp add: accept_defaults_def low Let_def)
    moreover have "break_circuit ?e ?md ?c = Inr (?md, ?c, 0, False)"
      by (simp add: break_circuit_def low unset py_or_def)
    moreover have "sow_id_of ?md = []" by (simp add: sow_id_of_def unset)
    ultimately show ?thesis
      by (simp add: gate_intake_def bnd_def)
  qed
  have modes: "mode_text ?md ''mission_type'' ''BUILD_NEW'' = ''BUILD_NEW''"
    "mode_text ?md ''depth_mode'' ''STANDARD'' = ''STANDARD''" "mode_text ?md ''output_mode'' ''FULL_BUILD'' = ''FULL_BUILD''"
    by (simp_all add: mode_text_def unset py_or_def) code_simp+
  have "isl (build_mission_charter MISSION_CHARTER_SCHEMA ''u'' ''t9'' ''m1'' ''p'' None ?c ''BUILD_NEW'' ''STANDARD'' ''FULL_BUILD'') = False"
    by code_simp
  then obtain charter where charter: "build_mission_charter MISSION_CHARTER_SCHEMA ''u'' ''t9'' ''m1'' ''p'' None ?c
      ''BUILD_NEW'' ''STANDARD'' ''FULL_BUILD'' = Inr charter"
    by (metis sum.collapse(2))
  obtain tr where "dget ?md ''chain_trace'' = PList tr"
    by (simp add: chain_defaults_of_def dget_with_chain_defaults)
  moreover have "\<exists>d. contract_details ?c = Inr d" by (simp add: contract_details_def counted_len_def dget_or_def)
  moreover have "sv_schema ?e = MISSION_CHARTER_SCHEMA" "sv_uuid ?e 1 0 = ''u''" "stamp ?e = ''t9''"
    by (simp_all add: sample_stage_env_def stamp_def sample_env_def)
  moreover have "\<not> mission_requires_aim ''BUILD_NEW''" by code_simp
  ultimately obtain w' where fin: "finish_intake ?e ?r ''m1'' ?md ?c (?w\<lparr>sg_calls := 1\<rparr>) = (Inr True, w')"
    using finish_intake_ok [of "?w\<lparr>sg_calls := 1\<rparr>" "''m1''" ?row Queued ?e ?r ?c charter ?md] row charter
    by (auto simp: request_of_def modes m)
  have "repo_import_of ?md = None" by (simp add: repo_import_of_def unset)
  moreover have "intake_context ?e ''m1'' ?md = ret []"
    by (simp add: intake_context_def unset repo_import_of_def)
  ultimately have "prepare_pm_intake ?e ''m1'' ?w = (Inr True, w')"
    using m(1) gate fin
    by (simp add: prepare_pm_intake_def with_mission_def on_life_def bnd_def fetch_def Let_def sample_stage_world_def)
  then show thesis by (rule that)
qed

end
