(* ===== verification/Stage_Build.thy ===== *)
theory Stage_Build
  imports Stage_Intake
begin

text \<open>
  The build stages, \<open>mission_flow_v2/phases_build.py\<close>: the pod manager's assignment with its correction of the
  CEO's routing, the specialist's assignment and plan with the code generation, the two passes of a PORT mission and
  the scaling decision, and the pod's group standard with its audit verdict. The generators are calls of the
  environment (\<open>sv_call\<close>); a failed generator ends the stage unless the code catches it.
\<close>

section \<open>Pod assignment\<close>

definition language_pod_manager :: "string option \<Rightarrow> string option" where
  "language_pod_manager requested_target_language =
     map_of POD_MANAGER_BY_LANGUAGE (normalize_language requested_target_language)"

definition correction :: "stage_env \<Rightarrow> MissionRecord \<Rightarrow> string \<Rightarrow> string \<Rightarrow> pydict" where
  "correction env mission delegated owner =
     [(''delegated_pod_manager_agent_id'', PStr delegated), (''corrected_pod_manager_agent_id'', PStr owner),
      (''requested_target_language'', PStr (str_of (py_or (py_opt (m_requested_target_language mission)) (PStr [])))),
      (''reason'', PStr ''delegated-pod-manager-does-not-own-target-language''), (''corrected_at'', PStr (stamp env))]"

text \<open>The manager the mission goes to, and the correction when it is not the delegated one.\<close>

definition routed_manager :: "stage_env \<Rightarrow> MissionRecord \<Rightarrow> pydict \<Rightarrow> string \<times> pydict option" where
  "routed_manager env mission delegation =
     (let delegated = validate_agent_id (dget delegation ''pod_manager_agent_id'')
                        (resolve_pod_manager_agent_id (m_requested_target_language mission))
      in case language_pod_manager (m_requested_target_language mission) of
           Some owner \<Rightarrow> if owner \<noteq> delegated then (owner, Some (correction env mission delegated owner))
                         else (delegated, None)
         | None \<Rightarrow> (delegated, None))"

definition on_pods :: "(pod_store \<Rightarrow> 'a res \<times> pod_store) \<Rightarrow> 'a sprog" where
  "on_pods f = (\<lambda>w. let (r, pods) = f (pods_now w) in (r, w\<lparr>sg_pods := pods, sg_calls := Suc (sg_calls w)\<rparr>))"

definition record_assignment :: "stage_env \<Rightarrow> MissionRecord \<Rightarrow> string \<Rightarrow> string \<Rightarrow> string \<Rightarrow> pydict option sprog" where
  "record_assignment env mission mid manager specialist = (\<lambda>w.
     on_pods (persist_pod_assignment_record (sv_pod env (sg_calls w)) mission mid manager specialist) w)"

definition assignment_details :: "string \<Rightarrow> string \<Rightarrow> pydict \<Rightarrow> bool \<Rightarrow> pydict option \<Rightarrow> pydict" where
  "assignment_details manager specialist delegation recorded routing_correction =
     (''specialist_agent_id'', PStr specialist) # routed_details delegation
     @ [(''pod_name'', PStr (pod_key_for_manager manager)), (''pod_assignment_recorded'', PBool recorded)]
     @ (case routing_correction of Some c \<Rightarrow> [(''routing_correction'', PDict c)] | None \<Rightarrow> [])"

definition send_alpha_delegation_directive :: "stage_env \<Rightarrow> MissionRecord \<Rightarrow> string \<Rightarrow> string \<Rightarrow> string \<Rightarrow> unit sprog" where
  "send_alpha_delegation_directive env mission mid manager specialist =
     send_alpha_directive env CEO_AGENT_ID manager (pod_key_for_manager manager) ''pod_manager_delegation''
       [(''mission_id'', PStr mid), (''pod_manager_agent_id'', PStr manager), (''specialist_agent_id'', PStr specialist),
        (''requested_target_language'', py_opt (m_requested_target_language mission))]
       (''alpha-'' @ mid @ ''-'' @ manager)"

definition pod_context :: "MissionRecord \<Rightarrow> pydict \<Rightarrow> pydict \<Rightarrow> pydict" where
  "pod_context mission delegation md =
     mission_context mission md
     @ [(''mission_type'', dget md ''mission_type''), (''sow_approved'', PBool (truthy (dget md ''sow_approved''))),
        (''feature_contract'', dget md ''feature_contract''), (''ceo_delegation'', PDict delegation),
        (''logic_clusters'', dget md ''logic_clusters'')]"

definition assigned_to :: "string \<Rightarrow> string \<Rightarrow> pydict \<Rightarrow> pydict \<Rightarrow> pydict" where
  "assigned_to manager specialist delegation md =
     dset ''agent_id'' (PStr manager) (dset ''selected_agent_id'' (PStr manager)
       (dset ''assigned_specialist_agent_id'' (PStr specialist) (dset ''assigned_pod_manager_agent_id'' (PStr manager)
         (dset ''pod_manager_delegation'' (PDict delegation) md))))"

definition corrected :: "pydict option \<Rightarrow> pydict \<Rightarrow> pydict" where
  "corrected routing_correction md =
     (case routing_correction of Some c \<Rightarrow> dset ''pod_manager_routing_correction'' (PDict c) md | None \<Rightarrow> md)"

definition assign_pod ::
  "stage_env \<Rightarrow> string \<Rightarrow> MissionRecord \<Rightarrow> string \<Rightarrow> string \<Rightarrow> pydict option \<Rightarrow> pydict \<Rightarrow> pydict \<Rightarrow> bool sprog" where
  "assign_pod env mid mission manager specialist routing_correction delegation md =
     bnd (record_assignment env mission mid manager specialist) (\<lambda>recorded.
     let details = assignment_details manager specialist delegation (recorded \<noteq> None) routing_correction in
     bnd (lift_res (mark env ''MISSION_POD_MANAGER_ASSIGNED'' manager details
            (assigned_to manager specialist delegation md))) (\<lambda>md.
     let md = artifact env ''pod_assigned'' ''MISSION_POD_MANAGER_ASSIGNED'' manager details md in
     bnd (record_event env mission (PStr manager) ''AGENT_DELEGATION_PLANNED'' ''delegation'' ''pod_manager''
            (Some ''llm_delegation'')
            (routed_details delegation
              @ [(''pod_manager_agent_id'', PStr manager), (''specialist_agent_id'', PStr specialist)])
            (PDict delegation)) (\<lambda>_.
     bnd (send_alpha_delegation_directive env mission mid manager specialist) (\<lambda>_.
     persisted env mid md None))))"

definition prepare_pod_assignment :: "stage_env \<Rightarrow> string \<Rightarrow> bool sprog" where
  "prepare_pod_assignment env mid =
     with_mission mid False (\<lambda>mission.
       let md = chain_defaults_of mission; ceo = dict_or_empty (dget md ''ceo_delegation'');
           (manager, routing_correction) = routed_manager env mission ceo;
           md = corrected routing_correction md;
           default_specialist = validate_agent_id (dget ceo ''specialist_agent_id'')
             (resolve_specialist_agent_id (m_requested_target_language mission)) in
       bnd (ask env ''generate_pod_manager_delegation''
              [(''mission_context'', PDict (pod_context mission ceo md)),
               (''requested_target_language'', py_opt (m_requested_target_language mission)),
               (''pod_manager_agent_id'', PStr manager), (''default_specialist_agent_id'', PStr default_specialist)])
         (\<lambda>delegation.
       let specialist = validate_agent_id (dget delegation ''specialist_agent_id'') default_specialist in
       assign_pod env mid mission manager specialist routing_correction
         (routed_to manager specialist delegation) md))"

section \<open>Specialist assignment\<close>

definition stored_manager :: "MissionRecord \<Rightarrow> pydict \<Rightarrow> string" where
  "stored_manager mission md = validate_agent_id (dget md ''assigned_pod_manager_agent_id'')
     (resolve_pod_manager_agent_id (m_requested_target_language mission))"

definition stored_specialist :: "string option \<Rightarrow> pydict \<Rightarrow> string" where
  "stored_specialist language md =
     validate_agent_id (dget md ''assigned_specialist_agent_id'') (resolve_specialist_agent_id language)"

definition select_agent :: "string \<Rightarrow> pydict \<Rightarrow> pydict" where
  "select_agent agent md = dset ''agent_id'' (PStr agent) (dset ''selected_agent_id'' (PStr agent) md)"

definition prepare_specialist_assignment :: "stage_env \<Rightarrow> string \<Rightarrow> bool sprog" where
  "prepare_specialist_assignment env mid =
     with_mission mid False (\<lambda>mission.
       let md = chain_defaults_of mission; manager = stored_manager mission md;
           specialist = stored_specialist (m_requested_target_language mission) md;
           details = [(''pod_manager_agent_id'', PStr manager)];
           md = select_agent specialist (dset ''assigned_specialist_agent_id'' (PStr specialist)
                  (dset ''assigned_pod_manager_agent_id'' (PStr manager) md)) in
       bnd (lift_res (mark env ''MISSION_SPECIALIST_ASSIGNED'' specialist details md)) (\<lambda>md.
       persisted env mid
         (artifact env ''specialist_assigned'' ''MISSION_SPECIALIST_ASSIGNED'' specialist details md) None))"

section \<open>The extraction pass of a PORT mission\<close>

definition in_port_phase :: "stage_env \<Rightarrow> string \<Rightarrow> pydict \<Rightarrow> bool" where
  "in_port_phase env phase md \<longleftrightarrow>
     mode_text md ''mission_type'' [] = ''PORT'' \<and> port_two_phase env
     \<and> py_lower (py_strip (py_str (py_or (dget md ''port_phase'') (PStr [])))) = phase"

definition extraction_due :: "stage_env \<Rightarrow> pydict \<Rightarrow> bool res" where
  "extraction_due env md =
     (if in_port_phase env ''extraction'' md
      then rbind (chain_event_exists md ''MISSION_PORT_EXTRACTION_COMPLETE'') (\<lambda>found. Inr (\<not> found)) else Inr False)"

text \<open>A call whose failure is caught.\<close>

definition try_ask :: "stage_env \<Rightarrow> string \<Rightarrow> pydict \<Rightarrow> pydict option sprog" where
  "try_ask env name args = (\<lambda>w. let (r, w) = ask env name args w
     in (Inr (case r of Inl _ \<Rightarrow> None | Inr d \<Rightarrow> Some d), w))"

definition port_source :: "pydict \<Rightarrow> string" where
  "port_source md = py_str (py_or (dget md ''port_source_language'') (PStr ''python''))"

definition port_aim_args :: "string \<Rightarrow> MissionRecord \<Rightarrow> pydict \<Rightarrow> pydict" where
  "port_aim_args mid mission md =
     [(''mission_id'', PStr mid), (''source_code'', dget md ''source_code''), (''prompt'', PStr (m_prompt mission)),
      (''mission_type'', PStr ''PORT''), (''requested_target_language'', PStr (port_source md)),
      (''feature_contract'', py_or (dget md ''feature_contract'') (PDict []))]"

definition port_plan_args :: "string \<Rightarrow> MissionRecord \<Rightarrow> pydict \<Rightarrow> pydict" where
  "port_plan_args mid mission md =
     [(''mission_context'', PDict
         [(''mission_id'', PStr mid), (''prompt'', PStr (m_prompt mission)),
          (''requested_target_language'', PStr (port_source md)), (''mission_type'', PStr ''PORT''),
          (''source'', PStr ''port_extraction''), (''port_source_language'', PStr (port_source md))]),
      (''requested_target_language'', PStr (port_source md)),
      (''specialist_agent_id'', PStr (py_str (py_or (dget md ''port_source_specialist_agent_id'')
         (PStr (table_or PORT_SPECIALIST_BY_LANGUAGE (port_source md) ''AGENT-14-PYTHON''))))),
      (''pod_manager_agent_id'', PStr (py_str (py_or (dget md ''port_source_pod_manager_agent_id'')
         (PStr (table_or PORT_POD_MANAGER_BY_LANGUAGE (port_source md) ''AGENT-12-PODA-MGR'')))))]"

text \<open>The fields returned are merged into the document, which is written without an event.\<close>

definition merge_into :: "pydict \<Rightarrow> pydict \<Rightarrow> pydict" where
  "merge_into updates md = fold (\<lambda>(k, v). dset k v) updates md"

definition port_extraction :: "stage_env \<Rightarrow> string \<Rightarrow> MissionRecord \<Rightarrow> pydict \<Rightarrow> bool sprog" where
  "port_extraction env mid mission md =
     (let code = dget md ''source_code'' in
      bnd (if is_str code \<and> py_strip (str_of code) \<noteq> []
           then try_ask env ''generate_aim'' (port_aim_args mid mission md) else ret None) (\<lambda>aim.
      bnd (try_ask env ''generate_specialist_plan'' (port_plan_args mid mission md)) (\<lambda>plan.
      bnd (lift_res (run_port_extraction_phase aim plan md (stamp env))) (\<lambda>(md, updates).
      bnd (save env mid (merge_into updates md)) (\<lambda>updated. ret (updated \<noteq> None))))))"

section \<open>Code generation\<close>

definition port_nodes :: "stage_env \<Rightarrow> pydict \<Rightarrow> pyval" where
  "port_nodes env md =
     (if in_port_phase env ''generation'' md then py_or (dget md ''port_source_logicnodes'') (PList []) else PNone)"

definition planning_specialist :: "stage_env \<Rightarrow> MissionRecord \<Rightarrow> pydict \<Rightarrow> string" where
  "planning_specialist env mission md =
     (if in_port_phase env ''generation'' md
      then stored_specialist (case py_or (dget md ''port_target_language'') (py_opt (m_requested_target_language mission)) of
             PStr l \<Rightarrow> Some l | _ \<Rightarrow> None) md
      else stored_specialist (m_requested_target_language mission) md)"

definition needs_code :: "pydict \<Rightarrow> bool" where
  "needs_code md \<longleftrightarrow>
     is_dict (dget md ''mission_contract'') \<and> mode_text md ''output_mode'' ''FULL_BUILD'' \<noteq> ''ANALYZE_ONLY''
     \<and> \<not> is_dict (dget md ''generated_output'')"

definition imported_source :: "pydict \<Rightarrow> pydict" where
  "imported_source md =
     (case dget md ''source_code'' of
        PStr s \<Rightarrow> if py_strip s = [] then [] else [(''imported_source_code'', PStr (take 80000 s))]
      | _ \<Rightarrow> [])"

definition aim_summary :: "pydict \<Rightarrow> pydict" where
  "aim_summary md =
     (case dget md ''application_intelligence_map'' of
        PDict aim \<Rightarrow> if aim = [] then []
          else [(''application_intelligence_map'',
                 PDict (pick aim (filter (dhas aim) [''languages'', ''entrypoints'', ''file_count'', ''summary''])))]
      | _ \<Rightarrow> [])"

definition codegen_context :: "MissionRecord \<Rightarrow> pydict \<Rightarrow> pyval \<Rightarrow> pydict \<Rightarrow> pydict" where
  "codegen_context mission plan nodes md =
     mission_context mission md
     @ [(''feature_contract'', dget md ''feature_contract''), (''mission_contract'', dget md ''mission_contract''),
        (''specialist_plan'', PDict plan)]
     @ (if truthy nodes
        then [(''port_source_logicnodes'', nodes),
              (''port_source_language'', dget_or md ''port_source_language'' (PStr [])),
              (''port_target_language'', dget_or md ''port_target_language'' (PStr []))] else [])
     @ imported_source md @ aim_summary md"

definition codegen_language :: "MissionRecord \<Rightarrow> pydict \<Rightarrow> string" where
  "codegen_language mission md =
     (let target = py_strip (str_or_empty (dget md ''port_target_language''))
      in if target \<noteq> [] then target
         else case m_requested_target_language mission of None \<Rightarrow> ''python'' | Some l \<Rightarrow> if l = [] then ''python'' else l)"

text \<open>\<open>getattr(mission, "title", "")\<close>: a mission record has no title, so the query is always empty.\<close>

definition knowledge_for :: "stage_env \<Rightarrow> string \<Rightarrow> pyval sprog" where
  "knowledge_for env language =
     ask_value env ''get_language_context'' [(''language'', PStr language), (''query'', PStr [])]"

definition generate_code :: "stage_env \<Rightarrow> MissionRecord \<Rightarrow> string \<Rightarrow> pydict \<Rightarrow> pyval \<Rightarrow> pydict \<Rightarrow> pydict sprog" where
  "generate_code env mission specialist plan nodes md =
     (let language = codegen_language mission md in
      bnd (knowledge_for env language) (\<lambda>knowledge.
      bnd (lift_res (if truthy nodes then py_tuple nodes else Inr [])) (\<lambda>logicnodes.
        ask env ''generate_code_from_contract''
          [(''mission_context'', PDict (codegen_context mission plan nodes md
              @ (if truthy knowledge then [(''knowledge_context'', knowledge)] else []))),
           (''specialist_agent_id'', PStr specialist), (''mission_contract'', dget md ''mission_contract''),
           (''logicnodes'', PList logicnodes), (''target_language'', PStr language)])))"

definition output_details :: "pydict \<Rightarrow> pydict" where
  "output_details output =
     pick output [''source'', ''filename'', ''language'']
     @ [(''code_length_chars'', dget_or output ''code_length_chars'' (PInt 0))]"

definition restate_or_append :: "stage_env \<Rightarrow> string \<Rightarrow> string \<Rightarrow> pydict \<Rightarrow> pydict \<Rightarrow> pydict" where
  "restate_or_append env event_type agent details md =
     (case restate_chain_event md event_type agent details (stamp env) of
        (True, md) \<Rightarrow> md
      | (False, md) \<Rightarrow> append_chain_event md event_type agent details (stamp env))"

definition mark_generation :: "stage_env \<Rightarrow> string \<Rightarrow> pyval \<Rightarrow> pydict \<Rightarrow> pydict \<Rightarrow> pydict res" where
  "mark_generation env specialist nodes output md =
     (if truthy nodes
      then mark_with env ''MISSION_PORT_GENERATION_COMPLETE'' specialist
             (rbind (py_len nodes) (\<lambda>n.
                Inr [(''target_language'', dget_or md ''port_target_language'' (PStr [])),
                     (''source_logicnode_count'', PInt n), (''filename'', dget output ''filename''),
                     (''source'', dget output ''source'')])) md
      else Inr md)"

definition add_code ::
  "stage_env \<Rightarrow> string \<Rightarrow> MissionRecord \<Rightarrow> string \<Rightarrow> string \<Rightarrow> pydict \<Rightarrow> pyval \<Rightarrow> pydict \<Rightarrow> pydict sprog" where
  "add_code env mid mission manager specialist plan nodes md =
     bnd (generate_code env mission specialist plan nodes md) (\<lambda>output.
     let node = ''ln-'' @ mid @ ''-specialist'' in
     bnd (send_beta_result env (dget_or output ''specialist_agent_id'' (PStr specialist)) manager node
            (py_str (py_or (dget output ''language'') (PStr (codegen_language mission md))))
            [(EMISSION_KEY, PStr ''pbla_specialist_result'')] (''beta-'' @ mid @ ''-'' @ node)) (\<lambda>_.
     lift_res (mark_generation env specialist nodes output
       (restate_or_append env ''GENERATED_OUTPUT_CREATED'' specialist
          (output_details output @ pick output [''model_provider'', ''model''])
          (dset ''generated_output'' (PDict output) md)))))"

section \<open>The specialist's plan\<close>

definition plan_details :: "string \<Rightarrow> pydict \<Rightarrow> pydict" where
  "plan_details manager plan = (''pod_manager_agent_id'', PStr manager) # routed_details plan"

definition counted_or :: "pydict \<Rightarrow> string \<Rightarrow> pyval res" where
  "counted_or d k = rbind (py_len (py_or (dget_or d k (PList [])) (PList []))) (\<lambda>n. Inr (PInt n))"

definition plan_events :: "stage_env \<Rightarrow> MissionRecord \<Rightarrow> string \<Rightarrow> pydict \<Rightarrow> pydict \<Rightarrow> unit sprog" where
  "plan_events env mission specialist plan md =
     bnd (lift_res (counted_or plan ''deliverables'')) (\<lambda>deliverables.
     bnd (lift_res (counted_or plan ''risk_notes'')) (\<lambda>risks.
     bnd (record_event env mission (PStr specialist) ''AGENT_PLAN_GENERATED'' ''plan'' ''specialist''
            (Some ''llm_delegation'')
            (routed_details plan @ [(''deliverable_count'', deliverables), (''risk_note_count'', risks)])
            (PDict plan)) (\<lambda>_.
     case dget md ''generated_output'' of
       PDict output \<Rightarrow>
         record_event env mission (PStr specialist) ''GENERATED_OUTPUT_CREATED'' ''generated_output''
           (py_str (py_or (dget output ''filename'') (PStr ''generated_output''))) (Some ''llm_delegation'')
           (output_details output) (PDict output)
     | _ \<Rightarrow> ret ())))"

definition scaling_due :: "stage_env \<Rightarrow> string \<Rightarrow> pydict \<Rightarrow> bool" where
  "scaling_due env specialist md \<longleftrightarrow>
     setting_bool (e_settings (sv_life env)) ''agent_scaling_enabled'' False \<and> is_scalable_agent specialist
     \<and> \<not> is_dict (dget md ''scaling_decision'')"

definition decide_scaling :: "stage_env \<Rightarrow> (nat \<Rightarrow> string) \<Rightarrow> string \<Rightarrow> pydict \<Rightarrow> pydict \<Rightarrow> ScalingDecision res" where
  "decide_scaling env uuid specialist plan md =
     rbind (scaling_workload_items md plan) (\<lambda>items.
       Inr (compute_scaling_decision uuid (stamp env) specialist items
         (setting_int (e_settings (sv_life env)) ''agent_scaling_max_instances'' 4)
         (setting_int (e_settings (sv_life env)) ''agent_scaling_items_per_instance'' 3)))"

definition scaling_metadata :: "stage_env \<Rightarrow> string \<Rightarrow> ScalingDecision \<Rightarrow> pydict \<Rightarrow> pydict res" where
  "scaling_metadata env specialist scaling md =
     rbind (mark env ''MISSION_SCALING_DECIDED'' specialist
              [(''instance_count'', PInt (sd_instance_count scaling)), (''reason'', PStr (sd_reason scaling)),
               (''scaling_version'', PStr (sd_scaling_version scaling))]
              (dset ''scaling_partition_events_emitted'' (PBool False) (embed_scaling_decision md scaling))) (\<lambda>md.
       Inr (artifact env ''scaling_decided'' ''MISSION_SCALING_DECIDED'' specialist
              (dict_or_empty (ScalingDecision_to_dict scaling)) md))"

definition add_scaling :: "stage_env \<Rightarrow> MissionRecord \<Rightarrow> string \<Rightarrow> pydict \<Rightarrow> pydict \<Rightarrow> pydict sprog" where
  "add_scaling env mission specialist plan md =
     (if scaling_due env specialist md
      then bnd (\<lambda>w. (decide_scaling env (sv_uuid env (sg_calls w)) specialist plan md, w)) (\<lambda>scaling.
           bnd (lift_res (scaling_metadata env specialist scaling md)) (\<lambda>md.
           bnd (record_event env mission (PStr specialist) ''MISSION_SCALING_DECIDED'' ''scaling_plan'' specialist None
                  (dict_or_empty (ScalingDecision_to_dict scaling)) (ScalingDecision_to_dict scaling)) (\<lambda>_.
           ret md)))
      else ret md)"

definition finish_plan ::
  "stage_env \<Rightarrow> string \<Rightarrow> MissionRecord \<Rightarrow> string \<Rightarrow> string \<Rightarrow> pydict \<Rightarrow> pydict \<Rightarrow> bool sprog" where
  "finish_plan env mid mission manager specialist plan md =
     bnd (lift_res (chain_event_exists md ''MISSION_SPECIALIST_PLANNED'')) (\<lambda>planned.
     bnd (lift_res (mark env ''MISSION_SPECIALIST_PLANNED'' specialist (plan_details manager plan) md)) (\<lambda>md.
     let md = artifact env ''specialist_planned'' ''MISSION_SPECIALIST_PLANNED'' specialist (plan_details manager plan) md in
     bnd (plan_events env mission specialist plan md) (\<lambda>_.
     bnd (add_scaling env mission specialist plan md) (\<lambda>md.
     persisted env mid md
       (if planned then None else Some (''MISSION_SPECIALIST_PLANNED'', Specialist_assigned))))))"

definition plan_request :: "MissionRecord \<Rightarrow> pydict \<Rightarrow> string \<Rightarrow> string \<Rightarrow> pydict" where
  "plan_request mission md specialist manager =
     [(''mission_context'', PDict (mission_context mission md @ pick md [''ceo_delegation'', ''pod_manager_delegation''])),
      (''requested_target_language'', py_opt (m_requested_target_language mission)),
      (''specialist_agent_id'', PStr specialist), (''pod_manager_agent_id'', PStr manager)]"

definition plan_and_build :: "stage_env \<Rightarrow> string \<Rightarrow> MissionRecord \<Rightarrow> pydict \<Rightarrow> bool sprog" where
  "plan_and_build env mid mission md =
     (let manager = stored_manager mission md; nodes = port_nodes env md;
          specialist = planning_specialist env mission md in
      bnd (ask env ''generate_specialist_plan'' (plan_request mission md specialist manager)) (\<lambda>plan.
      let plan = dset ''pod_manager_agent_id'' (PStr manager) (dset ''specialist_agent_id'' (PStr specialist) plan);
          md = select_agent specialist (dset ''specialist_plan'' (PDict plan) md) in
      bnd (if needs_code md then add_code env mid mission manager specialist plan nodes md else ret md) (\<lambda>md.
      finish_plan env mid mission manager specialist plan md)))"

definition prepare_specialist_plan :: "stage_env \<Rightarrow> string \<Rightarrow> bool sprog" where
  "prepare_specialist_plan env mid =
     with_mission mid False (\<lambda>mission.
       let md = chain_defaults_of mission in
       bnd (lift_res (extraction_due env md)) (\<lambda>extract.
         if extract then port_extraction env mid mission md else plan_and_build env mid mission md))"

section \<open>The pod's group standard\<close>

text \<open>\<open>await _persist_metadata(...) or mission\<close>.\<close>

definition persisted_or ::
  "stage_env \<Rightarrow> string \<Rightarrow> pydict \<Rightarrow> (string \<times> MissionState) option \<Rightarrow> MissionRecord \<Rightarrow> MissionRecord sprog" where
  "persisted_or env mid md emit mission =
     bnd (on_life (persist_metadata (sv_life env) mid md emit)) (\<lambda>r. ret (or_else r mission))"

definition standard_details :: "string \<Rightarrow> pydict \<Rightarrow> pydict" where
  "standard_details pod standard =
     [(''pod'', PStr pod),
      (''canonical_logicnode_count'', PInt (int (length (list_or_empty (dget standard ''canonical_logicnodes''))))),
      (''eliminated_duplicates'', dget_or standard ''eliminated_duplicates'' (PInt 0))]"

definition mark_coverage :: "stage_env \<Rightarrow> string \<Rightarrow> string \<Rightarrow> pydict \<Rightarrow> pydict \<Rightarrow> pydict res" where
  "mark_coverage env manager pod standard md =
     (case dget standard ''coverage_verdict'' of
        PDict verdict \<Rightarrow>
          if truthy (dget_or verdict ''coverage_thin'' (PBool False))
          then mark env ''MISSION_POD_STANDARD_THIN_COVERAGE'' manager
                 ((''pod'', PStr pod)
                   # pick verdict [''raw_logicnode_count'', ''canonical_logicnode_count'',
                                   ''expected_minimum_canonical_logicnodes'']
                   @ [(''findings'', dget_or verdict ''findings'' (PList []))]) md
          else Inr md
      | _ \<Rightarrow> Inr md)"

definition standard_metadata ::
  "stage_env \<Rightarrow> string \<Rightarrow> string \<Rightarrow> pydict \<Rightarrow> pydict \<Rightarrow> pydict res" where
  "standard_metadata env manager pod standard md =
     rbind (mark env ''MISSION_POD_GROUP_STANDARD_PRODUCED'' manager
              (standard_details pod standard @ routed_details standard)
              (select_agent manager (dset ''pod_group_standards''
                 (PDict (dset pod (PDict standard) (dict_or_empty (dget md ''pod_group_standards'')))) md))) (\<lambda>md.
     rbind (mark_coverage env manager pod standard md) (\<lambda>md.
       Inr (artifact env ''pod_group_standard'' ''MISSION_POD_GROUP_STANDARD_PRODUCED'' manager
              (standard_details pod standard) md)))"

definition verdict_details :: "string \<Rightarrow> pydict \<Rightarrow> pydict" where
  "verdict_details pod audit = (''pod'', PStr pod) # pick audit [''verdict'', ''quality_score'', ''source'']"

text \<open>\<open>dict(value)\<close> of a value that is not empty: a list of pairs whose first component is a text.\<close>

fun pair_of :: "pyval \<Rightarrow> (string \<times> pyval) res" where
  "pair_of (PList [PStr k, v]) = Inr (k, v)"
| "pair_of (PStr [a, b]) = Inr ([a], PStr [b])"
| "pair_of (PDict [(a, _), (b, _)]) = Inr (a, PStr b)"
| "pair_of (PList _) = Inl ValueError"
| "pair_of (PStr _) = Inl ValueError"
| "pair_of (PDict _) = Inl ValueError"
| "pair_of _ = Inl TypeError"

fun pairs_to_dict :: "pyval list \<Rightarrow> pydict \<Rightarrow> pydict res" where
  "pairs_to_dict [] acc = Inr acc"
| "pairs_to_dict (v # vs) acc = rbind (pair_of v) (\<lambda>(k, x). pairs_to_dict vs (dset k x acc))"

definition dict_from :: "pyval \<Rightarrow> pydict res" where
  "dict_from v = (case v of PDict d \<Rightarrow> Inr d | PList items \<Rightarrow> pairs_to_dict items [] | PStr _ \<Rightarrow> Inl ValueError | _ \<Rightarrow> Inl TypeError)"

text \<open>The verdict goes into the trace and the audit trail once; an agent that is no text ends the stage when the
  audit event is built. The result says whether it is announced.\<close>

definition add_verdict ::
  "stage_env \<Rightarrow> MissionRecord \<Rightarrow> string \<Rightarrow> string \<Rightarrow> pydict \<Rightarrow> pydict \<Rightarrow> (pydict \<times> bool) sprog" where
  "add_verdict env mission manager pod audit md =
     bnd (lift_res (dict_from (py_or (dget md ''pod_audit_verdicts'') (PDict [])))) (\<lambda>verdicts.
     let md = dset ''pod_audit_verdicts'' (PDict (dset pod (PDict audit) verdicts)) md;
         agent = dget_or audit ''agent_id'' (PStr manager) in
     bnd (lift_res (chain_event_exists md ''MISSION_POD_AUDIT_COMPLETE'')) (\<lambda>found.
     if found then ret (md, False)
     else bnd (lift_res (counted_or audit ''findings'')) (\<lambda>findings.
          bnd (record_event env mission agent ''MISSION_POD_AUDIT_COMPLETE'' ''pod_audit_verdict'' pod
                 (Some ''llm_delegation'')
                 ((''pod'', PStr pod) # pick audit [''verdict'', ''passed'', ''quality_score'']
                   @ (''finding_count'', findings) # pick audit [''source'', ''model_provider'', ''model''])
                 (PDict audit)) (\<lambda>_.
          ret (append_chain_event md ''MISSION_POD_AUDIT_COMPLETE'' (str_of agent) (verdict_details pod audit) (stamp env),
               True)))))"

definition announce_verdict :: "stage_env \<Rightarrow> string \<Rightarrow> string \<Rightarrow> string \<Rightarrow> pydict \<Rightarrow> unit sprog" where
  "announce_verdict env mid pod manager audit = (\<lambda>w.
     (Inr (), w\<lparr>sg_bus := snd (send_delta_audit_verdict (sv_client env) (sv_bus env) (sv_outage env)
                  (sv_request env (sg_calls w)) mid pod manager audit (sg_bus w)),
                sg_calls := Suc (sg_calls w)\<rparr>))"

definition standard_exists :: "string \<Rightarrow> pydict \<Rightarrow> bool" where
  "standard_exists pod md = is_dict (dget (dict_or_empty (dget md ''pod_group_standards'')) pod)"

definition standard_args :: "MissionRecord \<Rightarrow> string \<Rightarrow> string \<Rightarrow> pyval list \<Rightarrow> pydict \<Rightarrow> pydict" where
  "standard_args mission manager pod nodes md =
     [(''pod_name'', PStr pod), (''pod_manager_agent_id'', PStr manager), (''mission_id'', PStr (m_mission_id mission)),
      (''logicnodes'', PList (filter is_dict nodes)),
      (''mission_contract'', PDict (dict_or_empty (dget md ''mission_contract''))),
      (''source_code'', PStr (py_str (py_or (dget md ''source_code'') (py_or (dget md ''prompt'') (PStr [])))))]"

definition audit_args :: "MissionRecord \<Rightarrow> string \<Rightarrow> pydict \<Rightarrow> pydict \<Rightarrow> pydict" where
  "audit_args mission pod standard md =
     [(''mission_id'', PStr (m_mission_id mission)), (''pod_name'', PStr pod),
      (''mission_context'', PDict (mission_context mission md)), (''pod_group_standard'', PDict standard),
      (''generated_output'', if is_dict (dget md ''generated_output'') then dget md ''generated_output'' else PNone)]"

definition produce_pod_group_standard :: "stage_env \<Rightarrow> MissionRecord \<Rightarrow> MissionRecord sprog" where
  "produce_pod_group_standard env mission =
     (let md = chain_defaults_of mission; manager = stored_manager mission md; pod = pod_key_for_manager manager in
      if standard_exists pod md then ret mission
      else bnd (rows_of env ''mission_logicnodes'' (m_mission_id mission)) (\<lambda>nodes.
           bnd (ask env ''generate_pod_group_standard'' (standard_args mission manager pod nodes md)) (\<lambda>standard.
           bnd (lift_res (standard_metadata env manager pod standard md)) (\<lambda>md.
           bnd (record_event env mission (PStr manager) ''MISSION_POD_GROUP_STANDARD_PRODUCED'' ''pod_group_standard'' pod
                  (Some ''llm_delegation'')
                  (standard_details pod standard @ pick standard [''source'', ''model_provider'', ''model''])
                  (PDict standard)) (\<lambda>_.
           bnd (ask env ''generate_pod_audit_verdict'' (audit_args mission pod standard md)) (\<lambda>audit.
           bnd (add_verdict env mission manager pod audit md) (\<lambda>(md, announce).
           bnd (persisted_or env (m_mission_id mission) md
                  (Some (''MISSION_POD_GROUP_STANDARD_PRODUCED'', Gating)) mission) (\<lambda>saved.
           bnd (if announce then announce_verdict env (m_mission_id mission) pod manager audit else ret ()) (\<lambda>_.
           ret saved)))))))))"

section \<open>What the build stages leave alone\<close>

lemma stage_quiet_on_pods [keeps_intros]:
  "keeps (stage_quiet mid) (on_pods f)" "keeps (stage_quiet mid) (record_assignment env mission mid' manager specialist)"
  "keeps (stage_quiet mid) (announce_verdict env mid' pod manager audit)" "keeps (stage_quiet mid) (try_ask env name args)"
  by (rule stage_same_world; simp add: on_pods_def record_assignment_def announce_verdict_def try_ask_def same_world_calls
      case_prod_beta Let_def)+

lemma stage_quiet_persisted_or [keeps_intros]: "keeps (stage_quiet mid) (persisted_or env mid md emit mission)"
  unfolding persisted_or_def by (intro keeps_intros stage_on_life)

lemma prepare_pod_assignment_quiet: "keeps (stage_quiet mid) (prepare_pod_assignment env mid)"
  unfolding prepare_pod_assignment_def assign_pod_def send_alpha_delegation_directive_def Let_def
  by (intro keeps_intros)

lemma prepare_specialist_assignment_quiet: "keeps (stage_quiet mid) (prepare_specialist_assignment env mid)"
  unfolding prepare_specialist_assignment_def Let_def by (intro keeps_intros)

lemma stage_quiet_code [keeps_intros]:
  "keeps (stage_quiet mid) (add_code env mid' mission manager specialist plan nodes md)"
  unfolding add_code_def generate_code_def knowledge_for_def Let_def by (intro keeps_intros)

lemma stage_quiet_plan_events [keeps_intros]:
  "keeps (stage_quiet mid) (plan_events env mission specialist plan md)"
proof -
  have "keeps (stage_quiet mid) (case v of PDict output \<Rightarrow> record_event env mission a ev ot (oid output) tool (summary output) (PDict output)
      | _ \<Rightarrow> ret ())" for v a ev ot oid tool summary
    by (cases v) (simp_all, (intro keeps_intros)+)
  note cases = this
  show ?thesis unfolding plan_events_def by (intro keeps_intros cases)
qed

lemma prepare_specialist_plan_quiet: "keeps (stage_quiet mid) (prepare_specialist_plan env mid)"
  unfolding prepare_specialist_plan_def port_extraction_def plan_and_build_def finish_plan_def add_scaling_def Let_def
  by (intro keeps_intros)

lemma produce_pod_group_standard_quiet:
  "keeps (stage_quiet (m_mission_id mission)) (produce_pod_group_standard env mission)"
  unfolding produce_pod_group_standard_def add_verdict_def Let_def by (intro keeps_intros)

section \<open>Who a mission goes to\<close>

lemma routed_manager_owner:
  assumes "language_pod_manager (m_requested_target_language mission) = Some owner"
  shows "fst (routed_manager env mission ceo) = owner"
  using assms by (simp add: routed_manager_def Let_def)

definition pod_keys :: "string list" where
  "pod_keys = [''chain_trace'', ''last_chain_event_type'', ''last_chain_event_at'', ''mission_artifacts'']"

lemma assign_pod_stores:
  assumes run: "assign_pod env mid mission manager specialist routing_correction delegation md w = (Inr True, w')"
    and k: "k \<notin> set (storage_keys @ pod_keys)"
  shows "dget (stored_md w' mid) k = dget (assigned_to manager specialist delegation md) k"
proof -
  obtain d m1 v where m1: "mark env ''MISSION_POD_MANAGER_ASSIGNED'' manager d (assigned_to manager specialist delegation md) = Inr m1"
    and saved: "persisted env mid (artifact env ''pod_assigned'' ''MISSION_POD_MANAGER_ASSIGNED'' manager d m1) None v = (Inr True, w')"
    using run unfolding assign_pod_def Let_def run_simps
    by (elim exE conjE) (rule that, assumption, assumption)
  from k have "k \<notin> set storage_keys" and art: "k \<noteq> ''mission_artifacts''"
    and tr: "k \<notin> {''chain_trace'', ''last_chain_event_type'', ''last_chain_event_at''}"
    by (simp_all add: pod_keys_def)
  with persisted_stores [OF saved, of k] show ?thesis
    by (simp add: dget_artifact(1) [OF art] dget_mark(1) [OF m1 tr])
qed

text \<open>Neither the assignment table, nor the audit trail, nor the bus can stop the stage.\<close>

lemma audit_assignment_ok:
  assumes "manager \<noteq> []" and "m_mission_id mission \<noteq> []"
  shows "fst (audit_assignment e mission manager pod summary content p) = Inr ()"
  using assms by (auto simp: audit_assignment_def record_audit_event_def audit_event_of_def assignment_event_def
      Let_def rbind_def split: prod.splits sum.splits if_splits)

lemma persist_assignment_ok:
  assumes "manager \<noteq> []" and "m_mission_id mission \<noteq> []"
  obtains r where "fst (persist_pod_assignment_record e mission mid manager specialist p) = Inr r"
proof -
  let ?up = "upsert_pod_assignment (au_iso (pe_audit e)) (pe_now e) (pe_between e) True mid (pod_key_for_manager manager)
    (provisional_details mission manager specialist) (pe_now e) (ps_pods p)"
  obtain x db where up: "?up = (x, db)" by fastforce
  show thesis
  proof (cases x)
    case (Inl err)
    with up show thesis by (intro that [of None]) (simp add: persist_pod_assignment_record_def Let_def)
  next
    case (Inr doc)
    let ?details = "PDict (provisional_details mission manager specialist)"
    obtain v where "audit_assignment e mission manager (pod_key_for_manager manager) ?details (Some ?details)
        (p\<lparr>ps_pods := db\<rparr>) = (Inr (), v)"
      using audit_assignment_ok [OF assms] by (metis prod.collapse)
    with up Inr show thesis by (intro that [of "Some doc"]) (simp add: persist_pod_assignment_record_def Let_def)
  qed
qed

lemma record_assignment_ok:
  assumes "manager \<noteq> []" and "m_mission_id mission \<noteq> []"
  obtains r w' where "record_assignment env mission mid manager specialist w = (Inr r, w')" and "sg_world w' = sg_world w"
proof -
  obtain r where "fst (persist_pod_assignment_record (sv_pod env (sg_calls w)) mission mid manager specialist (pods_now w)) = Inr r"
    by (rule persist_assignment_ok [OF assms])
  then show thesis
    by (intro that [of r "snd (record_assignment env mission mid manager specialist w)"])
      (simp_all add: record_assignment_def on_pods_def case_prod_beta Let_def)
qed

lemma fetched_row:
  assumes "fetch_mission db mid = Inr (Some mission)"
  obtains row where "row_of db mid = Some row" and "row_state row = state_value (m_state mission)"
    and "m_mission_id mission = mid"
  using assms by (auto simp: fetch_mission_def row_of_def row_to_mission_def Let_def rbind_Inr_iff MissionState_of_Inr
      split: option.splits)

lemma chain_trace_kept:
  "dget (assigned_to manager specialist delegation (corrected c (chain_defaults_of mission))) ''chain_trace''
     = PList (chain_trace_of (m_metadata mission))"
  by (simp add: assigned_to_def corrected_def chain_defaults_of_def dget_with_chain_defaults split: option.split)

lemma tell_bus_run: "fst (tell_bus env proto sender recipient payload cid w) = Inr ()"
  by (simp add: tell_bus_def split: pyval.split)

lemma assign_pod_ok:
  assumes mission: "fetch_mission (w_db (sg_world w)) mid = Inr (Some mission)" and "mid \<noteq> []" and "manager \<noteq> []"
    and trace: "dget (assigned_to manager specialist delegation md) ''chain_trace'' = PList tr"
  obtains w' where "assign_pod env mid mission manager specialist c delegation md w = (Inr True, w')"
proof -
  obtain row where row: "row_of (w_db (sg_world w)) mid = Some row" "row_state row = state_value (m_state mission)"
    and mid: "m_mission_id mission = mid" using mission by (rule fetched_row)
  obtain r w1 where 1: "record_assignment env mission mid manager specialist w = (Inr r, w1)" "sg_world w1 = sg_world w"
    by (rule record_assignment_ok [of manager mission]) (use assms mid in simp_all)
  let ?details = "assignment_details manager specialist delegation (r \<noteq> None) c"
  obtain m1 where 2: "mark env ''MISSION_POD_MANAGER_ASSIGNED'' manager ?details (assigned_to manager specialist delegation md) = Inr m1"
    using trace by (rule mark_total)
  obtain w2 where 3: "record_event env mission (PStr manager) ''AGENT_DELEGATION_PLANNED'' ''delegation'' ''pod_manager''
            (Some ''llm_delegation'')
            (routed_details delegation
              @ [(''pod_manager_agent_id'', PStr manager), (''specialist_agent_id'', PStr specialist)])
            (PDict delegation) w1 = (Inr (), w2)" "sg_world w2 = sg_world w1"
    by (rule record_event_ok [of manager "''AGENT_DELEGATION_PLANNED''" mission]) (use assms mid in simp_all)
  obtain w3 where 4: "send_alpha_delegation_directive env mission mid manager specialist w2 = (Inr (), w3)"
    "sg_world w3 = sg_world w2"
    using tell_bus_run same_world_calls(6)
    by (metis prod.collapse send_alpha_delegation_directive_def send_alpha_directive_def)
  obtain w' where "persisted env mid (artifact env ''pod_assigned'' ''MISSION_POD_MANAGER_ASSIGNED'' manager ?details m1) None w3
      = (Inr True, w')"
    by (rule persisted_ok [of w3 mid row]) (use row 1 3 4 in simp_all)
  with 1 2 3 4 show thesis by (intro that [of w']) (simp add: assign_pod_def bnd_Inr)
qed

lemma owner_nonempty:
  assumes "language_pod_manager l = Some owner"
  shows "owner \<noteq> []"
proof -
  have "(normalize_language l, owner) \<in> set POD_MANAGER_BY_LANGUAGE"
    using assms by (auto simp: language_pod_manager_def dest: map_of_SomeD)
  then show ?thesis by (auto simp: POD_MANAGER_BY_LANGUAGE_def)
qed

text \<open>C7. Whatever pod manager the CEO's delegation names, a mission whose language a pod owns is assigned to that
  pod's manager, in every field that later stages and the pod workers filter on; and the stage succeeds whatever
  becomes of the assignment table, the audit trail and the bus.\<close>

theorem pod_assignment_owned:
  assumes "fetch_mission (w_db (sg_world w)) mid = Inr (Some mission)" and "mid \<noteq> []"
    and "language_pod_manager (m_requested_target_language mission) = Some owner"
    and "\<And>args. sv_call env (sg_calls w) ''generate_pod_manager_delegation'' args = Inr answer"
  shows "\<exists>w'. prepare_pod_assignment env mid w = (Inr True, w')
    \<and> dget (stored_md w' mid) ''assigned_pod_manager_agent_id'' = PStr owner
    \<and> dget (stored_md w' mid) ''selected_agent_id'' = PStr owner \<and> dget (stored_md w' mid) ''agent_id'' = PStr owner"
proof -
  let ?md = "chain_defaults_of mission"
  let ?ceo = "dict_or_empty (dget ?md ''ceo_delegation'')" and ?w = "w\<lparr>sg_calls := Suc (sg_calls w)\<rparr>"
  obtain c where rm: "routed_manager env mission ?ceo = (owner, c)"
    using routed_manager_owner [OF assms(3)] by (metis prod.collapse)
  define default_specialist where "default_specialist = validate_agent_id (dget ?ceo ''specialist_agent_id'')
             (resolve_specialist_agent_id (m_requested_target_language mission))"
  define specialist where "specialist = validate_agent_id (dget answer ''specialist_agent_id'') default_specialist"
  define delegation where "delegation = routed_to owner specialist answer"
  obtain w' where assigned: "assign_pod env mid mission owner specialist c delegation (corrected c ?md) ?w = (Inr True, w')"
    by (rule assign_pod_ok [of ?w mid mission owner specialist delegation "corrected c ?md"])
      (use assms(1,2) owner_nonempty [OF assms(3)] chain_trace_kept in simp_all)
  then have "prepare_pod_assignment env mid w = (Inr True, w')"
    using assms(1,4) rm
    by (simp add: prepare_pod_assignment_def with_mission_def on_life_def fetch_def bnd_def ask_def Let_def
        specialist_def default_specialist_def delegation_def)
  with assign_pod_stores [OF assigned] show ?thesis
    by (simp add: storage_keys_def pod_keys_def assigned_to_def)
qed

theorem pod_assignment_owned_witness:
  "\<exists>w'. prepare_pod_assignment (sample_stage_env []) ''m1'' (sample_stage_world ''CEO_DELEGATED'' (Some ''python'')
       [(''ceo_delegation'', PDict [(''pod_manager_agent_id'', PStr ''AGENT-24-PODC-MGR'')])]) = (Inr True, w')
    \<and> dget (stored_md w' ''m1'') ''assigned_pod_manager_agent_id'' = PStr ''AGENT-12-PODA-MGR''"
proof -
  let ?w = "sample_stage_world ''CEO_DELEGATED'' (Some ''python'')
       [(''ceo_delegation'', PDict [(''pod_manager_agent_id'', PStr ''AGENT-24-PODC-MGR'')])]"
  have "MissionState_of ''CEO_DELEGATED'' = Inr Ceo_delegated" by code_simp
  then obtain m where m: "fetch_mission (w_db (sg_world ?w)) ''m1'' = Inr (Some m)"
    "m_requested_target_language m = Some ''python''"
    by (simp add: sample_stage_world_def sample_world_def fetch_mission_def row_to_mission_def sample_row_def Let_def)
  have "language_pod_manager (Some ''python'') = Some ''AGENT-12-PODA-MGR''" by code_simp
  then show ?thesis
    using pod_assignment_owned [OF m(1), of "''AGENT-12-PODA-MGR''" "sample_stage_env []" "[]"]
    by (simp add: m(2) sample_stage_env_def) blast
qed

section \<open>What planning keeps\<close>

lemma save_run:
  assumes "save env mid md w = (Inr r, w')" and "r \<noteq> None" and "k \<notin> set storage_keys"
  shows "dget (stored_md w' mid) k = dget md k"
proof -
  obtain m v where "save_metadata (sv_life env) mid md (sg_world w) = (Inr (Some m), v)" and "sg_world w' = v"
    using assms(1,2) by (auto simp: save_def on_life_run)
  then obtain row where "row_of (w_db v) mid = Some row" "dget (row_metadata row) k = dget md k"
    using assms(3) by (metis save_stores)
  then show ?thesis using \<open>sg_world w' = v\<close> by (simp add: stored_md_def)
qed

definition port_result_keys :: "string list" where
  "port_result_keys = [''port_source_logicnodes'', ''port_source_aim'', ''port_source_plan'', ''port_phase'',
     ''extraction_degraded'']"

lemma port_result:
  assumes "run_port_extraction_phase aim plan md now = Inr (md', updates)"
  shows "dget (merge_into updates md') ''port_phase'' = PStr ''generation''"
    and "k \<notin> set (pod_keys @ port_result_keys) \<Longrightarrow> dget (merge_into updates md') k = dget md k"
  using assms by (auto simp: run_port_extraction_phase_def rbind_Inr_iff merge_into_def append_chain_event_def
      pod_keys_def port_result_keys_def Let_def)

lemma port_extraction_stores:
  assumes run: "port_extraction env mid mission md w = (Inr True, w')"
  shows "dget (stored_md w' mid) ''port_phase'' = PStr ''generation''"
    and "k \<notin> set (storage_keys @ pod_keys @ port_result_keys) \<Longrightarrow> dget (stored_md w' mid) k = dget md k"
proof -
  obtain aim plan md1 updates v r where
    1: "run_port_extraction_phase aim plan md (stamp env) = Inr (md1, updates)" and
    2: "save env mid (merge_into updates md1) v = (Inr r, w')" "r \<noteq> None"
    using run unfolding port_extraction_def Let_def by (auto simp: run_simps split: prod.splits)
  show "dget (stored_md w' mid) ''port_phase'' = PStr ''generation''"
    using save_run [OF 2] port_result(1) [OF 1] by (simp add: storage_keys_def)
  show "dget (stored_md w' mid) k = dget md k" if "k \<notin> set (storage_keys @ pod_keys @ port_result_keys)"
    using save_run [OF 2, of k] port_result(2) [OF 1, of k] that by simp
qed

lemma add_scaling_keeps:
  assumes "add_scaling env mission specialist plan md w = (Inr md', w')"
  shows "k \<notin> set (pod_keys @ [''scaling_decision'', ''scaling_version'', ''scaling_active'', ''scaling_partition_events_emitted''])
           \<Longrightarrow> dget md' k = dget md k"
    and "is_dict (dget md ''scaling_decision'') \<Longrightarrow> md' = md"
proof -
  show "md' = md" if "is_dict (dget md ''scaling_decision'')"
    using assms that by (simp add: add_scaling_def scaling_due_def)
  assume k: "k \<notin> set (pod_keys @ [''scaling_decision'', ''scaling_version'', ''scaling_active'', ''scaling_partition_events_emitted''])"
  show "dget md' k = dget md k"
  proof (cases "scaling_due env specialist md")
    case True
    then obtain scaling where "scaling_metadata env specialist scaling md = Inr md'"
      using assms by (auto simp: add_scaling_def run_simps)
    then obtain d m1 where m1: "mark env ''MISSION_SCALING_DECIDED'' specialist d
        (dset ''scaling_partition_events_emitted'' (PBool False) (embed_scaling_decision md scaling)) = Inr m1"
      and md': "md' = artifact env ''scaling_decided'' ''MISSION_SCALING_DECIDED'' specialist
        (dict_or_empty (ScalingDecision_to_dict scaling)) m1"
      by (auto simp: scaling_metadata_def rbind_Inr_iff)
    from k have "k \<notin> {''chain_trace'', ''last_chain_event_type'', ''last_chain_event_at''}" by (simp add: pod_keys_def)
    with dget_mark(1) [OF m1] k show ?thesis
      by (simp add: md' dget_artifact embed_scaling_decision_def pod_keys_def)
  qed (use assms in \<open>simp add: add_scaling_def\<close>)
qed

lemma finish_plan_stores:
  assumes run: "finish_plan env mid mission manager specialist plan md w = (Inr True, w')"
    and k: "k \<notin> set (storage_keys @ pod_keys)"
    and scaling: "is_dict (dget md ''scaling_decision'')
      \<or> k \<notin> {''scaling_decision'', ''scaling_version'', ''scaling_active'', ''scaling_partition_events_emitted''}"
  shows "dget (stored_md w' mid) k = dget md k"
proof -
  obtain m1 m2 v v' emit where 1: "mark env ''MISSION_SPECIALIST_PLANNED'' specialist (plan_details manager plan) md = Inr m1"
    and 2: "add_scaling env mission specialist plan
      (artifact env ''specialist_planned'' ''MISSION_SPECIALIST_PLANNED'' specialist (plan_details manager plan) m1) v = (Inr m2, v')"
    and 3: "persisted env mid m2 emit v' = (Inr True, w')"
    using run unfolding finish_plan_def Let_def run_simps
    by (elim exE conjE) (rule that, assumption, assumption, assumption)
  from k have k1: "k \<notin> {''chain_trace'', ''last_chain_event_type'', ''last_chain_event_at''}" and k2: "k \<noteq> ''mission_artifacts''"
    by (simp_all add: pod_keys_def)
  have "dget m1 x = dget md x" if "x \<notin> {''chain_trace'', ''last_chain_event_type'', ''last_chain_event_at''}" for x
    using dget_mark(1) [OF 1 that] .
  then have eq: "dget (artifact env ''specialist_planned'' ''MISSION_SPECIALIST_PLANNED'' specialist (plan_details manager plan) m1) x
      = dget md x" if "x \<in> {k, ''scaling_decision''}" for x
  proof -
    have "x \<noteq> ''mission_artifacts''" and "x \<notin> {''chain_trace'', ''last_chain_event_type'', ''last_chain_event_at''}"
      using that k1 k2 by (elim insertE emptyE; simp)+
    then show ?thesis using dget_mark(1) [OF 1] by (simp only: dget_artifact not_False_eq_True)
  qed
  have "dget m2 k = dget md k"
  proof (cases "is_dict (dget md ''scaling_decision'')")
    case True
    then show ?thesis
      using add_scaling_keeps(2) [OF 2] by (simp only: eq insertI1 insertI2 simp_thms)
  next
    case False
    with scaling k have "k \<notin> set (pod_keys @ [''scaling_decision'', ''scaling_version'', ''scaling_active'',
        ''scaling_partition_events_emitted''])" by simp
    then show ?thesis
      using add_scaling_keeps(1) [OF 2] eq [of k] by simp
  qed
  with persisted_stores [OF 3, of k] k show ?thesis by simp
qed

lemma add_code_keeps:
  assumes "add_code env mid mission manager specialist plan nodes md w = (Inr md', w')"
    and "k \<notin> set (''generated_output'' # pod_keys)"
  shows "dget md' k = dget md k"
proof -
  obtain code m1 where m1: "m1 = restate_or_append env ''GENERATED_OUTPUT_CREATED'' specialist
      (output_details code @ pick code [''model_provider'', ''model'']) (dset ''generated_output'' (PDict code) md)"
    and gen: "mark_generation env specialist nodes code m1 = Inr md'"
    using assms(1) unfolding add_code_def Let_def run_simps by blast
  have "dget m1 k = dget md k"
    using assms(2) by (auto simp: m1 restate_or_append_def restate_chain_event_def append_chain_event_def pod_keys_def Let_def
        split: prod.splits bool.splits pyval.splits option.splits)
  moreover have "dget md' k = dget m1 k"
    using gen assms(2) dget_mark_with(1) [of env _ specialist _ m1 md' k]
    by (auto simp: mark_generation_def pod_keys_def split: if_splits)
  ultimately show ?thesis by simp
qed

lemma plan_and_build_keeps:
  assumes run: "plan_and_build env mid mission md w = (Inr True, w')"
    and k: "k \<in> {''generated_output'', ''scaling_decision''}" and d: "dget md k = PDict d"
  shows "dget (stored_md w' mid) k = PDict d"
proof -
  let ?manager = "stored_manager mission md" and ?specialist = "planning_specialist env mission md"
  obtain plan u v md2 where
    code: "(if needs_code (select_agent ?specialist (dset ''specialist_plan'' (PDict plan) md))
            then add_code env mid mission ?manager ?specialist plan (port_nodes env md)
              (select_agent ?specialist (dset ''specialist_plan'' (PDict plan) md))
            else ret (select_agent ?specialist (dset ''specialist_plan'' (PDict plan) md))) u = (Inr md2, v)" and
    fin: "finish_plan env mid mission ?manager ?specialist plan md2 v = (Inr True, w')"
    using run unfolding plan_and_build_def Let_def run_simps
    by (elim exE conjE) (rule that, assumption, assumption)
  let ?md1 = "select_agent ?specialist (dset ''specialist_plan'' (PDict plan) md)"
  have md1: "dget ?md1 k = PDict d" using k d by (auto simp: select_agent_def)
  have md2: "dget md2 k = PDict d"
  proof (cases "needs_code ?md1")
    case True
    with md1 k have "k = ''scaling_decision''" by (auto simp: needs_code_def)
    with add_code_keeps [of env mid mission ?manager ?specialist plan "port_nodes env md" ?md1 u md2 v k] True code md1
    show ?thesis by (simp add: pod_keys_def)
  next
    case False
    with code md1 show ?thesis by simp
  qed
  have "k \<notin> set (storage_keys @ pod_keys)"
    using k by (elim insertE emptyE) (simp_all add: storage_keys_def pod_keys_def)
  moreover have "is_dict (dget md2 ''scaling_decision'')
      \<or> k \<notin> {''scaling_decision'', ''scaling_version'', ''scaling_active'', ''scaling_partition_events_emitted''}"
    using k md2 by (elim insertE emptyE) simp_all
  ultimately show ?thesis using finish_plan_stores [OF fin, of k] md2 by simp
qed

lemma planning_read:
  assumes "prepare_specialist_plan env mid w = (Inr True, w')"
  obtains mission extr where "fetch_mission (w_db (sg_world w)) mid = Inr (Some mission)"
    and "extraction_due env (chain_defaults_of mission) = Inr extr"
    and "(if extr then port_extraction env mid mission (chain_defaults_of mission)
          else plan_and_build env mid mission (chain_defaults_of mission)) w = (Inr True, w')"
proof -
  obtain mission where "fetch_mission (w_db (sg_world w)) mid = Inr (Some mission)" and
    "(let md = chain_defaults_of mission in
       bnd (lift_res (extraction_due env md)) (\<lambda>extract.
         if extract then port_extraction env mid mission md else plan_and_build env mid mission md)) w = (Inr True, w')"
    using assms unfolding prepare_specialist_plan_def by (rule with_mission_run) simp_all
  then show thesis using that by (auto simp: Let_def run_simps)
qed

lemma defaults_keep:
  assumes "fetch_mission (w_db (sg_world w)) mid = Inr (Some mission)"
    and "k \<notin> {''routing_version'', ''routing_enforced'', ''intake_agent_id'', ''executive_agent_id'',
      ''expected_pod_manager_agent_id'', ''expected_specialist_agent_id'', ''selected_agent_id'', ''agent_id'', ''chain_trace''}"
  shows "dget (chain_defaults_of mission) k = dget (stored_md w mid) k"
  using assms(2) by (simp add: fetched_metadata [OF assms(1)] chain_defaults_of_def dget_def with_chain_defaults_frame)

lemma plan_events_ok:
  assumes "specialist \<noteq> []" and "m_mission_id mission \<noteq> []"
    and "counted_or plan ''deliverables'' = Inr n" and "counted_or plan ''risk_notes'' = Inr m"
  obtains v where "plan_events env mission specialist plan md w = (Inr (), v)" and "sg_world v = sg_world w"
proof -
  let ?first = "record_event env mission (PStr specialist) ''AGENT_PLAN_GENERATED'' ''plan'' ''specialist''
    (Some ''llm_delegation'') (routed_details plan @ [(''deliverable_count'', n), (''risk_note_count'', m)]) (PDict plan)"
  obtain u where u: "?first w = (Inr (), u)" "sg_world u = sg_world w"
    by (rule record_event_ok [of specialist "''AGENT_PLAN_GENERATED''" mission]) (use assms in simp_all)
  have start: "plan_events env mission specialist plan md w = (case dget md ''generated_output'' of
       PDict code \<Rightarrow>
         record_event env mission (PStr specialist) ''GENERATED_OUTPUT_CREATED'' ''generated_output''
           (py_str (py_or (dget code ''filename'') (PStr ''generated_output''))) (Some ''llm_delegation'')
           (output_details code) (PDict code)
     | _ \<Rightarrow> ret ()) u"
    using assms(3,4) u(1) by (simp add: plan_events_def bnd_Inr)
  show thesis
  proof (cases "\<exists>code. dget md ''generated_output'' = PDict code")
    case True
    then obtain code where code: "dget md ''generated_output'' = PDict code" by blast
    obtain v where "record_event env mission (PStr specialist) ''GENERATED_OUTPUT_CREATED'' ''generated_output''
           (py_str (py_or (dget code ''filename'') (PStr ''generated_output''))) (Some ''llm_delegation'')
           (output_details code) (PDict code) u = (Inr (), v)" "sg_world v = sg_world u"
      by (rule record_event_ok [of specialist "''GENERATED_OUTPUT_CREATED''" mission]) (use assms in simp_all)
    with start code u(2) show thesis by (intro that [of v]) simp_all
  next
    case False
    with start have "plan_events env mission specialist plan md w = (Inr (), u)"
      by (cases "dget md ''generated_output''") simp_all
    then show thesis using u(2) by (rule that)
  qed
qed

lemma finish_plan_ok:
  assumes mission: "fetch_mission (w_db (sg_world w)) mid = Inr (Some mission)" and "mid \<noteq> []" and "specialist \<noteq> []"
    and trace: "dget md ''chain_trace'' = PList tr" and counts: "counted_or plan ''deliverables'' = Inr n" "counted_or plan ''risk_notes'' = Inr m"
    and due: "\<not> scaling_due env specialist md"
  obtains w' where "finish_plan env mid mission manager specialist plan md w = (Inr True, w')"
proof -
  obtain row where row: "row_of (w_db (sg_world w)) mid = Some row" "row_state row = state_value (m_state mission)"
    and mid: "m_mission_id mission = mid" using mission by (rule fetched_row)
  have "map_of md ''chain_trace'' = Some (PList tr)" using trace by (simp add: dget_def split: option.splits)
  then obtain b where b: "chain_event_exists md ''MISSION_SPECIALIST_PLANNED'' = Inr b"
    by (simp add: chain_event_exists_def dget_or_def)
  obtain m1 where m1: "mark env ''MISSION_SPECIALIST_PLANNED'' specialist (plan_details manager plan) md = Inr m1"
    using trace by (rule mark_total)
  let ?md = "artifact env ''specialist_planned'' ''MISSION_SPECIALIST_PLANNED'' specialist (plan_details manager plan) m1"
  obtain v where v: "plan_events env mission specialist plan ?md w = (Inr (), v)" "sg_world v = sg_world w"
    by (rule plan_events_ok [of specialist mission plan n m]) (use assms(2,3) mid counts in simp_all)
  have "\<not> scaling_due env specialist ?md"
    using due by (simp add: scaling_due_def dget_artifact dget_mark(1) [OF m1])
  then have "add_scaling env mission specialist plan ?md v = (Inr ?md, v)" by (simp add: add_scaling_def)
  moreover obtain w' where "persisted env mid ?md (if b then None else Some (''MISSION_SPECIALIST_PLANNED'', Specialist_assigned)) v
      = (Inr True, w')"
    by (rule persisted_ok [of v mid row]) (use row v(2) in simp_all)
  ultimately show thesis using b m1 v(1) by (intro that [of w']) (simp add: finish_plan_def bnd_Inr Let_def)
qed

definition sample_port_env :: "pydict \<Rightarrow> stage_env" where
  "sample_port_env answer = (sample_stage_env answer)
     \<lparr>sv_life := sample_env\<lparr>e_settings := [(''port_two_phase_enabled'', PBool True)]\<rparr>\<rparr>"

text \<open>C8. The planning stage may run more than once. A run never replaces the code generated before, nor a scaling
  decision, whose partitions may be under work already; a PORT mission's extraction pass keeps them too.\<close>

theorem planning_keeps_decisions:
  assumes "prepare_specialist_plan env mid w = (Inr True, w')"
    and "k \<in> {''generated_output'', ''scaling_decision''}" and "dget (stored_md w mid) k = PDict d"
  shows "dget (stored_md w' mid) k = PDict d"
proof -
  obtain mission extr where m: "fetch_mission (w_db (sg_world w)) mid = Inr (Some mission)"
    and run: "(if extr then port_extraction env mid mission (chain_defaults_of mission)
          else plan_and_build env mid mission (chain_defaults_of mission)) w = (Inr True, w')"
    using assms(1) by (rule planning_read)
  have "dget (chain_defaults_of mission) k = dget (stored_md w mid) k"
    using assms(2) by (intro defaults_keep [OF m]) (elim insertE emptyE; simp)
  with assms(3) have d: "dget (chain_defaults_of mission) k = PDict d" by simp
  show ?thesis
  proof (cases extr)
    case True
    have "k \<notin> set (storage_keys @ pod_keys @ port_result_keys)"
      using assms(2) by (elim insertE emptyE) (simp_all add: storage_keys_def pod_keys_def port_result_keys_def)
    with True run d show ?thesis by (simp add: port_extraction_stores(2))
  next
    case False
    with run d assms(2) show ?thesis by (simp add: plan_and_build_keeps)
  qed
qed

theorem planning_keeps_decisions_witness:
  "\<exists>w'. prepare_specialist_plan (sample_stage_env []) ''m1'' (sample_stage_world ''SPECIALIST_ASSIGNED'' None
       [(''scaling_decision'', PDict [])]) = (Inr True, w') \<and> dget (stored_md w' ''m1'') ''scaling_decision'' = PDict []"
proof -
  let ?e = "sample_stage_env []" and ?w = "sample_stage_world ''SPECIALIST_ASSIGNED'' None [(''scaling_decision'', PDict [])]"
  have "MissionState_of ''SPECIALIST_ASSIGNED'' = Inr Specialist_assigned" by code_simp
  then obtain m where m: "fetch_mission (w_db (sg_world ?w)) ''m1'' = Inr (Some m)" "m_metadata m = [(''scaling_decision'', PDict [])]"
    "m_requested_target_language m = None"
    by (simp add: sample_stage_world_def sample_world_def fetch_mission_def row_to_mission_def sample_row_def Let_def)
  let ?md = "chain_defaults_of m" and ?v = "?w\<lparr>sg_calls := 1\<rparr>"
  have env: "sv_call ?e n f a = Inr []" "sg_calls ?w = 0" "port_two_phase ?e = False"
    "setting_bool (e_settings (sv_life ?e)) ''agent_scaling_enabled'' False = False" for n f a
    by (simp_all add: sample_stage_env_def sample_stage_world_def port_two_phase_def sample_env_def setting_bool_def dget_or_def)
  let ?manager = "stored_manager m ?md" and ?specialist = "planning_specialist ?e m ?md"
  let ?plan = "dset ''pod_manager_agent_id'' (PStr ?manager) (dset ''specialist_agent_id'' (PStr ?specialist) [])"
  let ?md1 = "select_agent ?specialist (dset ''specialist_plan'' (PDict ?plan) ?md)"
  have unset: "dget ?md ''mission_contract'' = PNone" "dget ?md ''assigned_specialist_agent_id'' = PNone"
    using defaults_keep [OF m(1)] fetched_metadata [OF m(1)] m(2) by (simp_all add: dget_def)
  have "?specialist = resolve_specialist_agent_id None"
    by (simp add: planning_specialist_def in_port_phase_def env stored_specialist_def validate_agent_id_def unset m(3))
       (code_simp)
  moreover have "resolve_specialist_agent_id None \<noteq> []" by code_simp
  moreover obtain tr where "dget ?md1 ''chain_trace'' = PList tr"
    by (simp add: select_agent_def chain_defaults_of_def dget_with_chain_defaults)
  moreover have "\<not> scaling_due ?e ?specialist ?md1" by (simp add: scaling_due_def env)
  moreover have "counted_or ?plan k = Inr (PInt 0)" if "k \<in> {''deliverables'', ''risk_notes''}" for k
    using that by (auto simp: counted_or_def dget_or_def py_or_def)
  ultimately obtain w' where "finish_plan ?e ''m1'' m ?manager ?specialist ?plan ?md1 ?v = (Inr True, w')"
    using finish_plan_ok [of ?v "''m1''" m ?specialist ?md1 tr ?plan "PInt 0" "PInt 0" ?e] m(1) by auto
  moreover have "extraction_due ?e ?md = Inr False" by (simp add: extraction_due_def in_port_phase_def env)
  moreover have "\<not> needs_code ?md1" by (simp add: needs_code_def select_agent_def unset)
  ultimately have "prepare_specialist_plan ?e ''m1'' ?w = (Inr True, w')"
    using m(1) by (simp add: prepare_specialist_plan_def with_mission_def on_life_def fetch_def bnd_def ask_def env
        plan_and_build_def Let_def)
  moreover have "dget (stored_md ?w ''m1'') ''scaling_decision'' = PDict []" using fetched_metadata [OF m(1)] m(2) by (simp add: dget_def)
  ultimately show ?thesis using planning_keeps_decisions [of ?e "''m1''" ?w _ "''scaling_decision''" "[]"] by blast
qed



end
