(* ===== verification/Stage_Driver.thy ===== *)
theory Stage_Driver
  imports Stage_Build
begin

text \<open>
  The v2 driver run on the modelled stages: \<open>mission_flow_v2/lifecycle.py\<close> calls one stage per state before it moves
  a mission on. The stage finds the mission tables as the driver left them; what the tables of assignments, audit
  events and messages hold at that moment is the argument \<open>aux\<close>, so the results hold whatever they hold. The driver's
  assumption on its stages is discharged here for the stages of the code.
\<close>

section \<open>The driver on its stages\<close>

definition at_world :: "(world \<Rightarrow> stage_world) \<Rightarrow> 'a sprog \<Rightarrow> 'a wprog" where
  "at_world aux m = (\<lambda>w. let (r, s) = m ((aux w)\<lparr>sg_world := w\<rparr>) in (r, sg_world s))"

fun stage_of :: "stage_env \<Rightarrow> MissionState \<Rightarrow> string \<Rightarrow> bool sprog" where
  "stage_of env Queued mid = prepare_pm_intake env mid"
| "stage_of env Pm_intake mid = prepare_fetch_phase env mid"
| "stage_of env Fetch mid = prepare_ceo_delegation env mid"
| "stage_of env Ceo_delegated mid = prepare_pod_assignment env mid"
| "stage_of env Pod_assigned mid = prepare_specialist_assignment env mid"
| "stage_of env Specialist_assigned mid = prepare_specialist_plan env mid"
| "stage_of env _ mid = ret True"

definition with_stages :: "stage_env \<Rightarrow> (world \<Rightarrow> stage_world) \<Rightarrow> lifecycle_env" where
  "with_stages env aux = (sv_life env)\<lparr>e_preparer := \<lambda>s mid. at_world aux (stage_of env s mid)\<rparr>"

text \<open>The parts of the environment that stay parameters: the report builders of the gates and the delivery.\<close>

definition gates_quiet :: "lifecycle_env \<Rightarrow> string \<Rightarrow> bool" where
  "gates_quiet env mid = env_ok (env\<lparr>e_preparer := \<lambda>_ _. ret True\<rparr>) mid"

section \<open>The stages are what the driver assumes\<close>

lemma at_world_run:
  assumes "at_world aux m w = (r, w')"
  obtains s where "m ((aux w)\<lparr>sg_world := w\<rparr>) = (r, s)" and "w' = sg_world s"
  using assms by (simp add: at_world_def Let_def split: prod.splits)

lemma at_world_quiet:
  assumes "keeps (stage_quiet mid) m"
  shows "keeps (quiet mid) (at_world aux m)"
  unfolding keeps_def
proof
  fix w
  obtain r w' where run: "at_world aux m w = (r, w')" by fastforce
  then obtain s where "m ((aux w)\<lparr>sg_world := w\<rparr>) = (r, s)" and "w' = sg_world s" by (rule at_world_run)
  with keeps_result [OF assms] have "quiet mid w w'" by (fastforce simp: stage_quiet_def)
  with run show "quiet mid w (snd (at_world aux m w))" by simp
qed

lemma at_world_clarify:
  assumes "stage_clarify mid m"
  shows "clarify_only mid (at_world aux m)"
  unfolding clarify_only_parked
proof (intro allI impI)
  fix w r w'
  assume "at_world aux m w = (r, w')"
  then obtain s where "m ((aux w)\<lparr>sg_world := w\<rparr>) = (r, s)" and "w' = sg_world s" by (rule at_world_run)
  with assms show "quiet mid w w' \<or> r \<noteq> Inr True \<and> parked mid w w'"
    by (fastforce simp: stage_clarify_def)
qed

lemma stage_of_quiet: "s \<noteq> Queued \<Longrightarrow> keeps (stage_quiet mid) (stage_of env s mid)"
  by (cases s) (simp_all add: prepare_fetch_phase_quiet prepare_ceo_delegation_quiet prepare_pod_assignment_quiet
      prepare_specialist_assignment_quiet prepare_specialist_plan_quiet stage_quiet.keeps_ret)

lemma stages_ok:
  assumes "gates_quiet (sv_life env) mid"
  shows "env_ok (with_stages env aux) mid"
  using assms at_world_clarify [OF prepare_pm_intake_clarify] at_world_quiet [OF stage_of_quiet]
  by (simp add: gates_quiet_def env_ok_def with_stages_def)

text \<open>With the stages of the code, and whatever the generators answer and the other tables hold, a run of the driver
  moves no mission but its own, and that one only along the table or to the clarification hold.\<close>

theorem stages_move_along_table:
  assumes "gates_quiet (sv_life env) mid" and "advance_mission_lifecycle_v2 (with_stages env aux) mid w = (r, w')"
  shows "(\<forall>m. m \<noteq> mid \<longrightarrow> db_state (w_db w') m = db_state (w_db w) m)
    \<and> (db_state (w_db w') mid = db_state (w_db w) mid
       \<or> (\<exists>a b. db_state (w_db w) mid = Some (state_value a) \<and> db_state (w_db w') mid = Some (state_value b)
            \<and> v2_edge\<^sup>+\<^sup>+ a b))
    \<and> (\<exists>es. events (w_db w') = events (w_db w) @ es
         \<and> (\<forall>e \<in> set es. erow_mission_id e = mid \<and> logged_ok e))"
  using keeps_result [OF keeps_advance [OF stages_ok [OF assms(1)]] assms(2)] unfolding moves_def .

section \<open>Leaving the queue\<close>

lemma step_past_guard:
  assumes "lifecycle_step env mid (a, b, ev) w = (r, w')" and "db_state (w_db w') mid = Some (state_value b)"
    and "db_state (w_db (snd (step_guard env mid a b w))) mid \<noteq> Some (state_value b)"
  obtains v m u where "step_guard env mid a b w = (Inr True, v)" and "transition env mid a b ev v = (Inr (Some m), u)"
    and "step_finish env m b ev u = (r, w')"
proof -
  obtain x v where guard: "step_guard env mid a b w = (x, v)" by fastforce
  have "x = Inr True"
  proof (rule ccontr)
    assume "x \<noteq> Inr True"
    then have "w' = v" using assms(1) guard by (cases x) (auto simp: lifecycle_step_def bnd_def)
    with assms(2,3) guard show False by simp
  qed
  moreover obtain t u where t: "transition env mid a b ev v = (t, u)" by fastforce
  moreover have "\<exists>m. t = Inr (Some m)"
    using t
  proof (cases rule: transition_run)
    case miss
    then have "w' = v" using assms(1) guard \<open>x = Inr True\<close> t by (simp add: lifecycle_step_def bnd_def)
    with assms(2,3) guard show ?thesis by simp
  qed simp
  ultimately show thesis
    using assms(1) guard by (elim exE) (rule that, auto simp: lifecycle_step_def bnd_def)
qed

lemma transition_row:
  assumes "transition env mid a b ev v = (Inr (Some m), u)"
  obtains row where "row_of (w_db v) mid = Some row"
    and "row_of (w_db u) mid = Some (row\<lparr>row_state := state_value b, row_updated_at := e_now env\<rparr>)"
proof -
  have "db_state (w_db v) mid = Some (state_value a)"
    using assms by (cases rule: transition_run) simp_all
  then obtain row where row: "row_of (w_db v) mid = Some row" "row_state row = state_value a"
    by (auto simp: db_state_def)
  obtain m' db' where "transition_mission_state (e_now env) mid (Some a) b ev (w_db v) = (Inr (Some m'), db')"
    "row_of db' = (row_of (w_db v))(mid \<mapsto> row\<lparr>row_state := state_value b, row_updated_at := e_now env\<rparr>)"
    by (rule transition_hit [OF row(1), of "Some a" "e_now env" b ev]) (use row(2) in simp_all)
  with assms row show thesis by (intro that [of row]) (auto simp: transition_def on_db_def)
qed

text \<open>C6. A step of the driver takes a mission from QUEUED to PM_INTAKE only with a feature contract on its row whose
  ambiguity score is below the limit.\<close>

theorem queued_leaves_with_clear_contract:
  assumes "lifecycle_step (with_stages env aux) mid (Queued, Pm_intake, ev) w = (r, w')"
    and "db_state (w_db w) mid = Some (state_value Queued)"
    and "db_state (w_db w') mid = Some (state_value Pm_intake)"
  shows "\<exists>row contract score. row_of (w_db w') mid = Some row \<and> dget (row_metadata row) ''feature_contract'' = PDict contract
    \<and> as_number (score_of contract) = Some score \<and> score < AMBIGUITY_LIMIT"
proof -
  let ?env = "with_stages env aux"
  have intake: "step_guard ?env mid Queued Pm_intake = at_world aux (prepare_pm_intake env mid)"
    by (simp add: guard_queued with_stages_def)
  have "clarify_only mid (at_world aux (prepare_pm_intake env mid))"
    by (rule at_world_clarify [OF prepare_pm_intake_clarify])
  then have held: "db_state (w_db (snd (step_guard ?env mid Queued Pm_intake w))) mid \<noteq> Some (state_value Pm_intake)"
    unfolding clarify_only_parked intake using assms(2)
    by (cases "at_world aux (prepare_pm_intake env mid) w") (fastforce simp: quiet_def parked_def)
  obtain v m u where guard: "step_guard ?env mid Queued Pm_intake w = (Inr True, v)"
    and moved: "transition ?env mid Queued Pm_intake ev v = (Inr (Some m), u)"
    and fin: "step_finish ?env m Pm_intake ev u = (r, w')"
    using assms(1,3) held by (rule step_past_guard)
  obtain s where s: "prepare_pm_intake env mid ((aux w)\<lparr>sg_world := w\<rparr>) = (Inr True, s)" "v = sg_world s"
    using guard unfolding intake by (rule at_world_run)
  obtain row where row: "row_of (w_db v) mid = Some row"
    "row_of (w_db u) mid = Some (row\<lparr>row_state := state_value Pm_intake, row_updated_at := e_now ?env\<rparr>)"
    using moved by (rule transition_row)
  have "keeps same_rows (step_finish ?env m Pm_intake ev)"
    unfolding step_finish_def by (intro keeps_intros) (simp_all add: RUNTIME_PHASES_def)
  then have "same_rows u w'" using fin by (rule keeps_result)
  with row(2) have "row_of (w_db w') mid = Some (row\<lparr>row_state := state_value Pm_intake, row_updated_at := e_now ?env\<rparr>)"
    by (simp add: same_rows_def row_of_def)
  moreover have "stored_md s mid = row_metadata row" using row(1) s(2) by (simp add: stored_md_def)
  ultimately show ?thesis using intake_clear [OF s(1)] by simp
qed

theorem queued_leaves_with_clear_contract_witness:
  "\<exists>w' row contract score. snd (lifecycle_step (with_stages (sample_stage_env [(''title'', PStr ''t'')])
         (\<lambda>_. sample_stage_world ''QUEUED'' None [])) ''m1'' (Queued, Pm_intake, ''MISSION_PM_INTAKE'')
         (sg_world (sample_stage_world ''QUEUED'' None []))) = w'
     \<and> row_of (w_db w') ''m1'' = Some row \<and> dget (row_metadata row) ''feature_contract'' = PDict contract
     \<and> as_number (score_of contract) = Some score \<and> score < AMBIGUITY_LIMIT"
proof -
  let ?s = "sample_stage_env [(''title'', PStr ''t'')]" and ?w = "sample_stage_world ''QUEUED'' None []"
  let ?env = "with_stages ?s (\<lambda>_. ?w)"
  obtain v where v: "prepare_pm_intake ?s ''m1'' ?w = (Inr True, v)" by (rule sample_intake_runs)
  have state: "db_state (w_db (sg_world ?w)) ''m1'' = Some (state_value Queued)"
    by (simp add: sample_stage_world_def sample_world_def db_state_def row_of_def)
  have guard: "step_guard ?env ''m1'' Queued Pm_intake (sg_world ?w) = (Inr True, sg_world v)"
    using v by (simp add: guard_queued with_stages_def at_world_def)
  have "quiet ''m1'' (sg_world ?w) (sg_world v)"
    using prepare_pm_intake_clarify v unfolding stage_clarify_def by blast
  with state have "db_state (w_db (sg_world v)) ''m1'' = Some (state_value Queued)" by (simp add: quiet_def)
  then obtain m u where moved: "transition ?env ''m1'' Queued Pm_intake ''MISSION_PM_INTAKE'' (sg_world v) = (Inr (Some m), u)"
    and db: "db_state (w_db u) ''m1'' = Some (state_value Pm_intake)"
    by (cases "transition ?env ''m1'' Queued Pm_intake ''MISSION_PM_INTAKE'' (sg_world v)") (auto elim!: transition_run)
  obtain r w' where fin: "step_finish ?env m Pm_intake ''MISSION_PM_INTAKE'' u = (r, w')" by fastforce
  have "keeps same_rows (step_finish ?env m Pm_intake ''MISSION_PM_INTAKE'')"
    unfolding step_finish_def by (intro keeps_intros) (simp_all add: RUNTIME_PHASES_def)
  then have "same_rows u w'" using fin by (rule keeps_result)
  with db have "db_state (w_db w') ''m1'' = Some (state_value Pm_intake)"
    by (simp add: same_rows_def db_state_def row_of_def)
  moreover have "lifecycle_step ?env ''m1'' (Queued, Pm_intake, ''MISSION_PM_INTAKE'') (sg_world ?w) = (r, w')"
    using guard moved fin by (simp add: lifecycle_step_def bnd_def)
  ultimately show ?thesis
    using queued_leaves_with_clear_contract [of ?s _ "''m1''" "''MISSION_PM_INTAKE''" "sg_world ?w" r w'] state by auto
qed

theorem stages_move_along_table_witness:
  "\<exists>r w'. advance_mission_lifecycle_v2 (with_stages (sample_stage_env []) (\<lambda>_. sample_stage_world ''QUEUED'' None [])) ''m1''
        (sample_world ''VERIFIED'') = (r, w')
     \<and> (db_state (w_db w') ''m1'' = Some ''VERIFIED''
         \<or> (\<exists>a b. Some ''VERIFIED'' = Some (state_value a) \<and> db_state (w_db w') ''m1'' = Some (state_value b) \<and> v2_edge\<^sup>+\<^sup>+ a b))"
proof -
  let ?s = "sample_stage_env []" and ?w = "sample_world ''VERIFIED''"
  obtain r w' where run: "advance_mission_lifecycle_v2 (with_stages ?s (\<lambda>_. sample_stage_world ''QUEUED'' None [])) ''m1'' ?w = (r, w')"
    by fastforce
  have "gates_quiet (sv_life ?s) ''m1''"
    using sample_env_ok [of "''m1''"] by (simp add: gates_quiet_def sample_stage_env_def env_ok_def sample_env_def)
  from stages_move_along_table [OF this run] run show ?thesis by (simp add: sample_state)
qed

end
